(* ===== verification/Prelude.thy ===== *)
theory Prelude
  imports Main
begin

text \<open>
  Shared vocabulary of the development: the JavaScript idioms that every component of the
  web client uses (\<open>x || y\<close> on strings and numbers, \<open>Array.prototype.find\<close>,
  \<open>slice(-n)\<close>, insertion-ordered objects and \<open>Map\<close>s, decimal number formatting), the
  lemmas about them, and the two fact collections that carry the component proofs:
  \<^item> \<open>js_defs\<close>: definitions of the idioms, unfolded by \<open>simp add: js_defs\<close>;
  \<^item> \<open>ctl_defs\<close>: the small state-patching helpers of the controllers.
  Strings are lists of bytes (UTF-8); case conversion and trimming act on ASCII.
\<close>

named_theorems js_defs "definitions of the JavaScript idioms"
named_theorems ctl_defs "state-patching helpers of the controllers"

section \<open>Falsy defaults\<close>

text \<open>\<open>x || y\<close> on strings: the empty string is falsy.\<close>

definition or_str :: "string \<Rightarrow> string \<Rightarrow> string" where
  [js_defs]: "or_str x y = (if x = [] then y else x)"

text \<open>\<open>x || ''\<close> for an optional string.\<close>

definition opt_str :: "string option \<Rightarrow> string" where
  [js_defs]: "opt_str x = (case x of None \<Rightarrow> [] | Some s \<Rightarrow> s)"

text \<open>\<open>x || 0\<close> for an optional number.\<close>

definition or_zero :: "int option \<Rightarrow> int" where
  [js_defs]: "or_zero x = (case x of None \<Rightarrow> 0 | Some n \<Rightarrow> n)"

text \<open>\<open>x ?? y\<close>: only null and undefined fall through.\<close>

definition nullish :: "'a option \<Rightarrow> 'a option \<Rightarrow> 'a option" where
  [js_defs]: "nullish x y = (case x of None \<Rightarrow> y | Some v \<Rightarrow> Some v)"

text \<open>\<open>!!x\<close> for an optional boolean.\<close>

definition flag :: "bool option \<Rightarrow> bool" where
  [js_defs]: "flag x = (x = Some True)"

lemma or_str_Nil [simp]: "or_str [] y = y" "or_str x [] = x"
  by (simp_all add: or_str_def)

lemma or_str_eq_Nil [simp]: "or_str x y = [] \<longleftrightarrow> x = [] \<and> y = []"
  by (simp add: or_str_def)

lemma or_str_nonempty: "x \<noteq> [] \<Longrightarrow> or_str x y = x"
  by (simp add: or_str_def)

lemma opt_str_simps [simp]: "opt_str None = []" "opt_str (Some s) = s"
  by (simp_all add: opt_str_def)

lemma or_zero_simps [simp]: "or_zero None = 0" "or_zero (Some n) = n"
  by (simp_all add: or_zero_def)

lemma nullish_simps [simp]: "nullish None y = y" "nullish (Some v) y = Some v"
  by (simp_all add: nullish_def)

lemma flag_simps [simp]: "flag None = False" "flag (Some b) = b"
  by (simp_all add: flag_def)

section \<open>Arrays\<close>

text \<open>\<open>xs.find(p) || ''\<close>.\<close>

definition find_str :: "(string \<Rightarrow> bool) \<Rightarrow> string list \<Rightarrow> string" where
  [js_defs]: "find_str p xs = opt_str (find p xs)"

lemma find_str_in: "find_str p xs \<noteq> [] \<Longrightarrow> find_str p xs \<in> set xs \<and> p (find_str p xs)"
  by (induction xs) (auto simp: find_str_def split: if_splits)

text \<open>\<open>xs.slice(-n)\<close> for \<open>n > 0\<close>: the last \<open>n\<close> elements.\<close>

definition last_n :: "nat \<Rightarrow> 'a list \<Rightarrow> 'a list" where
  [js_defs]: "last_n n xs = drop (length xs - n) xs"

lemma length_last_n [simp]: "length (last_n n xs) = min n (length xs)"
  by (simp add: last_n_def)

lemma last_n_short [simp]: "length xs \<le> n \<Longrightarrow> last_n n xs = xs"
  by (simp add: last_n_def)

lemma set_last_n: "set (last_n n xs) \<subseteq> set xs"
  by (simp add: last_n_def set_drop_subset)

lemma last_n_idem [simp]: "last_n n (last_n n xs) = last_n n xs"
  by simp

lemma last_n_snoc: "0 < n \<Longrightarrow> last_n n (xs @ [x]) \<noteq> [] \<and> last (last_n n (xs @ [x])) = x"
  by (auto simp: last_n_def)

lemma distinct_last_n: "distinct xs \<Longrightarrow> distinct (last_n n xs)"
  by (simp add: last_n_def)

lemma map_last_n: "map f (last_n n xs) = last_n n (map f xs)"
  by (simp add: last_n_def drop_map)

section \<open>Objects and Maps, in insertion order\<close>

text \<open>
  A \<open>Record<string, V>\<close> or a \<open>Map\<close> is the list of its entries in enumeration order;
  \<open>map_of\<close> reads it, \<open>js_set\<close> assigns: an existing key keeps its place, a new key goes
  to the end.
\<close>

type_synonym 'v js_record = "(string \<times> 'v) list"

fun js_set :: "('k \<times> 'v) list \<Rightarrow> 'k \<Rightarrow> 'v \<Rightarrow> ('k \<times> 'v) list" where
  "js_set [] k v = [(k, v)]"
| "js_set ((k', v') # r) k v = (if k' = k then (k, v) # r else (k', v') # js_set r k v)"

lemma map_of_js_set [simp]: "map_of (js_set r k v) = (map_of r)(k \<mapsto> v)"
  by (induction r k v rule: js_set.induct) auto

lemma keys_js_set:
  "map fst (js_set r k v) = (if k \<in> fst ` set r then map fst r else map fst r @ [k])"
  by (induction r k v rule: js_set.induct) auto

lemma distinct_js_set [simp]:
  "distinct (map fst r) \<Longrightarrow> distinct (map fst (js_set r k v))"
  by (auto simp: keys_js_set)

lemma set_keys_js_set [simp]: "fst ` set (js_set r k v) = insert k (fst ` set r)"
  by (induction r k v rule: js_set.induct) auto

lemma map_of_in_values: "map_of r k = Some v \<Longrightarrow> v \<in> snd ` set r"
  by (auto dest: map_of_SomeD intro: image_eqI [where x = "(k, v)"])

section \<open>Number formatting\<close>

text \<open>\<open>String(n)\<close> for an integer-valued number.\<close>

definition digit_char :: "nat \<Rightarrow> char" where
  "digit_char d = char_of (48 + d)"

fun nat_str :: "nat \<Rightarrow> string" where
  "nat_str n = (if n < 10 then [digit_char n] else nat_str (n div 10) @ [digit_char (n mod 10)])"

declare nat_str.simps [simp del]

definition int_str :: "int \<Rightarrow> string" where
  "int_str i = (if i < 0 then CHR ''-'' # nat_str (nat (- i)) else nat_str (nat i))"

lemma nat_str_nonempty [simp]: "nat_str n \<noteq> []"
  by (subst nat_str.simps) simp

lemma of_char_digit_char: "d < 10 \<Longrightarrow> of_char (digit_char d) = 48 + d"
  by (simp add: digit_char_def)

text \<open>Reading the digits back: \<open>nat_str\<close> is injective.\<close>

definition read_digits :: "string \<Rightarrow> nat" where
  "read_digits s = foldl (\<lambda>acc c. 10 * acc + (of_char c - 48)) 0 s"

lemma read_nat_str: "read_digits (nat_str n) = n"
proof (induction n rule: nat_str.induct)
  case (1 n)
  show ?case
  proof (cases "n < 10")
    case True
    then show ?thesis
      by (subst nat_str.simps) (simp add: read_digits_def of_char_digit_char)
  next
    case False
    with "1.IH" have "read_digits (nat_str (n div 10)) = n div 10" by simp
    with False show ?thesis
      by (subst nat_str.simps) (simp add: read_digits_def of_char_digit_char)
  qed
qed

lemma nat_str_inject [simp]: "nat_str m = nat_str n \<longleftrightarrow> m = n"
  by (metis read_nat_str)

end
