(* ===== verification/JsValue.thy ===== *)
theory JsValue
  imports Prelude Complex_Main "HOL-Library.Char_ord"
begin

text \<open>
  JavaScript values as the client meets them when it decodes a JSON payload whose shape it
  does not trust: numbers with the non-finite values \<open>JSON.parse\<close> can produce
  (\<open>1e999\<close>), the \<open>typeof\<close> tests and optional chaining of the decoders, and the
  string functions of the standard library that the source calls. An object read from JSON
  is the list of its own properties; the decoders never read an inherited one.
\<close>

section \<open>Numbers and values\<close>

datatype num = Fin real | PosInf | NegInf | NaN

datatype jv = Undefined | Null | Bool bool | Num num | Str string
  | Arr "jv list" | Obj "(string \<times> jv) list"

fun is_finite :: "num \<Rightarrow> bool" where
  "is_finite (Fin _) = True"
| "is_finite _ = False"

fun num_pos :: "num \<Rightarrow> bool" where
  "num_pos (Fin x) = (0 < x)"
| "num_pos PosInf = True"
| "num_pos _ = False"

text \<open>\<open>x < y\<close>; every comparison with NaN is false.\<close>

fun num_less :: "num \<Rightarrow> num \<Rightarrow> bool" where
  "num_less NaN _ = False"
| "num_less _ NaN = False"
| "num_less (Fin x) (Fin y) = (x < y)"
| "num_less NegInf NegInf = False"
| "num_less NegInf _ = True"
| "num_less _ PosInf = True"
| "num_less _ _ = False"

text \<open>Multiplication by a positive constant.\<close>

fun num_scale :: "real \<Rightarrow> num \<Rightarrow> num" where
  "num_scale k (Fin x) = Fin (k * x)"
| "num_scale k x = x"

fun truthy :: "jv \<Rightarrow> bool" where
  "truthy Undefined = False"
| "truthy Null = False"
| "truthy (Bool b) = b"
| "truthy (Num (Fin x)) = (x \<noteq> 0)"
| "truthy (Num NaN) = False"
| "truthy (Num _) = True"
| "truthy (Str s) = (s \<noteq> [])"
| "truthy (Arr _) = True"
| "truthy (Obj _) = True"

text \<open>\<open>x && typeof x === 'object'\<close>; an array is an object.\<close>

fun is_object :: "jv \<Rightarrow> bool" where
  "is_object (Arr _) = True"
| "is_object (Obj _) = True"
| "is_object _ = False"

text \<open>\<open>data?.k\<close>: undefined on null, undefined and on a value without that property.\<close>

fun jfield :: "jv \<Rightarrow> string \<Rightarrow> jv" where
  "jfield (Obj kvs) k = (case map_of kvs k of None \<Rightarrow> Undefined | Some v \<Rightarrow> v)"
| "jfield _ _ = Undefined"

text \<open>\<open>typeof v === 'string' ? v : d\<close> and its kin.\<close>

fun str_or :: "string \<Rightarrow> jv \<Rightarrow> string" where
  "str_or d (Str s) = s"
| "str_or d _ = d"

fun bool_or :: "bool \<Rightarrow> jv \<Rightarrow> bool" where
  "bool_or d (Bool b) = b"
| "bool_or d _ = d"

fun num_or :: "num \<Rightarrow> jv \<Rightarrow> num" where
  "num_or d (Num x) = x"
| "num_or d _ = d"

text \<open>\<open>typeof v === 'string' && v ? v : d\<close>: an empty string falls through too.\<close>

fun nonempty_str_or :: "string \<Rightarrow> jv \<Rightarrow> string" where
  "nonempty_str_or d (Str s) = (if s = [] then d else s)"
| "nonempty_str_or d _ = d"

fun str_opt :: "jv \<Rightarrow> string option" where
  "str_opt (Str s) = Some s"
| "str_opt _ = None"

fun bool_opt :: "jv \<Rightarrow> bool option" where
  "bool_opt (Bool b) = Some b"
| "bool_opt _ = None"

fun num_opt :: "jv \<Rightarrow> num option" where
  "num_opt (Num x) = Some x"
| "num_opt _ = None"

text \<open>\<open>typeof v === 'number' && Number.isFinite(v) ? v : undefined\<close>.\<close>

fun finite_opt :: "jv \<Rightarrow> real option" where
  "finite_opt (Num (Fin x)) = Some x"
| "finite_opt _ = None"

fun is_str :: "jv \<Rightarrow> bool" where
  "is_str (Str _) = True"
| "is_str _ = False"

text \<open>\<open>Array.isArray(v) ? v.filter(x => typeof x === 'string') : d\<close>.\<close>

fun str_list_or :: "string list \<Rightarrow> jv \<Rightarrow> string list" where
  "str_list_or d (Arr xs) = [s. Str s \<leftarrow> xs]"
| "str_list_or d _ = d"

text \<open>\<open>v ?? {}\<close> as the payload reader uses it.\<close>

fun or_empty_object :: "jv \<Rightarrow> jv" where
  "or_empty_object Undefined = Obj []"
| "or_empty_object Null = Obj []"
| "or_empty_object v = v"

text \<open>
  \<open>v || d\<close> where a text is declared: a truthy value that is not a text stays a value that equals
  no text the client compares it with.
\<close>

definition or_text :: "string \<Rightarrow> jv \<Rightarrow> string" where
  "or_text d v = (case v of Str s \<Rightarrow> or_str s d | _ \<Rightarrow> if truthy v then ''[object]'' else d)"

lemma or_text_nonempty: "d \<noteq> [] \<Longrightarrow> or_text d v \<noteq> []"
  by (auto simp: or_text_def split: jv.splits)

lemma or_empty_object_not_nullish: "or_empty_object v \<noteq> Undefined \<and> or_empty_object v \<noteq> Null"
  by (cases v) auto

lemma nonempty_str_or_nonempty: "d \<noteq> [] \<Longrightarrow> nonempty_str_or d v \<noteq> []"
  by (cases v) auto

lemma jfield_not_object [simp]: "\<not> is_object v \<Longrightarrow> jfield v k = Undefined"
  by (cases v) auto

section \<open>Strings\<close>

definition starts_with :: "string \<Rightarrow> string \<Rightarrow> bool" where
  "starts_with s p = (take (length p) s = p)"

lemma starts_with_append [simp]: "starts_with (p @ s) p"
  by (simp add: starts_with_def)

lemma starts_withD: "starts_with s p \<Longrightarrow> \<exists>t. s = p @ t"
  by (metis append_take_drop_id starts_with_def)

text \<open>\<open>s.replace(/\\/$/, '')\<close>: one trailing slash is dropped.\<close>

definition strip_slash :: "string \<Rightarrow> string" where
  "strip_slash s = (if s \<noteq> [] \<and> last s = CHR ''/'' then butlast s else s)"

definition is_space :: "char \<Rightarrow> bool" where
  "is_space c = (c = CHR '' '' \<or> (9 \<le> (of_char c :: nat) \<and> (of_char c :: nat) \<le> 13))"

text \<open>\<open>s.trim()\<close>.\<close>

definition js_trim :: "string \<Rightarrow> string" where
  "js_trim s = rev (dropWhile is_space (rev (dropWhile is_space s)))"

definition upper_char :: "char \<Rightarrow> char" where
  "upper_char c =
     (let n = of_char c :: nat in if 97 \<le> n \<and> n \<le> 122 then char_of (n - 32) else c)"

definition lower_char :: "char \<Rightarrow> char" where
  "lower_char c =
     (let n = of_char c :: nat in if 65 \<le> n \<and> n \<le> 90 then char_of (n + 32) else c)"

text \<open>\<open>s.toUpperCase()\<close>, \<open>s.toLowerCase()\<close>.\<close>

definition to_upper :: "string \<Rightarrow> string" where
  "to_upper s = map upper_char s"

definition to_lower :: "string \<Rightarrow> string" where
  "to_lower s = map lower_char s"

lemma upper_char_idem [simp]: "upper_char (upper_char c) = upper_char c"
  by (auto simp: upper_char_def Let_def)

lemma to_upper_idem [simp]: "to_upper (to_upper s) = to_upper s"
  by (simp add: to_upper_def)

lemma dropWhile_idem: "dropWhile P (dropWhile P xs) = dropWhile P xs"
  by (induction xs) auto

lemma dropWhile_id: "xs \<noteq> [] \<Longrightarrow> \<not> P (hd xs) \<Longrightarrow> dropWhile P xs = xs"
  by (cases xs) auto

lemma dropWhile_suffix: "\<exists>ys. xs = ys @ dropWhile P xs"
  by (metis takeWhile_dropWhile_id)

lemma hd_dropWhile_rev:
  assumes "ys = rev (dropWhile P (rev (dropWhile P xs)))" and "ys \<noteq> []"
  shows "\<not> P (hd ys) \<and> \<not> P (last ys)"
proof -
  let ?m = "dropWhile P xs"
  have ne: "dropWhile P (rev ?m) \<noteq> []" using assms by auto
  have l: "\<not> P (last ys)" using assms hd_dropWhile [OF ne] by (simp add: last_rev)
  obtain zs where zs: "rev ?m = zs @ dropWhile P (rev ?m)" using dropWhile_suffix by blast
  then have "?m = ys @ rev zs" using assms(1) by (metis rev_append rev_rev_ident)
  then have "hd ?m = hd ys" and "?m \<noteq> []" using assms(2) by auto
  with hd_dropWhile [of P xs] l show ?thesis by auto
qed

lemma js_trim_ends:
  "js_trim s \<noteq> [] \<Longrightarrow> \<not> is_space (hd (js_trim s)) \<and> \<not> is_space (last (js_trim s))"
  using hd_dropWhile_rev [of "js_trim s" is_space s] by (simp add: js_trim_def)

lemma js_trim_id:
  "s \<noteq> [] \<Longrightarrow> \<not> is_space (hd s) \<Longrightarrow> \<not> is_space (last s) \<Longrightarrow> js_trim s = s"
  by (simp add: js_trim_def dropWhile_id hd_rev)

lemma js_trim_idem [simp]: "js_trim (js_trim s) = js_trim s"
  using js_trim_ends [of s] js_trim_id [of "js_trim s"]
  by (cases "js_trim s = []") (auto simp: js_trim_def [of "[]"])

text \<open>\<open>s.split(sep)\<close>.\<close>

fun split_on :: "char \<Rightarrow> string \<Rightarrow> string list" where
  "split_on sep [] = [[]]"
| "split_on sep (c # s) =
     (if c = sep then [] # split_on sep s
      else (case split_on sep s of [] \<Rightarrow> [[c]] | w # ws \<Rightarrow> (c # w) # ws))"

lemma split_on_no_sep: "w \<in> set (split_on sep s) \<Longrightarrow> sep \<notin> set w"
  by (induction s arbitrary: w) (auto split: if_splits list.splits)

lemma split_on_append: "sep \<notin> set w \<Longrightarrow> split_on sep (w @ sep # s) = w # split_on sep s"
  by (induction w) auto

lemma split_on_none: "sep \<notin> set w \<Longrightarrow> split_on sep w = [w]"
  by (induction w) auto

section \<open>encodeURIComponent\<close>

text \<open>
  Every byte outside the unreserved set becomes a percent sign and two upper-case hexadecimal
  digits; strings are UTF-8 byte lists, so this is the encoding of the code points too.
\<close>

definition unreserved :: "char \<Rightarrow> bool" where
  "unreserved c =
     (let n = of_char c :: nat in
        (65 \<le> n \<and> n \<le> 90) \<or> (97 \<le> n \<and> n \<le> 122) \<or> (48 \<le> n \<and> n \<le> 57) \<or>
        c \<in> set ''-_.!~*'' \<or> n = 39 \<or> n = 40 \<or> n = 41)"

definition hex_digit :: "nat \<Rightarrow> char" where
  "hex_digit n = (if n < 10 then char_of (48 + n) else char_of (55 + n))"

definition encode_char :: "char \<Rightarrow> string" where
  "encode_char c =
     (if unreserved c then [c]
      else (let n = of_char c :: nat in [CHR ''%'', hex_digit (n div 16), hex_digit (n mod 16)]))"

definition encodeURIComponent :: "string \<Rightarrow> string" where
  "encodeURIComponent s = concat (map encode_char s)"

lemma encodeURIComponent_simps [simp]:
  "encodeURIComponent [] = []"
  "encodeURIComponent (c # s) = encode_char c @ encodeURIComponent s"
  by (simp_all add: encodeURIComponent_def)

text \<open>
  The encoded text is made of unreserved characters and percent signs: no encoded component
  can close a path segment or open a query, whatever the component was.
\<close>

definition url_safe :: "char \<Rightarrow> bool" where
  "url_safe c = (unreserved c \<or> c = CHR ''%'')"

lemma hex_digit_unreserved: "n < 16 \<Longrightarrow> unreserved (hex_digit n)"
  by (auto simp: hex_digit_def unreserved_def Let_def)

lemma of_char_bound: "(of_char c :: nat) < 256"
  by (metis of_char_mod_256 mod_less_divisor zero_less_numeral)

lemma of_char_div_16: "(of_char c :: nat) div 16 < 16"
  using of_char_bound [of c] by (simp add: less_mult_imp_div_less)

lemma encode_char_safe: "d \<in> set (encode_char c) \<Longrightarrow> url_safe d"
  using of_char_div_16 [of c]
  by (auto simp: encode_char_def url_safe_def Let_def intro!: hex_digit_unreserved split: if_splits)

lemma encodeURIComponent_url_safe: "list_all url_safe (encodeURIComponent s)"
  by (induction s) (auto simp: list_all_iff encode_char_safe)

lemma separators_unsafe:
  "\<not> url_safe (CHR ''/'')" "\<not> url_safe (CHR ''?'')" "\<not> url_safe (CHR ''&'')" "\<not> url_safe (CHR ''#'')"
  by (simp_all add: url_safe_def unreserved_def Let_def)

text \<open>Decoding, to state that encoding loses nothing.\<close>

definition hex_value :: "char \<Rightarrow> nat" where
  "hex_value c = (let n = of_char c :: nat in if n < 58 then n - 48 else n - 55)"

fun decodeURI :: "string \<Rightarrow> string" where
  "decodeURI [] = []"
| "decodeURI (c # s) =
     (if c = CHR ''%'' then
        (case s of a # b # r \<Rightarrow> char_of (16 * hex_value a + hex_value b) # decodeURI r | _ \<Rightarrow> [])
      else c # decodeURI s)"

lemma hex_value_digit: "n < 16 \<Longrightarrow> hex_value (hex_digit n) = n"
  by (auto simp: hex_value_def hex_digit_def Let_def)

lemma percent_reserved: "\<not> unreserved (CHR ''%'')"
  by (simp add: unreserved_def Let_def)

lemma decode_encode_char: "decodeURI (encode_char c @ s) = c # decodeURI s"
proof (cases "unreserved c")
  case True
  then show ?thesis using percent_reserved by (auto simp: encode_char_def)
next
  case False
  let ?n = "of_char c :: nat"
  have "16 * hex_value (hex_digit (?n div 16)) + hex_value (hex_digit (?n mod 16)) = ?n"
    using of_char_div_16 [of c] by (simp add: hex_value_digit)
  with False show ?thesis by (simp add: encode_char_def Let_def)
qed

lemma decode_encode: "decodeURI (encodeURIComponent s) = s"
  by (induction s) (auto simp: decode_encode_char)

lemma encodeURIComponent_inject: "encodeURIComponent s = encodeURIComponent t \<longleftrightarrow> s = t"
  by (metis decode_encode)

end
