(* ===== verification/Elo.thy ===== *)
theory Elo
  imports JsValue
begin

text \<open>
  \<open>lib/elo.ts\<close>: the Glicko-style rating preview of a duel. The double arithmetic of the source
  is read over the reals; \<open>Math.round\<close> is \<open>js_round\<close>. A date is its time value, NaN for an
  invalid date; what \<open>new Date(text)\<close> makes of a text is the argument \<open>parse\<close>.
\<close>

section \<open>Constants\<close>

definition INITIAL_MMR :: int where "INITIAL_MMR = 500"
definition INITIAL_RATING_RD :: real where "INITIAL_RATING_RD = 220"
definition MAX_DUEL_MMR_DELTA :: real where "MAX_DUEL_MMR_DELTA = 80"
definition MIN_RANKED_MMR :: real where "MIN_RANKED_MMR = 500"
definition LOW_MMR_FORGIVENESS_END_MMR :: real where "LOW_MMR_FORGIVENESS_END_MMR = 1000"
definition MIN_RATING_RD :: real where "MIN_RATING_RD = 110"
definition MAX_RATING_RD :: real where "MAX_RATING_RD = 220"
definition GLICKO_C :: real where "GLICKO_C = sqrt ((MAX_RATING_RD ^ 2 - MIN_RATING_RD ^ 2) / 365)"
definition QQ :: real where "QQ = ln 10 / 400"

lemmas elo_consts = INITIAL_RATING_RD_def MAX_DUEL_MMR_DELTA_def MIN_RANKED_MMR_def
  LOW_MMR_FORGIVENESS_END_MMR_def MIN_RATING_RD_def MAX_RATING_RD_def

datatype elo_winner = WinSelf | WinOpp | WinDraw

section \<open>Rating deviation\<close>

text \<open>\<open>Math.round\<close>: halves go up.\<close>

definition js_round :: "real \<Rightarrow> real" where
  "js_round x = of_int \<lfloor>x + 1 / 2\<rfloor>"

fun clampRatingRd :: "num \<Rightarrow> real" where
  "clampRatingRd (Fin rd) =
     (if rd \<le> 0 then INITIAL_RATING_RD
      else if rd < MIN_RATING_RD then MIN_RATING_RD
      else if rd > MAX_RATING_RD then MAX_RATING_RD
      else rd)"
| "clampRatingRd _ = INITIAL_RATING_RD"

datatype date_arg = NoDate | DateText string | DateMillis num | DateObject num

text \<open>\<open>parseDate\<close>: undefined, null and the empty text give no date.\<close>

definition parseDate :: "(string \<Rightarrow> num) \<Rightarrow> date_arg \<Rightarrow> num option" where
  "parseDate parse stamp =
     (case stamp of
        NoDate \<Rightarrow> None
      | DateText s \<Rightarrow> if s = [] then None else Some (parse s)
      | DateMillis n \<Rightarrow> Some n
      | DateObject d \<Rightarrow> Some d)"

text \<open>A valid date's time value is finite, so \<open>now <= updated\<close> compares reals.\<close>

definition inflateRatingRd :: "(string \<Rightarrow> num) \<Rightarrow> num \<Rightarrow> date_arg \<Rightarrow> real \<Rightarrow> real" where
  "inflateRatingRd parse rd updatedAt now =
     (let safeRd = clampRatingRd rd in
      case parseDate parse updatedAt of
        Some (Fin updated) \<Rightarrow>
          if now \<le> updated then safeRd
          else let inactiveDays = (now - updated) / 86400000 in
            if inactiveDays \<le> 0 then safeRd
            else clampRatingRd (Fin (sqrt (safeRd * safeRd + GLICKO_C * GLICKO_C * inactiveDays)))
      | _ \<Rightarrow> safeRd)"

section \<open>The Glicko step\<close>

definition glickoG :: "real \<Rightarrow> real" where
  "glickoG rd = 1 / sqrt (1 + (3 * QQ * QQ * rd * rd) / (pi * pi))"

definition glickoExpected :: "real \<Rightarrow> real \<Rightarrow> real \<Rightarrow> real" where
  "glickoExpected self opponent opponentRd =
     1 / (1 + 10 powr (- glickoG opponentRd * (self - opponent) / 400))"

record glicko_result =
  gr_rating :: real
  gr_rd :: real

definition calculateGlickoRating ::
  "real \<Rightarrow> real \<Rightarrow> real \<Rightarrow> real \<Rightarrow> real \<Rightarrow> glicko_result" where
  "calculateGlickoRating rating rd opponentRating opponentRd score =
     (let safeRd = clampRatingRd (Fin rd);
          safeOpponentRd = clampRatingRd (Fin opponentRd);
          g = glickoG safeOpponentRd;
          expected = glickoExpected rating opponentRating safeOpponentRd;
          dSquared = 1 / (QQ * QQ * g * g * expected * (1 - expected));
          nextVariance = 1 / (1 / (safeRd * safeRd) + 1 / dSquared);
          nextRating = rating + QQ * nextVariance * g * (score - expected)
      in \<lparr>gr_rating = js_round nextRating, gr_rd = clampRatingRd (Fin (sqrt nextVariance))\<rparr>)"

section \<open>Caps and forgiveness\<close>

definition capRatingDelta :: "real \<Rightarrow> real \<Rightarrow> real" where
  "capRatingDelta current next =
     (let delta = next - current in
      if delta > MAX_DUEL_MMR_DELTA then current + MAX_DUEL_MMR_DELTA
      else if delta < - MAX_DUEL_MMR_DELTA then current - MAX_DUEL_MMR_DELTA
      else next)"

definition applyLowMmrLossForgiveness :: "real \<Rightarrow> real \<Rightarrow> real" where
  "applyLowMmrLossForgiveness current next =
     (let delta = next - current in
      if delta \<ge> 0 \<or> current \<ge> LOW_MMR_FORGIVENESS_END_MMR then next
      else if current \<le> MIN_RANKED_MMR then current
      else let rangeSize = LOW_MMR_FORGIVENESS_END_MMR - MIN_RANKED_MMR in
        if rangeSize \<le> 0 then next
        else let factor = (current - MIN_RANKED_MMR) / rangeSize in
          current + js_round (delta * factor))"

definition clampRankedMmr :: "real \<Rightarrow> real" where
  "clampRankedMmr mmr = (if mmr < MIN_RANKED_MMR then MIN_RANKED_MMR else mmr)"

record elo_deltas =
  ed_selfDelta :: real
  ed_opponentDelta :: real
  ed_selfRatingRd :: real
  ed_opponentRatingRd :: real

definition selfScore :: "elo_winner \<Rightarrow> real" where
  "selfScore w = (if w = WinSelf then 1 else if w = WinOpp then 0 else 1 / 2)"

definition opponentScore :: "elo_winner \<Rightarrow> real" where
  "opponentScore w = (if w = WinOpp then 1 else if w = WinSelf then 0 else 1 / 2)"

definition calculateDuelEloDeltas ::
  "(string \<Rightarrow> num) \<Rightarrow> real \<Rightarrow> real \<Rightarrow> elo_winner \<Rightarrow> num \<Rightarrow> num \<Rightarrow> date_arg \<Rightarrow> date_arg \<Rightarrow> real \<Rightarrow> elo_deltas" where
  "calculateDuelEloDeltas parse selfElo opponentElo winner selfRatingRd opponentRatingRd
      selfUpdatedAt opponentUpdatedAt now =
     (let selfRd = inflateRatingRd parse selfRatingRd selfUpdatedAt now;
          opponentRd = inflateRatingRd parse opponentRatingRd opponentUpdatedAt now;
          selfNext = calculateGlickoRating selfElo selfRd opponentElo opponentRd (selfScore winner);
          opponentNext = calculateGlickoRating opponentElo opponentRd selfElo selfRd (opponentScore winner);
          selfNextRating =
            clampRankedMmr (applyLowMmrLossForgiveness selfElo (capRatingDelta selfElo (gr_rating selfNext)));
          opponentNextRating =
            clampRankedMmr (applyLowMmrLossForgiveness opponentElo (capRatingDelta opponentElo (gr_rating opponentNext)))
      in \<lparr>ed_selfDelta = selfNextRating - selfElo,
          ed_opponentDelta = opponentNextRating - opponentElo,
          ed_selfRatingRd = gr_rd selfNext,
          ed_opponentRatingRd = gr_rd opponentNext\<rparr>)"

section \<open>Lemmas\<close>

lemma clampRatingRd_bounds: "110 \<le> clampRatingRd n \<and> clampRatingRd n \<le> 220"
  by (cases n) (auto simp: elo_consts)

lemma clampRatingRd_id: "110 \<le> r \<Longrightarrow> r \<le> 220 \<Longrightarrow> clampRatingRd (Fin r) = r"
  by (auto simp: elo_consts)

lemma clampRatingRd_mono: "0 < r \<Longrightarrow> r \<le> s \<Longrightarrow> clampRatingRd (Fin r) \<le> clampRatingRd (Fin s)"
  by (auto simp: elo_consts)

lemma inflateRatingRd_bounds: "110 \<le> inflateRatingRd p rd u now \<and> inflateRatingRd p rd u now \<le> 220"
  using clampRatingRd_bounds
  by (auto simp: inflateRatingRd_def Let_def split: option.splits num.splits simp del: clampRatingRd.simps)

lemma QQ_pos: "0 < QQ"
  by (simp add: QQ_def)

lemma glickoG_bounds: "0 < glickoG rd \<and> glickoG rd \<le> 1"
proof -
  define x where "x = (3 * QQ * QQ * rd * rd) / (pi * pi)"
  have "0 \<le> 3 * (QQ * QQ) * (rd * rd)" by simp
  then have "0 \<le> x" by (simp add: x_def mult.assoc)
  then have "1 \<le> sqrt (1 + x)" by simp
  moreover have "glickoG rd = 1 / sqrt (1 + x)" by (simp add: glickoG_def x_def)
  ultimately show ?thesis by simp
qed

lemma glickoExpected_bounds: "0 < glickoExpected a b rd \<and> glickoExpected a b rd < 1"
proof -
  define x where "x = (10::real) powr (- glickoG rd * (a - b) / 400)"
  have "0 < x" by (simp add: x_def)
  moreover have "glickoExpected a b rd = 1 / (1 + x)" by (simp add: glickoExpected_def x_def)
  ultimately show ?thesis by (simp add: add_pos_pos)
qed

lemma js_round_mono: "x \<le> y \<Longrightarrow> js_round x \<le> js_round y"
  by (simp add: js_round_def floor_mono)

lemma js_round_of_int [simp]: "js_round (of_int k) = of_int k"
  by (simp add: js_round_def floor_eq_iff)

lemma js_round_Ints: "js_round x \<in> \<int>"
  by (simp add: js_round_def)

lemma js_round_0 [simp]: "js_round 0 = 0"
  using js_round_of_int [of 0] by simp

lemma selfScore_win_lose [simp]:
  "selfScore WinSelf = 1" "selfScore WinOpp = 0" "opponentScore WinOpp = 1" "opponentScore WinSelf = 0"
  by (simp_all add: selfScore_def opponentScore_def)

text \<open>The variance after a game is positive and at most the variance before it.\<close>

lemma next_variance_bounds:
  fixes r q g e :: real
  assumes "0 < r" and "0 < q" and "0 < g" and "0 < e" and "e < 1"
  shows "0 < 1 / (1 / (r * r) + 1 / (1 / (q * q * g * g * e * (1 - e)))) \<and>
         1 / (1 / (r * r) + 1 / (1 / (q * q * g * g * e * (1 - e)))) \<le> r * r"
proof -
  define a where "a = 1 / (r * r)"
  define b where "b = q * q * g * g * e * (1 - e)"
  have a: "0 < a" and b: "0 < b" using assms by (simp_all add: a_def b_def)
  have "1 / (a + b) \<le> 1 / a" using a b by (intro divide_left_mono) auto
  moreover have "1 / a = r * r" by (simp add: a_def)
  ultimately have "0 < 1 / (a + b) \<and> 1 / (a + b) \<le> r * r" using a b by (simp add: add_pos_pos)
  then show ?thesis by (simp add: a_def b_def)
qed

lemma glicko_step:
  assumes "110 \<le> rd" and "rd \<le> 220"
  obtains k e where "0 < k" and "0 < e" and "e < 1"
    and "gr_rating (calculateGlickoRating rating rd opp ord score) = js_round (rating + k * (score - e))"
    and "gr_rd (calculateGlickoRating rating rd opp ord score) \<le> rd"
proof -
  define o' where "o' = clampRatingRd (Fin ord)"
  define e where "e = glickoExpected rating opp o'"
  define v where "v = 1 / (1 / (rd * rd) + 1 / (1 / (QQ * QQ * glickoG o' * glickoG o' * e * (1 - e))))"
  have e: "0 < e" "e < 1" using glickoExpected_bounds by (simp_all add: e_def)
  have v: "0 < v" "v \<le> rd * rd"
    using next_variance_bounds [of rd QQ "glickoG o'" e] assms QQ_pos glickoG_bounds e
    by (simp_all add: v_def)
  have "sqrt v \<le> rd" using v assms by (intro real_le_lsqrt) (auto simp: power2_eq_square)
  then have "clampRatingRd (Fin (sqrt v)) \<le> clampRatingRd (Fin rd)"
    using v by (intro clampRatingRd_mono) auto
  then have rd: "clampRatingRd (Fin (sqrt v)) \<le> rd"
    using assms by (simp only: clampRatingRd_id)
  have k: "0 < QQ * v * glickoG o'" using v QQ_pos glickoG_bounds by simp
  show ?thesis
    using k e rd assms
    by (intro that [of "QQ * v * glickoG o'" e])
       (simp_all add: calculateGlickoRating_def Let_def clampRatingRd_id o'_def e_def v_def
          del: clampRatingRd.simps)
qed

lemma glicko_win_rating:
  assumes "110 \<le> rd" and "rd \<le> 220"
  shows "of_int m \<le> gr_rating (calculateGlickoRating (of_int m) rd opp ord 1)"
proof -
  obtain k e where "0 < k" "e < 1"
    and r: "gr_rating (calculateGlickoRating (of_int m) rd opp ord 1) = js_round (of_int m + k * (1 - e))"
    using glicko_step [OF assms, of "of_int m" opp ord 1] by metis
  then have "js_round (of_int m) \<le> js_round (of_int m + k * (1 - e))" by (intro js_round_mono) simp
  then show ?thesis by (simp add: r)
qed

lemma glicko_loss_rating:
  assumes "110 \<le> rd" and "rd \<le> 220"
  shows "gr_rating (calculateGlickoRating (of_int m) rd opp ord 0) \<le> of_int m"
proof -
  obtain k e where "0 < k" "0 < e"
    and r: "gr_rating (calculateGlickoRating (of_int m) rd opp ord 0) = js_round (of_int m + k * (0 - e))"
    using glicko_step [OF assms, of "of_int m" opp ord 0] by metis
  then have "js_round (of_int m + k * (0 - e)) \<le> js_round (of_int m)" by (intro js_round_mono) simp
  then show ?thesis by (simp add: r)
qed

lemma glicko_rd_le:
  assumes "110 \<le> rd" and "rd \<le> 220"
  shows "gr_rd (calculateGlickoRating r rd opp ord sc) \<le> rd"
  using glicko_step [OF assms, of r opp ord sc] by metis

lemma glicko_rd_ge: "110 \<le> gr_rd (calculateGlickoRating r rd opp ord sc)"
  using clampRatingRd_bounds by (simp add: calculateGlickoRating_def Let_def del: clampRatingRd.simps)

text \<open>The cap, the forgiveness and the floor, one after the other.\<close>

abbreviation settle_rating :: "real \<Rightarrow> real \<Rightarrow> real" where
  "settle_rating current next \<equiv>
     clampRankedMmr (applyLowMmrLossForgiveness current (capRatingDelta current next))"

lemma cap_bounds: "current - 80 \<le> capRatingDelta current next \<and> capRatingDelta current next \<le> current + 80"
  by (auto simp: capRatingDelta_def Let_def elo_consts)

lemma cap_sign:
  "(current \<le> next \<longrightarrow> current \<le> capRatingDelta current next) \<and>
   (next \<le> current \<longrightarrow> capRatingDelta current next \<le> current)"
  by (auto simp: capRatingDelta_def Let_def elo_consts)

lemma forgive_gain: "current \<le> next \<Longrightarrow> applyLowMmrLossForgiveness current next = next"
  by (simp add: applyLowMmrLossForgiveness_def)

lemma forgive_bounds:
  assumes "next \<le> current" and "current - 80 \<le> next"
  shows "current - 80 \<le> applyLowMmrLossForgiveness current next \<and>
         applyLowMmrLossForgiveness current next \<le> current"
proof -
  let ?d = "next - current" and ?f = "(current - 500) / 500"
  have "- 80 \<le> ?d * ?f \<and> ?d * ?f \<le> 0" if "500 < current" "current < 1000"
  proof
    have "?d * ?f \<ge> ?d * 1" using assms that by (intro mult_left_mono_neg) auto
    then show "- 80 \<le> ?d * ?f" using assms by simp
    show "?d * ?f \<le> 0" using assms that by (intro mult_nonpos_nonneg) auto
  qed
  then have "- 80 \<le> js_round (?d * ?f) \<and> js_round (?d * ?f) \<le> 0" if "500 < current" "current < 1000"
    using that js_round_mono [of "- 80" "?d * ?f"] js_round_mono [of "?d * ?f" 0]
      js_round_of_int [of "- 80"] by simp
  then show ?thesis
    using assms by (auto simp: applyLowMmrLossForgiveness_def Let_def elo_consts)
qed

lemma settle_bounds:
  assumes "500 \<le> current"
  shows "500 \<le> settle_rating current next \<and> \<bar>settle_rating current next - current\<bar> \<le> 80"
proof (cases "current \<le> next")
  case True
  then have "current \<le> capRatingDelta current next" using cap_sign by blast
  with assms cap_bounds [of current "next"] show ?thesis
    by (auto simp: clampRankedMmr_def elo_consts forgive_gain)
next
  case False
  then have "capRatingDelta current next \<le> current" using cap_sign [of current "next"] by simp
  then show ?thesis
    using assms forgive_bounds [of "capRatingDelta current next" current] cap_bounds [of current "next"]
    by (auto simp: clampRankedMmr_def elo_consts)
qed

lemma settle_gain: "500 \<le> current \<Longrightarrow> current \<le> next \<Longrightarrow> current \<le> settle_rating current next"
  using cap_sign [of current "next"] by (simp add: forgive_gain clampRankedMmr_def elo_consts)

lemma settle_loss: "500 \<le> current \<Longrightarrow> next \<le> current \<Longrightarrow> settle_rating current next \<le> current"
  using cap_sign [of current "next"] cap_bounds [of current "next"]
    forgive_bounds [of "capRatingDelta current next" current]
  by (auto simp: clampRankedMmr_def elo_consts)

lemma settle_floor_free: "next \<le> 500 \<Longrightarrow> settle_rating 500 next = 500"
  by (auto simp: clampRankedMmr_def applyLowMmrLossForgiveness_def capRatingDelta_def Let_def elo_consts)

section \<open>Properties\<close>

text \<open>
  C11. Whatever the ratings, deviations, dates and outcome, a ranked player (500 or more) moves by at
  most 80 points in one duel and never below 500.
\<close>

theorem elo_delta_bounded:
  assumes "500 \<le> selfElo" and "500 \<le> opponentElo"
    and "d = calculateDuelEloDeltas parse selfElo opponentElo w rd1 rd2 u1 u2 now"
  shows "\<bar>ed_selfDelta d\<bar> \<le> 80 \<and> \<bar>ed_opponentDelta d\<bar> \<le> 80 \<and>
         500 \<le> selfElo + ed_selfDelta d \<and> 500 \<le> opponentElo + ed_opponentDelta d"
  using settle_bounds [OF assms(1)] settle_bounds [OF assms(2)]
  by (simp add: assms(3) calculateDuelEloDeltas_def Let_def)

theorem elo_delta_bounded_witness:
  "\<bar>ed_selfDelta (calculateDuelEloDeltas (\<lambda>_. NaN) 500 1200 WinSelf (Fin 150) NaN NoDate NoDate 0)\<bar> \<le> 80"
  by (rule elo_delta_bounded [of 500 1200, OF _ _ refl, THEN conjunct1]) simp_all

text \<open>
  With integer ratings of 500 or more, the winner of a duel never loses points and the loser
  never gains any.
\<close>

theorem elo_winner_gains:
  assumes "500 \<le> m" and "500 \<le> n"
    and "d = calculateDuelEloDeltas parse (of_int m) (of_int n) WinSelf rd1 rd2 u1 u2 now"
  shows "0 \<le> ed_selfDelta d \<and> ed_opponentDelta d \<le> 0"
proof -
  have m: "(500::real) \<le> of_int m" and n: "(500::real) \<le> of_int n" using assms(1,2) by simp_all
  show ?thesis
    using settle_gain [OF m glicko_win_rating] settle_loss [OF n glicko_loss_rating] inflateRatingRd_bounds
    by (simp add: assms(3) calculateDuelEloDeltas_def Let_def)
qed

theorem elo_winner_gains_witness:
  "0 \<le> ed_selfDelta (calculateDuelEloDeltas (\<lambda>_. NaN) (of_int 700) (of_int 650) WinSelf (Fin 150) NaN NoDate NoDate 0)"
  by (rule elo_winner_gains [of 700 650, OF _ _ refl, THEN conjunct1]) simp_all

text \<open>
  The deviation a duel leaves a player with stays between 110 and 220 and is at most the
  deviation the player entered it with (inflated by inactivity), for any outcome.
\<close>

theorem elo_rd_shrinks:
  "110 \<le> ed_selfRatingRd (calculateDuelEloDeltas parse a b w rd1 rd2 u1 u2 now) \<and>
   ed_selfRatingRd (calculateDuelEloDeltas parse a b w rd1 rd2 u1 u2 now) \<le> inflateRatingRd parse rd1 u1 now \<and>
   inflateRatingRd parse rd1 u1 now \<le> 220"
  using inflateRatingRd_bounds [of parse rd1 u1 now]
  by (simp add: calculateDuelEloDeltas_def Let_def glicko_rd_ge glicko_rd_le)

text \<open>
  Losing at the 500 floor costs nothing: for a player at exactly 500 a lost duel has delta 0.
\<close>

theorem elo_floor_loss_free:
  "ed_selfDelta (calculateDuelEloDeltas parse (of_int 500) b WinOpp rd1 rd2 u1 u2 now) = 0"
  using settle_floor_free [OF glicko_loss_rating [of _ 500, simplified]] inflateRatingRd_bounds
  by (simp add: calculateDuelEloDeltas_def Let_def)

end
