(* ===== verification/Domain.thy ===== *)
theory Domain
  imports JsValue
begin

text \<open>
  The data the components exchange (\<open>components/ui/types.ts\<close>, \<open>PlayerBadge.tsx\<close>,
  \<open>PlayerIdentity.tsx\<close>): the match snapshot the gameplay node broadcasts, round results,
  players and chat messages. An optional field is an option, a union of string literals a
  datatype, a \<open>Record\<close> the list of its entries in enumeration order. Identifiers are strings;
  hit points, scores, ratings and times are integers on the wire; coordinates and distances
  are reals. A value cast with \<open>as Snapshot\<close> is taken at its declared type.
\<close>

section \<open>Badges, results\<close>

record player_badge =
  badge_id :: string
  badge_kind :: string
  badge_label :: string
  badge_description :: string
  badge_imageUrl :: string
  badge_seasonId :: "string option"
  badge_rank :: "num option"
  badge_owned :: "bool option"

record round_player_result =
  rp_userId :: string
  rp_lat :: real
  rp_lng :: real
  rp_distanceKm :: real
  rp_score :: int
  rp_damageDealt :: "int option"
  rp_damageTaken :: "int option"
  rp_hpAfterRound :: "int option"
  rp_guessUnixMs :: "int option"
  rp_guessMs :: "int option"

record round_team_result =
  rt_teamId :: string
  rt_representativeUserId :: "string option"
  rt_lat :: real
  rt_lng :: real
  rt_distanceKm :: real
  rt_score :: int
  rt_damageDealt :: "int option"
  rt_damageTaken :: "int option"
  rt_hpAfterRound :: "int option"

record round_result =
  rr_roundId :: string
  rr_roundNumber :: int
  rr_actualLocation :: "real \<times> real"
  rr_players :: "round_player_result js_record"
  rr_teams :: "round_team_result js_record option"

text \<open>The phases of the round-result animation, in the order they are shown.\<close>

datatype result_phase = PhBase | PhScores | PhCrush | PhDamageTravel | PhDamageMultiplier | PhHpApply

fun phase_rank :: "result_phase \<Rightarrow> nat" where
  "phase_rank PhBase = 0"
| "phase_rank PhScores = 1"
| "phase_rank PhCrush = 2"
| "phase_rank PhDamageTravel = 3"
| "phase_rank PhDamageMultiplier = 4"
| "phase_rank PhHpApply = 5"

lemma phase_rank_inject: "phase_rank p = phase_rank q \<longleftrightarrow> p = q"
  by (cases p; cases q) simp_all

instantiation result_phase :: linorder
begin

definition less_eq_result_phase :: "result_phase \<Rightarrow> result_phase \<Rightarrow> bool" where
  "less_eq_result_phase p q = (phase_rank p \<le> phase_rank q)"

definition less_result_phase :: "result_phase \<Rightarrow> result_phase \<Rightarrow> bool" where
  "less_result_phase p q = (phase_rank p < phase_rank q)"

instance
  by standard (auto simp: less_eq_result_phase_def less_result_phase_def phase_rank_inject)

end

lemmas result_phase_order = less_eq_result_phase_def less_result_phase_def

section \<open>Snapshots\<close>

datatype game_mode = Duel | Singleplayer | TeamDuel | FreeForAll

datatype match_phase = LivePhase | RoundResultPhase | EndedPhase

datatype round_phase = RoundIntro | RoundLive | RoundResultP | RoundTransition | RoundEnded

datatype ruleset = Moving | Nmpz

datatype round_timer_mode = TimerNone | TimerPressure | TimerFixed

record match_config =
  cfg_ruleset :: "ruleset option"
  cfg_mapKey :: "string option"
  cfg_roundTimerMode :: "round_timer_mode option"
  cfg_roundTimeLimitMs :: "int option"
  cfg_pressureTimeLimitMs :: "int option"

record snapshot_player =
  pl_userId :: string
  pl_displayName :: string
  pl_mmr :: int
  pl_ratingRd :: "num option"
  pl_rankedGamesPlayed :: "int option"
  pl_avatarUrl :: "string option"
  pl_isGuest :: "bool option"
  pl_isAdmin :: "bool option"
  pl_selectedBadge :: "player_badge option"
  pl_teamId :: "string option"
  pl_hp :: int
  pl_totalScore :: "int option"
  pl_finalized :: bool
  pl_disconnected :: bool

record rating_preview =
  rv_win :: int
  rv_lose :: int
  rv_draw :: int

record current_round =
  cr_roundId :: string
  cr_roundNumber :: int
  cr_timerStarted :: "bool option"
  cr_panoId :: string
  cr_heading :: "num option"
  cr_pitch :: "num option"

record snapshot_team =
  st_teamId :: string
  st_name :: "string option"
  st_hp :: "int option"
  st_players :: "string list"

record snapshot_self =
  sf_userId :: string
  sf_currentGuess :: "(real \<times> real) option"

record snapshot =
  sn_matchId :: string
  sn_mode :: "game_mode option"
  sn_config :: "match_config option"
  sn_unranked :: "bool option"
  sn_state :: string
  sn_phase :: match_phase
  sn_roundPhase :: round_phase
  sn_phaseStartedAt :: int
  sn_phaseEndsAt :: int
  sn_roundMsLeft :: int
  sn_currentRound :: "current_round option"
  sn_lastRoundResult :: "round_result option"
  sn_roundResults :: "round_result list option"
  sn_players :: "snapshot_player js_record"
  sn_teams :: "snapshot_team js_record option"
  sn_self :: "snapshot_self option"
  sn_ratingPreview :: "rating_preview js_record option"
  sn_eventSequence :: int
  sn_serverUnixMs :: "real option"
  sn_graceWindowSec :: "int option"

text \<open>\<open>snapshot?.currentRound?.roundId || ''\<close>, read all over the client.\<close>

definition round_id_of :: "snapshot \<Rightarrow> string" where
  "round_id_of sn = (case sn_currentRound sn of None \<Rightarrow> [] | Some r \<Rightarrow> cr_roundId r)"

text \<open>\<open>snapshot.currentRound?.timerStarted === false\<close>.\<close>

definition timer_idle :: "snapshot \<Rightarrow> bool" where
  "timer_idle sn = (case sn_currentRound sn of None \<Rightarrow> False | Some r \<Rightarrow> cr_timerStarted r = Some False)"

text \<open>\<open>players[id]?.teamId || 'a'\<close>.\<close>

definition team_of :: "snapshot \<Rightarrow> string \<Rightarrow> string" where
  "team_of sn i =
     or_str (case map_of (sn_players sn) i of None \<Rightarrow> [] | Some p \<Rightarrow> opt_str (pl_teamId p)) ''a''"

section \<open>Chat and phases of the page\<close>

datatype chat_emote = Skull | Sob | Thinking | Sunglasses

datatype chat_kind = ChatText | ChatEmoteKind

record chat_message =
  cm_id :: string
  cm_conversationId :: "string option"
  cm_matchId :: string
  cm_senderUserId :: string
  cm_senderDisplayName :: string
  cm_kind :: chat_kind
  cm_body :: "string option"
  cm_emote :: "chat_emote option"
  cm_createdAt :: string

datatype ui_phase =
  UILobby | UIQueueing | UIPrematchCountdown | UILiveRound | UIRoundResult | UIMatchEnd

text \<open>A small snapshot used by the concrete instances of the properties.\<close>

definition sample_player :: "string \<Rightarrow> int \<Rightarrow> snapshot_player" where
  "sample_player i hp =
     \<lparr>pl_userId = i, pl_displayName = i, pl_mmr = 700, pl_ratingRd = None,
      pl_rankedGamesPlayed = None, pl_avatarUrl = None, pl_isGuest = None,
      pl_isAdmin = None, pl_selectedBadge = None, pl_teamId = None, pl_hp = hp,
      pl_totalScore = None, pl_finalized = False, pl_disconnected = False\<rparr>"

definition sample_round :: "string \<Rightarrow> current_round" where
  "sample_round i =
     \<lparr>cr_roundId = i, cr_roundNumber = 1, cr_timerStarted = Some True, cr_panoId = ''pano'',
      cr_heading = None, cr_pitch = None\<rparr>"

definition sample_snapshot :: snapshot where
  "sample_snapshot =
     \<lparr>sn_matchId = ''m1'', sn_mode = Some Duel, sn_config = None, sn_unranked = None,
      sn_state = ''running'', sn_phase = LivePhase, sn_roundPhase = RoundLive,
      sn_phaseStartedAt = 5000, sn_phaseEndsAt = 50000, sn_roundMsLeft = 0,
      sn_currentRound = Some (sample_round ''r1''), sn_lastRoundResult = None,
      sn_roundResults = None,
      sn_players = [(''u1'', sample_player ''u1'' 6000), (''u2'', sample_player ''u2'' 6000)],
      sn_teams = None, sn_self = None, sn_ratingPreview = None, sn_eventSequence = 1,
      sn_serverUnixMs = None, sn_graceWindowSec = None\<rparr>"

end
