(* ===== verification/Interfaces.thy ===== *)
theory Interfaces
  imports Prelude
begin

text \<open>
  The contracts the components of the client share, as locales: the operations one side calls
  and the laws the other side promises. Each is interpreted in the component that provides it.
  \<^item> \<open>latest_wins\<close>: a controller numbers its asynchronous requests; what arrives for an older
    number changes nothing.
  \<^item> \<open>settle_once\<close>: the promise around a websocket is resolved or rejected at most once.
  \<^item> \<open>quiet_when_destroyed\<close>: an observable controller patches its state but notifies nobody
    after \<open>destroy\<close>.
  \<^item> \<open>keyed_store\<close>: the insertion-ordered store behind a \<open>Map\<close> or an object.
  \<^item> \<open>invariant_machine\<close>: a machine whose every event keeps an invariant.
\<close>

section \<open>Latest request wins\<close>

locale latest_wins =
  fixes issue :: "'s \<Rightarrow> 's"
    and current :: "'s \<Rightarrow> nat"
    and deliver :: "nat \<Rightarrow> 'e \<Rightarrow> 's \<Rightarrow> 's"
  assumes issue_fresh: "current s < current (issue s)"
    and stale_ignored: "i \<noteq> current s \<Longrightarrow> deliver i e s = s"
begin

lemma superseded_ignored: "i \<le> current s \<Longrightarrow> deliver i e (issue s) = issue s"
  using issue_fresh [of s] by (intro stale_ignored) simp

lemma superseded_run: "i \<le> current s \<Longrightarrow> fold (deliver i) es (issue s) = issue s"
  by (induction es) (simp_all add: superseded_ignored)

end

section \<open>A promise settles once\<close>

locale settle_once =
  fixes react :: "'e \<Rightarrow> 's \<Rightarrow> 's"
    and outcome :: "'s \<Rightarrow> 'o option"
  assumes outcome_kept: "outcome s = Some r \<Longrightarrow> outcome (react e s) = Some r"
begin

lemma outcome_stable: "outcome s = Some r \<Longrightarrow> outcome (fold react es s) = Some r"
  by (induction es arbitrary: s) (auto intro: outcome_kept)

lemma outcome_unique:
  assumes "outcome (fold react es s) = Some r" and "outcome (fold react (es @ fs) s) = Some r'"
  shows "r = r'"
  using outcome_stable [OF assms(1), of fs] assms(2) by simp

end

section \<open>Observable controllers\<close>

locale quiet_when_destroyed =
  fixes destroyed :: "'s \<Rightarrow> bool"
    and emitted :: "'s \<Rightarrow> 'n list"
    and patch :: "'p \<Rightarrow> 's \<Rightarrow> 's"
  assumes patch_destroyed: "destroyed (patch p s) = destroyed s"
    and patch_quiet: "destroyed s \<Longrightarrow> emitted (patch p s) = emitted s"
    and patch_appends: "\<exists>ns. emitted (patch p s) = emitted s @ ns"
begin

lemma patches_quiet:
  "destroyed s \<Longrightarrow> emitted (fold patch ps s) = emitted s \<and> destroyed (fold patch ps s)"
  by (induction ps arbitrary: s) (simp_all add: patch_destroyed patch_quiet)

lemma patches_append: "\<exists>ns. emitted (fold patch ps s) = emitted s @ ns"
proof (induction ps arbitrary: s)
  case Nil
  show ?case by simp
next
  case (Cons p ps)
  obtain ns where "emitted (patch p s) = emitted s @ ns" using patch_appends by blast
  moreover obtain ms where "emitted (fold patch ps (patch p s)) = emitted (patch p s) @ ms"
    using Cons.IH by blast
  ultimately show ?case by simp
qed

end

section \<open>Insertion-ordered stores\<close>

locale keyed_store =
  fixes get :: "'s \<Rightarrow> 'k \<Rightarrow> 'v option"
    and set_key :: "'s \<Rightarrow> 'k \<Rightarrow> 'v \<Rightarrow> 's"
    and key_list :: "'s \<Rightarrow> 'k list"
  assumes get_set: "get (set_key s k v) k' = (if k' = k then Some v else get s k')"
    and keys_set: "key_list (set_key s k v) = (if k \<in> set (key_list s) then key_list s else key_list s @ [k])"
    and get_keys: "get s k \<noteq> None \<longleftrightarrow> k \<in> set (key_list s)"
begin

lemma keys_distinct: "distinct (key_list s) \<Longrightarrow> distinct (key_list (set_key s k v))"
  by (simp add: keys_set)

lemma set_same: "get (set_key (set_key s k v) k w) k' = get (set_key s k w) k'"
  by (simp add: get_set)

lemma fold_distinct:
  "distinct (key_list s) \<Longrightarrow> distinct (key_list (fold (\<lambda>(k, v) r. set_key r k v) kvs s))"
  by (induction kvs arbitrary: s) (auto simp: keys_distinct)

lemma fold_keys:
  "set (key_list (fold (\<lambda>(k, v) r. set_key r k v) kvs s)) = set (key_list s) \<union> fst ` set kvs"
  by (induction kvs arbitrary: s) (auto simp: keys_set split: if_splits)

end

interpretation js_object: keyed_store map_of js_set "map fst"
proof unfold_locales
  show "map_of (js_set s k v) k' = (if k' = k then Some v else map_of s k')"
    for s :: "('a \<times> 'b) list" and k v k' by simp
  show "map fst (js_set s k v) = (if k \<in> set (map fst s) then map fst s else map fst s @ [k])"
    for s :: "('a \<times> 'b) list" and k v by (simp add: keys_js_set)
  show "map_of s k \<noteq> None \<longleftrightarrow> k \<in> set (map fst s)"
    for s :: "('a \<times> 'b) list" and k by (simp add: map_of_eq_None_iff)
qed

section \<open>Machines with an invariant\<close>

locale invariant_machine =
  fixes step :: "'e \<Rightarrow> 's \<Rightarrow> 's"
    and inv :: "'s \<Rightarrow> bool"
  assumes step_inv: "inv s \<Longrightarrow> inv (step e s)"
begin

lemma run_inv: "inv s \<Longrightarrow> inv (fold step es s)"
  by (induction es arbitrary: s) (auto intro: step_inv)

end

end
