(* ===== verification/Matchmaking.thy ===== *)
theory Matchmaking
  imports Interfaces JsValue
begin

text \<open>
  \<open>lib/matchmaking.ts\<close>: the reducer behind the lobby's status. Its state holds the status, a
  version that every user intent bumps, the identifier of the recovery in flight and the time
  queueing started; \<open>matchmakingReducer\<close> has one equation per action, in the source's order.
\<close>

section \<open>State and actions\<close>

datatype matchmaking_status =
  Idle | Ready | Queueing | MatchedConnecting | InMatch | Recovering | Abandoned

datatype recover_outcome = OutReady | OutQueueing | OutMatched | OutAbandoned

record matchmaking_state =
  mm_status :: matchmaking_status
  mm_intentVersion :: int
  mm_activeRecover :: "nat option"
  mm_queueStartedAt :: "real option"

datatype matchmaking_action =
  SetStatus matchmaking_status "bool option"
| JoinRequested "real option"
| LeaveRequested
| QueueStatus string "real option"
| MatchFound
| GameConnected
| QueueErrorA
| WsClosed
| RecoverStarted nat
| RecoverResolved nat int recover_outcome bool
| RecoverFailed nat

definition initialMatchmakingState :: matchmaking_state where
  "initialMatchmakingState =
     \<lparr>mm_status = Idle, mm_intentVersion = 0, mm_activeRecover = None, mm_queueStartedAt = None\<rparr>"

section \<open>The reducer\<close>

text \<open>\<open>case 'queue_status'\<close>: the server's text, with \<open>queued\<close> read as \<open>queueing\<close>.\<close>

definition reduce_queue_status ::
  "matchmaking_state \<Rightarrow> string \<Rightarrow> real option \<Rightarrow> matchmaking_state" where
  "reduce_queue_status st status queuedAt =
     (let normalized = (if status = ''queued'' then ''queueing'' else status) in
      if normalized = ''left'' then st\<lparr>mm_status := Ready, mm_queueStartedAt := None\<rparr>
      else if normalized = ''matched'' then st\<lparr>mm_status := MatchedConnecting, mm_queueStartedAt := None\<rparr>
      else if normalized = ''queueing'' then
        st\<lparr>mm_status := Queueing, mm_queueStartedAt := nullish queuedAt (mm_queueStartedAt st)\<rparr>
      else if normalized = ''ready'' then st\<lparr>mm_status := Ready, mm_queueStartedAt := None\<rparr>
      else if normalized = ''idle'' then st\<lparr>mm_status := Idle, mm_queueStartedAt := None\<rparr>
      else if normalized = ''recovering'' then st\<lparr>mm_status := Recovering, mm_queueStartedAt := None\<rparr>
      else if normalized = ''abandoned'' then st\<lparr>mm_status := Abandoned, mm_queueStartedAt := None\<rparr>
      else st)"

text \<open>\<open>case 'recover_resolved'\<close>.\<close>

definition reduce_recover_resolved ::
  "matchmaking_state \<Rightarrow> nat \<Rightarrow> int \<Rightarrow> recover_outcome \<Rightarrow> bool \<Rightarrow> matchmaking_state" where
  "reduce_recover_resolved st requestID intentVersionAtStart outcome hasSnapshot =
     (if mm_activeRecover st \<noteq> Some requestID then st
      else
        let next = st\<lparr>mm_activeRecover := None\<rparr> in
        if outcome = OutMatched then next\<lparr>mm_status := MatchedConnecting\<rparr>
        else if outcome = OutAbandoned then next\<lparr>mm_status := Abandoned\<rparr>
        else if intentVersionAtStart \<noteq> mm_intentVersion st then next
        else if outcome = OutQueueing then
          next\<lparr>mm_status := Queueing, mm_queueStartedAt := mm_queueStartedAt st\<rparr>
        else if \<not> hasSnapshot then next\<lparr>mm_status := Ready\<rparr>
        else next)"

fun matchmakingReducer :: "matchmaking_state \<Rightarrow> matchmaking_action \<Rightarrow> matchmaking_state" where
  "matchmakingReducer st (SetStatus status bumpIntent) =
     st\<lparr>mm_status := status,
        mm_queueStartedAt := (if status = Queueing then mm_queueStartedAt st else None),
        mm_intentVersion := (if bumpIntent = Some False then mm_intentVersion st
                             else mm_intentVersion st + 1)\<rparr>"
| "matchmakingReducer st (JoinRequested startedAt) =
     st\<lparr>mm_status := Queueing, mm_queueStartedAt := startedAt,
        mm_intentVersion := mm_intentVersion st + 1\<rparr>"
| "matchmakingReducer st LeaveRequested =
     st\<lparr>mm_status := Ready, mm_queueStartedAt := None, mm_intentVersion := mm_intentVersion st + 1\<rparr>"
| "matchmakingReducer st (QueueStatus status queuedAt) = reduce_queue_status st status queuedAt"
| "matchmakingReducer st MatchFound = st\<lparr>mm_status := MatchedConnecting, mm_queueStartedAt := None\<rparr>"
| "matchmakingReducer st GameConnected = st\<lparr>mm_status := InMatch, mm_queueStartedAt := None\<rparr>"
| "matchmakingReducer st QueueErrorA =
     (if mm_status st = Queueing then st\<lparr>mm_status := Ready, mm_queueStartedAt := None\<rparr> else st)"
| "matchmakingReducer st WsClosed =
     (if mm_status st = Queueing \<or> mm_status st = MatchedConnecting \<or> mm_status st = InMatch
      then st\<lparr>mm_status := Recovering\<rparr> else st)"
| "matchmakingReducer st (RecoverStarted requestID) = st\<lparr>mm_activeRecover := Some requestID\<rparr>"
| "matchmakingReducer st (RecoverResolved requestID intentVersionAtStart outcome hasSnapshot) =
     reduce_recover_resolved st requestID intentVersionAtStart outcome hasSnapshot"
| "matchmakingReducer st (RecoverFailed requestID) =
     (if mm_activeRecover st \<noteq> Some requestID then st else st\<lparr>mm_activeRecover := None\<rparr>)"

definition run_actions :: "matchmaking_state \<Rightarrow> matchmaking_action list \<Rightarrow> matchmaking_state" where
  "run_actions st acts = foldl matchmakingReducer st acts"

text \<open>The actions a user's decision causes: they bump the intent version.\<close>

fun bumps_intent :: "matchmaking_action \<Rightarrow> bool" where
  "bumps_intent (SetStatus _ b) = (b \<noteq> Some False)"
| "bumps_intent (JoinRequested _) = True"
| "bumps_intent LeaveRequested = True"
| "bumps_intent _ = False"

section \<open>Lemmas\<close>

lemmas reducer_defs = reduce_queue_status_def reduce_recover_resolved_def Let_def

lemma reducer_intentVersion:
  "mm_intentVersion (matchmakingReducer st a) =
     mm_intentVersion st + (if bumps_intent a then 1 else 0)"
  by (cases a) (simp_all add: reducer_defs)

lemma run_intentVersion:
  "mm_intentVersion (run_actions st acts) =
     mm_intentVersion st + int (length (filter bumps_intent acts))"
  by (induction acts arbitrary: st) (simp_all add: run_actions_def reducer_intentVersion)

lemma run_actions_Cons: "run_actions st (a # acts) = run_actions (matchmakingReducer st a) acts"
  by (simp add: run_actions_def)

lemma reducer_stale_resolved:
  "mm_activeRecover st \<noteq> Some r \<Longrightarrow> matchmakingReducer st (RecoverResolved r v out b) = st"
  by (simp add: reduce_recover_resolved_def)

lemma reducer_in_match:
  assumes "mm_status (matchmakingReducer st a) = InMatch" and "mm_status st \<noteq> InMatch"
  shows "a = GameConnected \<or> (\<exists>b. a = SetStatus InMatch b)"
  using assms by (cases a) (auto simp: reducer_defs split: if_splits)

lemma run_in_match:
  "mm_status (run_actions st acts) = InMatch \<Longrightarrow> mm_status st \<noteq> InMatch \<Longrightarrow>
     \<exists>a\<in>set acts. a = GameConnected \<or> (\<exists>b. a = SetStatus InMatch b)"
proof (induction acts arbitrary: st)
  case Nil
  then show ?case by (simp add: run_actions_def)
next
  case (Cons a acts)
  show ?case
  proof (cases "mm_status (matchmakingReducer st a) = InMatch")
    case True
    then show ?thesis using reducer_in_match Cons.prems by auto
  next
    case False
    then show ?thesis using Cons by (auto simp: run_actions_Cons)
  qed
qed

lemma resolved_after_intent:
  assumes "mm_intentVersion st \<noteq> v"
  shows "reduce_recover_resolved st r v out b =
     (if mm_activeRecover st \<noteq> Some r then st
      else st\<lparr>mm_activeRecover := None,
              mm_status := (case out of OutMatched \<Rightarrow> MatchedConnecting | OutAbandoned \<Rightarrow> Abandoned
                            | OutReady \<Rightarrow> mm_status st | OutQueueing \<Rightarrow> mm_status st)\<rparr>)"
  using assms by (cases out) (simp_all add: reduce_recover_resolved_def Let_def)

section \<open>Properties\<close>

text \<open>
  C10. A recovery whose answer comes back after the user has joined, left or chosen a status. An
  answer \<open>ready\<close> or \<open>queueing\<close> does not overrule that decision: status, queueing time and intent stay,
  only the recovery is over. The answers that speak of the match itself do go through, whatever the
  user has decided: \<open>matched\<close> connects to it and \<open>abandoned\<close> shows that it is gone. The answer of
  a recovery that is no longer the active one changes nothing.
\<close>

theorem recovery_respects_later_intent:
  fixes st acts r out b
  assumes "\<exists>a\<in>set acts. bumps_intent a"
  defines "now \<equiv> run_actions st acts"
  shows "matchmakingReducer now (RecoverResolved r (mm_intentVersion st) out b) =
     (if mm_activeRecover now \<noteq> Some r then now
      else now\<lparr>mm_activeRecover := None,
               mm_status := (case out of OutMatched \<Rightarrow> MatchedConnecting | OutAbandoned \<Rightarrow> Abandoned
                             | OutReady \<Rightarrow> mm_status now | OutQueueing \<Rightarrow> mm_status now)\<rparr>)"
proof -
  have "filter bumps_intent acts \<noteq> []" using assms(1) by (auto simp: filter_empty_conv)
  then have "mm_intentVersion now \<noteq> mm_intentVersion st" by (simp add: now_def run_intentVersion)
  then show ?thesis by (simp add: resolved_after_intent)
qed

theorem recovery_respects_later_intent_witness:
  "map (\<lambda>out. mm_status (matchmakingReducer (run_actions initialMatchmakingState [RecoverStarted 1, LeaveRequested])
     (RecoverResolved 1 0 out False))) [OutReady, OutQueueing, OutMatched, OutAbandoned] =
   [Ready, Ready, MatchedConnecting, Abandoned]"
proof -
  let ?acts = "[RecoverStarted 1, LeaveRequested]"
  have "\<exists>a\<in>set ?acts. bumps_intent a" by simp
  note r = recovery_respects_later_intent [OF this, of initialMatchmakingState 1]
  have "mm_intentVersion initialMatchmakingState = 0"
    "mm_status (run_actions initialMatchmakingState ?acts) = Ready"
    "mm_activeRecover (run_actions initialMatchmakingState ?acts) = Some 1"
    by (simp_all add: initialMatchmakingState_def run_actions_def)
  then show ?thesis using r [of OutReady False] r [of OutQueueing False] r [of OutMatched False]
    r [of OutAbandoned False] by simp
qed

text \<open>
  The lobby never shows a match as joined on its own: the status reaches \<open>in_match\<close> only through
  the game connection or an explicit status, never through a queue message or a recovery.
\<close>

theorem in_match_needs_connection:
  assumes "mm_status (run_actions initialMatchmakingState acts) = InMatch"
  shows "\<exists>a\<in>set acts. a = GameConnected \<or> (\<exists>b. a = SetStatus InMatch b)"
  using run_in_match [OF assms] by (simp add: initialMatchmakingState_def)

theorem in_match_needs_connection_witness:
  "\<exists>a\<in>set [JoinRequested None, MatchFound, GameConnected]. a = GameConnected \<or> (\<exists>b. a = SetStatus InMatch b)"
  by (rule in_match_needs_connection) (simp add: run_actions_def initialMatchmakingState_def)

text \<open>
  The intent version counts exactly the user's decisions: joining, leaving and the status
  changes that do not opt out.
\<close>

theorem intent_version_counts:
  "mm_intentVersion (run_actions initialMatchmakingState acts) = int (length (filter bumps_intent acts))"
  by (simp add: run_intentVersion) (simp add: initialMatchmakingState_def)

end
