(* ===== verification/UIPhase.thy ===== *)
theory UIPhase
  imports Domain Matchmaking
begin

text \<open>
  \<open>lib/uiPhase.ts\<close>: which screen the page shows, from the snapshot if there is one and from the
  matchmaking status otherwise. \<open>status_name\<close> is the string behind a status.
\<close>

fun status_name :: "matchmaking_status \<Rightarrow> string" where
  "status_name Idle = ''idle''"
| "status_name Ready = ''ready''"
| "status_name Queueing = ''queueing''"
| "status_name MatchedConnecting = ''matched_connecting''"
| "status_name InMatch = ''in_match''"
| "status_name Recovering = ''recovering''"
| "status_name Abandoned = ''abandoned''"

definition deriveUIPhase :: "snapshot option \<Rightarrow> string \<Rightarrow> ui_phase" where
  "deriveUIPhase snapshot status =
     (case snapshot of
        None \<Rightarrow>
          if status = ''queueing'' \<or> status = ''queued'' \<or> status = ''matched'' \<or>
             status = ''matched_connecting'' \<or> status = ''recovering''
          then UIQueueing else UILobby
      | Some sn \<Rightarrow>
          if sn_state sn = ''ended'' then UIMatchEnd
          else if sn_phase sn = RoundResultPhase then UIRoundResult
          else if sn_roundPhase sn = RoundTransition then UIRoundResult
          else if sn_phase sn = LivePhase \<and> sn_roundPhase sn = RoundIntro then UIPrematchCountdown
          else if sn_phase sn = LivePhase then UILiveRound
          else UILobby)"

lemma deriveUIPhase_None:
  "deriveUIPhase None (status_name s) =
     (if s \<in> {Queueing, MatchedConnecting, Recovering} then UIQueueing else UILobby)"
  by (cases s) (simp_all add: deriveUIPhase_def)

lemma deriveUIPhase_ended: "sn_state sn = ''ended'' \<Longrightarrow> deriveUIPhase (Some sn) status = UIMatchEnd"
  by (simp add: deriveUIPhase_def)

lemma deriveUIPhase_queueing_iff:
  "deriveUIPhase (Some sn) status \<noteq> UIQueueing"
  by (simp add: deriveUIPhase_def)

lemma deriveUIPhase_live:
  "deriveUIPhase (Some sn) status = UILiveRound \<Longrightarrow>
     sn_phase sn = LivePhase \<and> sn_roundPhase sn \<noteq> RoundIntro \<and> sn_state sn \<noteq> ''ended''"
  by (auto simp: deriveUIPhase_def split: if_splits)

end
