(* ===== verification/RuntimeConfig.thy ===== *)
theory RuntimeConfig
  imports JsValue
begin

text \<open>
  \<open>lib/runtime-config.ts\<close>, \<open>lib/site.ts\<close>, \<open>lib/http.ts\<close>: the public configuration of the
  client. \<open>process.env\<close> is a map from variable names to their texts; the object injected into the
  page is its list of entries, a value being None for \<open>undefined\<close>.
\<close>

section \<open>Configuration\<close>

record runtime_config =
  queueURL :: string
  realtimeBaseURL :: string
  apiURL :: string
  googleClientId :: string
  googleAllowedOrigins :: "string list"
  discordClientId :: string
  googleEmbedKey :: string
  appVersion :: string
  roundDurationMs :: int
  maxHP :: int
  queueHeartbeatIntervalMs :: int
  socketHeartbeatIntervalMs :: int
  socketStaleAfterMs :: int
  connectionErrorMessage :: string
  gameConnectionErrorMessage :: string

definition splitOrigins :: "string \<Rightarrow> string list" where
  "splitOrigins v = filter (\<lambda>origin. origin \<noteq> []) (map js_trim (split_on (CHR '','') v))"

type_synonym config_source = "(string \<times> string option) list"

definition readWindowRuntimeConfig :: "config_source \<Rightarrow> config_source" where
  "readWindowRuntimeConfig source =
     filter (\<lambda>(_, v). case v of
        None \<Rightarrow> False
      | Some s \<Rightarrow> s \<noteq> [] \<and> \<not> starts_with s ''REPLACE_WITH_'') source"

definition default_config :: "(string \<Rightarrow> string option) \<Rightarrow> string \<Rightarrow> string" where
  "default_config env k =
     or_str (opt_str (env k))
       (if k = ''NEXT_PUBLIC_QUEUE_URL'' then ''http://localhost:8090''
        else if k = ''NEXT_PUBLIC_REALTIME_URL'' then ''http://localhost:8092''
        else if k = ''NEXT_PUBLIC_API_URL'' then ''http://localhost:8080''
        else if k = ''NEXT_PUBLIC_GOOGLE_EMBED_KEY'' then ''NO_KEY_DEFINED''
        else if k = ''NEXT_PUBLIC_APP_VERSION'' then
          take 12 (or_str (opt_str (env ''NEXT_PUBLIC_GIT_SHA'')) ''dev'')
        else [])"

text \<open>The spread \<open>{...defaults, ...readWindowRuntimeConfig(source)}\<close>, read at one key.\<close>

definition public_config :: "(string \<Rightarrow> string option) \<Rightarrow> config_source \<Rightarrow> string \<Rightarrow> string" where
  "public_config env source k =
     (case map_of (readWindowRuntimeConfig source) k of
        Some (Some v) \<Rightarrow> v
      | _ \<Rightarrow> default_config env k)"

definition createRuntimeConfig :: "(string \<Rightarrow> string option) \<Rightarrow> config_source \<Rightarrow> runtime_config" where
  "createRuntimeConfig env source =
     \<lparr>queueURL = public_config env source ''NEXT_PUBLIC_QUEUE_URL'',
      realtimeBaseURL = public_config env source ''NEXT_PUBLIC_REALTIME_URL'',
      apiURL = public_config env source ''NEXT_PUBLIC_API_URL'',
      googleClientId = public_config env source ''NEXT_PUBLIC_GOOGLE_CLIENT_ID'',
      googleAllowedOrigins = splitOrigins (public_config env source ''NEXT_PUBLIC_GOOGLE_ALLOWED_ORIGINS''),
      discordClientId = public_config env source ''NEXT_PUBLIC_DISCORD_CLIENT_ID'',
      googleEmbedKey = public_config env source ''NEXT_PUBLIC_GOOGLE_EMBED_KEY'',
      appVersion = public_config env source ''NEXT_PUBLIC_APP_VERSION'',
      roundDurationMs = 45000,
      maxHP = 6000,
      queueHeartbeatIntervalMs = 10000,
      socketHeartbeatIntervalMs = 20000,
      socketStaleAfterMs = 35000,
      connectionErrorMessage = ''Connection error'',
      gameConnectionErrorMessage = ''Connection lost. Reconnecting...''\<rparr>"

section \<open>Base URLs\<close>

definition normalizeHTTPBase :: "string \<Rightarrow> string" where
  "normalizeHTTPBase v =
     (if v = [] then []
      else if starts_with v ''ws://'' then ''http://'' @ drop 5 v
      else if starts_with v ''wss://'' then ''https://'' @ drop 6 v
      else v)"

definition normalizeWSBase :: "string \<Rightarrow> string" where
  "normalizeWSBase v =
     (if v = [] then []
      else if starts_with v ''http://'' then ''ws://'' @ drop 7 v
      else if starts_with v ''https://'' then ''wss://'' @ drop 8 v
      else v)"

definition normalizeSiteURL :: "string option \<Rightarrow> string" where
  "normalizeSiteURL v =
     (if opt_str v = [] then ''https://geoduels.io''
      else if last (opt_str v) = CHR ''/'' then butlast (opt_str v)
      else opt_str v)"

text \<open>\<open>readError\<close>: the body of a failed response, or the caller's fallback.\<close>

definition readError :: "string \<Rightarrow> string \<Rightarrow> string" where
  "readError body fallback = or_str body fallback"

section \<open>Lemmas\<close>

lemma ws_of_http: "normalizeWSBase (normalizeHTTPBase (''ws://'' @ r)) = ''ws://'' @ r"
  by (simp add: normalizeWSBase_def normalizeHTTPBase_def starts_with_def)

lemma ws_of_https: "normalizeWSBase (normalizeHTTPBase (''wss://'' @ r)) = ''wss://'' @ r"
  by (simp add: normalizeWSBase_def normalizeHTTPBase_def starts_with_def)

lemma normalizeWSBase_never_http:
  "\<not> starts_with (normalizeWSBase v) ''http://'' \<and> \<not> starts_with (normalizeWSBase v) ''https://''"
  by (auto simp: normalizeWSBase_def starts_with_def)

lemma normalizeWSBase_idem [simp]: "normalizeWSBase (normalizeWSBase v) = normalizeWSBase v"
  using normalizeWSBase_never_http [of v] by (simp add: normalizeWSBase_def [of "normalizeWSBase v"])

lemma set_js_trim: "set (js_trim s) \<subseteq> set s"
  unfolding js_trim_def by (metis set_dropWhileD set_rev subsetI)

lemma splitOrigins_trimmed:
  "w \<in> set (splitOrigins v) \<Longrightarrow> w \<noteq> [] \<and> js_trim w = w \<and> CHR '','' \<notin> set w"
  using set_js_trim split_on_no_sep by (fastforce simp: splitOrigins_def)

text \<open>Of an object, whose keys are distinct, filtering the entries filters the lookup.\<close>

lemma map_of_filter_value:
  "distinct (map fst xs) \<Longrightarrow> map_of (filter (\<lambda>(_, v). P v) xs) k =
     (case map_of xs k of None \<Rightarrow> None | Some v \<Rightarrow> if P v then Some v else None)"
  by (induction xs) (auto simp: map_of_eq_None_iff split: option.split)

text \<open>What a deployer has configured for a key: the injected value, the environment's, the built-in one.\<close>

definition configured :: "(string \<Rightarrow> string option) \<Rightarrow> config_source \<Rightarrow> string \<Rightarrow> string \<Rightarrow> string" where
  "configured env source k builtin =
     (let fallback = (case env k of Some v \<Rightarrow> if v = [] then builtin else v | None \<Rightarrow> builtin)
      in case map_of source k of
           Some (Some v) \<Rightarrow> if v = [] \<or> starts_with v ''REPLACE_WITH_'' then fallback else v
         | _ \<Rightarrow> fallback)"

lemma public_config_configured:
  assumes "distinct (map fst source)"
  shows "public_config env source k = configured env source k (default_config (\<lambda>x. if x = k then None else env x) k)"
proof -
  have w: "map_of (readWindowRuntimeConfig source) k =
      (case map_of source k of Some (Some v) \<Rightarrow> if v = [] \<or> starts_with v ''REPLACE_WITH_'' then None else Some (Some v)
       | _ \<Rightarrow> None)"
    unfolding readWindowRuntimeConfig_def using map_of_filter_value [OF assms]
    by (auto split: option.split)
  have d: "default_config env k =
      (case env k of Some v \<Rightarrow> if v = [] then default_config (\<lambda>x. if x = k then None else env x) k else v
       | None \<Rightarrow> default_config (\<lambda>x. if x = k then None else env x) k)"
    by (simp add: default_config_def or_str_def split: option.split)
  show ?thesis
    by (subst public_config_def, subst w, subst d) (simp add: configured_def Let_def split: option.split)
qed

lemma configured_given:
  "configured env source k builtin \<noteq> builtin \<Longrightarrow>
     configured env source k builtin \<noteq> [] \<and>
     (starts_with (configured env source k builtin) ''REPLACE_WITH_'' \<longrightarrow> env k = Some (configured env source k builtin))"
  by (auto simp: configured_def Let_def split: option.splits if_splits)

lemma split_commas:
  "os \<noteq> [] \<Longrightarrow> \<forall>w\<in>set os. sep \<notin> set w \<Longrightarrow> split_on sep (tl (concat (map (\<lambda>w. sep # w) os))) = os"
proof (induction os)
  case (Cons w os)
  then show ?case by (cases os) (simp_all add: split_on_none split_on_append)
qed simp

lemma splitOrigins_commas:
  assumes "os \<noteq> []" and "list_all (\<lambda>w. w \<noteq> [] \<and> js_trim w = w \<and> CHR '','' \<notin> set w) os"
  shows "splitOrigins (tl (concat (map (\<lambda>w. CHR '','' # w) os))) = os"
proof -
  have "map js_trim os = os" using assms(2) by (auto simp: list_all_iff intro: map_idI)
  moreover have "filter (\<lambda>w. w \<noteq> []) os = os" using assms(2) by (auto simp: list_all_iff)
  ultimately show ?thesis using split_commas [of os "CHR '',''"] assms by (simp add: splitOrigins_def list_all_iff)
qed

section \<open>Properties\<close>

text \<open>
  C31. The configuration is the one the deployer gave. Field by field, and for no field the value of
  another: the value injected into the page counts unless it is missing, empty or a placeholder the
  deployment has not replaced; then the environment's unless it is missing or empty; then the built-in
  one. So the three services always have a URL, which is a placeholder only where the environment
  itself says so, and the websocket base made of it has no http scheme; and the allowed origins are
  trimmed, non-empty and free of the separator, and for any list of such origins joined by commas they are
  that list.
\<close>

theorem runtime_config_usable:
  fixes env source
  assumes "distinct (map fst source)"
  defines "c \<equiv> createRuntimeConfig env source" and "given \<equiv> configured env source"
  shows "queueURL c = given ''NEXT_PUBLIC_QUEUE_URL'' ''http://localhost:8090'' \<and>
    realtimeBaseURL c = given ''NEXT_PUBLIC_REALTIME_URL'' ''http://localhost:8092'' \<and>
    apiURL c = given ''NEXT_PUBLIC_API_URL'' ''http://localhost:8080'' \<and>
    googleClientId c = given ''NEXT_PUBLIC_GOOGLE_CLIENT_ID'' [] \<and>
    discordClientId c = given ''NEXT_PUBLIC_DISCORD_CLIENT_ID'' [] \<and>
    googleEmbedKey c = given ''NEXT_PUBLIC_GOOGLE_EMBED_KEY'' ''NO_KEY_DEFINED'' \<and>
    appVersion c = given ''NEXT_PUBLIC_APP_VERSION''
      (take 12 (case env ''NEXT_PUBLIC_GIT_SHA'' of Some v \<Rightarrow> if v = [] then ''dev'' else v | None \<Rightarrow> ''dev'')) \<and>
    (\<forall>(k, u)\<in>{(''NEXT_PUBLIC_QUEUE_URL'', queueURL c), (''NEXT_PUBLIC_REALTIME_URL'', realtimeBaseURL c),
         (''NEXT_PUBLIC_API_URL'', apiURL c)}. u \<noteq> [] \<and>
       (starts_with u ''REPLACE_WITH_'' \<longrightarrow> env k = Some u) \<and>
       \<not> starts_with (normalizeWSBase u) ''http://'' \<and> \<not> starts_with (normalizeWSBase u) ''https://'') \<and>
    (given ''NEXT_PUBLIC_GOOGLE_ALLOWED_ORIGINS'' [] = [] \<longrightarrow> googleAllowedOrigins c = []) \<and>
    list_all (\<lambda>w. w \<noteq> [] \<and> js_trim w = w \<and> CHR '','' \<notin> set w) (googleAllowedOrigins c) \<and>
    (\<forall>os. os \<noteq> [] \<and> list_all (\<lambda>w. w \<noteq> [] \<and> js_trim w = w \<and> CHR '','' \<notin> set w) os \<and>
       given ''NEXT_PUBLIC_GOOGLE_ALLOWED_ORIGINS'' [] = tl (concat (map (\<lambda>w. CHR '','' # w) os)) \<longrightarrow>
       googleAllowedOrigins c = os)"
proof -
  note g = public_config_configured [OF assms(1), of env, folded given_def]
  have urls: "queueURL c = given ''NEXT_PUBLIC_QUEUE_URL'' ''http://localhost:8090''"
    "realtimeBaseURL c = given ''NEXT_PUBLIC_REALTIME_URL'' ''http://localhost:8092''"
    "apiURL c = given ''NEXT_PUBLIC_API_URL'' ''http://localhost:8080''"
    by (simp_all add: c_def createRuntimeConfig_def g default_config_def)
  have usable: "given k d \<noteq> [] \<and> (starts_with (given k d) ''REPLACE_WITH_'' \<longrightarrow> env k = Some (given k d))"
    if "d \<noteq> []" and "\<not> starts_with d ''REPLACE_WITH_''" for k d
    using configured_given [of env source k d] that by (cases "given k d = d") (auto simp: given_def)
  have origins: "googleAllowedOrigins c = splitOrigins (given ''NEXT_PUBLIC_GOOGLE_ALLOWED_ORIGINS'' [])"
    by (simp add: c_def createRuntimeConfig_def g default_config_def)
  have rest: "googleClientId c = given ''NEXT_PUBLIC_GOOGLE_CLIENT_ID'' []"
    "discordClientId c = given ''NEXT_PUBLIC_DISCORD_CLIENT_ID'' []"
    "googleEmbedKey c = given ''NEXT_PUBLIC_GOOGLE_EMBED_KEY'' ''NO_KEY_DEFINED''"
    "appVersion c = given ''NEXT_PUBLIC_APP_VERSION''
      (take 12 (case env ''NEXT_PUBLIC_GIT_SHA'' of Some v \<Rightarrow> if v = [] then ''dev'' else v | None \<Rightarrow> ''dev''))"
    by (simp_all add: c_def createRuntimeConfig_def g default_config_def or_str_def split: option.split)
  have "\<not> starts_with d ''REPLACE_WITH_''" if "d \<in> {''http://localhost:8090'', ''http://localhost:8092'', ''http://localhost:8080''}" for d
    using that by (auto simp: starts_with_def)
  note services = usable [OF _ this]
  have "\<forall>(k, u)\<in>{(''NEXT_PUBLIC_QUEUE_URL'', queueURL c), (''NEXT_PUBLIC_REALTIME_URL'', realtimeBaseURL c),
         (''NEXT_PUBLIC_API_URL'', apiURL c)}. u \<noteq> [] \<and>
       (starts_with u ''REPLACE_WITH_'' \<longrightarrow> env k = Some u) \<and>
       \<not> starts_with (normalizeWSBase u) ''http://'' \<and> \<not> starts_with (normalizeWSBase u) ''https://''"
    using services [of "''http://localhost:8090''" "''NEXT_PUBLIC_QUEUE_URL''"]
      services [of "''http://localhost:8092''" "''NEXT_PUBLIC_REALTIME_URL''"]
      services [of "''http://localhost:8080''" "''NEXT_PUBLIC_API_URL''"]
    by (simp add: urls normalizeWSBase_never_http)
  moreover have "splitOrigins [] = []" by (simp add: splitOrigins_def js_trim_def)
  moreover have "list_all (\<lambda>w. w \<noteq> [] \<and> js_trim w = w \<and> CHR '','' \<notin> set w) (googleAllowedOrigins c)"
    using splitOrigins_trimmed by (auto simp: origins list_all_iff)
  ultimately show ?thesis using urls rest origins splitOrigins_commas by auto
qed

text \<open>A deployment that has left the queue's placeholder in the page.\<close>

definition deployed_env :: "string \<Rightarrow> string option" where
  "deployed_env k = (if k = ''NEXT_PUBLIC_QUEUE_URL'' then Some ''https://queue'' else None)"

definition deployed_source :: config_source where
  "deployed_source =
     [(''NEXT_PUBLIC_QUEUE_URL'', Some ''REPLACE_WITH_QUEUE_URL''), (''NEXT_PUBLIC_API_URL'', Some ''https://api''),
      (''NEXT_PUBLIC_GOOGLE_ALLOWED_ORIGINS'', Some ''https://a,https://b'')]"

theorem runtime_config_usable_witness:
  "queueURL (createRuntimeConfig deployed_env deployed_source) = ''https://queue'' \<and>
   apiURL (createRuntimeConfig deployed_env deployed_source) = ''https://api'' \<and>
   realtimeBaseURL (createRuntimeConfig deployed_env deployed_source) = ''http://localhost:8092'' \<and>
   googleAllowedOrigins (createRuntimeConfig deployed_env deployed_source) = [''https://a'', ''https://b'']"
proof -
  have "distinct (map fst deployed_source)" by (simp add: deployed_source_def)
  note r = runtime_config_usable [OF this, of deployed_env]
  note origins = r [THEN conjunct2, THEN conjunct2, THEN conjunct2, THEN conjunct2, THEN conjunct2, THEN conjunct2,
      THEN conjunct2, THEN conjunct2, THEN conjunct2, THEN conjunct2, THEN spec [of _ "[''https://a'', ''https://b'']"], THEN mp]
  have "googleAllowedOrigins (createRuntimeConfig deployed_env deployed_source) = [''https://a'', ''https://b'']"
    by (rule origins) (simp add: configured_def deployed_source_def js_trim_def is_space_def starts_with_def)
  moreover have "configured deployed_env deployed_source ''NEXT_PUBLIC_QUEUE_URL'' d = ''https://queue''"
    "configured deployed_env deployed_source ''NEXT_PUBLIC_API_URL'' d = ''https://api''"
    "configured deployed_env deployed_source ''NEXT_PUBLIC_REALTIME_URL'' d = d" for d
    by (simp_all add: configured_def deployed_source_def deployed_env_def starts_with_def)
  ultimately show ?thesis
    using r [THEN conjunct1] r [THEN conjunct2, THEN conjunct1] r [THEN conjunct2, THEN conjunct2, THEN conjunct1]
    by (simp only: simp_thms)
qed

end
