(* ===== verification/Session.thy ===== *)
theory Session
  imports RuntimeConfig Domain
begin

text \<open>
  \<open>features/auth/session.ts\<close> and \<open>features/auth/lib/token-expiry.ts\<close>: the session snapshot the
  components pass around, when it lets a player play, and the expiry read from the access token.
  \<open>atob\<close> is modelled; \<open>JSON.parse\<close> is the argument \<open>parse\<close>, None where it throws.
\<close>

section \<open>Session snapshots\<close>

record auth_session =
  s_userId :: string
  s_accessToken :: string
  s_onboardingRequired :: bool
  s_authMigrationRequired :: "bool option"
  s_recoveryAvailable :: "bool option"
  s_linkedProviders :: "string list option"
  s_canPlay :: "bool option"
  s_nicknameInput :: string
  s_expiresAt :: "num option"

definition hasPlayableSession :: "auth_session option \<Rightarrow> bool" where
  "hasPlayableSession session =
     (case session of
        None \<Rightarrow> False
      | Some s \<Rightarrow> s_userId s \<noteq> [] \<and> s_accessToken s \<noteq> [] \<and> \<not> s_onboardingRequired s \<and>
          \<not> flag (s_authMigrationRequired s) \<and> s_canPlay s \<noteq> Some False)"

definition emptyAuthSession :: auth_session where
  "emptyAuthSession =
     \<lparr>s_userId = [], s_accessToken = [], s_onboardingRequired = False,
      s_authMigrationRequired = Some False, s_recoveryAvailable = Some False,
      s_linkedProviders = Some [], s_canPlay = Some False, s_nicknameInput = [],
      s_expiresAt = Some (Fin 0)\<rparr>"

section \<open>The expiry in an access token\<close>

definition b64_value :: "char \<Rightarrow> nat option" where
  "b64_value c =
     (let n = of_char c :: nat in
      if 65 \<le> n \<and> n \<le> 90 then Some (n - 65)
      else if 97 \<le> n \<and> n \<le> 122 then Some (n - 71)
      else if 48 \<le> n \<and> n \<le> 57 then Some (n + 4)
      else if n = 43 then Some 62
      else if n = 47 then Some 63
      else None)"

text \<open>Four sextets give three bytes; the bits left over at the end are dropped.\<close>

fun b64_bytes :: "nat list \<Rightarrow> nat list" where
  "b64_bytes (a # b # c # d # r) =
     (4 * a + b div 16) # (16 * (b mod 16) + c div 4) # (64 * (c mod 4) + d) # b64_bytes r"
| "b64_bytes [a, b, c] = [4 * a + b div 16, 16 * (b mod 16) + c div 4]"
| "b64_bytes [a, b] = [4 * a + b div 16]"
| "b64_bytes _ = []"

text \<open>Up to two padding characters are dropped from a text whose length is a multiple of four.\<close>

definition drop_padding :: "string \<Rightarrow> string" where
  "drop_padding s =
     (if length s mod 4 = 0 then
        (if drop (length s - 2) s = ''=='' then take (length s - 2) s
         else if drop (length s - 1) s = ''='' then take (length s - 1) s
         else s)
      else s)"

fun b64_values :: "string \<Rightarrow> nat list option" where
  "b64_values [] = Some []"
| "b64_values (c # s) =
     (case b64_value c of
        None \<Rightarrow> None
      | Some v \<Rightarrow> (case b64_values s of None \<Rightarrow> None | Some vs \<Rightarrow> Some (v # vs)))"

text \<open>\<open>window.atob\<close>; None where it throws.\<close>

definition atob :: "string \<Rightarrow> string option" where
  "atob s =
     (let t = drop_padding (filter (\<lambda>c. \<not> is_space c) s) in
      if length t mod 4 = 1 then None
      else map_option (\<lambda>vs. map char_of (b64_bytes vs)) (b64_values t))"

definition decodeBase64URL :: "string \<Rightarrow> string option" where
  "decodeBase64URL v =
     (let normalized = map (\<lambda>c. if c = CHR ''-'' then CHR ''+'' else if c = CHR ''_'' then CHR ''/'' else c) v;
          padded = normalized @ replicate ((4 - length normalized mod 4) mod 4) (CHR ''='')
      in atob padded)"

definition decodeAccessTokenExpiry :: "(string \<Rightarrow> jv option) \<Rightarrow> string \<Rightarrow> num" where
  "decodeAccessTokenExpiry parse accessToken =
     (if accessToken = [] then Fin 0
      else
        let parts = split_on (CHR ''.'') accessToken in
        if length parts < 2 then Fin 0
        else
          (case Option.bind (decodeBase64URL (parts ! 1)) parse of
             None \<Rightarrow> Fin 0
           | Some payload \<Rightarrow>
               (case jfield payload ''exp'' of Num e \<Rightarrow> num_scale 1000 e | _ \<Rightarrow> Fin 0)))"

section \<open>Lemmas\<close>

lemma hasPlayableSession_token:
  "hasPlayableSession (Some s) \<Longrightarrow> s_userId s \<noteq> [] \<and> s_accessToken s \<noteq> [] \<and> \<not> s_onboardingRequired s"
  by (simp add: hasPlayableSession_def)

lemma hasPlayableSession_empty [simp]: "\<not> hasPlayableSession (Some emptyAuthSession)"
  by (simp add: hasPlayableSession_def emptyAuthSession_def)

lemma hasPlayableSession_None [simp]: "\<not> hasPlayableSession None"
  by (simp add: hasPlayableSession_def)

text \<open>What a reader of a session may rely on, whoever provides it.\<close>

locale session_source =
  fixes snapshot_of :: "'s \<Rightarrow> auth_session option"
  assumes snapshot_playable: "snapshot_of c = Some s \<Longrightarrow> hasPlayableSession (Some s)"
begin

lemma snapshot_credentials:
  "snapshot_of c = Some s \<Longrightarrow> s_userId s \<noteq> [] \<and> s_accessToken s \<noteq> []"
  using snapshot_playable hasPlayableSession_token by blast

lemma snapshot_not_onboarding: "snapshot_of c = Some s \<Longrightarrow> \<not> s_onboardingRequired s"
  using snapshot_playable hasPlayableSession_token by blast

end

end
