(* ===== verification/SessionController.thy ===== *)
theory SessionController
  imports Session Elo Interfaces
begin

text \<open>
  \<open>features/auth/controllers/session-controller.ts\<close>: the controller that owns the signed-in
  session. Its observable state is \<open>session_state\<close>; beside it stands the session snapshot the
  other controllers read. What the controller makes happen outside (notifying its listeners, the
  reset callback of the runtime, starting a network call) is appended to \<open>sc_out\<close>, in order. A
  \<open>Partial<SessionState>\<close> patch is the update function it stands for. An asynchronous method is one
  definition per segment between two \<open>await\<close>s.
\<close>

section \<open>Decoding profile data\<close>

definition normalizeBadge :: "jv \<Rightarrow> player_badge option" where
  "normalizeBadge v =
     (if \<not> is_object v then None
      else Some
        \<lparr>badge_id = str_or [] (jfield v ''id''),
         badge_kind = str_or [] (jfield v ''kind''),
         badge_label = str_or [] (jfield v ''label''),
         badge_description = str_or [] (jfield v ''description''),
         badge_imageUrl = str_or [] (jfield v ''imageUrl''),
         badge_seasonId = str_opt (jfield v ''seasonId''),
         badge_rank = num_opt (jfield v ''rank''),
         badge_owned = Some (bool_or False (jfield v ''owned''))\<rparr>)"

fun normalizeBadges :: "jv \<Rightarrow> player_badge list" where
  "normalizeBadges (Arr xs) = filter (\<lambda>b. badge_id b \<noteq> []) (List.map_filter normalizeBadge xs)"
| "normalizeBadges _ = []"

record leaderboard_entry =
  lb_rank :: num
  lb_userId :: string
  lb_displayName :: string
  lb_avatarUrl :: string
  lb_mmr :: num
  lb_gamesPlayed :: num
  lb_wins :: num

record leaderboard_summary =
  ls_mode :: string
  ls_season :: string
  ls_selfRank :: num
  ls_totalPlayers :: num
  ls_entries :: "leaderboard_entry list"

definition initial_mmr :: num where "initial_mmr = Fin (of_int INITIAL_MMR)"

definition normalizeLeaderboardEntry :: "jv \<Rightarrow> leaderboard_entry option" where
  "normalizeLeaderboardEntry v =
     (if \<not> is_object v then None
      else Some
        \<lparr>lb_rank = num_or (Fin 0) (jfield v ''rank''),
         lb_userId = str_or [] (jfield v ''userId''),
         lb_displayName = str_or [] (jfield v ''displayName''),
         lb_avatarUrl = str_or [] (jfield v ''avatarUrl''),
         lb_mmr = num_or initial_mmr (jfield v ''mmr''),
         lb_gamesPlayed = num_or (Fin 0) (jfield v ''gamesPlayed''),
         lb_wins = num_or (Fin 0) (jfield v ''wins'')\<rparr>)"

fun leaderboard_entries :: "jv \<Rightarrow> leaderboard_entry list" where
  "leaderboard_entries (Arr xs) = List.map_filter normalizeLeaderboardEntry xs"
| "leaderboard_entries _ = []"

definition normalizeLeaderboardSummary :: "jv \<Rightarrow> leaderboard_summary option" where
  "normalizeLeaderboardSummary v =
     (if \<not> is_object v then None
      else
        let entries = leaderboard_entries (jfield v ''entries'') in
        Some
          \<lparr>ls_mode = str_or ''duel'' (jfield v ''mode''),
           ls_season = str_or ''s2'' (jfield v ''season''),
           ls_selfRank = num_or (Fin 0) (jfield v ''selfRank''),
           ls_totalPlayers = num_or (Fin (of_nat (length entries))) (jfield v ''totalPlayers''),
           ls_entries = entries\<rparr>)"

section \<open>State\<close>

record session_state =
  ss_userId :: string
  ss_userEmail :: string
  ss_displayName :: string
  ss_userAvatar :: string
  ss_isGuest :: bool
  ss_isAdmin :: bool
  ss_isModerator :: bool
  ss_mmr :: num
  ss_ratingRd :: num
  ss_gamesPlayed :: num
  ss_wins :: num
  ss_rankedGamesPlayed :: num
  ss_rankedWins :: num
  ss_leaderboard :: "leaderboard_summary option"
  ss_accessToken :: string
  ss_onboardingRequired :: bool
  ss_authMigrationRequired :: "bool option"
  ss_recoveryAvailable :: "bool option"
  ss_linkedProviders :: "string list option"
  ss_badges :: "player_badge list"
  ss_selectedBadge :: "player_badge option"
  ss_canPlay :: "bool option"
  ss_nicknameInput :: string
  ss_nicknameError :: string
  ss_nicknameSaving :: bool
  ss_authLoading :: bool
  ss_authError :: string
  ss_googleSignInEnabled :: bool
  ss_googleClientId :: string
  ss_discordSignInEnabled :: bool
  ss_discordClientId :: string

definition initialSessionState :: session_state where
  "initialSessionState =
     \<lparr>ss_userId = [], ss_userEmail = [], ss_displayName = [], ss_userAvatar = [],
      ss_isGuest = False, ss_isAdmin = False, ss_isModerator = False,
      ss_mmr = initial_mmr, ss_ratingRd = Fin INITIAL_RATING_RD,
      ss_gamesPlayed = Fin 0, ss_wins = Fin 0, ss_rankedGamesPlayed = Fin 0, ss_rankedWins = Fin 0,
      ss_leaderboard = None, ss_accessToken = [], ss_onboardingRequired = False,
      ss_authMigrationRequired = Some False, ss_recoveryAvailable = Some False,
      ss_linkedProviders = Some [], ss_badges = [], ss_selectedBadge = None,
      ss_canPlay = Some False, ss_nicknameInput = [], ss_nicknameError = [],
      ss_nicknameSaving = False, ss_authLoading = False, ss_authError = [],
      ss_googleSignInEnabled = False, ss_googleClientId = [],
      ss_discordSignInEnabled = False, ss_discordClientId = []\<rparr>"

datatype session_out = SEmit session_state | SReset | SBootstrapCall | SRefreshCall | SPlayableCall

record session_ctl =
  sc_state :: session_state
  sc_session :: auth_session
  sc_refreshPending :: bool
  sc_bootstrapPending :: bool
  sc_mounted :: bool
  sc_started :: bool
  sc_out :: "session_out list"

definition new_session_ctl :: "runtime_config \<Rightarrow> session_ctl" where
  "new_session_ctl cfg =
     \<lparr>sc_state = initialSessionState
        \<lparr>ss_googleSignInEnabled := googleClientId cfg \<noteq> [], ss_googleClientId := googleClientId cfg,
         ss_discordSignInEnabled := discordClientId cfg \<noteq> [], ss_discordClientId := discordClientId cfg\<rparr>,
      sc_session = emptyAuthSession, sc_refreshPending = False, sc_bootstrapPending = False,
      sc_mounted = True, sc_started = False, sc_out = []\<rparr>"

definition sc_log :: "session_out \<Rightarrow> session_ctl \<Rightarrow> session_ctl" where
  [ctl_defs]: "sc_log x sc = sc\<lparr>sc_out := sc_out sc @ [x]\<rparr>"

definition sc_patchState :: "(session_state \<Rightarrow> session_state) \<Rightarrow> session_ctl \<Rightarrow> session_ctl" where
  [ctl_defs]: "sc_patchState f sc =
     (let sc' = sc\<lparr>sc_state := f (sc_state sc)\<rparr> in
      if sc_mounted sc' then sc_log (SEmit (sc_state sc')) sc' else sc')"

definition normalizeSessionSnapshot :: "(string \<Rightarrow> num) \<Rightarrow> auth_session \<Rightarrow> auth_session" where
  "normalizeSessionSnapshot expiry session =
     session
       \<lparr>s_expiresAt := Some
          (case s_expiresAt session of
             Some e \<Rightarrow> if num_pos e then e else expiry (s_accessToken session)
           | None \<Rightarrow> expiry (s_accessToken session)),
        s_authMigrationRequired := Some (flag (s_authMigrationRequired session)),
        s_recoveryAvailable := Some (flag (s_recoveryAvailable session)),
        s_linkedProviders := Some (case s_linkedProviders session of None \<Rightarrow> [] | Some ps \<Rightarrow> ps),
        s_canPlay := Some
          (case s_canPlay session of
             Some b \<Rightarrow> b
           | None \<Rightarrow> \<not> s_onboardingRequired session \<and> \<not> flag (s_authMigrationRequired session))\<rparr>"

definition setSessionSnapshot ::
  "(string \<Rightarrow> num) \<Rightarrow> (auth_session \<Rightarrow> auth_session) \<Rightarrow> session_ctl \<Rightarrow> session_ctl" where
  "setSessionSnapshot expiry f sc =
     sc\<lparr>sc_session := normalizeSessionSnapshot expiry (f (sc_session sc))\<rparr>"

section \<open>Lifecycle and sign-in availability\<close>

definition google_disabled_local :: "string \<Rightarrow> string" where
  "google_disabled_local origin =
     ''Google sign-in is disabled on '' @ origin @ '' until NEXT_PUBLIC_GOOGLE_ALLOWED_ORIGINS is set.''"

definition google_disabled_origin :: "string \<Rightarrow> string" where
  "google_disabled_origin origin =
     ''Google sign-in is disabled for '' @ origin @
     ''. Add this origin to Google OAuth and NEXT_PUBLIC_GOOGLE_ALLOWED_ORIGINS.''"

definition syncGoogleSignInState :: "runtime_config \<Rightarrow> string \<Rightarrow> string \<Rightarrow> session_ctl \<Rightarrow> session_ctl" where
  "syncGoogleSignInState cfg origin hostname sc =
     (if googleClientId cfg = [] then sc_patchState (ss_googleSignInEnabled_update (\<lambda>_. False)) sc
      else if googleAllowedOrigins cfg = [] then
        (if hostname = ''localhost'' \<or> hostname = ''127.0.0.1'' then
           sc_patchState (\<lambda>st. st\<lparr>ss_googleSignInEnabled := False,
              ss_authError := google_disabled_local origin\<rparr>) sc
         else sc_patchState (ss_googleSignInEnabled_update (\<lambda>_. True)) sc)
      else
        let allowed = origin \<in> set (googleAllowedOrigins cfg) in
        sc_patchState (\<lambda>st. st\<lparr>ss_googleSignInEnabled := allowed,
           ss_authError := (if allowed then ss_authError st else google_disabled_origin origin)\<rparr>) sc)"

text \<open>\<open>start()\<close> in a browser: \<open>origin\<close> and \<open>hostname\<close> are the page's.\<close>

definition sc_start :: "runtime_config \<Rightarrow> string \<Rightarrow> string \<Rightarrow> session_ctl \<Rightarrow> session_ctl" where
  "sc_start cfg origin hostname sc =
     (if sc_started sc then sc
      else
        let sc1 = syncGoogleSignInState cfg origin hostname (sc\<lparr>sc_mounted := True, sc_started := True\<rparr>)
        in sc_log (SEmit (sc_state sc1)) sc1)"

definition sc_destroy :: "session_ctl \<Rightarrow> session_ctl" where
  "sc_destroy sc = sc\<lparr>sc_mounted := False, sc_started := False\<rparr>"

definition clearAuthSession :: "runtime_config \<Rightarrow> string \<Rightarrow> session_ctl \<Rightarrow> session_ctl" where
  "clearAuthSession cfg message sc =
     (let sc1 = (sc_log SReset sc)\<lparr>sc_session := emptyAuthSession\<rparr> in
      sc_patchState (\<lambda>st. initialSessionState
        \<lparr>ss_googleSignInEnabled := ss_googleSignInEnabled st,
         ss_googleClientId := googleClientId cfg,
         ss_discordSignInEnabled := ss_discordSignInEnabled st,
         ss_discordClientId := discordClientId cfg,
         ss_authError := message\<rparr>) sc1)"

section \<open>Applying sessions and profiles\<close>

definition applySessionSnapshot ::
  "(string \<Rightarrow> num) \<Rightarrow> auth_session \<Rightarrow> (session_state \<Rightarrow> session_state) \<Rightarrow> session_ctl \<Rightarrow> session_ctl" where
  "applySessionSnapshot expiry session patch sc =
     (let n = normalizeSessionSnapshot expiry session in
      sc_patchState (\<lambda>st. patch (st
        \<lparr>ss_userId := s_userId n, ss_accessToken := s_accessToken n,
         ss_onboardingRequired := s_onboardingRequired n,
         ss_authMigrationRequired := s_authMigrationRequired n,
         ss_recoveryAvailable := s_recoveryAvailable n,
         ss_linkedProviders := s_linkedProviders n, ss_canPlay := s_canPlay n,
         ss_nicknameInput := s_nicknameInput n\<rparr>)) (sc\<lparr>sc_session := n\<rparr>))"

text \<open>The popup's payload: its texts and flags are read at their declared types.\<close>

abbreviation jtext :: "jv \<Rightarrow> string" where
  "jtext v \<equiv> str_or [] v"

definition applyLoginPayload :: "(string \<Rightarrow> num) \<Rightarrow> jv \<Rightarrow> session_ctl \<Rightarrow> session_ctl" where
  "applyLoginPayload expiry data sc =
     (let user = jfield data ''user'';
          suggested = jtext (jfield data ''suggestedNickname'');
          displayName = or_str (or_str (jtext (jfield user ''display_name'')) suggested) ''Player'';
          onboarding = truthy (jfield data ''onboardingRequired'');
          migration = truthy (jfield data ''authMigrationRequired'');
          snap = \<lparr>s_userId = jtext (jfield user ''id''),
             s_accessToken = jtext (jfield data ''accessToken''),
             s_onboardingRequired = onboarding,
             s_authMigrationRequired = Some migration,
             s_recoveryAvailable = Some (truthy (jfield data ''recoveryAvailable'')),
             s_linkedProviders = Some (str_list_or [] (jfield data ''linkedProviders'')),
             s_canPlay = Some (bool_or (\<not> onboarding \<and> \<not> migration) (jfield data ''canPlay'')),
             s_nicknameInput = or_str suggested displayName,
             s_expiresAt = None\<rparr>
      in applySessionSnapshot expiry snap
           (\<lambda>st. st\<lparr>ss_userEmail := jtext (jfield user ''email''), ss_displayName := displayName,
              ss_userAvatar := jtext (jfield user ''avatar_url''),
              ss_isGuest := bool_or False (jfield user ''isGuest''),
              ss_isAdmin := bool_or False (jfield user ''isAdmin''),
              ss_isModerator := bool_or False (jfield user ''isModerator''),
              ss_nicknameError := [], ss_authError := [], ss_authLoading := False,
              ss_mmr := initial_mmr, ss_ratingRd := Fin INITIAL_RATING_RD,
              ss_gamesPlayed := Fin 0, ss_wins := Fin 0, ss_rankedGamesPlayed := Fin 0,
              ss_rankedWins := Fin 0, ss_leaderboard := None\<rparr>) sc)"

text \<open>
  The \<open>message\<close> listener. \<open>url_origin\<close> is the origin of a URL, None where \<open>new URL\<close> throws.
\<close>

definition messageHandler ::
  "(string \<Rightarrow> string option) \<Rightarrow> (string \<Rightarrow> num) \<Rightarrow> runtime_config \<Rightarrow> string \<Rightarrow> jv \<Rightarrow> session_ctl \<Rightarrow> session_ctl" where
  "messageHandler url_origin expiry cfg origin data sc =
     (let expectedOrigin = opt_str (url_origin (apiURL cfg)) in
      if expectedOrigin \<noteq> [] \<and> origin \<noteq> expectedOrigin then sc
      else if \<not> truthy data \<or>
        (jfield data ''type'' \<noteq> Str ''geoduels:auth'' \<and> jfield data ''type'' \<noteq> Str ''geoduels:google-auth'')
      then sc
      else
        let payload = (if truthy (jfield data ''payload'') then jfield data ''payload'' else Obj []) in
        if \<not> truthy (jfield payload ''ok'') then
          sc_patchState (\<lambda>st. st\<lparr>ss_authLoading := False,
             ss_authError := or_str (jtext (jfield payload ''error'')) ''Login failed''\<rparr>) sc
        else applyLoginPayload expiry payload sc)"

definition setNicknameInputAndClearError ::
  "(string \<Rightarrow> num) \<Rightarrow> string \<Rightarrow> session_ctl \<Rightarrow> session_ctl" where
  "setNicknameInputAndClearError expiry v sc =
     sc_patchState (\<lambda>st. st\<lparr>ss_nicknameInput := v, ss_nicknameError := []\<rparr>)
       (setSessionSnapshot expiry (\<lambda>s. s\<lparr>s_nicknameInput := v\<rparr>) sc)"

text \<open>A number, or a function of the current one.\<close>

datatype num_update = SetTo num | Via "num \<Rightarrow> num"

fun apply_update :: "num_update \<Rightarrow> num \<Rightarrow> num" where
  "apply_update (SetTo v) _ = v"
| "apply_update (Via f) x = f x"

definition setMmr :: "num_update \<Rightarrow> session_ctl \<Rightarrow> session_ctl" where
  "setMmr u = sc_patchState (ss_mmr_update (apply_update u))"

definition setRatingRd :: "num_update \<Rightarrow> session_ctl \<Rightarrow> session_ctl" where
  "setRatingRd u = sc_patchState (ss_ratingRd_update (apply_update u))"

definition setGamesPlayed :: "num_update \<Rightarrow> session_ctl \<Rightarrow> session_ctl" where
  "setGamesPlayed u = sc_patchState (ss_gamesPlayed_update (apply_update u))"

definition setWins :: "num_update \<Rightarrow> session_ctl \<Rightarrow> session_ctl" where
  "setWins u = sc_patchState (ss_wins_update (apply_update u))"

definition setRankedGamesPlayed :: "num_update \<Rightarrow> session_ctl \<Rightarrow> session_ctl" where
  "setRankedGamesPlayed u = sc_patchState (ss_rankedGamesPlayed_update (apply_update u))"

definition setRankedWins :: "num_update \<Rightarrow> session_ctl \<Rightarrow> session_ctl" where
  "setRankedWins u = sc_patchState (ss_rankedWins_update (apply_update u))"

definition setAuthPending :: "(session_state \<Rightarrow> session_state) \<Rightarrow> session_ctl \<Rightarrow> session_ctl" where
  "setAuthPending patch sc = sc_patchState patch sc"

definition applyProfileSnapshot :: "jv \<Rightarrow> session_ctl \<Rightarrow> session_ctl" where
  "applyProfileSnapshot profile sc =
     (let st0 = sc_state sc;
          nextDisplayName = nonempty_str_or (ss_displayName st0) (jfield profile ''display_name'')
      in sc_patchState (\<lambda>st. st
        \<lparr>ss_userEmail := str_or (ss_userEmail st0) (jfield profile ''email''),
         ss_displayName := nextDisplayName,
         ss_userAvatar := str_or (ss_userAvatar st0) (jfield profile ''avatar_url''),
         ss_isGuest := bool_or (ss_isGuest st0) (jfield profile ''isGuest''),
         ss_isAdmin := bool_or (ss_isAdmin st0) (jfield profile ''isAdmin''),
         ss_isModerator := bool_or (ss_isModerator st0) (jfield profile ''isModerator''),
         ss_mmr := num_or (ss_mmr st0) (jfield profile ''mmr''),
         ss_ratingRd := num_or (ss_ratingRd st0) (jfield profile ''ratingRd''),
         ss_gamesPlayed := num_or (ss_gamesPlayed st0) (jfield profile ''gamesPlayed''),
         ss_wins := num_or (ss_wins st0) (jfield profile ''wins''),
         ss_rankedGamesPlayed := num_or (ss_rankedGamesPlayed st0) (jfield profile ''rankedGamesPlayed''),
         ss_rankedWins := num_or (ss_rankedWins st0) (jfield profile ''rankedWins''),
         ss_badges := normalizeBadges (jfield profile ''badges''),
         ss_selectedBadge := normalizeBadge (jfield profile ''selectedBadge''),
         ss_linkedProviders :=
           (case jfield profile ''linkedProviders'' of
              Arr xs \<Rightarrow> Some (str_list_or [] (Arr xs))
            | _ \<Rightarrow> ss_linkedProviders st0),
         ss_nicknameInput := or_str (ss_nicknameInput st0) nextDisplayName\<rparr>) sc)"

definition applyBadgeSelection :: "jv \<Rightarrow> session_ctl \<Rightarrow> session_ctl" where
  "applyBadgeSelection payload sc =
     (if \<not> is_object payload then sc
      else sc_patchState (\<lambda>st. st
        \<lparr>ss_badges := normalizeBadges (jfield payload ''badges''),
         ss_selectedBadge := normalizeBadge (jfield payload ''selectedBadge'')\<rparr>) sc)"

definition applyLeaderboardSummary :: "jv \<Rightarrow> session_ctl \<Rightarrow> session_ctl" where
  "applyLeaderboardSummary summary sc =
     sc_patchState (ss_leaderboard_update (\<lambda>_. normalizeLeaderboardSummary summary)) sc"

section \<open>Reading and refreshing the session\<close>

definition getSessionSnapshot :: "session_ctl \<Rightarrow> auth_session option" where
  "getSessionSnapshot sc =
     (if hasPlayableSession (Some (sc_session sc)) then Some (sc_session sc) else None)"

text \<open>
  \<open>bootstrapSession\<close> and \<open>refreshSession\<close> share the call in flight: a second caller gets the same
  promise. The call's end clears it, whether it resolved or threw.
\<close>

definition bootstrapSession :: "session_ctl \<Rightarrow> session_ctl" where
  "bootstrapSession sc =
     (if sc_bootstrapPending sc then sc else sc_log SBootstrapCall (sc\<lparr>sc_bootstrapPending := True\<rparr>))"

definition bootstrapSession_done :: "session_ctl \<Rightarrow> session_ctl" where
  "bootstrapSession_done sc = sc\<lparr>sc_bootstrapPending := False\<rparr>"

definition refreshSession :: "session_ctl \<Rightarrow> session_ctl" where
  "refreshSession sc =
     (if sc_refreshPending sc then sc else sc_log SRefreshCall (sc\<lparr>sc_refreshPending := True\<rparr>))"

definition refreshSession_done :: "session_ctl \<Rightarrow> session_ctl" where
  "refreshSession_done sc = sc\<lparr>sc_refreshPending := False\<rparr>"

text \<open>The first segment of \<open>ensureFreshSession\<close>: an answer at once, or a refresh to wait for.\<close>

datatype ensure_begin = EnsureAnswer "auth_session option" | EnsureAwait num

definition session_expiry :: "auth_session \<Rightarrow> num" where
  "session_expiry s = (case s_expiresAt s of None \<Rightarrow> Fin 0 | Some e \<Rightarrow> e)"

definition ensureFreshSession ::
  "real \<Rightarrow> bool \<Rightarrow> bool \<Rightarrow> real \<Rightarrow> session_ctl \<Rightarrow> ensure_begin \<times> session_ctl" where
  "ensureFreshSession minValidityMs allowOnboarding forceRefresh now sc =
     (let s = sc_session sc; expiresAt = session_expiry s in
      if s_userId s = [] \<or> s_accessToken s = [] then (EnsureAnswer None, sc)
      else if \<not> allowOnboarding \<and> s_onboardingRequired s then (EnsureAnswer None, sc)
      else if \<not> forceRefresh \<and> num_pos expiresAt \<and> num_less (Fin (now + minValidityMs)) expiresAt
      then (EnsureAnswer (Some s), sc)
      else (EnsureAwait expiresAt, refreshSession sc))"

text \<open>Its second segment, when the refresh has answered.\<close>

definition ensureFreshSession_resume ::
  "(string \<Rightarrow> num) \<Rightarrow> bool \<Rightarrow> num \<Rightarrow> real \<Rightarrow> auth_session option \<Rightarrow> session_ctl \<Rightarrow> auth_session option" where
  "ensureFreshSession_resume expiry forceRefresh expiresAt now refreshed sc =
     (case refreshed of
        Some r \<Rightarrow> Some (normalizeSessionSnapshot expiry r)
      | None \<Rightarrow>
          if \<not> forceRefresh \<and> num_pos expiresAt \<and> num_less (Fin now) expiresAt
          then Some (sc_session sc) else None)"

text \<open>
  \<open>getPlayableSession\<close> up to its first \<open>await\<close>, and what it does with the answer of
  \<open>ensureFreshSession\<close>: return it, or fall back on the runtime's handler.
\<close>

datatype playable_begin = PlayableEnsure | PlayableAnswer "auth_session option" | PlayableHandler

definition playable_fallback :: "session_ctl \<Rightarrow> playable_begin \<times> session_ctl" where
  "playable_fallback sc =
     (if s_onboardingRequired (sc_session sc) then (PlayableAnswer None, sc)
      else (PlayableHandler, sc_log SPlayableCall sc))"

definition getPlayableSession :: "session_ctl \<Rightarrow> playable_begin \<times> session_ctl" where
  "getPlayableSession sc =
     (if hasPlayableSession (Some (sc_session sc)) then (PlayableEnsure, sc) else playable_fallback sc)"

definition getPlayableSession_resume ::
  "auth_session option \<Rightarrow> session_ctl \<Rightarrow> playable_begin \<times> session_ctl" where
  "getPlayableSession_resume fresh sc =
     (if hasPlayableSession fresh then (PlayableAnswer fresh, sc) else playable_fallback sc)"

section \<open>Lemmas\<close>

lemmas session_snapshot_defs = getSessionSnapshot_def hasPlayableSession_def

interpretation session_reader: session_source getSessionSnapshot
  by unfold_locales (simp add: getSessionSnapshot_def split: if_splits)

interpretation session_observable: quiet_when_destroyed "\<lambda>sc. \<not> sc_mounted sc" sc_out sc_patchState
  by unfold_locales (auto simp: ctl_defs Let_def)

lemma sc_patchState_simps [simp]:
  "sc_state (sc_patchState f sc) = f (sc_state sc)"
  "sc_session (sc_patchState f sc) = sc_session sc"
  "sc_mounted (sc_patchState f sc) = sc_mounted sc"
  "sc_refreshPending (sc_patchState f sc) = sc_refreshPending sc"
  "sc_out (sc_patchState f sc) =
     sc_out sc @ (if sc_mounted sc then [SEmit (f (sc_state sc))] else [])"
  by (simp_all add: ctl_defs Let_def)

lemma sc_log_simps [simp]:
  "sc_state (sc_log x sc) = sc_state sc" "sc_session (sc_log x sc) = sc_session sc"
  "sc_mounted (sc_log x sc) = sc_mounted sc" "sc_out (sc_log x sc) = sc_out sc @ [x]"
  "sc_refreshPending (sc_log x sc) = sc_refreshPending sc"
  by (simp_all add: sc_log_def)

lemma normalizeSessionSnapshot_simps [simp]:
  "s_userId (normalizeSessionSnapshot ex s) = s_userId s"
  "s_accessToken (normalizeSessionSnapshot ex s) = s_accessToken s"
  "s_onboardingRequired (normalizeSessionSnapshot ex s) = s_onboardingRequired s"
  "s_nicknameInput (normalizeSessionSnapshot ex s) = s_nicknameInput s"
  "flag (s_authMigrationRequired (normalizeSessionSnapshot ex s)) = flag (s_authMigrationRequired s)"
  by (simp_all add: normalizeSessionSnapshot_def)

lemma normalize_playable:
  "hasPlayableSession (Some (normalizeSessionSnapshot ex s)) = hasPlayableSession (Some s)"
  by (auto simp: hasPlayableSession_def normalizeSessionSnapshot_def split: option.splits)

lemma normalize_idem:
  "normalizeSessionSnapshot ex (normalizeSessionSnapshot ex s) = normalizeSessionSnapshot ex s"
  by (simp add: normalizeSessionSnapshot_def split: option.splits)

lemma refreshSession_run:
  "sc_refreshPending sc \<Longrightarrow> fold (\<lambda>_. refreshSession) us sc = sc"
  by (induction us) (simp_all add: refreshSession_def)

lemma ensure_answer:
  assumes "ensureFreshSession m onb force now sc = (EnsureAnswer (Some s), sc')"
  shows "s = sc_session sc \<and> sc' = sc \<and> s_userId s \<noteq> [] \<and> s_accessToken s \<noteq> [] \<and> \<not> force \<and>
         num_less (Fin (now + m)) (session_expiry s)"
  using assms by (auto simp: ensureFreshSession_def Let_def split: if_splits)

text \<open>A signed-in session, for the concrete instances.\<close>

definition sample_session :: auth_session where
  "sample_session = emptyAuthSession
     \<lparr>s_userId := ''u1'', s_accessToken := ''tok'', s_canPlay := Some True,
      s_expiresAt := Some (Fin 900000)\<rparr>"

definition sample_config :: runtime_config where
  "sample_config = createRuntimeConfig (\<lambda>_. None) []"

definition sample_session_ctl :: session_ctl where
  "sample_session_ctl = (new_session_ctl sample_config)\<lparr>sc_session := sample_session\<rparr>"

section \<open>Properties\<close>

text \<open>
  C9. A window message from an origin other than the API's changes nothing: it cannot sign
  anybody in, whatever its payload.
\<close>

theorem foreign_message_ignored:
  assumes "url_origin (apiURL cfg) = Some api" and "api \<noteq> []" and "origin \<noteq> api"
  shows "messageHandler url_origin expiry cfg origin data sc = sc"
  using assms by (simp add: messageHandler_def Let_def)

theorem foreign_message_ignored_witness:
  "messageHandler Some (\<lambda>_. NaN) sample_config ''https://evil.example''
     (Obj [(''type'', Str ''geoduels:auth''), (''payload'', Obj [(''ok'', Bool True)])]) sample_session_ctl
   = sample_session_ctl"
  by (rule foreign_message_ignored [where api = "apiURL sample_config"])
     (simp_all add: sample_config_def createRuntimeConfig_def public_config_def
        readWindowRuntimeConfig_def default_config_def)

text \<open>
  After \<open>clearAuthSession\<close> nobody can play: the session readers get nothing, the user and the
  token are gone from both the state and the snapshot, and the runtime's reset ran before the
  listeners saw the new state.
\<close>

theorem clearAuthSession_signs_out:
  fixes cfg message sc
  defines "sc' \<equiv> clearAuthSession cfg message sc"
  shows "getSessionSnapshot sc' = None \<and> sc_session sc' = emptyAuthSession \<and>
         ss_userId (sc_state sc') = [] \<and> ss_accessToken (sc_state sc') = [] \<and>
         ss_authError (sc_state sc') = message \<and>
         sc_out sc' = sc_out sc @ SReset # (if sc_mounted sc then [SEmit (sc_state sc')] else [])"
  by (simp add: sc'_def clearAuthSession_def Let_def getSessionSnapshot_def initialSessionState_def)

text \<open>
  The session a controller reads always carries a user and a token and never one whose
  onboarding is pending.
\<close>

theorem session_snapshot_playable:
  assumes "getSessionSnapshot sc = Some s"
  shows "s_userId s \<noteq> [] \<and> s_accessToken s \<noteq> [] \<and> \<not> s_onboardingRequired s"
  using session_reader.snapshot_credentials [OF assms] session_reader.snapshot_not_onboarding [OF assms]
  by simp

theorem session_snapshot_playable_witness:
  "getSessionSnapshot sample_session_ctl = Some sample_session \<and> s_accessToken sample_session \<noteq> []"
proof -
  have h: "getSessionSnapshot sample_session_ctl = Some sample_session"
    by (simp add: getSessionSnapshot_def sample_session_ctl_def sample_session_def
        hasPlayableSession_def emptyAuthSession_def)
  show ?thesis using h session_snapshot_playable [OF h] by simp
qed

text \<open>
  However many callers need a fresh token while a refresh is in flight, one network call is
  made; the next one starts only after that call has ended.
\<close>

theorem refresh_single_flight:
  assumes "\<not> sc_refreshPending sc" and "us \<noteq> []"
  shows "sc_out (fold (\<lambda>_. refreshSession) us sc) = sc_out sc @ [SRefreshCall] \<and>
         sc_refreshPending (fold (\<lambda>_. refreshSession) us sc) \<and>
         sc_out (refreshSession (refreshSession_done (fold (\<lambda>_. refreshSession) us sc))) =
           sc_out sc @ [SRefreshCall, SRefreshCall]"
proof -
  obtain u vs where us: "us = u # vs" using assms(2) by (cases us) auto
  have "sc_refreshPending (refreshSession sc)" and "sc_out (refreshSession sc) = sc_out sc @ [SRefreshCall]"
    using assms(1) by (simp_all add: refreshSession_def sc_log_def)
  then show ?thesis
    by (simp add: us refreshSession_run) (simp add: refreshSession_done_def refreshSession_def sc_log_def)
qed

theorem refresh_single_flight_witness:
  "sc_out (fold (\<lambda>_. refreshSession) [(), (), ()] sample_session_ctl) = sc_out sample_session_ctl @ [SRefreshCall]"
  by (rule refresh_single_flight [THEN conjunct1]) (simp_all add: sample_session_ctl_def new_session_ctl_def)

text \<open>
  Normalising a session snapshot decides every optional field, changes nothing the second time
  and never changes whether the session can play.
\<close>

theorem normalizeSessionSnapshot_correct:
  "normalizeSessionSnapshot ex (normalizeSessionSnapshot ex s) = normalizeSessionSnapshot ex s \<and>
   hasPlayableSession (Some (normalizeSessionSnapshot ex s)) = hasPlayableSession (Some s) \<and>
   s_canPlay (normalizeSessionSnapshot ex s) \<noteq> None \<and> s_expiresAt (normalizeSessionSnapshot ex s) \<noteq> None"
  by (simp add: normalize_idem normalize_playable) (simp add: normalizeSessionSnapshot_def)

text \<open>
  A session that ends while \<open>ensureFreshSession\<close> waits for a refresh that fails, with the old
  token still inside its lifetime, makes the caller get the empty session instead of null.
\<close>

theorem ensureFresh_after_sign_out:
  assumes "num_pos e" and "num_less (Fin now) e"
  shows "ensureFreshSession_resume expiry False e now None (clearAuthSession cfg message sc) =
         Some emptyAuthSession"
  using assms by (simp add: ensureFreshSession_resume_def clearAuthSession_def Let_def)

theorem ensureFresh_after_sign_out_witness:
  "ensureFreshSession_resume (\<lambda>_. NaN) False (Fin 900000) 870000 None
     (clearAuthSession sample_config [] sample_session_ctl) = Some emptyAuthSession"
  by (rule ensureFresh_after_sign_out) simp_all

end
