(* ===== verification/Http.thy ===== *)
theory Http
  imports RuntimeConfig Interfaces
begin

text \<open>
  The vocabulary of the network clients: requests as the source builds them, the responses
  \<open>fetch\<close> gives back, and errors as values. A client function is a request and the reading of
  the response, since the call itself is the browser's. \<open>rs_json\<close> is None where
  \<open>resp.json()\<close> rejects.
\<close>

section \<open>Errors, requests, responses\<close>

datatype js_error = JsError string | AbortError

type_synonym 'a outcome = "js_error + 'a"

record http_request =
  rq_method :: string
  rq_url :: string
  rq_headers :: "(string \<times> string) list"
  rq_body :: "jv option"
  rq_credentials :: bool

record http_response =
  rs_ok :: bool
  rs_status :: int
  rs_json :: "jv option"
  rs_text :: string

definition json_of :: "http_response \<Rightarrow> jv outcome" where
  "json_of resp = (case rs_json resp of None \<Rightarrow> Inl (JsError ''Unexpected token'') | Some v \<Rightarrow> Inr v)"

definition get_request :: "string \<Rightarrow> (string \<times> string) list \<Rightarrow> http_request" where
  "get_request url headers =
     \<lparr>rq_method = ''GET'', rq_url = url, rq_headers = headers, rq_body = None, rq_credentials = False\<rparr>"

definition bearer :: "string \<Rightarrow> (string \<times> string) list" where
  "bearer token = [(''Authorization'', ''Bearer '' @ token)]"

definition json_headers :: "string \<Rightarrow> (string \<times> string) list" where
  "json_headers token = (''content-type'', ''application/json'') # bearer token"

text \<open>\<open>if (!resp.ok) throw new Error(await readError(resp, fallback)); return resp.json();\<close>\<close>

definition json_or_throw :: "string \<Rightarrow> http_response \<Rightarrow> jv outcome" where
  "json_or_throw fallback resp =
     (if \<not> rs_ok resp then Inl (JsError (readError (rs_text resp) fallback)) else json_of resp)"

text \<open>The same without a result.\<close>

definition unit_or_throw :: "string \<Rightarrow> http_response \<Rightarrow> unit outcome" where
  "unit_or_throw fallback resp =
     (if \<not> rs_ok resp then Inl (JsError (readError (rs_text resp) fallback)) else Inr ())"

text \<open>\<open>if (!resp.ok) return null; return resp.json();\<close>\<close>

definition json_or_null :: "http_response \<Rightarrow> jv option outcome" where
  "json_or_null resp = (if \<not> rs_ok resp then Inr None else map_sum id Some (json_of resp))"

text \<open>\<open>getErrorMessage\<close>: an error's non-empty message, or the fallback.\<close>

fun getErrorMessage :: "js_error \<Rightarrow> string \<Rightarrow> string" where
  "getErrorMessage (JsError m) fallback = or_str m fallback"
| "getErrorMessage AbortError fallback = ''Aborted''"

lemma getErrorMessage_nonempty: "fallback \<noteq> [] \<Longrightarrow> getErrorMessage e fallback \<noteq> []"
  by (cases e) simp_all

lemma unit_or_throw_ok: "unit_or_throw fb resp = Inr () \<longleftrightarrow> rs_ok resp"
  by (simp add: unit_or_throw_def)

lemma json_or_throw_ok: "json_or_throw fb resp = Inr v \<Longrightarrow> rs_ok resp \<and> rs_json resp = Some v"
  by (auto simp: json_or_throw_def json_of_def split: if_splits option.splits)

lemma json_or_throw_message:
  "\<not> rs_ok resp \<Longrightarrow> fb \<noteq> [] \<Longrightarrow> \<exists>m. json_or_throw fb resp = Inl (JsError m) \<and> m \<noteq> []"
  by (simp add: json_or_throw_def readError_def)

end
