(* ===== verification/GameplaySocket.thy ===== *)
theory GameplaySocket
  imports Http Session
begin

text \<open>
  \<open>features/matchmaking/lib/gameplay-socket-client.ts\<close>: the websocket to the gameplay node. Every
  websocket the client has opened is an entry of \<open>gk_sockets\<close>, named by its index, because a
  replaced one still fires events; \<open>gk_current\<close> is the one the client manages. An event of a
  socket changes the client and calls handlers, which \<open>socket_react\<close> returns in order. The browser
  opens a connecting socket once, delivers messages only while a socket is open and closes it once.
\<close>

section \<open>State\<close>

datatype ready_state = SConnecting | SOpen | SClosing | SClosed

record managed_socket =
  mk_url :: string
  mk_state :: ready_state
  mk_expectedClose :: bool

record game_command =
  gc_commandId :: string
  gc_type :: string
  gc_payload :: jv
  gc_sentAt :: int

record socket_client =
  gk_current :: "nat option"
  gk_sockets :: "managed_socket list"
  gk_sent :: "(nat \<times> game_command) list"

definition new_socket_client :: socket_client where
  "new_socket_client = \<lparr>gk_current = None, gk_sockets = [], gk_sent = []\<rparr>"

section \<open>Operations\<close>

text \<open>\<open>ws.close()\<close> on a socket that is already closed does nothing.\<close>

definition close_ready :: "ready_state \<Rightarrow> ready_state" where
  "close_ready st = (if st = SClosed then SClosed else SClosing)"

definition gs_close :: "bool \<Rightarrow> socket_client \<Rightarrow> socket_client" where
  "gs_close expected gs =
     (case gk_current gs of
        None \<Rightarrow> gs
      | Some i \<Rightarrow> gs
          \<lparr>gk_current := None,
           gk_sockets := (gk_sockets gs)[i := (gk_sockets gs ! i)
             \<lparr>mk_expectedClose := expected, mk_state := close_ready (mk_state (gk_sockets gs ! i))\<rparr>]\<rparr>)"

definition connect_path :: "string \<Rightarrow> string \<Rightarrow> string" where
  "connect_path node wsPath =
     (let p = or_str wsPath (''/ws/'' @ node) in
      if starts_with p ''/'' then p else ''/'' @ or_str wsPath (''ws/'' @ node))"

definition connect_target :: "runtime_config \<Rightarrow> string \<Rightarrow> string \<Rightarrow> string \<Rightarrow> string" where
  "connect_target cfg node wsPath ticket =
     strip_slash (normalizeWSBase (realtimeBaseURL cfg)) @ connect_path node wsPath @
     ''?ticket='' @ encodeURIComponent ticket"

text \<open>\<open>connect\<close>: the previous socket is closed first, as expected.\<close>

definition gs_connect :: "string \<Rightarrow> socket_client \<Rightarrow> socket_client" where
  "gs_connect target gs =
     (let gs1 = gs_close True gs in
      gs1\<lparr>gk_current := Some (length (gk_sockets gs1)),
          gk_sockets := gk_sockets gs1 @
            [\<lparr>mk_url = target, mk_state = SConnecting, mk_expectedClose = False\<rparr>]\<rparr>)"

definition ready_of :: "socket_client \<Rightarrow> nat \<Rightarrow> ready_state" where
  "ready_of gs i = (if i < length (gk_sockets gs) then mk_state (gk_sockets gs ! i) else SClosed)"

definition isOpen :: "socket_client \<Rightarrow> bool" where
  "isOpen gs = (case gk_current gs of None \<Rightarrow> False | Some i \<Rightarrow> ready_of gs i = SOpen)"

definition isOpenOrConnecting :: "socket_client \<Rightarrow> bool" where
  "isOpenOrConnecting gs =
     (case gk_current gs of None \<Rightarrow> False | Some i \<Rightarrow> ready_of gs i = SOpen \<or> ready_of gs i = SConnecting)"

definition gs_send :: "game_command \<Rightarrow> socket_client \<Rightarrow> bool \<times> socket_client" where
  "gs_send cmd gs =
     (case gk_current gs of
        None \<Rightarrow> (False, gs)
      | Some i \<Rightarrow>
          if ready_of gs i \<noteq> SOpen then (False, gs)
          else (True, gs\<lparr>gk_sent := gk_sent gs @ [(i, cmd)]\<rparr>))"

section \<open>Events\<close>

datatype handler_call =
  HOpen | HClose bool | HError | HActivity | HSnapshot snapshot | HAckError string | HProtocolError

datatype socket_event = SockOpen nat | SockError nat | SockClose nat | SockMessage nat "jv option"

fun event_socket :: "socket_event \<Rightarrow> nat" where
  "event_socket (SockOpen i) = i"
| "event_socket (SockError i) = i"
| "event_socket (SockClose i) = i"
| "event_socket (SockMessage i _) = i"

text \<open>
  \<open>ws.onmessage\<close> after the identity test; None is a text \<open>JSON.parse\<close> rejects. Reading a field of
  \<open>null\<close> throws inside the listener, which calls no handler either.
\<close>

definition socket_message :: "(jv \<Rightarrow> snapshot) \<Rightarrow> jv option \<Rightarrow> handler_call list" where
  "socket_message as_snapshot m =
     (case m of
        None \<Rightarrow> [HProtocolError]
      | Some msg \<Rightarrow>
          if jfield msg ''kind'' = Str ''ack'' then
            HActivity #
            (if jfield msg ''status'' = Str ''error''
             then [HAckError (or_text (or_text ''Command failed'' (jfield msg ''errorCode'')) (jfield msg ''message''))]
             else [])
          else if jfield msg ''kind'' \<noteq> Str ''event'' then []
          else if jfield msg ''type'' \<notin>
            {Str ''match.snapshot'', Str ''match.state'', Str ''match.lifecycle.v2.snapshot''} then []
          else
            let snap = as_snapshot (jfield msg ''payload'') in
            [HSnapshot (case finite_opt (jfield msg ''serverTs'') of
                None \<Rightarrow> snap
              | Some serverTs \<Rightarrow> snap\<lparr>sn_serverUnixMs := Some serverTs\<rparr>)])"

definition set_ready :: "nat \<Rightarrow> ready_state \<Rightarrow> socket_client \<Rightarrow> socket_client" where
  "set_ready i st gs = gs\<lparr>gk_sockets := (gk_sockets gs)[i := (gk_sockets gs ! i)\<lparr>mk_state := st\<rparr>]\<rparr>"

fun socket_react ::
  "(jv \<Rightarrow> snapshot) \<Rightarrow> socket_event \<Rightarrow> socket_client \<Rightarrow> socket_client \<times> handler_call list" where
  "socket_react as_snapshot (SockOpen i) gs =
     (if ready_of gs i \<noteq> SConnecting then (gs, [])
      else (set_ready i SOpen gs, if gk_current gs = Some i then [HOpen] else []))"
| "socket_react as_snapshot (SockError i) gs =
     (gs, if gk_current gs = Some i then [HError] else [])"
| "socket_react as_snapshot (SockClose i) gs =
     (if ready_of gs i = SClosed then (gs, [])
      else
        ((set_ready i SClosed gs)
           \<lparr>gk_current := (if gk_current gs = Some i then None else gk_current gs)\<rparr>,
         [HClose (mk_expectedClose (gk_sockets gs ! i))]))"
| "socket_react as_snapshot (SockMessage i m) gs =
     (if ready_of gs i \<noteq> SOpen \<or> gk_current gs \<noteq> Some i then (gs, [])
      else (gs, socket_message as_snapshot m))"

section \<open>Invariant\<close>

text \<open>
  The managed socket is connecting or open and has not been closed by the client; every other
  socket is on its way out, and one that is still closing was closed by the client.
\<close>

definition socket_ok :: "nat option \<Rightarrow> nat \<Rightarrow> managed_socket \<Rightarrow> bool" where
  "socket_ok cur i s =
     (if cur = Some i then (mk_state s = SConnecting \<or> mk_state s = SOpen) \<and> \<not> mk_expectedClose s
      else mk_state s = SClosed \<or> (mk_state s = SClosing \<and> mk_expectedClose s))"

definition socket_inv :: "socket_client \<Rightarrow> bool" where
  "socket_inv gs \<longleftrightarrow>
     (\<forall>i. gk_current gs = Some i \<longrightarrow> i < length (gk_sockets gs)) \<and>
     (\<forall>i < length (gk_sockets gs). socket_ok (gk_current gs) i (gk_sockets gs ! i))"

lemma socket_inv_new [simp]: "socket_inv new_socket_client"
  by (simp add: socket_inv_def new_socket_client_def)

lemma socket_inv_close: "socket_inv gs \<Longrightarrow> socket_inv (gs_close True gs)"
  by (auto simp: socket_inv_def gs_close_def socket_ok_def close_ready_def nth_list_update
      split: option.splits if_splits)

lemma gs_close_current [simp]: "gk_current (gs_close e gs) = None"
  by (simp add: gs_close_def split: option.splits)

lemma gs_close_sent [simp]: "gk_sent (gs_close e gs) = gk_sent gs"
  by (simp add: gs_close_def split: option.splits)

lemma socket_inv_connect: "socket_inv gs \<Longrightarrow> socket_inv (gs_connect target gs)"
proof -
  assume "socket_inv gs"
  from socket_inv_close [OF this] show ?thesis
    by (auto simp: socket_inv_def gs_connect_def Let_def socket_ok_def nth_append less_Suc_eq)
qed

lemma socket_inv_send: "socket_inv gs \<Longrightarrow> socket_inv (snd (gs_send cmd gs))"
  by (auto simp: gs_send_def socket_inv_def split: option.splits)

lemma socket_inv_react: "socket_inv gs \<Longrightarrow> socket_inv (fst (socket_react f e gs))"
  by (cases e)
     (auto simp: socket_inv_def socket_ok_def ready_of_def set_ready_def nth_list_update split: if_splits)

lemma isOpenOrConnecting_iff: "socket_inv gs \<Longrightarrow> isOpenOrConnecting gs \<longleftrightarrow> gk_current gs \<noteq> None"
  by (auto simp: isOpenOrConnecting_def socket_inv_def socket_ok_def ready_of_def split: option.splits)

lemma gs_send_open: "fst (gs_send cmd gs) \<longleftrightarrow> isOpen gs"
  by (simp add: gs_send_def isOpen_def split: option.splits)

lemma isOpen_current: "isOpen gs \<Longrightarrow> \<exists>i. gk_current gs = Some i \<and> ready_of gs i = SOpen"
  by (simp add: isOpen_def split: option.splits)

section \<open>Superseded sockets\<close>

fun socket_run ::
  "(jv \<Rightarrow> snapshot) \<Rightarrow> socket_event list \<Rightarrow> socket_client \<Rightarrow> socket_client \<times> handler_call list" where
  "socket_run f [] gs = (gs, [])"
| "socket_run f (e # es) gs =
     (let (gs1, cs) = socket_react f e gs; (gs2, ds) = socket_run f es gs1 in (gs2, cs @ ds))"

lemma react_stale:
  assumes "socket_inv gs" and "gk_current gs \<noteq> Some (event_socket e)"
  shows "gk_current (fst (socket_react f e gs)) = gk_current gs"
    and "set (snd (socket_react f e gs)) \<subseteq> {HClose True}"
  using assms by (cases e; auto simp: socket_inv_def socket_ok_def ready_of_def set_ready_def split: if_splits)+

lemma run_stale:
  "socket_inv gs \<Longrightarrow> \<forall>e\<in>set es. gk_current gs \<noteq> Some (event_socket e) \<Longrightarrow>
     gk_current (fst (socket_run f es gs)) = gk_current gs \<and>
     set (snd (socket_run f es gs)) \<subseteq> {HClose True}"
proof (induction es arbitrary: gs)
  case (Cons e es)
  let ?g = "fst (socket_react f e gs)"
  have h: "gk_current gs \<noteq> Some (event_socket e)" using Cons.prems by simp
  have "socket_inv ?g" using Cons.prems by (simp add: socket_inv_react)
  with Cons.IH [of ?g] react_stale [OF Cons.prems(1) h, of f] Cons.prems show ?case
    by (simp add: case_prod_beta)
qed simp

section \<open>Properties\<close>

text \<open>
  Once the client has connected to a new node, nothing an older websocket still does, late
  messages, errors or its close, reaches the match as more than the notice of an expected close, and
  the new socket stays the managed one.
\<close>

theorem superseded_socket_silent:
  fixes f es gs target
  assumes "socket_inv gs" and "\<forall>e\<in>set es. event_socket e < length (gk_sockets gs)"
  defines "gs' \<equiv> gs_connect target gs"
  shows "gk_current (fst (socket_run f es gs')) = gk_current gs' \<and>
         set (snd (socket_run f es gs')) \<subseteq> {HClose True}"
proof -
  have "gk_current gs' = Some (length (gk_sockets gs))"
    by (simp add: gs'_def gs_connect_def gs_close_def Let_def split: option.splits)
  with assms(2) have "\<forall>e\<in>set es. gk_current gs' \<noteq> Some (event_socket e)" by auto
  then show ?thesis using run_stale [OF socket_inv_connect [OF assms(1)]] by (simp add: gs'_def)
qed

theorem superseded_socket_silent_witness:
  "set (snd (socket_run (\<lambda>_. sample_snapshot) [SockMessage 0 None, SockError 0, SockClose 0]
     (gs_connect ''wss://b'' (gs_connect ''wss://a'' new_socket_client)))) \<subseteq> {HClose True}"
  by (rule superseded_socket_silent [THEN conjunct2])
     (simp_all add: socket_inv_connect, simp add: gs_connect_def gs_close_def new_socket_client_def)

text \<open>
  A command leaves the browser exactly when the managed socket is open, and on that socket only:
  the connection the client has replaced or closed never carries one.
\<close>

theorem commands_only_on_open_socket:
  "(fst (gs_send cmd gs) \<longleftrightarrow> isOpen gs) \<and>
   (gk_sent (snd (gs_send cmd gs)) =
      gk_sent gs @ (if isOpen gs then [(the (gk_current gs), cmd)] else [])) \<and>
   \<not> isOpen (gs_close e gs) \<and> \<not> isOpen (gs_connect target gs)"
  by (auto simp: gs_send_def isOpen_def gs_connect_def Let_def ready_of_def split: option.splits)

end
