(* ===== verification/QueueClient.thy ===== *)
theory QueueClient
  imports Http Session
begin

text \<open>
  \<open>features/matchmaking/lib/queue-client.ts\<close>: the decoders of what the match coordinator and the
  API answer, and the queue websocket. The decoders trust nothing: every field is checked with
  \<open>typeof\<close>. \<open>streamQueue\<close> is a machine over the events of its websocket and its abort signal;
  \<open>as_snapshot\<close> reads a JSON value at the declared type \<open>Snapshot\<close> (the source's \<open>as\<close>).
\<close>

section \<open>Requests\<close>

definition queue_http_base :: "runtime_config \<Rightarrow> string" where
  "queue_http_base cfg = strip_slash (normalizeHTTPBase (queueURL cfg))"

definition heartbeatQueue_request :: "runtime_config \<Rightarrow> auth_session \<Rightarrow> http_request" where
  "heartbeatQueue_request cfg session =
     (get_request (queue_http_base cfg @ ''/queue/heartbeat'') (bearer (s_accessToken session)))
       \<lparr>rq_method := ''POST''\<rparr>"

datatype queue_presence = QpQueueing | QpMatched | QpMissing

definition heartbeatQueue_response :: "http_response \<Rightarrow> queue_presence outcome" where
  "heartbeatQueue_response resp =
     (if \<not> rs_ok resp then Inl (JsError ''Queue unavailable'')
      else case json_of resp of
        Inl e \<Rightarrow> Inl e
      | Inr data \<Rightarrow>
          (let status = str_or [] (jfield data ''status'') in
           if status = ''queueing'' then Inr QpQueueing
           else if status = ''matched'' then Inr QpMatched
           else if status = ''missing'' then Inr QpMissing
           else Inl (JsError ''Queue unavailable'')))"

section \<open>Maintenance and lobby status\<close>

datatype maintenance_phase = MNormal | MWarning | MActive

record maintenance_status =
  mt_phase :: maintenance_phase
  mt_startsAt :: string
  mt_endsAt :: string
  mt_queuePaused :: bool
  mt_playPaused :: bool
  mt_message :: string

definition normalizeMaintenanceStatus :: "jv \<Rightarrow> maintenance_status option" where
  "normalizeMaintenanceStatus data =
     (if \<not> is_object data then None
      else
        let rawPhase = str_or ''normal'' (jfield data ''phase'');
            status =
              \<lparr>mt_phase = (if rawPhase = ''warning'' then MWarning else if rawPhase = ''active'' then MActive else MNormal),
               mt_startsAt = str_or [] (jfield data ''startsAt''),
               mt_endsAt = str_or [] (jfield data ''endsAt''),
               mt_queuePaused = truthy (jfield data ''queuePaused''),
               mt_playPaused = truthy (jfield data ''playPaused''),
               mt_message = str_or [] (jfield data ''message'')\<rparr>
        in if mt_phase status = MNormal \<and> \<not> mt_queuePaused status \<and> \<not> mt_playPaused status \<and>
              mt_message status = [] \<and> mt_startsAt status = [] \<and> mt_endsAt status = []
           then None else Some status)"

record lobby_status =
  lst_onlinePlayers :: "num option"
  lst_maintenance :: "maintenance_status option"

definition fetchLobbyStatus_request :: "runtime_config \<Rightarrow> http_request" where
  "fetchLobbyStatus_request cfg = get_request (queue_http_base cfg @ ''/queue/online'') []"

text \<open>\<open>fetchLobbyStatus\<close>: any failure reads as no information.\<close>

definition fetchLobbyStatus_response :: "http_response outcome \<Rightarrow> lobby_status" where
  "fetchLobbyStatus_response r =
     (let nothing = \<lparr>lst_onlinePlayers = None, lst_maintenance = None\<rparr> in
      case r of
        Inl _ \<Rightarrow> nothing
      | Inr resp \<Rightarrow>
          if \<not> rs_ok resp then nothing
          else (case json_of resp of
              Inl _ \<Rightarrow> nothing
            | Inr data \<Rightarrow>
                \<lparr>lst_onlinePlayers = num_opt (jfield data ''online''),
                 lst_maintenance = normalizeMaintenanceStatus (jfield data ''maintenance'')\<rparr>))"

section \<open>Assignments and match sessions\<close>

record live_assignment =
  la_matchId :: string
  la_mode :: string
  la_config :: "jv option"
  la_node :: string
  la_ticket :: string
  la_wsPath :: string
  la_sourceLobbyId :: "string option"
  la_sourceLobbyInviteCode :: "string option"

datatype queue_event =
  QueueStatusEvent string "real option"
| MatchAssignedEvent live_assignment
| QueueErrorEvent string

text \<open>\<open>typeof v === 'object' && v ? v : undefined\<close>.\<close>

definition object_opt :: "jv \<Rightarrow> jv option" where
  "object_opt v = (if is_object v then Some v else None)"

text \<open>The optional \<open>sourceLobby\<close> spread: present only with a non-empty invite code.\<close>

definition source_lobby :: "jv \<Rightarrow> string option \<times> string option" where
  "source_lobby data =
     (let code = str_or [] (jfield data ''sourceLobbyInviteCode'') in
      if code = [] then (None, None) else (Some (str_or [] (jfield data ''sourceLobbyId'')), Some code))"

definition read_assignment :: "string \<Rightarrow> jv \<Rightarrow> live_assignment" where
  "read_assignment fallbackMatchId data =
     \<lparr>la_matchId = str_or fallbackMatchId (jfield data ''matchId''),
      la_mode = str_or [] (jfield data ''mode''),
      la_config = object_opt (jfield data ''config''),
      la_node = str_or [] (jfield data ''node''),
      la_ticket = str_or [] (jfield data ''ticket''),
      la_wsPath = str_or [] (jfield data ''wsPath''),
      la_sourceLobbyId = fst (source_lobby data),
      la_sourceLobbyInviteCode = snd (source_lobby data)\<rparr>"

datatype match_session_response =
  LiveConnectable live_assignment
| LiveAuthRequired string
| History string "snapshot option" string "string option" "string option"
| Replaced string string "live_assignment option" "string option" "string option"
| Missing string
| Forbidden string

fun response_match_id :: "match_session_response \<Rightarrow> string" where
  "response_match_id (LiveConnectable a) = la_matchId a"
| "response_match_id (LiveAuthRequired i) = i"
| "response_match_id (History i _ _ _ _) = i"
| "response_match_id (Replaced i _ _ _ _) = i"
| "response_match_id (Missing i) = i"
| "response_match_id (Forbidden i) = i"

definition normalizeMatchSessionResponse ::
  "(jv \<Rightarrow> snapshot) \<Rightarrow> jv \<Rightarrow> string \<Rightarrow> match_session_response" where
  "normalizeMatchSessionResponse as_snapshot data fallbackMatchId =
     (let status = str_or ''missing'' (jfield data ''status'');
          sourceLobby = source_lobby data;
          matchId = str_or fallbackMatchId (jfield data ''matchId'');
          replacementMatchId = str_or [] (jfield data ''replacementMatchId'')
      in
      if status = ''live_connectable'' then LiveConnectable (read_assignment fallbackMatchId data)
      else if status = ''history'' then
        History matchId
          (if truthy (jfield data ''snapshot'') then Some (as_snapshot (jfield data ''snapshot'')) else None)
          replacementMatchId (fst sourceLobby) (snd sourceLobby)
      else if status = ''replaced'' then
        Replaced matchId replacementMatchId
          (if is_object (jfield data ''replacement'')
           then Some (read_assignment [] (jfield data ''replacement'')) else None)
          (fst sourceLobby) (snd sourceLobby)
      else if status = ''forbidden'' then Forbidden matchId
      else if status = ''live_auth_required'' then LiveAuthRequired matchId
      else Missing matchId)"

definition match_path :: "runtime_config \<Rightarrow> string \<Rightarrow> string \<Rightarrow> string" where
  "match_path cfg matchId tail =
     apiURL cfg @ ''/v1/matches/'' @ encodeURIComponent matchId @ tail"

definition resolveMatchRoute_request :: "runtime_config \<Rightarrow> string \<Rightarrow> string option \<Rightarrow> http_request" where
  "resolveMatchRoute_request cfg matchId accessToken =
     get_request (match_path cfg matchId ''/route'')
       (if opt_str accessToken = [] then [] else bearer (opt_str accessToken))"

definition fetchMatchSession_request :: "runtime_config \<Rightarrow> string \<Rightarrow> string \<Rightarrow> http_request" where
  "fetchMatchSession_request cfg accessToken matchId =
     get_request (match_path cfg matchId ''/session'') (bearer accessToken)"

text \<open>\<open>resolveMatchRoute\<close> and \<open>fetchMatchSession\<close> read their response alike.\<close>

definition match_session_of ::
  "(jv \<Rightarrow> snapshot) \<Rightarrow> string \<Rightarrow> http_response \<Rightarrow> match_session_response outcome" where
  "match_session_of as_snapshot matchId resp =
     (if \<not> rs_ok resp then Inr (Missing matchId)
      else map_sum id (\<lambda>data. normalizeMatchSessionResponse as_snapshot data matchId) (json_of resp))"

datatype resumable = NotResumable | ResumableMatch string string

definition fetchResumableSession_response :: "http_response \<Rightarrow> resumable outcome" where
  "fetchResumableSession_response resp =
     (if \<not> rs_ok resp then Inr NotResumable
      else case json_of resp of
        Inl e \<Rightarrow> Inl e
      | Inr data \<Rightarrow>
          if str_or [] (jfield data ''status'') = ''match''
          then Inr (ResumableMatch (str_or [] (jfield data ''matchId'')) (str_or [] (jfield data ''mode'')))
          else Inr NotResumable)"

record bootstrap_auth =
  ba_accessToken :: string
  ba_onboardingRequired :: bool
  ba_suggestedNickname :: string
  ba_user :: "(string \<times> bool) option"

definition bootstrapMatchSession_request :: "runtime_config \<Rightarrow> string \<Rightarrow> http_request" where
  "bootstrapMatchSession_request cfg matchId =
     (get_request (match_path cfg matchId ''/bootstrap'') [])\<lparr>rq_credentials := True\<rparr>"

definition bootstrapMatchSession_response ::
  "(jv \<Rightarrow> snapshot) \<Rightarrow> string \<Rightarrow> http_response \<Rightarrow> (bootstrap_auth \<times> match_session_response) option outcome" where
  "bootstrapMatchSession_response as_snapshot matchId resp =
     (if \<not> rs_ok resp then Inr None
      else case json_of resp of
        Inl e \<Rightarrow> Inl e
      | Inr data \<Rightarrow>
          (let auth = jfield data ''auth''; user = jfield auth ''user'' in
           Inr (Some
             (\<lparr>ba_accessToken = str_or [] (jfield auth ''accessToken''),
               ba_onboardingRequired = truthy (jfield auth ''onboardingRequired''),
               ba_suggestedNickname = str_or [] (jfield auth ''suggestedNickname''),
               ba_user = (if is_object user
                          then Some (str_or [] (jfield user ''id''), bool_or False (jfield user ''isGuest''))
                          else None)\<rparr>,
              normalizeMatchSessionResponse as_snapshot (jfield data ''match'') matchId))))"

definition startSingleplayerSession_request :: "runtime_config \<Rightarrow> string \<Rightarrow> http_request" where
  "startSingleplayerSession_request cfg accessToken =
     (get_request (apiURL cfg @ ''/v1/singleplayer/session'') (bearer accessToken))\<lparr>rq_method := ''POST''\<rparr>"

definition startSingleplayerSession_response :: "http_response \<Rightarrow> live_assignment outcome" where
  "startSingleplayerSession_response resp =
     (if \<not> rs_ok resp then Inl (JsError ''Singleplayer unavailable'')
      else map_sum id
        (\<lambda>data. (read_assignment [] data)
           \<lparr>la_config := None, la_sourceLobbyId := None, la_sourceLobbyInviteCode := None\<rparr>)
        (json_of resp))"

section \<open>The queue websocket\<close>

fun join_with :: "string \<Rightarrow> string list \<Rightarrow> string" where
  "join_with sep [] = []"
| "join_with sep [x] = x"
| "join_with sep (x # y # r) = x @ sep @ join_with sep (y # r)"

fun ruleset_name :: "ruleset \<Rightarrow> string" where
  "ruleset_name Moving = ''moving''"
| "ruleset_name Nmpz = ''nmpz''"

definition queue_target :: "runtime_config \<Rightarrow> auth_session \<Rightarrow> ruleset list \<Rightarrow> string" where
  "queue_target cfg session rulesets =
     strip_slash (normalizeWSBase (queueURL cfg)) @ ''/queue?accessToken='' @
     encodeURIComponent (s_accessToken session) @ ''&rulesets='' @
     encodeURIComponent (join_with '','' (map ruleset_name (if rulesets = [] then [Moving] else rulesets)))"

text \<open>What one message means: the event handed to the caller, if any.\<close>

definition queue_message :: "jv \<Rightarrow> queue_event option" where
  "queue_message msg =
     (let eventName = str_or [] (jfield msg ''type'');
          payload = or_empty_object (jfield msg ''payload'')
      in
      if eventName = ''queue_status'' then
        Some (QueueStatusEvent (or_text ''queueing'' (jfield payload ''status''))
                (finite_opt (jfield payload ''queuedAt'')))
      else if eventName = ''match_assigned'' then
        Some (MatchAssignedEvent
          ((read_assignment [] payload)
             \<lparr>la_sourceLobbyId := Some (str_or [] (jfield payload ''sourceLobbyId'')),
              la_sourceLobbyInviteCode := Some (str_or [] (jfield payload ''sourceLobbyInviteCode''))\<rparr>))
      else if eventName = ''queue_error'' then
        Some (QueueErrorEvent (or_text ''Queue failed'' (jfield payload ''message'')))
      else None)"

datatype stream_event = StreamWsError | StreamWsClose | StreamWsMessage "jv option" | StreamAbort

record queue_stream =
  qs_settled :: "unit outcome option"
  qs_assigned :: bool
  qs_aborted :: bool
  qs_wsClosed :: bool
  qs_listening :: bool
  qs_delivered :: "queue_event list"

definition new_queue_stream :: queue_stream where
  "new_queue_stream =
     \<lparr>qs_settled = None, qs_assigned = False, qs_aborted = False, qs_wsClosed = False,
      qs_listening = True, qs_delivered = []\<rparr>"

text \<open>\<open>settleResolve\<close> and \<open>settleReject\<close>: the first one wins and stops listening to the signal.\<close>

definition qs_settle :: "unit outcome \<Rightarrow> queue_stream \<Rightarrow> queue_stream" where
  "qs_settle r qs =
     (if qs_settled qs \<noteq> None then qs else qs\<lparr>qs_settled := Some r, qs_listening := False\<rparr>)"

text \<open>
  \<open>handler\<close> is the caller's \<open>onEvent\<close>: Some error where it throws. A websocket delivers no message
  once its owner has closed it.
\<close>

fun streamQueue_react :: "(queue_event \<Rightarrow> js_error option) \<Rightarrow> stream_event \<Rightarrow> queue_stream \<Rightarrow> queue_stream" where
  "streamQueue_react handler StreamWsError qs = qs_settle (Inl (JsError ''Queue unavailable'')) qs"
| "streamQueue_react handler StreamWsClose qs =
     (if qs_aborted qs then qs_settle (Inl AbortError) qs
      else if qs_assigned qs then qs_settle (Inr ()) qs
      else qs_settle (Inl (JsError ''Search cancelled'')) qs)\<lparr>qs_wsClosed := True\<rparr>"
| "streamQueue_react handler StreamAbort qs =
     (let qs1 = qs\<lparr>qs_aborted := True\<rparr> in
      if qs_listening qs then qs_settle (Inl AbortError) (qs1\<lparr>qs_wsClosed := True\<rparr>) else qs1)"
| "streamQueue_react handler (StreamWsMessage m) qs =
     (if qs_wsClosed qs then qs
      else case m of
        None \<Rightarrow> qs_settle (Inl (JsError ''Queue unavailable'')) qs
      | Some msg \<Rightarrow>
          (case queue_message msg of
             None \<Rightarrow> qs
           | Some ev \<Rightarrow>
               (let qs1 = qs\<lparr>qs_assigned := (qs_assigned qs \<or> (\<exists>a. ev = MatchAssignedEvent a)),
                             qs_delivered := qs_delivered qs @ [ev]\<rparr>
                in case handler ev of
                     None \<Rightarrow> qs1
                   | Some e \<Rightarrow> qs_settle (Inl e) qs1)))"

section \<open>Lemmas\<close>

lemma qs_settle_settled [simp]: "qs_settled (qs_settle r qs) = (if qs_settled qs = None then Some r else qs_settled qs)"
  by (simp add: qs_settle_def)

lemma qs_settle_other [simp]:
  "qs_delivered (qs_settle r qs) = qs_delivered qs"
  "qs_wsClosed (qs_settle r qs) = qs_wsClosed qs"
  "qs_aborted (qs_settle r qs) = qs_aborted qs"
  "qs_assigned (qs_settle r qs) = qs_assigned qs"
  by (simp_all add: qs_settle_def)

lemma streamQueue_settled_kept:
  "qs_settled qs = Some r \<Longrightarrow> qs_settled (streamQueue_react h e qs) = Some r"
  by (cases e) (auto simp: Let_def split: option.splits)

interpretation queue_promise: settle_once "streamQueue_react h" qs_settled
  by unfold_locales (rule streamQueue_settled_kept)

lemma normalize_match_id:
  "jfield data ''matchId'' = Str i \<Longrightarrow> response_match_id (normalizeMatchSessionResponse f data fb) = i"
  by (simp add: normalizeMatchSessionResponse_def Let_def read_assignment_def)

lemma normalize_match_id_fallback:
  "\<not> is_str (jfield data ''matchId'') \<Longrightarrow>
     response_match_id (normalizeMatchSessionResponse f data fb) = fb"
  by (cases "jfield data ''matchId''")
     (simp_all add: normalizeMatchSessionResponse_def Let_def read_assignment_def)

lemma normalizeMaintenance_Some:
  "normalizeMaintenanceStatus data = Some st \<Longrightarrow>
     mt_phase st \<noteq> MNormal \<or> mt_queuePaused st \<or> mt_playPaused st \<or> mt_message st \<noteq> [] \<or>
     mt_startsAt st \<noteq> [] \<or> mt_endsAt st \<noteq> []"
  by (auto simp: normalizeMaintenanceStatus_def Let_def split: if_splits)

text \<open>A resolved queue promise means that a match was assigned.\<close>

definition stream_inv :: "queue_stream \<Rightarrow> bool" where
  "stream_inv qs \<longleftrightarrow>
     (qs_settled qs = Some (Inr ()) \<longrightarrow> qs_assigned qs) \<and>
     (qs_assigned qs \<longrightarrow> (\<exists>a. MatchAssignedEvent a \<in> set (qs_delivered qs)))"

lemma stream_inv_react: "stream_inv qs \<Longrightarrow> stream_inv (streamQueue_react h e qs)"
  by (cases e) (auto simp: stream_inv_def Let_def split: option.splits)

interpretation queue_machine: invariant_machine "streamQueue_react h" stream_inv
  by unfold_locales (rule stream_inv_react)

lemma closed_delivers_nothing:
  "qs_wsClosed qs \<Longrightarrow>
     qs_delivered (fold (streamQueue_react h) es qs) = qs_delivered qs"
proof (induction es arbitrary: qs)
  case (Cons e es)
  have "qs_delivered (streamQueue_react h e qs) = qs_delivered qs \<and> qs_wsClosed (streamQueue_react h e qs)"
    using Cons.prems by (cases e) (auto simp: Let_def)
  then show ?case using Cons.IH by simp
qed simp

section \<open>Properties\<close>

text \<open>
  The queue promise settles once: whatever the socket and the signal do afterwards, its first
  outcome stays.
\<close>

theorem queue_promise_settles_once:
  assumes "qs_settled (fold (streamQueue_react h) es new_queue_stream) = Some r"
  shows "qs_settled (fold (streamQueue_react h) (es @ fs) new_queue_stream) = Some r"
  using queue_promise.outcome_stable [OF assms, of h fs] by simp

theorem queue_promise_settles_once_witness:
  "qs_settled (fold (streamQueue_react (\<lambda>_. None)) ([StreamWsError] @ [StreamWsClose, StreamAbort]) new_queue_stream)
     = Some (Inl (JsError ''Queue unavailable''))"
  by (rule queue_promise_settles_once) (simp add: new_queue_stream_def qs_settle_def)

text \<open>
  The queue promise resolves only if a match assignment has been handed to the caller before.
\<close>

theorem queue_resolves_after_assignment:
  assumes "qs_settled (fold (streamQueue_react h) es new_queue_stream) = Some (Inr ())"
  shows "\<exists>a. MatchAssignedEvent a \<in> set (qs_delivered (fold (streamQueue_react h) es new_queue_stream))"
proof -
  have "stream_inv new_queue_stream" by (simp add: stream_inv_def new_queue_stream_def)
  then have "stream_inv (fold (streamQueue_react h) es new_queue_stream)" by (rule queue_machine.run_inv)
  with assms show ?thesis by (simp add: stream_inv_def)
qed

text \<open>A coordinator's assignment message.\<close>

definition sample_assigned :: jv where
  "sample_assigned = Obj [(''type'', Str ''match_assigned''), (''payload'', Obj [(''matchId'', Str ''m1'')])]"

theorem queue_resolves_after_assignment_witness:
  "\<exists>a. MatchAssignedEvent a \<in> set (qs_delivered (fold (streamQueue_react (\<lambda>_. None))
     [StreamWsMessage (Some sample_assigned), StreamWsClose] new_queue_stream))"
  by (rule queue_resolves_after_assignment)
     (simp add: new_queue_stream_def qs_settle_def sample_assigned_def queue_message_def Let_def)

text \<open>
  Cancelling the search while the queue socket is pending rejects the promise with the abort
  and no event reaches the caller any more.
\<close>

theorem queue_abort_silences:
  assumes "qs_listening qs" and "qs_settled qs = None"
  shows "qs_settled (fold (streamQueue_react h) (StreamAbort # es) qs) = Some (Inl AbortError) \<and>
         qs_delivered (fold (streamQueue_react h) (StreamAbort # es) qs) = qs_delivered qs"
proof -
  have s: "qs_settled (streamQueue_react h StreamAbort qs) = Some (Inl AbortError)"
    and d: "qs_delivered (streamQueue_react h StreamAbort qs) = qs_delivered qs"
    and c: "qs_wsClosed (streamQueue_react h StreamAbort qs)"
    using assms by (simp_all add: Let_def)
  show ?thesis
    using queue_promise.outcome_stable [OF s, of h es] closed_delivers_nothing [OF c, of h es] d by simp
qed

theorem queue_abort_silences_witness:
  "qs_delivered (fold (streamQueue_react (\<lambda>_. None))
     [StreamAbort, StreamWsMessage (Some sample_assigned)] new_queue_stream) = []"
  using queue_abort_silences [of new_queue_stream "\<lambda>_. None" "[StreamWsMessage (Some sample_assigned)]"]
  by (simp add: new_queue_stream_def)

text \<open>
  A queue error rejects the promise but leaves the websocket open: an assignment that arrives
  afterwards is still handed to a caller whose search has already failed.
\<close>

theorem queue_error_keeps_delivering:
  assumes "qs_settled qs = None" and "\<not> qs_wsClosed qs"
    and "queue_message err = Some (QueueErrorEvent m)" and "queue_message asg = Some (MatchAssignedEvent a)"
    and "h (QueueErrorEvent m) = Some (JsError m)"
  defines "qs' \<equiv> fold (streamQueue_react h) [StreamWsMessage (Some err), StreamWsMessage (Some asg)] qs"
  shows "qs_settled qs' = Some (Inl (JsError m)) \<and>
         qs_delivered qs' = qs_delivered qs @ [QueueErrorEvent m, MatchAssignedEvent a]"
  using assms by (cases "h (MatchAssignedEvent a)") (simp_all add: Let_def)

theorem queue_error_keeps_delivering_witness:
  "qs_delivered (fold (streamQueue_react (\<lambda>ev. case ev of QueueErrorEvent m \<Rightarrow> Some (JsError m) | _ \<Rightarrow> None))
     [StreamWsMessage (Some (Obj [(''type'', Str ''queue_error'')])), StreamWsMessage (Some sample_assigned)]
     new_queue_stream)
   = [QueueErrorEvent ''Queue failed'',
      MatchAssignedEvent ((read_assignment [] (Obj [(''matchId'', Str ''m1'')]))
        \<lparr>la_sourceLobbyId := Some [], la_sourceLobbyInviteCode := Some []\<rparr>)]"
  using queue_error_keeps_delivering [of new_queue_stream "Obj [(''type'', Str ''queue_error'')]" "''Queue failed''"
      sample_assigned "(read_assignment [] (Obj [(''matchId'', Str ''m1'')]))
        \<lparr>la_sourceLobbyId := Some [], la_sourceLobbyInviteCode := Some []\<rparr>"
      "\<lambda>ev. case ev of QueueErrorEvent m \<Rightarrow> Some (JsError m) | _ \<Rightarrow> None"]
  by (simp add: new_queue_stream_def queue_message_def sample_assigned_def Let_def or_text_def)

text \<open>
  A match identifier cannot leave its path segment: the URL of a match request is the API's
  base, the fixed path, the encoded identifier made of safe characters only, and the fixed tail;
  different identifiers give different URLs.
\<close>

theorem match_path_safe:
  "match_path cfg i tail = apiURL cfg @ ''/v1/matches/'' @ encodeURIComponent i @ tail \<and>
   list_all url_safe (encodeURIComponent i) \<and>
   (match_path cfg i tail = match_path cfg j tail \<longleftrightarrow> i = j)"
  by (simp add: match_path_def encodeURIComponent_url_safe encodeURIComponent_inject)

end
