(* ===== verification/MatchController.thy ===== *)
theory MatchController
  imports GameplaySocket QueueClient Matchmaking
begin

text \<open>
  \<open>features/matchmaking/controllers/match-controller.ts\<close>: the controller that owns the match. A
  state is the observable \<open>match_state\<close>, the private fields, the identities of the abort
  controllers, and the asynchronous calls in flight: recoveries, queue searches and the start of a
  single-player match. An asynchronous method is one definition per segment between two awaits; what
  the segment leaves behind is its task. \<open>mc_out\<close> logs notifications, sounds and sign-outs in order.
  A segment runs at one instant: \<open>ambient\<close> holds the clock, the random number and the session the
  session controller shows at that time.
\<close>

section \<open>State\<close>

record match_state =
  m_matchmaking :: matchmaking_state
  m_connected :: bool
  m_snapshot :: "snapshot option"
  m_activeMatchId :: string
  m_sourceLobbyId :: string
  m_sourceLobbyInviteCode :: string
  m_queueError :: string
  m_connectionIssue :: string
  m_onlinePlayers :: int

definition initial_match_state :: match_state where
  "initial_match_state =
     \<lparr>m_matchmaking = initialMatchmakingState, m_connected = False, m_snapshot = None,
      m_activeMatchId = [], m_sourceLobbyId = [], m_sourceLobbyInviteCode = [],
      m_queueError = [], m_connectionIssue = [], m_onlinePlayers = 0\<rparr>"

datatype match_out = MEmit match_state | MClearAuth string | MSfx string | MSingleReturn string

text \<open>The calls in flight. A queue search goes on streaming after its promise has settled.\<close>

datatype recover_stage = REnsuring | RFetching string string

record recover_task =
  rk_id :: nat
  rk_intent :: int
  rk_abort :: nat
  rk_stage :: recover_stage

datatype queue_stage = QGetSession | QStreaming auth_session queue_stream bool

record queue_task =
  qk_ctrl :: nat
  qk_rulesets :: "ruleset list"
  qk_stage :: queue_stage

datatype single_stage = SgSession | SgFetch auth_session

record match_ctl =
  mc_state :: match_state
  mc_socket :: socket_client
  mc_autoRecoverEnabled :: bool
  mc_activeSession :: "auth_session option"
  mc_recoverInFlight :: bool
  mc_recoverRequestId :: nat
  mc_recoverAbort :: "nat option"
  mc_queueAbort :: "nat option"
  mc_singleplayerStartInFlight :: bool
  mc_lastSocketOpenedAt :: int
  mc_lastServerSeenAt :: int
  mc_heartbeat :: bool
  mc_firstSnapshotTimeout :: "string option"
  mc_awaitingFirstSnapshotMatchId :: string
  mc_firstSnapshotRecoverAttempts :: nat
  mc_destroyed :: bool
  mc_started :: bool
  mc_nextAbort :: nat
  mc_aborted :: "nat list"
  mc_recovers :: "recover_task list"
  mc_queues :: "queue_task list"
  mc_single :: "(nat \<times> single_stage) option"
  mc_out :: "match_out list"

definition new_match_ctl :: match_ctl where
  "new_match_ctl =
     \<lparr>mc_state = initial_match_state, mc_socket = new_socket_client, mc_autoRecoverEnabled = True,
      mc_activeSession = None, mc_recoverInFlight = False, mc_recoverRequestId = 0,
      mc_recoverAbort = None, mc_queueAbort = None, mc_singleplayerStartInFlight = False,
      mc_lastSocketOpenedAt = 0, mc_lastServerSeenAt = 0, mc_heartbeat = False,
      mc_firstSnapshotTimeout = None, mc_awaitingFirstSnapshotMatchId = [],
      mc_firstSnapshotRecoverAttempts = 0, mc_destroyed = False, mc_started = False,
      mc_nextAbort = 0, mc_aborted = [], mc_recovers = [], mc_queues = [], mc_single = None,
      mc_out = []\<rparr>"

record ambient =
  am_now :: int
  am_rnd :: nat
  am_session :: "auth_session option"

section \<open>Patching, aborting\<close>

definition mc_log :: "match_out \<Rightarrow> match_ctl \<Rightarrow> match_ctl" where
  [ctl_defs]: "mc_log x mc = mc\<lparr>mc_out := mc_out mc @ [x]\<rparr>"

definition mc_patchState :: "(match_state \<Rightarrow> match_state) \<Rightarrow> match_ctl \<Rightarrow> match_ctl" where
  [ctl_defs]: "mc_patchState f mc =
     (let mc' = mc\<lparr>mc_state := f (mc_state mc)\<rparr> in
      if mc_destroyed mc' then mc' else mc_log (MEmit (mc_state mc')) mc')"

definition dispatchMatchmaking :: "matchmaking_action \<Rightarrow> match_ctl \<Rightarrow> match_ctl" where
  "dispatchMatchmaking a = mc_patchState (m_matchmaking_update (\<lambda>m. matchmakingReducer m a))"

text \<open>
  \<open>controller.abort()\<close>: the first call marks the signal and wakes the queue socket listening to it;
  a later call does nothing.
\<close>

definition queue_error_thrown :: "queue_event \<Rightarrow> js_error option" where
  "queue_error_thrown ev = (case ev of QueueErrorEvent m \<Rightarrow> Some (JsError m) | _ \<Rightarrow> None)"

definition abort_stream :: "nat \<Rightarrow> queue_task \<Rightarrow> queue_task" where
  "abort_stream c tk =
     (case qk_stage tk of
        QStreaming s qs ended \<Rightarrow>
          if qk_ctrl tk = c
          then tk\<lparr>qk_stage := QStreaming s (streamQueue_react queue_error_thrown StreamAbort qs) ended\<rparr>
          else tk
      | QGetSession \<Rightarrow> tk)"

definition abort_controller :: "nat option \<Rightarrow> match_ctl \<Rightarrow> match_ctl" where
  "abort_controller co mc =
     (case co of
        None \<Rightarrow> mc
      | Some c \<Rightarrow>
          if c \<in> set (mc_aborted mc) then mc
          else mc\<lparr>mc_aborted := c # mc_aborted mc, mc_queues := map (abort_stream c) (mc_queues mc)\<rparr>)"

definition clearRecoverTracking :: "match_ctl \<Rightarrow> match_ctl" where
  "clearRecoverTracking mc =
     (let mc1 = mc\<lparr>mc_recoverInFlight := False, mc_recoverAbort := None\<rparr> in
      if mm_activeRecover (m_matchmaking (mc_state mc1)) = None then mc1
      else mc_patchState (m_matchmaking_update (mm_activeRecover_update (\<lambda>_. None))) mc1)"

definition clearFirstSnapshotTimeout :: "match_ctl \<Rightarrow> match_ctl" where
  "clearFirstSnapshotTimeout mc = mc\<lparr>mc_firstSnapshotTimeout := None\<rparr>"

definition close_socket :: "match_ctl \<Rightarrow> match_ctl" where
  "close_socket mc = mc\<lparr>mc_socket := gs_close True (mc_socket mc)\<rparr>"

section \<open>Lifecycle\<close>

definition mc_start :: "match_ctl \<Rightarrow> match_ctl" where
  "mc_start mc =
     (if mc_started mc then mc
      else mc\<lparr>mc_destroyed := False, mc_started := True, mc_heartbeat := True\<rparr>)"

definition mc_destroy :: "match_ctl \<Rightarrow> match_ctl" where
  "mc_destroy mc =
     (let mc0 = mc\<lparr>mc_destroyed := True, mc_started := False\<rparr>;
          mc1 = clearRecoverTracking (abort_controller (mc_recoverAbort mc0) mc0);
          mc2 = close_socket (clearFirstSnapshotTimeout (abort_controller (mc_queueAbort mc1) mc1))
      in mc2\<lparr>mc_heartbeat := False\<rparr>)"

definition setAutoRecoverEnabled :: "bool \<Rightarrow> match_ctl \<Rightarrow> match_ctl" where
  "setAutoRecoverEnabled enabled mc =
     (let mc0 = mc\<lparr>mc_autoRecoverEnabled := enabled\<rparr> in
      if enabled then mc0 else clearRecoverTracking (abort_controller (mc_recoverAbort mc0) mc0))"

definition resetConnectionState :: "match_ctl \<Rightarrow> match_ctl" where
  "resetConnectionState mc =
     (let mc1 = clearRecoverTracking (abort_controller (mc_recoverAbort mc) mc);
          mc2 = close_socket (clearFirstSnapshotTimeout (abort_controller (mc_queueAbort mc1) mc1));
          mc3 = mc2\<lparr>mc_activeSession := None, mc_lastSocketOpenedAt := 0, mc_lastServerSeenAt := 0\<rparr>
      in mc_patchState (\<lambda>st. st
           \<lparr>m_connected := False, m_snapshot := None, m_activeMatchId := [], m_sourceLobbyId := [],
            m_sourceLobbyInviteCode := [], m_queueError := [], m_connectionIssue := []\<rparr>) mc3)"

definition setConnectionIssue :: "string \<Rightarrow> match_ctl \<Rightarrow> match_ctl" where
  "setConnectionIssue v = mc_patchState (m_connectionIssue_update (\<lambda>_. v))"

definition setStatus :: "matchmaking_status \<Rightarrow> match_ctl \<Rightarrow> match_ctl" where
  "setStatus status = dispatchMatchmaking (SetStatus status None)"

section \<open>Connection health\<close>

definition noteServerActivity :: "runtime_config \<Rightarrow> int \<Rightarrow> match_ctl \<Rightarrow> match_ctl" where
  "noteServerActivity cfg now mc =
     (let mc1 = mc\<lparr>mc_lastServerSeenAt := now\<rparr>; st = mc_state mc1;
          nextQueueError =
            (if m_queueError st = connectionErrorMessage cfg then [] else m_queueError st)
      in if m_connected st \<and> m_connectionIssue st = [] \<and> m_queueError st = nextQueueError then mc1
         else mc_patchState (\<lambda>st. st
           \<lparr>m_connected := True, m_connectionIssue := [], m_queueError := nextQueueError\<rparr>) mc1)"

definition markConnectionUnhealthy :: "string \<Rightarrow> bool \<Rightarrow> match_ctl \<Rightarrow> match_ctl" where
  "markConnectionUnhealthy message forceReconnect mc =
     (let mc1 = mc_patchState (\<lambda>st. st
            \<lparr>m_connected := False, m_connectionIssue := message,
             m_queueError := (if mm_status (m_matchmaking st) = Queueing then message else m_queueError st)\<rparr>) mc
      in if \<not> forceReconnect then mc1
         else if \<not> isOpenOrConnecting (mc_socket mc1) then mc1
         else close_socket mc1)"

definition session_user :: "auth_session option \<Rightarrow> string" where
  "session_user so = (case so of None \<Rightarrow> [] | Some s \<Rightarrow> s_userId s)"

record send_options =
  so_errorMessage :: "string option"
  so_forceReconnect :: bool
  so_silent :: bool

definition ping_options :: send_options where
  "ping_options = \<lparr>so_errorMessage = None, so_forceReconnect = True, so_silent = True\<rparr>"

text \<open>On an open socket \<open>send\<close> does not throw: the \<open>catch\<close> of the source is never entered.\<close>

definition sendGameCommand ::
  "runtime_config \<Rightarrow> ambient \<Rightarrow> string \<Rightarrow> jv \<Rightarrow> send_options \<Rightarrow> match_ctl \<Rightarrow> bool \<times> match_ctl" where
  "sendGameCommand cfg amb kind payload options mc =
     (if \<not> isOpen (mc_socket mc) then
        (False,
         if so_silent options then mc
         else markConnectionUnhealthy
           (case so_errorMessage options of None \<Rightarrow> connectionErrorMessage cfg | Some e \<Rightarrow> e)
           (so_forceReconnect options) mc)
      else
        let sender = or_str (or_str (session_user (mc_activeSession mc)) (session_user (am_session amb))) ''anon'';
            cmd = \<lparr>gc_commandId = sender @ ''-'' @ int_str (am_now amb) @ ''-'' @ nat_str (am_rnd amb),
                   gc_type = kind, gc_payload = payload, gc_sentAt = am_now amb\<rparr>;
            r = gs_send cmd (mc_socket mc)
        in (fst r, mc\<lparr>mc_socket := snd r\<rparr>))"

text \<open>The callback of the heartbeat interval.\<close>

definition heartbeatTick :: "runtime_config \<Rightarrow> ambient \<Rightarrow> match_ctl \<Rightarrow> match_ctl" where
  "heartbeatTick cfg amb mc =
     (if \<not> isOpen (mc_socket mc) then mc
      else
        let lastSeen = max (mc_lastSocketOpenedAt mc) (mc_lastServerSeenAt mc) in
        if 0 < lastSeen \<and> socketStaleAfterMs cfg < am_now amb - lastSeen
        then markConnectionUnhealthy (connectionErrorMessage cfg) True mc
        else snd (sendGameCommand cfg amb ''ping''
          (Obj [(''userId'', Str (session_user (mc_activeSession mc)))]) ping_options mc))"

section \<open>Connecting to a match\<close>

definition startFirstSnapshotTimeout :: "string \<Rightarrow> match_ctl \<Rightarrow> match_ctl" where
  "startFirstSnapshotTimeout target mc =
     (if target = [] then mc
      else (clearFirstSnapshotTimeout mc)
        \<lparr>mc_awaitingFirstSnapshotMatchId := target, mc_firstSnapshotTimeout := Some target\<rparr>)"

definition connectToAssignedGame ::
  "runtime_config \<Rightarrow> auth_session \<Rightarrow> live_assignment \<Rightarrow> match_ctl \<Rightarrow> match_ctl" where
  "connectToAssignedGame cfg session a mc =
     (if s_userId session = [] \<or> s_accessToken session = [] then mc
      else
        let mc1 = mc_patchState (\<lambda>st. st
              \<lparr>m_activeMatchId := or_str (la_matchId a) (m_activeMatchId st),
               m_sourceLobbyId := opt_str (la_sourceLobbyId a),
               m_sourceLobbyInviteCode := opt_str (la_sourceLobbyInviteCode a)\<rparr>)
              (mc\<lparr>mc_activeSession := Some session\<rparr>);
            mc2 = mc1\<lparr>mc_socket :=
              gs_connect (connect_target cfg (la_node a) (la_wsPath a) (la_ticket a)) (mc_socket mc1)\<rparr>
        in startFirstSnapshotTimeout (or_str (la_matchId a) (m_activeMatchId (mc_state mc2))) mc2)"

section \<open>Recovery\<close>

text \<open>\<open>startRecover\<close> up to \<open>await ensureFreshSession()\<close>.\<close>

definition startRecover :: "auth_session \<Rightarrow> match_ctl \<Rightarrow> match_ctl" where
  "startRecover session mc =
     (if s_userId session = [] \<or> s_accessToken session = [] \<or> s_onboardingRequired session then mc
      else if mc_recoverInFlight mc \<or> mm_activeRecover (m_matchmaking (mc_state mc)) \<noteq> None then mc
      else
        let requestID = mc_recoverRequestId mc + 1;
            controller = mc_nextAbort mc;
            mc1 = mc\<lparr>mc_recoverRequestId := requestID, mc_nextAbort := controller + 1,
                     mc_recoverInFlight := True, mc_recoverAbort := Some controller,
                     mc_recovers := mc_recovers mc @
                       [\<lparr>rk_id = requestID,
                         rk_intent = mm_intentVersion (m_matchmaking (mc_state mc)),
                         rk_abort = controller, rk_stage = REnsuring\<rparr>]\<rparr>
        in dispatchMatchmaking (RecoverStarted requestID) mc1)"

text \<open>The end of the method: its \<open>finally\<close> block.\<close>

definition finish_recover :: "recover_task \<Rightarrow> match_ctl \<Rightarrow> match_ctl" where
  "finish_recover tk mc =
     (let mc1 = mc\<lparr>mc_recovers := filter (\<lambda>t. rk_id t \<noteq> rk_id tk) (mc_recovers mc)\<rparr> in
      if mc_recoverAbort mc1 = Some (rk_abort tk)
      then mc1\<lparr>mc_recoverInFlight := False, mc_recoverAbort := None\<rparr> else mc1)"

definition fail_recover :: "recover_task \<Rightarrow> match_ctl \<Rightarrow> match_ctl" where
  "fail_recover tk mc = finish_recover tk (dispatchMatchmaking (RecoverFailed (rk_id tk)) mc)"

definition recover_target :: "match_state \<Rightarrow> string" where
  "recover_target st =
     or_str (m_activeMatchId st) (case m_snapshot st of None \<Rightarrow> [] | Some sn \<Rightarrow> sn_matchId sn)"

text \<open>
  From the session to \<open>await fetchMatchSession\<close>. Signing out runs the runtime's reset callback, which
  resets this controller.
\<close>

definition recover_ensured :: "recover_task \<Rightarrow> auth_session option outcome \<Rightarrow> match_ctl \<Rightarrow> match_ctl" where
  "recover_ensured tk answer mc =
     (case answer of
        Inl _ \<Rightarrow> fail_recover tk mc
      | Inr None \<Rightarrow>
          finish_recover tk (resetConnectionState
            (mc_log (MClearAuth ''Session expired. Please sign in again.'')
              (dispatchMatchmaking (RecoverFailed (rk_id tk)) mc)))
      | Inr (Some session) \<Rightarrow>
          (let target = recover_target (mc_state mc) in
           if target = [] then fail_recover tk mc
           else mc\<lparr>mc_recovers := map (\<lambda>t. if rk_id t = rk_id tk
                then t\<lparr>rk_stage := RFetching (s_accessToken session) target\<rparr> else t) (mc_recovers mc)\<rparr>))"

definition resolve_recover :: "recover_task \<Rightarrow> recover_outcome \<Rightarrow> bool \<Rightarrow> match_ctl \<Rightarrow> match_ctl" where
  "resolve_recover tk out hasSnapshot =
     dispatchMatchmaking (RecoverResolved (rk_id tk) (rk_intent tk) out hasSnapshot)"

definition abandon_recover :: "recover_task \<Rightarrow> string \<Rightarrow> match_ctl \<Rightarrow> match_ctl" where
  "abandon_recover tk issue mc =
     resolve_recover tk OutAbandoned False
       (mc_patchState (\<lambda>st. st\<lparr>m_snapshot := None, m_connectionIssue := issue\<rparr>) mc)"

text \<open>The rest of the method, when the match session has arrived.\<close>

definition recover_fetched ::
  "runtime_config \<Rightarrow> auth_session option \<Rightarrow> recover_task \<Rightarrow> match_session_response outcome \<Rightarrow> match_ctl \<Rightarrow> match_ctl" where
  "recover_fetched cfg sess tk answer mc =
     (case answer of
        Inl _ \<Rightarrow> fail_recover tk mc
      | Inr (LiveConnectable a) \<Rightarrow>
          (case sess of
             None \<Rightarrow> fail_recover tk mc
           | Some recovered \<Rightarrow>
               finish_recover tk (connectToAssignedGame cfg recovered a
                 (resolve_recover tk OutMatched (m_snapshot (mc_state mc) \<noteq> None) mc)))
      | Inr (History i snap _ _ _) \<Rightarrow>
          finish_recover tk (resolve_recover tk OutReady True
            (mc_patchState (\<lambda>st. st\<lparr>m_snapshot := snap, m_activeMatchId := i, m_connectionIssue := []\<rparr>) mc))
      | Inr (Replaced _ _ _ _ _) \<Rightarrow>
          finish_recover tk (abandon_recover tk ''This match was replaced by another session.'' mc)
      | Inr _ \<Rightarrow> finish_recover tk (abandon_recover tk ''Match unavailable.'' mc))"

text \<open>The callback of the first-snapshot timer, which has fired for \<open>target\<close>.\<close>

definition firstSnapshotTimedOut :: "auth_session option \<Rightarrow> string \<Rightarrow> match_ctl \<Rightarrow> match_ctl" where
  "firstSnapshotTimedOut sess target mc =
     (if mc_destroyed mc \<or> map_option sn_matchId (m_snapshot (mc_state mc)) = Some target then mc
      else
        let session = nullish (mc_activeSession mc) sess;
            mc1 = mc_patchState (\<lambda>st. st
              \<lparr>m_connected := False, m_connectionIssue := ''Still trying to join the live match...''\<rparr>)
              (close_socket mc)
        in case session of
             None \<Rightarrow>
               setConnectionIssue ''Could not join the live match. Please retry.''
                 (dispatchMatchmaking (SetStatus Abandoned (Some False)) mc1)
           | Some s \<Rightarrow>
               if 3 \<le> mc_firstSnapshotRecoverAttempts mc1 then
                 setConnectionIssue ''Could not join the live match. Please retry.''
                   (dispatchMatchmaking (SetStatus Abandoned (Some False)) mc1)
               else startRecover s (dispatchMatchmaking WsClosed
                 (mc1\<lparr>mc_firstSnapshotRecoverAttempts := mc_firstSnapshotRecoverAttempts mc1 + 1\<rparr>)))"

section \<open>The socket's handlers\<close>

definition onSnapshot :: "runtime_config \<Rightarrow> int \<Rightarrow> snapshot \<Rightarrow> match_ctl \<Rightarrow> match_ctl" where
  "onSnapshot cfg now snap mc =
     (if (case m_snapshot (mc_state mc) of
            None \<Rightarrow> False
          | Some old \<Rightarrow> sn_matchId old = sn_matchId snap \<and> sn_eventSequence snap < sn_eventSequence old)
      then mc
      else
        let mc1 = (if sn_matchId snap \<noteq> [] \<and> sn_matchId snap = mc_awaitingFirstSnapshotMatchId mc
                   then (clearFirstSnapshotTimeout mc)
                     \<lparr>mc_awaitingFirstSnapshotMatchId := [], mc_firstSnapshotRecoverAttempts := 0\<rparr>
                   else mc)
        in mc_patchState (\<lambda>st. st
             \<lparr>m_activeMatchId := or_str (sn_matchId snap) (m_activeMatchId st), m_snapshot := Some snap\<rparr>)
             (noteServerActivity cfg now mc1))"

definition onClose :: "runtime_config \<Rightarrow> bool \<Rightarrow> match_ctl \<Rightarrow> match_ctl" where
  "onClose cfg expected mc =
     (let mc1 = mc_patchState (m_connected_update (\<lambda>_. False)) mc in
      if expected then mc1
      else if m_snapshot (mc_state mc1) = None \<and> m_activeMatchId (mc_state mc1) = [] then mc1
      else
        let mc2 = dispatchMatchmaking WsClosed (setConnectionIssue (gameConnectionErrorMessage cfg) mc1)
        in case mc_activeSession mc2 of None \<Rightarrow> mc2 | Some s \<Rightarrow> startRecover s mc2)"

definition onOpen :: "runtime_config \<Rightarrow> ambient \<Rightarrow> match_ctl \<Rightarrow> match_ctl" where
  "onOpen cfg amb mc =
     snd (sendGameCommand cfg amb ''ping'' (Obj []) ping_options
       (dispatchMatchmaking GameConnected
         (mc_patchState (\<lambda>st. st\<lparr>m_connected := False, m_connectionIssue := []\<rparr>)
           (mc\<lparr>mc_lastSocketOpenedAt := am_now amb\<rparr>))))"

fun handle_socket :: "runtime_config \<Rightarrow> ambient \<Rightarrow> handler_call \<Rightarrow> match_ctl \<Rightarrow> match_ctl" where
  "handle_socket cfg amb HOpen mc = onOpen cfg amb mc"
| "handle_socket cfg amb (HClose expected) mc = onClose cfg expected mc"
| "handle_socket cfg amb HError mc = markConnectionUnhealthy (gameConnectionErrorMessage cfg) False mc"
| "handle_socket cfg amb HActivity mc = noteServerActivity cfg (am_now amb) mc"
| "handle_socket cfg amb (HSnapshot snap) mc = onSnapshot cfg (am_now amb) snap mc"
| "handle_socket cfg amb (HAckError message) mc = mc_patchState (m_queueError_update (\<lambda>_. message)) mc"
| "handle_socket cfg amb HProtocolError mc = markConnectionUnhealthy (gameConnectionErrorMessage cfg) True mc"

definition on_socket ::
  "runtime_config \<Rightarrow> (jv \<Rightarrow> snapshot) \<Rightarrow> ambient \<Rightarrow> socket_event \<Rightarrow> match_ctl \<Rightarrow> match_ctl" where
  "on_socket cfg as_snapshot amb e mc =
     (let r = socket_react as_snapshot e (mc_socket mc) in
      fold (handle_socket cfg amb) (snd r) (mc\<lparr>mc_socket := fst r\<rparr>))"

section \<open>Resuming a resolved match\<close>

definition playMatchFoundSfx :: "match_ctl \<Rightarrow> match_ctl" where
  "playMatchFoundSfx = mc_log (MSfx ''duel-game-start'')"

text \<open>
  \<open>resumeResolvedMatch\<close> once \<open>getSessionSnapshot() || await ensureFreshSession()\<close> has given
  \<open>session\<close>.
\<close>

definition resumeResolvedMatch ::
  "runtime_config \<Rightarrow> auth_session option \<Rightarrow> live_assignment \<Rightarrow> bool \<Rightarrow> match_ctl \<Rightarrow> bool \<times> match_ctl" where
  "resumeResolvedMatch cfg session a playSfx mc =
     (case session of
        None \<Rightarrow> (False, mc)
      | Some s \<Rightarrow>
          if la_node a = [] \<or> la_ticket a = [] then (False, mc)
          else
            let mc1 = dispatchMatchmaking (SetStatus MatchedConnecting None)
                  (mc_patchState (\<lambda>st. st\<lparr>m_queueError := [], m_connectionIssue := []\<rparr>) mc);
                mc2 = (if playSfx then playMatchFoundSfx mc1 else mc1)
            in (True, connectToAssignedGame cfg s a mc2))"

section \<open>The queue\<close>

definition set_queue_error :: "string \<Rightarrow> match_ctl \<Rightarrow> match_ctl" where
  "set_queue_error v = mc_patchState (m_queueError_update (\<lambda>_. v))"

text \<open>\<open>joinQueue\<close> up to \<open>await getPlayableSession()\<close>.\<close>

definition joinQueue :: "ruleset list \<Rightarrow> match_ctl \<Rightarrow> match_ctl" where
  "joinQueue rulesets mc =
     (let mc1 = abort_controller (mc_recoverAbort mc) mc;
          mc2 = set_queue_error [] (abort_controller (mc_queueAbort mc1) mc1);
          controller = mc_nextAbort mc2
      in mc2\<lparr>mc_nextAbort := controller + 1, mc_queueAbort := Some controller,
             mc_queues := mc_queues mc2 @
               [\<lparr>qk_ctrl = controller, qk_rulesets = rulesets, qk_stage = QGetSession\<rparr>]\<rparr>)"

text \<open>The \<open>finally\<close> block and the \<open>catch\<close> block.\<close>

definition release_queue :: "nat \<Rightarrow> match_ctl \<Rightarrow> match_ctl" where
  "release_queue c mc = (if mc_queueAbort mc = Some c then mc\<lparr>mc_queueAbort := None\<rparr> else mc)"

definition queue_failed :: "js_error \<Rightarrow> match_ctl \<Rightarrow> match_ctl" where
  "queue_failed e mc =
     (case e of
        AbortError \<Rightarrow> mc
      | JsError m \<Rightarrow> dispatchMatchmaking QueueErrorA (set_queue_error (or_str m ''Queue failed'') mc))"

definition drop_queue :: "nat \<Rightarrow> match_ctl \<Rightarrow> match_ctl" where
  "drop_queue c mc = mc\<lparr>mc_queues := filter (\<lambda>t. qk_ctrl t \<noteq> c) (mc_queues mc)\<rparr>"

definition set_queue_stage :: "nat \<Rightarrow> queue_stage \<Rightarrow> match_ctl \<Rightarrow> match_ctl" where
  "set_queue_stage c stage mc =
     mc\<lparr>mc_queues := map (\<lambda>t. if qk_ctrl t = c then t\<lparr>qk_stage := stage\<rparr> else t) (mc_queues mc)\<rparr>"

text \<open>
  From the session to \<open>await streamQueue(...)\<close>. A signal that is already aborted when the queue
  socket opens fires no event any more.
\<close>

definition queue_session :: "int \<Rightarrow> nat \<Rightarrow> auth_session option outcome \<Rightarrow> match_ctl \<Rightarrow> match_ctl" where
  "queue_session now c answer mc =
     (case answer of
        Inl e \<Rightarrow> drop_queue c (release_queue c (queue_failed e mc))
      | Inr None \<Rightarrow>
          drop_queue c (release_queue c
            (dispatchMatchmaking QueueErrorA (set_queue_error ''Unable to create session'' mc)))
      | Inr (Some s) \<Rightarrow>
          set_queue_stage c
            (QStreaming s (new_queue_stream\<lparr>qs_aborted := (c \<in> set (mc_aborted mc))\<rparr>) False)
            (dispatchMatchmaking (JoinRequested (Some (of_int now))) mc))"

text \<open>The \<open>onEvent\<close> callback; what it throws is \<open>queue_error_thrown\<close>.\<close>

definition queue_onEvent :: "runtime_config \<Rightarrow> auth_session \<Rightarrow> queue_event \<Rightarrow> match_ctl \<Rightarrow> match_ctl" where
  "queue_onEvent cfg session ev mc =
     (case ev of
        QueueStatusEvent status queuedAt \<Rightarrow> dispatchMatchmaking (QueueStatus status queuedAt) mc
      | MatchAssignedEvent a \<Rightarrow>
          (let mc1 = playMatchFoundSfx (set_queue_error []
                 ((dispatchMatchmaking MatchFound mc)\<lparr>mc_queueAbort := None\<rparr>))
           in if la_node a \<noteq> [] \<and> la_ticket a \<noteq> [] then connectToAssignedGame cfg session a mc1 else mc1)
      | QueueErrorEvent _ \<Rightarrow> mc)"

text \<open>An event of the queue socket of the search \<open>c\<close>.\<close>

definition queue_stream_event :: "runtime_config \<Rightarrow> nat \<Rightarrow> stream_event \<Rightarrow> match_ctl \<Rightarrow> match_ctl" where
  "queue_stream_event cfg c e mc =
     (case find (\<lambda>t. qk_ctrl t = c) (mc_queues mc) of
        Some tk \<Rightarrow>
          (case qk_stage tk of
             QStreaming s qs ended \<Rightarrow>
               (let qs' = streamQueue_react queue_error_thrown e qs in
                fold (queue_onEvent cfg s) (drop (length (qs_delivered qs)) (qs_delivered qs'))
                  (set_queue_stage c (QStreaming s qs' ended) mc))
           | QGetSession \<Rightarrow> mc)
      | None \<Rightarrow> mc)"

text \<open>The method goes on once the promise of \<open>streamQueue\<close> has settled.\<close>

definition queue_settled :: "nat \<Rightarrow> match_ctl \<Rightarrow> match_ctl" where
  "queue_settled c mc =
     (case find (\<lambda>t. qk_ctrl t = c) (mc_queues mc) of
        Some tk \<Rightarrow>
          (case qk_stage tk of
             QStreaming s qs ended \<Rightarrow>
               (case qs_settled qs of
                  Some r \<Rightarrow>
                    if ended then mc
                    else release_queue c
                      (case r of Inl e \<Rightarrow> queue_failed e (set_queue_stage c (QStreaming s qs True) mc)
                       | Inr _ \<Rightarrow> set_queue_stage c (QStreaming s qs True) mc)
                | None \<Rightarrow> mc)
           | QGetSession \<Rightarrow> mc)
      | None \<Rightarrow> mc)"

definition cancelQueue :: "auth_session option \<Rightarrow> match_ctl \<Rightarrow> match_ctl" where
  "cancelQueue sess mc =
     (case sess of
        None \<Rightarrow> mc
      | Some _ \<Rightarrow>
          (let mc1 = abort_controller (mc_recoverAbort mc) mc in
           set_queue_error [] (dispatchMatchmaking LeaveRequested (abort_controller (mc_queueAbort mc1) mc1))))"

section \<open>Single player\<close>

definition startSingleplayer :: "match_ctl \<Rightarrow> match_ctl" where
  "startSingleplayer mc =
     (if mc_singleplayerStartInFlight mc then mc_log (MSingleReturn []) mc
      else
        let mc1 = abort_controller (mc_recoverAbort mc) (mc\<lparr>mc_singleplayerStartInFlight := True\<rparr>);
            mc2 = dispatchMatchmaking (SetStatus MatchedConnecting None)
              (mc_patchState (\<lambda>st. st\<lparr>m_queueError := [], m_connectionIssue := []\<rparr>)
                (abort_controller (mc_queueAbort mc1) mc1));
            controller = mc_nextAbort mc2
        in mc2\<lparr>mc_nextAbort := controller + 1, mc_queueAbort := Some controller,
               mc_single := Some (controller, SgSession)\<rparr>)"

text \<open>Returning from the method: the \<open>finally\<close> block, then the result.\<close>

definition finish_single :: "nat \<Rightarrow> string \<Rightarrow> match_ctl \<Rightarrow> match_ctl" where
  "finish_single c result mc =
     mc_log (MSingleReturn result)
       (release_queue c (mc\<lparr>mc_singleplayerStartInFlight := False, mc_single := None\<rparr>))"

definition single_failed :: "nat \<Rightarrow> js_error \<Rightarrow> match_ctl \<Rightarrow> match_ctl" where
  "single_failed c e mc =
     finish_single c []
       (case e of
          AbortError \<Rightarrow> mc
        | JsError m \<Rightarrow>
            dispatchMatchmaking (SetStatus Ready None)
              (set_queue_error (or_str m ''Singleplayer unavailable'') mc))"

definition single_session :: "nat \<Rightarrow> auth_session option outcome \<Rightarrow> match_ctl \<Rightarrow> match_ctl" where
  "single_session c answer mc =
     (case answer of
        Inl e \<Rightarrow> single_failed c e mc
      | Inr None \<Rightarrow>
          finish_single c []
            (dispatchMatchmaking (SetStatus Ready None) (set_queue_error ''Unable to create session'' mc))
      | Inr (Some s) \<Rightarrow> mc\<lparr>mc_single := Some (c, SgFetch s)\<rparr>)"

definition single_fetched ::
  "runtime_config \<Rightarrow> auth_session \<Rightarrow> nat \<Rightarrow> live_assignment outcome \<Rightarrow> match_ctl \<Rightarrow> match_ctl" where
  "single_fetched cfg s c answer mc =
     (case answer of
        Inl e \<Rightarrow> single_failed c e mc
      | Inr a \<Rightarrow>
          if la_node a = [] \<or> la_ticket a = [] then single_failed c (JsError ''Singleplayer unavailable'') mc
          else if mc_queueAbort mc \<noteq> Some c then finish_single c [] mc
          else finish_single c (la_matchId a)
            (connectToAssignedGame cfg s (a\<lparr>la_sourceLobbyId := None, la_sourceLobbyInviteCode := None\<rparr>) mc))"

section \<open>Steps\<close>

text \<open>
  Everything that can happen to the controller: calls of its methods, and the answers, timers and
  sockets of the browser. A fetch whose signal is aborted rejects with the abort.
\<close>

datatype match_event =
  EvStart | EvDestroy | EvReset | EvAutoRecover bool | EvIssue string | EvStatus matchmaking_status
| EvSocket socket_event | EvHeartbeat | EvFirstSnapshot
| EvCommand string jv send_options
| EvResume "auth_session option" live_assignment bool
| EvRecoverEnsured nat "auth_session option outcome"
| EvRecoverFetched nat "match_session_response outcome"
| EvJoinQueue "ruleset list" | EvQueueSession nat "auth_session option outcome"
| EvQueueStream nat stream_event | EvQueueSettled nat | EvCancelQueue
| EvSingle | EvSingleSession "auth_session option outcome" | EvSingleFetched "live_assignment outcome"

definition unless_aborted :: "nat \<Rightarrow> match_ctl \<Rightarrow> 'a outcome \<Rightarrow> 'a outcome" where
  "unless_aborted c mc r = (if c \<in> set (mc_aborted mc) then Inl AbortError else r)"

definition step_recover_ensured :: "nat \<Rightarrow> auth_session option outcome \<Rightarrow> match_ctl \<Rightarrow> match_ctl" where
  "step_recover_ensured i answer mc =
     (case find (\<lambda>t. rk_id t = i) (mc_recovers mc) of
        Some tk \<Rightarrow> (case rk_stage tk of REnsuring \<Rightarrow> recover_ensured tk answer mc | RFetching _ _ \<Rightarrow> mc)
      | None \<Rightarrow> mc)"

definition step_recover_fetched ::
  "runtime_config \<Rightarrow> auth_session option \<Rightarrow> nat \<Rightarrow> match_session_response outcome \<Rightarrow> match_ctl \<Rightarrow> match_ctl" where
  "step_recover_fetched cfg sess i answer mc =
     (case find (\<lambda>t. rk_id t = i) (mc_recovers mc) of
        Some tk \<Rightarrow>
          (case rk_stage tk of
             RFetching _ _ \<Rightarrow> recover_fetched cfg sess tk (unless_aborted (rk_abort tk) mc answer) mc
           | REnsuring \<Rightarrow> mc)
      | None \<Rightarrow> mc)"

definition step_queue_session :: "int \<Rightarrow> nat \<Rightarrow> auth_session option outcome \<Rightarrow> match_ctl \<Rightarrow> match_ctl" where
  "step_queue_session now c answer mc =
     (case find (\<lambda>t. qk_ctrl t = c) (mc_queues mc) of
        Some tk \<Rightarrow> (case qk_stage tk of QGetSession \<Rightarrow> queue_session now c answer mc | QStreaming _ _ _ \<Rightarrow> mc)
      | None \<Rightarrow> mc)"

fun match_step ::
  "runtime_config \<Rightarrow> (jv \<Rightarrow> snapshot) \<Rightarrow> ambient \<Rightarrow> match_event \<Rightarrow> match_ctl \<Rightarrow> match_ctl" where
  "match_step cfg f amb EvStart mc = mc_start mc"
| "match_step cfg f amb EvDestroy mc = mc_destroy mc"
| "match_step cfg f amb EvReset mc = resetConnectionState mc"
| "match_step cfg f amb (EvAutoRecover b) mc = setAutoRecoverEnabled b mc"
| "match_step cfg f amb (EvIssue v) mc = setConnectionIssue v mc"
| "match_step cfg f amb (EvStatus st) mc = setStatus st mc"
| "match_step cfg f amb (EvSocket e) mc = on_socket cfg f amb e mc"
| "match_step cfg f amb EvHeartbeat mc = (if mc_heartbeat mc then heartbeatTick cfg amb mc else mc)"
| "match_step cfg f amb EvFirstSnapshot mc =
     (case mc_firstSnapshotTimeout mc of
        None \<Rightarrow> mc
      | Some target \<Rightarrow> firstSnapshotTimedOut (am_session amb) target (clearFirstSnapshotTimeout mc))"
| "match_step cfg f amb (EvCommand kind payload options) mc =
     snd (sendGameCommand cfg amb kind payload options mc)"
| "match_step cfg f amb (EvResume s a sfx) mc = snd (resumeResolvedMatch cfg s a sfx mc)"
| "match_step cfg f amb (EvRecoverEnsured i r) mc = step_recover_ensured i r mc"
| "match_step cfg f amb (EvRecoverFetched i r) mc = step_recover_fetched cfg (am_session amb) i r mc"
| "match_step cfg f amb (EvJoinQueue rs) mc = joinQueue rs mc"
| "match_step cfg f amb (EvQueueSession c r) mc = step_queue_session (am_now amb) c r mc"
| "match_step cfg f amb (EvQueueStream c e) mc =
     (if e = StreamAbort then mc else queue_stream_event cfg c e mc)"
| "match_step cfg f amb (EvQueueSettled c) mc = queue_settled c mc"
| "match_step cfg f amb EvCancelQueue mc = cancelQueue (am_session amb) mc"
| "match_step cfg f amb EvSingle mc = startSingleplayer mc"
| "match_step cfg f amb (EvSingleSession r) mc =
     (case mc_single mc of Some (c, SgSession) \<Rightarrow> single_session c r mc | _ \<Rightarrow> mc)"
| "match_step cfg f amb (EvSingleFetched r) mc =
     (case mc_single mc of
        Some (c, SgFetch s) \<Rightarrow> single_fetched cfg s c (unless_aborted c mc r) mc
      | _ \<Rightarrow> mc)"

inductive match_reachable :: "runtime_config \<Rightarrow> (jv \<Rightarrow> snapshot) \<Rightarrow> match_ctl \<Rightarrow> bool"
  for cfg :: runtime_config and f :: "jv \<Rightarrow> snapshot" where
  reach_new: "match_reachable cfg f new_match_ctl"
| reach_step: "match_reachable cfg f mc \<Longrightarrow> match_reachable cfg f (match_step cfg f amb ev mc)"

inductive_cases match_reachable_cases: "match_reachable cfg f mc"

end
