(* ===== verification/MatchInvariants.thy ===== *)
theory MatchInvariants
  imports MatchController
begin

text \<open>
  What holds of the match controller in every reachable state: the recovery lock is consistent with
  the recovery in flight and never leaks, join attempts are bounded, the single-player guard matches
  its call, the sockets keep their invariant; and what its operations promise: snapshots never go
  back, pings are silent, a cancelled search can still queue.
\<close>

section \<open>Views of the recovery lock\<close>

abbreviation active_recover :: "match_ctl \<Rightarrow> nat option" where
  "active_recover mc \<equiv> mm_activeRecover (m_matchmaking (mc_state mc))"

text \<open>Everything the lock depends on; most operations leave it as it is.\<close>

definition recover_view ::
  "match_ctl \<Rightarrow> nat option \<times> bool \<times> nat \<times> nat option \<times> (nat \<times> nat) list \<times> nat" where
  "recover_view mc =
     (active_recover mc, mc_recoverInFlight mc, mc_recoverRequestId mc, mc_recoverAbort mc,
      map (\<lambda>t. (rk_id t, rk_abort t)) (mc_recovers mc), mc_nextAbort mc)"

fun touches_recover :: "matchmaking_action \<Rightarrow> bool" where
  "touches_recover (RecoverStarted _) = True"
| "touches_recover (RecoverResolved _ _ _ _) = True"
| "touches_recover (RecoverFailed _) = True"
| "touches_recover _ = False"

lemma reducer_keeps_recover:
  "\<not> touches_recover a \<Longrightarrow> mm_activeRecover (matchmakingReducer m a) = mm_activeRecover m"
  by (cases a) (auto simp: reducer_defs)

lemma reducer_frees_recover:
  "mm_activeRecover (matchmakingReducer m (RecoverFailed r)) =
     (if mm_activeRecover m = Some r then None else mm_activeRecover m)"
  "mm_activeRecover (matchmakingReducer m (RecoverResolved r v out b)) =
     (if mm_activeRecover m = Some r then None else mm_activeRecover m)"
  by (auto simp: reducer_defs)

lemma view_log [simp]: "recover_view (mc_log x mc) = recover_view mc"
  by (simp add: recover_view_def mc_log_def)

lemma view_patch [simp]:
  "mm_activeRecover (m_matchmaking (f (mc_state mc))) = active_recover mc \<Longrightarrow>
     recover_view (mc_patchState f mc) = recover_view mc"
  by (simp add: recover_view_def ctl_defs Let_def)

lemma view_dispatch [simp]:
  "\<not> touches_recover a \<Longrightarrow> recover_view (dispatchMatchmaking a mc) = recover_view mc"
  by (simp add: dispatchMatchmaking_def reducer_keeps_recover)

lemma view_resolve:
  "recover_view (resolve_recover tk out b mc) =
   recover_view (dispatchMatchmaking (RecoverFailed (rk_id tk)) mc)"
  by (simp add: resolve_recover_def dispatchMatchmaking_def recover_view_def ctl_defs Let_def
      reducer_frees_recover del: matchmakingReducer.simps)

lemma view_fields [simp]:
  "recover_view (mc\<lparr>mc_socket := a\<rparr>) = recover_view mc"
  "recover_view (mc\<lparr>mc_activeSession := b\<rparr>) = recover_view mc"
  "recover_view (mc\<lparr>mc_queueAbort := c\<rparr>) = recover_view mc"
  "recover_view (mc\<lparr>mc_lastSocketOpenedAt := d\<rparr>) = recover_view mc"
  "recover_view (mc\<lparr>mc_lastServerSeenAt := d\<rparr>) = recover_view mc"
  "recover_view (mc\<lparr>mc_firstSnapshotTimeout := g\<rparr>) = recover_view mc"
  "recover_view (mc\<lparr>mc_awaitingFirstSnapshotMatchId := h\<rparr>) = recover_view mc"
  "recover_view (mc\<lparr>mc_firstSnapshotRecoverAttempts := n\<rparr>) = recover_view mc"
  "recover_view (mc\<lparr>mc_queues := qs\<rparr>) = recover_view mc"
  "recover_view (mc\<lparr>mc_single := sg\<rparr>) = recover_view mc"
  "recover_view (mc\<lparr>mc_singleplayerStartInFlight := i\<rparr>) = recover_view mc"
  "recover_view (mc\<lparr>mc_heartbeat := i\<rparr>) = recover_view mc"
  "recover_view (mc\<lparr>mc_destroyed := i\<rparr>) = recover_view mc"
  "recover_view (mc\<lparr>mc_started := i\<rparr>) = recover_view mc"
  "recover_view (mc\<lparr>mc_autoRecoverEnabled := i\<rparr>) = recover_view mc"
  "recover_view (mc\<lparr>mc_aborted := ab\<rparr>) = recover_view mc"
  by (simp_all add: recover_view_def)

lemma view_simple [simp]:
  "recover_view (abort_controller co mc) = recover_view mc"
  "recover_view (clearFirstSnapshotTimeout mc) = recover_view mc"
  "recover_view (close_socket mc) = recover_view mc"
  "recover_view (mc_start mc) = recover_view mc"
  "recover_view (setConnectionIssue v mc) = recover_view mc"
  "recover_view (setStatus st mc) = recover_view mc"
  "recover_view (set_queue_error v mc) = recover_view mc"
  "recover_view (playMatchFoundSfx mc) = recover_view mc"
  "recover_view (release_queue c mc) = recover_view mc"
  "recover_view (drop_queue c mc) = recover_view mc"
  "recover_view (set_queue_stage c stage mc) = recover_view mc"
  "recover_view (startFirstSnapshotTimeout target mc) = recover_view mc"
  by (auto simp: abort_controller_def clearFirstSnapshotTimeout_def close_socket_def mc_start_def
      setConnectionIssue_def setStatus_def set_queue_error_def playMatchFoundSfx_def release_queue_def
      drop_queue_def set_queue_stage_def startFirstSnapshotTimeout_def split: option.splits)

lemma view_health [simp]:
  "recover_view (noteServerActivity cfg now mc) = recover_view mc"
  "recover_view (markConnectionUnhealthy message force mc) = recover_view mc"
  by (simp_all add: noteServerActivity_def markConnectionUnhealthy_def Let_def)

lemma view_send [simp]: "recover_view (snd (sendGameCommand cfg amb k p opts mc)) = recover_view mc"
  by (simp add: sendGameCommand_def Let_def)

lemma view_connect [simp]: "recover_view (connectToAssignedGame cfg s a mc) = recover_view mc"
  by (simp add: connectToAssignedGame_def Let_def)

lemma view_handlers [simp]:
  "recover_view (heartbeatTick cfg amb mc) = recover_view mc"
  "recover_view (onSnapshot cfg now snap mc) = recover_view mc"
  "recover_view (onOpen cfg amb mc) = recover_view mc"
  "recover_view (snd (resumeResolvedMatch cfg so a sfx mc)) = recover_view mc"
  by (simp_all add: heartbeatTick_def onSnapshot_def onOpen_def resumeResolvedMatch_def Let_def
      split: option.splits)

lemma view_queue [simp]:
  "recover_view (queue_failed e mc) = recover_view mc"
  "recover_view (queue_onEvent cfg s ev mc) = recover_view mc"
  "recover_view (finish_single c r mc) = recover_view mc"
  "recover_view (cancelQueue so mc) = recover_view mc"
  by (auto simp: queue_failed_def queue_onEvent_def finish_single_def cancelQueue_def Let_def
      split: js_error.splits queue_event.splits option.splits)

lemma view_queue_events: "recover_view (fold (queue_onEvent cfg s) evs mc) = recover_view mc"
  by (induction evs arbitrary: mc) simp_all

lemma view_queue_steps [simp]:
  "recover_view (step_queue_session now c r mc) = recover_view mc"
  "recover_view (queue_stream_event cfg c e mc) = recover_view mc"
  "recover_view (queue_settled c mc) = recover_view mc"
  "recover_view (single_failed c err mc) = recover_view mc"
  by (auto simp: step_queue_session_def queue_session_def queue_stream_event_def queue_settled_def
      single_failed_def view_queue_events Let_def split: option.splits queue_stage.splits sum.splits js_error.splits)

lemma view_single [simp]:
  "recover_view (single_session c r mc) = recover_view mc"
  "recover_view (single_fetched cfg s c a mc) = recover_view mc"
  by (auto simp: single_session_def single_fetched_def split: sum.splits option.splits)

section \<open>The recovery lock\<close>

text \<open>
  Held: one recovery is in flight, its number is the active one, its controller is the one to abort,
  and its task is pending. Free: none of the three says otherwise.
\<close>

fun lock_inv :: "nat option \<times> bool \<times> nat \<times> nat option \<times> (nat \<times> nat) list \<times> nat \<Rightarrow> bool" where
  "lock_inv (act, busy, n, ab, ids, nx) \<longleftrightarrow>
     (case ab of
        None \<Rightarrow> \<not> busy \<and> act = None
      | Some c \<Rightarrow> busy \<and> (case act of None \<Rightarrow> False | Some r \<Rightarrow> (r, c) \<in> set ids)) \<and>
     (\<forall>(r, c)\<in>set ids. r \<le> n \<and> c < nx) \<and> distinct (map fst ids) \<and> distinct (map snd ids)"

definition recover_inv :: "match_ctl \<Rightarrow> bool" where
  "recover_inv mc = lock_inv (recover_view mc)"

lemma recover_inv_view: "recover_view mc' = recover_view mc \<Longrightarrow> recover_inv mc \<Longrightarrow> recover_inv mc'"
  by (simp add: recover_inv_def)

lemma lock_inv_clear: "lock_inv (act, busy, n, ab, ids, nx) \<Longrightarrow> lock_inv (None, False, n, None, ids, nx)"
  by simp

lemma lock_inv_next: "lock_inv (act, busy, n, ab, ids, nx) \<Longrightarrow> nx \<le> nx' \<Longrightarrow> lock_inv (act, busy, n, ab, ids, nx')"
  by fastforce

lemma lock_inv_start:
  "lock_inv (act, busy, n, ab, ids, nx) \<Longrightarrow>
     lock_inv (Some (n + 1), True, n + 1, Some nx, ids @ [(n + 1, nx)], nx + 1)"
  by fastforce

lemma distinct_map_unique: "distinct (map f xs) \<Longrightarrow> x \<in> set xs \<Longrightarrow> y \<in> set xs \<Longrightarrow> f x = f y \<Longrightarrow> x = y"
  by (metis distinct_map inj_onD)

lemma distinct_map_filter_sub: "distinct (map f xs) \<Longrightarrow> distinct (map f (filter P xs))"
  by (rule distinct_map_filter)

lemma lock_inv_finish:
  assumes inv: "lock_inv (act, busy, n, ab, ids, nx)" and mem: "(r, c) \<in> set ids"
  shows "lock_inv (if act = Some r then None else act, if ab = Some c then False else busy, n,
     if ab = Some c then None else ab, filter (\<lambda>(r', _). r' \<noteq> r) ids, nx)"
proof -
  have d: "distinct (map fst ids)" "distinct (map snd ids)" using inv by simp_all
  have u: "act = Some r \<longleftrightarrow> ab = Some c"
  proof (cases ab)
    case None
    then show ?thesis using inv by auto
  next
    case (Some c')
    then obtain r' where r': "act = Some r'" "(r', c') \<in> set ids" using inv by (auto split: option.splits)
    then have "r' = r \<longleftrightarrow> c' = c"
      using distinct_map_unique [OF d(1) r'(2) mem] distinct_map_unique [OF d(2) r'(2) mem] by auto
    with r' Some show ?thesis by simp
  qed
  show ?thesis using inv u d by (auto simp: distinct_map_filter_sub split: option.splits)
qed

lemma view_clear:
  "recover_view (clearRecoverTracking mc) =
     (None, False, mc_recoverRequestId mc, None, map (\<lambda>t. (rk_id t, rk_abort t)) (mc_recovers mc), mc_nextAbort mc)"
  by (auto simp: recover_view_def clearRecoverTracking_def ctl_defs Let_def)

lemma recover_inv_clear: "recover_inv mc \<Longrightarrow> recover_inv (clearRecoverTracking mc)"
  unfolding recover_inv_def view_clear by (simp only: recover_view_def lock_inv_clear)

lemma view_start:
  "recover_view (startRecover s mc) = recover_view mc \<or>
   recover_view (startRecover s mc) =
     (Some (mc_recoverRequestId mc + 1), True, mc_recoverRequestId mc + 1, Some (mc_nextAbort mc),
      map (\<lambda>t. (rk_id t, rk_abort t)) (mc_recovers mc) @ [(mc_recoverRequestId mc + 1, mc_nextAbort mc)],
      mc_nextAbort mc + 1)"
  by (simp add: recover_view_def startRecover_def dispatchMatchmaking_def ctl_defs Let_def)

lemma recover_inv_start: "recover_inv mc \<Longrightarrow> recover_inv (startRecover s mc)"
  using view_start [of s mc] lock_inv_start by (fastforce simp: recover_inv_def recover_view_def)

lemma view_finish:
  "recover_view (finish_recover tk mc) =
     (active_recover mc, if mc_recoverAbort mc = Some (rk_abort tk) then False else mc_recoverInFlight mc,
      mc_recoverRequestId mc, if mc_recoverAbort mc = Some (rk_abort tk) then None else mc_recoverAbort mc,
      filter (\<lambda>(r', _). r' \<noteq> rk_id tk) (map (\<lambda>t. (rk_id t, rk_abort t)) (mc_recovers mc)),
      mc_nextAbort mc)"
  by (simp add: recover_view_def finish_recover_def Let_def filter_map o_def)

lemma view_failed:
  "recover_view (dispatchMatchmaking (RecoverFailed r) mc) =
     (if active_recover mc = Some r then None else active_recover mc, mc_recoverInFlight mc,
      mc_recoverRequestId mc, mc_recoverAbort mc, map (\<lambda>t. (rk_id t, rk_abort t)) (mc_recovers mc),
      mc_nextAbort mc)"
  by (simp add: recover_view_def dispatchMatchmaking_def ctl_defs Let_def)

text \<open>Every way a recovery ends: it frees its own number and its own controller.\<close>

lemma recover_inv_finish:
  assumes "recover_inv mc" and "tk \<in> set (mc_recovers mc)"
    and v: "recover_view mc' = recover_view (dispatchMatchmaking (RecoverFailed (rk_id tk)) mc)"
  shows "recover_inv (finish_recover tk mc')"
proof -
  have "(rk_id tk, rk_abort tk) \<in> set (map (\<lambda>t. (rk_id t, rk_abort t)) (mc_recovers mc))"
    using assms(2) by auto
  from lock_inv_finish [OF _ this] assms(1)
  have "lock_inv (if active_recover mc = Some (rk_id tk) then None else active_recover mc,
     if mc_recoverAbort mc = Some (rk_abort tk) then False else mc_recoverInFlight mc, mc_recoverRequestId mc,
     if mc_recoverAbort mc = Some (rk_abort tk) then None else mc_recoverAbort mc,
     filter (\<lambda>(r', _). r' \<noteq> rk_id tk) (map (\<lambda>t. (rk_id t, rk_abort t)) (mc_recovers mc)), mc_nextAbort mc)"
    unfolding recover_inv_def recover_view_def by blast
  moreover have "recover_view (finish_recover tk mc') = \<dots>"
    using v [unfolded view_failed] unfolding view_finish by (simp add: recover_view_def)
  ultimately show ?thesis by (simp only: recover_inv_def)
qed

section \<open>Steps keep the lock\<close>

lemma recover_inv_reset: "recover_inv mc \<Longrightarrow> recover_inv (resetConnectionState mc)"
  unfolding resetConnectionState_def Let_def
  by (rule recover_inv_view [rotated], rule recover_inv_clear) (auto intro: recover_inv_view)

lemma reset_frees [simp]:
  "mc_recoverAbort (resetConnectionState mc) = None"
  "active_recover (resetConnectionState mc) = None"
proof -
  have v: "recover_view (resetConnectionState mc) =
    recover_view (clearRecoverTracking (abort_controller (mc_recoverAbort mc) mc))"
    by (simp add: resetConnectionState_def Let_def)
  then show "mc_recoverAbort (resetConnectionState mc) = None"
    and "active_recover (resetConnectionState mc) = None"
    unfolding view_clear by (simp_all add: recover_view_def)
qed

lemma lock_inv_drop: "lock_inv (act, busy, n, None, ids, nx) \<Longrightarrow> lock_inv (act, busy, n, None, filter P ids, nx)"
  by (auto simp: distinct_map_filter_sub)

lemma recover_inv_drop:
  assumes "recover_inv mc" and "mc_recoverAbort mc = None"
  shows "recover_inv (finish_recover tk mc)"
proof -
  have "recover_view (finish_recover tk mc) =
     (active_recover mc, mc_recoverInFlight mc, mc_recoverRequestId mc, None,
      filter (\<lambda>(r', _). r' \<noteq> rk_id tk) (map (\<lambda>t. (rk_id t, rk_abort t)) (mc_recovers mc)), mc_nextAbort mc)"
    by (simp only: view_finish assms(2)) simp
  moreover have "lock_inv \<dots>"
    using assms(1) unfolding recover_inv_def recover_view_def assms(2) by (rule lock_inv_drop)
  ultimately show ?thesis by (simp only: recover_inv_def)
qed

lemma recover_inv_fail: "recover_inv mc \<Longrightarrow> tk \<in> set (mc_recovers mc) \<Longrightarrow> recover_inv (fail_recover tk mc)"
  by (simp add: fail_recover_def recover_inv_finish)

lemma view_dispatch_cong:
  "recover_view mc' = recover_view mc \<Longrightarrow>
     recover_view (dispatchMatchmaking (RecoverFailed r) mc') = recover_view (dispatchMatchmaking (RecoverFailed r) mc)"
  by (simp add: view_failed) (simp add: recover_view_def)

lemma recover_inv_resolve:
  assumes "recover_inv mc" and "tk \<in> set (mc_recovers mc)" and "recover_view mc' = recover_view mc"
  shows "recover_inv (finish_recover tk (resolve_recover tk out b mc'))"
  by (rule recover_inv_finish [OF assms(1,2)]) (simp add: view_resolve view_dispatch_cong [OF assms(3)])

lemma recover_inv_signed_out:
  assumes "recover_inv mc"
  shows "recover_inv (resetConnectionState (mc_log x (dispatchMatchmaking (RecoverFailed r) mc)))"
proof -
  let ?m = "mc_log x (dispatchMatchmaking (RecoverFailed r) mc)"
  have "recover_view (resetConnectionState ?m) = recover_view (clearRecoverTracking ?m)"
    by (simp add: resetConnectionState_def Let_def view_clear)
       (simp add: abort_controller_def split: option.splits)
  moreover have "recover_view (clearRecoverTracking ?m) = recover_view (clearRecoverTracking mc)"
    unfolding view_clear by (simp add: ctl_defs dispatchMatchmaking_def Let_def)
  ultimately show ?thesis using recover_inv_clear [OF assms] by (simp add: recover_inv_def)
qed

lemma view_stage:
  "recover_view (mc\<lparr>mc_recovers := map (\<lambda>t. if rk_id t = i then t\<lparr>rk_stage := st\<rparr> else t) (mc_recovers mc)\<rparr>) =
   recover_view mc"
  by (simp add: recover_view_def)

lemma recover_inv_ensured:
  assumes "recover_inv mc" and "tk \<in> set (mc_recovers mc)"
  shows "recover_inv (recover_ensured tk r mc)"
  using assms
  by (auto simp: recover_ensured_def Let_def recover_inv_fail recover_inv_drop recover_inv_signed_out
      intro: recover_inv_view [OF view_stage] split: sum.splits option.splits)

lemma recover_inv_fetched:
  assumes "recover_inv mc" and "tk \<in> set (mc_recovers mc)"
  shows "recover_inv (recover_fetched cfg sess tk r mc)"
proof -
  have c: "recover_inv (finish_recover tk (connectToAssignedGame cfg s a (resolve_recover tk out b mc)))" for s a out b
    by (rule recover_inv_finish [OF assms]) (simp add: view_resolve)
  show ?thesis
    using assms by (auto simp: recover_fetched_def abandon_recover_def c recover_inv_fail
        intro!: recover_inv_resolve split: sum.splits match_session_response.splits option.splits)
qed

lemma recover_inv_onClose: "recover_inv mc \<Longrightarrow> recover_inv (onClose cfg e mc)"
  by (auto simp: onClose_def Let_def intro!: recover_inv_start intro: recover_inv_view split: option.splits)

lemma recover_inv_handle: "recover_inv mc \<Longrightarrow> recover_inv (handle_socket cfg amb call mc)"
  by (cases call) (auto intro: recover_inv_view recover_inv_onClose)

lemma recover_inv_handles: "recover_inv mc \<Longrightarrow> recover_inv (fold (handle_socket cfg amb) calls mc)"
  by (induction calls arbitrary: mc) (auto intro: recover_inv_handle)

lemma recover_inv_timeout: "recover_inv mc \<Longrightarrow> recover_inv (firstSnapshotTimedOut so target mc)"
  by (auto simp: firstSnapshotTimedOut_def Let_def intro!: recover_inv_start intro: recover_inv_view
      split: option.splits)

lemma view_next:
  "recover_view (mc\<lparr>mc_nextAbort := n\<rparr>) =
     (active_recover mc, mc_recoverInFlight mc, mc_recoverRequestId mc, mc_recoverAbort mc,
      map (\<lambda>t. (rk_id t, rk_abort t)) (mc_recovers mc), n)"
  by (simp add: recover_view_def)

lemma recover_inv_next:
  assumes "recover_inv mc"
  shows "recover_inv (mc\<lparr>mc_nextAbort := mc_nextAbort mc + 1\<rparr>)"
proof -
  have "lock_inv (active_recover mc, mc_recoverInFlight mc, mc_recoverRequestId mc, mc_recoverAbort mc,
      map (\<lambda>t. (rk_id t, rk_abort t)) (mc_recovers mc), mc_nextAbort mc)"
    using assms by (simp only: recover_inv_def recover_view_def)
  from lock_inv_next [OF this, of "mc_nextAbort mc + 1"] show ?thesis
    unfolding recover_inv_def view_next by simp
qed

lemma recover_inv_join: "recover_inv mc \<Longrightarrow> recover_inv (joinQueue rs mc)"
  unfolding joinQueue_def Let_def
  by (rule recover_inv_view [rotated], rule recover_inv_next, erule recover_inv_view [rotated]) simp_all

lemma recover_inv_single: "recover_inv mc \<Longrightarrow> recover_inv (startSingleplayer mc)"
  unfolding startSingleplayer_def Let_def
  by (simp, intro conjI impI, erule recover_inv_view [rotated], simp,
      rule recover_inv_view [rotated], rule recover_inv_next, erule recover_inv_view [rotated]) simp_all

lemma recover_inv_step:
  assumes "recover_inv mc"
  shows "recover_inv (match_step cfg f amb ev mc)"
proof (cases ev)
  case (EvSocket e)
  have "recover_inv (mc\<lparr>mc_socket := s\<rparr>)" for s using assms by (rule recover_inv_view [rotated]) simp
  then show ?thesis using EvSocket by (simp add: on_socket_def Let_def recover_inv_handles)
next
  case EvDestroy
  have "recover_view (mc_destroy mc) =
     recover_view (clearRecoverTracking (abort_controller (mc_recoverAbort mc) (mc\<lparr>mc_destroyed := True, mc_started := False\<rparr>)))"
    by (simp add: mc_destroy_def Let_def)
  moreover have "recover_inv (clearRecoverTracking (abort_controller (mc_recoverAbort mc) (mc\<lparr>mc_destroyed := True, mc_started := False\<rparr>)))"
    using assms by (intro recover_inv_clear) (auto intro: recover_inv_view)
  ultimately show ?thesis using EvDestroy by (simp add: recover_inv_def)
next
  case (EvAutoRecover b)
  then show ?thesis using assms
    by (auto simp: setAutoRecoverEnabled_def Let_def intro!: recover_inv_clear intro: recover_inv_view)
next
  case EvFirstSnapshot
  have "recover_inv (clearFirstSnapshotTimeout mc)" using assms by (rule recover_inv_view [rotated]) simp
  then show ?thesis using EvFirstSnapshot assms
    by (auto simp: recover_inv_timeout split: option.splits)
next
  case (EvRecoverEnsured i r)
  then show ?thesis using assms
    by (auto simp: step_recover_ensured_def recover_inv_ensured find_Some_iff
        split: option.splits recover_stage.splits)
next
  case (EvRecoverFetched i r)
  then show ?thesis using assms
    by (auto simp: step_recover_fetched_def recover_inv_fetched find_Some_iff
        split: option.splits recover_stage.splits)
qed (use assms in \<open>auto intro: recover_inv_view recover_inv_reset recover_inv_join recover_inv_single
     split: option.splits single_stage.splits\<close>)

interpretation match_machine: invariant_machine "\<lambda>(amb, ev). match_step cfg f amb ev" recover_inv
  by unfold_locales (auto intro: recover_inv_step)

lemma reachable_recover_inv: "match_reachable cfg f mc \<Longrightarrow> recover_inv mc"
  by (induction rule: match_reachable.induct)
     (simp_all add: recover_inv_step, simp add: recover_inv_def recover_view_def new_match_ctl_def
       initial_match_state_def initialMatchmakingState_def)

section \<open>Sockets, join attempts, the single-player guard\<close>

definition misc_view :: "match_ctl \<Rightarrow> socket_client \<times> nat \<times> bool \<times> (nat \<times> single_stage) option" where
  "misc_view mc = (mc_socket mc, mc_firstSnapshotRecoverAttempts mc, mc_singleplayerStartInFlight mc, mc_single mc)"

definition misc_inv :: "match_ctl \<Rightarrow> bool" where
  "misc_inv mc \<longleftrightarrow> socket_inv (mc_socket mc) \<and> mc_firstSnapshotRecoverAttempts mc \<le> 3 \<and>
     (mc_singleplayerStartInFlight mc \<longleftrightarrow> mc_single mc \<noteq> None)"

lemma misc_inv_view: "misc_view mc' = misc_view mc \<Longrightarrow> misc_inv mc \<Longrightarrow> misc_inv mc'"
  by (simp add: misc_view_def misc_inv_def)

lemma misc_fields [simp]:
  "misc_view (mc\<lparr>mc_activeSession := b\<rparr>) = misc_view mc"
  "misc_view (mc\<lparr>mc_queueAbort := c\<rparr>) = misc_view mc"
  "misc_view (mc\<lparr>mc_nextAbort := n\<rparr>) = misc_view mc"
  "misc_view (mc\<lparr>mc_lastSocketOpenedAt := d\<rparr>) = misc_view mc"
  "misc_view (mc\<lparr>mc_lastServerSeenAt := d\<rparr>) = misc_view mc"
  "misc_view (mc\<lparr>mc_firstSnapshotTimeout := g\<rparr>) = misc_view mc"
  "misc_view (mc\<lparr>mc_awaitingFirstSnapshotMatchId := h\<rparr>) = misc_view mc"
  "misc_view (mc\<lparr>mc_queues := qs\<rparr>) = misc_view mc"
  "misc_view (mc\<lparr>mc_recovers := rs\<rparr>) = misc_view mc"
  "misc_view (mc\<lparr>mc_recoverAbort := ra\<rparr>) = misc_view mc"
  "misc_view (mc\<lparr>mc_recoverInFlight := i\<rparr>) = misc_view mc"
  "misc_view (mc\<lparr>mc_recoverRequestId := n\<rparr>) = misc_view mc"
  "misc_view (mc\<lparr>mc_heartbeat := i\<rparr>) = misc_view mc"
  "misc_view (mc\<lparr>mc_destroyed := i\<rparr>) = misc_view mc"
  "misc_view (mc\<lparr>mc_started := i\<rparr>) = misc_view mc"
  "misc_view (mc\<lparr>mc_autoRecoverEnabled := i\<rparr>) = misc_view mc"
  "misc_view (mc\<lparr>mc_aborted := ab\<rparr>) = misc_view mc"
  "misc_view (mc\<lparr>mc_state := st\<rparr>) = misc_view mc"
  "misc_view (mc\<lparr>mc_out := xs\<rparr>) = misc_view mc"
  by (simp_all add: misc_view_def)

lemma misc_simple [simp]:
  "misc_view (mc_log x mc) = misc_view mc"
  "misc_view (mc_patchState p mc) = misc_view mc"
  "misc_view (dispatchMatchmaking a mc) = misc_view mc"
  "misc_view (abort_controller co mc) = misc_view mc"
  "misc_view (clearRecoverTracking mc) = misc_view mc"
  "misc_view (clearFirstSnapshotTimeout mc) = misc_view mc"
  "misc_view (mc_start mc) = misc_view mc"
  "misc_view (setConnectionIssue v mc) = misc_view mc"
  "misc_view (set_queue_error v mc) = misc_view mc"
  "misc_view (playMatchFoundSfx mc) = misc_view mc"
  "misc_view (release_queue c mc) = misc_view mc"
  "misc_view (drop_queue c mc) = misc_view mc"
  "misc_view (set_queue_stage c stage mc) = misc_view mc"
  "misc_view (startFirstSnapshotTimeout target mc) = misc_view mc"
  "misc_view (noteServerActivity cfg now mc) = misc_view mc"
  "misc_view (finish_recover tk mc) = misc_view mc"
  "misc_view (startRecover s mc) = misc_view mc"
  by (auto simp: ctl_defs dispatchMatchmaking_def abort_controller_def clearRecoverTracking_def
      clearFirstSnapshotTimeout_def mc_start_def setConnectionIssue_def set_queue_error_def
      playMatchFoundSfx_def release_queue_def drop_queue_def set_queue_stage_def finish_recover_def
      startRecover_def startFirstSnapshotTimeout_def noteServerActivity_def Let_def split: option.splits)

lemma misc_calls [simp]:
  "misc_view (resolve_recover tk out b mc) = misc_view mc"
  "misc_view (abandon_recover tk issue mc) = misc_view mc"
  "misc_view (fail_recover tk mc) = misc_view mc"
  "misc_view (queue_failed e mc) = misc_view mc"
  "misc_view (cancelQueue so mc) = misc_view mc"
  "misc_view (setStatus st mc) = misc_view mc"
  "misc_view (joinQueue rs mc) = misc_view mc"
  "misc_view (setAutoRecoverEnabled b mc) = misc_view mc"
  by (auto simp: resolve_recover_def abandon_recover_def fail_recover_def queue_failed_def cancelQueue_def
      setStatus_def joinQueue_def setAutoRecoverEnabled_def Let_def split: js_error.splits option.splits)

lemma misc_inv_close: "misc_inv mc \<Longrightarrow> misc_inv (close_socket mc)"
  by (simp add: misc_inv_def close_socket_def socket_inv_close)

lemma misc_inv_reset: "misc_inv mc \<Longrightarrow> misc_inv (resetConnectionState mc)"
  unfolding resetConnectionState_def Let_def
  by (rule misc_inv_view [rotated], rule misc_inv_close) (auto intro: misc_inv_view)

lemma misc_inv_connect: "misc_inv mc \<Longrightarrow> misc_inv (connectToAssignedGame cfg s a mc)"
proof -
  assume h: "misc_inv mc"
  have "misc_inv (m\<lparr>mc_socket := gs_connect target (mc_socket m)\<rparr>)" if "misc_view m = misc_view mc" for m target
    using misc_inv_view [OF that h] by (simp add: misc_inv_def socket_inv_connect)
  then show ?thesis using h by (auto simp: connectToAssignedGame_def Let_def intro: misc_inv_view)
qed

lemma misc_inv_send: "misc_inv mc \<Longrightarrow> misc_inv (snd (sendGameCommand cfg amb k p opts mc))"
proof -
  assume h: "misc_inv mc"
  have "misc_inv (markConnectionUnhealthy m b mc)" for m b
    using h by (auto simp: markConnectionUnhealthy_def Let_def intro!: misc_inv_close intro: misc_inv_view)
  then show ?thesis using h
    by (auto simp: sendGameCommand_def Let_def misc_inv_def socket_inv_send)
qed

lemma misc_inv_unhealthy: "misc_inv mc \<Longrightarrow> misc_inv (markConnectionUnhealthy m b mc)"
  by (auto simp: markConnectionUnhealthy_def Let_def intro!: misc_inv_close intro: misc_inv_view)

lemma misc_inv_heartbeat: "misc_inv mc \<Longrightarrow> misc_inv (heartbeatTick cfg amb mc)"
  by (auto simp: heartbeatTick_def Let_def intro: misc_inv_unhealthy misc_inv_send)

lemma misc_inv_snapshot: "misc_inv mc \<Longrightarrow> misc_inv (onSnapshot cfg now snap mc)"
proof -
  assume h: "misc_inv mc"
  then have "misc_inv (mc\<lparr>mc_firstSnapshotRecoverAttempts := 0\<rparr>)" by (simp add: misc_inv_def)
  then have "misc_inv ((clearFirstSnapshotTimeout mc)
     \<lparr>mc_awaitingFirstSnapshotMatchId := [], mc_firstSnapshotRecoverAttempts := 0\<rparr>)"
    by (rule misc_inv_view [rotated]) (simp add: clearFirstSnapshotTimeout_def misc_view_def)
  with h show ?thesis by (auto simp: onSnapshot_def Let_def intro: misc_inv_view)
qed

lemma misc_inv_onOpen: "misc_inv mc \<Longrightarrow> misc_inv (onOpen cfg amb mc)"
  unfolding onOpen_def by (rule misc_inv_send) (auto intro: misc_inv_view)

lemma misc_inv_onClose: "misc_inv mc \<Longrightarrow> misc_inv (onClose cfg e mc)"
  by (rule misc_inv_view) (simp_all add: onClose_def Let_def split: option.splits)

lemma misc_inv_handle: "misc_inv mc \<Longrightarrow> misc_inv (handle_socket cfg amb call mc)"
  by (cases call)
     (auto intro: misc_inv_view misc_inv_onOpen misc_inv_onClose misc_inv_unhealthy misc_inv_snapshot)

lemma misc_inv_socket: "misc_inv mc \<Longrightarrow> misc_inv (on_socket cfg f amb e mc)"
proof -
  assume h: "misc_inv mc"
  have "misc_inv (fold (handle_socket cfg amb) calls m)" if "misc_inv m" for calls m
    using that by (induction calls arbitrary: m) (auto intro: misc_inv_handle)
  with h show ?thesis by (simp add: on_socket_def Let_def misc_inv_def socket_inv_react)
qed

lemma misc_inv_timeout: "misc_inv mc \<Longrightarrow> misc_inv (firstSnapshotTimedOut so target mc)"
proof -
  assume h: "misc_inv mc"
  let ?m = "mc_patchState (\<lambda>st. st\<lparr>m_connected := False,
     m_connectionIssue := ''Still trying to join the live match...''\<rparr>) (close_socket mc)"
  have c: "misc_inv ?m" by (rule misc_inv_view [OF _ misc_inv_close [OF h]]) simp
  then have "misc_inv (?m\<lparr>mc_firstSnapshotRecoverAttempts := mc_firstSnapshotRecoverAttempts ?m + 1\<rparr>)"
    if "mc_firstSnapshotRecoverAttempts ?m < 3"
    using that by (simp add: misc_inv_def)
  then have "misc_inv (startRecover s (dispatchMatchmaking WsClosed
     (?m\<lparr>mc_firstSnapshotRecoverAttempts := mc_firstSnapshotRecoverAttempts ?m + 1\<rparr>)))"
    if "\<not> 3 \<le> mc_firstSnapshotRecoverAttempts ?m" for s
    using that by (simp add: misc_inv_view [OF misc_simple(17)] misc_inv_view [OF misc_simple(3)] not_le)
  moreover have "misc_inv (setConnectionIssue v (dispatchMatchmaking a ?m))" for v a
    using c by (rule misc_inv_view [rotated]) simp
  ultimately show ?thesis using h unfolding firstSnapshotTimedOut_def Let_def
    by (simp split: option.split)
qed

lemma misc_inv_resume: "misc_inv mc \<Longrightarrow> misc_inv (snd (resumeResolvedMatch cfg so a sfx mc))"
  by (auto simp: resumeResolvedMatch_def Let_def intro!: misc_inv_connect intro: misc_inv_view split: option.splits)

lemma misc_inv_ensured: "misc_inv mc \<Longrightarrow> misc_inv (recover_ensured tk r mc)"
proof -
  assume h: "misc_inv mc"
  have "misc_inv (resetConnectionState (mc_log x (dispatchMatchmaking a mc)))" for x a
    by (rule misc_inv_reset) (auto intro: misc_inv_view [OF _ h])
  with h show ?thesis by (auto simp: recover_ensured_def Let_def intro: misc_inv_view split: sum.splits option.splits)
qed

lemma misc_inv_fetched: "misc_inv mc \<Longrightarrow> misc_inv (recover_fetched cfg so tk r mc)"
proof -
  assume h: "misc_inv mc"
  have "misc_inv (connectToAssignedGame cfg s a (resolve_recover tk out b mc))" for s a out b
    by (rule misc_inv_connect) (auto intro: misc_inv_view [OF _ h])
  with h show ?thesis
    by (auto simp: recover_fetched_def intro: misc_inv_view split: sum.splits match_session_response.splits option.splits)
qed

lemma misc_inv_onEvent: "misc_inv mc \<Longrightarrow> misc_inv (queue_onEvent cfg s ev mc)"
  by (auto simp: queue_onEvent_def Let_def intro!: misc_inv_connect intro: misc_inv_view split: queue_event.splits)

lemma misc_inv_stream: "misc_inv mc \<Longrightarrow> misc_inv (queue_stream_event cfg c e mc)"
proof -
  assume h: "misc_inv mc"
  have "misc_inv (fold (queue_onEvent cfg s) evs m)" if "misc_inv m" for s evs m
    using that by (induction evs arbitrary: m) (auto intro: misc_inv_onEvent)
  moreover have "misc_inv (set_queue_stage c st mc)" for st using h by (rule misc_inv_view [rotated]) simp
  ultimately show ?thesis using h
    by (auto simp: queue_stream_event_def Let_def split: option.splits queue_stage.splits)
qed

lemma misc_queue_steps:
  "misc_view (step_queue_session now c r mc) = misc_view mc"
  "misc_view (queue_settled c mc) = misc_view mc"
  by (auto simp: step_queue_session_def queue_session_def queue_settled_def
      split: option.splits queue_stage.splits sum.splits)

lemma misc_inv_finish_single: "misc_inv mc \<Longrightarrow> misc_inv (finish_single c r mc)"
proof -
  assume "misc_inv mc"
  then have "misc_inv (mc\<lparr>mc_singleplayerStartInFlight := False, mc_single := None\<rparr>)" by (simp add: misc_inv_def)
  then show ?thesis by (rule misc_inv_view [rotated]) (simp add: finish_single_def)
qed

lemma misc_inv_single_failed: "misc_inv mc \<Longrightarrow> misc_inv (single_failed c e mc)"
  by (auto simp: single_failed_def intro!: misc_inv_finish_single intro: misc_inv_view split: js_error.splits)

lemma misc_inv_startSingle: "misc_inv mc \<Longrightarrow> misc_inv (startSingleplayer mc)"
proof (cases "mc_singleplayerStartInFlight mc")
  case True
  then show "misc_inv mc \<Longrightarrow> ?thesis" by (auto simp: startSingleplayer_def intro: misc_inv_view)
next
  case False
  assume "misc_inv mc"
  then have "misc_inv (mc\<lparr>mc_singleplayerStartInFlight := True, mc_single := Some x\<rparr>)" for x
    by (simp add: misc_inv_def)
  moreover have "\<exists>x. misc_view (startSingleplayer mc) =
     misc_view (mc\<lparr>mc_singleplayerStartInFlight := True, mc_single := Some x\<rparr>)"
    using False by (auto simp: startSingleplayer_def misc_view_def abort_controller_def dispatchMatchmaking_def
        ctl_defs Let_def split: option.splits)
  ultimately show ?thesis using misc_inv_view by blast
qed

lemma misc_inv_step: "misc_inv mc \<Longrightarrow> misc_inv (match_step cfg f amb ev mc)"
proof (cases ev)
  case EvDestroy
  assume h: "misc_inv mc"
  show ?thesis unfolding EvDestroy match_step.simps mc_destroy_def Let_def
    by (rule misc_inv_view [rotated], rule misc_inv_close) (auto intro: misc_inv_view [OF _ h])
next
  case EvFirstSnapshot
  assume h: "misc_inv mc"
  then show ?thesis using EvFirstSnapshot
    by (auto intro!: misc_inv_timeout intro: misc_inv_view [OF _ h] split: option.splits)
next
  case (EvSingleSession r)
  assume h: "misc_inv mc"
  have "misc_inv (mc\<lparr>mc_single := Some x\<rparr>)" if "mc_single mc \<noteq> None" for x
    using h that by (simp add: misc_inv_def)
  then show ?thesis using EvSingleSession h
    by (auto simp: single_session_def intro!: misc_inv_single_failed misc_inv_finish_single
        intro: misc_inv_view [OF _ h] split: option.splits single_stage.splits sum.splits)
next
  case (EvSingleFetched r)
  assume h: "misc_inv mc"
  then show ?thesis using EvSingleFetched
    by (auto simp: single_fetched_def intro!: misc_inv_single_failed misc_inv_finish_single misc_inv_connect
        split: option.splits single_stage.splits sum.splits)
qed (auto simp: misc_queue_steps step_recover_ensured_def step_recover_fetched_def
     intro: misc_inv_view misc_inv_reset misc_inv_socket misc_inv_heartbeat misc_inv_send misc_inv_resume
       misc_inv_ensured misc_inv_fetched misc_inv_stream misc_inv_startSingle
     split: option.splits recover_stage.splits)

lemma reachable_misc_inv: "match_reachable cfg f mc \<Longrightarrow> misc_inv mc"
  by (induction rule: match_reachable.induct) (simp_all add: misc_inv_step, simp add: misc_inv_def new_match_ctl_def)

section \<open>What the operations promise\<close>

lemma patch_simps [simp]:
  "mc_state (mc_patchState p mc) = p (mc_state mc)"
  "mc_socket (mc_patchState p mc) = mc_socket mc"
  "mc_recovers (mc_patchState p mc) = mc_recovers mc"
  "mc_recoverAbort (mc_patchState p mc) = mc_recoverAbort mc"
  "mc_recoverInFlight (mc_patchState p mc) = mc_recoverInFlight mc"
  "mc_recoverRequestId (mc_patchState p mc) = mc_recoverRequestId mc"
  "mc_nextAbort (mc_patchState p mc) = mc_nextAbort mc"
  "mc_aborted (mc_patchState p mc) = mc_aborted mc"
  "mc_queues (mc_patchState p mc) = mc_queues mc"
  "mc_queueAbort (mc_patchState p mc) = mc_queueAbort mc"
  "mc_activeSession (mc_patchState p mc) = mc_activeSession mc"
  "mc_firstSnapshotRecoverAttempts (mc_patchState p mc) = mc_firstSnapshotRecoverAttempts mc"
  "mc_firstSnapshotTimeout (mc_patchState p mc) = mc_firstSnapshotTimeout mc"
  "mc_destroyed (mc_patchState p mc) = mc_destroyed mc"
  by (simp_all add: ctl_defs Let_def)

lemmas patch_ops = dispatchMatchmaking_def setConnectionIssue_def set_queue_error_def

lemma fetched_frees_lock:
  assumes "active_recover mc = Some (rk_id tk)" and "mc_recoverAbort mc = Some (rk_abort tk)"
  shows "active_recover (recover_fetched cfg sess tk r mc) = None"
    and "\<not> mc_recoverInFlight (recover_fetched cfg sess tk r mc)"
proof -
  have f: "active_recover (finish_recover tk m) = None \<and> \<not> mc_recoverInFlight (finish_recover tk m)"
    if v: "recover_view m = recover_view (dispatchMatchmaking (RecoverFailed (rk_id tk)) mc)" for m
  proof -
    have "active_recover m = None \<and> mc_recoverAbort m = Some (rk_abort tk)"
      using v assms unfolding view_failed by (simp add: recover_view_def)
    then show ?thesis by (simp add: finish_recover_def Let_def)
  qed
  have v: "recover_view (resolve_recover tk out b m) = recover_view (dispatchMatchmaking (RecoverFailed (rk_id tk)) mc)"
    if "recover_view m = recover_view mc" for out b m
    unfolding view_resolve by (rule view_dispatch_cong [OF that])
  have c: "active_recover m = None \<and> \<not> mc_recoverInFlight m"
    if "m = finish_recover tk (connectToAssignedGame cfg s a (resolve_recover tk out b mc))" for m s a out b
    unfolding that by (rule f) (simp add: v)
  have d: "active_recover m = None \<and> \<not> mc_recoverInFlight m" if "m = fail_recover tk mc" for m
    unfolding that fail_recover_def by (rule f) simp
  have e: "active_recover m = None \<and> \<not> mc_recoverInFlight m"
    if "m = finish_recover tk (abandon_recover tk issue mc)" for m issue
    unfolding that abandon_recover_def by (rule f, rule v) simp
  have h: "active_recover m = None \<and> \<not> mc_recoverInFlight m"
    if "m = finish_recover tk (resolve_recover tk OutReady True
      (mc_patchState (\<lambda>st. st\<lparr>m_snapshot := sn, m_activeMatchId := i, m_connectionIssue := []\<rparr>) mc))" for m sn i
    unfolding that by (rule f, rule v) simp
  have "active_recover (recover_fetched cfg sess tk r mc) = None \<and> \<not> mc_recoverInFlight (recover_fetched cfg sess tk r mc)"
    unfolding recover_fetched_def
    by (simp add: c [OF refl] d [OF refl] e [OF refl] h [OF refl]
        split: sum.split match_session_response.split option.split)
  then show "active_recover (recover_fetched cfg sess tk r mc) = None"
    and "\<not> mc_recoverInFlight (recover_fetched cfg sess tk r mc)" by blast+
qed

lemma onSnapshot_snapshot:
  "m_snapshot (mc_state (onSnapshot cfg now snap mc)) =
     (case m_snapshot (mc_state mc) of
        None \<Rightarrow> Some snap
      | Some old \<Rightarrow>
          if sn_matchId old = sn_matchId snap \<and> sn_eventSequence snap < sn_eventSequence old
          then Some old else Some snap)"
  by (simp add: onSnapshot_def Let_def split: option.splits)

lemma onSnapshot_run:
  assumes "m_snapshot (mc_state mc) = Some old" and "\<forall>s\<in>set snaps. sn_matchId s = sn_matchId old"
  shows "\<exists>new. m_snapshot (mc_state (fold (onSnapshot cfg now) snaps mc)) = Some new \<and>
     sn_matchId new = sn_matchId old \<and>
     sn_eventSequence new = Max (sn_eventSequence ` insert old (set snaps))"
  using assms
proof (induction snaps arbitrary: mc old)
  case (Cons s snaps)
  let ?cur = "if sn_eventSequence s < sn_eventSequence old then old else s"
  have h: "m_snapshot (mc_state (onSnapshot cfg now s mc)) = Some ?cur"
    using Cons.prems by (simp add: onSnapshot_snapshot)
  have i: "\<forall>x\<in>set snaps. sn_matchId x = sn_matchId ?cur" using Cons.prems by simp
  have m: "Max (sn_eventSequence ` insert ?cur (set snaps)) = Max (sn_eventSequence ` insert old (set (s # snaps)))"
    by (cases "snaps = []") (auto simp: max_def)
  from Cons.IH [OF h i] obtain new where
    "m_snapshot (mc_state (fold (onSnapshot cfg now) snaps (onSnapshot cfg now s mc))) = Some new"
    and "sn_matchId new = sn_matchId ?cur"
    and "sn_eventSequence new = Max (sn_eventSequence ` insert ?cur (set snaps))" by blast
  moreover have "sn_matchId ?cur = sn_matchId old" using Cons.prems by simp
  ultimately show ?case using m by (intro exI [of _ new]) (simp only: fold_simps o_apply simp_thms)
qed simp

lemma abort_controller_aborted: "set (mc_aborted (abort_controller co mc)) = set_option co \<union> set (mc_aborted mc)"
  by (auto simp: abort_controller_def split: option.splits)

lemma abort_controller_simps [simp]:
  "mc_state (abort_controller co mc) = mc_state mc"
  "mc_queueAbort (abort_controller co mc) = mc_queueAbort mc"
  "mc_nextAbort (abort_controller co mc) = mc_nextAbort mc"
  "mc_recovers (abort_controller co mc) = mc_recovers mc"
  "mc_recoverAbort (abort_controller co mc) = mc_recoverAbort mc"
  by (simp_all add: abort_controller_def split: option.splits)

section \<open>Superseded recoveries are aborted\<close>

text \<open>Every recovery but the current one has an aborted signal.\<close>

definition abort_inv :: "match_ctl \<Rightarrow> bool" where
  "abort_inv mc \<longleftrightarrow>
     (\<forall>t\<in>set (mc_recovers mc). mc_recoverAbort mc = Some (rk_abort t) \<or> rk_abort t \<in> set (mc_aborted mc))"

lemma abort_inv_image:
  "abort_inv mc \<longleftrightarrow>
     (\<forall>c\<in>rk_abort ` set (mc_recovers mc). mc_recoverAbort mc = Some c \<or> c \<in> set (mc_aborted mc))"
  by (simp add: abort_inv_def)

lemma clear_frees [simp]:
  "mc_recoverAbort (clearRecoverTracking mc) = None"
  "mc_recovers (clearRecoverTracking mc) = mc_recovers mc"
  by (auto simp: clearRecoverTracking_def Let_def)

lemma abort_inv_view:
  assumes v: "recover_view mc' = recover_view mc" and "set (mc_aborted mc) \<subseteq> set (mc_aborted mc')"
    and "abort_inv mc"
  shows "abort_inv mc'"
proof -
  have e: "map (\<lambda>t. (rk_id t, rk_abort t)) (mc_recovers mc') = map (\<lambda>t. (rk_id t, rk_abort t)) (mc_recovers mc)"
    and a: "mc_recoverAbort mc' = mc_recoverAbort mc" using v by (simp_all add: recover_view_def)
  have "rk_abort ` set (mc_recovers mc') = rk_abort ` set (mc_recovers mc)"
    using arg_cong [OF e, of "\<lambda>l. snd ` set l"] by (simp add: image_image)
  then show ?thesis using assms(2,3) unfolding abort_inv_image a by auto
qed

lemma aborted_simple [simp]:
  "mc_aborted (mc_log x mc) = mc_aborted mc"
  "mc_aborted (dispatchMatchmaking a mc) = mc_aborted mc"
  "mc_aborted (clearRecoverTracking mc) = mc_aborted mc"
  "mc_aborted (clearFirstSnapshotTimeout mc) = mc_aborted mc"
  "mc_aborted (close_socket mc) = mc_aborted mc"
  "mc_aborted (mc_start mc) = mc_aborted mc"
  "mc_aborted (setConnectionIssue v mc) = mc_aborted mc"
  "mc_aborted (set_queue_error v mc) = mc_aborted mc"
  "mc_aborted (playMatchFoundSfx mc) = mc_aborted mc"
  "mc_aborted (release_queue c mc) = mc_aborted mc"
  "mc_aborted (drop_queue c mc) = mc_aborted mc"
  "mc_aborted (set_queue_stage c stage mc) = mc_aborted mc"
  "mc_aborted (startFirstSnapshotTimeout target mc) = mc_aborted mc"
  "mc_aborted (noteServerActivity cfg now mc) = mc_aborted mc"
  "mc_aborted (markConnectionUnhealthy m b mc) = mc_aborted mc"
  "mc_aborted (finish_recover tk mc) = mc_aborted mc"
  "mc_aborted (startRecover s mc) = mc_aborted mc"
  by (auto simp: mc_log_def patch_ops clearRecoverTracking_def clearFirstSnapshotTimeout_def close_socket_def
      mc_start_def playMatchFoundSfx_def release_queue_def drop_queue_def set_queue_stage_def finish_recover_def
      startRecover_def startFirstSnapshotTimeout_def noteServerActivity_def markConnectionUnhealthy_def Let_def
      split: option.splits)

lemma aborted_calls [simp]:
  "mc_aborted (connectToAssignedGame cfg s a mc) = mc_aborted mc"
  "mc_aborted (snd (sendGameCommand cfg amb k p opts mc)) = mc_aborted mc"
  "mc_aborted (resolve_recover tk out b mc) = mc_aborted mc"
  "mc_aborted (fail_recover tk mc) = mc_aborted mc"
  "mc_aborted (abandon_recover tk issue mc) = mc_aborted mc"
  "mc_aborted (queue_failed e mc) = mc_aborted mc"
  "mc_aborted (finish_single c r mc) = mc_aborted mc"
  "mc_aborted (setStatus st mc) = mc_aborted mc"
  "mc_aborted (onSnapshot cfg now snap mc) = mc_aborted mc"
  "mc_aborted (onClose cfg b mc) = mc_aborted mc"
  by (auto simp: connectToAssignedGame_def sendGameCommand_def resolve_recover_def fail_recover_def
      abandon_recover_def queue_failed_def finish_single_def setStatus_def onSnapshot_def onClose_def Let_def
      split: js_error.splits option.splits)

lemma aborted_steps [simp]:
  "mc_aborted (heartbeatTick cfg amb mc) = mc_aborted mc"
  "mc_aborted (onOpen cfg amb mc) = mc_aborted mc"
  "mc_aborted (snd (resumeResolvedMatch cfg so a sfx mc)) = mc_aborted mc"
  "mc_aborted (queue_onEvent cfg s ev mc) = mc_aborted mc"
  "mc_aborted (step_queue_session now c r mc) = mc_aborted mc"
  "mc_aborted (queue_settled c mc) = mc_aborted mc"
  "mc_aborted (single_failed c err mc) = mc_aborted mc"
  by (auto simp: heartbeatTick_def onOpen_def resumeResolvedMatch_def queue_onEvent_def step_queue_session_def
      queue_session_def queue_settled_def single_failed_def Let_def
      split: option.splits queue_event.splits queue_stage.splits sum.splits js_error.splits)

lemma aborted_single [simp]:
  "mc_aborted (single_session c r mc) = mc_aborted mc"
  "mc_aborted (single_fetched cfg s c a mc) = mc_aborted mc"
  by (auto simp: single_session_def single_fetched_def split: sum.splits option.splits)

lemma aborted_stream [simp]: "mc_aborted (queue_stream_event cfg c e mc) = mc_aborted mc"
proof -
  have "mc_aborted (fold (queue_onEvent cfg s) evs m) = mc_aborted m" for s evs m
    by (induction evs arbitrary: m) simp_all
  then show ?thesis by (auto simp: queue_stream_event_def Let_def split: option.splits queue_stage.splits)
qed

lemma aborted_cancel: "set (mc_aborted mc) \<subseteq> set (mc_aborted (cancelQueue so mc))"
  by (auto simp: cancelQueue_def abort_controller_aborted Let_def split: option.splits)

lemma abort_inv_clear: "abort_inv mc \<Longrightarrow> abort_inv (clearRecoverTracking (abort_controller (mc_recoverAbort mc) mc))"
  by (auto simp: abort_inv_def abort_controller_aborted)

lemma abort_inv_start: "recover_inv mc \<Longrightarrow> abort_inv mc \<Longrightarrow> abort_inv (startRecover s mc)"
  by (auto simp: abort_inv_def recover_inv_def recover_view_def startRecover_def patch_ops Let_def split: option.splits)

lemma abort_inv_finish:
  assumes inv: "recover_inv mc" and "tk \<in> set (mc_recovers mc)" and "abort_inv mc"
    and v: "recover_view mc' = recover_view (dispatchMatchmaking (RecoverFailed (rk_id tk)) mc)"
    and sub: "set (mc_aborted mc) \<subseteq> set (mc_aborted mc')"
  shows "abort_inv (finish_recover tk mc')"
proof -
  have e: "map (\<lambda>t. (rk_id t, rk_abort t)) (mc_recovers mc') = map (\<lambda>t. (rk_id t, rk_abort t)) (mc_recovers mc)"
    and a: "mc_recoverAbort mc' = mc_recoverAbort mc"
    using v unfolding view_failed by (simp_all add: recover_view_def)
  have d: "distinct (map rk_abort (mc_recovers mc))"
    using inv by (auto simp: recover_inv_def recover_view_def o_def)
  have "rk_abort t \<in> set (mc_aborted mc')" if t: "t \<in> set (mc_recovers mc')" "rk_id t \<noteq> rk_id tk"
    "mc_recoverAbort mc' \<noteq> Some (rk_abort t) \<or> rk_abort t = rk_abort tk" for t
  proof -
    from t(1) have "(rk_id t, rk_abort t) \<in> set (map (\<lambda>t. (rk_id t, rk_abort t)) (mc_recovers mc'))" by auto
    then obtain u where u: "u \<in> set (mc_recovers mc)" "rk_id u = rk_id t" "rk_abort u = rk_abort t"
      unfolding e by auto
    have "rk_abort u \<noteq> rk_abort tk" using distinct_map_unique [OF d u(1) assms(2)] u(2) t(2) by auto
    with u t(3) assms(3) a sub show ?thesis by (fastforce simp: abort_inv_def)
  qed
  then show ?thesis by (auto simp: abort_inv_def finish_recover_def Let_def)
qed

lemma abort_inv_reset: "abort_inv mc \<Longrightarrow> abort_inv (resetConnectionState mc)"
  unfolding resetConnectionState_def Let_def
  by (rule abort_inv_view [rotated 2], rule abort_inv_clear, assumption) (auto simp: abort_controller_aborted)

lemma abort_inv_fail:
  "recover_inv mc \<Longrightarrow> abort_inv mc \<Longrightarrow> tk \<in> set (mc_recovers mc) \<Longrightarrow> abort_inv (fail_recover tk mc)"
  unfolding fail_recover_def by (rule abort_inv_finish) auto

lemma abort_inv_resolve:
  assumes "recover_inv mc" and "abort_inv mc" and "tk \<in> set (mc_recovers mc)"
    and "recover_view m = recover_view mc" and "mc_aborted m = mc_aborted mc"
  shows "abort_inv (finish_recover tk (resolve_recover tk out b m))"
  by (rule abort_inv_finish [OF assms(1,3,2)])
     (auto simp: view_resolve view_dispatch_cong [OF assms(4)] assms(5))

lemma abort_inv_dropped:
  "abort_inv mc \<Longrightarrow> mc_recoverAbort mc = None \<Longrightarrow> abort_inv (finish_recover tk mc)"
  by (auto simp: abort_inv_def finish_recover_def Let_def)

lemma abort_inv_signed_out:
  "abort_inv mc \<Longrightarrow> abort_inv (resetConnectionState (mc_log x (dispatchMatchmaking (RecoverFailed r) mc)))"
  by (rule abort_inv_reset) (simp add: abort_inv_def mc_log_def dispatchMatchmaking_def)

lemma abort_inv_ensured:
  assumes "recover_inv mc" and "abort_inv mc" and "tk \<in> set (mc_recovers mc)"
  shows "abort_inv (recover_ensured tk r mc)"
  using assms
  by (auto simp: recover_ensured_def Let_def abort_inv_fail abort_inv_dropped abort_inv_signed_out
      intro: abort_inv_view [OF view_stage] split: sum.splits option.splits)

lemma abort_inv_fetched:
  assumes "recover_inv mc" and "abort_inv mc" and "tk \<in> set (mc_recovers mc)"
  shows "abort_inv (recover_fetched cfg sess tk r mc)"
proof -
  have c: "abort_inv (finish_recover tk (connectToAssignedGame cfg s a (resolve_recover tk out b mc)))" for s a out b
    by (rule abort_inv_finish [OF assms(1,3,2)]) (auto simp: view_resolve)
  have h: "abort_inv (finish_recover tk (resolve_recover tk OutReady True
      (mc_patchState (\<lambda>st. st\<lparr>m_snapshot := sn, m_activeMatchId := i, m_connectionIssue := []\<rparr>) mc)))" for sn i
    by (rule abort_inv_resolve [OF assms]) simp_all
  have e: "abort_inv (finish_recover tk (abandon_recover tk issue mc))" for issue
    unfolding abandon_recover_def by (rule abort_inv_resolve [OF assms]) simp_all
  show ?thesis unfolding recover_fetched_def
    by (simp add: c e h abort_inv_fail [OF assms]
        split: sum.split match_session_response.split option.split)
qed

lemma abort_inv_onClose: "recover_inv mc \<Longrightarrow> abort_inv mc \<Longrightarrow> abort_inv (onClose cfg e mc)"
proof -
  assume r: "recover_inv mc" and h: "abort_inv mc"
  have "recover_inv m \<and> abort_inv m" if "recover_view m = recover_view mc" and "mc_aborted m = mc_aborted mc" for m
    using recover_inv_view [OF that(1) r] abort_inv_view [OF that(1) _ h] that(2) by simp
  then show ?thesis by (simp add: onClose_def Let_def abort_inv_start split: option.split)
qed

lemma abort_inv_handle: "recover_inv mc \<Longrightarrow> abort_inv mc \<Longrightarrow> abort_inv (handle_socket cfg amb call mc)"
  by (cases call) (auto intro: abort_inv_view [of _ mc] abort_inv_onClose)

lemma abort_inv_handles:
  "recover_inv mc \<Longrightarrow> abort_inv mc \<Longrightarrow> abort_inv (fold (handle_socket cfg amb) calls mc)"
  by (induction calls arbitrary: mc) (auto intro: abort_inv_handle recover_inv_handle)

lemma abort_inv_timeout:
  assumes "recover_inv mc" and "abort_inv mc"
  shows "abort_inv (firstSnapshotTimedOut so target mc)"
proof -
  have "recover_inv m \<and> abort_inv m" if "recover_view m = recover_view mc" and "mc_aborted m = mc_aborted mc" for m
    using recover_inv_view [OF that(1) assms(1)] abort_inv_view [OF that(1) _ assms(2)] that(2) by simp
  then show ?thesis using assms by (simp add: firstSnapshotTimedOut_def Let_def abort_inv_start split: option.split)
qed

lemma abort_inv_more:
  assumes "abort_inv mc" and "mc_recovers mc' = mc_recovers mc" and "mc_recoverAbort mc' = mc_recoverAbort mc"
    and "set (mc_aborted mc) \<subseteq> set (mc_aborted mc')"
  shows "abort_inv mc'"
  using assms by (auto simp: abort_inv_def)

lemma abort_inv_step:
  assumes r: "recover_inv mc" and h: "abort_inv mc"
  shows "abort_inv (match_step cfg f amb ev mc)"
proof (cases ev)
  case (EvSocket e)
  have "recover_inv (mc\<lparr>mc_socket := s\<rparr>)" and "abort_inv (mc\<lparr>mc_socket := s\<rparr>)" for s
    using recover_inv_view [OF view_fields(1) r] h by (simp_all add: abort_inv_def)
  then show ?thesis using EvSocket by (simp add: on_socket_def Let_def abort_inv_handles)
next
  case EvDestroy
  have "abort_inv (mc\<lparr>mc_destroyed := True, mc_started := False\<rparr>)" using h by (simp add: abort_inv_def)
  from abort_inv_clear [OF this] show ?thesis using EvDestroy
    by (auto simp: mc_destroy_def Let_def abort_controller_aborted clearFirstSnapshotTimeout_def close_socket_def
        elim!: abort_inv_more)
next
  case (EvAutoRecover b)
  have "abort_inv (mc\<lparr>mc_autoRecoverEnabled := b\<rparr>)" using h by (simp add: abort_inv_def)
  from this abort_inv_clear [OF this] show ?thesis using EvAutoRecover
    by (auto simp: setAutoRecoverEnabled_def Let_def)
next
  case EvFirstSnapshot
  have "recover_inv (clearFirstSnapshotTimeout mc)" and "abort_inv (clearFirstSnapshotTimeout mc)"
    using recover_inv_view [OF view_simple(2) r] h by (simp_all add: abort_inv_def clearFirstSnapshotTimeout_def)
  then show ?thesis using EvFirstSnapshot h by (auto simp: abort_inv_timeout split: option.splits)
next
  case (EvRecoverEnsured i a)
  then show ?thesis using r h
    by (auto simp: step_recover_ensured_def abort_inv_ensured find_Some_iff split: option.splits recover_stage.splits)
next
  case (EvRecoverFetched i a)
  then show ?thesis using r h
    by (auto simp: step_recover_fetched_def abort_inv_fetched find_Some_iff split: option.splits recover_stage.splits)
next
  case (EvJoinQueue rs)
  then show ?thesis using h
    by (auto simp: joinQueue_def set_queue_error_def abort_controller_aborted Let_def intro!: abort_inv_more [OF h])
next
  case EvSingle
  have "mc_recovers (startSingleplayer mc) = mc_recovers mc \<and> mc_recoverAbort (startSingleplayer mc) = mc_recoverAbort mc \<and>
     set (mc_aborted mc) \<subseteq> set (mc_aborted (startSingleplayer mc))"
    by (auto simp: startSingleplayer_def dispatchMatchmaking_def mc_log_def abort_controller_aborted Let_def)
  then show ?thesis using EvSingle abort_inv_more [OF h] by simp
qed (auto intro: abort_inv_view [OF _ _ h] abort_inv_reset [OF h] abort_inv_view [OF _ aborted_cancel h] h
     split: option.splits single_stage.splits)

lemma reachable_abort_inv: "match_reachable cfg f mc \<Longrightarrow> abort_inv mc"
  by (induction rule: match_reachable.induct)
     (simp add: abort_inv_def new_match_ctl_def, blast intro: abort_inv_step reachable_recover_inv)

lemma reset_state:
  "m_snapshot (mc_state (resetConnectionState mc)) = None"
  "m_activeMatchId (mc_state (resetConnectionState mc)) = []"
  "gk_current (mc_socket (resetConnectionState mc)) = None"
  "mc_activeSession (resetConnectionState mc) = None"
  "mc_recovers (resetConnectionState mc) = mc_recovers mc"
  "mc_recoverAbort (resetConnectionState mc) = None"
  by (simp_all add: resetConnectionState_def close_socket_def clearFirstSnapshotTimeout_def Let_def)

lemma joined_cancelled:
  assumes "mc_queues mc = []"
  shows "mc_queues (cancelQueue (Some s) (joinQueue rs mc)) =
      [\<lparr>qk_ctrl = mc_nextAbort mc, qk_rulesets = rs, qk_stage = QGetSession\<rparr>]"
    and "mc_nextAbort mc \<in> set (mc_aborted (cancelQueue (Some s) (joinQueue rs mc)))"
    and "mc_recoverAbort (cancelQueue (Some s) (joinQueue rs mc)) = mc_recoverAbort mc"
    and "mc_queueAbort (cancelQueue (Some s) (joinQueue rs mc)) = Some (mc_nextAbort mc)"
proof -
  have q: "mc_queues (abort_controller co m) = mc_queues m" if "\<forall>t\<in>set (mc_queues m). qk_stage t = QGetSession" for co m
    using that by (auto simp: abort_controller_def abort_stream_def intro!: map_idI split: option.split)
  show "mc_queues (cancelQueue (Some s) (joinQueue rs mc)) =
      [\<lparr>qk_ctrl = mc_nextAbort mc, qk_rulesets = rs, qk_stage = QGetSession\<rparr>]"
    using assms by (simp add: cancelQueue_def joinQueue_def set_queue_error_def dispatchMatchmaking_def q Let_def)
qed (simp_all add: cancelQueue_def joinQueue_def set_queue_error_def dispatchMatchmaking_def
    abort_controller_aborted Let_def)

section \<open>Properties\<close>

text \<open>
  C1. The recovery lock never leaks: in every reachable state where a recovery is marked active, its
  request is still pending and is the one an abort would reach, no second recovery can start, and
  whatever the match session request answers, the answer frees the lock.
\<close>

theorem recovery_lock_never_leaks:
  fixes cfg f mc r s sess answer
  assumes "match_reachable cfg f mc" and "active_recover mc = Some r"
  shows "\<exists>tk\<in>set (mc_recovers mc). rk_id tk = r \<and> mc_recoverAbort mc = Some (rk_abort tk) \<and>
     startRecover s mc = mc \<and>
     active_recover (recover_fetched cfg sess tk answer mc) = None \<and>
     \<not> mc_recoverInFlight (recover_fetched cfg sess tk answer mc)"
proof -
  have "lock_inv (recover_view mc)"
    using reachable_recover_inv [OF assms(1)] by (simp add: recover_inv_def)
  then obtain tk where tk: "tk \<in> set (mc_recovers mc)" "rk_id tk = r" "mc_recoverAbort mc = Some (rk_abort tk)"
    and busy: "mc_recoverInFlight mc"
    using assms(2) by (auto simp: recover_view_def split: option.splits)
  then show ?thesis
    using fetched_frees_lock [of mc tk cfg sess answer] assms(2) by (auto simp: startRecover_def)
qed

text \<open>A controller that is in a match, for the concrete instances.\<close>

definition sample_match :: live_assignment where
  "sample_match =
     \<lparr>la_matchId = ''m1'', la_mode = ''duel'', la_config = None, la_node = ''n1'', la_ticket = ''t1'',
      la_wsPath = [], la_sourceLobbyId = None, la_sourceLobbyInviteCode = None\<rparr>"

definition sample_user :: auth_session where
  "sample_user = emptyAuthSession\<lparr>s_userId := ''u1'', s_accessToken := ''tok'', s_canPlay := Some True\<rparr>"

definition sample_ambient :: ambient where
  "sample_ambient = \<lparr>am_now = 1000, am_rnd = 7, am_session = Some sample_user\<rparr>"

definition plain_config :: runtime_config where
  "plain_config = createRuntimeConfig (\<lambda>_. None) []"

definition joined :: match_ctl where
  "joined = match_step plain_config (\<lambda>_. sample_snapshot) sample_ambient
     (EvResume (Some sample_user) sample_match False) new_match_ctl"

lemma joined_reachable: "match_reachable plain_config (\<lambda>_. sample_snapshot) joined"
  unfolding joined_def by (rule reach_step, rule reach_new)

text \<open>The same controller after the network dropped its socket.\<close>

definition dropped :: match_ctl where
  "dropped = match_step plain_config (\<lambda>_. sample_snapshot) sample_ambient (EvSocket (SockClose 0)) joined"

lemma dropped_recovers: "active_recover dropped = Some 1"
  by (simp add: dropped_def joined_def resumeResolvedMatch_def connectToAssignedGame_def
      startFirstSnapshotTimeout_def clearFirstSnapshotTimeout_def new_match_ctl_def patch_ops
      sample_match_def sample_user_def emptyAuthSession_def new_socket_client_def gs_connect_def gs_close_def
      initial_match_state_def initialMatchmakingState_def on_socket_def onClose_def startRecover_def
      ready_of_def set_ready_def Let_def)

theorem recovery_lock_never_leaks_witness:
  "\<exists>tk\<in>set (mc_recovers dropped). rk_id tk = 1 \<and> mc_recoverAbort dropped = Some (rk_abort tk) \<and>
     startRecover sample_user dropped = dropped \<and>
     active_recover (recover_fetched plain_config None tk (Inr (Missing ''m1'')) dropped) = None \<and>
     \<not> mc_recoverInFlight (recover_fetched plain_config None tk (Inr (Missing ''m1'')) dropped)"
proof -
  have "match_reachable plain_config (\<lambda>_. sample_snapshot) dropped"
    unfolding dropped_def by (rule reach_step, rule joined_reachable)
  from recovery_lock_never_leaks [OF this dropped_recovers] show ?thesis .
qed

text \<open>
  C2. Snapshots never go back: of the snapshots of one match, however they are reordered on their
  way, the controller ends up showing the one with the highest event sequence.
\<close>

theorem snapshots_never_regress:
  assumes "m_snapshot (mc_state mc) = Some old" and "\<forall>s\<in>set snaps. sn_matchId s = sn_matchId old"
  shows "\<exists>new. m_snapshot (mc_state (fold (onSnapshot cfg now) snaps mc)) = Some new \<and>
     sn_matchId new = sn_matchId old \<and> sn_eventSequence new = Max (sn_eventSequence ` insert old (set snaps))"
  by (rule onSnapshot_run [OF assms])

theorem snapshots_never_regress_witness:
  "\<exists>new. m_snapshot (mc_state (fold (onSnapshot plain_config 5)
       [sample_snapshot\<lparr>sn_eventSequence := 9\<rparr>, sample_snapshot\<lparr>sn_eventSequence := 4\<rparr>]
       (new_match_ctl\<lparr>mc_state := initial_match_state\<lparr>m_snapshot := Some sample_snapshot\<rparr>\<rparr>))) = Some new \<and>
     sn_eventSequence new = 9"
proof -
  let ?mc = "new_match_ctl\<lparr>mc_state := initial_match_state\<lparr>m_snapshot := Some sample_snapshot\<rparr>\<rparr>"
  let ?ss = "[sample_snapshot\<lparr>sn_eventSequence := 9\<rparr>, sample_snapshot\<lparr>sn_eventSequence := 4\<rparr>]"
  have "\<exists>new. m_snapshot (mc_state (fold (onSnapshot plain_config 5) ?ss ?mc)) = Some new \<and>
     sn_matchId new = sn_matchId sample_snapshot \<and>
     sn_eventSequence new = Max (sn_eventSequence ` insert sample_snapshot (set ?ss))"
    by (rule snapshots_never_regress) simp_all
  moreover have "Max (sn_eventSequence ` insert sample_snapshot (set ?ss)) = 9"
    by (simp add: sample_snapshot_def)
  ultimately show ?thesis by auto
qed

text \<open>
  Joining a live match is tried a bounded number of times: at most three recoveries follow a
  missing first snapshot, and when the timer fires once more the match is given up, with the socket
  closed and the status \<open>abandoned\<close>.
\<close>

theorem join_attempts_bounded:
  assumes "match_reachable cfg f mc"
  shows "mc_firstSnapshotRecoverAttempts mc \<le> 3 \<and>
    (\<forall>target. mc_firstSnapshotTimeout mc = Some target \<and> \<not> mc_destroyed mc \<and>
       map_option sn_matchId (m_snapshot (mc_state mc)) \<noteq> Some target \<and> mc_firstSnapshotRecoverAttempts mc = 3 \<longrightarrow>
       mm_status (m_matchmaking (mc_state (match_step cfg f amb EvFirstSnapshot mc))) = Abandoned \<and>
       gk_current (mc_socket (match_step cfg f amb EvFirstSnapshot mc)) = None \<and>
       mc_recovers (match_step cfg f amb EvFirstSnapshot mc) = mc_recovers mc)"
  using reachable_misc_inv [OF assms]
  by (auto simp: misc_inv_def firstSnapshotTimedOut_def clearFirstSnapshotTimeout_def close_socket_def
      patch_ops Let_def split: option.split)

theorem join_attempts_bounded_witness: "mc_firstSnapshotRecoverAttempts joined \<le> 3"
  unfolding joined_def
  by (rule join_attempts_bounded [THEN conjunct1], rule reach_step, rule reach_new)

text \<open>
  C5. A dropped connection is recovered: when the gameplay socket closes without the client having
  asked for it, during a match and with no recovery in flight, the match shows the reconnecting
  message and a recovery of the active session has started.
\<close>

theorem unexpected_close_recovers:
  fixes cfg f mc i s amb
  assumes "match_reachable cfg f mc" and "gk_current (mc_socket mc) = Some i"
    and "mc_activeSession mc = Some s" and "s_userId s \<noteq> []" and "s_accessToken s \<noteq> []"
    and "\<not> s_onboardingRequired s" and "m_activeMatchId (mc_state mc) \<noteq> []" and "active_recover mc = None"
  defines "mc' \<equiv> match_step cfg f amb (EvSocket (SockClose i)) mc"
  shows "active_recover mc' = Some (mc_recoverRequestId mc + 1) \<and>
         (\<exists>tk\<in>set (mc_recovers mc'). rk_id tk = mc_recoverRequestId mc + 1 \<and> rk_stage tk = REnsuring) \<and>
         m_connectionIssue (mc_state mc') = gameConnectionErrorMessage cfg \<and> \<not> m_connected (mc_state mc')"
proof -
  have inv: "socket_inv (mc_socket mc)" using reachable_misc_inv [OF assms(1)] by (simp add: misc_inv_def)
  then have "ready_of (mc_socket mc) i \<noteq> SClosed \<and> \<not> mk_expectedClose (gk_sockets (mc_socket mc) ! i)"
    using assms(2) by (auto simp: socket_inv_def socket_ok_def ready_of_def)
  moreover have "\<not> mc_recoverInFlight mc"
    using reachable_recover_inv [OF assms(1)] assms(8)
    by (auto simp: recover_inv_def recover_view_def split: option.splits)
  ultimately show ?thesis
    using assms(2-8) by (simp add: mc'_def on_socket_def onClose_def startRecover_def patch_ops Let_def)
qed

theorem unexpected_close_recovers_witness:
  "active_recover (match_step plain_config (\<lambda>_. sample_snapshot) sample_ambient (EvSocket (SockClose 0)) joined) = Some 1"
proof -
  have r: "match_reachable plain_config (\<lambda>_. sample_snapshot) joined"
    unfolding joined_def by (rule reach_step, rule reach_new)
  note d = joined_def resumeResolvedMatch_def connectToAssignedGame_def startFirstSnapshotTimeout_def
    clearFirstSnapshotTimeout_def new_match_ctl_def patch_ops sample_match_def sample_user_def
    emptyAuthSession_def new_socket_client_def gs_connect_def gs_close_def initial_match_state_def
    initialMatchmakingState_def
  have s: "gk_current (mc_socket joined) = Some 0" "mc_activeSession joined = Some sample_user"
    "m_activeMatchId (mc_state joined) \<noteq> []" "active_recover joined = None" "mc_recoverRequestId joined = 0"
    by (simp_all add: d Let_def)
  have u: "s_userId sample_user \<noteq> []" "s_accessToken sample_user \<noteq> []" "\<not> s_onboardingRequired sample_user"
    by (simp_all add: sample_user_def emptyAuthSession_def)
  from unexpected_close_recovers [OF r s(1,2) u s(3,4), of sample_ambient] s(5) show ?thesis by simp
qed

text \<open>
  C6. A connection the client itself declares dead is not recovered: the heartbeat that finds the
  socket stale closes it as expected, so its close starts no recovery and the match stays
  disconnected, with an error shown and no socket.
\<close>

theorem stale_close_never_recovers:
  fixes cfg f mc i amb amb'
  assumes "match_reachable cfg f mc" and "isOpen (mc_socket mc)" and "gk_current (mc_socket mc) = Some i"
    and "mc_heartbeat mc" and "0 < max (mc_lastSocketOpenedAt mc) (mc_lastServerSeenAt mc)"
    and "socketStaleAfterMs cfg < am_now amb - max (mc_lastSocketOpenedAt mc) (mc_lastServerSeenAt mc)"
  defines "mc' \<equiv> match_step cfg f amb' (EvSocket (SockClose i)) (match_step cfg f amb EvHeartbeat mc)"
  shows "mc_recovers mc' = mc_recovers mc \<and> active_recover mc' = active_recover mc \<and>
         gk_current (mc_socket mc') = None \<and> \<not> m_connected (mc_state mc') \<and>
         m_connectionIssue (mc_state mc') = connectionErrorMessage cfg \<and>
         mm_status (m_matchmaking (mc_state mc')) = mm_status (m_matchmaking (mc_state mc))"
proof -
  have inv: "socket_inv (mc_socket mc)" using reachable_misc_inv [OF assms(1)] by (simp add: misc_inv_def)
  then have i: "i < length (gk_sockets (mc_socket mc))" and "mk_state (gk_sockets (mc_socket mc) ! i) \<noteq> SClosed"
    using assms(3) by (auto simp: socket_inv_def socket_ok_def)
  moreover have "isOpenOrConnecting (mc_socket mc)" using inv assms(3) by (simp add: isOpenOrConnecting_iff)
  ultimately show ?thesis
    using assms(2-6)
    by (simp add: mc'_def heartbeatTick_def markConnectionUnhealthy_def close_socket_def gs_close_def
        on_socket_def onClose_def ready_of_def close_ready_def set_ready_def Let_def)
qed

text \<open>The sample match with its socket open and the heartbeat running.\<close>

definition live_match :: match_ctl where
  "live_match = match_step plain_config (\<lambda>_. sample_snapshot) sample_ambient (EvSocket (SockOpen 0))
     (match_step plain_config (\<lambda>_. sample_snapshot) sample_ambient
       (EvResume (Some sample_user) sample_match False)
       (match_step plain_config (\<lambda>_. sample_snapshot) sample_ambient EvStart new_match_ctl))"

lemma live_match_reachable: "match_reachable plain_config (\<lambda>_. sample_snapshot) live_match"
  unfolding live_match_def by (intro reach_step reach_new)

lemmas live_match_defs = live_match_def resumeResolvedMatch_def connectToAssignedGame_def
  startFirstSnapshotTimeout_def clearFirstSnapshotTimeout_def new_match_ctl_def sample_match_def
  sample_user_def emptyAuthSession_def new_socket_client_def gs_connect_def gs_close_def
  initial_match_state_def initialMatchmakingState_def on_socket_def onOpen_def sendGameCommand_def
  ready_of_def set_ready_def isOpen_def mc_start_def gs_send_def sample_ambient_def

lemma live_match_facts:
  "isOpen (mc_socket live_match)" "gk_current (mc_socket live_match) = Some 0" "mc_heartbeat live_match"
  "mc_lastSocketOpenedAt live_match = 1000" "mc_lastServerSeenAt live_match = 0"
  by (simp_all add: live_match_defs ctl_defs dispatchMatchmaking_def Let_def)

theorem stale_close_never_recovers_witness:
  "gk_current (mc_socket (match_step plain_config (\<lambda>_. sample_snapshot) sample_ambient (EvSocket (SockClose 0))
     (match_step plain_config (\<lambda>_. sample_snapshot) (sample_ambient\<lparr>am_now := 90000\<rparr>) EvHeartbeat live_match))) = None"
  by (rule stale_close_never_recovers [OF live_match_reachable live_match_facts(1-3),
        THEN conjunct2, THEN conjunct2, THEN conjunct1])
     (simp_all add: live_match_facts plain_config_def createRuntimeConfig_def)

text \<open>
  What a reset leaves behind, and what keeps it so: every controller a request could still carry is
  aborted.
\<close>

definition torn_down :: "match_ctl \<Rightarrow> bool" where
  "torn_down mc \<longleftrightarrow>
     m_snapshot (mc_state mc) = None \<and> m_activeMatchId (mc_state mc) = [] \<and>
     gk_current (mc_socket mc) = None \<and> mc_activeSession mc = None \<and> active_recover mc = None \<and>
     mc_firstSnapshotTimeout mc = None \<and> socket_inv (mc_socket mc) \<and>
     (\<forall>t\<in>set (mc_recovers mc). rk_abort t \<in> set (mc_aborted mc)) \<and>
     (\<forall>c. mc_queueAbort mc = Some c \<longrightarrow> c \<in> set (mc_aborted mc))"

text \<open>
  What may still arrive after it: answers of recoveries and of a single-player start, events of the
  sockets opened so far, and the timers.
\<close>

fun late_event :: "match_event \<Rightarrow> bool" where
  "late_event (EvRecoverEnsured i r) = True"
| "late_event (EvRecoverFetched i r) = True"
| "late_event (EvSingleSession r) = True"
| "late_event (EvSingleFetched r) = True"
| "late_event (EvSocket e) = True"
| "late_event EvHeartbeat = True"
| "late_event EvFirstSnapshot = True"
| "late_event _ = False"

lemma reset_fields:
  "mc_queueAbort (resetConnectionState mc) = mc_queueAbort mc"
  "active_recover (resetConnectionState mc) = None"
  "mc_firstSnapshotTimeout (resetConnectionState mc) = None"
  "mc_socket (resetConnectionState mc) = gs_close True (mc_socket mc)"
  "set_option (mc_queueAbort mc) \<subseteq> set (mc_aborted (resetConnectionState mc))"
proof -
  have sock: "mc_socket (abort_controller co m) = mc_socket m" for co m
    by (simp add: abort_controller_def split: option.split)
  show "mc_queueAbort (resetConnectionState mc) = mc_queueAbort mc"
    "active_recover (resetConnectionState mc) = None"
    "mc_firstSnapshotTimeout (resetConnectionState mc) = None"
    "mc_socket (resetConnectionState mc) = gs_close True (mc_socket mc)"
    "set_option (mc_queueAbort mc) \<subseteq> set (mc_aborted (resetConnectionState mc))"
    by (simp_all add: resetConnectionState_def clearRecoverTracking_def close_socket_def
        clearFirstSnapshotTimeout_def abort_controller_aborted sock Let_def)
qed

lemma torn_down_reset:
  assumes "abort_inv mc" and "socket_inv (mc_socket mc)"
  shows "torn_down (resetConnectionState mc)"
proof -
  have "rk_abort t \<in> set (mc_aborted (resetConnectionState mc))" if "t \<in> set (mc_recovers mc)" for t
    using abort_inv_reset [OF assms(1)] that by (auto simp: abort_inv_def reset_state)
  moreover have "c \<in> set (mc_aborted (resetConnectionState mc))" if "mc_queueAbort mc = Some c" for c
    using that reset_fields(5) [of mc] by simp
  ultimately show ?thesis
    using assms(2) by (simp add: torn_down_def reset_state reset_fields socket_inv_close)
qed

lemma torn_down_log [simp]: "torn_down (mc_log x mc) = torn_down mc"
  by (simp add: torn_down_def mc_log_def)

lemma torn_down_finish: "torn_down mc \<Longrightarrow> torn_down (finish_recover tk mc)"
  by (auto simp: torn_down_def finish_recover_def Let_def)

lemma torn_down_patch:
  assumes "torn_down mc" and "m_snapshot (g (mc_state mc)) = None" and "m_activeMatchId (g (mc_state mc)) = []"
    and "mm_activeRecover (m_matchmaking (g (mc_state mc))) = None"
  shows "torn_down (mc_patchState g mc)"
  using assms by (auto simp: torn_down_def mc_patchState_def mc_log_def Let_def)

lemma torn_down_fail: "torn_down mc \<Longrightarrow> torn_down (fail_recover tk mc)"
  unfolding fail_recover_def dispatchMatchmaking_def
  by (rule torn_down_finish, rule torn_down_patch) (auto simp: torn_down_def)

lemma torn_down_single: "torn_down mc \<Longrightarrow> torn_down (finish_single c x mc)"
  by (auto simp: torn_down_def finish_single_def release_queue_def mc_log_def Let_def)

lemma torn_down_ensured: "torn_down mc \<Longrightarrow> torn_down (recover_ensured tk r mc)"
proof -
  assume t: "torn_down mc"
  let ?m = "mc_log (MClearAuth ''Session expired. Please sign in again.'')
    (dispatchMatchmaking (RecoverFailed (rk_id tk)) mc)"
  have "abort_inv mc" and "socket_inv (mc_socket mc)" using t by (auto simp: torn_down_def abort_inv_def)
  then have "torn_down (resetConnectionState ?m)"
    by (intro torn_down_reset) (simp_all add: abort_inv_def mc_log_def dispatchMatchmaking_def)
  moreover have "recover_target (mc_state mc) = []" using t by (simp add: torn_down_def recover_target_def)
  ultimately show ?thesis
    using t by (simp add: recover_ensured_def torn_down_fail torn_down_finish split: sum.split option.split)
qed

lemma torn_down_closes: "set cs \<subseteq> {HClose True} \<Longrightarrow> torn_down mc \<Longrightarrow> torn_down (fold (handle_socket cfg amb) cs mc)"
  by (induction cs arbitrary: mc) (auto simp: onClose_def Let_def intro!: torn_down_patch, auto simp: torn_down_def)

lemma closes_send_nothing:
  "set cs \<subseteq> {HClose True} \<Longrightarrow> mc_socket (fold (handle_socket cfg amb) cs mc) = mc_socket mc"
  by (induction cs arbitrary: mc) (auto simp: onClose_def Let_def)

lemma react_sent: "gk_sent (fst (socket_react f e gs)) = gk_sent gs"
  by (cases e) (simp_all add: set_ready_def)

lemma torn_down_socket:
  assumes "torn_down mc"
  shows "torn_down (on_socket cfg f amb e mc)"
    and "gk_sent (mc_socket (on_socket cfg f amb e mc)) = gk_sent (mc_socket mc)"
proof -
  let ?r = "socket_react f e (mc_socket mc)"
  have i: "socket_inv (mc_socket mc)" and c: "gk_current (mc_socket mc) = None"
    using assms by (simp_all add: torn_down_def)
  have n: "set (snd ?r) \<subseteq> {HClose True}" and g: "gk_current (fst ?r) = None"
    using react_stale [OF i, where e = e and f = f] c by simp_all
  have "torn_down (mc\<lparr>mc_socket := fst ?r\<rparr>)"
    using assms g socket_inv_react [OF i, of f e] by (simp add: torn_down_def)
  then show "torn_down (on_socket cfg f amb e mc)" by (simp add: on_socket_def Let_def torn_down_closes [OF n])
  show "gk_sent (mc_socket (on_socket cfg f amb e mc)) = gk_sent (mc_socket mc)"
    by (simp add: on_socket_def Let_def closes_send_nothing [OF n] react_sent)
qed

lemma torn_down_fetched:
  assumes "torn_down mc"
  shows "torn_down (step_recover_fetched cfg sess i r mc)"
proof -
  have "recover_fetched cfg sess tk (unless_aborted (rk_abort tk) mc r) mc = fail_recover tk mc"
    if "tk \<in> set (mc_recovers mc)" for tk
    using assms that by (simp add: torn_down_def unless_aborted_def recover_fetched_def)
  then show ?thesis
    using assms by (auto simp: step_recover_fetched_def find_Some_iff torn_down_fail
        split: option.split recover_stage.split)
qed

lemma torn_down_error:
  "torn_down mc \<Longrightarrow> torn_down (dispatchMatchmaking (SetStatus Ready None) (set_queue_error m mc))"
  by (simp add: torn_down_def patch_ops)

lemma torn_down_single_failed: "torn_down mc \<Longrightarrow> torn_down (single_failed c e mc)"
  by (simp add: single_failed_def torn_down_single torn_down_error split: js_error.split)

lemma torn_down_single_session: "torn_down mc \<Longrightarrow> torn_down (single_session c r mc)"
  by (auto simp: single_session_def torn_down_single_failed torn_down_single torn_down_error
      split: sum.split option.split) (simp add: torn_down_def)

lemma torn_down_single_fetched:
  "torn_down mc \<Longrightarrow> torn_down (single_fetched cfg s c (unless_aborted c mc r) mc)"
  by (auto simp: single_fetched_def unless_aborted_def torn_down_single_failed torn_down_single
      split: sum.split) (auto simp: torn_down_def)

lemma single_sends_nothing:
  "mc_socket (single_session c r mc) = mc_socket mc"
  "torn_down mc \<Longrightarrow> mc_socket (single_fetched cfg s c (unless_aborted c mc r') mc) = mc_socket mc"
  by (auto simp: single_session_def single_fetched_def single_failed_def finish_single_def release_queue_def
      mc_log_def patch_ops unless_aborted_def torn_down_def Let_def
      split: sum.split option.split js_error.split)

lemma recover_sends_nothing:
  "mc_socket (fail_recover tk mc) = mc_socket mc"
  "gk_sent (mc_socket (recover_ensured tk r mc)) = gk_sent (mc_socket mc)"
  by (auto simp: fail_recover_def recover_ensured_def finish_recover_def patch_ops
      reset_fields mc_log_def Let_def split: sum.split option.split)

lemma fetched_sends_nothing:
  assumes "torn_down mc"
  shows "mc_socket (step_recover_fetched cfg sess i r mc) = mc_socket mc"
proof -
  have "recover_fetched cfg sess tk (unless_aborted (rk_abort tk) mc r) mc = fail_recover tk mc"
    if "tk \<in> set (mc_recovers mc)" for tk
    using assms that by (simp add: torn_down_def unless_aborted_def recover_fetched_def)
  then show ?thesis
    by (auto simp: step_recover_fetched_def find_Some_iff recover_sends_nothing
        split: option.split recover_stage.split)
qed

lemma torn_down_step:
  assumes "torn_down mc" and "late_event ev"
  shows "torn_down (match_step cfg f amb ev mc) \<and>
         gk_sent (mc_socket (match_step cfg f amb ev mc)) = gk_sent (mc_socket mc)"
proof -
  have no_socket: "\<not> isOpen (mc_socket mc)" using assms(1) by (simp add: torn_down_def isOpen_def)
  have no_timer: "mc_firstSnapshotTimeout mc = None" using assms(1) by (simp add: torn_down_def)
  show ?thesis
    using assms
    by (cases ev)
       (simp_all add: torn_down_socket torn_down_fetched fetched_sends_nothing recover_sends_nothing
          no_socket no_timer heartbeatTick_def step_recover_ensured_def torn_down_ensured
          torn_down_single_session torn_down_single_fetched single_sends_nothing
          split: option.split recover_stage.split single_stage.split)
qed

lemma torn_down_run:
  assumes "torn_down mc" and "\<forall>(amb, ev)\<in>set es. late_event ev"
  shows "torn_down (fold (\<lambda>(amb, ev). match_step cfg f amb ev) es mc) \<and>
         gk_sent (mc_socket (fold (\<lambda>(amb, ev). match_step cfg f amb ev) es mc)) = gk_sent (mc_socket mc)"
  using assms
proof (induction es arbitrary: mc)
  case (Cons e es)
  obtain amb ev where e: "e = (amb, ev)" by force
  have "late_event ev" using Cons.prems(2) e by simp
  note s = torn_down_step [OF Cons.prems(1) this, of cfg f amb]
  from Cons.IH [OF s [THEN conjunct1]] Cons.prems(2) s show ?case by (simp add: e)
qed simp

text \<open>
  C7. Signing out or leaving ends the match for good. Whatever state the controller was in, the reset
  leaves no snapshot, no match, no session and no socket; and nothing that was in flight then can bring
  any of them back, in whatever order and number it arrives: the session refreshes and match requests
  of recoveries, whatever they answer, the answers of a single-player start, the late events of the
  sockets, the heartbeat and the first-snapshot timer. Nor is anything sent any more. (The
  answers of a queue search are not among these: \<open>cancelled_search_still_queues\<close>.)
\<close>

theorem reset_is_final:
  fixes cfg f mc es
  assumes "match_reachable cfg f mc" and "\<forall>(amb, ev)\<in>set es. late_event ev"
  defines "mc' \<equiv> fold (\<lambda>(amb, ev). match_step cfg f amb ev) es (resetConnectionState mc)"
  shows "m_snapshot (mc_state mc') = None \<and> m_activeMatchId (mc_state mc') = [] \<and>
         gk_current (mc_socket mc') = None \<and> mc_activeSession mc' = None \<and> active_recover mc' = None \<and>
         gk_sent (mc_socket mc') = gk_sent (mc_socket mc)"
proof -
  have "abort_inv mc" and "socket_inv (mc_socket mc)"
    using reachable_abort_inv [OF assms(1)] reachable_misc_inv [OF assms(1)] by (simp_all add: misc_inv_def)
  then have "torn_down (resetConnectionState mc)" by (rule torn_down_reset)
  from torn_down_run [OF this assms(2), of cfg f, folded mc'_def] show ?thesis
    by (simp add: torn_down_def reset_fields)
qed

text \<open>
  A live match whose socket has dropped: its recovery has its session and waits for the match. The
  player signs out, and then the match request answers that the match can be joined.
\<close>

definition recovering_match :: match_ctl where
  "recovering_match = match_step plain_config (\<lambda>_. sample_snapshot) sample_ambient
     (EvRecoverEnsured 1 (Inr (Some sample_user)))
     (match_step plain_config (\<lambda>_. sample_snapshot) sample_ambient (EvSocket (SockClose 0)) live_match)"

lemma recovering_match_facts:
  "match_reachable plain_config (\<lambda>_. sample_snapshot) recovering_match"
  "map rk_stage (mc_recovers recovering_match) = [RFetching (s_accessToken sample_user) ''m1'']"
  unfolding recovering_match_def
   apply (intro reach_step live_match_reachable)
  apply (simp add: live_match_defs onClose_def startRecover_def step_recover_ensured_def recover_ensured_def
      recover_target_def ctl_defs patch_ops Let_def)
  done

theorem reset_is_final_witness:
  "map rk_stage (mc_recovers recovering_match) = [RFetching (s_accessToken sample_user) ''m1''] \<and>
   m_snapshot (mc_state (fold (\<lambda>(amb, ev). match_step plain_config (\<lambda>_. sample_snapshot) amb ev)
     [(sample_ambient, EvRecoverFetched 1 (Inr (LiveConnectable sample_match))), (sample_ambient, EvSocket (SockOpen 0))]
     (resetConnectionState recovering_match))) = None"
  using reset_is_final [OF recovering_match_facts(1), of
      "[(sample_ambient, EvRecoverFetched 1 (Inr (LiveConnectable sample_match))), (sample_ambient, EvSocket (SockOpen 0))]"]
  by (simp add: recovering_match_facts(2))

text \<open>
  A search that is cancelled while its session is still being fetched is not cancelled: when the
  session arrives the player is queued after all, on a queue socket no later cancel can close.
\<close>

theorem cancelled_search_still_queues:
  fixes rs mc s now
  assumes "mc_queues mc = []" and "mc_nextAbort mc \<notin> set (mc_aborted mc)"
    and "mc_queueAbort mc \<noteq> Some (mc_nextAbort mc)" and "mc_recoverAbort mc \<noteq> Some (mc_nextAbort mc)"
  defines "c \<equiv> mc_nextAbort mc"
  defines "cancelled \<equiv> cancelQueue (Some s) (joinQueue rs mc)"
  defines "arrived \<equiv> step_queue_session now c (Inr (Some s)) cancelled"
  defines "again \<equiv> cancelQueue (Some s) arrived"
  shows "mm_status (m_matchmaking (mc_state cancelled)) = Ready \<and>
         mm_status (m_matchmaking (mc_state arrived)) = Queueing \<and>
         (\<exists>qs. mc_queues again = [\<lparr>qk_ctrl = c, qk_rulesets = rs, qk_stage = QStreaming s qs False\<rparr>] \<and>
            \<not> qs_wsClosed qs \<and> qs_settled qs = None)"
proof -
  let ?tk = "\<lambda>st. \<lparr>qk_ctrl = c, qk_rulesets = rs, qk_stage = st\<rparr>"
  let ?qs = "new_queue_stream\<lparr>qs_aborted := True\<rparr>"
  have c1: "mc_queues cancelled = [?tk QGetSession]" "c \<in> set (mc_aborted cancelled)"
    "mc_recoverAbort cancelled = mc_recoverAbort mc" "mc_queueAbort cancelled = Some c"
    using joined_cancelled [OF assms(1)] by (simp_all add: cancelled_def c_def)
  have s1: "mm_status (m_matchmaking (mc_state cancelled)) = Ready"
    by (simp add: cancelled_def cancelQueue_def patch_ops Let_def)
  have a1: "arrived = set_queue_stage c (QStreaming s ?qs False)
      (dispatchMatchmaking (JoinRequested (Some (of_int now))) cancelled)"
    using c1(1,2) by (simp add: arrived_def step_queue_session_def queue_session_def)
  have s2: "mm_status (m_matchmaking (mc_state arrived)) = Queueing"
    by (simp add: a1 set_queue_stage_def dispatchMatchmaking_def)
  have a2: "mc_queues arrived = [?tk (QStreaming s ?qs False)]" "c \<in> set (mc_aborted arrived)"
    "mc_recoverAbort arrived \<noteq> Some c" "mc_queueAbort arrived = Some c"
    using c1 assms(4) by (simp_all add: a1 set_queue_stage_def dispatchMatchmaking_def c_def)
  have "mc_queues again = mc_queues arrived"
    using a2 by (auto simp: again_def cancelQueue_def abort_controller_def abort_stream_def patch_ops Let_def
        split: option.split)
  with a2(1) s1 s2 show ?thesis by (simp add: new_queue_stream_def)
qed

theorem cancelled_search_still_queues_witness:
  "mm_status (m_matchmaking (mc_state (step_queue_session 5 0 (Inr (Some sample_user))
     (cancelQueue (Some sample_user) (joinQueue [Moving] new_match_ctl))))) = Queueing"
  using cancelled_search_still_queues [of new_match_ctl sample_user "[Moving]" 5]
  by (simp add: new_match_ctl_def)

text \<open>
  An assignment from the queue is acted on at once: the status becomes \<open>matched_connecting\<close>, the
  search stops being cancellable, the sound plays, a new socket to the assigned node carries the
  encoded ticket, and the first-snapshot timer runs for that match.
\<close>

theorem assigned_match_connects:
  fixes cfg c msg mc
  assumes "find (\<lambda>t. qk_ctrl t = c) (mc_queues mc) = Some tk" and "qk_stage tk = QStreaming s qs ended"
    and "\<not> qs_wsClosed qs" and "queue_message msg = Some (MatchAssignedEvent a)"
    and "la_node a \<noteq> []" and "la_ticket a \<noteq> []" and "la_matchId a \<noteq> []"
    and "s_userId s \<noteq> []" and "s_accessToken s \<noteq> []"
  defines "mc' \<equiv> queue_stream_event cfg c (StreamWsMessage (Some msg)) mc"
  shows "mm_status (m_matchmaking (mc_state mc')) = MatchedConnecting \<and> m_activeMatchId (mc_state mc') = la_matchId a \<and>
         mc_queueAbort mc' = None \<and> MSfx ''duel-game-start'' \<in> set (mc_out mc') \<and>
         mc_firstSnapshotTimeout mc' = Some (la_matchId a) \<and>
         (\<exists>i. gk_current (mc_socket mc') = Some i \<and> ready_of (mc_socket mc') i = SConnecting \<and>
            mk_url (gk_sockets (mc_socket mc') ! i) = connect_target cfg (la_node a) (la_wsPath a) (la_ticket a))"
  using assms(1-9)
  by (simp add: mc'_def queue_stream_event_def queue_error_thrown_def queue_onEvent_def connectToAssignedGame_def
      playMatchFoundSfx_def startFirstSnapshotTimeout_def clearFirstSnapshotTimeout_def set_queue_stage_def
      set_queue_error_def dispatchMatchmaking_def ctl_defs or_str_nonempty gs_connect_def ready_of_def Let_def)

text \<open>A search in the queue.\<close>

definition searching :: match_ctl where
  "searching = new_match_ctl\<lparr>mc_queues :=
     [\<lparr>qk_ctrl = 0, qk_rulesets = [Moving], qk_stage = QStreaming sample_user new_queue_stream False\<rparr>]\<rparr>"

definition assigned_payload :: jv where
  "assigned_payload = Obj [(''matchId'', Str ''m1''), (''node'', Str ''n1''), (''ticket'', Str ''t1'')]"

theorem assigned_match_connects_witness:
  "m_activeMatchId (mc_state (queue_stream_event plain_config 0 (StreamWsMessage (Some
     (Obj [(''type'', Str ''match_assigned''), (''payload'', assigned_payload)]))) searching)) = ''m1''"
proof -
  have "m_activeMatchId (mc_state (queue_stream_event plain_config 0 (StreamWsMessage (Some
     (Obj [(''type'', Str ''match_assigned''), (''payload'', assigned_payload)]))) searching)) =
     la_matchId ((read_assignment [] assigned_payload)\<lparr>la_sourceLobbyId := Some [], la_sourceLobbyInviteCode := Some []\<rparr>)"
    by (rule assigned_match_connects [where s = sample_user and qs = new_queue_stream and ended = False, THEN conjunct2, THEN conjunct1])
       (simp add: searching_def, simp_all add: new_queue_stream_def queue_message_def assigned_payload_def read_assignment_def
         sample_user_def emptyAuthSession_def)
  then show ?thesis by (simp add: read_assignment_def assigned_payload_def)
qed

end
