(* ===== verification/MatchRoute.thy ===== *)
theory MatchRoute
  imports MatchController
begin

text \<open>
  \<open>features/matchmaking/controllers/match-route-controller.ts\<close>: the controller behind a match URL. It
  numbers its resolutions; each is a task that waits for the public route, for the bootstrap of a
  session, for a fresh session, for the private route or for the match controller to resume the
  match. Requests, session snapshots applied and matches resumed are logged in \<open>mrc_out\<close>.
\<close>

section \<open>State\<close>

datatype match_route_status =
  RouteIdle | BootstrappingAuth | Resolving | AwaitingFirstSnapshot | RouteHistory | RouteReplaced
| RouteMissing | RouteForbidden

record match_route_state =
  mr_targetMatchId :: string
  mr_status :: match_route_status
  mr_historySnapshot :: "snapshot option"
  mr_replacement :: "match_session_response option"

definition initial_route_state :: match_route_state where
  "initial_route_state =
     \<lparr>mr_targetMatchId = [], mr_status = RouteIdle, mr_historySnapshot = None, mr_replacement = None\<rparr>"

datatype route_out =
  RouteEmit match_route_state | RouteRequest http_request | RouteApplySession auth_session bool
| RouteResume live_assignment

datatype route_stage = AwaitPublic | AwaitBootstrap | AwaitSession | AwaitPrivate | AwaitResume

record route_task =
  wt_matchId :: string
  wt_seq :: nat
  wt_abort :: nat
  wt_stage :: route_stage

record route_ctl =
  mrc_state :: match_route_state
  mrc_request :: "nat option"
  mrc_seq :: nat
  mrc_started :: bool
  mrc_destroyed :: bool
  mrc_nextAbort :: nat
  mrc_aborted :: "nat list"
  mrc_tasks :: "route_task list"
  mrc_out :: "route_out list"

definition new_route_ctl :: route_ctl where
  "new_route_ctl =
     \<lparr>mrc_state = initial_route_state, mrc_request = None, mrc_seq = 0, mrc_started = False,
      mrc_destroyed = False, mrc_nextAbort = 0, mrc_aborted = [], mrc_tasks = [], mrc_out = []\<rparr>"

definition mrc_log :: "route_out \<Rightarrow> route_ctl \<Rightarrow> route_ctl" where
  [ctl_defs]: "mrc_log x rc = rc\<lparr>mrc_out := mrc_out rc @ [x]\<rparr>"

definition mrc_patchState :: "(match_route_state \<Rightarrow> match_route_state) \<Rightarrow> route_ctl \<Rightarrow> route_ctl" where
  [ctl_defs]: "mrc_patchState f rc =
     (let rc' = rc\<lparr>mrc_state := f (mrc_state rc)\<rparr> in
      if mrc_destroyed rc' then rc' else mrc_log (RouteEmit (mrc_state rc')) rc')"

definition set_route_status :: "match_route_status \<Rightarrow> route_ctl \<Rightarrow> route_ctl" where
  "set_route_status st = mrc_patchState (mr_status_update (\<lambda>_. st))"

section \<open>Lifecycle, target\<close>

definition clearPendingWork :: "route_ctl \<Rightarrow> route_ctl" where
  "clearPendingWork rc =
     rc\<lparr>mrc_aborted := (case mrc_request rc of None \<Rightarrow> mrc_aborted rc | Some c \<Rightarrow> c # mrc_aborted rc),
        mrc_request := None\<rparr>"

definition mrc_start :: "route_ctl \<Rightarrow> route_ctl" where
  "mrc_start rc = (if mrc_started rc then rc else rc\<lparr>mrc_started := True, mrc_destroyed := False\<rparr>)"

definition mrc_destroy :: "route_ctl \<Rightarrow> route_ctl" where
  "mrc_destroy rc = clearPendingWork (rc\<lparr>mrc_destroyed := True, mrc_started := False\<rparr>)"

definition mrc_reset :: "route_ctl \<Rightarrow> route_ctl" where
  "mrc_reset rc = mrc_patchState (\<lambda>_. initial_route_state) (clearPendingWork rc)"

text \<open>The subscription to the match controller, taken by \<open>start\<close> and dropped by \<open>destroy\<close>.\<close>

definition on_match_change :: "match_state \<Rightarrow> route_ctl \<Rightarrow> route_ctl" where
  "on_match_change st rc =
     (if \<not> mrc_started rc \<or> mr_status (mrc_state rc) \<noteq> AwaitingFirstSnapshot then rc
      else
        let target = mr_targetMatchId (mrc_state rc);
            shown = (case m_snapshot st of None \<Rightarrow> [] | Some sn \<Rightarrow> sn_matchId sn)
        in if shown \<noteq> [] \<and> shown = target then set_route_status RouteIdle rc
           else if mm_status (m_matchmaking st) = Abandoned \<and> m_activeMatchId st = target
           then set_route_status RouteMissing rc
           else rc)"

text \<open>\<open>resolve\<close> up to its first \<open>await\<close>; \<open>sess\<close> is \<open>getSessionSnapshot()\<close>.\<close>

definition resolve :: "runtime_config \<Rightarrow> auth_session option \<Rightarrow> string \<Rightarrow> route_ctl \<Rightarrow> route_ctl" where
  "resolve cfg sess matchId rc =
     (let rc1 = clearPendingWork rc;
          seq = mrc_seq rc1 + 1;
          controller = mrc_nextAbort rc1;
          rc2 = rc1\<lparr>mrc_seq := seq, mrc_nextAbort := controller + 1, mrc_request := Some controller,
                    mrc_tasks := mrc_tasks rc1 @
                      [\<lparr>wt_matchId = matchId, wt_seq = seq, wt_abort = controller, wt_stage = AwaitPublic\<rparr>]\<rparr>
      in mrc_log (RouteRequest (resolveMatchRoute_request cfg matchId (map_option s_accessToken sess)))
           (set_route_status Resolving
             (mrc_patchState (\<lambda>st. st\<lparr>mr_historySnapshot := None, mr_replacement := None\<rparr>) rc2)))"

definition setTargetMatch ::
  "runtime_config \<Rightarrow> auth_session option \<Rightarrow> string option \<Rightarrow> route_ctl \<Rightarrow> route_ctl" where
  "setTargetMatch cfg sess matchId rc =
     (let nextMatchId = js_trim (opt_str matchId) in
      if nextMatchId = [] then
        mrc_patchState (\<lambda>_. \<lparr>mr_targetMatchId = [], mr_status = RouteMissing, mr_historySnapshot = None,
          mr_replacement = None\<rparr>) (clearPendingWork rc)
      else if mr_targetMatchId (mrc_state rc) = nextMatchId \<and> mr_status (mrc_state rc) \<noteq> RouteMissing then rc
      else resolve cfg sess nextMatchId
        (mrc_patchState (\<lambda>_. \<lparr>mr_targetMatchId = nextMatchId, mr_status = RouteIdle,
          mr_historySnapshot = None, mr_replacement = None\<rparr>) (clearPendingWork rc)))"

section \<open>The resolution\<close>

definition buildSessionSnapshot :: "bootstrap_auth \<Rightarrow> auth_session" where
  "buildSessionSnapshot auth =
     \<lparr>s_userId = (case ba_user auth of None \<Rightarrow> [] | Some (i, _) \<Rightarrow> i),
      s_accessToken = ba_accessToken auth, s_onboardingRequired = ba_onboardingRequired auth,
      s_authMigrationRequired = None, s_recoveryAvailable = None, s_linkedProviders = None,
      s_canPlay = None, s_nicknameInput = ba_suggestedNickname auth, s_expiresAt = None\<rparr>"

definition applyBootstrappedAuth :: "bootstrap_auth \<Rightarrow> route_ctl \<Rightarrow> route_ctl" where
  "applyBootstrappedAuth auth =
     mrc_log (RouteApplySession (buildSessionSnapshot auth)
       (case ba_user auth of None \<Rightarrow> False | Some (_, guest) \<Rightarrow> guest))"

definition is_current :: "string \<Rightarrow> nat \<Rightarrow> route_ctl \<Rightarrow> bool" where
  "is_current matchId seq rc \<longleftrightarrow> seq = mrc_seq rc \<and> mr_targetMatchId (mrc_state rc) = matchId"

text \<open>
  \<open>handleResolvedMatch\<close>: the new state, and the assignment it asks the match controller to resume.
\<close>

definition handleResolvedMatch ::
  "string \<Rightarrow> match_session_response \<Rightarrow> nat \<Rightarrow> route_ctl \<Rightarrow> route_ctl \<times> live_assignment option" where
  "handleResolvedMatch matchId resolved seq rc =
     (if \<not> is_current matchId seq rc then (rc, None)
      else case resolved of
        LiveConnectable a \<Rightarrow>
          (let a' = (if opt_str (la_sourceLobbyInviteCode a) \<noteq> [] then a
                     else a\<lparr>la_sourceLobbyId := None, la_sourceLobbyInviteCode := None\<rparr>)
           in (mrc_log (RouteResume a') rc, Some a'))
      | History _ snap _ _ _ \<Rightarrow>
          (mrc_patchState (\<lambda>st. st\<lparr>mr_status := RouteHistory, mr_historySnapshot := snap,
             mr_replacement := Some resolved\<rparr>) rc, None)
      | Replaced _ _ _ _ _ \<Rightarrow>
          (mrc_patchState (\<lambda>st. st\<lparr>mr_status := RouteReplaced, mr_replacement := Some resolved,
             mr_historySnapshot := None\<rparr>) rc, None)
      | LiveAuthRequired _ \<Rightarrow>
          (mrc_patchState (\<lambda>st. st\<lparr>mr_status := RouteForbidden, mr_historySnapshot := None,
             mr_replacement := None\<rparr>) rc, None)
      | Forbidden _ \<Rightarrow>
          (mrc_patchState (\<lambda>st. st\<lparr>mr_status := RouteForbidden, mr_historySnapshot := None,
             mr_replacement := None\<rparr>) rc, None)
      | Missing _ \<Rightarrow>
          (mrc_patchState (\<lambda>st. st\<lparr>mr_status := RouteMissing, mr_historySnapshot := None,
             mr_replacement := None\<rparr>) rc, None))"

text \<open>The \<open>finally\<close> block, and the \<open>catch\<close> block before it.\<close>

definition finish_route :: "route_task \<Rightarrow> route_ctl \<Rightarrow> route_ctl" where
  "finish_route tk rc =
     rc\<lparr>mrc_tasks := filter (\<lambda>t. wt_seq t \<noteq> wt_seq tk) (mrc_tasks rc),
        mrc_request := (if mrc_request rc = Some (wt_abort tk) then None else mrc_request rc)\<rparr>"

definition set_status_if_current :: "match_route_status \<Rightarrow> route_task \<Rightarrow> route_ctl \<Rightarrow> route_ctl" where
  "set_status_if_current st tk rc =
     (if is_current (wt_matchId tk) (wt_seq tk) rc then set_route_status st rc else rc)"

definition route_threw :: "route_task \<Rightarrow> js_error \<Rightarrow> route_ctl \<Rightarrow> route_ctl" where
  "route_threw tk e rc =
     finish_route tk (if e = AbortError then rc else set_status_if_current RouteMissing tk rc)"

definition set_route_stage :: "route_task \<Rightarrow> route_stage \<Rightarrow> route_ctl \<Rightarrow> route_ctl" where
  "set_route_stage tk stage rc =
     rc\<lparr>mrc_tasks := map (\<lambda>t. if wt_seq t = wt_seq tk then t\<lparr>wt_stage := stage\<rparr> else t) (mrc_tasks rc)\<rparr>"

text \<open>\<open>await handleResolvedMatch(...)\<close>: it waits when a match is being resumed.\<close>

definition await_resolved :: "route_task \<Rightarrow> match_session_response \<Rightarrow> route_ctl \<Rightarrow> route_ctl" where
  "await_resolved tk resolved rc =
     (case handleResolvedMatch (wt_matchId tk) resolved (wt_seq tk) rc of
        (rc1, None) \<Rightarrow> finish_route tk rc1
      | (rc1, Some _) \<Rightarrow> set_route_stage tk AwaitResume rc1)"

definition route_public ::
  "runtime_config \<Rightarrow> auth_session option \<Rightarrow> route_task \<Rightarrow> match_session_response outcome \<Rightarrow> route_ctl \<Rightarrow> route_ctl" where
  "route_public cfg sess tk r rc =
     (case r of
        Inl e \<Rightarrow> route_threw tk e rc
      | Inr (LiveAuthRequired i) \<Rightarrow>
          (if sess = None then
             mrc_log (RouteRequest (bootstrapMatchSession_request cfg (wt_matchId tk)))
               (set_route_stage tk AwaitBootstrap (set_route_status BootstrappingAuth rc))
           else set_route_stage tk AwaitSession rc)
      | Inr resolved \<Rightarrow> await_resolved tk resolved rc)"

definition route_bootstrapped ::
  "route_task \<Rightarrow> (bootstrap_auth \<times> match_session_response) option outcome \<Rightarrow> route_ctl \<Rightarrow> route_ctl" where
  "route_bootstrapped tk r rc =
     (case r of
        Inl e \<Rightarrow> route_threw tk e rc
      | Inr None \<Rightarrow> finish_route tk (set_status_if_current RouteForbidden tk rc)
      | Inr (Some (auth, resolved)) \<Rightarrow> await_resolved tk resolved (applyBootstrappedAuth auth rc))"

definition route_session ::
  "runtime_config \<Rightarrow> route_task \<Rightarrow> auth_session option outcome \<Rightarrow> route_ctl \<Rightarrow> route_ctl" where
  "route_session cfg tk r rc =
     (case r of
        Inl e \<Rightarrow> route_threw tk e rc
      | Inr None \<Rightarrow> finish_route tk (set_status_if_current RouteForbidden tk rc)
      | Inr (Some session) \<Rightarrow>
          mrc_log (RouteRequest (resolveMatchRoute_request cfg (wt_matchId tk) (Some (s_accessToken session))))
            (set_route_stage tk AwaitPrivate (set_route_status Resolving rc)))"

definition route_private :: "route_task \<Rightarrow> match_session_response outcome \<Rightarrow> route_ctl \<Rightarrow> route_ctl" where
  "route_private tk r rc =
     (case r of Inl e \<Rightarrow> route_threw tk e rc | Inr resolved \<Rightarrow> await_resolved tk resolved rc)"

text \<open>The match controller has answered whether it could resume the match.\<close>

definition route_resumed :: "route_task \<Rightarrow> bool outcome \<Rightarrow> route_ctl \<Rightarrow> route_ctl" where
  "route_resumed tk r rc =
     (case r of
        Inl e \<Rightarrow> route_threw tk e rc
      | Inr resumed \<Rightarrow> finish_route tk
          (set_status_if_current (if resumed then AwaitingFirstSnapshot else RouteMissing) tk rc))"

section \<open>Steps\<close>

datatype route_event =
  RoStart | RoDestroy | RoReset | RoTarget "string option" | RoMatchChange match_state
| RoPublic nat "match_session_response outcome"
| RoBootstrapped nat "(bootstrap_auth \<times> match_session_response) option outcome"
| RoSession nat "auth_session option outcome"
| RoPrivate nat "match_session_response outcome"
| RoResumed nat "bool outcome"

definition with_task ::
  "nat \<Rightarrow> route_stage \<Rightarrow> (route_task \<Rightarrow> route_ctl \<Rightarrow> route_ctl) \<Rightarrow> route_ctl \<Rightarrow> route_ctl" where
  "with_task i stage f rc =
     (case find (\<lambda>t. wt_seq t = i) (mrc_tasks rc) of
        None \<Rightarrow> rc
      | Some tk \<Rightarrow> if wt_stage tk = stage then f tk rc else rc)"

text \<open>A fetch whose signal is aborted rejects with the abort.\<close>

definition fetched :: "route_task \<Rightarrow> route_ctl \<Rightarrow> 'a outcome \<Rightarrow> 'a outcome" where
  "fetched tk rc r = (if wt_abort tk \<in> set (mrc_aborted rc) then Inl AbortError else r)"

fun route_step :: "runtime_config \<Rightarrow> auth_session option \<Rightarrow> route_event \<Rightarrow> route_ctl \<Rightarrow> route_ctl" where
  "route_step cfg sess RoStart rc = mrc_start rc"
| "route_step cfg sess RoDestroy rc = mrc_destroy rc"
| "route_step cfg sess RoReset rc = mrc_reset rc"
| "route_step cfg sess (RoTarget i) rc = setTargetMatch cfg sess i rc"
| "route_step cfg sess (RoMatchChange st) rc = on_match_change st rc"
| "route_step cfg sess (RoPublic i r) rc =
     with_task i AwaitPublic (\<lambda>tk rc. route_public cfg sess tk (fetched tk rc r) rc) rc"
| "route_step cfg sess (RoBootstrapped i r) rc =
     with_task i AwaitBootstrap (\<lambda>tk rc. route_bootstrapped tk (fetched tk rc r) rc) rc"
| "route_step cfg sess (RoSession i r) rc = with_task i AwaitSession (\<lambda>tk. route_session cfg tk r) rc"
| "route_step cfg sess (RoPrivate i r) rc =
     with_task i AwaitPrivate (\<lambda>tk rc. route_private tk (fetched tk rc r) rc) rc"
| "route_step cfg sess (RoResumed i r) rc = with_task i AwaitResume (\<lambda>tk. route_resumed tk r) rc"

inductive route_reachable :: "runtime_config \<Rightarrow> route_ctl \<Rightarrow> bool" for cfg :: runtime_config where
  route_new: "route_reachable cfg new_route_ctl"
| route_next: "route_reachable cfg rc \<Longrightarrow> route_reachable cfg (route_step cfg sess ev rc)"

section \<open>Pending requests are the latest or aborted\<close>

definition route_inv :: "route_ctl \<Rightarrow> bool" where
  "route_inv rc \<longleftrightarrow>
     (\<forall>t\<in>set (mrc_tasks rc). wt_seq t \<le> mrc_seq rc \<and> wt_abort t < mrc_nextAbort rc \<and>
        (wt_abort t \<in> set (mrc_aborted rc) \<or> mrc_request rc = Some (wt_abort t) \<and> wt_seq t = mrc_seq rc)) \<and>
     (\<forall>c\<in>set (mrc_aborted rc). c < mrc_nextAbort rc) \<and>
     (\<forall>c. mrc_request rc = Some c \<longrightarrow> c \<notin> set (mrc_aborted rc) \<and> c < mrc_nextAbort rc)"

lemma mrc_patch_simps [simp]:
  "mrc_state (mrc_patchState f rc) = f (mrc_state rc)"
  "mrc_tasks (mrc_patchState f rc) = mrc_tasks rc"
  "mrc_seq (mrc_patchState f rc) = mrc_seq rc"
  "mrc_request (mrc_patchState f rc) = mrc_request rc"
  "mrc_aborted (mrc_patchState f rc) = mrc_aborted rc"
  "mrc_nextAbort (mrc_patchState f rc) = mrc_nextAbort rc"
  "mrc_started (mrc_patchState f rc) = mrc_started rc"
  by (simp_all add: ctl_defs Let_def)

lemma mrc_log_simps [simp]:
  "mrc_state (mrc_log x rc) = mrc_state rc" "mrc_tasks (mrc_log x rc) = mrc_tasks rc"
  "mrc_seq (mrc_log x rc) = mrc_seq rc" "mrc_request (mrc_log x rc) = mrc_request rc"
  "mrc_aborted (mrc_log x rc) = mrc_aborted rc" "mrc_nextAbort (mrc_log x rc) = mrc_nextAbort rc"
  by (simp_all add: mrc_log_def)

lemma route_inv_patch [simp]: "route_inv (mrc_patchState f rc) = route_inv rc"
  by (simp add: route_inv_def)

lemma route_inv_log [simp]: "route_inv (mrc_log x rc) = route_inv rc"
  by (simp add: route_inv_def)

lemma route_inv_status [simp]:
  "route_inv (set_route_status st rc) = route_inv rc"
  "route_inv (set_status_if_current st tk rc) = route_inv rc"
  by (simp_all add: set_route_status_def set_status_if_current_def)

lemma route_inv_clear: "route_inv rc \<Longrightarrow> route_inv (clearPendingWork rc)"
  by (auto simp: route_inv_def clearPendingWork_def split: option.splits)

lemma clear_aborts:
  "route_inv rc \<Longrightarrow> t \<in> set (mrc_tasks rc) \<Longrightarrow> wt_abort t \<in> set (mrc_aborted (clearPendingWork rc))"
  by (auto simp: route_inv_def clearPendingWork_def split: option.splits)

lemma clear_simps [simp]:
  "mrc_state (clearPendingWork rc) = mrc_state rc" "mrc_tasks (clearPendingWork rc) = mrc_tasks rc"
  "mrc_seq (clearPendingWork rc) = mrc_seq rc" "mrc_nextAbort (clearPendingWork rc) = mrc_nextAbort rc"
  by (simp_all add: clearPendingWork_def)

lemma route_inv_resolve: "route_inv rc \<Longrightarrow> route_inv (resolve cfg sess i rc)"
proof -
  assume h: "route_inv rc"
  let ?c = "clearPendingWork rc"
  have c: "route_inv ?c" using h by (rule route_inv_clear)
  have "\<forall>t\<in>set (mrc_tasks ?c). wt_abort t \<in> set (mrc_aborted ?c)" using clear_aborts [OF h] by simp
  with c have "route_inv (?c\<lparr>mrc_seq := mrc_seq ?c + 1, mrc_nextAbort := mrc_nextAbort ?c + 1,
      mrc_request := Some (mrc_nextAbort ?c), mrc_tasks := mrc_tasks ?c @
        [\<lparr>wt_matchId = i, wt_seq = mrc_seq ?c + 1, wt_abort = mrc_nextAbort ?c, wt_stage = AwaitPublic\<rparr>]\<rparr>)"
    unfolding route_inv_def by (fastforce simp del: clear_simps)
  then show ?thesis by (simp add: resolve_def set_route_status_def Let_def)
qed

lemma route_inv_finish: "route_inv rc \<Longrightarrow> tk \<in> set (mrc_tasks rc) \<Longrightarrow> route_inv (finish_route tk rc)"
proof -
  assume inv: "route_inv rc" and tk: "tk \<in> set (mrc_tasks rc)"
  have "wt_abort t \<in> set (mrc_aborted rc)"
    if "mrc_request rc = Some (wt_abort tk)" and "t \<in> set (mrc_tasks rc)" and "wt_seq t \<noteq> wt_seq tk" for t
  proof -
    have "wt_seq tk = mrc_seq rc" using inv tk that(1) by (auto simp: route_inv_def)
    then show ?thesis using inv that(2,3) by (auto simp: route_inv_def)
  qed
  with inv show ?thesis by (auto simp: route_inv_def finish_route_def)
qed

lemma route_inv_stage [simp]: "route_inv rc \<Longrightarrow> route_inv (set_route_stage tk stage rc)"
  unfolding route_inv_def set_route_stage_def by auto

lemma route_inv_threw: "route_inv rc \<Longrightarrow> tk \<in> set (mrc_tasks rc) \<Longrightarrow> route_inv (route_threw tk e rc)"
  unfolding route_threw_def
  by (rule route_inv_finish) (auto simp: set_status_if_current_def set_route_status_def)

lemma handle_tasks [simp]: "mrc_tasks (fst (handleResolvedMatch m r i rc)) = mrc_tasks rc"
  by (simp add: handleResolvedMatch_def Let_def split: match_session_response.split)

lemma handle_inv [simp]: "route_inv (fst (handleResolvedMatch m r i rc)) = route_inv rc"
  by (simp add: handleResolvedMatch_def Let_def split: match_session_response.split)

lemma route_inv_await: "route_inv rc \<Longrightarrow> tk \<in> set (mrc_tasks rc) \<Longrightarrow> route_inv (await_resolved tk r rc)"
  using handle_tasks [of "wt_matchId tk" r "wt_seq tk" rc] handle_inv [of "wt_matchId tk" r "wt_seq tk" rc]
  by (auto simp: await_resolved_def route_inv_finish simp del: handle_tasks handle_inv
      split: prod.split option.split)

lemma status_tasks [simp]: "mrc_tasks (set_status_if_current st tk rc) = mrc_tasks rc"
  by (simp add: set_status_if_current_def set_route_status_def)

lemma bootstrapped_auth_simps [simp]:
  "mrc_tasks (applyBootstrappedAuth a rc) = mrc_tasks rc" "route_inv (applyBootstrappedAuth a rc) = route_inv rc"
  by (simp_all add: applyBootstrappedAuth_def)

lemma route_inv_segments:
  assumes "route_inv rc" and "tk \<in> set (mrc_tasks rc)"
  shows "route_inv (route_public cfg sess tk r rc)" and "route_inv (route_bootstrapped tk b rc)"
    and "route_inv (route_session cfg tk s rc)" and "route_inv (route_private tk r rc)"
    and "route_inv (route_resumed tk x rc)"
  using assms
  by (auto simp: route_public_def route_bootstrapped_def route_session_def route_private_def route_resumed_def
      route_inv_threw route_inv_await route_inv_finish
      split: sum.split match_session_response.split option.split)

lemma route_inv_with_task:
  "route_inv rc \<Longrightarrow> (\<And>tk. tk \<in> set (mrc_tasks rc) \<Longrightarrow> route_inv (f tk rc)) \<Longrightarrow> route_inv (with_task i stage f rc)"
  by (auto simp: with_task_def find_Some_iff split: option.split)

lemma route_inv_step: "route_inv rc \<Longrightarrow> route_inv (route_step cfg sess ev rc)"
proof (cases ev)
  case RoDestroy
  assume "route_inv rc"
  then have "route_inv (rc\<lparr>mrc_destroyed := True, mrc_started := False\<rparr>)" by (simp add: route_inv_def)
  then show ?thesis using RoDestroy by (simp add: mrc_destroy_def route_inv_clear)
next
  case RoStart
  assume "route_inv rc"
  then show ?thesis using RoStart by (simp add: mrc_start_def route_inv_def)
qed (auto simp: mrc_reset_def setTargetMatch_def on_match_change_def Let_def
     intro!: route_inv_resolve route_inv_with_task intro: route_inv_clear route_inv_segments)

interpretation route_machine: invariant_machine "\<lambda>(sess, ev). route_step cfg sess ev" route_inv
  by unfold_locales (auto intro: route_inv_step)

lemma reachable_route_inv: "route_reachable cfg rc \<Longrightarrow> route_inv rc"
  by (induction rule: route_reachable.induct) (simp add: route_inv_def new_route_ctl_def, rule route_inv_step)

text \<open>The numbering of resolutions is the contract of \<open>latest_wins\<close>.\<close>

interpretation route_requests: latest_wins "resolve cfg sess i" mrc_seq
  "\<lambda>seq (m, r) rc. fst (handleResolvedMatch m r seq rc)"
  by unfold_locales (auto simp: resolve_def set_route_status_def handleResolvedMatch_def is_current_def Let_def)

lemma superseded_aborted:
  assumes "route_inv rc" and "tk \<in> set (mrc_tasks rc)" and "wt_seq tk \<noteq> mrc_seq rc"
  shows "fetched tk rc r = Inl AbortError"
  using assms by (auto simp: route_inv_def fetched_def)

lemma threw_state: "mrc_state (route_threw tk AbortError rc) = mrc_state rc"
  by (simp add: route_threw_def finish_route_def)

lemma finish_state [simp]: "mrc_state (finish_route tk rc) = mrc_state rc"
  by (simp add: finish_route_def)

lemma not_current [simp]: "wt_seq tk \<noteq> mrc_seq rc \<Longrightarrow> set_status_if_current st tk rc = rc"
  by (simp add: set_status_if_current_def is_current_def)

lemma find_map_stage:
  "find (\<lambda>t. wt_seq t = i) (map (\<lambda>t. if wt_seq t = j then t\<lparr>wt_stage := st\<rparr> else t) ts) =
   map_option (\<lambda>t. if wt_seq t = j then t\<lparr>wt_stage := st\<rparr> else t) (find (\<lambda>t. wt_seq t = i) ts)"
  by (induction ts) auto

section \<open>Properties\<close>

text \<open>
  The latest match URL wins: when the page has moved on to another match, nothing an older
  resolution still receives, its route, its bootstrapped session, its private route or the answer of
  the match controller, changes what the page shows.
\<close>

theorem superseded_resolution_ignored:
  assumes "route_reachable cfg rc" and "i \<noteq> mrc_seq rc"
    and "ev \<in> {RoPublic i r, RoBootstrapped i b, RoPrivate i r, RoResumed i x}"
  shows "mrc_state (route_step cfg sess ev rc) = mrc_state rc"
proof -
  have w: "mrc_state (with_task i stage f rc) = mrc_state rc"
    if "\<And>tk. tk \<in> set (mrc_tasks rc) \<Longrightarrow> wt_seq tk \<noteq> mrc_seq rc \<Longrightarrow> mrc_state (f tk rc) = mrc_state rc" for stage f
    using that assms(2) by (auto simp: with_task_def find_Some_iff split: option.split)
  note a = superseded_aborted [OF reachable_route_inv [OF assms(1)]]
  show ?thesis
    using assms(3)
    by (auto intro!: w simp: a route_public_def route_bootstrapped_def route_private_def route_resumed_def
        threw_state route_threw_def split: sum.split)
qed

text \<open>A page that has left match \<open>a\<close>, whose resolution waits for a session, for match \<open>b\<close>.\<close>

definition route_config :: runtime_config where
  "route_config = createRuntimeConfig (\<lambda>_. None) []"

definition route_user :: auth_session where
  "route_user = emptyAuthSession\<lparr>s_userId := ''u1'', s_accessToken := ''tok'', s_canPlay := Some True\<rparr>"

definition moved_on :: route_ctl where
  "moved_on =
     route_step route_config (Some route_user) (RoPublic 2 (Inr (Replaced ''b'' ''c'' None None None)))
       (route_step route_config (Some route_user) (RoTarget (Some ''b''))
         (route_step route_config (Some route_user) (RoPublic 1 (Inr (LiveAuthRequired ''a'')))
           (route_step route_config (Some route_user) (RoTarget (Some ''a'')) new_route_ctl)))"

lemma moved_on_reachable: "route_reachable route_config moved_on"
  unfolding moved_on_def by (intro route_next route_new)

lemma moved_on_facts:
  "mrc_seq moved_on = 2" "mr_status (mrc_state moved_on) = RouteReplaced"
  "find (\<lambda>t. wt_seq t = 1) (mrc_tasks moved_on) =
     Some \<lparr>wt_matchId = ''a'', wt_seq = 1, wt_abort = 0, wt_stage = AwaitSession\<rparr>"
  by (simp_all add: moved_on_def setTargetMatch_def resolve_def set_route_status_def with_task_def fetched_def
      clearPendingWork_def route_public_def await_resolved_def handleResolvedMatch_def is_current_def
      set_route_stage_def finish_route_def new_route_ctl_def initial_route_state_def js_trim_def is_space_def Let_def)

theorem superseded_resolution_ignored_witness:
  "mrc_state (route_step route_config None (RoResumed 1 (Inr True)) moved_on) = mrc_state moved_on"
  by (rule superseded_resolution_ignored [OF moved_on_reachable, of 1 _ "Inl AbortError" "Inl AbortError" "Inr True"])
     (simp_all add: moved_on_facts)

text \<open>
  The one exception: a resolution that was waiting for a fresh session when the page moved on
  still puts the page of the new match into \<open>resolving\<close>; its own request is aborted, so nothing takes
  the page out of that status again, not even the new match's first snapshot.
\<close>

theorem superseded_session_leaves_resolving:
  fixes cfg rc i s r sess
  assumes "route_reachable cfg rc" and "find (\<lambda>t. wt_seq t = i) (mrc_tasks rc) = Some tk"
    and "wt_stage tk = AwaitSession" and "i \<noteq> mrc_seq rc"
  defines "rc' \<equiv> route_step cfg sess (RoPrivate i r) (route_step cfg sess (RoSession i (Inr (Some s))) rc)"
  shows "mr_status (mrc_state rc') = Resolving \<and>
         mr_targetMatchId (mrc_state rc') = mr_targetMatchId (mrc_state rc) \<and> on_match_change st rc' = rc'"
proof -
  define M where "M = route_step cfg sess (RoSession i (Inr (Some s))) rc"
  have tk: "tk \<in> set (mrc_tasks rc)" "wt_seq tk = i" using assms(2) by (auto simp: find_Some_iff)
  have ab: "wt_abort tk \<in> set (mrc_aborted rc)"
    using reachable_route_inv [OF assms(1)] tk assms(4) by (auto simp: route_inv_def)
  have m: "M = mrc_log (RouteRequest (resolveMatchRoute_request cfg (wt_matchId tk) (Some (s_accessToken s))))
      (set_route_stage tk AwaitPrivate (set_route_status Resolving rc))"
    using assms(2,3) by (simp add: M_def with_task_def route_session_def)
  have st: "mrc_state M = (mrc_state rc)\<lparr>mr_status := Resolving\<rparr>" "mrc_aborted M = mrc_aborted rc"
    unfolding m by (simp_all add: set_route_stage_def set_route_status_def)
  have "mrc_state (route_threw t AbortError M) = mrc_state M" for t by (rule threw_state)
  moreover have "wt_abort t \<in> set (mrc_aborted rc)" if "find (\<lambda>t. wt_seq t = i) (mrc_tasks M) = Some t" for t
  proof -
    have "find (\<lambda>t. wt_seq t = i) (mrc_tasks M) = Some (tk\<lparr>wt_stage := AwaitPrivate\<rparr>)"
      unfolding m using assms(2) tk(2)
      by (simp add: set_route_stage_def set_route_status_def find_map_stage)
    with that ab show ?thesis by auto
  qed
  moreover have rc'_M: "rc' = with_task i AwaitPrivate (\<lambda>tk rc. route_private tk (fetched tk rc r) rc) M"
    by (simp add: rc'_def M_def)
  ultimately have "mrc_state rc' = mrc_state M"
    unfolding rc'_M
    by (auto simp: with_task_def route_private_def fetched_def st(2) split: option.split)
  with st show ?thesis by (simp add: on_match_change_def)
qed

theorem superseded_session_leaves_resolving_witness:
  "mr_status (mrc_state (route_step route_config None (RoPrivate 1 (Inr (Missing ''a'')))
     (route_step route_config None (RoSession 1 (Inr (Some route_user))) moved_on))) = Resolving"
  by (rule superseded_session_leaves_resolving [OF moved_on_reachable moved_on_facts(3), THEN conjunct1])
     (simp_all add: moved_on_facts)

end
