(* ===== verification/RoundClock.thy ===== *)
theory RoundClock
  imports Domain Elo
begin

text \<open>
  \<open>features/game/lib/round-clock.ts\<close>, \<open>features/game/lib/result-animation.ts\<close> and the timeline of
  \<open>components/ui/round-result-animation-config.ts\<close>: the countdown of a round and the timers of the
  round result. A frame the clock has requested is the pair of the snapshot its closure holds and
  the closure's \<open>lastTs\<close>; the browser calls it with a timestamp. Milliseconds are reals.
\<close>

section \<open>The round clock\<close>

definition PRESSURE_VISIBLE_MS :: real where "PRESSURE_VISIBLE_MS = 15000"
definition GUESS_INPUT_CUTOFF_MS :: real where "GUESS_INPUT_CUTOFF_MS = 500"

record round_clock =
  ck_frame :: "(snapshot \<times> real) option"
  ck_roundMSLeft :: real
  ck_offset :: real
  ck_displayKey :: string
  ck_displaySec :: int
  ck_forcedRoundId :: string

definition new_round_clock :: round_clock where
  "new_round_clock =
     \<lparr>ck_frame = None, ck_roundMSLeft = 0, ck_offset = 0, ck_displayKey = [], ck_displaySec = 0,
      ck_forcedRoundId = []\<rparr>"

definition setServerTime :: "real \<Rightarrow> real \<Rightarrow> round_clock \<Rightarrow> round_clock" where
  "setServerTime serverUnixMs now ck = ck\<lparr>ck_offset := serverUnixMs - now\<rparr>"

definition forceRound :: "string \<Rightarrow> round_clock \<Rightarrow> round_clock" where
  "forceRound roundId ck = ck\<lparr>ck_forcedRoundId := roundId\<rparr>"

definition clock_reset :: "round_clock \<Rightarrow> round_clock" where
  "clock_reset ck = new_round_clock"

text \<open>The time a guess may still be placed; None is infinity: the timer has not started.\<close>

definition getAuthoritativeRoundMSLeft :: "real \<Rightarrow> snapshot option \<Rightarrow> round_clock \<Rightarrow> real option" where
  "getAuthoritativeRoundMSLeft now so ck =
     (case so of
        None \<Rightarrow> Some 0
      | Some sn \<Rightarrow>
          if sn_phase sn \<noteq> LivePhase then Some 0
          else if sn_roundPhase sn = RoundLive \<and> timer_idle sn then None
          else if 0 < sn_phaseEndsAt sn then Some (max 0 (of_int (sn_phaseEndsAt sn) - (now + ck_offset ck)))
          else Some (max 0 (of_int (sn_roundMsLeft sn))))"

fun match_phase_name :: "match_phase \<Rightarrow> string" where
  "match_phase_name LivePhase = ''live''"
| "match_phase_name RoundResultPhase = ''round_result''"
| "match_phase_name EndedPhase = ''ended''"

fun round_phase_name :: "round_phase \<Rightarrow> string" where
  "round_phase_name RoundIntro = ''round_intro''"
| "round_phase_name RoundLive = ''round_live''"
| "round_phase_name RoundResultP = ''round_result''"
| "round_phase_name RoundTransition = ''round_transition''"
| "round_phase_name RoundEnded = ''ended''"

definition timer_state_name :: "snapshot \<Rightarrow> string" where
  "timer_state_name sn = (if timer_idle sn then ''idle'' else ''running'')"

definition display_key :: "snapshot \<Rightarrow> string" where
  "display_key sn =
     sn_matchId sn @ '':'' @ round_id_of sn @ '':'' @ match_phase_name (sn_phase sn) @ '':'' @
     round_phase_name (sn_roundPhase sn) @ '':'' @ timer_state_name sn"

text \<open>\<open>start\<close> with a snapshot requests a frame; without one it resets and ticks zero at once.\<close>

definition clock_start :: "snapshot option \<Rightarrow> round_clock \<Rightarrow> round_clock \<times> (real \<times> int) option" where
  "clock_start so ck =
     (case so of
        None \<Rightarrow> (clock_reset ck, Some (0, 0))
      | Some sn \<Rightarrow> (ck\<lparr>ck_frame := Some (sn, 0)\<rparr>, None))"

text \<open>The milliseconds left at a frame, and the forced round afterwards.\<close>

definition frame_ms :: "snapshot \<Rightarrow> real \<Rightarrow> real \<Rightarrow> real \<Rightarrow> round_clock \<Rightarrow> real \<times> string" where
  "frame_ms sn lastTs ts now ck =
     (let base = max 0 (of_int (sn_roundMsLeft sn)); forced = ck_forcedRoundId ck in
      if sn_phase sn \<noteq> LivePhase then (base, forced)
      else if 0 < sn_phaseEndsAt sn then
        let left = max 0 (of_int (sn_phaseEndsAt sn) - (now + ck_offset ck)) in
        if forced \<noteq> [] \<and> round_id_of sn = forced then (min PRESSURE_VISIBLE_MS left, forced)
        else if forced \<noteq> [] then (left, [])
        else (left, forced)
      else if 0 < lastTs then (max 0 (ck_roundMSLeft ck - (ts - lastTs)), forced)
      else (base, forced))"

text \<open>One call of \<open>tick\<close>: the new clock and what \<open>onTick\<close> is told.\<close>

definition clock_frame :: "snapshot \<Rightarrow> real \<Rightarrow> real \<Rightarrow> real \<Rightarrow> round_clock \<Rightarrow> round_clock \<times> (real \<times> int)" where
  "clock_frame sn lastTs ts now ck =
     (let (left, forced) = frame_ms sn lastTs ts now ck;
          key = display_key sn;
          raw = max 0 \<lceil>left / 1000\<rceil>;
          stable = (if ck_displayKey ck \<noteq> key then raw
                    else if raw > ck_displaySec ck then ck_displaySec ck else raw)
      in (ck\<lparr>ck_roundMSLeft := left, ck_forcedRoundId := forced, ck_displayKey := key,
             ck_displaySec := stable, ck_frame := Some (sn, ts)\<rparr>, (left, stable)))"

text \<open>The browser fires the requested frame.\<close>

definition clock_tick :: "real \<Rightarrow> real \<Rightarrow> round_clock \<Rightarrow> round_clock \<times> (real \<times> int) option" where
  "clock_tick ts now ck =
     (case ck_frame ck of
        None \<Rightarrow> (ck, None)
      | Some (sn, lastTs) \<Rightarrow> (let (ck', out) = clock_frame sn lastTs ts now ck in (ck', Some out)))"

section \<open>The timeline of the round result\<close>

definition scoreTravelDurationMs :: real where "scoreTravelDurationMs = max 160 (500 * 0.72)"
definition damageTravelAtMs :: real where "damageTravelAtMs = js_round (2000 + scoreTravelDurationMs)"
definition hpApplyAtMs :: real where "hpApplyAtMs = 3100"

definition damageMultiplierAtMs :: real where
  "damageMultiplierAtMs = js_round (damageTravelAtMs + (hpApplyAtMs - damageTravelAtMs) / 2)"

text \<open>A pending timer is its delay and what it calls: a phase, or the hit points applied.\<close>

datatype anim_call = AnimPhase result_phase | AnimHpApply

definition anim_timers :: "(real \<times> anim_call) list" where
  "anim_timers =
     [(1300, AnimPhase PhScores), (2000, AnimPhase PhCrush), (damageTravelAtMs, AnimPhase PhDamageTravel),
      (damageMultiplierAtMs, AnimPhase PhDamageMultiplier), (hpApplyAtMs, AnimHpApply)]"

fun call_phase :: "anim_call \<Rightarrow> result_phase" where
  "call_phase (AnimPhase p) = p"
| "call_phase AnimHpApply = PhHpApply"

section \<open>Lemmas\<close>

lemma js_round_numeral: "js_round (of_int n) = of_int n"
  unfolding js_round_def by (simp add: floor_eq_iff)

lemma timeline:
  "damageTravelAtMs = 2360" "damageMultiplierAtMs = 2730"
  using js_round_numeral [of 2360] js_round_numeral [of 2730]
  by (simp_all add: damageTravelAtMs_def damageMultiplierAtMs_def scoreTravelDurationMs_def hpApplyAtMs_def)

lemma frame_ms_nonneg: "0 \<le> fst (frame_ms sn lastTs ts now ck)"
  by (simp add: frame_ms_def Let_def PRESSURE_VISIBLE_MS_def)

lemma clock_frame_sec: "0 \<le> ck_displaySec ck \<Longrightarrow> 0 \<le> snd (snd (clock_frame sn lastTs ts now ck))"
  by (simp add: clock_frame_def Let_def case_prod_beta)

lemma clock_frame_stable:
  "ck_displayKey ck = display_key sn \<Longrightarrow> snd (snd (clock_frame sn lastTs ts now ck)) \<le> ck_displaySec ck"
  by (auto simp: clock_frame_def Let_def case_prod_beta not_less)

lemma clock_frame_fields:
  "ck_frame (fst (clock_frame sn lastTs ts now ck)) = Some (sn, ts)"
  "ck_displayKey (fst (clock_frame sn lastTs ts now ck)) = display_key sn"
  "ck_displaySec (fst (clock_frame sn lastTs ts now ck)) = snd (snd (clock_frame sn lastTs ts now ck))"
  by (simp_all add: clock_frame_def Let_def case_prod_beta)

text \<open>A run of frames: what the display shows, in order.\<close>

fun clock_run :: "(real \<times> real) list \<Rightarrow> round_clock \<Rightarrow> int list" where
  "clock_run [] ck = []"
| "clock_run ((ts, now) # fs) ck =
     (case clock_tick ts now ck of
        (ck', None) \<Rightarrow> []
      | (ck', Some (_, sec)) \<Rightarrow> sec # clock_run fs ck')"

lemma clock_run_keyed:
  "ck_frame ck = Some (sn, lastTs) \<Longrightarrow> ck_displayKey ck = display_key sn \<Longrightarrow>
     sorted_wrt (\<ge>) (clock_run fs ck) \<and> (\<forall>s\<in>set (clock_run fs ck). s \<le> ck_displaySec ck)"
proof (induction fs arbitrary: ck lastTs)
  case (Cons f fs)
  obtain ts now where f: "f = (ts, now)" by force
  let ?r = "clock_frame sn lastTs ts now ck"
  have s: "snd (snd ?r) \<le> ck_displaySec ck" using clock_frame_stable [OF Cons.prems(2)] .
  note ih = Cons.IH [of "fst ?r" ts, OF clock_frame_fields(1,2)]
  have "clock_run (f # fs) ck = snd (snd ?r) # clock_run fs (fst ?r)"
    using Cons.prems(1) by (simp add: f clock_tick_def case_prod_beta)
  then show ?case using ih s by (force simp: clock_frame_fields(3))
qed simp

lemma clock_run_nonneg:
  "ck_frame ck = Some (sn, lastTs) \<Longrightarrow> 0 \<le> ck_displaySec ck \<Longrightarrow> \<forall>s\<in>set (clock_run fs ck). 0 \<le> s"
proof (induction fs arbitrary: ck lastTs)
  case (Cons f fs)
  obtain ts now where f: "f = (ts, now)" by force
  let ?r = "clock_frame sn lastTs ts now ck"
  have s: "0 \<le> snd (snd ?r)" using clock_frame_sec [OF Cons.prems(2)] .
  have "0 \<le> ck_displaySec (fst ?r)" using s by (simp add: clock_frame_fields(3))
  note ih = Cons.IH [of "fst ?r" ts, OF clock_frame_fields(1) this]
  have "clock_run (f # fs) ck = snd (snd ?r) # clock_run fs (fst ?r)"
    using Cons.prems(1) by (simp add: f clock_tick_def case_prod_beta)
  then show ?case using ih s by simp
qed simp

section \<open>Properties\<close>

text \<open>
  The countdown a player sees never goes up while one phase of one round is shown, however the
  frames are spaced and the browser's clock jumps, and it never shows a negative second.
\<close>

theorem countdown_never_rises:
  assumes "0 \<le> ck_displaySec ck"
  shows "sorted_wrt (\<ge>) (clock_run fs (fst (clock_start (Some sn) ck))) \<and>
         (\<forall>s\<in>set (clock_run fs (fst (clock_start (Some sn) ck))). 0 \<le> s)"
proof -
  let ?ck = "ck\<lparr>ck_frame := Some (sn, 0)\<rparr>"
  have "\<forall>s\<in>set (clock_run fs ?ck). 0 \<le> s" using clock_run_nonneg [of ?ck sn 0 fs] assms by simp
  moreover have "sorted_wrt (\<ge>) (clock_run fs ?ck)"
  proof (cases fs)
    case (Cons f fs')
    obtain ts now where f: "f = (ts, now)" by force
    let ?r = "clock_frame sn 0 ts now ?ck"
    have "clock_run fs ?ck = snd (snd ?r) # clock_run fs' (fst ?r)"
      by (simp add: Cons f clock_tick_def case_prod_beta)
    with clock_run_keyed [OF clock_frame_fields(1,2), of fs' sn 0 ts now ?ck] show ?thesis
      by (simp add: clock_frame_fields(3))
  qed simp
  ultimately show ?thesis by (simp add: clock_start_def)
qed

theorem countdown_never_rises_witness:
  "sorted_wrt (\<ge>) (clock_run [(16, 10000), (32, 9000), (48, 31000)]
     (fst (clock_start (Some sample_snapshot) new_round_clock)))"
  by (rule countdown_never_rises [THEN conjunct1]) (simp add: new_round_clock_def)

text \<open>
  The round result is told in order: the phases the timers reveal follow the declared order of
  the animation without a repetition, at strictly increasing times, starting after the base phase and
  ending with the hit points applied.
\<close>

theorem result_phases_in_order:
  "sorted_wrt (<) (PhBase # map (call_phase \<circ> snd) anim_timers) \<and>
   sorted_wrt (<) (0 # map fst anim_timers) \<and> snd (last anim_timers) = AnimHpApply"
  by (simp add: anim_timers_def timeline hpApplyAtMs_def result_phase_order)

end
