(* ===== verification/GameController.thy ===== *)
theory GameController
  imports MatchController RoundClock
begin

text \<open>
  \<open>features/game/controllers/game-controller.ts\<close>: the controller of the game screen. It follows the
  match controller: every notification of the latter runs \<open>handleMatchChange\<close> on the snapshot then
  shown. Sounds and its own notifications are logged in \<open>gm_out\<close>; timers are pending payloads fired
  by the browser. \<open>uid\<close> is the user of the session controller.
\<close>

section \<open>State\<close>

record game_state =
  g_persistedRoundResultCtx :: "(string \<times> round_result) option"
  g_guess :: "(real \<times> real) option"
  g_roundMSLeft :: real
  g_displayRoundSeconds :: int
  g_displayHP :: "int js_record"
  g_opponentGuessAlert :: bool
  g_guessSubmitted :: bool
  g_resultPhase :: result_phase
  g_resultShownHP :: "int \<times> int"
  g_showMatchEndPage :: bool

definition initial_game_state :: game_state where
  "initial_game_state =
     \<lparr>g_persistedRoundResultCtx = None, g_guess = None, g_roundMSLeft = 0, g_displayRoundSeconds = 0,
      g_displayHP = [], g_opponentGuessAlert = False, g_guessSubmitted = False, g_resultPhase = PhBase,
      g_resultShownHP = (0, 0), g_showMatchEndPage = False\<rparr>"

datatype game_out =
  GEmit game_state | GSfxStart | GPlay string | GPlayManaged string | GStop string

text \<open>The result a running animation applies: the final hit points, and whether anybody was hit.\<close>

record anim_result =
  an_hp :: "int \<times> int"
  an_hit :: bool

record game_ctl =
  gm_state :: game_state
  gm_prevSnapshot :: "snapshot option"
  gm_prevRoundId :: string
  gm_prevSeq :: int
  gm_resultAnimRound :: string
  gm_roundTimerSyncKey :: string
  gm_animTimers :: "((real \<times> anim_call) \<times> anim_result) list"
  gm_clock :: round_clock
  gm_hpTransitionTimer :: "int js_record option"
  gm_opponentGuessTimer :: bool
  gm_introCountdownSfxKey :: string
  gm_roundCountdownSfxKey :: string
  gm_gameStartSfxKey :: string
  gm_guessSfxKeys :: "string list"
  gm_resultExitSfxKeys :: "string list"
  gm_destroyed :: bool
  gm_started :: bool
  gm_out :: "game_out list"

definition new_game_ctl :: game_ctl where
  "new_game_ctl =
     \<lparr>gm_state = initial_game_state, gm_prevSnapshot = None, gm_prevRoundId = [], gm_prevSeq = 0,
      gm_resultAnimRound = [], gm_roundTimerSyncKey = [], gm_animTimers = [],
      gm_clock = new_round_clock, gm_hpTransitionTimer = None, gm_opponentGuessTimer = False,
      gm_introCountdownSfxKey = [], gm_roundCountdownSfxKey = [], gm_gameStartSfxKey = [],
      gm_guessSfxKeys = [], gm_resultExitSfxKeys = [], gm_destroyed = False, gm_started = False,
      gm_out = []\<rparr>"

definition gm_log :: "game_out \<Rightarrow> game_ctl \<Rightarrow> game_ctl" where
  [ctl_defs]: "gm_log x gm = gm\<lparr>gm_out := gm_out gm @ [x]\<rparr>"

definition gm_patchState :: "(game_state \<Rightarrow> game_state) \<Rightarrow> game_ctl \<Rightarrow> game_ctl" where
  [ctl_defs]: "gm_patchState f gm =
     (let gm' = gm\<lparr>gm_state := f (gm_state gm)\<rparr> in
      if gm_destroyed gm' then gm' else gm_log (GEmit (gm_state gm')) gm')"

section \<open>Sounds\<close>

definition stopRoundCountdown :: "game_ctl \<Rightarrow> game_ctl" where
  "stopRoundCountdown gm =
     (if gm_roundCountdownSfxKey gm = [] then gm
      else gm_log (GStop ''duel-round-countdown'') (gm\<lparr>gm_roundCountdownSfxKey := []\<rparr>))"

definition playGuessSfx :: "string \<Rightarrow> string \<Rightarrow> string \<Rightarrow> game_ctl \<Rightarrow> game_ctl" where
  "playGuessSfx matchId roundId playerId gm =
     (let key = matchId @ '':'' @ roundId @ '':guess:'' @ playerId in
      if key \<in> set (gm_guessSfxKeys gm) then gm
      else gm_log (GPlay ''duel-round-guess'') (gm\<lparr>gm_guessSfxKeys := gm_guessSfxKeys gm @ [key]\<rparr>))"

definition playResultExitSfx :: "string \<Rightarrow> game_ctl \<Rightarrow> game_ctl" where
  "playResultExitSfx key gm =
     (if key \<in> set (gm_resultExitSfxKeys gm) then gm
      else gm_log (GPlay ''duel-round-result-exit'')
        (gm\<lparr>gm_resultExitSfxKeys := gm_resultExitSfxKeys gm @ [key]\<rparr>))"

definition syncIntroCountdownSfx :: "snapshot \<Rightarrow> int \<Rightarrow> game_ctl \<Rightarrow> game_ctl" where
  "syncIntroCountdownSfx sn secs gm =
     (if secs < 1 \<or> 3 < secs then gm
      else let key = sn_matchId sn @ '':'' @ round_id_of sn @ '':intro'' in
        if key = gm_introCountdownSfxKey gm then gm
        else gm_log (GPlay ''duel-round-result-countdown'') (gm\<lparr>gm_introCountdownSfxKey := key\<rparr>))"

definition syncRoundIntroExitSfx :: "snapshot \<Rightarrow> int \<Rightarrow> game_ctl \<Rightarrow> game_ctl" where
  "syncRoundIntroExitSfx sn secs gm =
     (if 0 < secs then gm
      else playResultExitSfx (sn_matchId sn @ '':'' @ round_id_of sn @ '':round-intro-hide'') gm)"

definition syncRoundCountdown :: "snapshot \<Rightarrow> int \<Rightarrow> game_ctl \<Rightarrow> game_ctl" where
  "syncRoundCountdown sn secs gm =
     (if gm_roundCountdownSfxKey gm \<noteq> [] then gm
      else if secs < 1 \<or> 15 < secs then gm
      else gm_log (GPlayManaged ''duel-round-countdown'')
        (gm\<lparr>gm_roundCountdownSfxKey := sn_matchId sn @ '':'' @ round_id_of sn @ '':round-countdown''\<rparr>))"

definition syncRoundSfx :: "snapshot \<Rightarrow> int \<Rightarrow> game_ctl \<Rightarrow> game_ctl" where
  "syncRoundSfx sn secs gm =
     (if sn_mode sn = Some Singleplayer \<or> sn_phase sn \<noteq> LivePhase then stopRoundCountdown gm
      else if sn_roundPhase sn = RoundIntro then
        syncRoundIntroExitSfx sn secs (syncIntroCountdownSfx sn secs (stopRoundCountdown gm))
      else if sn_roundPhase sn = RoundLive then syncRoundCountdown sn secs gm
      else stopRoundCountdown gm)"

text \<open>\<open>syncGameStartSfx\<close>: once per single-player match, when its first round goes live.\<close>

definition round_live :: "snapshot \<Rightarrow> bool" where
  "round_live sn \<longleftrightarrow> sn_phase sn = LivePhase \<and> sn_roundPhase sn = RoundLive"

definition syncGameStartSfx :: "snapshot option \<Rightarrow> snapshot option \<Rightarrow> game_ctl \<Rightarrow> game_ctl" where
  "syncGameStartSfx prev next gm =
     (case next of
        None \<Rightarrow> gm
      | Some nx \<Rightarrow>
          if sn_mode nx \<noteq> Some Singleplayer \<or> \<not> round_live nx then gm
          else if round_id_of nx = [] \<or> map_option cr_roundNumber (sn_currentRound nx) \<noteq> Some 1 then gm
          else
            let isNew = (case prev of
                  None \<Rightarrow> True
                | Some pv \<Rightarrow> sn_matchId pv \<noteq> sn_matchId nx \<or>
                    map_option cr_roundId (sn_currentRound pv) \<noteq> Some (round_id_of nx) \<or> \<not> round_live pv);
                key = sn_matchId nx @ '':game-start''
            in if \<not> isNew \<or> key = gm_gameStartSfxKey gm then gm
               else gm_log (GPlay ''duel-game-start'') (gm\<lparr>gm_gameStartSfxKey := key\<rparr>))"

definition syncCountdownLoopSnapshot :: "snapshot option \<Rightarrow> game_ctl \<Rightarrow> game_ctl" where
  "syncCountdownLoopSnapshot so gm =
     (case so of
        None \<Rightarrow> stopRoundCountdown gm
      | Some sn \<Rightarrow>
          if sn_mode sn = Some Singleplayer \<or> \<not> round_live sn then stopRoundCountdown gm else gm)"

text \<open>\<open>syncGuessSfx\<close>: a sound for every player who has become final in the same live round.\<close>

definition guess_round :: "snapshot \<Rightarrow> string" where
  "guess_round nx =
     or_str (round_id_of nx) (case sn_lastRoundResult nx of None \<Rightarrow> [] | Some rr \<Rightarrow> rr_roundId rr)"

definition newly_final :: "snapshot \<Rightarrow> string \<times> snapshot_player \<Rightarrow> bool" where
  "newly_final pv p =
     (case map_of (sn_players pv) (fst p) of
        None \<Rightarrow> False
      | Some before \<Rightarrow> \<not> pl_finalized before \<and> pl_finalized (snd p))"

definition syncGuessSfx :: "string \<Rightarrow> snapshot option \<Rightarrow> snapshot option \<Rightarrow> game_ctl \<Rightarrow> game_ctl" where
  "syncGuessSfx uid prev next gm =
     (case (prev, next) of
        (Some pv, Some nx) \<Rightarrow>
          (let roundId = guess_round nx;
               sameRound = (sn_matchId pv = sn_matchId nx \<and> roundId \<noteq> [] \<and>
                 map_option cr_roundId (sn_currentRound pv) = Some roundId)
           in if \<not> sameRound \<or> \<not> round_live pv then gm
              else if sn_mode nx = Some Singleplayer then
                (case sn_lastRoundResult nx of
                   None \<Rightarrow> gm
                 | Some rr \<Rightarrow>
                     if map_of (rr_players rr) uid = None then gm else playGuessSfx (sn_matchId nx) roundId uid gm)
              else fold (\<lambda>p. playGuessSfx (sn_matchId nx) roundId (fst p))
                     (filter (newly_final pv) (sn_players nx)) gm)
      | _ \<Rightarrow> gm)"

section \<open>Timers\<close>

definition clearTimers :: "game_ctl \<Rightarrow> game_ctl" where
  "clearTimers gm =
     (stopRoundCountdown (gm\<lparr>gm_animTimers := [], gm_hpTransitionTimer := None, gm_opponentGuessTimer := False,
        gm_introCountdownSfxKey := []\<rparr>))
       \<lparr>gm_gameStartSfxKey := [], gm_guessSfxKeys := [], gm_resultExitSfxKeys := [], gm_roundTimerSyncKey := []\<rparr>"

fun mode_name :: "game_mode option \<Rightarrow> string" where
  "mode_name None = ''duel''"
| "mode_name (Some Duel) = ''duel''"
| "mode_name (Some Singleplayer) = ''singleplayer''"
| "mode_name (Some TeamDuel) = ''team_duel''"
| "mode_name (Some FreeForAll) = ''free_for_all''"

definition roundTimerKey :: "snapshot \<Rightarrow> string" where
  "roundTimerKey sn =
     join_with '':''
       [mode_name (sn_mode sn), sn_matchId sn, match_phase_name (sn_phase sn),
        round_phase_name (sn_roundPhase sn), round_id_of sn, timer_state_name sn,
        int_str (sn_phaseEndsAt sn),
        int_str (if 0 < sn_phaseEndsAt sn then 0 else sn_roundMsLeft sn)]"

definition show_time :: "real \<Rightarrow> int \<Rightarrow> game_ctl \<Rightarrow> game_ctl" where
  "show_time ms secs = gm_patchState (\<lambda>st. st\<lparr>g_roundMSLeft := ms, g_displayRoundSeconds := secs\<rparr>)"

definition syncRoundTimer :: "snapshot option \<Rightarrow> game_ctl \<Rightarrow> game_ctl" where
  "syncRoundTimer so gm =
     (let cleared = (\<lambda>gm. show_time 0 0 (gm\<lparr>gm_roundTimerSyncKey := [], gm_clock := clock_reset (gm_clock gm)\<rparr>)) in
      case so of
        None \<Rightarrow> stopRoundCountdown (cleared gm)
      | Some sn \<Rightarrow>
          if sn_mode sn = Some Singleplayer then
            (stopRoundCountdown ((cleared gm)\<lparr>gm_introCountdownSfxKey := []\<rparr>))\<lparr>gm_gameStartSfxKey := []\<rparr>
          else
            let key = roundTimerKey sn in
            if key = gm_roundTimerSyncKey gm then gm
            else gm\<lparr>gm_roundTimerSyncKey := key, gm_clock := fst (clock_start (Some sn) (gm_clock gm))\<rparr>)"

text \<open>A frame of the round clock: its callback makes the sounds and shows the time.\<close>

definition game_frame :: "real \<Rightarrow> real \<Rightarrow> game_ctl \<Rightarrow> game_ctl" where
  "game_frame ts now gm =
     (case ck_frame (gm_clock gm) of
        None \<Rightarrow> gm
      | Some (sn, lastTs) \<Rightarrow>
          (let (ck, (ms, secs)) = clock_frame sn lastTs ts now (gm_clock gm) in
           show_time ms secs (syncRoundSfx sn secs (gm\<lparr>gm_clock := ck\<rparr>))))"

definition hasPressureTimer :: "snapshot \<Rightarrow> bool" where
  "hasPressureTimer sn =
     (case sn_config sn of
        None \<Rightarrow> False
      | Some c \<Rightarrow> (case cfg_pressureTimeLimitMs c of None \<Rightarrow> False | Some ms \<Rightarrow> 0 < ms) \<or>
          cfg_roundTimerMode c = Some TimerPressure)"

definition syncPressureTimerCap :: "snapshot option \<Rightarrow> game_ctl \<Rightarrow> game_ctl" where
  "syncPressureTimerCap so gm =
     (case so of
        None \<Rightarrow> gm
      | Some sn \<Rightarrow>
          if sn_mode sn = Some Singleplayer \<or> \<not> round_live sn \<or> \<not> hasPressureTimer sn \<or> round_id_of sn = [] then gm
          else
            let finalizedCount = length (filter (\<lambda>p. pl_finalized (snd p)) (sn_players sn)) in
            if 0 < finalizedCount \<and> finalizedCount < length (sn_players sn)
            then gm\<lparr>gm_clock := forceRound (round_id_of sn) (gm_clock gm)\<rparr> else gm)"

section \<open>Hit points and the round result\<close>

definition player_hp :: "snapshot \<Rightarrow> string \<Rightarrow> int option" where
  "player_hp sn i = map_option pl_hp (map_of (sn_players sn) i)"

definition player_score :: "snapshot \<Rightarrow> string \<Rightarrow> int" where
  "player_score sn i =
     (case map_of (sn_players sn) i of None \<Rightarrow> 0 | Some p \<Rightarrow> or_zero (pl_totalScore p))"

definition getAnimatedStartHP ::
  "runtime_config \<Rightarrow> snapshot \<Rightarrow> string \<Rightarrow> int \<Rightarrow> int \<Rightarrow> game_ctl \<Rightarrow> int" where
  "getAnimatedStartHP cfg sn playerId hpAfterRound hpNow gm =
     (let prevHP = (case gm_prevSnapshot gm of
            Some pv \<Rightarrow> if sn_matchId pv = sn_matchId sn then player_hp pv playerId else None
          | None \<Rightarrow> None)
      in case prevHP of
           Some hp \<Rightarrow> max hpAfterRound (min (maxHP cfg) hp)
         | None \<Rightarrow>
             (case map_of (g_displayHP (gm_state gm)) playerId of
                Some hp \<Rightarrow> max hpAfterRound (min (maxHP cfg) hp)
              | None \<Rightarrow> max hpAfterRound (min (maxHP cfg) hpNow)))"

definition set_display_hp :: "int js_record \<Rightarrow> game_ctl \<Rightarrow> game_ctl" where
  "set_display_hp hp = gm_patchState (g_displayHP_update (\<lambda>_. hp))"

definition scored_mode :: "snapshot \<Rightarrow> bool" where
  "scored_mode sn \<longleftrightarrow> sn_mode sn = Some Singleplayer \<or> sn_mode sn = Some FreeForAll"

definition result_shown :: "snapshot \<Rightarrow> bool" where
  "result_shown sn \<longleftrightarrow> sn_phase sn = RoundResultPhase \<or> sn_state sn = ''ended''"

definition syncDisplayHP :: "runtime_config \<Rightarrow> string \<Rightarrow> snapshot option \<Rightarrow> game_ctl \<Rightarrow> game_ctl" where
  "syncDisplayHP cfg uid so gm =
     (case so of
        None \<Rightarrow> gm
      | Some sn \<Rightarrow>
          if scored_mode sn then
            (set_display_hp [(uid, player_score sn uid)] gm)\<lparr>gm_prevSeq := sn_eventSequence sn\<rparr>
          else
            let hpNow = map (\<lambda>(i, p). (i, pl_hp p)) (sn_players sn) in
            case sn_lastRoundResult sn of
              Some rr \<Rightarrow>
                if \<not> (result_shown sn \<and> sn_eventSequence sn \<noteq> gm_prevSeq gm) then
                  (set_display_hp hpNow gm)\<lparr>gm_prevSeq := sn_eventSequence sn\<rparr>
                else
                  let before = map (\<lambda>(i, r). (i, getAnimatedStartHP cfg sn i (or_zero (rp_hpAfterRound r))
                        (or_zero (map_of hpNow i)) gm)) (rr_players rr)
                  in (set_display_hp before gm)
                       \<lparr>gm_hpTransitionTimer := Some hpNow, gm_prevSeq := sn_eventSequence sn\<rparr>
            | None \<Rightarrow> (set_display_hp hpNow gm)\<lparr>gm_prevSeq := sn_eventSequence sn\<rparr>)"

text \<open>A player's or a team's result: the hit points left and the damage taken.\<close>

type_synonym result_numbers = "int option \<times> int option"

definition player_numbers :: "round_result \<Rightarrow> string \<Rightarrow> result_numbers option" where
  "player_numbers rr i =
     map_option (\<lambda>r. (rp_hpAfterRound r, rp_damageTaken r)) (map_of (rr_players rr) i)"

definition team_numbers :: "round_result \<Rightarrow> string \<Rightarrow> result_numbers option" where
  "team_numbers rr t =
     (case rr_teams rr of
        None \<Rightarrow> None
      | Some ts \<Rightarrow> map_option (\<lambda>r. (rt_hpAfterRound r, rt_damageTaken r)) (map_of ts t))"

definition opponent_of :: "snapshot \<Rightarrow> string \<Rightarrow> string" where
  "opponent_of sn uid =
     (if sn_mode sn = Some TeamDuel
      then find_str (\<lambda>i. team_of sn i \<noteq> team_of sn uid) (map fst (sn_players sn))
      else find_str (\<lambda>i. i \<noteq> uid) (map fst (sn_players sn)))"

definition opponent_team :: "snapshot \<Rightarrow> string \<Rightarrow> string" where
  "opponent_team sn i =
     (if sn_mode sn = Some TeamDuel then
        or_str (case map_of (sn_players sn) i of None \<Rightarrow> [] | Some p \<Rightarrow> opt_str (pl_teamId p)) ''b''
      else [])"

definition result_pair :: "snapshot \<Rightarrow> string \<Rightarrow> round_result \<Rightarrow> (result_numbers \<times> result_numbers) option" where
  "result_pair sn uid rr =
     (let oppId = opponent_of sn uid;
          self = (if sn_mode sn = Some TeamDuel then team_numbers rr (team_of sn uid) else player_numbers rr uid);
          opp = (if sn_mode sn = Some TeamDuel then team_numbers rr (opponent_team sn oppId) else player_numbers rr oppId)
      in case (self, opp) of (Some s, Some p) \<Rightarrow> Some (s, p) | _ \<Rightarrow> None)"

definition anim_of :: "result_numbers \<Rightarrow> result_numbers \<Rightarrow> anim_result" where
  "anim_of self opp =
     \<lparr>an_hp = (or_zero (fst self), or_zero (fst opp)),
      an_hit = (0 < or_zero (snd self) \<or> 0 < or_zero (snd opp))\<rparr>"

text \<open>\<open>resultAnimation.schedule(false, ...)\<close>: the base phase now, the rest on timers.\<close>

definition schedule_result :: "anim_result \<Rightarrow> game_ctl \<Rightarrow> game_ctl" where
  "schedule_result a gm =
     (gm_patchState (g_resultPhase_update (\<lambda>_. PhBase)) (gm\<lparr>gm_animTimers := []\<rparr>))
       \<lparr>gm_animTimers := map (\<lambda>t. (t, a)) anim_timers\<rparr>"

definition show_result :: "result_phase \<Rightarrow> int \<times> int \<Rightarrow> game_ctl \<Rightarrow> game_ctl" where
  "show_result ph hp = gm_patchState (\<lambda>st. st\<lparr>g_resultPhase := ph, g_resultShownHP := hp\<rparr>)"

text \<open>
  The browser fires the pending timer that is due first: the one with the least delay, and of equal
  delays the one set first (\<open>sort_key\<close> is stable). All were set at the moment of \<open>schedule\<close>, so by
  the time \<open>t\<close> after it every timer with a delay of at most \<open>t\<close> has fired.
\<close>

definition anim_fire :: "game_ctl \<Rightarrow> game_ctl" where
  "anim_fire gm =
     (case sort_key (\<lambda>x. fst (fst x)) (gm_animTimers gm) of
        [] \<Rightarrow> gm
      | ((_, c), a) # rest \<Rightarrow>
          (let gm1 = gm\<lparr>gm_animTimers := rest\<rparr> in
           case c of
             AnimPhase ph \<Rightarrow>
               gm_patchState (g_resultPhase_update (\<lambda>_. ph))
                 (if ph = PhScores then gm_log (GPlay ''duel-round-result-score-reveal'') gm1 else gm1)
           | AnimHpApply \<Rightarrow>
               show_result PhHpApply (an_hp a)
                 (if an_hit a then gm_log (GPlay ''duel-round-result-hp-hit'') gm1 else gm1)))"

definition anim_until :: "real \<Rightarrow> game_ctl \<Rightarrow> game_ctl" where
  "anim_until t gm = (anim_fire ^^ length (filter (\<lambda>x. fst (fst x) \<le> t) (gm_animTimers gm))) gm"

definition syncResultAnimation :: "runtime_config \<Rightarrow> string \<Rightarrow> snapshot option \<Rightarrow> game_ctl \<Rightarrow> game_ctl" where
  "syncResultAnimation cfg uid so gm =
     (let cleared = gm\<lparr>gm_animTimers := []\<rparr> in
      case so of
        None \<Rightarrow> cleared
      | Some sn \<Rightarrow>
          (case sn_lastRoundResult sn of
             None \<Rightarrow> cleared
           | Some rr \<Rightarrow>
               if sn_matchId sn = [] then cleared
               else if scored_mode sn then
                 (if gm_resultAnimRound gm = rr_roundId rr then gm
                  else gm_patchState (\<lambda>st. st\<lparr>g_showMatchEndPage := False, g_resultPhase := PhHpApply,
                         g_resultShownHP := (player_score sn uid, 0)\<rparr>)
                    (gm_log (GPlay ''duel-round-result-score-reveal'')
                      (gm_log (GPlay ''duel-round-result-enter'')
                        (cleared\<lparr>gm_resultAnimRound := rr_roundId rr\<rparr>))))
               else if \<not> result_shown sn then cleared
               else if gm_resultAnimRound gm = rr_roundId rr then gm
               else
                 (case result_pair sn uid rr of
                    None \<Rightarrow> gm
                  | Some (self, opp) \<Rightarrow>
                      (let oppId = opponent_of sn uid;
                           oldSelf = getAnimatedStartHP cfg sn uid (or_zero (fst self)) (or_zero (player_hp sn uid)) cleared;
                           oldOpp = getAnimatedStartHP cfg sn oppId (or_zero (fst opp)) (or_zero (player_hp sn oppId)) cleared
                       in schedule_result (anim_of self opp)
                            (gm_log (GPlay ''duel-round-result-enter'')
                              (gm_patchState (\<lambda>st. st\<lparr>g_showMatchEndPage := False, g_resultShownHP := (oldSelf, oldOpp)\<rparr>)
                                (cleared\<lparr>gm_resultAnimRound := rr_roundId rr\<rparr>)))))))"

definition syncRecoveredEndedMatch :: "string \<Rightarrow> snapshot option \<Rightarrow> game_ctl \<Rightarrow> game_ctl" where
  "syncRecoveredEndedMatch uid so gm =
     (case so of
        None \<Rightarrow> gm
      | Some sn \<Rightarrow>
          if sn_state sn \<noteq> ''ended'' \<or> sn_lastRoundResult sn \<noteq> None \<or> g_showMatchEndPage (gm_state gm) then gm
          else if scored_mode sn then
            gm_patchState (\<lambda>st. st\<lparr>g_resultPhase := PhHpApply, g_showMatchEndPage := False,
              g_resultShownHP := (player_score sn uid, 0)\<rparr>) gm
          else
            let oppId = find_str (\<lambda>i. i \<noteq> uid) (map fst (sn_players sn)) in
            gm_patchState (\<lambda>st. st\<lparr>g_resultPhase := PhHpApply, g_showMatchEndPage := True,
              g_resultShownHP := (or_zero (player_hp sn uid), or_zero (player_hp sn oppId))\<rparr>) gm)"

section \<open>Following the match\<close>

definition syncSelfGuess :: "snapshot option \<Rightarrow> string \<Rightarrow> game_ctl \<Rightarrow> game_ctl" where
  "syncSelfGuess so uid gm =
     (case so of
        None \<Rightarrow> gm
      | Some sn \<Rightarrow>
          if \<not> round_live sn then gm
          else
            let currentGuess = (case sn_self sn of
                  Some sf \<Rightarrow> if sf_userId sf = uid then sf_currentGuess sf else None
                | None \<Rightarrow> None);
                final = (case map_of (sn_players sn) uid of None \<Rightarrow> False | Some p \<Rightarrow> pl_finalized p)
            in if currentGuess = None \<and> \<not> final then gm
               else gm_patchState (\<lambda>st. st
                 \<lparr>g_guess := (if currentGuess = None then g_guess st else currentGuess),
                  g_guessSubmitted := (final \<or> g_guessSubmitted st)\<rparr>) gm)"

definition syncOpponentFinalized :: "snapshot option \<Rightarrow> snapshot option \<Rightarrow> string \<Rightarrow> game_ctl \<Rightarrow> game_ctl" where
  "syncOpponentFinalized prev next uid gm =
     (case (prev, next) of
        (Some pv, Some nx) \<Rightarrow>
          if sn_mode nx \<noteq> Some Duel \<or> \<not> hasPressureTimer nx then gm
          else
            let oppId = find_str (\<lambda>i. i \<noteq> uid) (map fst (sn_players nx));
                prevOpp = (if oppId = [] then None else map_of (sn_players pv) oppId);
                nextOpp = (if oppId = [] then None else map_of (sn_players nx) oppId);
                selfFinal = (case map_of (sn_players nx) uid of None \<Rightarrow> False | Some p \<Rightarrow> pl_finalized p);
                sameRound = (round_id_of pv \<noteq> [] \<and> map_option cr_roundId (sn_currentRound nx) = Some (round_id_of pv));
                becameFinal = (case (prevOpp, nextOpp) of
                  (Some p, Some q) \<Rightarrow> \<not> pl_finalized p \<and> pl_finalized q | _ \<Rightarrow> False)
            in if sn_phase nx = LivePhase \<and> sameRound \<and> becameFinal \<and> \<not> selfFinal then
                 (gm_patchState (\<lambda>st. st
                    \<lparr>g_roundMSLeft := min PRESSURE_VISIBLE_MS
                       (if g_roundMSLeft st = 0 then PRESSURE_VISIBLE_MS else g_roundMSLeft st),
                     g_opponentGuessAlert := True\<rparr>)
                   (gm\<lparr>gm_clock := forceRound (round_id_of nx) (gm_clock gm)\<rparr>))
                 \<lparr>gm_opponentGuessTimer := True\<rparr>
               else gm
      | _ \<Rightarrow> gm)"

definition persist_result :: "snapshot option \<Rightarrow> game_ctl \<Rightarrow> game_ctl" where
  "persist_result so gm =
     (case so of
        None \<Rightarrow> gm_patchState (g_persistedRoundResultCtx_update (\<lambda>_. None)) gm
      | Some sn \<Rightarrow>
          (case sn_lastRoundResult sn of
             Some rr \<Rightarrow>
               if sn_matchId sn = [] then gm
               else gm_patchState (g_persistedRoundResultCtx_update (\<lambda>_. Some (sn_matchId sn, rr))) gm
           | None \<Rightarrow> gm))"

definition new_round_guess :: "snapshot option \<Rightarrow> game_ctl \<Rightarrow> game_ctl" where
  "new_round_guess so gm =
     (let currentRoundId = (case so of None \<Rightarrow> [] | Some sn \<Rightarrow> round_id_of sn) in
      if currentRoundId = gm_prevRoundId gm then gm
      else gm_patchState (\<lambda>st. st\<lparr>g_guess := None, g_guessSubmitted := False\<rparr>)
        (gm\<lparr>gm_prevRoundId := currentRoundId\<rparr>))"

definition sync_clock :: "snapshot option \<Rightarrow> real \<Rightarrow> game_ctl \<Rightarrow> game_ctl" where
  "sync_clock so now gm =
     (case Option.bind so sn_serverUnixMs of
        None \<Rightarrow> gm
      | Some server \<Rightarrow> gm\<lparr>gm_clock := setServerTime server now (gm_clock gm)\<rparr>)"

definition start_sfx :: "snapshot option \<Rightarrow> game_ctl \<Rightarrow> game_ctl" where
  "start_sfx so gm =
     (case so of None \<Rightarrow> gm | Some sn \<Rightarrow> if sn_matchId sn = [] then gm else gm_log GSfxStart gm)"

definition handleMatchChange ::
  "runtime_config \<Rightarrow> string \<Rightarrow> real \<Rightarrow> snapshot option \<Rightarrow> game_ctl \<Rightarrow> game_ctl" where
  "handleMatchChange cfg uid now so gm =
     (let prev = gm_prevSnapshot gm;
          gm1 = sync_clock so now (new_round_guess so (persist_result so (start_sfx so gm)));
          gm2 = syncSelfGuess so uid (syncGuessSfx uid prev so (syncGameStartSfx prev so gm1));
          gm3 = syncRoundTimer so (syncPressureTimerCap so (syncCountdownLoopSnapshot so gm2));
          gm4 = syncResultAnimation cfg uid so (syncDisplayHP cfg uid so gm3);
          gm5 = syncOpponentFinalized prev so uid (syncRecoveredEndedMatch uid so gm4)
      in gm5\<lparr>gm_prevSnapshot := so\<rparr>)"

definition gm_start :: "runtime_config \<Rightarrow> string \<Rightarrow> real \<Rightarrow> snapshot option \<Rightarrow> game_ctl \<Rightarrow> game_ctl" where
  "gm_start cfg uid now so gm =
     (if gm_started gm then gm
      else handleMatchChange cfg uid now so (gm\<lparr>gm_destroyed := False, gm_started := True\<rparr>))"

definition gm_destroy :: "game_ctl \<Rightarrow> game_ctl" where
  "gm_destroy gm =
     (let gm1 = clearTimers (gm\<lparr>gm_destroyed := True, gm_started := False\<rparr>)
      in gm1\<lparr>gm_clock := clock_reset (gm_clock gm1)\<rparr>)"

section \<open>The player's commands\<close>

text \<open>
  Every notification the match controller has sent between two of its states runs the subscription,
  on the state notified.
\<close>

definition emitted_states :: "match_ctl \<Rightarrow> match_ctl \<Rightarrow> match_state list" where
  "emitted_states mc mc' = [st. MEmit st \<leftarrow> drop (length (mc_out mc)) (mc_out mc')]"

definition follow ::
  "runtime_config \<Rightarrow> string \<Rightarrow> ambient \<Rightarrow> match_ctl \<Rightarrow> match_ctl \<Rightarrow> game_ctl \<Rightarrow> game_ctl" where
  "follow cfg uid amb mc mc' gm =
     (if gm_started gm
      then fold (\<lambda>st. handleMatchChange cfg uid (of_int (am_now amb)) (m_snapshot st)) (emitted_states mc mc') gm
      else gm)"

definition command_options :: "runtime_config \<Rightarrow> send_options" where
  "command_options cfg =
     \<lparr>so_errorMessage = Some (gameConnectionErrorMessage cfg), so_forceReconnect = True, so_silent = False\<rparr>"

text \<open>Sending a command and, where it was sent, clearing the connection issue.\<close>

definition issue_command ::
  "runtime_config \<Rightarrow> string \<Rightarrow> ambient \<Rightarrow> string \<Rightarrow> jv \<Rightarrow> game_ctl \<times> match_ctl \<Rightarrow> bool \<times> (game_ctl \<times> match_ctl)" where
  "issue_command cfg uid amb kind payload s =
     (let (gm, mc) = s;
          (sent, mc1) = sendGameCommand cfg amb kind payload (command_options cfg) mc;
          gm1 = follow cfg uid amb mc mc1 gm
      in if \<not> sent then (False, (gm1, mc1))
         else let mc2 = setConnectionIssue [] mc1 in (True, (follow cfg uid amb mc1 mc2 gm1, mc2)))"

definition isGuessInputClosed :: "real \<Rightarrow> snapshot \<Rightarrow> game_ctl \<Rightarrow> bool" where
  "isGuessInputClosed now sn gm =
     (if sn_mode sn = Some Singleplayer then False
      else if sn_roundPhase sn = RoundLive \<and> timer_idle sn then False
      else (case getAuthoritativeRoundMSLeft now (Some sn) (gm_clock gm) of
              None \<Rightarrow> False
            | Some left \<Rightarrow> left < GUESS_INPUT_CUTOFF_MS))"

definition placeGuess ::
  "runtime_config \<Rightarrow> string \<Rightarrow> ambient \<Rightarrow> real \<Rightarrow> real \<Rightarrow> game_ctl \<times> match_ctl \<Rightarrow> game_ctl \<times> match_ctl" where
  "placeGuess cfg uid amb lat lng s =
     (case m_snapshot (mc_state (snd s)) of
        None \<Rightarrow> s
      | Some sn \<Rightarrow>
          if \<not> round_live sn \<or> g_guessSubmitted (gm_state (fst s)) then s
          else (case sn_currentRound sn of
             None \<Rightarrow> s
           | Some r \<Rightarrow>
               if isGuessInputClosed (of_int (am_now amb)) sn (fst s) then s
               else
                 let (sent, s') = issue_command cfg uid amb ''guess.place''
                       (Obj [(''userId'', Str uid), (''matchId'', Str (sn_matchId sn)),
                             (''roundId'', Str (cr_roundId r)), (''lat'', Num (Fin lat)), (''lng'', Num (Fin lng))]) s
                 in if sent then (gm_patchState (g_guess_update (\<lambda>_. Some (lat, lng))) (fst s'), snd s') else s'))"

definition finalizeGuess ::
  "runtime_config \<Rightarrow> string \<Rightarrow> ambient \<Rightarrow> game_ctl \<times> match_ctl \<Rightarrow> game_ctl \<times> match_ctl" where
  "finalizeGuess cfg uid amb s =
     (case (g_guess (gm_state (fst s)), m_snapshot (mc_state (snd s))) of
        (Some (lat, lng), Some sn) \<Rightarrow>
          (case sn_currentRound sn of
             None \<Rightarrow> s
           | Some r \<Rightarrow>
               if sn_phase sn \<noteq> LivePhase \<or> g_guessSubmitted (gm_state (fst s)) then s
               else
                 let (sent, s') = issue_command cfg uid amb ''guess.finalize''
                       (Obj [(''userId'', Str uid), (''matchId'', Str (sn_matchId sn)),
                             (''roundId'', Str (cr_roundId r)), (''lat'', Num (Fin lat)), (''lng'', Num (Fin lng))]) s
                 in if sent then
                      (gm_patchState (g_guessSubmitted_update (\<lambda>_. True))
                         (playGuessSfx (sn_matchId sn) (cr_roundId r) uid (fst s')), snd s')
                    else s')
      | _ \<Rightarrow> s)"

definition advanceRound ::
  "runtime_config \<Rightarrow> string \<Rightarrow> ambient \<Rightarrow> game_ctl \<times> match_ctl \<Rightarrow> bool \<times> (game_ctl \<times> match_ctl)" where
  "advanceRound cfg uid amb s =
     (case m_snapshot (mc_state (snd s)) of
        None \<Rightarrow> (False, s)
      | Some sn \<Rightarrow>
          if sn_matchId sn = [] \<or> sn_mode sn \<noteq> Some Singleplayer \<or> sn_phase sn \<noteq> RoundResultPhase then (False, s)
          else issue_command cfg uid amb ''round.advance''
            (Obj [(''userId'', Str uid), (''matchId'', Str (sn_matchId sn))]) s)"

definition forfeitMatch ::
  "runtime_config \<Rightarrow> string \<Rightarrow> ambient \<Rightarrow> game_ctl \<times> match_ctl \<Rightarrow> bool \<times> (game_ctl \<times> match_ctl)" where
  "forfeitMatch cfg uid amb s =
     (case m_snapshot (mc_state (snd s)) of
        None \<Rightarrow> (False, s)
      | Some sn \<Rightarrow>
          if sn_matchId sn = [] \<or> sn_state sn = ''ended'' then (False, s)
          else issue_command cfg uid amb ''match.forfeit''
            (Obj [(''userId'', Str uid), (''matchId'', Str (sn_matchId sn))]) s)"

definition leaveGame ::
  "runtime_config \<Rightarrow> string \<Rightarrow> bool \<Rightarrow> ambient \<Rightarrow> game_ctl \<times> match_ctl \<Rightarrow> game_ctl \<times> match_ctl" where
  "leaveGame cfg uid onboardingRequired amb s =
     (let (gm, mc) = s;
          mc1 = (case m_snapshot (mc_state mc) of
              Some sn \<Rightarrow>
                if sn_matchId sn = [] then mc
                else snd (sendGameCommand cfg amb ''session.leave_match''
                  (Obj [(''userId'', Str uid), (''matchId'', Str (sn_matchId sn))])
                  \<lparr>so_errorMessage = None, so_forceReconnect = False, so_silent = True\<rparr> mc)
            | None \<Rightarrow> mc);
          mc2 = resetConnectionState mc1;
          gm1 = gm_patchState (\<lambda>_. initial_game_state) (follow cfg uid amb mc mc2 gm);
          gm2 = gm1\<lparr>gm_clock := clock_reset (gm_clock gm1), gm_resultAnimRound := []\<rparr>;
          mc3 = setStatus (if onboardingRequired then Idle else Ready) mc2
      in (follow cfg uid amb mc2 mc3 gm2, mc3))"

definition setShowMatchEndPage :: "snapshot option \<Rightarrow> bool \<Rightarrow> game_ctl \<Rightarrow> game_ctl" where
  "setShowMatchEndPage so v gm =
     (let roundId = or_str (case Option.bind so sn_lastRoundResult of None \<Rightarrow> [] | Some rr \<Rightarrow> rr_roundId rr) ''recovered'';
          matchId = or_str (case so of None \<Rightarrow> [] | Some sn \<Rightarrow> sn_matchId sn) ''match'';
          gm1 = (if v \<and> \<not> g_showMatchEndPage (gm_state gm)
                 then playResultExitSfx (matchId @ '':'' @ roundId @ '':round-result-hide'') gm else gm)
      in gm_patchState (g_showMatchEndPage_update (\<lambda>_. v)) gm1)"

text \<open>The remaining timers: the hit points after 90 ms, the opponent's alert after a second.\<close>

definition hp_timer_fires :: "game_ctl \<Rightarrow> game_ctl" where
  "hp_timer_fires gm =
     (case gm_hpTransitionTimer gm of
        None \<Rightarrow> gm
      | Some hpNow \<Rightarrow> set_display_hp hpNow (gm\<lparr>gm_hpTransitionTimer := None\<rparr>))"

definition alert_timer_fires :: "game_ctl \<Rightarrow> game_ctl" where
  "alert_timer_fires gm =
     (if gm_opponentGuessTimer gm
      then gm_patchState (g_opponentGuessAlert_update (\<lambda>_. False)) (gm\<lparr>gm_opponentGuessTimer := False\<rparr>)
      else gm)"

section \<open>Runs\<close>

text \<open>
  What can happen to the game screen short of leaving the game: the page starts and stops the
  controller, the match controller notifies a new state (the subscription of \<open>start\<close>), the player
  uses a control, a frame or a timer fires. A run is a fold over a list of these.
\<close>

datatype game_event =
    GStart real
  | GDestroy
  | GNotified real match_ctl
  | GPlaced ambient real real
  | GFinalized ambient
  | GAdvanced ambient
  | GForfeited ambient
  | GEndPage bool
  | GFrame real real
  | GHpTimer
  | GAlertTimer
  | GAnimTimer

fun game_event_step ::
  "runtime_config \<Rightarrow> string \<Rightarrow> game_event \<Rightarrow> game_ctl \<times> match_ctl \<Rightarrow> game_ctl \<times> match_ctl" where
  "game_event_step cfg uid (GStart now) s = (gm_start cfg uid now (m_snapshot (mc_state (snd s))) (fst s), snd s)"
| "game_event_step cfg uid GDestroy s = (gm_destroy (fst s), snd s)"
| "game_event_step cfg uid (GNotified now mc) s =
     (if gm_started (fst s) then handleMatchChange cfg uid now (m_snapshot (mc_state mc)) (fst s) else fst s, mc)"
| "game_event_step cfg uid (GPlaced amb lat lng) s = placeGuess cfg uid amb lat lng s"
| "game_event_step cfg uid (GFinalized amb) s = finalizeGuess cfg uid amb s"
| "game_event_step cfg uid (GAdvanced amb) s = snd (advanceRound cfg uid amb s)"
| "game_event_step cfg uid (GForfeited amb) s = snd (forfeitMatch cfg uid amb s)"
| "game_event_step cfg uid (GEndPage v) s =
     (setShowMatchEndPage (m_snapshot (mc_state (snd s))) v (fst s), snd s)"
| "game_event_step cfg uid (GFrame ts now) s = (game_frame ts now (fst s), snd s)"
| "game_event_step cfg uid GHpTimer s = (hp_timer_fires (fst s), snd s)"
| "game_event_step cfg uid GAlertTimer s = (alert_timer_fires (fst s), snd s)"
| "game_event_step cfg uid GAnimTimer s = (anim_fire (fst s), snd s)"

text \<open>The match states notified in a run.\<close>

definition notified_snapshots :: "game_event list \<Rightarrow> snapshot option list" where
  "notified_snapshots es = [m_snapshot (mc_state mc). GNotified now mc \<leftarrow> es]"

section \<open>Lemmas\<close>

lemma gm_patch_simps [simp]:
  "gm_state (gm_patchState f gm) = f (gm_state gm)"
  "gm_guessSfxKeys (gm_patchState f gm) = gm_guessSfxKeys gm"
  "gm_animTimers (gm_patchState f gm) = gm_animTimers gm"
  "gm_prevSnapshot (gm_patchState f gm) = gm_prevSnapshot gm"
  "gm_clock (gm_patchState f gm) = gm_clock gm"
  "gm_started (gm_patchState f gm) = gm_started gm"
  "gm_prevRoundId (gm_patchState f gm) = gm_prevRoundId gm"
  "gm_resultAnimRound (gm_patchState f gm) = gm_resultAnimRound gm"
  by (simp_all add: ctl_defs Let_def)

interpretation game_observable: quiet_when_destroyed gm_destroyed gm_out gm_patchState
  by unfold_locales (auto simp: ctl_defs Let_def)

text \<open>Where a controller stands with the sounds of guesses.\<close>

definition guess_sounds :: "game_ctl \<Rightarrow> nat" where
  "guess_sounds gm = length (filter (\<lambda>x. x = GPlay ''duel-round-guess'') (gm_out gm))"

definition guess_view :: "game_ctl \<Rightarrow> string list \<times> nat" where
  "guess_view gm = (gm_guessSfxKeys gm, guess_sounds gm)"

lemma gv_log [simp]: "x \<noteq> GPlay ''duel-round-guess'' \<Longrightarrow> guess_view (gm_log x gm) = guess_view gm"
  by (simp add: guess_view_def guess_sounds_def gm_log_def)

lemma gv_patch [simp]: "guess_view (gm_patchState f gm) = guess_view gm"
  by (simp add: guess_view_def guess_sounds_def ctl_defs Let_def)

lemma gv_fields [simp]:
  "guess_view (gm\<lparr>gm_prevSnapshot := a\<rparr>) = guess_view gm"
  "guess_view (gm\<lparr>gm_prevRoundId := b\<rparr>) = guess_view gm"
  "guess_view (gm\<lparr>gm_prevSeq := n\<rparr>) = guess_view gm"
  "guess_view (gm\<lparr>gm_resultAnimRound := b\<rparr>) = guess_view gm"
  "guess_view (gm\<lparr>gm_roundTimerSyncKey := b\<rparr>) = guess_view gm"
  "guess_view (gm\<lparr>gm_animTimers := ts\<rparr>) = guess_view gm"
  "guess_view (gm\<lparr>gm_clock := ck\<rparr>) = guess_view gm"
  "guess_view (gm\<lparr>gm_hpTransitionTimer := h\<rparr>) = guess_view gm"
  "guess_view (gm\<lparr>gm_opponentGuessTimer := t\<rparr>) = guess_view gm"
  "guess_view (gm\<lparr>gm_introCountdownSfxKey := b\<rparr>) = guess_view gm"
  "guess_view (gm\<lparr>gm_roundCountdownSfxKey := b\<rparr>) = guess_view gm"
  "guess_view (gm\<lparr>gm_gameStartSfxKey := b\<rparr>) = guess_view gm"
  "guess_view (gm\<lparr>gm_resultExitSfxKeys := ks\<rparr>) = guess_view gm"
  by (simp_all add: guess_view_def guess_sounds_def)

lemma gv_sync [simp]:
  "guess_view (stopRoundCountdown gm) = guess_view gm"
  "guess_view (set_display_hp hp gm) = guess_view gm"
  "guess_view (show_time ms secs gm) = guess_view gm"
  "guess_view (start_sfx so gm) = guess_view gm"
  "guess_view (persist_result so gm) = guess_view gm"
  "guess_view (new_round_guess so gm) = guess_view gm"
  "guess_view (sync_clock so now gm) = guess_view gm"
  "guess_view (syncGameStartSfx prev so gm) = guess_view gm"
  "guess_view (syncSelfGuess so uid gm) = guess_view gm"
  "guess_view (syncPressureTimerCap so gm) = guess_view gm"
  by (auto simp: stopRoundCountdown_def set_display_hp_def show_time_def start_sfx_def persist_result_def
      new_round_guess_def sync_clock_def syncGameStartSfx_def syncSelfGuess_def syncPressureTimerCap_def
      Let_def split: option.splits)

lemma gv_sync2 [simp]:
  "guess_view (syncCountdownLoopSnapshot so gm) = guess_view gm"
  "guess_view (syncRoundTimer so gm) = guess_view gm"
  "guess_view (syncDisplayHP cfg uid so gm) = guess_view gm"
  "guess_view (schedule_result a gm) = guess_view gm"
  "guess_view (syncRecoveredEndedMatch uid so gm) = guess_view gm"
  "guess_view (syncOpponentFinalized prev so uid gm) = guess_view gm"
  by (auto simp: syncCountdownLoopSnapshot_def syncRoundTimer_def syncDisplayHP_def schedule_result_def
      syncRecoveredEndedMatch_def syncOpponentFinalized_def Let_def split: option.splits)

lemma gv_animation [simp]: "guess_view (syncResultAnimation cfg uid so gm) = guess_view gm"
  by (simp add: syncResultAnimation_def Let_def split: option.split prod.split)

text \<open>Every guess key has been played once, and no other guess sound has been.\<close>

definition guess_ok :: "game_ctl \<Rightarrow> bool" where
  "guess_ok gm \<longleftrightarrow> distinct (gm_guessSfxKeys gm) \<and> guess_sounds gm = length (gm_guessSfxKeys gm)"

lemma guess_ok_view: "guess_view gm' = guess_view gm \<Longrightarrow> guess_ok gm \<Longrightarrow> guess_ok gm'"
  by (simp add: guess_ok_def guess_view_def)

lemma guess_ok_play: "guess_ok gm \<Longrightarrow> guess_ok (playGuessSfx m r i gm)"
  by (auto simp: guess_ok_def playGuessSfx_def guess_sounds_def gm_log_def Let_def)

lemma guess_ok_plays: "guess_ok gm \<Longrightarrow> guess_ok (fold (\<lambda>p. playGuessSfx m r (fst p)) ps gm)"
  by (induction ps arbitrary: gm) (simp_all add: guess_ok_play)

lemma guess_ok_sync: "guess_ok gm \<Longrightarrow> guess_ok (syncGuessSfx uid prev next gm)"
  by (auto simp: syncGuessSfx_def Let_def guess_ok_play guess_ok_plays split: option.split)

lemma guess_ok_change: "guess_ok gm \<Longrightarrow> guess_ok (handleMatchChange cfg uid now so gm)"
proof -
  assume h: "guess_ok gm"
  let ?g = "syncGameStartSfx (gm_prevSnapshot gm) so
     (sync_clock so now (new_round_guess so (persist_result so (start_sfx so gm))))"
  have "guess_ok ?g" by (rule guess_ok_view [OF _ h]) simp
  then have "guess_ok (syncGuessSfx uid (gm_prevSnapshot gm) so ?g)" by (rule guess_ok_sync)
  then show ?thesis by (rule guess_ok_view [rotated]) (simp add: handleMatchChange_def Let_def)
qed

text \<open>
  Where a controller stands with the player's guess: the guess shown, whether it was submitted, and
  the round both belong to. A notification changes it by \<open>sync_guess\<close> and by nothing else: a new round
  clears it, and while a round is live the server's own guess and verdict are taken over.
\<close>

definition guess_of :: "game_ctl \<Rightarrow> (real \<times> real) option \<times> bool \<times> string" where
  "guess_of gm = (g_guess (gm_state gm), g_guessSubmitted (gm_state gm), gm_prevRoundId gm)"

definition own_guess :: "string \<Rightarrow> snapshot \<Rightarrow> (real \<times> real) option" where
  "own_guess uid sn =
     (case sn_self sn of None \<Rightarrow> None | Some sf \<Rightarrow> if sf_userId sf = uid then sf_currentGuess sf else None)"

definition own_final :: "string \<Rightarrow> snapshot \<Rightarrow> bool" where
  "own_final uid sn = (case map_of (sn_players sn) uid of None \<Rightarrow> False | Some p \<Rightarrow> pl_finalized p)"

definition take_over ::
  "string \<Rightarrow> snapshot option \<Rightarrow> (real \<times> real) option \<times> bool \<times> string \<Rightarrow> (real \<times> real) option \<times> bool \<times> string" where
  "take_over uid so v =
     (case so of
        None \<Rightarrow> v
      | Some sn \<Rightarrow>
          if round_live sn
          then (if own_guess uid sn = None then fst v else own_guess uid sn, own_final uid sn \<or> fst (snd v), snd (snd v))
          else v)"

definition sync_guess ::
  "string \<Rightarrow> snapshot option \<Rightarrow> (real \<times> real) option \<times> bool \<times> string \<Rightarrow> (real \<times> real) option \<times> bool \<times> string" where
  "sync_guess uid so v =
     (let rid = (case so of None \<Rightarrow> [] | Some sn \<Rightarrow> round_id_of sn)
      in take_over uid so (if rid = snd (snd v) then v else (None, False, rid)))"

lemma sync_guess_idem: "sync_guess uid so (sync_guess uid so v) = sync_guess uid so v"
  by (auto simp: sync_guess_def take_over_def Let_def split: option.split)

lemma go_patch [simp]:
  "guess_of (gm_patchState f gm) = (g_guess (f (gm_state gm)), g_guessSubmitted (f (gm_state gm)), gm_prevRoundId gm)"
  by (simp add: guess_of_def ctl_defs Let_def)

lemma go_fields [simp]:
  "guess_of (gm_log x gm) = guess_of gm"
  "guess_of (gm\<lparr>gm_prevSnapshot := a\<rparr>) = guess_of gm"
  "guess_of (gm\<lparr>gm_prevSeq := n\<rparr>) = guess_of gm"
  "guess_of (gm\<lparr>gm_resultAnimRound := b\<rparr>) = guess_of gm"
  "guess_of (gm\<lparr>gm_roundTimerSyncKey := b\<rparr>) = guess_of gm"
  "guess_of (gm\<lparr>gm_animTimers := ts\<rparr>) = guess_of gm"
  "guess_of (gm\<lparr>gm_clock := ck\<rparr>) = guess_of gm"
  "guess_of (gm\<lparr>gm_hpTransitionTimer := h\<rparr>) = guess_of gm"
  "guess_of (gm\<lparr>gm_opponentGuessTimer := t\<rparr>) = guess_of gm"
  "guess_of (gm\<lparr>gm_introCountdownSfxKey := b\<rparr>) = guess_of gm"
  "guess_of (gm\<lparr>gm_roundCountdownSfxKey := b\<rparr>) = guess_of gm"
  "guess_of (gm\<lparr>gm_gameStartSfxKey := b\<rparr>) = guess_of gm"
  "guess_of (gm\<lparr>gm_guessSfxKeys := ks\<rparr>) = guess_of gm"
  "guess_of (gm\<lparr>gm_resultExitSfxKeys := ks\<rparr>) = guess_of gm"
  "guess_of (gm\<lparr>gm_destroyed := t\<rparr>) = guess_of gm"
  "guess_of (gm\<lparr>gm_started := t\<rparr>) = guess_of gm"
  by (simp_all add: guess_of_def gm_log_def)

lemma go_triple: "(g_guess (gm_state gm), g_guessSubmitted (gm_state gm), gm_prevRoundId gm) = guess_of gm"
  by (simp add: guess_of_def)

lemma go_sounds [simp]:
  "guess_of (stopRoundCountdown gm) = guess_of gm"
  "guess_of (playGuessSfx m r i gm) = guess_of gm"
  "guess_of (playResultExitSfx k gm) = guess_of gm"
  "guess_of (syncIntroCountdownSfx sn secs gm) = guess_of gm"
  "guess_of (syncRoundIntroExitSfx sn secs gm) = guess_of gm"
  "guess_of (syncRoundCountdown sn secs gm) = guess_of gm"
  "guess_of (start_sfx so gm) = guess_of gm"
  "guess_of (syncGameStartSfx prev so gm) = guess_of gm"
  by (auto simp: stopRoundCountdown_def playGuessSfx_def playResultExitSfx_def syncIntroCountdownSfx_def
      syncRoundIntroExitSfx_def syncRoundCountdown_def start_sfx_def syncGameStartSfx_def Let_def
      split: option.splits)

lemma go_plays [simp]: "guess_of (fold (\<lambda>p. playGuessSfx m r (fst p)) ps gm) = guess_of gm"
  by (induction ps arbitrary: gm) simp_all

lemma go_sounds2 [simp]:
  "guess_of (syncGuessSfx uid prev so gm) = guess_of gm"
  "guess_of (syncRoundSfx sn secs gm) = guess_of gm"
  "guess_of (syncCountdownLoopSnapshot so gm) = guess_of gm"
  by (auto simp: syncGuessSfx_def syncRoundSfx_def syncCountdownLoopSnapshot_def Let_def split: option.split)

lemma go_sync [simp]:
  "guess_of (set_display_hp hp gm) = guess_of gm"
  "guess_of (show_time ms secs gm) = guess_of gm"
  "guess_of (show_result ph hp2 gm) = guess_of gm"
  "guess_of (schedule_result a gm) = guess_of gm"
  "guess_of (persist_result so gm) = guess_of gm"
  "guess_of (sync_clock so now gm) = guess_of gm"
  "guess_of (syncPressureTimerCap so gm) = guess_of gm"
  by (auto simp: set_display_hp_def show_time_def show_result_def schedule_result_def persist_result_def
      sync_clock_def syncPressureTimerCap_def go_triple Let_def split: option.splits)

lemma go_sync2 [simp]:
  "guess_of (syncRoundTimer so gm) = guess_of gm"
  "guess_of (syncDisplayHP cfg uid so gm) = guess_of gm"
  "guess_of (syncRecoveredEndedMatch uid so gm) = guess_of gm"
  "guess_of (syncOpponentFinalized prev so uid gm) = guess_of gm"
  by (auto simp: syncRoundTimer_def syncDisplayHP_def syncRecoveredEndedMatch_def syncOpponentFinalized_def
      go_triple Let_def split: option.splits)

lemma go_animation [simp]: "guess_of (syncResultAnimation cfg uid so gm) = guess_of gm"
  by (simp add: syncResultAnimation_def Let_def go_triple split: option.split prod.split)

lemma go_self: "guess_of (syncSelfGuess so uid gm) = take_over uid so (guess_of gm)"
  by (auto simp: syncSelfGuess_def take_over_def own_guess_def own_final_def Let_def guess_of_def split: option.split)

lemma go_round:
  "guess_of (new_round_guess so gm) =
     (let rid = (case so of None \<Rightarrow> [] | Some sn \<Rightarrow> round_id_of sn)
      in if rid = snd (snd (guess_of gm)) then guess_of gm else (None, False, rid))"
  by (simp add: new_round_guess_def guess_of_def ctl_defs Let_def)

lemma go_change: "guess_of (handleMatchChange cfg uid now so gm) = sync_guess uid so (guess_of gm)"
  by (simp add: handleMatchChange_def Let_def go_self go_round sync_guess_def)

lemma go_timers [simp]:
  "guess_of (clearTimers gm) = guess_of gm"
  "guess_of (gm_destroy gm) = guess_of gm"
  "guess_of (game_frame ts now gm) = guess_of gm"
  "guess_of (hp_timer_fires gm) = guess_of gm"
  "guess_of (alert_timer_fires gm) = guess_of gm"
  "guess_of (setShowMatchEndPage so v gm) = guess_of gm"
  by (simp_all add: clearTimers_def gm_destroy_def game_frame_def hp_timer_fires_def alert_timer_fires_def
      setShowMatchEndPage_def go_triple Let_def split: option.split prod.split)

lemma go_anim [simp]: "guess_of (anim_fire gm) = guess_of gm"
  by (simp add: anim_fire_def Let_def go_triple split: list.split anim_call.split)

lemma go_start: "guess_of (gm_start cfg uid now so gm) \<in> {guess_of gm, sync_guess uid so (guess_of gm)}"
  by (simp add: gm_start_def go_change)

lemma go_follow:
  assumes "\<forall>st\<in>set (emitted_states mc mc'). m_snapshot st = so"
  shows "guess_of (follow cfg uid amb mc mc' gm) \<in> {guess_of gm, sync_guess uid so (guess_of gm)}"
proof -
  have "\<forall>st\<in>set sts. m_snapshot st = so \<Longrightarrow>
      guess_of (fold (\<lambda>st. handleMatchChange cfg uid now (m_snapshot st)) sts gm) \<in>
        {guess_of gm, sync_guess uid so (guess_of gm)}" for sts now
  proof (induction sts arbitrary: gm)
    case (Cons st sts)
    from Cons.IH [of "handleMatchChange cfg uid now so gm"] Cons.prems show ?case
      by (simp add: go_change sync_guess_idem)
  qed simp
  from this [OF assms] show ?thesis by (simp add: follow_def)
qed

text \<open>Sending a command shows the snapshot it found, and shows no other on the way.\<close>

lemma send_snapshot:
  assumes "(b, mc') = sendGameCommand cfg amb k p (command_options cfg) mc"
  shows "m_snapshot (mc_state mc') = m_snapshot (mc_state mc)"
    and "\<forall>st\<in>set (emitted_states mc mc'). m_snapshot st = m_snapshot (mc_state mc)"
  using assms
  by (auto simp: sendGameCommand_def markConnectionUnhealthy_def close_socket_def command_options_def
      mc_patchState_def mc_log_def emitted_states_def Let_def split: if_splits)

lemma issue_snapshot:
  "m_snapshot (mc_state (setConnectionIssue v mc)) = m_snapshot (mc_state mc)"
  "\<forall>st\<in>set (emitted_states mc (setConnectionIssue v mc)). m_snapshot st = m_snapshot (mc_state mc)"
  by (auto simp: setConnectionIssue_def mc_patchState_def mc_log_def emitted_states_def Let_def)

lemma issue_open_iff: "fst (issue_command cfg uid amb k p s) = isOpen (mc_socket (snd s))"
  by (cases s) (simp add: issue_command_def sendGameCommand_def gs_send_open Let_def split: prod.split)

lemma issue_guess:
  "m_snapshot (mc_state (snd (snd (issue_command cfg uid amb k p s)))) = m_snapshot (mc_state (snd s))"
  "guess_of (fst (snd (issue_command cfg uid amb k p s))) \<in>
     {guess_of (fst s), sync_guess uid (m_snapshot (mc_state (snd s))) (guess_of (fst s))}"
proof -
  obtain gm mc where s: "s = (gm, mc)" by force
  obtain b mc1 where r: "sendGameCommand cfg amb k p (command_options cfg) mc = (b, mc1)" by force
  note one = send_snapshot [OF r [symmetric]]
  note two = issue_snapshot [where v = "[]" and mc = mc1, unfolded one(1)]
  let ?g1 = "follow cfg uid amb mc mc1 gm"
  have "guess_of ?g1 \<in> {guess_of gm, sync_guess uid (m_snapshot (mc_state mc)) (guess_of gm)}"
    by (rule go_follow [OF one(2)])
  moreover have "guess_of (follow cfg uid amb mc1 (setConnectionIssue [] mc1) ?g1) \<in>
      {guess_of ?g1, sync_guess uid (m_snapshot (mc_state mc)) (guess_of ?g1)}"
    by (rule go_follow [OF two(2)])
  ultimately show "guess_of (fst (snd (issue_command cfg uid amb k p s))) \<in>
     {guess_of (fst s), sync_guess uid (m_snapshot (mc_state (snd s))) (guess_of (fst s))}"
    by (auto simp: issue_command_def s r Let_def sync_guess_idem)
  show "m_snapshot (mc_state (snd (snd (issue_command cfg uid amb k p s)))) = m_snapshot (mc_state (snd s))"
    by (simp add: issue_command_def s r Let_def one(1) two(1))
qed

lemma issue_sent:
  "gk_sent (mc_socket (snd (snd (issue_command cfg uid amb k p s)))) =
     gk_sent (mc_socket (snd s)) @
       (if fst (issue_command cfg uid amb k p s)
        then [(the (gk_current (mc_socket (snd s))),
               \<lparr>gc_commandId =
                  or_str (or_str (session_user (mc_activeSession (snd s))) (session_user (am_session amb))) ''anon''
                    @ ''-'' @ int_str (am_now amb) @ ''-'' @ nat_str (am_rnd amb),
                gc_type = k, gc_payload = p, gc_sentAt = am_now amb\<rparr>)]
        else [])"
proof (cases "isOpen (mc_socket (snd s))")
  case True
  then show ?thesis
    by (auto simp: issue_command_def sendGameCommand_def gs_send_def isOpen_def setConnectionIssue_def
        mc_patchState_def mc_log_def Let_def split: prod.split option.split_asm)
next
  case False
  then show ?thesis
    by (auto simp: issue_command_def sendGameCommand_def markConnectionUnhealthy_def close_socket_def
        command_options_def mc_patchState_def mc_log_def Let_def split: prod.split)
qed

definition guess_payload :: "string \<Rightarrow> snapshot \<Rightarrow> current_round \<Rightarrow> real \<Rightarrow> real \<Rightarrow> jv" where
  "guess_payload uid sn r lat lng =
     Obj [(''userId'', Str uid), (''matchId'', Str (sn_matchId sn)), (''roundId'', Str (cr_roundId r)),
          (''lat'', Num (Fin lat)), (''lng'', Num (Fin lng))]"

lemma placeGuess_does:
  assumes "m_snapshot (mc_state (snd s)) = Some sn" and "round_live sn"
    and "\<not> g_guessSubmitted (gm_state (fst s))" and "sn_currentRound sn = Some r"
    and "\<not> isGuessInputClosed (of_int (am_now amb)) sn (fst s)"
  defines "i \<equiv> \<lambda>cfg uid lat lng. issue_command cfg uid amb ''guess.place'' (guess_payload uid sn r lat lng) s"
  shows "snd (placeGuess cfg uid amb lat lng s) = snd (snd (i cfg uid lat lng))"
    and "fst (i cfg uid lat lng) \<Longrightarrow> g_guess (gm_state (fst (placeGuess cfg uid amb lat lng s))) = Some (lat, lng)"
    and "\<not> fst (i cfg uid lat lng) \<Longrightarrow> placeGuess cfg uid amb lat lng s = snd (i cfg uid lat lng)"
  using assms by (simp_all add: placeGuess_def guess_payload_def Let_def case_prod_beta)

lemma playGuessSfx_keeps:
  "gm_state (playGuessSfx m r i gm) = gm_state gm" "gm_prevRoundId (playGuessSfx m r i gm) = gm_prevRoundId gm"
  by (simp_all add: playGuessSfx_def gm_log_def Let_def)

lemma finalizeGuess_issues:
  assumes "m_snapshot (mc_state (snd s)) = Some sn" and "sn_phase sn = LivePhase"
    and "\<not> g_guessSubmitted (gm_state (fst s))" and "sn_currentRound sn = Some r"
    and "g_guess (gm_state (fst s)) = Some (lat, lng)"
  shows "snd (finalizeGuess cfg uid amb s) =
     snd (snd (issue_command cfg uid amb ''guess.finalize'' (guess_payload uid sn r lat lng) s))"
    and "fst (issue_command cfg uid amb ''guess.finalize'' (guess_payload uid sn r lat lng) s) \<Longrightarrow>
     guess_of (fst (finalizeGuess cfg uid amb s)) =
       (let v = guess_of (fst (snd (issue_command cfg uid amb ''guess.finalize'' (guess_payload uid sn r lat lng) s)))
        in (fst v, True, snd (snd v)))"
  using assms by (simp_all add: finalizeGuess_def guess_payload_def playGuessSfx_keeps Let_def case_prod_beta guess_of_def)

lemma anim_fire_first:
  assumes "gm_animTimers gm = ((d, c), a) # rest" and "sorted (map (\<lambda>x. fst (fst x)) (gm_animTimers gm))"
  shows "gm_animTimers (anim_fire gm) = rest" and "gm_resultAnimRound (anim_fire gm) = gm_resultAnimRound gm"
    and "g_resultPhase (gm_state (anim_fire gm)) = call_phase c"
    and "g_resultShownHP (gm_state (anim_fire gm)) =
           (if c = AnimHpApply then an_hp a else g_resultShownHP (gm_state gm))"
  unfolding anim_fire_def sort_key_id_if_sorted [OF assms(2)]
  by (simp_all add: assms(1) show_result_def gm_log_def Let_def split: anim_call.split)

text \<open>The five timers of one result, each state of the animation after the other.\<close>

lemma anim_runs:
  assumes "gm_animTimers gm = map (\<lambda>t. (t, a)) anim_timers" and "g_resultPhase (gm_state gm) = PhBase"
  defines "after \<equiv> \<lambda>k. (anim_fire ^^ k) gm"
  shows "k \<le> 5 \<Longrightarrow> gm_animTimers (after k) = map (\<lambda>t. (t, a)) (drop k anim_timers) \<and>
     gm_resultAnimRound (after k) = gm_resultAnimRound gm \<and>
     g_resultPhase (gm_state (after k)) =
       [PhBase, PhScores, PhCrush, PhDamageTravel, PhDamageMultiplier, PhHpApply] ! k \<and>
     g_resultShownHP (gm_state (after k)) = (if k = 5 then an_hp a else g_resultShownHP (gm_state gm))"
proof (induction k)
  case (Suc k)
  let ?g = "after k"
  have k: "k < length anim_timers" using Suc.prems by (simp add: anim_timers_def)
  have t: "gm_animTimers ?g = map (\<lambda>t. (t, a)) (drop k anim_timers)" using Suc by simp
  moreover have "map (\<lambda>t. (t, a)) (drop k anim_timers) =
      (anim_timers ! k, a) # map (\<lambda>t. (t, a)) (drop (Suc k) anim_timers)"
    using k by (simp add: Cons_nth_drop_Suc [symmetric])
  ultimately have c: "gm_animTimers ?g =
      ((fst (anim_timers ! k), snd (anim_timers ! k)), a) # map (\<lambda>t. (t, a)) (drop (Suc k) anim_timers)" by simp
  have "sorted (map fst (drop k anim_timers))"
    unfolding drop_map [symmetric] by (rule sorted_wrt_drop) (simp add: anim_timers_def timeline hpApplyAtMs_def)
  then have "sorted (map (\<lambda>x. fst (fst x)) (gm_animTimers ?g))" by (simp add: t comp_def)
  note f = anim_fire_first [OF c this]
  have s: "after (Suc k) = anim_fire ?g" by (simp add: after_def)
  have "k = 0 \<or> k = 1 \<or> k = 2 \<or> k = 3 \<or> k = 4" using Suc.prems by arith
  then have "call_phase (snd (anim_timers ! k)) =
      [PhBase, PhScores, PhCrush, PhDamageTravel, PhDamageMultiplier, PhHpApply] ! Suc k"
    and "(snd (anim_timers ! k) = AnimHpApply) = (k = 4)"
    by (auto simp: anim_timers_def)
  with f s Suc show ?case by simp
qed (use assms in simp)

lemma start_hp_cleared: "getAnimatedStartHP cfg sn i hp hp' (gm\<lparr>gm_animTimers := ts\<rparr>) = getAnimatedStartHP cfg sn i hp hp' gm"
  by (simp add: getAnimatedStartHP_def cong: option.case_cong)

lemma duel_opponent:
  assumes "set xs = {uid, opp}" and "opp \<noteq> uid"
  shows "find_str (\<lambda>i. i \<noteq> uid) xs = opp"
proof -
  have "opp \<in> set xs" by (simp add: assms(1))
  with assms(2) have "find (\<lambda>i. i \<noteq> uid) xs \<noteq> None" by (auto simp: find_None_iff)
  then obtain x where x: "find (\<lambda>i. i \<noteq> uid) xs = Some x" by blast
  then have "x \<in> set xs" "x \<noteq> uid" by (auto simp: find_Some_iff)
  with x assms(1) show ?thesis by (simp add: find_str_def)
qed

text \<open>
  What a command of the player comes to: on an open socket exactly it is sent and no connection
  issue is left; otherwise nothing is sent, and the match shows that the connection is gone.
\<close>

definition command_issued :: "runtime_config \<Rightarrow> string \<Rightarrow> jv \<Rightarrow> match_ctl \<Rightarrow> match_ctl \<Rightarrow> bool" where
  "command_issued cfg kind payload mc mc' \<longleftrightarrow>
     (if isOpen (mc_socket mc)
      then m_connectionIssue (mc_state mc') = [] \<and>
           (\<exists>i cmd. gk_sent (mc_socket mc') = gk_sent (mc_socket mc) @ [(i, cmd)] \<and>
              gc_type cmd = kind \<and> gc_payload cmd = payload)
      else gk_sent (mc_socket mc') = gk_sent (mc_socket mc) \<and> \<not> m_connected (mc_state mc') \<and>
           m_connectionIssue (mc_state mc') = gameConnectionErrorMessage cfg)"

lemma issue_issued: "command_issued cfg k p (snd s) (snd (snd (issue_command cfg uid amb k p s)))"
proof (cases "isOpen (mc_socket (snd s))")
  case True
  have "m_connectionIssue (mc_state (snd (snd (issue_command cfg uid amb k p s)))) = []"
    using issue_open_iff [of cfg uid amb k p s] True
    by (auto simp: issue_command_def setConnectionIssue_def mc_patchState_def mc_log_def Let_def split: prod.splits)
  with True issue_sent [of cfg uid amb k p s] show ?thesis by (simp add: command_issued_def issue_open_iff)
next
  case False
  have "\<not> m_connected (mc_state (snd (snd (issue_command cfg uid amb k p s)))) \<and>
      m_connectionIssue (mc_state (snd (snd (issue_command cfg uid amb k p s)))) = gameConnectionErrorMessage cfg"
    using False
    by (auto simp: issue_command_def sendGameCommand_def command_options_def markConnectionUnhealthy_def
        close_socket_def mc_patchState_def mc_log_def Let_def split: prod.split)
  with False issue_sent [of cfg uid amb k p s] show ?thesis by (simp add: command_issued_def issue_open_iff)
qed

section \<open>Properties\<close>

text \<open>
  C3. A guess is placed only while it may be: whatever \<open>placeGuess\<close> does - store the guess, send it,
  or disturb the connection - it does with the round live, the guess not submitted and, with a running
  deadline outside single player, at least 500 ms of server time left; otherwise nothing at all
  changes. On an open socket it then sends exactly one \<open>guess.place\<close> for the match and the round on
  screen, with the coordinates clicked, and stores these as the guess. On a closed one it sends
  nothing and stores nothing of the click: the guess is what it was, or what a notification of the
  match's own snapshot makes it.
\<close>

theorem guess_only_while_open:
  fixes cfg uid amb lat lng s
  defines "s' \<equiv> placeGuess cfg uid amb lat lng s"
  assumes "s' \<noteq> s"
  shows "\<exists>sn r. m_snapshot (mc_state (snd s)) = Some sn \<and> sn_currentRound sn = Some r \<and> round_live sn \<and>
     \<not> g_guessSubmitted (gm_state (fst s)) \<and>
     (sn_mode sn \<noteq> Some Singleplayer \<and> \<not> timer_idle sn \<and> 0 < sn_phaseEndsAt sn \<longrightarrow>
        GUESS_INPUT_CUTOFF_MS \<le> of_int (sn_phaseEndsAt sn) - (of_int (am_now amb) + ck_offset (gm_clock (fst s)))) \<and>
     (if isOpen (mc_socket (snd s))
      then g_guess (gm_state (fst s')) = Some (lat, lng) \<and>
           (\<exists>i cmd. gk_sent (mc_socket (snd s')) = gk_sent (mc_socket (snd s)) @ [(i, cmd)] \<and>
              gc_type cmd = ''guess.place'' \<and> gc_payload cmd = guess_payload uid sn r lat lng)
      else gk_sent (mc_socket (snd s')) = gk_sent (mc_socket (snd s)) \<and>
           guess_of (fst s') \<in> {guess_of (fst s), sync_guess uid (Some sn) (guess_of (fst s))})"
proof -
  obtain sn where sn: "m_snapshot (mc_state (snd s)) = Some sn"
    using assms(2) by (auto simp: s'_def placeGuess_def split: option.splits)
  have live: "round_live sn" "\<not> g_guessSubmitted (gm_state (fst s))"
    using assms(2) sn by (auto simp: s'_def placeGuess_def split: if_splits)
  obtain r where r: "sn_currentRound sn = Some r"
    using assms(2) sn by (auto simp: s'_def placeGuess_def split: option.splits if_splits)
  have open_: "\<not> isGuessInputClosed (of_int (am_now amb)) sn (fst s)"
    using assms(2) sn r live by (auto simp: s'_def placeGuess_def)
  let ?i = "issue_command cfg uid amb ''guess.place'' (guess_payload uid sn r lat lng) s"
  note place = placeGuess_does [OF sn live r open_, of cfg uid lat lng, folded s'_def]
  have deadline: "GUESS_INPUT_CUTOFF_MS \<le> of_int (sn_phaseEndsAt sn) - (of_int (am_now amb) + ck_offset (gm_clock (fst s)))"
    if "sn_mode sn \<noteq> Some Singleplayer" and "\<not> timer_idle sn" and "0 < sn_phaseEndsAt sn"
    using open_ that live(1)
    by (auto simp: isGuessInputClosed_def getAuthoritativeRoundMSLeft_def round_live_def GUESS_INPUT_CUTOFF_MS_def)
  show ?thesis
  proof (cases "isOpen (mc_socket (snd s))")
    case True
    then have "fst ?i" by (simp add: issue_open_iff)
    with place issue_sent [of cfg uid amb "''guess.place''" "guess_payload uid sn r lat lng" s] True sn r live deadline
    show ?thesis by fastforce
  next
    case False
    then have "\<not> fst ?i" by (simp add: issue_open_iff)
    with place issue_sent [of cfg uid amb "''guess.place''" "guess_payload uid sn r lat lng" s]
      issue_guess(2) [of cfg uid amb "''guess.place''" "guess_payload uid sn r lat lng" s]
    have "gk_sent (mc_socket (snd s')) = gk_sent (mc_socket (snd s))"
      and "guess_of (fst s') \<in> {guess_of (fst s), sync_guess uid (Some sn) (guess_of (fst s))}"
      by (simp_all add: sn)
    with False sn r live deadline show ?thesis by fastforce
  qed
qed

text \<open>A live round on an open socket, and a minute to go.\<close>

definition playing :: "game_ctl \<times> match_ctl" where
  "playing =
     (new_game_ctl,
      new_match_ctl
        \<lparr>mc_state := initial_match_state\<lparr>m_snapshot := Some sample_snapshot\<rparr>,
         mc_socket := \<lparr>gk_current = Some 0,
           gk_sockets = [\<lparr>mk_url = ''wss://n'', mk_state = SOpen, mk_expectedClose = False\<rparr>], gk_sent = []\<rparr>\<rparr>)"

definition playing_ambient :: ambient where
  "playing_ambient = \<lparr>am_now = 1000, am_rnd = 7, am_session = None\<rparr>"

definition game_config :: runtime_config where
  "game_config = createRuntimeConfig (\<lambda>_. None) []"

lemma playing_facts:
  "m_snapshot (mc_state (snd playing)) = Some sample_snapshot" "isOpen (mc_socket (snd playing))"
  "g_guessSubmitted (gm_state (fst playing)) = False" "gm_started (fst playing) = False"
  "ck_offset (gm_clock (fst playing)) = 0" "g_guess (gm_state (fst playing)) = None" "gk_sent (mc_socket (snd playing)) = []"
  by (simp_all add: playing_def isOpen_def ready_of_def new_game_ctl_def initial_game_state_def new_round_clock_def)

lemma sample_facts:
  "round_live sample_snapshot" "sn_currentRound sample_snapshot = Some (sample_round ''r1'')"
  "sn_phaseEndsAt sample_snapshot = 50000" "sn_phase sample_snapshot = LivePhase"
  "\<not> timer_idle sample_snapshot" "sn_mode sample_snapshot = Some Duel"
  by (simp_all add: sample_snapshot_def round_live_def timer_idle_def sample_round_def)

lemma placed_now: "placeGuess game_config ''u1'' playing_ambient 1 2 playing \<noteq> playing"
proof -
  have "\<not> isGuessInputClosed (of_int (am_now playing_ambient)) sample_snapshot (fst playing)"
    by (simp add: isGuessInputClosed_def getAuthoritativeRoundMSLeft_def sample_facts playing_facts
        playing_ambient_def GUESS_INPUT_CUTOFF_MS_def)
  from placeGuess_does(2) [OF playing_facts(1) sample_facts(1) _ sample_facts(2) this]
  have "g_guess (gm_state (fst (placeGuess game_config ''u1'' playing_ambient 1 2 playing))) = Some (1, 2)"
    by (simp add: playing_facts issue_open_iff)
  then show ?thesis by (auto simp: playing_facts)
qed

theorem guess_only_while_open_witness:
  "round_live sample_snapshot \<and> isOpen (mc_socket (snd playing)) \<and>
   g_guess (gm_state (fst (placeGuess game_config ''u1'' playing_ambient 1 2 playing))) = Some (1, 2) \<and>
   length (gk_sent (mc_socket (snd (placeGuess game_config ''u1'' playing_ambient 1 2 playing)))) = 1"
  using guess_only_while_open [OF placed_now] by (auto simp: playing_facts)

text \<open>
  What a finalized guess of the round \<open>rid\<close> leaves behind: the match shows that round, the
  controller follows it and holds the guess for submitted.
\<close>

definition guess_final :: "string \<Rightarrow> string \<Rightarrow> ((real \<times> real) option \<Rightarrow> bool) \<Rightarrow> game_ctl \<times> match_ctl \<Rightarrow> bool" where
  "guess_final uid rid G s \<longleftrightarrow>
     (\<exists>sn. m_snapshot (mc_state (snd s)) = Some sn \<and> round_id_of sn = rid \<and>
        (own_guess uid sn \<noteq> None \<longrightarrow> G (own_guess uid sn))) \<and>
     gm_prevRoundId (fst s) = rid \<and> g_guessSubmitted (gm_state (fst s)) \<and> G (g_guess (gm_state (fst s)))"

lemma guess_final_of:
  "guess_final uid rid G s \<longleftrightarrow>
     (\<exists>sn. m_snapshot (mc_state (snd s)) = Some sn \<and> round_id_of sn = rid \<and>
        (own_guess uid sn \<noteq> None \<longrightarrow> G (own_guess uid sn))) \<and>
     (\<exists>g. guess_of (fst s) = (g, True, rid) \<and> G g)"
  by (auto simp: guess_final_def guess_of_def)

lemma sync_kept:
  "round_id_of sn = rid \<Longrightarrow> own_guess uid sn \<noteq> None \<longrightarrow> G (own_guess uid sn) \<Longrightarrow> G g \<Longrightarrow>
     \<exists>g' f'. sync_guess uid (Some sn) (g, f, rid) = (g', f', rid) \<and> G g' \<and> (f \<longrightarrow> f')"
  by (auto simp: sync_guess_def take_over_def)

lemma sync_final:
  "round_id_of sn = rid \<Longrightarrow> own_guess uid sn \<noteq> None \<longrightarrow> G (own_guess uid sn) \<Longrightarrow> G g \<Longrightarrow>
     \<exists>g'. sync_guess uid (Some sn) (g, True, rid) = (g', True, rid) \<and> G g'"
  by (drule (2) sync_kept [where f = True]) auto

lemma guess_final_id: "guess_final uid rid G s \<Longrightarrow> guess_of gm = guess_of (fst s) \<Longrightarrow> guess_final uid rid G (gm, snd s)"
  by (simp add: guess_final_of)

lemma guess_final_sync:
  assumes "guess_final uid rid G s"
    and "guess_of (fst s') \<in> {guess_of (fst s), sync_guess uid (m_snapshot (mc_state (snd s))) (guess_of (fst s))}"
    and "m_snapshot (mc_state (snd s')) = m_snapshot (mc_state (snd s))"
  shows "guess_final uid rid G s'"
  using assms sync_final [of _ rid uid G] by (auto simp: guess_final_of)

lemma guess_final_issue:
  "guess_final uid rid G s \<Longrightarrow> guess_final uid rid G (snd (issue_command cfg uid amb k p s))"
  by (erule guess_final_sync) (use issue_guess [of cfg uid amb k p s] in auto)

lemma guess_final_closed:
  assumes "guess_final uid rid G s"
  shows "finalizeGuess cfg uid amb s = s" and "placeGuess cfg uid amb lat lng s = s"
  using assms by (auto simp: guess_final_def finalizeGuess_def placeGuess_def split: option.split)

lemma guess_final_step:
  assumes s: "guess_final uid rid G s"
    and e: "\<forall>so\<in>set (notified_snapshots [e]). \<exists>sn. so = Some sn \<and> round_id_of sn = rid \<and>
      (own_guess uid sn \<noteq> None \<longrightarrow> G (own_guess uid sn))"
  shows "guess_final uid rid G (game_event_step cfg uid e s)"
proof (cases e)
  case (GStart now)
  have "guess_final uid rid G (gm_start cfg uid now (m_snapshot (mc_state (snd s))) (fst s), snd s)"
    by (rule guess_final_sync [OF s]) (use go_start in simp_all)
  with GStart show ?thesis by simp
next
  case (GNotified now mc)
  obtain sn where sn: "m_snapshot (mc_state mc) = Some sn" "round_id_of sn = rid"
    "own_guess uid sn \<noteq> None \<longrightarrow> G (own_guess uid sn)"
    using e by (auto simp: notified_snapshots_def GNotified)
  obtain g where g: "guess_of (fst s) = (g, True, rid)" "G g" using s by (auto simp: guess_final_of)
  show ?thesis using sync_final [OF sn(2,3) g(2)] sn g
    by (auto simp: GNotified guess_final_of go_change)
qed (use s in \<open>auto simp: guess_final_closed advanceRound_def forfeitMatch_def guess_final_id
      intro: guess_final_issue split: option.split\<close>)

lemma guess_final_run:
  assumes "guess_final uid rid G s"
    and "\<forall>so\<in>set (notified_snapshots es). \<exists>sn. so = Some sn \<and> round_id_of sn = rid \<and>
      (own_guess uid sn \<noteq> None \<longrightarrow> G (own_guess uid sn))"
  shows "guess_final uid rid G (fold (game_event_step cfg uid) es s)"
  using assms
proof (induction es arbitrary: s)
  case (Cons e es)
  have n: "notified_snapshots (e # es) = notified_snapshots [e] @ notified_snapshots es"
    by (simp add: notified_snapshots_def)
  have "guess_final uid rid G (game_event_step cfg uid e s)"
    by (rule guess_final_step [OF Cons.prems(1)]) (use Cons.prems(2) n in auto)
  from Cons.IH [OF this] Cons.prems(2) n show ?case by auto
qed simp

text \<open>
  C4. A guess is final. Once \<open>finalizeGuess\<close> has sent anything, it has sent exactly one
  \<open>guess.finalize\<close> with the guess on screen; and from then on, for as long as the match controller
  notifies snapshots of that round - whatever else they show, however often they come, with whatever
  the player clicks and the timers do in between, and across stopping and starting the controller -
  the guess stays submitted, finalizing again and moving the guess change nothing and send nothing,
  and the guess shown is the one finalized or the one the server itself reports for the player.
\<close>

theorem finalized_guess_is_final:
  fixes cfg uid amb s es
  assumes sent: "gk_sent (mc_socket (snd (finalizeGuess cfg uid amb s))) \<noteq> gk_sent (mc_socket (snd s))"
    and sn: "m_snapshot (mc_state (snd s)) = Some sn" "gm_prevRoundId (fst s) = round_id_of sn"
    and es: "\<forall>so\<in>set (notified_snapshots es). \<exists>sn'. so = Some sn' \<and> round_id_of sn' = round_id_of sn"
  defines "s' \<equiv> finalizeGuess cfg uid amb s"
    and "t \<equiv> fold (game_event_step cfg uid) es (finalizeGuess cfg uid amb s)"
  shows "(\<exists>lat lng r i cmd. g_guess (gm_state (fst s)) = Some (lat, lng) \<and> sn_currentRound sn = Some r \<and>
           gk_sent (mc_socket (snd s')) = gk_sent (mc_socket (snd s)) @ [(i, cmd)] \<and>
           gc_type cmd = ''guess.finalize'' \<and> gc_payload cmd = guess_payload uid sn r lat lng) \<and>
         g_guessSubmitted (gm_state (fst t)) \<and>
         (\<forall>amb' lat lng. finalizeGuess cfg uid amb' t = t \<and> placeGuess cfg uid amb' lat lng t = t) \<and>
         (g_guess (gm_state (fst t)) = g_guess (gm_state (fst s)) \<or>
          (\<exists>sn'. Some sn' \<in> set (Some sn # notified_snapshots es) \<and> own_guess uid sn' \<noteq> None \<and>
             g_guess (gm_state (fst t)) = own_guess uid sn'))"
proof -
  obtain lat lng r where c: "g_guess (gm_state (fst s)) = Some (lat, lng)" "sn_currentRound sn = Some r"
    "sn_phase sn = LivePhase" "\<not> g_guessSubmitted (gm_state (fst s))"
    using sent sn(1) by (auto simp: finalizeGuess_def split: option.splits if_splits)
  let ?i = "issue_command cfg uid amb ''guess.finalize'' (guess_payload uid sn r lat lng) s"
  let ?G = "\<lambda>g. g = g_guess (gm_state (fst s)) \<or>
    (\<exists>sn'. Some sn' \<in> set (Some sn # notified_snapshots es) \<and> own_guess uid sn' \<noteq> None \<and> g = own_guess uid sn')"
  note i = finalizeGuess_issues [OF sn(1) c(3,4,2,1), of cfg uid amb, folded s'_def, unfolded Let_def]
  have ok: "fst ?i" using sent issue_sent [of cfg uid amb "''guess.finalize''" "guess_payload uid sn r lat lng" s] i(1)
    by (auto simp: s'_def split: if_splits)
  have v: "guess_of (fst s) = (Some (lat, lng), False, round_id_of sn)" using sn(2) c(1,4) by (simp add: guess_of_def)
  have "\<exists>g b. guess_of (fst (snd ?i)) = (g, b, round_id_of sn) \<and> ?G g"
  proof (cases "guess_of (fst (snd ?i)) = guess_of (fst s)")
    case True
    moreover have "?G (Some (lat, lng))" using c(1) by simp
    ultimately show ?thesis unfolding v by blast
  next
    case False
    then have "guess_of (fst (snd ?i)) = sync_guess uid (Some sn) (Some (lat, lng), False, round_id_of sn)"
      using issue_guess(2) [of cfg uid amb "''guess.finalize''" "guess_payload uid sn r lat lng" s] sn(1) v by simp
    moreover have "own_guess uid sn \<noteq> None \<longrightarrow> ?G (own_guess uid sn)" by auto
    ultimately show ?thesis using sync_kept [of sn "round_id_of sn" uid ?G "Some (lat, lng)" False] c(1) by auto
  qed
  then obtain g b where g: "guess_of (fst (snd ?i)) = (g, b, round_id_of sn)" "?G g" by blast
  have "guess_of (fst s') = (g, True, round_id_of sn)" using i(2) [OF ok] g(1) by simp
  moreover have "m_snapshot (mc_state (snd s')) = Some sn" using issue_guess(1) i(1) sn(1) by simp
  ultimately have "guess_final uid (round_id_of sn) ?G s'" using g(2) by (auto simp: guess_final_of)
  then have "guess_final uid (round_id_of sn) ?G t"
    unfolding t_def s'_def by (rule guess_final_run) (use es in fastforce)
  note fin = this [unfolded guess_final_def, THEN conjunct2] guess_final_closed [OF this]
  from fin(1) fin(2,3) i(1) ok c(1,2)
    issue_sent [of cfg uid amb "''guess.finalize''" "guess_payload uid sn r lat lng" s] show ?thesis by simp
qed

text \<open>
  The player places a guess, finalizes it, and tries to move it: the screen follows the match, a
  further snapshot comes, and the first guess stands.
\<close>

definition guessed :: "game_ctl \<times> match_ctl" where
  "guessed =
     (gm_patchState (g_guess_update (\<lambda>_. Some (1, 2)))
        (gm_start game_config ''u1'' 1000 (Some sample_snapshot) new_game_ctl), snd playing)"

definition later_events :: "game_event list" where
  "later_events =
     [GPlaced playing_ambient 5 6, GNotified 2000 (snd playing), GFrame 16 2000, GFinalized playing_ambient,
      GPlaced playing_ambient 7 8]"

lemma guessed_facts:
  "m_snapshot (mc_state (snd guessed)) = Some sample_snapshot" "isOpen (mc_socket (snd guessed))"
  "gm_prevRoundId (fst guessed) = round_id_of sample_snapshot" "g_guess (gm_state (fst guessed)) = Some (1, 2)"
  "\<not> g_guessSubmitted (gm_state (fst guessed))" "own_guess ''u1'' sample_snapshot = None"
proof -
  let ?gm = "gm_start game_config ''u1'' 1000 (Some sample_snapshot) new_game_ctl"
  have "guess_of ?gm = sync_guess ''u1'' (Some sample_snapshot) (guess_of new_game_ctl)"
    using playing_facts(4) by (simp add: gm_start_def go_change playing_def)
  also have "\<dots> = (None, False, round_id_of sample_snapshot)"
    by (simp add: guess_of_def sync_guess_def take_over_def new_game_ctl_def initial_game_state_def
        own_guess_def own_final_def sample_snapshot_def round_id_of_def round_live_def sample_round_def
        sample_player_def Let_def)
  finally show "gm_prevRoundId (fst guessed) = round_id_of sample_snapshot" "g_guess (gm_state (fst guessed)) = Some (1, 2)"
    "\<not> g_guessSubmitted (gm_state (fst guessed))" by (simp_all add: guessed_def guess_of_def)
qed (simp_all add: guessed_def playing_facts own_guess_def sample_snapshot_def)

lemma finalized_now:
  "gk_sent (mc_socket (snd (finalizeGuess game_config ''u1'' playing_ambient guessed))) \<noteq> gk_sent (mc_socket (snd guessed))"
proof -
  have "snd (finalizeGuess game_config ''u1'' playing_ambient guessed) =
     snd (snd (issue_command game_config ''u1'' playing_ambient ''guess.finalize''
       (guess_payload ''u1'' sample_snapshot (sample_round ''r1'') 1 2) guessed))"
    by (rule finalizeGuess_issues) (simp_all add: guessed_facts sample_facts)
  then show ?thesis using issue_sent guessed_facts(2) by (simp add: issue_open_iff)
qed

theorem finalized_guess_is_final_witness:
  "g_guess (gm_state (fst (fold (game_event_step game_config ''u1'') later_events
     (finalizeGuess game_config ''u1'' playing_ambient guessed)))) = Some (1, 2)"
proof -
  have "\<forall>so\<in>set (notified_snapshots later_events). so = Some sample_snapshot"
    by (simp add: notified_snapshots_def later_events_def playing_facts)
  note n = this
  then have "\<forall>so\<in>set (notified_snapshots later_events). \<exists>sn'. so = Some sn' \<and> round_id_of sn' = round_id_of sample_snapshot"
    by blast
  from finalized_guess_is_final [OF finalized_now guessed_facts(1,3) this] guessed_facts(4,6) n show ?thesis
    by fastforce
qed

text \<open>
  Every guess is heard once: over any sequence of snapshots the game follows, the guess sound is
  played exactly once for every match, round and player whose guess became final, however often the
  same snapshot is delivered.
\<close>

theorem guess_heard_once:
  fixes cfg uid cs
  defines "gm \<equiv> fold (\<lambda>(now, so). handleMatchChange cfg uid now so) cs new_game_ctl"
  shows "distinct (gm_guessSfxKeys gm) \<and>
         length (filter (\<lambda>x. x = GPlay ''duel-round-guess'') (gm_out gm)) = length (gm_guessSfxKeys gm)"
proof -
  have "guess_ok new_game_ctl" by (simp add: guess_ok_def guess_sounds_def new_game_ctl_def)
  moreover have "guess_ok g \<Longrightarrow> guess_ok (fold (\<lambda>(now, so). handleMatchChange cfg uid now so) cs g)" for g
    by (induction cs arbitrary: g) (auto intro: guess_ok_change)
  ultimately show ?thesis by (simp add: gm_def guess_ok_def guess_sounds_def)
qed

text \<open>
  C8. The result animation tells a duel's round to its end. From the notification of a result not
  yet animated on, and as long as no other one cancels it, the phase shown at every moment \<open>t\<close> is the
  one of the timeline - base, the scores after 1.3 s, crush after 2 s, damage travel after 2.36 s,
  damage multiplier after 2.73 s, hit points after 3.1 s - the hit points shown are the ones the
  animation starts from until 3.1 s and each player's own hit points after the round from then on,
  and no timer is left. The same result notified again at any moment starts nothing anew.
\<close>

theorem result_animation_completes:
  fixes cfg uid opp sn gm rr me them
  assumes "sn_mode sn = Some Duel" "sn_matchId sn \<noteq> []" "result_shown sn" "sn_lastRoundResult sn = Some rr"
    and "set (map fst (sn_players sn)) = {uid, opp}" "opp \<noteq> uid"
    and "map_of (rr_players rr) uid = Some me" "map_of (rr_players rr) opp = Some them"
    and "gm_resultAnimRound gm \<noteq> rr_roundId rr"
  defines "showing \<equiv> \<lambda>t. anim_until t (syncResultAnimation cfg uid (Some sn) gm)"
    and "hpMe \<equiv> or_zero (rp_hpAfterRound me)" and "hpThem \<equiv> or_zero (rp_hpAfterRound them)"
  shows "g_resultPhase (gm_state (showing t)) =
           (if t < 1300 then PhBase else if t < 2000 then PhScores else if t < 2360 then PhCrush
            else if t < 2730 then PhDamageTravel else if t < 3100 then PhDamageMultiplier else PhHpApply) \<and>
         g_resultShownHP (gm_state (showing t)) =
           (if t < 3100
            then (getAnimatedStartHP cfg sn uid hpMe (or_zero (player_hp sn uid)) gm,
                  getAnimatedStartHP cfg sn opp hpThem (or_zero (player_hp sn opp)) gm)
            else (hpMe, hpThem)) \<and>
         (3100 \<le> t \<longrightarrow> gm_animTimers (showing t) = []) \<and>
         syncResultAnimation cfg uid (Some sn) (showing t) = showing t"
proof -
  have o: "opponent_of sn uid = opp"
    using duel_opponent [OF assms(5,6)] assms(1) by (simp add: opponent_of_def)
  let ?a = "anim_of (rp_hpAfterRound me, rp_damageTaken me) (rp_hpAfterRound them, rp_damageTaken them)"
  let ?g0 = "syncResultAnimation cfg uid (Some sn) gm"
  have pair: "result_pair sn uid rr =
      Some ((rp_hpAfterRound me, rp_damageTaken me), (rp_hpAfterRound them, rp_damageTaken them))"
    using assms(1,7,8) by (simp add: result_pair_def o player_numbers_def Let_def)
  have g0: "gm_animTimers ?g0 = map (\<lambda>t. (t, ?a)) anim_timers" "g_resultPhase (gm_state ?g0) = PhBase"
    "gm_resultAnimRound ?g0 = rr_roundId rr"
    "g_resultShownHP (gm_state ?g0) =
       (getAnimatedStartHP cfg sn uid hpMe (or_zero (player_hp sn uid)) gm,
        getAnimatedStartHP cfg sn opp hpThem (or_zero (player_hp sn opp)) gm)"
    using assms(1-4,9) pair
    by (simp_all add: syncResultAnimation_def scored_mode_def o schedule_result_def gm_log_def
        start_hp_cleared hpMe_def hpThem_def Let_def)
  define k where "k = length (filter (\<lambda>x. fst x \<le> t) anim_timers)"
  have k: "k = (if t < 1300 then 0 else if t < 2000 then 1 else if t < 2360 then 2
            else if t < 2730 then 3 else if t < 3100 then 4 else 5)"
    by (simp add: k_def anim_timers_def timeline hpApplyAtMs_def)
  have at_k: "showing t = (anim_fire ^^ k) ?g0"
    by (simp add: showing_def anim_until_def g0(1) k_def filter_map comp_def)
  have "k \<le> 5" by (simp add: k)
  note r = anim_runs [OF g0(1,2) this, folded at_k]
  have hp: "an_hp ?a = (hpMe, hpThem)" by (simp add: anim_of_def hpMe_def hpThem_def)
  have "syncResultAnimation cfg uid (Some sn) (showing t) = showing t"
    using r g0(3) assms(1-4) by (simp add: syncResultAnimation_def scored_mode_def Let_def)
  moreover have "gm_animTimers (showing t) = []" if "3100 \<le> t" using r that by (simp add: k anim_timers_def)
  ultimately show ?thesis using r by (auto simp: k hp g0(4))
qed

text \<open>A round in which the player lost 1500 hit points and the opponent none.\<close>

definition lost_player :: "string \<Rightarrow> int \<Rightarrow> int \<Rightarrow> round_player_result" where
  "lost_player i hp taken =
     \<lparr>rp_userId = i, rp_lat = 0, rp_lng = 0, rp_distanceKm = 0, rp_score = 0, rp_damageDealt = None,
      rp_damageTaken = Some taken, rp_hpAfterRound = Some hp, rp_guessUnixMs = None, rp_guessMs = None\<rparr>"

definition lost_round :: round_result where
  "lost_round =
     \<lparr>rr_roundId = ''r1'', rr_roundNumber = 1, rr_actualLocation = (0, 0),
      rr_players = [(''u1'', lost_player ''u1'' 4500 1500), (''u2'', lost_player ''u2'' 6000 0)], rr_teams = None\<rparr>"

definition lost_snapshot :: snapshot where
  "lost_snapshot = sample_snapshot\<lparr>sn_phase := RoundResultPhase, sn_lastRoundResult := Some lost_round\<rparr>"

theorem result_animation_completes_witness:
  "g_resultPhase (gm_state (anim_until 2500 (syncResultAnimation game_config ''u1'' (Some lost_snapshot) new_game_ctl))) =
     PhDamageTravel \<and>
   g_resultShownHP (gm_state (anim_until 3100 (syncResultAnimation game_config ''u1'' (Some lost_snapshot) new_game_ctl))) =
     (4500, 6000)"
proof -
  note facts = lost_snapshot_def sample_snapshot_def lost_round_def result_shown_def new_game_ctl_def
  have rr: "sn_lastRoundResult lost_snapshot = Some lost_round" by (simp add: facts)
  note run = result_animation_completes [OF _ _ _ rr, of "''u1''" "''u2''"
      "lost_player ''u1'' 4500 1500" "lost_player ''u2'' 6000 0" new_game_ctl _ game_config]
  have d: "sn_mode lost_snapshot = Some Duel" "sn_matchId lost_snapshot \<noteq> []" "result_shown lost_snapshot"
    "set (map fst (sn_players lost_snapshot)) = {''u1'', ''u2''}"
    "map_of (rr_players lost_round) ''u1'' = Some (lost_player ''u1'' 4500 1500)"
    "map_of (rr_players lost_round) ''u2'' = Some (lost_player ''u2'' 6000 0)"
    "gm_resultAnimRound new_game_ctl \<noteq> rr_roundId lost_round"
    by (simp_all add: facts)
  note at_t = run [OF d(1-4) _ d(5-7)]
  show ?thesis using at_t [of 2500] at_t [of 3100] by (simp add: lost_player_def)
qed

text \<open>
  The hit points an animation starts from never lie below the ones it ends with, and never above
  the maximum unless the server's own result does.
\<close>

theorem animated_start_bounds:
  "hpAfterRound \<le> getAnimatedStartHP cfg sn i hpAfterRound hpNow gm \<and>
   getAnimatedStartHP cfg sn i hpAfterRound hpNow gm \<le> max hpAfterRound (maxHP cfg)"
  by (auto simp: getAnimatedStartHP_def Let_def split: option.split)

end
