(* ===== verification/LobbyClient.thy ===== *)
theory LobbyClient
  imports QueueClient
begin

text \<open>
  \<open>features/lobby/lib/lobby-client.ts\<close>: lobbies and their members, the requests to the match
  coordinator, the patch that a lobby stream applies to the last snapshot, and the lobby websocket.
  A body read with \<open>as LobbySnapshot\<close> (or patch, or assignment) is taken at its declared type by
  the argument \<open>casts\<close>; an optional field of a patch is None where it is null or undefined.
\<close>

section \<open>Data\<close>

datatype party_mode = PartyDuel | PartyTeamDuel | PartyFreeForAll

datatype lobby_team = TeamA | TeamB

datatype lobby_state = LobbyOpen | LobbyInMatch | LobbyStarted | LobbyClosed | LobbyExpired

text \<open>\<open>lm_selectedBadge\<close> is None where the field is absent, Some None where it is null.\<close>

record lobby_member =
  lm_userId :: string
  lm_displayName :: string
  lm_avatarUrl :: "string option"
  lm_isGuest :: "bool option"
  lm_isAdmin :: "bool option"
  lm_selectedBadge :: "player_badge option option"
  lm_teamId :: "string option"
  lm_role :: string
  lm_ready :: "bool option"
  lm_connected :: "bool option"
  lm_presenceStatus :: "string option"

record lobby =
  lb_id :: string
  lb_inviteCode :: string
  lb_ownerUserId :: string
  lb_state :: lobby_state
  lb_mode :: party_mode
  lb_mapScope :: string
  lb_config :: "match_config option"
  lb_activeMatchId :: "string option"
  lb_lastMatchId :: "string option"
  lb_startedMatchId :: "string option"
  lb_members :: "lobby_member list"

record lobby_patch =
  lp_revision :: int
  lp_state :: "lobby_state option"
  lp_ownerUserId :: "string option"
  lp_mode :: "party_mode option"
  lp_config :: "match_config option"
  lp_activeMatchId :: "string option"
  lp_lastMatchId :: "string option"
  lp_startedMatchId :: "string option"
  lp_upsertMembers :: "lobby_member list option"
  lp_removeMemberIds :: "string list option"

datatype lobby_event =
  LobbySnapshotEvent lobby
| LobbyPatchEvent lobby_patch
| LobbyMatchAssigned live_assignment
| LobbyErrorEvent string

record lobby_casts =
  as_lobby :: "jv \<Rightarrow> lobby"
  as_patch :: "jv \<Rightarrow> lobby_patch"
  as_assignment :: "jv \<Rightarrow> live_assignment"

section \<open>Patches\<close>

text \<open>\<open>{ ...old, ...member }\<close>: a field the upserted member does not have keeps its old value.\<close>

definition member_merge :: "lobby_member option \<Rightarrow> lobby_member \<Rightarrow> lobby_member" where
  "member_merge old m =
     (case old of
        None \<Rightarrow> m
      | Some o1 \<Rightarrow>
          m\<lparr>lm_avatarUrl := nullish (lm_avatarUrl m) (lm_avatarUrl o1),
            lm_isGuest := nullish (lm_isGuest m) (lm_isGuest o1),
            lm_isAdmin := nullish (lm_isAdmin m) (lm_isAdmin o1),
            lm_selectedBadge := nullish (lm_selectedBadge m) (lm_selectedBadge o1),
            lm_teamId := nullish (lm_teamId m) (lm_teamId o1),
            lm_ready := nullish (lm_ready m) (lm_ready o1),
            lm_connected := nullish (lm_connected m) (lm_connected o1),
            lm_presenceStatus := nullish (lm_presenceStatus m) (lm_presenceStatus o1)\<rparr>)"

definition or_old :: "'a option \<Rightarrow> 'a \<Rightarrow> 'a" where
  "or_old x old = (case x of None \<Rightarrow> old | Some v \<Rightarrow> v)"

text \<open>\<open>new Map(members.filter(...).map(m => [m.userId, m]))\<close>: a repeated key keeps its place.\<close>

definition member_map :: "lobby_member list \<Rightarrow> (string \<times> lobby_member) list" where
  "member_map ms = fold (\<lambda>(k, v) r. js_set r k v) (map (\<lambda>m. (lm_userId m, m)) ms) []"

definition upsert_member :: "lobby_member \<Rightarrow> (string \<times> lobby_member) list \<Rightarrow> (string \<times> lobby_member) list" where
  "upsert_member m r = js_set r (lm_userId m) (member_merge (map_of r (lm_userId m)) m)"

definition or_nil :: "'a list option \<Rightarrow> 'a list" where
  "or_nil x = (case x of None \<Rightarrow> [] | Some xs \<Rightarrow> xs)"

definition patch_members :: "string list \<Rightarrow> lobby_member list \<Rightarrow> lobby_member list \<Rightarrow> lobby_member list" where
  "patch_members removed upserts ms =
     map snd (fold upsert_member upserts (member_map (filter (\<lambda>m. lm_userId m \<notin> set removed) ms)))"

definition applyLobbyPatch :: "lobby option \<Rightarrow> lobby_patch \<Rightarrow> lobby option" where
  "applyLobbyPatch lobby patch =
     (case lobby of
        None \<Rightarrow> None
      | Some l \<Rightarrow>
          Some (l\<lparr>lb_state := or_old (lp_state patch) (lb_state l),
                  lb_ownerUserId := or_old (lp_ownerUserId patch) (lb_ownerUserId l),
                  lb_mode := or_old (lp_mode patch) (lb_mode l),
                  lb_config := nullish (lp_config patch) (lb_config l),
                  lb_activeMatchId := nullish (lp_activeMatchId patch) (lb_activeMatchId l),
                  lb_lastMatchId := nullish (lp_lastMatchId patch) (lb_lastMatchId l),
                  lb_startedMatchId := nullish (lp_startedMatchId patch) (lb_startedMatchId l),
                  lb_members :=
                    (if or_nil (lp_upsertMembers patch) \<noteq> [] \<or> or_nil (lp_removeMemberIds patch) \<noteq> []
                     then patch_members (or_nil (lp_removeMemberIds patch)) (or_nil (lp_upsertMembers patch))
                            (lb_members l)
                     else lb_members l)\<rparr>))"

section \<open>Requests\<close>

definition lobby_url :: "runtime_config \<Rightarrow> string \<Rightarrow> string \<Rightarrow> string" where
  "lobby_url cfg i tail =
     strip_slash (normalizeHTTPBase (queueURL cfg)) @ ''/lobbies/'' @ encodeURIComponent i @ tail"

definition lobby_request :: "string \<Rightarrow> string \<Rightarrow> string \<Rightarrow> jv option \<Rightarrow> http_request" where
  "lobby_request verb url token body =
     \<lparr>rq_method = verb, rq_url = url,
      rq_headers = bearer token @ (if body = None then [] else [(''Content-Type'', ''application/json'')]),
      rq_body = body, rq_credentials = False\<rparr>"

fun party_mode_name :: "party_mode \<Rightarrow> string" where
  "party_mode_name PartyDuel = ''duel''"
| "party_mode_name PartyTeamDuel = ''team_duel''"
| "party_mode_name PartyFreeForAll = ''free_for_all''"

fun lobby_team_name :: "lobby_team \<Rightarrow> string" where
  "lobby_team_name TeamA = ''a''"
| "lobby_team_name TeamB = ''b''"

text \<open>\<open>JSON.stringify\<close> leaves out an undefined field.\<close>

definition field_if :: "string \<Rightarrow> ('a \<Rightarrow> jv) \<Rightarrow> 'a option \<Rightarrow> (string \<times> jv) list" where
  "field_if k f x = (case x of None \<Rightarrow> [] | Some v \<Rightarrow> [(k, f v)])"

fun timer_mode_name :: "round_timer_mode \<Rightarrow> string" where
  "timer_mode_name TimerNone = ''none''"
| "timer_mode_name TimerPressure = ''pressure''"
| "timer_mode_name TimerFixed = ''fixed''"

definition config_json :: "match_config \<Rightarrow> jv" where
  "config_json c =
     Obj (field_if ''ruleset'' (Str \<circ> ruleset_name) (cfg_ruleset c) @
          field_if ''mapKey'' Str (cfg_mapKey c) @
          field_if ''roundTimerMode'' (Str \<circ> timer_mode_name) (cfg_roundTimerMode c) @
          field_if ''roundTimeLimitMs'' (Num \<circ> Fin \<circ> of_int) (cfg_roundTimeLimitMs c) @
          field_if ''pressureTimeLimitMs'' (Num \<circ> Fin \<circ> of_int) (cfg_pressureTimeLimitMs c))"

definition createLobby_request :: "runtime_config \<Rightarrow> string \<Rightarrow> party_mode \<Rightarrow> http_request" where
  "createLobby_request cfg token mode =
     lobby_request ''POST'' (strip_slash (normalizeHTTPBase (queueURL cfg)) @ ''/lobbies'') token
       (Some (Obj [(''mode'', Str (party_mode_name mode)), (''mapScope'', Str ''world'')]))"

definition updateLobbySettings_request ::
  "runtime_config \<Rightarrow> string \<Rightarrow> string \<Rightarrow> match_config \<Rightarrow> party_mode option \<Rightarrow> http_request" where
  "updateLobbySettings_request cfg lobbyId token c mode =
     lobby_request ''PATCH'' (lobby_url cfg lobbyId ''/settings'') token
       (Some (Obj ((''config'', config_json c) # field_if ''mode'' (Str \<circ> party_mode_name) mode)))"

definition updateLobbyTeam_request :: "runtime_config \<Rightarrow> string \<Rightarrow> string \<Rightarrow> lobby_team \<Rightarrow> http_request" where
  "updateLobbyTeam_request cfg lobbyId token team =
     lobby_request ''PATCH'' (lobby_url cfg lobbyId ''/team'') token
       (Some (Obj [(''teamId'', Str (lobby_team_name team))]))"

definition fetchLobby_request :: "runtime_config \<Rightarrow> string \<Rightarrow> http_request" where
  "fetchLobby_request cfg code = get_request (lobby_url cfg code []) []"

definition touchLobbyPresence_request :: "runtime_config \<Rightarrow> string \<Rightarrow> string \<Rightarrow> http_request" where
  "touchLobbyPresence_request cfg lobbyId token = lobby_request ''POST'' (lobby_url cfg lobbyId ''/presence'') token None"

definition joinLobby_request :: "runtime_config \<Rightarrow> string \<Rightarrow> string \<Rightarrow> http_request" where
  "joinLobby_request cfg code token = lobby_request ''POST'' (lobby_url cfg code ''/join'') token None"

definition leaveLobby_request :: "runtime_config \<Rightarrow> string \<Rightarrow> string \<Rightarrow> http_request" where
  "leaveLobby_request cfg lobbyId token = lobby_request ''POST'' (lobby_url cfg lobbyId ''/leave'') token None"

definition kickLobbyMember_request :: "runtime_config \<Rightarrow> string \<Rightarrow> string \<Rightarrow> string \<Rightarrow> http_request" where
  "kickLobbyMember_request cfg lobbyId token userId =
     lobby_request ''POST'' (lobby_url cfg lobbyId ''/kick'') token (Some (Obj [(''userId'', Str userId)]))"

definition transferLobbyOwner_request :: "runtime_config \<Rightarrow> string \<Rightarrow> string \<Rightarrow> string \<Rightarrow> http_request" where
  "transferLobbyOwner_request cfg lobbyId token userId =
     lobby_request ''POST'' (lobby_url cfg lobbyId ''/transfer-owner'') token (Some (Obj [(''userId'', Str userId)]))"

definition startLobby_request :: "runtime_config \<Rightarrow> string \<Rightarrow> string \<Rightarrow> http_request" where
  "startLobby_request cfg lobbyId token = lobby_request ''POST'' (lobby_url cfg lobbyId ''/start'') token None"

text \<open>\<open>if (!resp.ok) throw new Error((await resp.text()) || fallback); return resp.json();\<close>\<close>

definition lobby_json :: "string \<Rightarrow> http_response \<Rightarrow> jv outcome" where
  "lobby_json fallback resp =
     (if \<not> rs_ok resp then Inl (JsError (or_str (rs_text resp) fallback)) else json_of resp)"

definition lobby_response :: "lobby_casts \<Rightarrow> string \<Rightarrow> http_response \<Rightarrow> lobby outcome" where
  "lobby_response casts fallback resp = map_sum id (as_lobby casts) (lobby_json fallback resp)"

definition startLobby_response :: "lobby_casts \<Rightarrow> http_response \<Rightarrow> live_assignment outcome" where
  "startLobby_response casts resp =
     (case lobby_json ''Could not start lobby'' resp of
        Inl e \<Rightarrow> Inl e
      | Inr Null \<Rightarrow> Inl (JsError ''Cannot read properties of null'')
      | Inr data \<Rightarrow> Inr (as_assignment casts (jfield data ''assignment'')))"

definition fetchLobby_response :: "lobby_casts \<Rightarrow> http_response \<Rightarrow> lobby option outcome" where
  "fetchLobby_response casts resp =
     (if rs_status resp = 404 then Inr None
      else if \<not> rs_ok resp then Inl (JsError ''Lobby unavailable'')
      else map_sum id (\<lambda>data. Some (as_lobby casts data)) (json_of resp))"

definition touchLobbyPresence_response :: "http_response \<Rightarrow> unit outcome" where
  "touchLobbyPresence_response resp =
     (if \<not> rs_ok resp then Inl (JsError ''Lobby presence unavailable'') else Inr ())"

section \<open>The lobby websocket\<close>

definition lobbyWSTarget :: "runtime_config \<Rightarrow> string \<Rightarrow> string \<Rightarrow> string" where
  "lobbyWSTarget cfg lobbyId token =
     strip_slash (normalizeWSBase (queueURL cfg)) @ ''/lobbies/'' @ encodeURIComponent lobbyId @
     ''/ws?accessToken='' @ encodeURIComponent token"

definition lobby_message :: "lobby_casts \<Rightarrow> jv \<Rightarrow> lobby_event option" where
  "lobby_message casts msg =
     (let payload = or_empty_object (jfield msg ''payload''); ty = jfield msg ''type'' in
      if ty = Str ''lobby_snapshot'' then Some (LobbySnapshotEvent (as_lobby casts payload))
      else if ty = Str ''lobby_patch'' then Some (LobbyPatchEvent (as_patch casts payload))
      else if ty = Str ''match_assigned'' then Some (LobbyMatchAssigned (as_assignment casts payload))
      else if ty = Str ''lobby_error'' then
        Some (LobbyErrorEvent (or_text ''Lobby unavailable'' (jfield payload ''message'')))
      else None)"

record lobby_stream =
  ls_settled :: "unit outcome option"
  ls_aborted :: bool
  ls_wsClosed :: bool
  ls_listening :: bool
  ls_delivered :: "lobby_event list"

definition new_lobby_stream :: lobby_stream where
  "new_lobby_stream =
     \<lparr>ls_settled = None, ls_aborted = False, ls_wsClosed = False, ls_listening = True, ls_delivered = []\<rparr>"

definition ls_settle :: "unit outcome \<Rightarrow> lobby_stream \<Rightarrow> lobby_stream" where
  "ls_settle r s =
     (if ls_settled s \<noteq> None then s else s\<lparr>ls_settled := Some r, ls_listening := False\<rparr>)"

fun streamLobby_react :: "lobby_casts \<Rightarrow> stream_event \<Rightarrow> lobby_stream \<Rightarrow> lobby_stream" where
  "streamLobby_react casts StreamWsError s = ls_settle (Inl (JsError ''Lobby connection failed'')) s"
| "streamLobby_react casts StreamWsClose s =
     (if ls_aborted s then ls_settle (Inl AbortError) s else ls_settle (Inr ()) s)\<lparr>ls_wsClosed := True\<rparr>"
| "streamLobby_react casts StreamAbort s =
     (let s1 = s\<lparr>ls_aborted := True\<rparr> in
      if ls_listening s then ls_settle (Inl AbortError) (s1\<lparr>ls_wsClosed := True\<rparr>) else s1)"
| "streamLobby_react casts (StreamWsMessage m) s =
     (if ls_wsClosed s then s
      else case m of
        None \<Rightarrow> ls_settle (Inl (JsError ''Lobby connection failed'')) s
      | Some msg \<Rightarrow>
          (case lobby_message casts msg of
             None \<Rightarrow> s
           | Some ev \<Rightarrow> s\<lparr>ls_delivered := ls_delivered s @ [ev]\<rparr>))"

interpretation lobby_promise: settle_once "streamLobby_react casts" ls_settled
proof unfold_locales
  show "ls_settled (streamLobby_react casts e s) = Some r" if "ls_settled s = Some r" for e s r
    using that by (cases e) (auto simp: ls_settle_def Let_def split: option.splits)
qed

section \<open>Members after a patch\<close>

text \<open>A member table: every entry is filed under its own id.\<close>

definition member_table :: "(string \<times> lobby_member) list \<Rightarrow> bool" where
  "member_table r \<longleftrightarrow> distinct (map fst r) \<and> (\<forall>(k, m)\<in>set r. lm_userId m = k)"

lemma member_table_Nil [simp]: "member_table []"
  by (simp add: member_table_def)

lemma set_js_set: "x \<in> set (js_set r k v) \<Longrightarrow> x = (k, v) \<or> x \<in> set r"
  by (induction r k v rule: js_set.induct) (auto split: if_splits)

lemma member_table_set: "member_table r \<Longrightarrow> lm_userId m = k \<Longrightarrow> member_table (js_set r k m)"
  unfolding member_table_def using set_js_set by fastforce

lemma member_merge_id [simp]:
  "lm_userId (member_merge x m) = lm_userId m" "lm_displayName (member_merge x m) = lm_displayName m"
  "lm_role (member_merge x m) = lm_role m"
  by (simp_all add: member_merge_def split: option.splits)

lemma member_table_upsert: "member_table r \<Longrightarrow> member_table (upsert_member m r)"
  by (simp add: upsert_member_def member_table_set)

lemma upserts_table: "member_table r \<Longrightarrow> member_table (fold upsert_member ms r)"
  by (induction ms arbitrary: r) (simp_all add: member_table_upsert)

lemma upserts_keys: "fst ` set (fold upsert_member ms r) = fst ` set r \<union> lm_userId ` set ms"
  by (induction ms arbitrary: r) (auto simp: upsert_member_def)

lemma upserts_keep:
  "k \<notin> lm_userId ` set ms \<Longrightarrow> map_of (fold upsert_member ms r) k = map_of r k"
  by (induction ms arbitrary: r) (auto simp: upsert_member_def)

lemma member_map_fold: "member_map ms = fold (\<lambda>m r. js_set r (lm_userId m) m) ms []"
proof -
  have "fold (\<lambda>(k, v) r. js_set r k v) (map (\<lambda>m. (lm_userId m, m)) ms) r =
      fold (\<lambda>m r. js_set r (lm_userId m) m) ms r" for r
    by (induction ms arbitrary: r) simp_all
  then show ?thesis by (simp add: member_map_def)
qed

lemma member_map_table: "member_table (member_map ms)"
proof -
  have "member_table r \<Longrightarrow> member_table (fold (\<lambda>m r. js_set r (lm_userId m) m) ms r)" for r
    by (induction ms arbitrary: r) (simp_all add: member_table_set)
  then show ?thesis unfolding member_map_fold by simp
qed

lemma member_map_keys: "fst ` set (member_map ms) = lm_userId ` set ms"
proof -
  have "fst ` set (fold (\<lambda>m r. js_set r (lm_userId m) m) ms r) = fst ` set r \<union> lm_userId ` set ms" for r
    by (induction ms arbitrary: r) auto
  then show ?thesis unfolding member_map_fold by simp
qed

lemma member_map_keep:
  assumes "distinct (map lm_userId ms)" and "m \<in> set ms"
  shows "map_of (member_map ms) (lm_userId m) = Some m"
proof -
  have skip: "map_of (fold (\<lambda>m r. js_set r (lm_userId m) m) ms r) k = map_of r k"
    if "k \<notin> lm_userId ` set ms" for ms r k
    using that by (induction ms arbitrary: r) auto
  from assms show ?thesis unfolding member_map_fold
  proof (induction ms arbitrary: m)
    case (Cons x xs)
    have "map_of (fold (\<lambda>m r. js_set r (lm_userId m) m) xs r) (lm_userId m) = Some m"
      if "m \<in> set xs" "distinct (map lm_userId xs)" for m r
      using that by (induction xs arbitrary: r) (auto simp: skip)
    then show ?case using Cons.prems by (auto simp: skip)
  qed simp
qed

lemma table_ids: "member_table r \<Longrightarrow> map lm_userId (map snd r) = map fst r"
  by (induction r) (auto simp: member_table_def)

lemma table_member: "map_of r k = Some m \<Longrightarrow> m \<in> set (map snd r)"
  by (auto dest: map_of_in_values)

lemma patch_members_ids:
  "distinct (map lm_userId (patch_members rm us ms)) \<and>
   lm_userId ` set (patch_members rm us ms) = (lm_userId ` set ms - set rm) \<union> lm_userId ` set us"
proof -
  let ?kept = "filter (\<lambda>m. lm_userId m \<notin> set rm) ms"
  let ?t = "fold upsert_member us (member_map ?kept)"
  have t: "member_table ?t" by (rule upserts_table [OF member_map_table])
  have ids: "map lm_userId (patch_members rm us ms) = map fst ?t"
    unfolding patch_members_def by (rule table_ids [OF t])
  have "lm_userId ` set (patch_members rm us ms) = set (map lm_userId (patch_members rm us ms))" by simp
  also have "\<dots> = fst ` set ?t" unfolding ids by simp
  also have "\<dots> = (lm_userId ` set ms - set rm) \<union> lm_userId ` set us"
    by (auto simp: upserts_keys member_map_keys)
  finally have "lm_userId ` set (patch_members rm us ms) = (lm_userId ` set ms - set rm) \<union> lm_userId ` set us" .
  moreover have "distinct (map lm_userId (patch_members rm us ms))"
    unfolding ids using t by (simp add: member_table_def)
  ultimately show ?thesis by blast
qed

lemma patch_members_untouched:
  assumes "distinct (map lm_userId ms)" and "m \<in> set ms"
    and "lm_userId m \<notin> set rm" and "lm_userId m \<notin> lm_userId ` set us"
  shows "m \<in> set (patch_members rm us ms)"
proof -
  let ?kept = "filter (\<lambda>m. lm_userId m \<notin> set rm) ms"
  have "distinct (map lm_userId ?kept)" using assms(1) by (rule distinct_map_filter)
  then have "map_of (member_map ?kept) (lm_userId m) = Some m"
    using assms(2,3) by (intro member_map_keep) auto
  then have "map_of (fold upsert_member us (member_map ?kept)) (lm_userId m) = Some m"
    using assms(4) by (simp add: upserts_keep)
  then show ?thesis unfolding patch_members_def by (rule table_member)
qed

lemma patch_members_last_upsert:
  assumes "lm_userId u \<notin> lm_userId ` set vs"
  shows "\<exists>old. member_merge old u \<in> set (patch_members rm (us @ u # vs) ms)"
proof -
  let ?r = "fold upsert_member us (member_map (filter (\<lambda>m. lm_userId m \<notin> set rm) ms))"
  have "map_of (fold upsert_member vs (upsert_member u ?r)) (lm_userId u) =
      Some (member_merge (map_of ?r (lm_userId u)) u)"
    using assms by (simp add: upserts_keep) (simp add: upsert_member_def)
  then show ?thesis using table_member by (fastforce simp: patch_members_def)
qed

section \<open>Property\<close>

text \<open>
  A lobby patch keeps the member list a set of players: whatever it removes and upserts, every
  player is listed once, the listed players are the old ones not removed together with the upserted
  ones, a player it does not name stays as is, and the last upsert of a player decides name and role.
\<close>

theorem lobby_patch_members:
  fixes l :: lobby
  assumes "distinct (map lm_userId (lb_members l))"
  defines "rm \<equiv> \<lambda>p. or_nil (lp_removeMemberIds p)" and "us \<equiv> \<lambda>p. or_nil (lp_upsertMembers p)"
  shows "\<exists>l'. applyLobbyPatch (Some l) p = Some l' \<and> distinct (map lm_userId (lb_members l')) \<and>
     lm_userId ` set (lb_members l') = (lm_userId ` set (lb_members l) - set (rm p)) \<union> lm_userId ` set (us p) \<and>
     (\<forall>m\<in>set (lb_members l). lm_userId m \<notin> set (rm p) \<union> lm_userId ` set (us p) \<longrightarrow> m \<in> set (lb_members l')) \<and>
     (\<forall>xs u ys. us p = xs @ u # ys \<and> lm_userId u \<notin> lm_userId ` set ys \<longrightarrow>
        (\<exists>m\<in>set (lb_members l'). lm_userId m = lm_userId u \<and> lm_displayName m = lm_displayName u \<and> lm_role m = lm_role u))"
proof (cases "us p \<noteq> [] \<or> rm p \<noteq> []")
  case True
  let ?ms = "patch_members (rm p) (us p) (lb_members l)"
  have last: "\<exists>m\<in>set ?ms. lm_userId m = lm_userId u \<and> lm_displayName m = lm_displayName u \<and> lm_role m = lm_role u"
    if "us p = xs @ u # ys" "lm_userId u \<notin> lm_userId ` set ys" for xs u ys
    using patch_members_last_upsert [OF that(2), of "rm p" xs "lb_members l"]
    unfolding that(1) by (metis member_merge_id)
  have "\<exists>l'. applyLobbyPatch (Some l) p = Some l' \<and> lb_members l' = ?ms"
    using True by (auto simp: applyLobbyPatch_def rm_def us_def)
  then obtain l' where l': "applyLobbyPatch (Some l) p = Some l'" "lb_members l' = ?ms" by blast
  show ?thesis
    using l' patch_members_ids [of "rm p" "us p" "lb_members l"] patch_members_untouched [OF assms(1)] last
    by (intro exI [of _ l']) auto
next
  case False
  then show ?thesis using assms(1) by (simp add: applyLobbyPatch_def rm_def us_def)
qed

text \<open>A lobby of two, one of whom leaves while a third joins.\<close>

definition sample_member :: "string \<Rightarrow> lobby_member" where
  "sample_member i =
     \<lparr>lm_userId = i, lm_displayName = i, lm_avatarUrl = None, lm_isGuest = None, lm_isAdmin = None,
      lm_selectedBadge = None, lm_teamId = None, lm_role = ''member'', lm_ready = None,
      lm_connected = Some True, lm_presenceStatus = None\<rparr>"

definition sample_lobby :: lobby where
  "sample_lobby =
     \<lparr>lb_id = ''l1'', lb_inviteCode = ''ABC'', lb_ownerUserId = ''u1'', lb_state = LobbyOpen,
      lb_mode = PartyDuel, lb_mapScope = ''world'', lb_config = None, lb_activeMatchId = None,
      lb_lastMatchId = None, lb_startedMatchId = None, lb_members = [sample_member ''u1'', sample_member ''u2'']\<rparr>"

definition sample_patch :: lobby_patch where
  "sample_patch =
     \<lparr>lp_revision = 2, lp_state = None, lp_ownerUserId = None, lp_mode = None, lp_config = None,
      lp_activeMatchId = None, lp_lastMatchId = None, lp_startedMatchId = None,
      lp_upsertMembers = Some [sample_member ''u3''], lp_removeMemberIds = Some [''u2'']\<rparr>"

theorem lobby_patch_members_witness:
  "\<exists>l'. applyLobbyPatch (Some sample_lobby) sample_patch = Some l' \<and>
     lm_userId ` set (lb_members l') = {''u1'', ''u3''}"
  using lobby_patch_members [of sample_lobby sample_patch]
  by (auto simp: sample_lobby_def sample_patch_def sample_member_def or_nil_def)

section \<open>Refinement\<close>

text \<open>
  The abstract lobby is a finite map from players to members; a patch removes players and then merges
  the upserted members, one by one.
\<close>

definition abs_members :: "lobby_member list \<Rightarrow> (string \<rightharpoonup> lobby_member)" where
  "abs_members ms = map_of (map (\<lambda>m. (lm_userId m, m)) ms)"

definition spec_upsert :: "lobby_member \<Rightarrow> (string \<rightharpoonup> lobby_member) \<Rightarrow> (string \<rightharpoonup> lobby_member)" where
  "spec_upsert u M = M(lm_userId u \<mapsto> member_merge (M (lm_userId u)) u)"

definition spec_patch :: "string list \<Rightarrow> lobby_member list \<Rightarrow> (string \<rightharpoonup> lobby_member) \<Rightarrow> (string \<rightharpoonup> lobby_member)" where
  "spec_patch rm us M = fold spec_upsert us (M |` (- set rm))"

lemma abs_table: "member_table r \<Longrightarrow> abs_members (map snd r) = map_of r"
proof -
  assume "member_table r"
  then have "map (\<lambda>m. (lm_userId m, m)) (map snd r) = r"
    by (intro nth_equalityI) (auto simp: member_table_def dest!: nth_mem)
  then show ?thesis by (simp add: abs_members_def)
qed

lemma map_of_upserts: "map_of (fold upsert_member us r) = fold spec_upsert us (map_of r)"
  by (induction us arbitrary: r) (simp_all add: upsert_member_def spec_upsert_def)

lemma map_of_member_map:
  assumes "distinct (map lm_userId ms)"
  shows "map_of (member_map ms) = abs_members ms"
proof
  fix k
  show "map_of (member_map ms) k = abs_members ms k"
  proof (cases "k \<in> lm_userId ` set ms")
    case True
    then obtain m where m: "m \<in> set ms" "lm_userId m = k" by blast
    have "distinct (map fst (map (\<lambda>m. (lm_userId m, m)) ms))" using assms by (simp add: comp_def)
    then have "abs_members ms k = Some m" using m by (force simp: abs_members_def intro: map_of_is_SomeI)
    then show ?thesis using member_map_keep [OF assms m(1)] m(2) by simp
  next
    case False
    then have "map_of (member_map ms) k = None" by (simp add: map_of_eq_None_iff member_map_keys)
    moreover have "abs_members ms k = None" using False by (force simp: abs_members_def map_of_eq_None_iff)
    ultimately show ?thesis by simp
  qed
qed

lemma abs_members_filter:
  "abs_members (filter (\<lambda>m. lm_userId m \<notin> X) ms) = abs_members ms |` (- X)"
  by (induction ms) (auto simp: abs_members_def restrict_map_def fun_eq_iff)

lemma patch_members_refines:
  assumes "distinct (map lm_userId ms)"
  shows "abs_members (patch_members rm us ms) = spec_patch rm us (abs_members ms)"
proof -
  let ?kept = "filter (\<lambda>m. lm_userId m \<notin> set rm) ms"
  have "abs_members (patch_members rm us ms) = map_of (fold upsert_member us (member_map ?kept))"
    unfolding patch_members_def by (rule abs_table [OF upserts_table [OF member_map_table]])
  then show ?thesis
    by (simp add: map_of_upserts map_of_member_map distinct_map_filter [OF assms] abs_members_filter spec_patch_def)
qed

text \<open>
  C12. A lobby patch refines an update of a map: seen as the map from players to members, the member
  list after \<open>applyLobbyPatch\<close> is the old map without the removed players, with the upserted members
  merged in one by one; no player is listed twice, and the other fields change only where the patch
  names them.
\<close>

theorem lobby_patch_refines:
  fixes l :: lobby
  assumes "distinct (map lm_userId (lb_members l))"
  shows "\<exists>l'. applyLobbyPatch (Some l) p = Some l' \<and>
     abs_members (lb_members l') =
       spec_patch (or_nil (lp_removeMemberIds p)) (or_nil (lp_upsertMembers p)) (abs_members (lb_members l)) \<and>
     distinct (map lm_userId (lb_members l')) \<and> lb_id l' = lb_id l \<and> lb_inviteCode l' = lb_inviteCode l \<and>
     lb_state l' = or_old (lp_state p) (lb_state l) \<and> lb_ownerUserId l' = or_old (lp_ownerUserId p) (lb_ownerUserId l) \<and>
     lb_activeMatchId l' = nullish (lp_activeMatchId p) (lb_activeMatchId l)"
proof (cases "or_nil (lp_upsertMembers p) \<noteq> [] \<or> or_nil (lp_removeMemberIds p) \<noteq> []")
  case True
  then show ?thesis
    using patch_members_refines [OF assms] patch_members_ids
    by (intro exI [of _ "the (applyLobbyPatch (Some l) p)"]) (simp add: applyLobbyPatch_def)
next
  case False
  then show ?thesis using assms by (simp add: applyLobbyPatch_def spec_patch_def restrict_map_def)
qed

theorem lobby_patch_refines_witness:
  "\<exists>l'. applyLobbyPatch (Some sample_lobby) sample_patch = Some l' \<and> abs_members (lb_members l') ''u2'' = None \<and>
     abs_members (lb_members l') ''u1'' = Some (sample_member ''u1'')"
  using lobby_patch_refines [of sample_lobby sample_patch]
  by (auto simp: sample_lobby_def sample_patch_def sample_member_def or_nil_def spec_patch_def spec_upsert_def
      abs_members_def restrict_map_def)

end
