(* ===== verification/LobbyController.thy ===== *)
theory LobbyController
  imports LobbyClient
begin

text \<open>
  \<open>features/lobby/controllers/lobby-controller.ts\<close>: the controller of the party lobby. Its state is the
  observable \<open>lobby_runtime\<close>, the private fields, one entry per connection it has opened (its stream
  and the promise \<open>ready\<close> that a create or a join waits for) and the calls in flight. An
  asynchronous method is split at its awaits; \<open>sess\<close> is what \<open>getSessionSnapshot()\<close> shows at the
  instant of a segment. Requests, sockets, resumed matches and returned values are logged in order.
\<close>

section \<open>State\<close>

datatype lobby_runtime_status =
  LsIdle | LsCreating | LsJoining | LsConnecting | LsReady | LsReconnecting | LsLeaving | LsError

record lobby_runtime =
  lr_status :: lobby_runtime_status
  lr_lobbyId :: string
  lr_inviteCode :: string
  lr_snapshot :: "lobby option"
  lr_error :: string

definition initial_lobby_state :: lobby_runtime where
  "initial_lobby_state =
     \<lparr>lr_status = LsIdle, lr_lobbyId = [], lr_inviteCode = [], lr_snapshot = None, lr_error = []\<rparr>"

datatype lobby_out =
  LobbyEmit lobby_runtime | LobbyRequest http_request | LobbySocket string | LobbyResume live_assignment
| LobbyReturn bool

datatype lobby_op = OpCreate party_mode | OpJoin string

datatype fresh_ctx = FreshRejoin | FreshEnsure | FreshReconnect

text \<open>What a call in flight waits for.\<close>

datatype lobby_stage =
  WEnsure | WFresh fresh_ctx | WPlayable lobby_op | WOpen lobby_op auth_session | WLeave | WChange string
| WStart | WStartResume | WStarted string nat | WStartedResume string | WPoll

text \<open>
  A connection: \<open>cn_waiter\<close> is the error text of the method awaiting \<open>ready\<close>, while that promise is
  pending; \<open>cn_reject\<close> tells whether \<open>readyReject\<close> is still set, \<open>cn_timer\<close> whether the ten-second
  timer is still armed.
\<close>

record lobby_conn =
  cn_id :: nat
  cn_ctrl :: nat
  cn_stream :: lobby_stream
  cn_waiter :: "string option"
  cn_reject :: bool
  cn_timer :: bool

record lobby_ctl =
  lob_state :: lobby_runtime
  lob_streamAbort :: "nat option"
  lob_streamSession :: "auth_session option"
  lob_presence :: bool
  lob_poll :: bool
  lob_reconnect :: "int option"
  lob_attempt :: nat
  lob_handledMatchId :: string
  lob_requestId :: nat
  lob_destroyed :: bool
  lob_nextAbort :: nat
  lob_aborted :: "nat list"
  lob_conns :: "lobby_conn list"
  lob_tasks :: "(nat \<times> lobby_stage) list"
  lob_nextTask :: nat
  lob_out :: "lobby_out list"

definition new_lobby_ctl :: lobby_ctl where
  "new_lobby_ctl =
     \<lparr>lob_state = initial_lobby_state, lob_streamAbort = None, lob_streamSession = None,
      lob_presence = False, lob_poll = False, lob_reconnect = None, lob_attempt = 0,
      lob_handledMatchId = [], lob_requestId = 0, lob_destroyed = False, lob_nextAbort = 0,
      lob_aborted = [], lob_conns = [], lob_tasks = [], lob_nextTask = 0, lob_out = []\<rparr>"

definition lob_log :: "lobby_out \<Rightarrow> lobby_ctl \<Rightarrow> lobby_ctl" where
  [ctl_defs]: "lob_log x lc = lc\<lparr>lob_out := lob_out lc @ [x]\<rparr>"

definition lob_patchState :: "(lobby_runtime \<Rightarrow> lobby_runtime) \<Rightarrow> lobby_ctl \<Rightarrow> lobby_ctl" where
  [ctl_defs]: "lob_patchState f lc =
     (let lc' = lc\<lparr>lob_state := f (lob_state lc)\<rparr> in
      if lob_destroyed lc' then lc' else lob_log (LobbyEmit (lob_state lc')) lc')"

definition lob_await :: "lobby_stage \<Rightarrow> lobby_ctl \<Rightarrow> lobby_ctl" where
  [ctl_defs]: "lob_await w lc =
     lc\<lparr>lob_tasks := lob_tasks lc @ [(lob_nextTask lc, w)], lob_nextTask := lob_nextTask lc + 1\<rparr>"

definition set_lobby_error :: "string \<Rightarrow> lobby_ctl \<Rightarrow> lobby_ctl" where
  [ctl_defs]: "set_lobby_error m = lob_patchState (lr_error_update (\<lambda>_. m))"

definition lobby_fails :: "string \<Rightarrow> lobby_ctl \<Rightarrow> lobby_ctl" where
  [ctl_defs]: "lobby_fails m = lob_patchState (\<lambda>st. st\<lparr>lr_status := LsError, lr_error := m\<rparr>)"

definition patchSnapshot :: "lobby \<Rightarrow> lobby_runtime_status \<Rightarrow> lobby_ctl \<Rightarrow> lobby_ctl" where
  "patchSnapshot next status =
     lob_patchState (\<lambda>_. \<lparr>lr_status = status, lr_lobbyId = lb_id next, lr_inviteCode = lb_inviteCode next,
       lr_snapshot = Some next, lr_error = []\<rparr>)"

definition isCurrentUserMember :: "auth_session option \<Rightarrow> lobby option \<Rightarrow> bool" where
  "isCurrentUserMember sess snap =
     (case (snap, sess) of
        (Some l, Some s) \<Rightarrow> s_userId s \<noteq> [] \<and> list_ex (\<lambda>m. lm_userId m = s_userId s) (lb_members l)
      | _ \<Rightarrow> False)"

section \<open>Aborting, loops, timers\<close>

text \<open>\<open>controller.abort()\<close> for the controller of a connection.\<close>

definition abort_conn :: "lobby_casts \<Rightarrow> nat \<Rightarrow> lobby_ctl \<Rightarrow> lobby_ctl" where
  "abort_conn casts c lc =
     lc\<lparr>lob_aborted := c # lob_aborted lc,
        lob_conns := map (\<lambda>cn. if cn_ctrl cn = c
           then cn\<lparr>cn_stream := streamLobby_react casts StreamAbort (cn_stream cn)\<rparr> else cn) (lob_conns lc)\<rparr>"

definition abortStream :: "lobby_casts \<Rightarrow> lobby_ctl \<Rightarrow> lobby_ctl" where
  "abortStream casts lc =
     (case lob_streamAbort lc of None \<Rightarrow> lc | Some c \<Rightarrow> abort_conn casts c lc)
       \<lparr>lob_streamAbort := None, lob_streamSession := None\<rparr>"

definition clearReconnectTimer :: "lobby_ctl \<Rightarrow> lobby_ctl" where
  "clearReconnectTimer lc = lc\<lparr>lob_reconnect := None\<rparr>"

definition stopLoops :: "lobby_casts \<Rightarrow> lobby_ctl \<Rightarrow> lobby_ctl" where
  "stopLoops casts lc = abortStream casts (clearReconnectTimer (lc\<lparr>lob_presence := False, lob_poll := False\<rparr>))"

definition lobby_destroy :: "lobby_casts \<Rightarrow> lobby_ctl \<Rightarrow> lobby_ctl" where
  "lobby_destroy casts lc = stopLoops casts (lc\<lparr>lob_destroyed := True\<rparr>)"

definition lobby_reset :: "lobby_casts \<Rightarrow> lobby_ctl \<Rightarrow> lobby_ctl" where
  "lobby_reset casts lc =
     lob_patchState (\<lambda>_. initial_lobby_state) ((stopLoops casts lc)\<lparr>lob_handledMatchId := []\<rparr>)"

definition presence_tick :: "runtime_config \<Rightarrow> auth_session option \<Rightarrow> lobby_ctl \<Rightarrow> lobby_ctl" where
  "presence_tick cfg sess lc =
     (case (if lob_streamSession lc \<noteq> None then lob_streamSession lc else sess) of
        None \<Rightarrow> lc
      | Some s \<Rightarrow>
          if s_accessToken s = [] \<or> lr_lobbyId (lob_state lc) = [] \<or>
             \<not> isCurrentUserMember sess (lr_snapshot (lob_state lc)) then lc
          else lob_log (LobbyRequest (touchLobbyPresence_request cfg (lr_lobbyId (lob_state lc)) (s_accessToken s))) lc)"

definition startPresenceLoop :: "runtime_config \<Rightarrow> auth_session option \<Rightarrow> lobby_ctl \<Rightarrow> lobby_ctl" where
  "startPresenceLoop cfg sess lc =
     (if lob_presence lc then lc else (presence_tick cfg sess lc)\<lparr>lob_presence := True\<rparr>)"

definition poll_tick :: "runtime_config \<Rightarrow> lobby_ctl \<Rightarrow> lobby_ctl" where
  "poll_tick cfg lc =
     (let st = lob_state lc;
          code = or_str (lr_inviteCode st) (case lr_snapshot st of None \<Rightarrow> [] | Some l \<Rightarrow> lb_inviteCode l)
      in if code = [] then lc else lob_await WPoll (lob_log (LobbyRequest (fetchLobby_request cfg code)) lc))"

definition startPollLoop :: "runtime_config \<Rightarrow> lobby_ctl \<Rightarrow> lobby_ctl" where
  "startPollLoop cfg lc = (if lob_poll lc then lc else (poll_tick cfg lc)\<lparr>lob_poll := True\<rparr>)"

definition poll_fetched :: "lobby option outcome \<Rightarrow> lobby_ctl \<Rightarrow> lobby_ctl" where
  "poll_fetched r lc =
     (case r of
        Inr (Some l) \<Rightarrow>
          patchSnapshot l (if lr_status (lob_state lc) = LsReconnecting then LsReconnecting else LsReady) lc
      | _ \<Rightarrow> lc)"

definition reconnect_delay :: "nat \<Rightarrow> int" where
  "reconnect_delay k = [1000, 2000, 5000, 10000] ! min k 3"

definition scheduleReconnect :: "lobby_ctl \<Rightarrow> lobby_ctl" where
  "scheduleReconnect lc =
     (if lob_reconnect lc \<noteq> None \<or> lr_lobbyId (lob_state lc) = [] then lc
      else lc\<lparr>lob_reconnect := Some (reconnect_delay (lob_attempt lc)), lob_attempt := lob_attempt lc + 1\<rparr>)"

section \<open>The promise ready\<close>

definition conn_of :: "lobby_ctl \<Rightarrow> nat \<Rightarrow> lobby_conn option" where
  "conn_of lc i = find (\<lambda>c. cn_id c = i) (lob_conns lc)"

definition patch_conn :: "nat \<Rightarrow> (lobby_conn \<Rightarrow> lobby_conn) \<Rightarrow> lobby_ctl \<Rightarrow> lobby_ctl" where
  [ctl_defs]: "patch_conn i f lc =
     lc\<lparr>lob_conns := map (\<lambda>c. if cn_id c = i then f c else c) (lob_conns lc)\<rparr>"

definition conn_waiter :: "lobby_ctl \<Rightarrow> nat \<Rightarrow> string option" where
  "conn_waiter lc i = (case conn_of lc i of None \<Rightarrow> None | Some c \<Rightarrow> cn_waiter c)"

definition conn_reject :: "lobby_ctl \<Rightarrow> nat \<Rightarrow> bool" where
  "conn_reject lc i = (case conn_of lc i of None \<Rightarrow> False | Some c \<Rightarrow> cn_reject c)"

text \<open>
  \<open>readyResolve()\<close> and \<open>readyReject(error)\<close>, with the rest of the awaiting method: it answers whether
  the lobby is ready, or shows the error. A settled promise stays as it is.
\<close>

definition resolve_ready :: "nat \<Rightarrow> lobby_ctl \<Rightarrow> lobby_ctl" where
  "resolve_ready i lc =
     (let st = lob_state lc;
          lc1 = patch_conn i (\<lambda>c. c\<lparr>cn_waiter := None, cn_reject := False\<rparr>) lc
      in if conn_waiter lc i = None then lc1
         else lob_log (LobbyReturn (lr_status st = LsReady \<and> lr_snapshot st \<noteq> None)) lc1)"

definition reject_ready :: "nat \<Rightarrow> string \<Rightarrow> lobby_ctl \<Rightarrow> lobby_ctl" where
  "reject_ready i m lc =
     (case conn_waiter lc i of
        None \<Rightarrow> lc
      | Some fallback \<Rightarrow>
          lob_log (LobbyReturn False)
            (lobby_fails (or_str m fallback) (patch_conn i (cn_waiter_update (\<lambda>_. None)) lc)))"

definition clear_ready_timer :: "nat \<Rightarrow> lobby_ctl \<Rightarrow> lobby_ctl" where
  "clear_ready_timer i = patch_conn i (cn_timer_update (\<lambda>_. False))"

section \<open>Connecting\<close>

definition connectToLobby ::
  "runtime_config \<Rightarrow> lobby_casts \<Rightarrow> auth_session \<Rightarrow> string \<Rightarrow> string option \<Rightarrow> lobby_ctl \<Rightarrow> lobby_ctl" where
  "connectToLobby cfg casts s lobbyId waiter lc =
     (let lc1 = abortStream casts (clearReconnectTimer lc);
          c = lob_nextAbort lc1;
          i = lob_requestId lc1 + 1;
          wait = (waiter \<noteq> None);
          lc2 = lob_patchState (\<lambda>st. st\<lparr>lr_status :=
                    (if wait then LsConnecting else if lr_snapshot st \<noteq> None then LsReconnecting else LsConnecting),
                  lr_error := []\<rparr>)
                (lc1\<lparr>lob_nextAbort := c + 1, lob_requestId := i, lob_streamAbort := Some c, lob_streamSession := Some s\<rparr>)
      in lob_log (LobbySocket (lobbyWSTarget cfg lobbyId (s_accessToken s)))
           (lc2\<lparr>lob_conns := lob_conns lc2 @
              [\<lparr>cn_id = i, cn_ctrl = c, cn_stream = new_lobby_stream, cn_waiter = waiter,
                cn_reject = wait, cn_timer = wait\<rparr>]\<rparr>))"

text \<open>\<open>ensureStream\<close>, its second half where the session has to be fetched.\<close>

definition ensureStream ::
  "runtime_config \<Rightarrow> lobby_casts \<Rightarrow> auth_session option \<Rightarrow> fresh_ctx \<Rightarrow> lobby_ctl \<Rightarrow> lobby_ctl" where
  "ensureStream cfg casts sess ctx lc =
     (let st = lob_state lc in
      if lr_lobbyId st = [] \<or> \<not> isCurrentUserMember sess (lr_snapshot st) then lc
      else case sess of
        Some s \<Rightarrow> connectToLobby cfg casts s (lr_lobbyId st) None lc
      | None \<Rightarrow> lob_await (WFresh ctx) lc)"

definition stream_session ::
  "runtime_config \<Rightarrow> lobby_casts \<Rightarrow> fresh_ctx \<Rightarrow> auth_session option outcome \<Rightarrow> lobby_ctl \<Rightarrow> lobby_ctl" where
  "stream_session cfg casts ctx r lc =
     (case r of
        Inr None \<Rightarrow> lc
      | Inr (Some s) \<Rightarrow> connectToLobby cfg casts s (lr_lobbyId (lob_state lc)) None lc
      | Inl e \<Rightarrow>
          (case ctx of
             FreshRejoin \<Rightarrow> lc
           | FreshEnsure \<Rightarrow> lobby_fails (getErrorMessage e ''Lobby unavailable'') lc
           | FreshReconnect \<Rightarrow> scheduleReconnect lc))"

section \<open>Opening a lobby\<close>

definition ensureLobby ::
  "runtime_config \<Rightarrow> lobby_casts \<Rightarrow> auth_session option \<Rightarrow> string \<Rightarrow> lobby_ctl \<Rightarrow> lobby_ctl" where
  "ensureLobby cfg casts sess inviteCode lc =
     (let code = to_upper (js_trim inviteCode); st = lob_state lc in
      if code = [] then lc
      else if lr_inviteCode st = code \<and> lr_snapshot st \<noteq> None then ensureStream cfg casts sess FreshRejoin lc
      else if lr_inviteCode st = code \<and> lr_status st \<in> {LsConnecting, LsJoining, LsCreating} then lc
      else lob_await WEnsure (lob_log (LobbyRequest (fetchLobby_request cfg code))
        (lob_patchState (\<lambda>_. \<lparr>lr_status = LsConnecting, lr_lobbyId = [], lr_inviteCode = code,
           lr_snapshot = None, lr_error = []\<rparr>) lc)))"

definition lobby_fetched ::
  "runtime_config \<Rightarrow> lobby_casts \<Rightarrow> auth_session option \<Rightarrow> lobby option outcome \<Rightarrow> lobby_ctl \<Rightarrow> lobby_ctl" where
  "lobby_fetched cfg casts sess r lc =
     (case r of
        Inl e \<Rightarrow> lobby_fails (getErrorMessage e ''Lobby unavailable'') lc
      | Inr None \<Rightarrow> lobby_fails ''Lobby not found'' lc
      | Inr (Some l) \<Rightarrow>
          (let lc1 = lob_patchState (\<lambda>st. st\<lparr>lr_lobbyId := lb_id l, lr_inviteCode := lb_inviteCode l,
                  lr_snapshot := Some l\<rparr>) lc
           in if \<not> isCurrentUserMember sess (Some l)
              then lob_patchState (\<lambda>st. st\<lparr>lr_status := LsReady, lr_error := []\<rparr>) lc1
              else ensureStream cfg casts sess FreshEnsure lc1))"

fun op_fallback :: "lobby_op \<Rightarrow> string" where
  "op_fallback (OpCreate _) = ''Lobby unavailable''"
| "op_fallback (OpJoin _) = ''Could not join lobby''"

definition createLobby :: "party_mode \<Rightarrow> lobby_ctl \<Rightarrow> lobby_ctl" where
  "createLobby mode lc =
     lob_await (WPlayable (OpCreate mode))
       (lob_patchState (\<lambda>st. st\<lparr>lr_status := LsCreating, lr_error := []\<rparr>) lc)"

definition joinLobby :: "string option \<Rightarrow> lobby_ctl \<Rightarrow> lobby_ctl" where
  "joinLobby requested lc =
     (let st = lob_state lc;
          shown = (case lr_snapshot st of None \<Rightarrow> [] | Some l \<Rightarrow> lb_inviteCode l);
          code = to_upper (js_trim (or_str (opt_str requested) (or_str (lr_inviteCode st) shown)))
      in if code = [] then lob_log (LobbyReturn False) (set_lobby_error ''Lobby invite is missing.'' lc)
         else lob_await (WPlayable (OpJoin code))
           (lob_patchState (\<lambda>st. st\<lparr>lr_status := LsJoining, lr_inviteCode := code, lr_error := []\<rparr>) lc))"

definition op_failed :: "lobby_op \<Rightarrow> js_error \<Rightarrow> lobby_ctl \<Rightarrow> lobby_ctl" where
  "op_failed p e lc = lob_log (LobbyReturn False) (lobby_fails (getErrorMessage e (op_fallback p)) lc)"

fun op_request :: "runtime_config \<Rightarrow> lobby_op \<Rightarrow> string \<Rightarrow> http_request" where
  "op_request cfg (OpCreate mode) token = createLobby_request cfg token mode"
| "op_request cfg (OpJoin code) token = joinLobby_request cfg code token"

definition lobby_playable :: "runtime_config \<Rightarrow> lobby_op \<Rightarrow> auth_session option outcome \<Rightarrow> lobby_ctl \<Rightarrow> lobby_ctl" where
  "lobby_playable cfg p r lc =
     (case r of
        Inl e \<Rightarrow> op_failed p e lc
      | Inr None \<Rightarrow> lob_log (LobbyReturn False) (lobby_fails ''Could not start a guest session.'' lc)
      | Inr (Some s) \<Rightarrow> lob_await (WOpen p s) (lob_log (LobbyRequest (op_request cfg p (s_accessToken s))) lc))"

definition lobby_opened ::
  "runtime_config \<Rightarrow> lobby_casts \<Rightarrow> lobby_op \<Rightarrow> auth_session \<Rightarrow> lobby outcome \<Rightarrow> lobby_ctl \<Rightarrow> lobby_ctl" where
  "lobby_opened cfg casts p s r lc =
     (case r of
        Inl e \<Rightarrow> op_failed p e lc
      | Inr l \<Rightarrow>
          connectToLobby cfg casts s (lb_id l) (Some (op_fallback p))
            (lob_patchState (\<lambda>st. st\<lparr>lr_status := LsConnecting, lr_lobbyId := lb_id l,
               lr_inviteCode := lb_inviteCode l, lr_snapshot := Some l\<rparr>) (lc\<lparr>lob_handledMatchId := []\<rparr>)))"

section \<open>Commands of a member\<close>

definition leaveLobby :: "runtime_config \<Rightarrow> lobby_casts \<Rightarrow> auth_session option \<Rightarrow> lobby_ctl \<Rightarrow> lobby_ctl" where
  "leaveLobby cfg casts sess lc =
     (let lobbyId = lr_lobbyId (lob_state lc) in
      if lobbyId = [] then lc
      else
        let lc1 = lob_patchState (\<lambda>st. st\<lparr>lr_status := LsLeaving, lr_error := []\<rparr>) lc
        in case sess of
             None \<Rightarrow> lobby_reset casts lc1
           | Some s \<Rightarrow> lob_await WLeave (lob_log (LobbyRequest (leaveLobby_request cfg lobbyId (s_accessToken s))) lc1))"

definition lobby_left :: "lobby_casts \<Rightarrow> lobby outcome \<Rightarrow> lobby_ctl \<Rightarrow> lobby_ctl" where
  "lobby_left casts r lc =
     (case r of
        Inl e \<Rightarrow> lobby_fails (getErrorMessage e ''Could not leave lobby'') lc
      | Inr _ \<Rightarrow> lobby_reset casts lc)"

text \<open>The four methods that send a change and show the lobby that comes back share their shape.\<close>

definition lobby_command ::
  "auth_session option \<Rightarrow> (string \<Rightarrow> string \<Rightarrow> http_request) \<Rightarrow> lobby_stage \<Rightarrow> lobby_ctl \<Rightarrow> lobby_ctl" where
  "lobby_command sess req w lc =
     (let lobbyId = lr_lobbyId (lob_state lc) in
      case sess of
        None \<Rightarrow> lc
      | Some s \<Rightarrow>
          if lobbyId = [] then lc
          else lob_await w (lob_log (LobbyRequest (req lobbyId (s_accessToken s))) (set_lobby_error [] lc)))"

definition lobby_changed :: "string \<Rightarrow> lobby outcome \<Rightarrow> lobby_ctl \<Rightarrow> lobby_ctl" where
  "lobby_changed fallback r lc =
     (case r of
        Inl e \<Rightarrow> set_lobby_error (getErrorMessage e fallback) lc
      | Inr l \<Rightarrow> patchSnapshot l LsReady lc)"

definition kickMember :: "runtime_config \<Rightarrow> auth_session option \<Rightarrow> string \<Rightarrow> lobby_ctl \<Rightarrow> lobby_ctl" where
  "kickMember cfg sess userId =
     lobby_command sess (\<lambda>i token. kickLobbyMember_request cfg i token userId) (WChange ''Could not kick player'')"

definition transferOwner :: "runtime_config \<Rightarrow> auth_session option \<Rightarrow> string \<Rightarrow> lobby_ctl \<Rightarrow> lobby_ctl" where
  "transferOwner cfg sess userId =
     lobby_command sess (\<lambda>i token. transferLobbyOwner_request cfg i token userId) (WChange ''Could not transfer leader'')"

definition updateSettings ::
  "runtime_config \<Rightarrow> auth_session option \<Rightarrow> match_config \<Rightarrow> party_mode option \<Rightarrow> lobby_ctl \<Rightarrow> lobby_ctl" where
  "updateSettings cfg sess c mode =
     lobby_command sess (\<lambda>i token. updateLobbySettings_request cfg i token c mode)
       (WChange ''Could not update lobby settings'')"

definition switchTeam :: "runtime_config \<Rightarrow> auth_session option \<Rightarrow> lobby_team \<Rightarrow> lobby_ctl \<Rightarrow> lobby_ctl" where
  "switchTeam cfg sess team =
     lobby_command sess (\<lambda>i token. updateLobbyTeam_request cfg i token team) (WChange ''Could not switch team'')"

definition startLobby :: "runtime_config \<Rightarrow> auth_session option \<Rightarrow> lobby_ctl \<Rightarrow> lobby_ctl" where
  "startLobby cfg sess = lobby_command sess (startLobby_request cfg) WStart"

definition start_assigned :: "live_assignment outcome \<Rightarrow> lobby_ctl \<Rightarrow> lobby_ctl" where
  "start_assigned r lc =
     (case r of
        Inl e \<Rightarrow> set_lobby_error (getErrorMessage e ''Could not start lobby'') lc
      | Inr a \<Rightarrow> lob_await WStartResume (lob_log (LobbyResume a) (lc\<lparr>lob_handledMatchId := la_matchId a\<rparr>)))"

definition start_resumed :: "bool outcome \<Rightarrow> lobby_ctl \<Rightarrow> lobby_ctl" where
  "start_resumed r lc =
     (case r of Inl e \<Rightarrow> set_lobby_error (getErrorMessage e ''Could not start lobby'') lc | Inr _ \<Rightarrow> lc)"

section \<open>A started lobby\<close>

definition handleStartedLobby :: "runtime_config \<Rightarrow> lobby \<Rightarrow> nat \<Rightarrow> lobby_ctl \<Rightarrow> lobby_ctl" where
  "handleStartedLobby cfg l c lc =
     (let matchId = or_str (opt_str (lb_activeMatchId l)) (opt_str (lb_startedMatchId l)) in
      if matchId = [] \<or> lob_handledMatchId lc = matchId \<or> lb_state l \<notin> {LobbyInMatch, LobbyStarted} then lc
      else case lob_streamSession lc of
        None \<Rightarrow> lc
      | Some s \<Rightarrow>
          lob_await (WStarted matchId c)
            (lob_log (LobbyRequest (fetchMatchSession_request cfg (s_accessToken s) matchId)) lc))"

definition started_fetched :: "string \<Rightarrow> nat \<Rightarrow> match_session_response outcome \<Rightarrow> lobby_ctl \<Rightarrow> lobby_ctl" where
  "started_fetched matchId c r lc =
     (if c \<in> set (lob_aborted lc) then lc
      else case r of
        Inr (LiveConnectable a) \<Rightarrow> lob_await (WStartedResume matchId) (lob_log (LobbyResume a) lc)
      | _ \<Rightarrow> lc)"

definition started_resumed :: "string \<Rightarrow> bool outcome \<Rightarrow> lobby_ctl \<Rightarrow> lobby_ctl" where
  "started_resumed matchId r lc = (if r = Inr True then lc\<lparr>lob_handledMatchId := matchId\<rparr> else lc)"

section \<open>The stream\<close>

fun includes_str :: "string \<Rightarrow> string \<Rightarrow> bool" where
  "includes_str [] p = (p = [])"
| "includes_str (c # s) p = (starts_with (c # s) p \<or> includes_str s p)"

text \<open>The callback given to \<open>streamLobby\<close> by connection \<open>i\<close> with abort controller \<open>c\<close>.\<close>

fun lobby_event_handler ::
  "runtime_config \<Rightarrow> lobby_casts \<Rightarrow> auth_session option \<Rightarrow> nat \<Rightarrow> nat \<Rightarrow> lobby_event \<Rightarrow> lobby_ctl \<Rightarrow> lobby_ctl" where
  "lobby_event_handler cfg casts sess i c (LobbySnapshotEvent l) lc =
     resolve_ready i
       (handleStartedLobby cfg l c
         (patchSnapshot l LsReady
           (startPresenceLoop cfg sess
             ((clear_ready_timer i lc)\<lparr>lob_attempt := 0, lob_poll := False\<rparr>))))"
| "lobby_event_handler cfg casts sess i c (LobbyPatchEvent p) lc =
     (case applyLobbyPatch (lr_snapshot (lob_state lc)) p of
        None \<Rightarrow> lc
      | Some l \<Rightarrow>
          handleStartedLobby cfg l c
            (patchSnapshot l LsReady (startPresenceLoop cfg sess (lc\<lparr>lob_attempt := 0\<rparr>))))"
| "lobby_event_handler cfg casts sess i c (LobbyMatchAssigned a) lc =
     (if lob_handledMatchId lc = la_matchId a then lc
      else lob_log (LobbyResume a) (lc\<lparr>lob_handledMatchId := la_matchId a\<rparr>))"
| "lobby_event_handler cfg casts sess i c (LobbyErrorEvent m) lc =
     (let lc1 = lobby_fails m (clear_ready_timer i lc);
          lc2 = (if includes_str (to_lower m) ''left this lobby'' then lobby_reset casts lc1 else lc1)
      in reject_ready i m lc2)"

definition lobby_onEvent ::
  "runtime_config \<Rightarrow> lobby_casts \<Rightarrow> auth_session option \<Rightarrow> nat \<Rightarrow> nat \<Rightarrow> lobby_event \<Rightarrow> lobby_ctl \<Rightarrow> lobby_ctl" where
  "lobby_onEvent cfg casts sess i c ev lc =
     (if i \<noteq> lob_requestId lc then lc else lobby_event_handler cfg casts sess i c ev lc)"

text \<open>What follows the promise of the stream.\<close>

definition poll_and_retry :: "runtime_config \<Rightarrow> lobby_ctl \<Rightarrow> lobby_ctl" where
  "poll_and_retry cfg lc = scheduleReconnect (startPollLoop cfg lc)"

definition stream_closed :: "runtime_config \<Rightarrow> nat \<Rightarrow> lobby_ctl \<Rightarrow> lobby_ctl" where
  "stream_closed cfg i lc =
     (if conn_reject lc i then reject_ready i ''Lobby connection closed'' (clear_ready_timer i lc)
      else if lr_snapshot (lob_state lc) \<noteq> None \<and> lr_lobbyId (lob_state lc) \<noteq> []
      then poll_and_retry cfg (lob_patchState (lr_status_update (\<lambda>_. LsReconnecting)) lc)
      else lc)"

definition stream_failed :: "runtime_config \<Rightarrow> nat \<Rightarrow> string \<Rightarrow> lobby_ctl \<Rightarrow> lobby_ctl" where
  "stream_failed cfg i m lc =
     (let lc1 = lob_patchState (\<lambda>st. st\<lparr>lr_status := (if lr_snapshot st \<noteq> None then LsReconnecting else LsError),
              lr_error := or_str m ''Lobby connection failed''\<rparr>) (clear_ready_timer i lc);
          lc2 = reject_ready i m lc1
      in if \<not> conn_reject lc2 i \<and> lr_snapshot (lob_state lc2) \<noteq> None \<and> lr_lobbyId (lob_state lc2) \<noteq> []
         then poll_and_retry cfg lc2 else lc2)"

definition conn_settled :: "runtime_config \<Rightarrow> nat \<Rightarrow> unit outcome \<Rightarrow> lobby_ctl \<Rightarrow> lobby_ctl" where
  "conn_settled cfg i r lc =
     (if i \<noteq> lob_requestId lc then lc
      else case r of
        Inr _ \<Rightarrow> stream_closed cfg i lc
      | Inl AbortError \<Rightarrow> lc
      | Inl (JsError m) \<Rightarrow> stream_failed cfg i m lc)"

text \<open>
  An event of a connection's websocket: the stream reacts, what it newly delivers reaches the
  callback, and what newly settles it the handlers of its promise.
\<close>

definition conn_event ::
  "runtime_config \<Rightarrow> lobby_casts \<Rightarrow> auth_session option \<Rightarrow> nat \<Rightarrow> stream_event \<Rightarrow> lobby_ctl \<Rightarrow> lobby_ctl" where
  "conn_event cfg casts sess i ev lc =
     (case conn_of lc i of
        None \<Rightarrow> lc
      | Some cn \<Rightarrow>
          (let s' = streamLobby_react casts ev (cn_stream cn);
               lc1 = patch_conn i (cn_stream_update (\<lambda>_. s')) lc;
               lc2 = fold (lobby_onEvent cfg casts sess i (cn_ctrl cn))
                       (drop (length (ls_delivered (cn_stream cn))) (ls_delivered s')) lc1
           in case (ls_settled (cn_stream cn), ls_settled s') of
                (None, Some r) \<Rightarrow> conn_settled cfg i r lc2
              | _ \<Rightarrow> lc2))"

text \<open>The ten-second timer of a connection that was waited for.\<close>

definition conn_timeout :: "lobby_casts \<Rightarrow> nat \<Rightarrow> lobby_ctl \<Rightarrow> lobby_ctl" where
  "conn_timeout casts i lc =
     (case conn_of lc i of
        None \<Rightarrow> lc
      | Some cn \<Rightarrow>
          if \<not> cn_timer cn then lc
          else abort_conn casts (cn_ctrl cn)
            (reject_ready i ''Lobby connection timed out'' (clear_ready_timer i lc)))"

section \<open>Steps\<close>

datatype lobby_ctl_event =
  LvEnsure string | LvCreate party_mode | LvJoin "string option" | LvLeave | LvKick string | LvTransfer string
| LvStart | LvSettings match_config "party_mode option" | LvTeam lobby_team | LvReset | LvDestroy
| LvStream nat stream_event | LvTimeout nat | LvReconnect | LvPresence | LvPoll
| LvFetched nat "lobby option outcome" | LvSession nat "auth_session option outcome"
| LvLobby nat "lobby outcome" | LvAssigned nat "live_assignment outcome"
| LvMatch nat "match_session_response outcome" | LvResumed nat "bool outcome"

definition take_task :: "nat \<Rightarrow> lobby_ctl \<Rightarrow> lobby_ctl" where
  [ctl_defs]: "take_task i lc = lc\<lparr>lob_tasks := filter (\<lambda>t. fst t \<noteq> i) (lob_tasks lc)\<rparr>"

definition reconnect_fires ::
  "runtime_config \<Rightarrow> lobby_casts \<Rightarrow> auth_session option \<Rightarrow> lobby_ctl \<Rightarrow> lobby_ctl" where
  "reconnect_fires cfg casts sess lc =
     (if lob_reconnect lc = None then lc
      else ensureStream cfg casts sess FreshReconnect (clearReconnectTimer lc))"

fun lobby_step ::
  "runtime_config \<Rightarrow> lobby_casts \<Rightarrow> auth_session option \<Rightarrow> lobby_ctl_event \<Rightarrow> lobby_ctl \<Rightarrow> lobby_ctl" where
  "lobby_step cfg casts sess (LvEnsure code) lc = ensureLobby cfg casts sess code lc"
| "lobby_step cfg casts sess (LvCreate mode) lc = createLobby mode lc"
| "lobby_step cfg casts sess (LvJoin code) lc = joinLobby code lc"
| "lobby_step cfg casts sess LvLeave lc = leaveLobby cfg casts sess lc"
| "lobby_step cfg casts sess (LvKick u) lc = kickMember cfg sess u lc"
| "lobby_step cfg casts sess (LvTransfer u) lc = transferOwner cfg sess u lc"
| "lobby_step cfg casts sess LvStart lc = startLobby cfg sess lc"
| "lobby_step cfg casts sess (LvSettings c mode) lc = updateSettings cfg sess c mode lc"
| "lobby_step cfg casts sess (LvTeam t) lc = switchTeam cfg sess t lc"
| "lobby_step cfg casts sess LvReset lc = lobby_reset casts lc"
| "lobby_step cfg casts sess LvDestroy lc = lobby_destroy casts lc"
| "lobby_step cfg casts sess (LvStream i ev) lc = conn_event cfg casts sess i ev lc"
| "lobby_step cfg casts sess (LvTimeout i) lc = conn_timeout casts i lc"
| "lobby_step cfg casts sess LvReconnect lc = reconnect_fires cfg casts sess lc"
| "lobby_step cfg casts sess LvPresence lc = (if lob_presence lc then presence_tick cfg sess lc else lc)"
| "lobby_step cfg casts sess LvPoll lc = (if lob_poll lc then poll_tick cfg lc else lc)"
| "lobby_step cfg casts sess (LvFetched j r) lc =
     (case map_of (lob_tasks lc) j of
        Some WEnsure \<Rightarrow> lobby_fetched cfg casts sess r (take_task j lc)
      | Some WPoll \<Rightarrow> poll_fetched r (take_task j lc)
      | _ \<Rightarrow> lc)"
| "lobby_step cfg casts sess (LvSession j r) lc =
     (case map_of (lob_tasks lc) j of
        Some (WPlayable p) \<Rightarrow> lobby_playable cfg p r (take_task j lc)
      | Some (WFresh ctx) \<Rightarrow> stream_session cfg casts ctx r (take_task j lc)
      | _ \<Rightarrow> lc)"
| "lobby_step cfg casts sess (LvLobby j r) lc =
     (case map_of (lob_tasks lc) j of
        Some (WOpen p s) \<Rightarrow> lobby_opened cfg casts p s r (take_task j lc)
      | Some WLeave \<Rightarrow> lobby_left casts r (take_task j lc)
      | Some (WChange fallback) \<Rightarrow> lobby_changed fallback r (take_task j lc)
      | _ \<Rightarrow> lc)"
| "lobby_step cfg casts sess (LvAssigned j r) lc =
     (case map_of (lob_tasks lc) j of
        Some WStart \<Rightarrow> start_assigned r (take_task j lc)
      | _ \<Rightarrow> lc)"
| "lobby_step cfg casts sess (LvMatch j r) lc =
     (case map_of (lob_tasks lc) j of
        Some (WStarted matchId c) \<Rightarrow> started_fetched matchId c r (take_task j lc)
      | _ \<Rightarrow> lc)"
| "lobby_step cfg casts sess (LvResumed j r) lc =
     (case map_of (lob_tasks lc) j of
        Some WStartResume \<Rightarrow> start_resumed r (take_task j lc)
      | Some (WStartedResume matchId) \<Rightarrow> started_resumed matchId r (take_task j lc)
      | _ \<Rightarrow> lc)"

inductive lobby_reachable :: "runtime_config \<Rightarrow> lobby_casts \<Rightarrow> lobby_ctl \<Rightarrow> bool"
  for cfg :: runtime_config and casts :: lobby_casts where
  lobby_new: "lobby_reachable cfg casts new_lobby_ctl"
| lobby_next: "lobby_reachable cfg casts lc \<Longrightarrow> lobby_reachable cfg casts (lobby_step cfg casts sess ev lc)"

inductive_cases lobby_reachable_cases: "lobby_reachable cfg casts lc"

section \<open>What the operations leave alone\<close>

lemma lob_log_simps [simp]:
  "lob_state (lob_log x lc) = lob_state lc" "lob_streamAbort (lob_log x lc) = lob_streamAbort lc"
  "lob_streamSession (lob_log x lc) = lob_streamSession lc"
  "lob_presence (lob_log x lc) = lob_presence lc" "lob_poll (lob_log x lc) = lob_poll lc"
  "lob_reconnect (lob_log x lc) = lob_reconnect lc" "lob_attempt (lob_log x lc) = lob_attempt lc"
  "lob_handledMatchId (lob_log x lc) = lob_handledMatchId lc"
  "lob_requestId (lob_log x lc) = lob_requestId lc" "lob_destroyed (lob_log x lc) = lob_destroyed lc"
  "lob_nextAbort (lob_log x lc) = lob_nextAbort lc" "lob_aborted (lob_log x lc) = lob_aborted lc"
  "lob_conns (lob_log x lc) = lob_conns lc" "lob_tasks (lob_log x lc) = lob_tasks lc"
  "lob_nextTask (lob_log x lc) = lob_nextTask lc"
  by (simp_all add: ctl_defs Let_def)

lemma lob_patch_simps [simp]:
  "lob_streamAbort (lob_patchState f lc) = lob_streamAbort lc"
  "lob_streamSession (lob_patchState f lc) = lob_streamSession lc"
  "lob_presence (lob_patchState f lc) = lob_presence lc" "lob_poll (lob_patchState f lc) = lob_poll lc"
  "lob_reconnect (lob_patchState f lc) = lob_reconnect lc"
  "lob_attempt (lob_patchState f lc) = lob_attempt lc"
  "lob_handledMatchId (lob_patchState f lc) = lob_handledMatchId lc"
  "lob_requestId (lob_patchState f lc) = lob_requestId lc"
  "lob_destroyed (lob_patchState f lc) = lob_destroyed lc"
  "lob_nextAbort (lob_patchState f lc) = lob_nextAbort lc"
  "lob_aborted (lob_patchState f lc) = lob_aborted lc" "lob_conns (lob_patchState f lc) = lob_conns lc"
  "lob_tasks (lob_patchState f lc) = lob_tasks lc" "lob_nextTask (lob_patchState f lc) = lob_nextTask lc"
  "lob_state (lob_patchState f lc) = f (lob_state lc)"
  by (simp_all add: ctl_defs Let_def)

lemma lob_await_simps [simp]:
  "lob_state (lob_await w lc) = lob_state lc" "lob_streamAbort (lob_await w lc) = lob_streamAbort lc"
  "lob_streamSession (lob_await w lc) = lob_streamSession lc"
  "lob_presence (lob_await w lc) = lob_presence lc" "lob_poll (lob_await w lc) = lob_poll lc"
  "lob_reconnect (lob_await w lc) = lob_reconnect lc" "lob_attempt (lob_await w lc) = lob_attempt lc"
  "lob_handledMatchId (lob_await w lc) = lob_handledMatchId lc"
  "lob_requestId (lob_await w lc) = lob_requestId lc" "lob_destroyed (lob_await w lc) = lob_destroyed lc"
  "lob_nextAbort (lob_await w lc) = lob_nextAbort lc" "lob_aborted (lob_await w lc) = lob_aborted lc"
  "lob_conns (lob_await w lc) = lob_conns lc" "lob_out (lob_await w lc) = lob_out lc"
  by (simp_all add: ctl_defs Let_def)

lemma patch_conn_simps [simp]:
  "lob_state (patch_conn i f lc) = lob_state lc"
  "lob_streamAbort (patch_conn i f lc) = lob_streamAbort lc"
  "lob_streamSession (patch_conn i f lc) = lob_streamSession lc"
  "lob_presence (patch_conn i f lc) = lob_presence lc" "lob_poll (patch_conn i f lc) = lob_poll lc"
  "lob_reconnect (patch_conn i f lc) = lob_reconnect lc"
  "lob_attempt (patch_conn i f lc) = lob_attempt lc"
  "lob_handledMatchId (patch_conn i f lc) = lob_handledMatchId lc"
  "lob_requestId (patch_conn i f lc) = lob_requestId lc"
  "lob_destroyed (patch_conn i f lc) = lob_destroyed lc"
  "lob_nextAbort (patch_conn i f lc) = lob_nextAbort lc"
  "lob_aborted (patch_conn i f lc) = lob_aborted lc" "lob_tasks (patch_conn i f lc) = lob_tasks lc"
  "lob_nextTask (patch_conn i f lc) = lob_nextTask lc" "lob_out (patch_conn i f lc) = lob_out lc"
  by (simp_all add: ctl_defs Let_def)

lemma take_task_simps [simp]:
  "lob_state (take_task i lc) = lob_state lc" "lob_streamAbort (take_task i lc) = lob_streamAbort lc"
  "lob_streamSession (take_task i lc) = lob_streamSession lc"
  "lob_presence (take_task i lc) = lob_presence lc" "lob_poll (take_task i lc) = lob_poll lc"
  "lob_reconnect (take_task i lc) = lob_reconnect lc" "lob_attempt (take_task i lc) = lob_attempt lc"
  "lob_handledMatchId (take_task i lc) = lob_handledMatchId lc"
  "lob_requestId (take_task i lc) = lob_requestId lc" "lob_destroyed (take_task i lc) = lob_destroyed lc"
  "lob_nextAbort (take_task i lc) = lob_nextAbort lc" "lob_aborted (take_task i lc) = lob_aborted lc"
  "lob_conns (take_task i lc) = lob_conns lc" "lob_nextTask (take_task i lc) = lob_nextTask lc"
  "lob_out (take_task i lc) = lob_out lc"
  by (simp_all add: ctl_defs Let_def)

lemma abort_conn_simps [simp]:
  "lob_state (abort_conn casts c lc) = lob_state lc" "lob_reconnect (abort_conn casts c lc) = lob_reconnect lc"
  "lob_requestId (abort_conn casts c lc) = lob_requestId lc" "lob_out (abort_conn casts c lc) = lob_out lc"
  "lob_tasks (abort_conn casts c lc) = lob_tasks lc" "lob_handledMatchId (abort_conn casts c lc) = lob_handledMatchId lc"
  "lob_attempt (abort_conn casts c lc) = lob_attempt lc" "lob_poll (abort_conn casts c lc) = lob_poll lc"
  by (simp_all add: abort_conn_def)

lemma abortStream_simps [simp]:
  "lob_state (abortStream casts lc) = lob_state lc" "lob_reconnect (abortStream casts lc) = lob_reconnect lc"
  "lob_requestId (abortStream casts lc) = lob_requestId lc" "lob_out (abortStream casts lc) = lob_out lc"
  "lob_attempt (abortStream casts lc) = lob_attempt lc" "lob_tasks (abortStream casts lc) = lob_tasks lc"
  by (simp_all add: abortStream_def split: option.splits)

lemma clearReconnectTimer_simps [simp]:
  "lob_state (clearReconnectTimer lc) = lob_state lc" "lob_reconnect (clearReconnectTimer lc) = None"
  "lob_requestId (clearReconnectTimer lc) = lob_requestId lc" "lob_tasks (clearReconnectTimer lc) = lob_tasks lc"
  "lob_attempt (clearReconnectTimer lc) = lob_attempt lc"
  by (simp_all add: clearReconnectTimer_def)

lemma presence_tick_simps [simp]:
  "lob_state (presence_tick cfg sess lc) = lob_state lc" "lob_reconnect (presence_tick cfg sess lc) = lob_reconnect lc"
  "lob_requestId (presence_tick cfg sess lc) = lob_requestId lc"
  by (simp_all add: presence_tick_def split: option.splits)

lemma startPresenceLoop_simps [simp]:
  "lob_state (startPresenceLoop cfg sess lc) = lob_state lc"
  "lob_reconnect (startPresenceLoop cfg sess lc) = lob_reconnect lc"
  "lob_requestId (startPresenceLoop cfg sess lc) = lob_requestId lc"
  by (simp_all add: startPresenceLoop_def)

lemma poll_simps [simp]:
  "lob_state (poll_tick cfg lc) = lob_state lc" "lob_reconnect (poll_tick cfg lc) = lob_reconnect lc"
  "lob_attempt (poll_tick cfg lc) = lob_attempt lc" "lob_state (startPollLoop cfg lc) = lob_state lc"
  "lob_reconnect (startPollLoop cfg lc) = lob_reconnect lc" "lob_attempt (startPollLoop cfg lc) = lob_attempt lc"
  "lob_poll (startPollLoop cfg lc)"
  by (simp_all add: startPollLoop_def poll_tick_def Let_def)

lemma scheduleReconnect_state [simp]: "lob_state (scheduleReconnect lc) = lob_state lc"
  by (simp add: scheduleReconnect_def)

lemma reconnect_delay_bounds: "1000 \<le> reconnect_delay k \<and> reconnect_delay k \<le> 10000"
proof -
  have "k = 0 \<or> k = 1 \<or> k = 2 \<or> min k 3 = 3" by arith
  then show ?thesis by (auto simp: reconnect_delay_def eval_nat_numeral)
qed

lemma reconnect_delay_mono: "reconnect_delay k \<le> reconnect_delay (k + 1)"
proof -
  have "k = 0 \<or> k = 1 \<or> k = 2 \<or> min k 3 = 3 \<and> min (k + 1) 3 = 3" by arith
  then show ?thesis by (auto simp: reconnect_delay_def eval_nat_numeral)
qed

section \<open>The shown lobby\<close>

text \<open>A ready or reconnecting lobby is shown, and its id is the one commands go to.\<close>

definition shown_ok :: "lobby_runtime \<Rightarrow> bool" where
  "shown_ok st \<longleftrightarrow>
     (lr_status st \<in> {LsReady, LsReconnecting} \<longrightarrow> lr_snapshot st \<noteq> None) \<and>
     (\<forall>l. lr_snapshot st = Some l \<longrightarrow> lr_lobbyId st = lb_id l)"

definition lobby_inv :: "lobby_ctl \<Rightarrow> bool" where
  "lobby_inv lc \<longleftrightarrow>
     shown_ok (lob_state lc) \<and> (\<forall>d. lob_reconnect lc = Some d \<longrightarrow> 1000 \<le> d \<and> d \<le> 10000)"

lemma lobby_inv_same:
  "lobby_inv lc \<Longrightarrow> lob_state lc' = lob_state lc \<Longrightarrow> lob_reconnect lc' = lob_reconnect lc \<Longrightarrow> lobby_inv lc'"
  by (simp add: lobby_inv_def)

lemma lobby_inv_patch:
  "lobby_inv lc \<Longrightarrow> (shown_ok (lob_state lc) \<Longrightarrow> shown_ok (f (lob_state lc))) \<Longrightarrow> lobby_inv (lob_patchState f lc)"
  by (simp add: lobby_inv_def)

lemma lobby_inv_simps [simp]:
  "lobby_inv (lob_log x lc) = lobby_inv lc" "lobby_inv (lob_await w lc) = lobby_inv lc"
  "lobby_inv (patch_conn i f lc) = lobby_inv lc" "lobby_inv (take_task i lc) = lobby_inv lc"
  "lobby_inv (abort_conn casts c lc) = lobby_inv lc" "lobby_inv (abortStream casts lc) = lobby_inv lc"
  "lobby_inv (presence_tick cfg sess lc) = lobby_inv lc" "lobby_inv (poll_tick cfg lc) = lobby_inv lc"
  "lobby_inv (startPresenceLoop cfg sess lc) = lobby_inv lc" "lobby_inv (startPollLoop cfg lc) = lobby_inv lc"
  "lobby_inv (clear_ready_timer i lc) = lobby_inv lc"
  "lobby_inv (lc\<lparr>lob_handledMatchId := h\<rparr>) = lobby_inv lc" "lobby_inv (lc\<lparr>lob_attempt := k\<rparr>) = lobby_inv lc"
  "lobby_inv (lc\<lparr>lob_attempt := k, lob_poll := b\<rparr>) = lobby_inv lc"
  by (simp_all add: lobby_inv_def clear_ready_timer_def)

lemma lobby_inv_error [simp]: "lobby_inv lc \<Longrightarrow> lobby_inv (set_lobby_error m lc)"
  by (auto simp: set_lobby_error_def shown_ok_def intro!: lobby_inv_patch)

lemma lobby_inv_fails [simp]: "lobby_inv lc \<Longrightarrow> lobby_inv (lobby_fails m lc)"
  by (auto simp: lobby_fails_def shown_ok_def intro!: lobby_inv_patch)

lemma lobby_inv_snapshot [simp]: "lobby_inv lc \<Longrightarrow> lobby_inv (patchSnapshot l st lc)"
  by (auto simp: patchSnapshot_def shown_ok_def intro!: lobby_inv_patch)

lemma lobby_inv_schedule [simp]: "lobby_inv lc \<Longrightarrow> lobby_inv (scheduleReconnect lc)"
  using reconnect_delay_bounds by (auto simp: scheduleReconnect_def lobby_inv_def)

lemma lobby_inv_clear [simp]: "lobby_inv lc \<Longrightarrow> lobby_inv (clearReconnectTimer lc)"
  by (simp add: lobby_inv_def)

lemma lobby_inv_stop [simp]: "lobby_inv lc \<Longrightarrow> lobby_inv (stopLoops casts lc)"
  by (simp add: stopLoops_def lobby_inv_def)

lemma stopLoops_state [simp]:
  "lob_state (stopLoops casts lc) = lob_state lc" "lob_reconnect (stopLoops casts lc) = None"
  "lob_requestId (stopLoops casts lc) = lob_requestId lc"
  by (simp_all add: stopLoops_def)

lemma lobby_inv_reset [simp]: "lobby_inv lc \<Longrightarrow> lobby_inv (lobby_reset casts lc)"
  by (auto simp: lobby_reset_def shown_ok_def initial_lobby_state_def lobby_inv_def)

lemma lobby_inv_connect [simp]: "lobby_inv lc \<Longrightarrow> lobby_inv (connectToLobby cfg casts s i w lc)"
  by (simp add: connectToLobby_def Let_def lobby_inv_def shown_ok_def)

lemma lobby_inv_ensureStream [simp]: "lobby_inv lc \<Longrightarrow> lobby_inv (ensureStream cfg casts sess ctx lc)"
  by (simp add: ensureStream_def Let_def split: option.splits)

lemma lobby_inv_ready [simp]:
  "lobby_inv lc \<Longrightarrow> lobby_inv (resolve_ready i lc)" "lobby_inv lc \<Longrightarrow> lobby_inv (reject_ready i m lc)"
  by (simp_all add: resolve_ready_def reject_ready_def Let_def split: option.splits)

lemma lobby_inv_started [simp]: "lobby_inv lc \<Longrightarrow> lobby_inv (handleStartedLobby cfg l c lc)"
  by (simp add: handleStartedLobby_def Let_def split: option.splits)

lemma lobby_inv_handler: "lobby_inv lc \<Longrightarrow> lobby_inv (lobby_onEvent cfg casts sess i c ev lc)"
  by (cases ev) (simp_all add: lobby_onEvent_def Let_def split: option.splits)

lemma lobby_inv_retry [simp]: "lobby_inv lc \<Longrightarrow> lobby_inv (poll_and_retry cfg lc)"
  by (simp add: poll_and_retry_def)

lemma lobby_inv_closed: "lobby_inv lc \<Longrightarrow> lobby_inv (stream_closed cfg i lc)"
  by (auto simp: stream_closed_def shown_ok_def intro!: lobby_inv_retry lobby_inv_ready lobby_inv_patch)

lemma lobby_inv_failed:
  assumes "lobby_inv lc"
  shows "lobby_inv (stream_failed cfg i m lc)"
proof -
  let ?lc1 = "lob_patchState (\<lambda>st. st\<lparr>lr_status := (if lr_snapshot st \<noteq> None then LsReconnecting else LsError),
     lr_error := or_str m ''Lobby connection failed''\<rparr>) (clear_ready_timer i lc)"
  have "lobby_inv ?lc1"
    by (rule lobby_inv_patch) (use assms in \<open>auto simp: shown_ok_def\<close>)
  then have "lobby_inv (reject_ready i m ?lc1)" by (rule lobby_inv_ready)
  then show ?thesis by (simp add: stream_failed_def Let_def)
qed

lemma lobby_inv_settled [simp]: "lobby_inv lc \<Longrightarrow> lobby_inv (conn_settled cfg i r lc)"
  by (simp add: conn_settled_def lobby_inv_closed lobby_inv_failed split: sum.splits js_error.splits)

lemma lobby_inv_conn_event [simp]: "lobby_inv lc \<Longrightarrow> lobby_inv (conn_event cfg casts sess i ev lc)"
proof -
  have events: "lobby_inv lc \<Longrightarrow> lobby_inv (fold (lobby_onEvent cfg casts sess i c) evs lc)" for c evs lc
    by (induction evs arbitrary: lc) (simp_all add: lobby_inv_handler)
  assume "lobby_inv lc"
  then show ?thesis by (auto simp: conn_event_def Let_def intro!: events lobby_inv_settled split: option.splits)
qed

lemma lobby_inv_open [simp]:
  "lobby_inv lc \<Longrightarrow> lobby_inv (ensureLobby cfg casts sess code lc)"
  "lobby_inv lc \<Longrightarrow> lobby_inv (lobby_fetched cfg casts sess fr lc)"
  "lobby_inv lc \<Longrightarrow> lobby_inv (createLobby mode lc)"
  "lobby_inv lc \<Longrightarrow> lobby_inv (joinLobby jc lc)"
  "lobby_inv lc \<Longrightarrow> lobby_inv (lobby_opened cfg casts p s r lc)"
  by (auto simp: ensureLobby_def lobby_fetched_def createLobby_def joinLobby_def lobby_opened_def op_failed_def
      Let_def intro!: lobby_inv_patch lobby_inv_ensureStream lobby_inv_connect simp: shown_ok_def
      split: sum.splits option.splits)

lemma lobby_inv_playable [simp]: "lobby_inv lc \<Longrightarrow> lobby_inv (lobby_playable cfg p r lc)"
  by (auto simp: lobby_playable_def op_failed_def split: sum.splits option.splits)

lemma lobby_inv_leave [simp]:
  "lobby_inv lc \<Longrightarrow> lobby_inv (leaveLobby cfg casts sess lc)" "lobby_inv lc \<Longrightarrow> lobby_inv (lobby_left casts r lc)"
  by (auto simp: leaveLobby_def lobby_left_def Let_def intro!: lobby_inv_patch lobby_inv_reset simp: shown_ok_def
      split: sum.splits option.splits)

lemma lobby_inv_command [simp]: "lobby_inv lc \<Longrightarrow> lobby_inv (lobby_command sess req w lc)"
  by (simp add: lobby_command_def Let_def split: option.splits)

lemma lobby_inv_answers [simp]:
  "lobby_inv lc \<Longrightarrow> lobby_inv (lobby_changed fb lr lc)" "lobby_inv lc \<Longrightarrow> lobby_inv (start_assigned ar lc)"
  "lobby_inv lc \<Longrightarrow> lobby_inv (start_resumed br lc)" "lobby_inv lc \<Longrightarrow> lobby_inv (started_fetched m c mr lc)"
  "lobby_inv lc \<Longrightarrow> lobby_inv (started_resumed m br lc)" "lobby_inv lc \<Longrightarrow> lobby_inv (poll_fetched fr lc)"
  "lobby_inv lc \<Longrightarrow> lobby_inv (stream_session cfg casts ctx sr lc)"
  by (auto simp: lobby_changed_def start_assigned_def start_resumed_def started_fetched_def started_resumed_def
      poll_fetched_def stream_session_def split: sum.splits option.splits match_session_response.splits fresh_ctx.splits)

lemma lobby_inv_destroy [simp]: "lobby_inv lc \<Longrightarrow> lobby_inv (lobby_destroy casts lc)"
  by (simp add: lobby_destroy_def lobby_inv_def)

lemma lobby_inv_step: "lobby_inv lc \<Longrightarrow> lobby_inv (lobby_step cfg casts sess ev lc)"
  by (cases ev)
     (simp_all add: kickMember_def transferOwner_def updateSettings_def switchTeam_def startLobby_def
       conn_timeout_def reconnect_fires_def
       split: option.splits lobby_stage.splits)

interpretation lobby_machine: invariant_machine "lobby_step cfg casts sess" lobby_inv
  by unfold_locales (rule lobby_inv_step)

lemma reachable_lobby_inv: "lobby_reachable cfg casts lc \<Longrightarrow> lobby_inv lc"
  by (induction rule: lobby_reachable.induct)
     (simp_all add: lobby_inv_step, simp add: lobby_inv_def shown_ok_def new_lobby_ctl_def initial_lobby_state_def)

section \<open>The latest connection wins\<close>

lemma connectToLobby_request [simp]:
  "lob_requestId (connectToLobby cfg casts s i w lc) = lob_requestId lc + 1"
  by (simp add: connectToLobby_def Let_def)

text \<open>What a connection's stream hands to the controller: an event or its settlement.\<close>

fun conn_deliver ::
  "runtime_config \<Rightarrow> lobby_casts \<Rightarrow> nat \<Rightarrow> (auth_session option \<times> nat \<times> lobby_event) + unit outcome \<Rightarrow> lobby_ctl \<Rightarrow> lobby_ctl" where
  "conn_deliver cfg casts i (Inl (sess, c, ev)) lc = lobby_onEvent cfg casts sess i c ev lc"
| "conn_deliver cfg casts i (Inr r) lc = conn_settled cfg i r lc"

interpretation lobby_connections:
  latest_wins "connectToLobby cfg casts s lobbyId w" lob_requestId "conn_deliver cfg casts"
proof unfold_locales
  show "lob_requestId lc < lob_requestId (connectToLobby cfg casts s lobbyId w lc)" for lc by simp
  show "conn_deliver cfg casts i e lc = lc" if "i \<noteq> lob_requestId lc" for i e lc
    using that by (cases e) (auto simp: lobby_onEvent_def conn_settled_def)
qed

text \<open>Everything but the connections themselves.\<close>

definition lobby_view :: "lobby_ctl \<Rightarrow> lobby_ctl" where
  "lobby_view lc = lc\<lparr>lob_conns := []\<rparr>"

lemma find_map_same:
  "(\<And>c. cn_id (f c) = cn_id c) \<Longrightarrow>
   find (\<lambda>c. cn_id c = i) (map (\<lambda>c. if cn_id c = i then f c else c) cs) =
   map_option f (find (\<lambda>c. cn_id c = i) cs)"
  by (induction cs) auto

lemma conn_of_patch:
  "(\<And>c. cn_id (f c) = cn_id c) \<Longrightarrow> conn_of (patch_conn i f lc) i = map_option f (conn_of lc i)"
  by (simp add: conn_of_def patch_conn_def find_map_same)

lemma conn_flags_patch [simp]:
  "conn_reject (patch_conn i (cn_stream_update g) lc) i = conn_reject lc i"
  "conn_reject (clear_ready_timer i lc) i = conn_reject lc i"
  "conn_waiter (patch_conn i (cn_stream_update g) lc) i = conn_waiter lc i"
  "conn_waiter (clear_ready_timer i lc) i = conn_waiter lc i"
  by (simp_all add: conn_reject_def conn_waiter_def clear_ready_timer_def conn_of_patch split: option.splits)

lemma clear_ready_timer_simps [simp]:
  "lob_state (clear_ready_timer i lc) = lob_state lc" "lob_requestId (clear_ready_timer i lc) = lob_requestId lc"
  "lob_reconnect (clear_ready_timer i lc) = lob_reconnect lc"
  by (simp_all add: clear_ready_timer_def)

lemma stale_conn_event:
  assumes "i \<noteq> lob_requestId lc"
  shows "lobby_view (conn_event cfg casts sess i ev lc) = lobby_view lc \<and>
         lob_requestId (conn_event cfg casts sess i ev lc) = lob_requestId lc"
proof (cases "conn_of lc i")
  case (Some cn)
  let ?lc1 = "patch_conn i (cn_stream_update (\<lambda>_. streamLobby_react casts ev (cn_stream cn))) lc"
  have evs: "fold (lobby_onEvent cfg casts sess i c) es lc1 = lc1" if "i \<noteq> lob_requestId lc1" for c es lc1
    using that by (induction es) (simp_all add: lobby_onEvent_def)
  have "conn_event cfg casts sess i ev lc = ?lc1"
    using Some assms by (simp add: conn_event_def Let_def evs conn_settled_def split: option.splits)
  then show ?thesis by (simp add: lobby_view_def patch_conn_def)
qed (simp add: conn_event_def)

section \<open>Properties\<close>

text \<open>
  C13. Only the latest lobby connection's websocket speaks: once the controller has connected again, no
  events of the websockets of older connections (snapshot, patch, assignment, error, close), of however
  many of them and however interleaved, change the shown lobby, start a request, resume a match or
  schedule a retry. What an older connection can still do is run into its ten-second timer, and this
  shows an error exactly when the call that opened the connection still waits for its first snapshot
  (\<open>superseded_join_times_out\<close> below); otherwise the timer shows nothing.
\<close>

theorem superseded_lobby_stream_silent:
  fixes cfg casts s lobbyId w lc es
  assumes "\<forall>(sess, i, ev)\<in>set es. i \<le> lob_requestId lc"
  defines "lc' \<equiv> connectToLobby cfg casts s lobbyId w lc"
  defines "t \<equiv> fold (\<lambda>(sess, i, ev). lobby_step cfg casts sess (LvStream i ev)) es lc'"
  shows "lobby_view t = lobby_view lc' \<and>
    (\<forall>sess j. lob_state (lobby_step cfg casts sess (LvTimeout j) t) =
       (case conn_of t j of
          None \<Rightarrow> lob_state t
        | Some cn \<Rightarrow>
            if cn_timer cn \<and> cn_waiter cn \<noteq> None
            then (lob_state t)\<lparr>lr_status := LsError, lr_error := ''Lobby connection timed out''\<rparr>
            else lob_state t))"
proof -
  have "lobby_view (fold (\<lambda>(sess, i, ev). lobby_step cfg casts sess (LvStream i ev)) es x) = lobby_view x"
    if "\<forall>(sess, i, ev)\<in>set es. i < lob_requestId x" for x
    using that
  proof (induction es arbitrary: x)
    case (Cons e es)
    obtain sess i ev where e: "e = (sess, i, ev)" by (cases e)
    then have "i \<noteq> lob_requestId x" using Cons.prems by simp
    from stale_conn_event [OF this, of cfg casts sess ev] Cons show ?case by (simp add: e)
  qed simp
  moreover have "\<forall>(sess, i, ev)\<in>set es. i < lob_requestId lc'"
    using assms(1) lobby_connections.issue_fresh [of lc cfg casts s lobbyId w] by (auto simp: lc'_def)
  ultimately have "lobby_view t = lobby_view lc'" by (simp add: t_def)
  moreover have "lob_state (lobby_step cfg casts sess (LvTimeout j) t) =
       (case conn_of t j of
          None \<Rightarrow> lob_state t
        | Some cn \<Rightarrow>
            if cn_timer cn \<and> cn_waiter cn \<noteq> None
            then (lob_state t)\<lparr>lr_status := LsError, lr_error := ''Lobby connection timed out''\<rparr>
            else lob_state t)" for sess j
  proof (cases "conn_of t j")
    case (Some cn)
    then have "conn_waiter t j = cn_waiter cn" by (simp add: conn_waiter_def)
    with Some show ?thesis
      by (cases "cn_waiter cn") (simp_all add: conn_timeout_def reject_ready_def lobby_fails_def or_str_def)
  qed (simp add: conn_timeout_def)
  ultimately show ?thesis by blast
qed

text \<open>A member of \<open>sample_lobby\<close>, and the casts of the concrete runs.\<close>

definition lobby_user :: auth_session where
  "lobby_user = emptyAuthSession\<lparr>s_userId := ''u1'', s_accessToken := ''tok''\<rparr>"

definition lobby_config :: runtime_config where
  "lobby_config = createRuntimeConfig (\<lambda>_. None) []"

definition other_lobby :: lobby where
  "other_lobby = sample_lobby\<lparr>lb_id := ''l2'', lb_inviteCode := ''XYZ'', lb_members := [sample_member ''u9'']\<rparr>"

definition sample_casts :: lobby_casts where
  "sample_casts = \<lparr>as_lobby = (\<lambda>_. sample_lobby), as_patch = (\<lambda>_. sample_patch),
     as_assignment = (\<lambda>_. read_assignment [] Null)\<rparr>"

text \<open>Two connections in a row, and the first one's websocket fails and closes.\<close>

definition reconnected :: lobby_ctl where
  "reconnected = connectToLobby lobby_config sample_casts lobby_user ''l2'' None
     (connectToLobby lobby_config sample_casts lobby_user ''l1'' None new_lobby_ctl)"

theorem superseded_lobby_stream_silent_witness:
  "lobby_view (fold (\<lambda>(sess, i, ev). lobby_step lobby_config sample_casts sess (LvStream i ev))
       [(Some lobby_user, 1, StreamWsError), (None, 1, StreamWsClose)] reconnected) = lobby_view reconnected"
proof -
  let ?lc = "connectToLobby lobby_config sample_casts lobby_user ''l1'' None new_lobby_ctl"
  have "lob_requestId ?lc = 1"
    using lobby_connections.issue_fresh [of new_lobby_ctl lobby_config sample_casts lobby_user "''l1''" None]
    by (simp add: connectToLobby_def abortStream_def clearReconnectTimer_def new_lobby_ctl_def ctl_defs Let_def)
  then have "\<forall>(sess :: auth_session option, i, ev)\<in>set [(Some lobby_user, 1, StreamWsError), (None, 1, StreamWsClose)].
      i \<le> lob_requestId ?lc" by simp
  from superseded_lobby_stream_silent [OF this, of lobby_config sample_casts lobby_user "''l2''" None]
  show ?thesis by (simp add: reconnected_def)
qed

text \<open>
  C14. A lobby shown as ready or reconnecting is really there, its id is the one every command of the
  member goes to, and a pending retry waits between one and ten seconds.
\<close>

theorem shown_lobby_consistent:
  assumes "lobby_reachable cfg casts lc"
  shows "(lr_status (lob_state lc) \<in> {LsReady, LsReconnecting} \<longrightarrow> lr_snapshot (lob_state lc) \<noteq> None) \<and>
    (\<forall>l. lr_snapshot (lob_state lc) = Some l \<longrightarrow> lr_lobbyId (lob_state lc) = lb_id l) \<and>
    (\<forall>d. lob_reconnect lc = Some d \<longrightarrow> 1000 \<le> d \<and> d \<le> 10000)"
  using reachable_lobby_inv [OF assms] by (simp add: lobby_inv_def shown_ok_def)

text \<open>A lobby opened by its link: the answer of the coordinator has arrived and its socket is being opened.\<close>

definition linked :: lobby_ctl where
  "linked = lobby_step lobby_config sample_casts (Some lobby_user) (LvFetched 0 (Inr (Some sample_lobby)))
     (lobby_step lobby_config sample_casts (Some lobby_user) (LvEnsure ''abc'') new_lobby_ctl)"

lemma linked_reachable: "lobby_reachable lobby_config sample_casts linked"
  unfolding linked_def by (intro lobby_next lobby_new)

lemmas lobby_runs = new_lobby_ctl_def initial_lobby_state_def ensureLobby_def lobby_fetched_def ensureStream_def
  isCurrentUserMember_def sample_lobby_def sample_member_def lobby_user_def emptyAuthSession_def connectToLobby_def
  abortStream_def clearReconnectTimer_def ctl_defs Let_def

lemma linked_facts:
  "lr_status (lob_state linked) = LsReconnecting" "lr_lobbyId (lob_state linked) = ''l1''"
  "lr_snapshot (lob_state linked) = Some sample_lobby" "lob_requestId linked = 1"
  by (simp_all add: linked_def lobby_runs to_upper_def upper_char_def js_trim_def is_space_def)

theorem shown_lobby_consistent_witness: "lr_snapshot (lob_state linked) \<noteq> None"
  using shown_lobby_consistent [OF linked_reachable] linked_facts(1) by simp

lemma lobby_reset_simps [simp]:
  "lob_state (lobby_reset casts lc) = initial_lobby_state" "lob_tasks (lobby_reset casts lc) = lob_tasks lc"
  by (simp_all add: lobby_reset_def stopLoops_def)

text \<open>
  C15. A lobby stream that drops is retried: when the socket of a shown lobby closes by itself, the
  lobby stays on screen as reconnecting, polling starts, a retry is scheduled with a delay that does
  not shrink from one failure to the next and is at most ten seconds, and when it fires for a member it
  opens a new socket to the same lobby.
\<close>

theorem dropped_lobby_stream_retries:
  fixes cfg casts lc i cn l sess s
  assumes "conn_of lc i = Some cn" and "i = lob_requestId lc" and "ls_settled (cn_stream cn) = None"
    and "\<not> ls_aborted (cn_stream cn)" and "\<not> cn_reject cn" and "lr_snapshot (lob_state lc) = Some l"
    and "lr_lobbyId (lob_state lc) \<noteq> []" and "lob_reconnect lc = None"
    and "sess = Some s" and "isCurrentUserMember sess (Some l)"
  defines "lc1 \<equiv> lobby_step cfg casts sess (LvStream i StreamWsClose) lc"
  shows "lr_status (lob_state lc1) = LsReconnecting \<and> lr_snapshot (lob_state lc1) = Some l \<and> lob_poll lc1 \<and>
    lob_reconnect lc1 = Some (reconnect_delay (lob_attempt lc)) \<and> lob_attempt lc1 = lob_attempt lc + 1 \<and>
    reconnect_delay (lob_attempt lc) \<le> reconnect_delay (lob_attempt lc1) \<and> reconnect_delay (lob_attempt lc1) \<le> 10000 \<and>
    lob_requestId (lobby_step cfg casts sess LvReconnect lc1) = lob_requestId lc1 + 1 \<and>
    last (lob_out (lobby_step cfg casts sess LvReconnect lc1)) =
      LobbySocket (lobbyWSTarget cfg (lr_lobbyId (lob_state lc)) (s_accessToken s))"
proof -
  let ?lc0 = "patch_conn i (cn_stream_update (\<lambda>_. streamLobby_react casts StreamWsClose (cn_stream cn))) lc"
  have "lc1 = poll_and_retry cfg (lob_patchState (lr_status_update (\<lambda>_. LsReconnecting)) ?lc0)"
    using assms(1-8) by (simp add: lc1_def conn_event_def Let_def ls_settle_def conn_settled_def stream_closed_def conn_reject_def conn_of_patch)
  then have st: "lob_state lc1 = (lob_state lc)\<lparr>lr_status := LsReconnecting\<rparr>" "lob_poll lc1"
    "lob_reconnect lc1 = Some (reconnect_delay (lob_attempt lc))" "lob_attempt lc1 = lob_attempt lc + 1"
    using assms(7,8) by (simp_all add: poll_and_retry_def scheduleReconnect_def)
  then show ?thesis
    using assms(6,7,9,10) reconnect_delay_bounds [of "lob_attempt lc1"] reconnect_delay_mono [of "lob_attempt lc"]
    by (simp add: reconnect_fires_def ensureStream_def connectToLobby_def Let_def lob_log_def)
qed

lemma linked_connection:
  "conn_of linked 1 = Some \<lparr>cn_id = 1, cn_ctrl = 0, cn_stream = new_lobby_stream, cn_waiter = None,
     cn_reject = False, cn_timer = False\<rparr>"
  "lob_reconnect linked = None" "lob_attempt linked = 0"
  by (simp_all add: linked_def lobby_runs conn_of_def to_upper_def upper_char_def js_trim_def is_space_def)

theorem dropped_lobby_stream_retries_witness:
  "lob_reconnect (lobby_step lobby_config sample_casts (Some lobby_user) (LvStream 1 StreamWsClose) linked) = Some 1000"
  using dropped_lobby_stream_retries [OF linked_connection(1) linked_facts(4) [symmetric] _ _ _ linked_facts(3) _
      linked_connection(2) refl, of lobby_user lobby_config sample_casts] linked_facts(2) linked_connection(3)
  by (simp add: new_lobby_stream_def isCurrentUserMember_def sample_lobby_def sample_member_def lobby_user_def
      reconnect_delay_def)

text \<open>
  A superseded create or join still times out: the ten-second timer of a connection whose
  \<open>ready\<close> nobody resolved is not cleared when a newer connection replaces it, so it turns a ready
  lobby into an error ten seconds later, although the newer connection is alive.
\<close>

theorem superseded_join_times_out:
  fixes cfg casts sess lc i cn fallback
  assumes "conn_of lc i = Some cn" and "i \<noteq> lob_requestId lc" and "cn_timer cn" and "cn_waiter cn = Some fallback"
  defines "lc' \<equiv> lobby_step cfg casts sess (LvTimeout i) lc"
  shows "lr_status (lob_state lc') = LsError \<and> lr_error (lob_state lc') = ''Lobby connection timed out'' \<and>
    lr_snapshot (lob_state lc') = lr_snapshot (lob_state lc) \<and> lob_requestId lc' = lob_requestId lc \<and>
    lob_reconnect lc' = lob_reconnect lc"
proof -
  have "conn_waiter lc i = Some fallback" using assms(1,4) by (simp add: conn_waiter_def)
  then show ?thesis
    using assms(1,3) by (simp add: lc'_def conn_timeout_def reject_ready_def lobby_fails_def or_str_def)
qed

text \<open>Two creations in a row; the second connection has received its first snapshot.\<close>

definition snapshot_message :: jv where
  "snapshot_message = Obj [(''type'', Str ''lobby_snapshot'')]"

definition created_once :: lobby_ctl where
  "created_once = fold (lobby_step lobby_config sample_casts (Some lobby_user))
     [LvCreate PartyDuel, LvSession 0 (Inr (Some lobby_user)), LvLobby 1 (Inr sample_lobby)] new_lobby_ctl"

definition created_twice :: lobby_ctl where
  "created_twice = fold (lobby_step lobby_config sample_casts (Some lobby_user))
     [LvCreate PartyDuel, LvSession 2 (Inr (Some lobby_user)), LvLobby 3 (Inr sample_lobby),
      LvStream 2 (StreamWsMessage (Some snapshot_message))] created_once"

lemmas created_runs = lobby_runs createLobby_def lobby_playable_def lobby_opened_def

lemma created_once_conns:
  "lob_conns created_once = [\<lparr>cn_id = 1, cn_ctrl = 0, cn_stream = new_lobby_stream,
     cn_waiter = Some ''Lobby unavailable'', cn_reject = True, cn_timer = True\<rparr>]"
  "lob_requestId created_once = 1" "lob_tasks created_once = []" "lob_nextTask created_once = 2"
  "lob_nextAbort created_once = 1" "lob_streamAbort created_once = Some 0" "lob_destroyed created_once = False"
  by (simp_all add: created_once_def created_runs)

lemma created_twice_facts:
  "conn_of created_twice 1 = Some \<lparr>cn_id = 1, cn_ctrl = 0, cn_stream = streamLobby_react sample_casts StreamAbort new_lobby_stream,
     cn_waiter = Some ''Lobby unavailable'', cn_reject = True, cn_timer = True\<rparr>"
  "lob_requestId created_twice = 2" "lr_status (lob_state created_twice) = LsReady"
  using created_once_conns
  by (simp_all add: created_twice_def created_runs abort_conn_def conn_event_def conn_of_def new_lobby_stream_def
      lobby_message_def snapshot_message_def lobby_onEvent_def clear_ready_timer_def startPresenceLoop_def
      presence_tick_def patchSnapshot_def handleStartedLobby_def resolve_ready_def conn_waiter_def sample_casts_def
      ls_settle_def or_str_def)

theorem superseded_join_times_out_witness:
  "lr_status (lob_state created_twice) = LsReady \<and>
   lr_status (lob_state (lobby_step lobby_config sample_casts (Some lobby_user) (LvTimeout 1) created_twice)) = LsError"
proof -
  have "1 \<noteq> lob_requestId created_twice" using created_twice_facts(2) by simp
  from superseded_join_times_out [OF created_twice_facts(1) this, of "''Lobby unavailable''"] created_twice_facts(3)
  show ?thesis by simp
qed

text \<open>
  A left lobby can come back: the answers of a poll, of a command and of an opened link are
  not tied to the lobby they were asked for, so one that arrives after \<open>reset\<close> shows its lobby as ready.
\<close>

theorem late_lobby_answer_reopens:
  fixes cfg casts sess lc j w l fallback
  assumes "map_of (lob_tasks lc) j = Some w" and "w \<in> {WEnsure, WPoll, WChange fallback}"
    and "\<not> isCurrentUserMember sess (Some l)"
  defines "lc' \<equiv> lobby_step cfg casts sess
     (if w = WChange fallback then LvLobby j (Inr l) else LvFetched j (Inr (Some l))) (lobby_step cfg casts sess LvReset lc)"
  shows "lr_status (lob_state lc') = LsReady \<and> lr_snapshot (lob_state lc') = Some l \<and> lr_lobbyId (lob_state lc') = lb_id l"
proof -
  have t: "map_of (lob_tasks (lobby_reset casts lc)) j = Some w" using assms(1) by simp
  consider "w = WEnsure" | "w = WPoll" | "w = WChange fallback" using assms(2) by blast
  then show ?thesis
    using t assms(3)
    by cases (simp_all add: lc'_def lobby_fetched_def poll_fetched_def lobby_changed_def patchSnapshot_def
        initial_lobby_state_def Let_def)
qed

text \<open>A lobby link is opened and left again before the coordinator has answered.\<close>

definition linking :: lobby_ctl where
  "linking = lobby_step lobby_config sample_casts None (LvEnsure ''abc'') new_lobby_ctl"

theorem late_lobby_answer_reopens_witness:
  "lr_lobbyId (lob_state (lobby_step lobby_config sample_casts None (LvFetched 0 (Inr (Some other_lobby)))
     (lobby_step lobby_config sample_casts None LvReset linking))) = ''l2''"
proof -
  have "map_of (lob_tasks linking) 0 = Some WEnsure"
    by (simp add: linking_def lobby_runs to_upper_def upper_char_def js_trim_def is_space_def)
  from late_lobby_answer_reopens [OF this, of "[]" None other_lobby lobby_config sample_casts]
  show ?thesis by (simp add: isCurrentUserMember_def other_lobby_def)
qed

end
