(* ===== verification/ChatController.thy ===== *)
theory ChatController
  imports GameplaySocket LobbyController MatchController
begin

text \<open>
  The chat: \<open>features/chat/lib/chat-client.ts\<close> (one websocket and the events it means),
  \<open>features/chat/lib/chat-scope.ts\<close> (which conversation the page is in) and
  \<open>features/chat/controllers/chat-controller.ts\<close> (the messages kept per conversation). Every websocket
  ever opened is an entry of \<open>cc_sockets\<close>, named by its index; \<open>cc_connection\<close> is the current one.
  A chat message read with \<open>as ChatMessage\<close> is taken at its declared type by \<open>as_message\<close>.
\<close>

section \<open>The chat websocket\<close>

datatype chat_event =
  ChatHistory string "chat_message list" | ChatMessageEvent chat_message | ChatErrorEvent string

definition chatWSTarget :: "runtime_config \<Rightarrow> string \<Rightarrow> string \<Rightarrow> string" where
  "chatWSTarget cfg conversationId token =
     strip_slash (normalizeWSBase (queueURL cfg)) @ ''/chat/ws?conversationId='' @
     encodeURIComponent conversationId @ ''&accessToken='' @ encodeURIComponent token"

definition chat_decode :: "(jv \<Rightarrow> chat_message) \<Rightarrow> string \<Rightarrow> jv option \<Rightarrow> chat_event option" where
  "chat_decode as_message conversationId data =
     (case data of
        None \<Rightarrow> Some (ChatErrorEvent ''Chat connection failed'')
      | Some msg \<Rightarrow>
          (let payload = or_empty_object (jfield msg ''payload''); ty = jfield msg ''type'' in
           if ty = Str ''chat.history'' then
             Some (ChatHistory (str_or conversationId (jfield payload ''conversationId''))
               (case jfield payload ''messages'' of Arr ms \<Rightarrow> map as_message ms | _ \<Rightarrow> []))
           else if ty = Str ''chat.message'' then Some (ChatMessageEvent (as_message payload))
           else if ty = Str ''chat.error'' then
             Some (ChatErrorEvent (or_text ''Chat unavailable'' (jfield payload ''message'')))
           else None))"

section \<open>The conversation of the page\<close>

definition match_conversation :: "match_state \<Rightarrow> string" where
  "match_conversation st =
     (if m_sourceLobbyId st \<noteq> [] then ''lobby:'' @ m_sourceLobbyId st
      else case m_snapshot st of
        None \<Rightarrow> []
      | Some sn \<Rightarrow>
          if sn_matchId sn \<noteq> [] \<and> sn_mode sn \<noteq> Some Singleplayer then ''match:'' @ sn_matchId sn else [])"

definition selectActiveChatConversationId :: "string \<Rightarrow> lobby_runtime \<Rightarrow> match_state \<Rightarrow> string" where
  "selectActiveChatConversationId userId lobby_st match_st =
     (case lr_snapshot lobby_st of
        None \<Rightarrow> match_conversation match_st
      | Some l \<Rightarrow>
          if lb_id l \<noteq> [] \<and> list_ex (\<lambda>m. lm_userId m = userId) (lb_members l)
          then ''lobby:'' @ lb_id l else match_conversation match_st)"

section \<open>State\<close>

record chat_state =
  ch_conversationId :: string
  ch_messages :: "chat_message list"
  ch_error :: string

definition initial_chat_state :: chat_state where
  "initial_chat_state = \<lparr>ch_conversationId = [], ch_messages = [], ch_error = []\<rparr>"

record chat_socket =
  cs_conversation :: string
  cs_token :: string
  cs_url :: string
  cs_ready :: ready_state

datatype chat_out = ChatEmit chat_state | ChatSfx string | ChatSent nat jv

record chat_ctl =
  cc_state :: chat_state
  cc_connection :: "nat option"
  cc_connectionKey :: string
  cc_store :: "chat_message list js_record"
  cc_destroyed :: bool
  cc_sockets :: "chat_socket list"
  cc_out :: "chat_out list"

definition new_chat_ctl :: chat_ctl where
  "new_chat_ctl =
     \<lparr>cc_state = initial_chat_state, cc_connection = None, cc_connectionKey = [], cc_store = [],
      cc_destroyed = False, cc_sockets = [], cc_out = []\<rparr>"

definition cc_log :: "chat_out \<Rightarrow> chat_ctl \<Rightarrow> chat_ctl" where
  [ctl_defs]: "cc_log x cc = cc\<lparr>cc_out := cc_out cc @ [x]\<rparr>"

definition cc_patchState :: "(chat_state \<Rightarrow> chat_state) \<Rightarrow> chat_ctl \<Rightarrow> chat_ctl" where
  [ctl_defs]: "cc_patchState f cc =
     (let cc' = cc\<lparr>cc_state := f (cc_state cc)\<rparr> in
      if cc_destroyed cc' then cc' else cc_log (ChatEmit (cc_state cc')) cc')"

section \<open>Operations\<close>

definition set_chat_ready :: "nat \<Rightarrow> ready_state \<Rightarrow> chat_ctl \<Rightarrow> chat_ctl" where
  "set_chat_ready i r cc = cc\<lparr>cc_sockets := (cc_sockets cc)[i := (cc_sockets cc ! i)\<lparr>cs_ready := r\<rparr>]\<rparr>"

definition closeConnection :: "chat_ctl \<Rightarrow> chat_ctl" where
  "closeConnection cc =
     (case cc_connection cc of
        None \<Rightarrow> cc
      | Some i \<Rightarrow> set_chat_ready i (close_ready (cs_ready (cc_sockets cc ! i))) cc)\<lparr>cc_connection := None\<rparr>"

definition chat_destroy :: "chat_ctl \<Rightarrow> chat_ctl" where
  "chat_destroy cc = closeConnection (cc\<lparr>cc_destroyed := True\<rparr>)"

definition chat_reset :: "chat_ctl \<Rightarrow> chat_ctl" where
  "chat_reset cc =
     cc_patchState (\<lambda>_. initial_chat_state) ((closeConnection cc)\<lparr>cc_connectionKey := [], cc_store := []\<rparr>)"

definition stored_messages :: "chat_ctl \<Rightarrow> string \<Rightarrow> chat_message list" where
  "stored_messages cc conv = (case map_of (cc_store cc) conv of None \<Rightarrow> [] | Some ms \<Rightarrow> ms)"

definition chat_key :: "string \<Rightarrow> string \<Rightarrow> string" where
  "chat_key conv token = conv @ '':'' @ token"

definition show_conversation :: "string \<Rightarrow> chat_ctl \<Rightarrow> chat_ctl" where
  "show_conversation conv cc =
     (if ch_conversationId (cc_state cc) \<noteq> conv
      then cc_patchState (\<lambda>_. \<lparr>ch_conversationId = conv, ch_messages = stored_messages cc conv, ch_error = []\<rparr>) cc
      else cc)"

definition open_connection :: "runtime_config \<Rightarrow> string \<Rightarrow> string \<Rightarrow> chat_ctl \<Rightarrow> chat_ctl" where
  "open_connection cfg conv token cc =
     (let cc1 = closeConnection cc in
      cc1\<lparr>cc_connectionKey := chat_key conv token,
          cc_connection := Some (length (cc_sockets cc1)),
          cc_sockets := cc_sockets cc1 @
            [\<lparr>cs_conversation = conv, cs_token = token, cs_url = chatWSTarget cfg conv token,
              cs_ready = SConnecting\<rparr>]\<rparr>)"

definition setConversation :: "runtime_config \<Rightarrow> string \<Rightarrow> string \<Rightarrow> chat_ctl \<Rightarrow> chat_ctl" where
  "setConversation cfg conversationId token cc =
     (let conv = js_trim conversationId in
      if conv = [] \<or> token = [] then
        cc_patchState (\<lambda>_. initial_chat_state) ((closeConnection cc)\<lparr>cc_connectionKey := []\<rparr>)
      else
        let cc1 = show_conversation conv cc
        in if cc_connectionKey cc1 = chat_key conv token \<and> cc_connection cc1 \<noteq> None then cc1
           else open_connection cfg conv token cc1)"

definition storeMessages :: "string \<Rightarrow> chat_message list \<Rightarrow> chat_ctl \<Rightarrow> chat_ctl" where
  "storeMessages conv messages cc =
     (let next = last_n 100 messages;
          cc1 = cc\<lparr>cc_store := js_set (cc_store cc) conv next\<rparr>
      in if ch_conversationId (cc_state cc1) = conv then cc_patchState (ch_messages_update (\<lambda>_. next)) cc1 else cc1)"

text \<open>The callback of connection \<open>i\<close>, opened for conversation \<open>conv\<close>.\<close>

definition chat_onEvent :: "nat \<Rightarrow> string \<Rightarrow> chat_event \<Rightarrow> chat_ctl \<Rightarrow> chat_ctl" where
  "chat_onEvent i conv ev cc =
     (if cc_connection cc \<noteq> Some i then cc
      else case ev of
        ChatHistory c ms \<Rightarrow> if c \<noteq> conv then cc else storeMessages conv ms cc
      | ChatMessageEvent m \<Rightarrow>
          if opt_str (cm_conversationId m) \<noteq> [] \<and> opt_str (cm_conversationId m) \<noteq> conv then cc
          else cc_log (ChatSfx ''chat'')
            (storeMessages conv
              (last_n 100 (filter (\<lambda>x. cm_id x \<noteq> cm_id m) (stored_messages cc conv) @ [m])) cc)
      | ChatErrorEvent e \<Rightarrow> cc_patchState (ch_error_update (\<lambda>_. e)) cc)"

definition connection_send :: "string \<Rightarrow> (string \<times> jv) list \<Rightarrow> chat_ctl \<Rightarrow> bool \<times> chat_ctl" where
  "connection_send ty payload cc =
     (case cc_connection cc of
        None \<Rightarrow> (False, cc)
      | Some i \<Rightarrow>
          if cs_ready (cc_sockets cc ! i) \<noteq> SOpen then (False, cc)
          else (True, cc_log (ChatSent i (Obj [(''type'', Str ty), (''payload'', Obj payload)])) cc))"

definition sendMessage :: "string \<Rightarrow> chat_ctl \<Rightarrow> bool \<times> chat_ctl" where
  "sendMessage body cc =
     (let trimmed = js_trim body in
      if trimmed = [] \<or> ch_conversationId (cc_state cc) = [] then (False, cc)
      else connection_send ''chat.send'' [(''body'', Str trimmed)] cc)"

fun emote_name :: "chat_emote \<Rightarrow> string" where
  "emote_name Skull = ''skull''"
| "emote_name Sob = ''sob''"
| "emote_name Thinking = ''thinking''"
| "emote_name Sunglasses = ''sunglasses''"

definition sendEmote :: "chat_emote \<Rightarrow> chat_ctl \<Rightarrow> bool \<times> chat_ctl" where
  "sendEmote e cc =
     (if ch_conversationId (cc_state cc) = [] then (False, cc)
      else connection_send ''chat.emote'' [(''emote'', Str (emote_name e))] cc)"

section \<open>Steps\<close>

datatype chat_ctl_event =
  CkSet string string | CkReset | CkDestroy | CkSend string | CkEmote chat_emote
| CkOpen nat | CkClosed nat | CkError nat | CkMessage nat "jv option"

text \<open>The browser opens a connecting socket once and delivers messages only while a socket is open.\<close>

fun chat_step :: "runtime_config \<Rightarrow> (jv \<Rightarrow> chat_message) \<Rightarrow> chat_ctl_event \<Rightarrow> chat_ctl \<Rightarrow> chat_ctl" where
  "chat_step cfg f (CkSet conv token) cc = setConversation cfg conv token cc"
| "chat_step cfg f CkReset cc = chat_reset cc"
| "chat_step cfg f CkDestroy cc = chat_destroy cc"
| "chat_step cfg f (CkSend body) cc = snd (sendMessage body cc)"
| "chat_step cfg f (CkEmote e) cc = snd (sendEmote e cc)"
| "chat_step cfg f (CkOpen i) cc =
     (if i < length (cc_sockets cc) \<and> cs_ready (cc_sockets cc ! i) = SConnecting then set_chat_ready i SOpen cc else cc)"
| "chat_step cfg f (CkClosed i) cc = (if i < length (cc_sockets cc) then set_chat_ready i SClosed cc else cc)"
| "chat_step cfg f (CkError i) cc =
     (if i < length (cc_sockets cc)
      then chat_onEvent i (cs_conversation (cc_sockets cc ! i)) (ChatErrorEvent ''Chat connection failed'') cc else cc)"
| "chat_step cfg f (CkMessage i data) cc =
     (if i < length (cc_sockets cc) \<and> cs_ready (cc_sockets cc ! i) = SOpen
      then (case chat_decode f (cs_conversation (cc_sockets cc ! i)) data of
              None \<Rightarrow> cc
            | Some ev \<Rightarrow> chat_onEvent i (cs_conversation (cc_sockets cc ! i)) ev cc)
      else cc)"

text \<open>
  Access tokens are JSON web tokens: base64url texts joined by dots, without a colon. So two
  conversations and tokens never share a connection key.
\<close>

inductive chat_reachable :: "runtime_config \<Rightarrow> (jv \<Rightarrow> chat_message) \<Rightarrow> chat_ctl \<Rightarrow> bool"
  for cfg :: runtime_config and f :: "jv \<Rightarrow> chat_message" where
  chat_new: "chat_reachable cfg f new_chat_ctl"
| chat_next: "chat_reachable cfg f cc \<Longrightarrow>
     (\<And>conv token. ev = CkSet conv token \<Longrightarrow> CHR '':'' \<notin> set token) \<Longrightarrow>
     chat_reachable cfg f (chat_step cfg f ev cc)"

section \<open>The shown conversation\<close>

lemma chat_key_inject:
  assumes "CHR '':'' \<notin> set t" and "CHR '':'' \<notin> set u"
  shows "chat_key c t = chat_key d u \<longleftrightarrow> c = d \<and> t = u"
proof
  assume e: "chat_key c t = chat_key d u"
  have cut: "takeWhile (\<lambda>x. x \<noteq> CHR '':'') (rev (chat_key e w)) = rev w" if "CHR '':'' \<notin> set w" for e w
    using that by (simp add: chat_key_def takeWhile_append)
  then have "t = u" using e assms by (metis rev_rev_ident)
  with e show "c = d \<and> t = u" by (simp add: chat_key_def)
qed simp

lemma cc_log_simps [simp]:
  "cc_state (cc_log x cc) = cc_state cc" "cc_connection (cc_log x cc) = cc_connection cc"
  "cc_connectionKey (cc_log x cc) = cc_connectionKey cc" "cc_store (cc_log x cc) = cc_store cc"
  "cc_sockets (cc_log x cc) = cc_sockets cc" "cc_destroyed (cc_log x cc) = cc_destroyed cc"
  by (simp_all add: cc_log_def)

lemma cc_patch_simps [simp]:
  "cc_state (cc_patchState f cc) = f (cc_state cc)" "cc_connection (cc_patchState f cc) = cc_connection cc"
  "cc_connectionKey (cc_patchState f cc) = cc_connectionKey cc" "cc_store (cc_patchState f cc) = cc_store cc"
  "cc_sockets (cc_patchState f cc) = cc_sockets cc" "cc_destroyed (cc_patchState f cc) = cc_destroyed cc"
  by (simp_all add: cc_patchState_def Let_def)

interpretation chat_observable: quiet_when_destroyed cc_destroyed cc_out cc_patchState
  by unfold_locales (auto simp: ctl_defs Let_def)

lemma nth_update_same: "(\<And>x. g (h x) = g x) \<Longrightarrow> g (xs[i := h (xs ! i)] ! j) = g (xs ! j)"
  by (cases "i < length xs") (simp_all add: nth_list_update list_update_beyond)

lemma set_chat_ready_simps [simp]:
  "cc_state (set_chat_ready i r cc) = cc_state cc" "cc_connection (set_chat_ready i r cc) = cc_connection cc"
  "cc_connectionKey (set_chat_ready i r cc) = cc_connectionKey cc" "cc_store (set_chat_ready i r cc) = cc_store cc"
  "length (cc_sockets (set_chat_ready i r cc)) = length (cc_sockets cc)"
  "cs_conversation (cc_sockets (set_chat_ready i r cc) ! j) = cs_conversation (cc_sockets cc ! j)"
  "cs_token (cc_sockets (set_chat_ready i r cc) ! j) = cs_token (cc_sockets cc ! j)"
  by (simp_all add: set_chat_ready_def nth_update_same [where h = "cs_ready_update (\<lambda>_. r)"])

lemma closeConnection_simps [simp]:
  "cc_state (closeConnection cc) = cc_state cc" "cc_connection (closeConnection cc) = None"
  "cc_store (closeConnection cc) = cc_store cc"
  "length (cc_sockets (closeConnection cc)) = length (cc_sockets cc)"
  "cs_conversation (cc_sockets (closeConnection cc) ! j) = cs_conversation (cc_sockets cc ! j)"
  "cs_token (cc_sockets (closeConnection cc) ! j) = cs_token (cc_sockets cc ! j)"
  by (simp_all add: closeConnection_def split: option.splits)

definition sockets_ok :: "chat_ctl \<Rightarrow> bool" where
  "sockets_ok cc \<longleftrightarrow>
     (\<forall>i<length (cc_sockets cc). cs_conversation (cc_sockets cc ! i) \<noteq> [] \<and> CHR '':'' \<notin> set (cs_token (cc_sockets cc ! i)))"

definition connection_ok :: "chat_ctl \<Rightarrow> bool" where
  "connection_ok cc \<longleftrightarrow>
     (\<forall>i. cc_connection cc = Some i \<longrightarrow> i < length (cc_sockets cc) \<and>
        cs_conversation (cc_sockets cc ! i) = ch_conversationId (cc_state cc) \<and>
        cc_connectionKey cc = chat_key (cs_conversation (cc_sockets cc ! i)) (cs_token (cc_sockets cc ! i)))"

definition messages_ok :: "chat_ctl \<Rightarrow> bool" where
  "messages_ok cc \<longleftrightarrow>
     (\<forall>k ms. map_of (cc_store cc) k = Some ms \<longrightarrow> k \<noteq> [] \<and> length ms \<le> 100) \<and>
     ch_messages (cc_state cc) = stored_messages cc (ch_conversationId (cc_state cc))"

definition chat_inv :: "chat_ctl \<Rightarrow> bool" where
  "chat_inv cc \<longleftrightarrow> sockets_ok cc \<and> connection_ok cc \<and> messages_ok cc"

lemmas chat_inv_defs = chat_inv_def sockets_ok_def connection_ok_def messages_ok_def stored_messages_def

lemma chat_inv_log [simp]: "chat_inv (cc_log x cc) = chat_inv cc"
  by (simp add: chat_inv_defs)

lemma chat_inv_ready: "chat_inv cc \<Longrightarrow> chat_inv (set_chat_ready i r cc)"
  by (simp add: chat_inv_defs)

lemma chat_inv_close: "chat_inv cc \<Longrightarrow> chat_inv (closeConnection cc)"
  by (simp add: chat_inv_defs)

lemma no_empty_conversation: "messages_ok cc \<Longrightarrow> map_of (cc_store cc) [] = None"
  by (cases "map_of (cc_store cc) []") (auto simp: messages_ok_def)

lemma chat_inv_reset: "chat_inv cc \<Longrightarrow> chat_inv (chat_reset cc)"
  by (simp add: chat_reset_def chat_inv_defs initial_chat_state_def)

lemma chat_inv_destroy: "chat_inv cc \<Longrightarrow> chat_inv (chat_destroy cc)"
  by (simp add: chat_destroy_def chat_inv_defs)

lemma show_conversation_simps [simp]:
  "ch_conversationId (cc_state (show_conversation conv cc)) = conv"
  "cc_connection (show_conversation conv cc) = cc_connection cc"
  "cc_connectionKey (show_conversation conv cc) = cc_connectionKey cc"
  by (simp_all add: show_conversation_def)

lemma show_conversation_ok:
  "chat_inv cc \<Longrightarrow> messages_ok (show_conversation conv cc) \<and> sockets_ok (show_conversation conv cc)"
  by (auto simp: show_conversation_def chat_inv_defs)

lemma chat_inv_open:
  assumes "messages_ok cc" and "sockets_ok cc" and "ch_conversationId (cc_state cc) = conv" and "conv \<noteq> []"
    and "CHR '':'' \<notin> set token"
  shows "chat_inv (open_connection cfg conv token cc)"
proof -
  have "sockets_ok (open_connection cfg conv token cc)"
    using assms(2,4,5) by (auto simp: open_connection_def Let_def sockets_ok_def nth_append)
  then show ?thesis
    using assms(1,3) by (simp add: chat_inv_def open_connection_def Let_def connection_ok_def messages_ok_def
      stored_messages_def nth_append)
qed

lemma connection_conversation:
  assumes "chat_inv cc" and "cc_connection cc = Some i" and "cc_connectionKey cc = chat_key conv token"
    and "CHR '':'' \<notin> set token"
  shows "ch_conversationId (cc_state cc) = conv"
proof -
  have "chat_key (cs_conversation (cc_sockets cc ! i)) (cs_token (cc_sockets cc ! i)) = chat_key conv token"
    and "CHR '':'' \<notin> set (cs_token (cc_sockets cc ! i))"
    and "cs_conversation (cc_sockets cc ! i) = ch_conversationId (cc_state cc)"
    using assms(1-3) by (auto simp: chat_inv_defs)
  then show ?thesis using assms(4) by (simp add: chat_key_inject)
qed

lemma chat_inv_setConversation:
  assumes inv: "chat_inv cc" and tok: "CHR '':'' \<notin> set token"
  shows "chat_inv (setConversation cfg conversationId token cc)"
proof (cases "js_trim conversationId = [] \<or> token = []")
  case True
  then show ?thesis
    using inv no_empty_conversation by (auto simp: setConversation_def Let_def chat_inv_defs initial_chat_state_def)
next
  case False
  let ?conv = "js_trim conversationId"
  show ?thesis
  proof (cases "cc_connectionKey cc = chat_key ?conv token \<and> cc_connection cc \<noteq> None")
    case True
    then obtain i where "cc_connection cc = Some i" by blast
    with inv True tok have "ch_conversationId (cc_state cc) = ?conv" by (intro connection_conversation) auto
    then show ?thesis using False True inv by (simp add: setConversation_def Let_def show_conversation_def)
  next
    case fresh: False
    have "setConversation cfg conversationId token cc = open_connection cfg ?conv token (show_conversation ?conv cc)"
      using False fresh by (auto simp: setConversation_def Let_def)
    then show ?thesis using show_conversation_ok [OF inv] False tok by (simp add: chat_inv_open)
  qed
qed

lemma chat_inv_store:
  "chat_inv cc \<Longrightarrow> conv \<noteq> [] \<Longrightarrow> chat_inv (storeMessages conv ms cc)"
  by (auto simp: storeMessages_def Let_def chat_inv_defs)

lemma chat_inv_event: "chat_inv cc \<Longrightarrow> conv \<noteq> [] \<Longrightarrow> chat_inv (chat_onEvent i conv ev cc)"
  by (auto simp: chat_onEvent_def intro!: chat_inv_store split: chat_event.splits)
     (simp add: chat_inv_defs)

lemma chat_inv_send: "chat_inv cc \<Longrightarrow> chat_inv (snd (connection_send ty p cc))"
  by (simp add: connection_send_def split: option.splits)

lemma chat_inv_step:
  assumes "chat_inv cc" and "\<And>conv token. ev = CkSet conv token \<Longrightarrow> CHR '':'' \<notin> set token"
  shows "chat_inv (chat_step cfg f ev cc)"
proof -
  have conv: "cs_conversation (cc_sockets cc ! i) \<noteq> []" if "i < length (cc_sockets cc)" for i
    using assms(1) that by (simp add: chat_inv_def sockets_ok_def)
  show ?thesis
    using assms by (cases ev)
      (auto simp: sendMessage_def sendEmote_def Let_def chat_inv_setConversation chat_inv_reset chat_inv_destroy
        chat_inv_send chat_inv_ready conv intro!: chat_inv_event split: option.splits)
qed

lemma reachable_chat_inv: "chat_reachable cfg f cc \<Longrightarrow> chat_inv cc"
proof (induction rule: chat_reachable.induct)
  case chat_new
  show ?case by (simp add: chat_inv_defs new_chat_ctl_def initial_chat_state_def)
next
  case (chat_next cc ev)
  show ?case using chat_next.IH chat_next.hyps(2) by (rule chat_inv_step)
qed

section \<open>Properties\<close>

text \<open>
  C16. The chat shows the conversation it is connected to: in every reachable state the shown messages
  are the ones kept for the shown conversation, at most a hundred, and the open connection belongs to
  that conversation.
\<close>

theorem chat_shows_its_conversation:
  assumes "chat_reachable cfg f cc"
  shows "ch_messages (cc_state cc) = stored_messages cc (ch_conversationId (cc_state cc)) \<and>
    length (ch_messages (cc_state cc)) \<le> 100 \<and>
    (\<forall>i. cc_connection cc = Some i \<longrightarrow> cs_conversation (cc_sockets cc ! i) = ch_conversationId (cc_state cc))"
proof -
  have inv: "chat_inv cc" by (rule reachable_chat_inv [OF assms])
  then have "ch_messages (cc_state cc) = stored_messages cc (ch_conversationId (cc_state cc))"
    and "length (stored_messages cc (ch_conversationId (cc_state cc))) \<le> 100"
    by (auto simp: chat_inv_def messages_ok_def stored_messages_def split: option.splits)
  then show ?thesis using inv by (auto simp: chat_inv_def connection_ok_def)
qed

text \<open>A chat connected to a match, its socket open.\<close>

definition chat_config :: runtime_config where
  "chat_config = createRuntimeConfig (\<lambda>_. None) []"

definition sample_message :: "string \<Rightarrow> chat_message" where
  "sample_message i =
     \<lparr>cm_id = i, cm_conversationId = Some ''match:m1'', cm_matchId = ''m1'', cm_senderUserId = ''u1'',
      cm_senderDisplayName = ''u1'', cm_kind = ChatText, cm_body = Some ''hi'', cm_emote = None, cm_createdAt = []\<rparr>"

definition chatting :: chat_ctl where
  "chatting = chat_step chat_config (\<lambda>_. sample_message ''c1'') (CkOpen 0)
     (chat_step chat_config (\<lambda>_. sample_message ''c1'') (CkSet ''match:m1'' ''tok'') new_chat_ctl)"

lemma chatting_reachable: "chat_reachable chat_config (\<lambda>_. sample_message ''c1'') chatting"
  unfolding chatting_def by (intro chat_next chat_new) auto

lemma chatting_facts:
  "ch_conversationId (cc_state chatting) = ''match:m1''" "cc_connection chatting = Some 0"
  "length (cc_sockets chatting) = 1" "cs_ready (cc_sockets chatting ! 0) = SOpen"
  "cs_conversation (cc_sockets chatting ! 0) = ''match:m1''" "cc_connectionKey chatting = chat_key ''match:m1'' ''tok''"
  "cc_store chatting = []"
  by (simp_all add: chatting_def new_chat_ctl_def initial_chat_state_def setConversation_def show_conversation_def
      open_connection_def closeConnection_def set_chat_ready_def js_trim_def is_space_def stored_messages_def
      ctl_defs Let_def)

theorem chat_shows_its_conversation_witness:
  "cs_conversation (cc_sockets chatting ! 0) = ch_conversationId (cc_state chatting)"
  using chat_shows_its_conversation [OF chatting_reachable] chatting_facts(2) by blast

text \<open>
  A chat message is shown last and once: one that arrives on the open connection for the shown
  conversation ends the list, replaces an earlier version of itself, keeps the other messages in
  order within the hundred shown, and sounds.
\<close>

theorem chat_message_shown_last:
  fixes cfg f cc i msg m
  assumes "chat_reachable cfg f cc" and "cc_connection cc = Some i" and "cs_ready (cc_sockets cc ! i) = SOpen"
    and "jfield msg ''type'' = Str ''chat.message''" and "m = f (or_empty_object (jfield msg ''payload''))"
    and "opt_str (cm_conversationId m) \<in> {[], ch_conversationId (cc_state cc)}"
  defines "cc' \<equiv> chat_step cfg f (CkMessage i (Some msg)) cc"
  shows "ch_messages (cc_state cc') = last_n 100 (filter (\<lambda>x. cm_id x \<noteq> cm_id m) (ch_messages (cc_state cc)) @ [m]) \<and>
    last (ch_messages (cc_state cc')) = m \<and> length (filter (\<lambda>x. cm_id x = cm_id m) (ch_messages (cc_state cc'))) = 1 \<and>
    last (cc_out cc') = ChatSfx ''chat''"
proof -
  have inv: "chat_inv cc" by (rule reachable_chat_inv [OF assms(1)])
  then have conn: "i < length (cc_sockets cc)" "cs_conversation (cc_sockets cc ! i) = ch_conversationId (cc_state cc)"
    and shown: "stored_messages cc (ch_conversationId (cc_state cc)) = ch_messages (cc_state cc)"
    using assms(2) by (auto simp: chat_inv_def connection_ok_def messages_ok_def)
  let ?old = "filter (\<lambda>x. cm_id x \<noteq> cm_id m) (ch_messages (cc_state cc))"
  have "chat_decode f (ch_conversationId (cc_state cc)) (Some msg) = Some (ChatMessageEvent m)"
    using assms(4,5) by (simp add: chat_decode_def Let_def)
  then have cc': "cc' = cc_log (ChatSfx ''chat'') (storeMessages (ch_conversationId (cc_state cc)) (last_n 100 (?old @ [m])) cc)"
    using assms(2,3,6) conn shown by (auto simp: cc'_def chat_onEvent_def)
  then have ms: "ch_messages (cc_state cc') = last_n 100 (?old @ [m])"
    by (simp add: storeMessages_def Let_def del: length_last_n)
  have split: "last_n 100 (?old @ [m]) = last_n 99 ?old @ [m]"
    by (cases "length ?old \<le> 99") (simp_all add: last_n_def Suc_diff_le)
  have "filter (\<lambda>x. cm_id x = cm_id m) (last_n 99 ?old) = []"
    using set_last_n [of 99 ?old] by (fastforce simp: filter_empty_conv)
  then show ?thesis using ms split cc' by (simp add: cc_log_def)
qed

theorem chat_message_shown_last_witness:
  "ch_messages (cc_state (chat_step chat_config (\<lambda>_. sample_message ''c1'')
     (CkMessage 0 (Some (Obj [(''type'', Str ''chat.message'')]))) chatting)) = [sample_message ''c1'']"
proof -
  have "ch_messages (cc_state chatting) = []"
    using reachable_chat_inv [OF chatting_reachable] chatting_facts(7)
    by (simp add: chat_inv_def messages_ok_def stored_messages_def)
  then show ?thesis
    using chat_message_shown_last [OF chatting_reachable chatting_facts(2,4), of "Obj [(''type'', Str ''chat.message'')]"
        "sample_message ''c1''"] chatting_facts(1)
    by (simp add: sample_message_def)
qed

text \<open>
  C17. A chat whose websocket has closed stays closed: the controller keeps the dead connection, so
  asking again for the same conversation with the same token changes nothing, and no message can be
  sent any more.
\<close>

theorem closed_chat_never_reconnects:
  fixes cfg f cc i conv token body e
  assumes "chat_reachable cfg f cc" and "cc_connection cc = Some i"
    and "cc_connectionKey cc = chat_key (js_trim conv) token" and "CHR '':'' \<notin> set token" and "token \<noteq> []"
  defines "cc' \<equiv> chat_step cfg f (CkClosed i) cc"
  shows "chat_step cfg f (CkSet conv token) cc' = cc' \<and> \<not> fst (sendMessage body cc') \<and> \<not> fst (sendEmote e cc')"
proof -
  have inv: "chat_inv cc" by (rule reachable_chat_inv [OF assms(1)])
  then have i: "i < length (cc_sockets cc)" and ne: "ch_conversationId (cc_state cc) \<noteq> []"
    using assms(2) by (auto simp: chat_inv_def connection_ok_def sockets_ok_def)
  have c: "ch_conversationId (cc_state cc) = js_trim conv"
    by (rule connection_conversation [OF inv assms(2,3,4)])
  have cc': "cc' = set_chat_ready i SClosed cc" using i by (simp add: cc'_def)
  have "cs_ready (cc_sockets cc' ! i) = SClosed" using i by (simp add: cc' set_chat_ready_def)
  then show ?thesis
    using assms(2,3,5) c ne
    by (simp add: cc' setConversation_def show_conversation_def sendMessage_def sendEmote_def connection_send_def Let_def)
qed

theorem closed_chat_never_reconnects_witness:
  "chat_step chat_config (\<lambda>_. sample_message ''c1'') (CkSet ''match:m1'' ''tok'')
     (chat_step chat_config (\<lambda>_. sample_message ''c1'') (CkClosed 0) chatting) =
   chat_step chat_config (\<lambda>_. sample_message ''c1'') (CkClosed 0) chatting"
proof -
  have t: "js_trim ''match:m1'' = ''match:m1''" by (simp add: js_trim_def is_space_def)
  have "cc_connectionKey chatting = chat_key (js_trim ''match:m1'') ''tok''" using chatting_facts(6) t by simp
  from closed_chat_never_reconnects [OF chatting_reachable chatting_facts(2) this] show ?thesis by simp
qed

end
