(* ===== verification/HomeModel.thy ===== *)
theory HomeModel
  imports GameController SessionController UIPhase
begin

text \<open>
  \<open>features/home/model/derive-home-model.ts\<close>: the pure function from the controllers' states to what
  the page shows. The source computes some eighty constants and puts them into one object; here each
  constant is a definition over the parameters \<open>home_params\<close>, and the views of \<open>types.ts\<close> are records.
  The URL of the street view frame is in StreetView and the text of \<open>formatHpPct\<close> in PlayerViews; \<open>hpPct\<close>, a
  function inside the overlay, is left out. First letters of names are bytes, so they are those of the page for
  names that start in ASCII.
\<close>

section \<open>Parameters\<close>

record home_params =
  hp_auth :: session_state
  hp_match :: match_state
  hp_game :: game_state
  hp_config :: runtime_config
  hp_homeResumeMatchId :: string
  hp_routeMatchId :: "string option"
  hp_leaderboardLoading :: bool
  hp_maintenance :: "maintenance_status option"
  hp_changelogEyebrow :: string
  hp_changelogTitle :: string
  hp_changelogMarkdown :: string

definition SINGLEPLAYER_TOTAL_ROUNDS :: int where "SINGLEPLAYER_TOTAL_ROUNDS = 5"
definition DEFAULT_PRESSURE_TIME_MS :: int where "DEFAULT_PRESSURE_TIME_MS = 15000"

definition teamName :: "string \<Rightarrow> string" where
  "teamName t = (if t = ''b'' then ''Team Blue'' else ''Team Red'')"

definition teamFallback :: "string \<Rightarrow> string" where
  "teamFallback t = (if t = ''b'' then ''B'' else ''R'')"

definition teamColor :: "string \<Rightarrow> string" where
  "teamColor t = (if t = ''b'' then ''#2563eb'' else ''#dc2626'')"

text \<open>The number in \<open>formatHpPct\<close>.\<close>

definition hp_percent :: "real \<Rightarrow> real \<Rightarrow> real" where
  "hp_percent maximum hp = max 0 (min 100 (hp / maximum * 100))"

definition getSelfQueueName :: "string \<Rightarrow> string \<Rightarrow> string \<Rightarrow> string \<Rightarrow> string" where
  "getSelfQueueName displayName nicknameInput userEmail userId =
     (let direct = js_trim displayName;
          nick = js_trim nicknameInput;
          emailLocal = js_trim (hd (split_on (CHR ''@'') userEmail))
      in if direct \<noteq> [] \<and> direct \<noteq> userId then direct
         else if nick \<noteq> [] \<and> nick \<noteq> userId then nick
         else if emailLocal \<noteq> [] \<and> emailLocal \<noteq> userId then emailLocal
         else direct)"

definition avatarFallback :: "string \<Rightarrow> string \<Rightarrow> bool \<Rightarrow> string" where
  "avatarFallback v fallback noLinkedAccount =
     (if noLinkedAccount then ''?'' else to_upper (take 1 (or_str v fallback)))"

section \<open>The match on screen\<close>

definition home_activeMatchId :: "home_params \<Rightarrow> string" where
  "home_activeMatchId p =
     or_str (hp_homeResumeMatchId p) (or_str (m_activeMatchId (hp_match p))
       (case m_snapshot (hp_match p) of None \<Rightarrow> [] | Some sn \<Rightarrow> sn_matchId sn))"

definition home_snapshot :: "home_params \<Rightarrow> snapshot option" where
  "home_snapshot p =
     (case m_snapshot (hp_match p) of
        None \<Rightarrow> None
      | Some sn \<Rightarrow>
          if opt_str (hp_routeMatchId p) \<noteq> [] \<and> hp_routeMatchId p = Some (sn_matchId sn) then Some sn else None)"

definition home_mode :: "home_params \<Rightarrow> game_mode" where
  "home_mode p =
     (case Option.bind (home_snapshot p) sn_mode of None \<Rightarrow> Duel | Some md \<Rightarrow> md)"

definition isPointsMode :: "home_params \<Rightarrow> bool" where
  "isPointsMode p = (home_mode p \<in> {Singleplayer, FreeForAll})"

definition home_players :: "home_params \<Rightarrow> snapshot_player js_record" where
  "home_players p = (case home_snapshot p of None \<Rightarrow> [] | Some sn \<Rightarrow> sn_players sn)"

definition player_team :: "home_params \<Rightarrow> string \<Rightarrow> string" where
  "player_team p i =
     or_str (case map_of (home_players p) i of None \<Rightarrow> [] | Some pl \<Rightarrow> opt_str (pl_teamId pl)) ''a''"

definition home_selfId :: "home_params \<Rightarrow> string" where
  "home_selfId p = ss_userId (hp_auth p)"

definition home_selfTeamId :: "home_params \<Rightarrow> string" where
  "home_selfTeamId p = player_team p (home_selfId p)"

definition home_oppId :: "home_params \<Rightarrow> string" where
  "home_oppId p =
     (if home_mode p = TeamDuel
      then find_str (\<lambda>i. player_team p i \<noteq> home_selfTeamId p) (map fst (home_players p))
      else find_str (\<lambda>i. i \<noteq> home_selfId p) (map fst (home_players p)))"

definition home_selfPlayer :: "home_params \<Rightarrow> snapshot_player option" where
  "home_selfPlayer p = map_of (home_players p) (home_selfId p)"

definition home_oppPlayer :: "home_params \<Rightarrow> snapshot_player option" where
  "home_oppPlayer p = (if home_oppId p = [] then None else map_of (home_players p) (home_oppId p))"

definition home_uiPhase :: "home_params \<Rightarrow> ui_phase" where
  "home_uiPhase p =
     (let derived = deriveUIPhase (home_snapshot p) (status_name (mm_status (m_matchmaking (hp_match p)))) in
      if derived = UIPrematchCountdown \<and> g_roundMSLeft (hp_game p) \<le> 0 then UILiveRound else derived)"

definition home_roundResult :: "home_params \<Rightarrow> round_result option" where
  "home_roundResult p =
     (case home_snapshot p of
        None \<Rightarrow> None
      | Some sn \<Rightarrow>
          (case sn_lastRoundResult sn of
             Some r \<Rightarrow> Some r
           | None \<Rightarrow>
               (case g_persistedRoundResultCtx (hp_game p) of
                  Some (mid, r) \<Rightarrow> if sn_matchId sn \<noteq> [] \<and> mid = sn_matchId sn then Some r else None
                | None \<Rightarrow> None)))"

definition home_roundResults :: "home_params \<Rightarrow> round_result list" where
  "home_roundResults p =
     (case Option.bind (home_snapshot p) sn_roundResults of
        Some (r # rs) \<Rightarrow> r # rs
      | _ \<Rightarrow> (case home_roundResult p of None \<Rightarrow> [] | Some r \<Rightarrow> [r]))"

definition showResultStage :: "home_params \<Rightarrow> bool" where
  "showResultStage p \<longleftrightarrow>
     home_uiPhase p = UIRoundResult \<or>
     home_uiPhase p = UIPrematchCountdown \<and> home_roundResult p \<noteq> None \<or>
     home_uiPhase p = UIMatchEnd \<and> \<not> g_showMatchEndPage (hp_game p)"

definition home_inGame :: "home_params \<Rightarrow> bool" where
  "home_inGame p = (home_uiPhase p \<in> {UILiveRound, UIPrematchCountdown, UIRoundResult, UIMatchEnd})"

definition canFinalizeGuess :: "home_params \<Rightarrow> bool" where
  "canFinalizeGuess p \<longleftrightarrow>
     (case home_snapshot p of
        None \<Rightarrow> False
      | Some sn \<Rightarrow>
          sn_currentRound sn \<noteq> None \<and> g_guess (hp_game p) \<noteq> None \<and> \<not> g_guessSubmitted (hp_game p) \<and>
          sn_phase sn = LivePhase \<and> sn_roundPhase sn = RoundLive \<and> home_uiPhase p = UILiveRound)"

definition canAdvanceRound :: "home_params \<Rightarrow> bool" where
  "canAdvanceRound p \<longleftrightarrow>
     (case home_snapshot p of
        None \<Rightarrow> False
      | Some sn \<Rightarrow> home_mode p = Singleplayer \<and> sn_phase sn = RoundResultPhase \<and> sn_state sn \<noteq> ''ended'')"

section \<open>Numbers on screen\<close>

text \<open>Division of numbers.\<close>

fun num_div :: "num \<Rightarrow> num \<Rightarrow> num" where
  "num_div (Fin x) (Fin y) =
     (if y \<noteq> 0 then Fin (x / y) else if x = 0 then NaN else if 0 < x then PosInf else NegInf)"
| "num_div (Fin x) PosInf = Fin 0"
| "num_div (Fin x) NegInf = Fin 0"
| "num_div PosInf (Fin y) = (if y < 0 then NegInf else PosInf)"
| "num_div NegInf (Fin y) = (if y < 0 then PosInf else NegInf)"
| "num_div _ _ = NaN"

fun num_round :: "num \<Rightarrow> num" where
  "num_round (Fin x) = Fin (js_round x)"
| "num_round x = x"

definition winsPct :: "home_params \<Rightarrow> num" where
  "winsPct p =
     (if ss_gamesPlayed (hp_auth p) = Fin 0 then Fin 0
      else num_round (num_scale 100 (num_div (ss_wins (hp_auth p)) (ss_gamesPlayed (hp_auth p)))))"

definition currentRoundNumber :: "home_params \<Rightarrow> int" where
  "currentRoundNumber p =
     (let shown = (case Option.bind (home_snapshot p) sn_currentRound of None \<Rightarrow> 0 | Some r \<Rightarrow> cr_roundNumber r);
          last = (case home_roundResult p of None \<Rightarrow> 0 | Some r \<Rightarrow> rr_roundNumber r)
      in if shown \<noteq> 0 then shown else if last \<noteq> 0 then last else 1)"

definition damageMultiplier :: "home_params \<Rightarrow> real" where
  "damageMultiplier p =
     (let n = currentRoundNumber p in if n \<le> 2 then 1 else 1 + 0.5 * of_int (n - 2))"

definition isRoundTimerRunning :: "home_params \<Rightarrow> bool" where
  "isRoundTimerRunning p \<longleftrightarrow>
     home_mode p = Singleplayer \<or>
     (case home_snapshot p of
        None \<Rightarrow> False
      | Some sn \<Rightarrow>
          sn_phase sn = LivePhase \<and> sn_roundPhase sn = RoundLive \<and>
          Option.bind (sn_currentRound sn) cr_timerStarted = Some True)"

definition hideRoundClock :: "home_params \<Rightarrow> bool" where
  "hideRoundClock p \<longleftrightarrow> home_uiPhase p = UILiveRound \<and> \<not> isRoundTimerRunning p"

definition padStart2 :: "string \<Rightarrow> string" where
  "padStart2 s = replicate (2 - length s) (CHR ''0'') @ s"

definition clock_mm :: "home_params \<Rightarrow> string" where
  "clock_mm p =
     (if hideRoundClock p then ''--'' else padStart2 (int_str (g_displayRoundSeconds (hp_game p) div 60)))"

text \<open>\<open>%\<close> takes the sign of the dividend.\<close>

definition js_rem :: "int \<Rightarrow> int \<Rightarrow> int" where
  "js_rem x y = (if x < 0 then - ((- x) mod \<bar>y\<bar>) else x mod \<bar>y\<bar>)"

definition clock_ss :: "home_params \<Rightarrow> string" where
  "clock_ss p =
     (if hideRoundClock p then ''--'' else padStart2 (int_str (js_rem (g_displayRoundSeconds (hp_game p)) 60)))"

definition snapshot_teams :: "home_params \<Rightarrow> snapshot_team js_record" where
  "snapshot_teams p = (case Option.bind (home_snapshot p) sn_teams of None \<Rightarrow> [] | Some ts \<Rightarrow> ts)"

definition selfTeamHP :: "home_params \<Rightarrow> int option" where
  "selfTeamHP p =
     (if home_mode p = TeamDuel then Option.bind (map_of (snapshot_teams p) (home_selfTeamId p)) st_hp else None)"

definition oppTeamId :: "home_params \<Rightarrow> string" where
  "oppTeamId p =
     (if home_mode p = TeamDuel then find_str (\<lambda>t. t \<noteq> home_selfTeamId p) (map fst (snapshot_teams p)) else [])"

definition oppTeamHP :: "home_params \<Rightarrow> int option" where
  "oppTeamHP p =
     (if home_mode p = TeamDuel \<and> oppTeamId p \<noteq> []
      then Option.bind (map_of (snapshot_teams p) (oppTeamId p)) st_hp else None)"

definition live_hp :: "home_params \<Rightarrow> int option \<Rightarrow> string \<Rightarrow> int" where
  "live_hp p teamHP i =
     or_zero (nullish teamHP (nullish (map_of (g_displayHP (hp_game p)) i) (map_option pl_hp (map_of (home_players p) i))))"

definition home_totalScore :: "home_params \<Rightarrow> int" where
  "home_totalScore p = or_zero (Option.bind (home_selfPlayer p) pl_totalScore)"

definition home_selfHP :: "home_params \<Rightarrow> int" where
  "home_selfHP p =
     (if showResultStage p then fst (g_resultShownHP (hp_game p)) else live_hp p (selfTeamHP p) (home_selfId p))"

definition home_oppHP :: "home_params \<Rightarrow> int" where
  "home_oppHP p =
     (if showResultStage p then snd (g_resultShownHP (hp_game p)) else live_hp p (oppTeamHP p) (home_oppId p))"

definition resultMode :: "home_params \<Rightarrow> bool" where
  "resultMode p = (home_uiPhase p \<in> {UIRoundResult, UIMatchEnd})"

definition home_matchConfig :: "home_params \<Rightarrow> match_config" where
  "home_matchConfig p =
     (case Option.bind (home_snapshot p) sn_config of
        None \<Rightarrow> \<lparr>cfg_ruleset = None, cfg_mapKey = None, cfg_roundTimerMode = None,
                 cfg_roundTimeLimitMs = None, cfg_pressureTimeLimitMs = None\<rparr>
      | Some c \<Rightarrow> c)"

definition home_ruleset :: "home_params \<Rightarrow> ruleset" where
  "home_ruleset p = (if cfg_ruleset (home_matchConfig p) = Some Nmpz then Nmpz else Moving)"

definition pressureTimeLimitMs :: "home_params \<Rightarrow> int" where
  "pressureTimeLimitMs p =
     (let c = home_matchConfig p; pressure = (if cfg_roundTimerMode c = Some TimerPressure then DEFAULT_PRESSURE_TIME_MS else 0)
      in case cfg_pressureTimeLimitMs c of None \<Rightarrow> pressure | Some t \<Rightarrow> if 0 < t then t else pressure)"

definition pressureTimerActive :: "home_params \<Rightarrow> bool" where
  "pressureTimerActive p =
     (let finalized = length (filter (\<lambda>e. pl_finalized (snd e)) (home_players p))
      in 0 < pressureTimeLimitMs p \<and> 0 < finalized \<and> finalized < length (home_players p))"

definition roundTimeLimitMs :: "home_params \<Rightarrow> int" where
  "roundTimeLimitMs p =
     (let c = home_matchConfig p in
      if pressureTimerActive p then pressureTimeLimitMs p
      else case cfg_roundTimeLimitMs c of
        Some t \<Rightarrow> if cfg_roundTimerMode c = Some TimerFixed then t else roundDurationMs (hp_config p)
      | None \<Rightarrow> roundDurationMs (hp_config p))"

definition live_phase :: "home_params \<Rightarrow> bool" where
  "live_phase p = (case home_snapshot p of None \<Rightarrow> False | Some sn \<Rightarrow> sn_phase sn = LivePhase)"

definition isTimerCritical :: "home_params \<Rightarrow> bool" where
  "isTimerCritical p \<longleftrightarrow> isRoundTimerRunning p \<and> live_phase p \<and> g_roundMSLeft (hp_game p) \<le> 15000"

definition isTimerPulseActive :: "home_params \<Rightarrow> bool" where
  "isTimerPulseActive p \<longleftrightarrow> isRoundTimerRunning p \<and> live_phase p \<and> g_roundMSLeft (hp_game p) < 5000"

definition timerProgressPct :: "home_params \<Rightarrow> real" where
  "timerProgressPct p =
     (if isRoundTimerRunning p \<and> 0 < roundTimeLimitMs p \<and> live_phase p
      then max 0 (min 100 (g_roundMSLeft (hp_game p) / of_int (roundTimeLimitMs p) * 100))
      else 100)"

section \<open>Names and faces\<close>

definition home_selfQueueName :: "home_params \<Rightarrow> string" where
  "home_selfQueueName p =
     (let a = hp_auth p in getSelfQueueName (ss_displayName a) (ss_nicknameInput a) (ss_userEmail a) (ss_userId a))"

definition home_selfName :: "home_params \<Rightarrow> string" where
  "home_selfName p =
     (let shown = (case home_selfPlayer p of None \<Rightarrow> [] | Some pl \<Rightarrow> pl_displayName pl)
      in or_str (if shown \<noteq> [] \<and> shown \<noteq> home_selfId p then shown else [])
           (or_str (home_selfQueueName p) ''You''))"

definition home_opponentName :: "home_params \<Rightarrow> string" where
  "home_opponentName p =
     (if home_mode p = TeamDuel then teamName (oppTeamId p)
      else if home_mode p = FreeForAll then ''Players''
      else or_str (case home_oppPlayer p of None \<Rightarrow> [] | Some pl \<Rightarrow> pl_displayName pl) ''Opponent'')"

definition displaySelfName :: "home_params \<Rightarrow> string" where
  "displaySelfName p = (if home_mode p = TeamDuel then teamName (home_selfTeamId p) else home_selfName p)"

text \<open>\<open>player?.mmr || other\<close>.\<close>

definition mmr_or :: "snapshot_player option \<Rightarrow> num \<Rightarrow> num" where
  "mmr_or pl other = (case pl of None \<Rightarrow> other | Some x \<Rightarrow> if pl_mmr x \<noteq> 0 then Fin (of_int (pl_mmr x)) else other)"

definition home_selfElo :: "home_params \<Rightarrow> num" where
  "home_selfElo p = mmr_or (home_selfPlayer p) (ss_mmr (hp_auth p))"

definition home_opponentElo :: "home_params \<Rightarrow> num" where
  "home_opponentElo p = mmr_or (home_oppPlayer p) initial_mmr"

definition home_selfIsAdmin :: "home_params \<Rightarrow> bool" where
  "home_selfIsAdmin p =
     (case Option.bind (home_selfPlayer p) pl_isAdmin of Some b \<Rightarrow> b | None \<Rightarrow> ss_isAdmin (hp_auth p))"

definition home_opponentIsAdmin :: "home_params \<Rightarrow> bool" where
  "home_opponentIsAdmin p = flag (Option.bind (home_oppPlayer p) pl_isAdmin)"

definition home_selfSelectedBadge :: "home_params \<Rightarrow> player_badge option" where
  "home_selfSelectedBadge p = nullish (Option.bind (home_selfPlayer p) pl_selectedBadge) (ss_selectedBadge (hp_auth p))"

definition home_opponentSelectedBadge :: "home_params \<Rightarrow> player_badge option" where
  "home_opponentSelectedBadge p = Option.bind (home_oppPlayer p) pl_selectedBadge"

definition home_opponentDisconnected :: "home_params \<Rightarrow> bool" where
  "home_opponentDisconnected p = (case home_oppPlayer p of None \<Rightarrow> False | Some pl \<Rightarrow> pl_disconnected pl)"

definition player_avatar :: "snapshot_player option \<Rightarrow> string" where
  "player_avatar pl = opt_str (Option.bind pl pl_avatarUrl)"

definition home_selfAvatarUrl :: "home_params \<Rightarrow> string" where
  "home_selfAvatarUrl p =
     (if home_mode p = TeamDuel then [] else or_str (player_avatar (home_selfPlayer p)) (ss_userAvatar (hp_auth p)))"

definition home_oppAvatarUrl :: "home_params \<Rightarrow> string" where
  "home_oppAvatarUrl p = (if home_mode p = TeamDuel then [] else player_avatar (home_oppPlayer p))"

definition home_selfIsGuest :: "home_params \<Rightarrow> bool" where
  "home_selfIsGuest p =
     (case Option.bind (home_selfPlayer p) pl_isGuest of Some b \<Rightarrow> b | None \<Rightarrow> ss_isGuest (hp_auth p))"

definition home_oppIsGuest :: "home_params \<Rightarrow> bool" where
  "home_oppIsGuest p = flag (Option.bind (home_oppPlayer p) pl_isGuest)"

definition selfHasNoLinkedAccount :: "home_params \<Rightarrow> bool" where
  "selfHasNoLinkedAccount p \<longleftrightarrow> ss_userEmail (hp_auth p) = [] \<or> home_selfIsGuest p"

definition home_selfFallback :: "home_params \<Rightarrow> string" where
  "home_selfFallback p =
     (if home_mode p = TeamDuel then teamFallback (home_selfTeamId p)
      else avatarFallback (or_str (home_selfName p) (ss_userEmail (hp_auth p))) ''Y'' (selfHasNoLinkedAccount p))"

definition home_oppFallback :: "home_params \<Rightarrow> string" where
  "home_oppFallback p =
     avatarFallback
       (if home_mode p = TeamDuel then teamFallback (oppTeamId p) else or_str (home_oppId p) (home_opponentName p))
       (if home_mode p = TeamDuel then teamFallback (oppTeamId p) else ''O'')
       (home_oppIsGuest p)"

text \<open>The tables over all players of the match.\<close>

definition player_shown_name :: "snapshot_player \<Rightarrow> string" where
  "player_shown_name pl = or_str (pl_displayName pl) (pl_userId pl)"

definition over_players :: "(string \<Rightarrow> snapshot_player \<Rightarrow> 'a) \<Rightarrow> home_params \<Rightarrow> 'a js_record" where
  "over_players f p = fold (\<lambda>(i, pl) r. js_set r i (f i pl)) (home_players p) []"

definition resultPlayerNames :: "home_params \<Rightarrow> string js_record" where
  "resultPlayerNames = over_players (\<lambda>_. player_shown_name)"

definition resultPlayerAvatars :: "home_params \<Rightarrow> string option js_record" where
  "resultPlayerAvatars = over_players (\<lambda>_. pl_avatarUrl)"

definition resultPlayerBorderColors :: "home_params \<Rightarrow> string option js_record" where
  "resultPlayerBorderColors p =
     over_players (\<lambda>_ pl. if home_mode p = TeamDuel then Some (teamColor (or_str (opt_str (pl_teamId pl)) ''a'')) else None) p"

definition player_fallback :: "home_params \<Rightarrow> string \<Rightarrow> snapshot_player \<Rightarrow> string" where
  "player_fallback p i pl =
     avatarFallback (player_shown_name pl) ''P''
       (if i = home_selfId p then selfHasNoLinkedAccount p else flag (pl_isGuest pl))"

definition resultPlayerFallbacks :: "home_params \<Rightarrow> string js_record" where
  "resultPlayerFallbacks p = over_players (player_fallback p) p"

record player_identity =
  pv_id :: string
  pv_name :: string
  pv_avatarUrl :: "string option"
  pv_avatarFallback :: string
  pv_isAdmin :: "bool option"
  pv_selectedBadge :: "player_badge option"
  pv_isGuest :: "bool option"
  pv_rating :: num

record team_identity =
  tv_id :: string
  tv_name :: string
  tv_avatarFallback :: string
  tv_avatarColor :: string
  tv_members :: "player_identity list"
  tv_hp :: "int option"

datatype participant = PlayerIdentity player_identity | TeamIdentity team_identity

definition participantsById :: "home_params \<Rightarrow> player_identity js_record" where
  "participantsById p =
     over_players (\<lambda>i pl.
       \<lparr>pv_id = i, pv_name = or_str (player_shown_name pl) (pl_userId pl), pv_avatarUrl = pl_avatarUrl pl,
        pv_avatarFallback = or_str (player_fallback p i pl) ''P'', pv_isAdmin = pl_isAdmin pl,
        pv_selectedBadge = pl_selectedBadge pl, pv_isGuest = pl_isGuest pl, pv_rating = Fin (of_int (pl_mmr pl))\<rparr>) p"

definition selfPlayerIdentity :: "home_params \<Rightarrow> player_identity" where
  "selfPlayerIdentity p =
     (case map_of (participantsById p) (home_selfId p) of
        Some v \<Rightarrow> v
      | None \<Rightarrow>
          \<lparr>pv_id = or_str (home_selfId p) ''self'', pv_name = home_selfName p,
           pv_avatarUrl = Some (ss_userAvatar (hp_auth p)), pv_avatarFallback = home_selfFallback p,
           pv_isAdmin = Some (home_selfIsAdmin p), pv_selectedBadge = home_selfSelectedBadge p,
           pv_isGuest = Some (selfHasNoLinkedAccount p), pv_rating = home_selfElo p\<rparr>)"

definition opponentPlayerIdentity :: "home_params \<Rightarrow> player_identity" where
  "opponentPlayerIdentity p =
     (case (if home_oppId p = [] then None else map_of (participantsById p) (home_oppId p)) of
        Some v \<Rightarrow> v
      | None \<Rightarrow>
          \<lparr>pv_id = or_str (home_oppId p) ''opponent'', pv_name = home_opponentName p,
           pv_avatarUrl = Some (home_oppAvatarUrl p), pv_avatarFallback = home_oppFallback p,
           pv_isAdmin = Some (home_opponentIsAdmin p), pv_selectedBadge = home_opponentSelectedBadge p,
           pv_isGuest = Some (home_oppIsGuest p), pv_rating = home_opponentElo p\<rparr>)"

text \<open>The members of a team: the players whose snapshot names exactly that team.\<close>

definition team_members :: "home_params \<Rightarrow> string \<Rightarrow> player_identity list" where
  "team_members p t =
     filter (\<lambda>v. Option.bind (map_of (home_players p) (pv_id v)) pl_teamId = Some t) (map snd (participantsById p))"

definition team_participant :: "home_params \<Rightarrow> string \<Rightarrow> string \<Rightarrow> string \<Rightarrow> int option \<Rightarrow> participant" where
  "team_participant p i t name hp =
     TeamIdentity \<lparr>tv_id = i, tv_name = name, tv_avatarFallback = teamFallback t, tv_avatarColor = teamColor t,
       tv_members = team_members p t, tv_hp = hp\<rparr>"

definition selfParticipant :: "home_params \<Rightarrow> participant" where
  "selfParticipant p =
     (if home_mode p = TeamDuel
      then team_participant p (home_selfTeamId p) (home_selfTeamId p) (displaySelfName p) (selfTeamHP p)
      else PlayerIdentity (selfPlayerIdentity p))"

definition opponentParticipant :: "home_params \<Rightarrow> participant" where
  "opponentParticipant p =
     (if home_mode p = TeamDuel
      then team_participant p (or_str (oppTeamId p) ''opponent'') (oppTeamId p) (home_opponentName p) (oppTeamHP p)
      else PlayerIdentity (opponentPlayerIdentity p))"

section \<open>The result of a round\<close>

definition home_playerResult :: "home_params \<Rightarrow> string \<Rightarrow> round_player_result option" where
  "home_playerResult p i =
     (if i = [] then None else Option.bind (home_roundResult p) (\<lambda>r. map_of (rr_players r) i))"

definition home_teamResult :: "home_params \<Rightarrow> string \<Rightarrow> round_team_result option" where
  "home_teamResult p t =
     (if home_mode p = TeamDuel
      then Option.bind (home_roundResult p) (\<lambda>r. Option.bind (rr_teams r) (\<lambda>ts. map_of ts t)) else None)"

definition resultSelfTeam :: "home_params \<Rightarrow> round_team_result option" where
  "resultSelfTeam p = home_teamResult p (home_selfTeamId p)"

definition resultOppTeam :: "home_params \<Rightarrow> round_team_result option" where
  "resultOppTeam p = (if oppTeamId p = [] then None else home_teamResult p (oppTeamId p))"

definition overlaySelfScore :: "home_params \<Rightarrow> int option" where
  "overlaySelfScore p =
     nullish (map_option rt_score (resultSelfTeam p)) (map_option rp_score (home_playerResult p (home_selfId p)))"

definition overlayOppScore :: "home_params \<Rightarrow> int option" where
  "overlayOppScore p =
     nullish (map_option rt_score (resultOppTeam p)) (map_option rp_score (home_playerResult p (home_oppId p)))"

definition overlaySelfDistanceKm :: "home_params \<Rightarrow> real option" where
  "overlaySelfDistanceKm p =
     nullish (map_option rt_distanceKm (resultSelfTeam p)) (map_option rp_distanceKm (home_playerResult p (home_selfId p)))"

definition overlayOppDistanceKm :: "home_params \<Rightarrow> real option" where
  "overlayOppDistanceKm p =
     nullish (map_option rt_distanceKm (resultOppTeam p)) (map_option rp_distanceKm (home_playerResult p (home_oppId p)))"

datatype result_winner = WinnerSelf | WinnerOpp | WinnerTie

definition resultWinner :: "home_params \<Rightarrow> result_winner" where
  "resultWinner p =
     (if isPointsMode p then WinnerTie
      else case (overlaySelfScore p, overlayOppScore p) of
        (Some s, Some t) \<Rightarrow> if s = t then WinnerTie else if t < s then WinnerSelf else WinnerOpp
      | _ \<Rightarrow> WinnerTie)"

definition resultDamage :: "home_params \<Rightarrow> int" where
  "resultDamage p =
     (if isPointsMode p then 0
      else case (overlaySelfScore p, overlayOppScore p) of (Some s, Some t) \<Rightarrow> \<bar>s - t\<bar> | _ \<Rightarrow> 0)"

definition currentRoundScore :: "home_params \<Rightarrow> int" where
  "currentRoundScore p = or_zero (map_option rp_score (home_playerResult p (home_selfId p)))"

definition currentRoundDistanceKm :: "home_params \<Rightarrow> real" where
  "currentRoundDistanceKm p =
     (case home_playerResult p (home_selfId p) of None \<Rightarrow> 0 | Some r \<Rightarrow> rp_distanceKm r)"

record overlay_player =
  ov_name :: string
  ov_avatarUrl :: string
  ov_fallback :: string
  ov_hp :: int
  ov_score :: "int option"
  ov_distanceKm :: "real option"

record result_overlay =
  ro_roundNumber :: int
  ro_phase :: result_phase
  ro_showScoreReveal :: bool
  ro_winner :: result_winner
  ro_damage :: int
  ro_damageMultiplier :: real
  ro_self :: overlay_player
  ro_opp :: overlay_player

definition resultOverlay :: "home_params \<Rightarrow> result_overlay option" where
  "resultOverlay p =
     (case home_roundResult p of
        None \<Rightarrow> None
      | Some r \<Rightarrow>
          if isPointsMode p then None
          else Some
            \<lparr>ro_roundNumber = rr_roundNumber r, ro_phase = g_resultPhase (hp_game p),
             ro_showScoreReveal = (g_resultPhase (hp_game p) \<noteq> PhBase), ro_winner = resultWinner p,
             ro_damage = resultDamage p, ro_damageMultiplier = damageMultiplier p,
             ro_self = \<lparr>ov_name = displaySelfName p, ov_avatarUrl = home_selfAvatarUrl p, ov_fallback = home_selfFallback p,
               ov_hp = fst (g_resultShownHP (hp_game p)), ov_score = overlaySelfScore p,
               ov_distanceKm = overlaySelfDistanceKm p\<rparr>,
             ro_opp = \<lparr>ov_name = home_opponentName p, ov_avatarUrl = home_oppAvatarUrl p, ov_fallback = home_oppFallback p,
               ov_hp = snd (g_resultShownHP (hp_game p)), ov_score = overlayOppScore p,
               ov_distanceKm = overlayOppDistanceKm p\<rparr>\<rparr>)"

section \<open>The end of a match\<close>

datatype match_outcome = OutcomeWin | OutcomeLose | OutcomeDraw

definition matchOutcome :: "home_params \<Rightarrow> match_outcome" where
  "matchOutcome p =
     (if home_selfHP p = home_oppHP p then OutcomeDraw else if home_oppHP p < home_selfHP p then OutcomeWin else OutcomeLose)"

definition isRankedDuel :: "home_params \<Rightarrow> bool" where
  "isRankedDuel p \<longleftrightarrow> home_mode p = Duel \<and> \<not> flag (Option.bind (home_snapshot p) sn_unranked)"

definition ratingPreview_of :: "home_params \<Rightarrow> string \<Rightarrow> rating_preview option" where
  "ratingPreview_of p i =
     (if isRankedDuel p \<and> i \<noteq> []
      then Option.bind (Option.bind (home_snapshot p) sn_ratingPreview) (\<lambda>r. map_of r i) else None)"

definition both_present :: "home_params \<Rightarrow> bool" where
  "both_present p \<longleftrightarrow>
     isRankedDuel p \<and> map_option sn_state (home_snapshot p) = Some ''ended'' \<and>
     home_selfPlayer p \<noteq> None \<and> home_oppPlayer p \<noteq> None"

definition selfReceivesEloDelta :: "home_params \<Rightarrow> bool" where
  "selfReceivesEloDelta p \<longleftrightarrow> both_present p \<and> \<not> home_selfIsGuest p"

definition opponentReceivesEloDelta :: "home_params \<Rightarrow> bool" where
  "opponentReceivesEloDelta p \<longleftrightarrow> both_present p \<and> \<not> home_oppIsGuest p"

definition selfEloDelta :: "home_params \<Rightarrow> int option" where
  "selfEloDelta p =
     map_option (case matchOutcome p of OutcomeWin \<Rightarrow> rv_win | OutcomeLose \<Rightarrow> rv_lose | OutcomeDraw \<Rightarrow> rv_draw)
       (ratingPreview_of p (home_selfId p))"

definition opponentEloDelta :: "home_params \<Rightarrow> int option" where
  "opponentEloDelta p =
     map_option (case matchOutcome p of OutcomeWin \<Rightarrow> rv_lose | OutcomeLose \<Rightarrow> rv_win | OutcomeDraw \<Rightarrow> rv_draw)
       (ratingPreview_of p (home_oppId p))"

section \<open>The views\<close>

record home_auth_view =
  hav_userId :: string
  hav_accessToken :: string
  hav_userEmail :: string
  hav_displayName :: string
  hav_userAvatar :: string
  hav_onboardingRequired :: bool
  hav_authMigrationRequired :: "bool option"
  hav_recoveryAvailable :: "bool option"
  hav_linkedProviders :: "string list option"
  hav_badges :: "player_badge list"
  hav_selectedBadge :: "player_badge option"
  hav_canPlay :: "bool option"
  hav_nicknameInput :: string
  hav_nicknameError :: string
  hav_nicknameSaving :: bool
  hav_authLoading :: bool
  hav_authError :: string
  hav_googleSignInEnabled :: bool
  hav_googleClientId :: string
  hav_discordSignInEnabled :: bool
  hav_discordClientId :: string
  hav_isAdmin :: bool
  hav_isModerator :: bool
  hav_isGuest :: bool

definition home_auth_of :: "home_params \<Rightarrow> home_auth_view" where
  "home_auth_of p =
     \<lparr>hav_userId = ss_userId (hp_auth p), hav_accessToken = ss_accessToken (hp_auth p),
      hav_userEmail = ss_userEmail (hp_auth p), hav_displayName = ss_displayName (hp_auth p),
      hav_userAvatar = ss_userAvatar (hp_auth p),
      hav_onboardingRequired = ss_onboardingRequired (hp_auth p),
      hav_authMigrationRequired = ss_authMigrationRequired (hp_auth p),
      hav_recoveryAvailable = ss_recoveryAvailable (hp_auth p),
      hav_linkedProviders = ss_linkedProviders (hp_auth p), hav_badges = ss_badges (hp_auth p),
      hav_selectedBadge = ss_selectedBadge (hp_auth p), hav_canPlay = ss_canPlay (hp_auth p),
      hav_nicknameInput = ss_nicknameInput (hp_auth p), hav_nicknameError = ss_nicknameError (hp_auth p),
      hav_nicknameSaving = ss_nicknameSaving (hp_auth p), hav_authLoading = ss_authLoading (hp_auth p),
      hav_authError = ss_authError (hp_auth p),
      hav_googleSignInEnabled = ss_googleSignInEnabled (hp_auth p),
      hav_googleClientId = ss_googleClientId (hp_auth p),
      hav_discordSignInEnabled = ss_discordSignInEnabled (hp_auth p),
      hav_discordClientId = ss_discordClientId (hp_auth p), hav_isAdmin = ss_isAdmin (hp_auth p),
      hav_isModerator = ss_isModerator (hp_auth p), hav_isGuest = ss_isGuest (hp_auth p)\<rparr>"

text \<open>The private lobby of the lobby view is a constant here; the page replaces it.\<close>

record home_lobby_view =
  hlv_inGame :: bool
  hlv_connected :: bool
  hlv_mmr :: num
  hlv_gamesPlayed :: num
  hlv_winsPct :: num
  hlv_leaderboard :: "leaderboard_summary option"
  hlv_leaderboardLoading :: bool
  hlv_status :: matchmaking_status
  hlv_queueStartedAt :: "real option"
  hlv_queueError :: string
  hlv_onlinePlayers :: int
  hlv_canStartSingleplayer :: bool
  hlv_maintenance :: "maintenance_status option"
  hlv_changelogEyebrow :: string
  hlv_changelogTitle :: string
  hlv_changelogMarkdown :: string

definition home_lobby_of :: "home_params \<Rightarrow> home_lobby_view" where
  "home_lobby_of p =
     \<lparr>hlv_inGame = home_inGame p, hlv_connected = m_connected (hp_match p), hlv_mmr = ss_mmr (hp_auth p),
      hlv_gamesPlayed = ss_gamesPlayed (hp_auth p), hlv_winsPct = winsPct p,
      hlv_leaderboard = ss_leaderboard (hp_auth p), hlv_leaderboardLoading = hp_leaderboardLoading p,
      hlv_status = mm_status (m_matchmaking (hp_match p)),
      hlv_queueStartedAt = mm_queueStartedAt (m_matchmaking (hp_match p)),
      hlv_queueError = m_queueError (hp_match p), hlv_onlinePlayers = m_onlinePlayers (hp_match p),
      hlv_canStartSingleplayer = (\<not> home_inGame p \<and> mm_status (m_matchmaking (hp_match p)) \<noteq> Queueing),
      hlv_maintenance = hp_maintenance p, hlv_changelogEyebrow = hp_changelogEyebrow p,
      hlv_changelogTitle = hp_changelogTitle p, hlv_changelogMarkdown = hp_changelogMarkdown p\<rparr>"

definition home_currentRoundId :: "home_params \<Rightarrow> string" where
  "home_currentRoundId p = (case home_snapshot p of None \<Rightarrow> [] | Some sn \<Rightarrow> round_id_of sn)"

definition home_modeName :: "home_params \<Rightarrow> string" where
  "home_modeName p =
     (case home_mode p of
        Singleplayer \<Rightarrow> ''Practice'' | TeamDuel \<Rightarrow> ''Team Duel'' | FreeForAll \<Rightarrow> ''Free for All''
      | Duel \<Rightarrow> if home_ruleset p = Nmpz then ''NMPZ'' else ''Moving'')"

record home_game_view =
  hgv_inGame :: bool
  hgv_mode :: game_mode
  hgv_isSingleplayer :: bool
  hgv_isPointsMode :: bool
  hgv_uiPhase :: ui_phase
  hgv_showResultStage :: bool
  hgv_showMatchEndPage :: bool
  hgv_roundResult :: "round_result option"
  hgv_roundResults :: "round_result list"
  hgv_resultOverlay :: "result_overlay option"
  hgv_resultPlayerAvatars :: "string option js_record"
  hgv_resultPlayerFallbacks :: "string js_record"
  hgv_resultPlayerNames :: "string js_record"
  hgv_participantsById :: "player_identity js_record"
  hgv_selfParticipant :: participant
  hgv_opponentParticipant :: participant
  hgv_resultPlayerBorderColors :: "string option js_record"
  hgv_selfName :: string
  hgv_selfAvatarUrl :: string
  hgv_selfFallback :: string
  hgv_selfAvatarColor :: "string option"
  hgv_selfIsAdmin :: bool
  hgv_selfSelectedBadge :: "player_badge option"
  hgv_opponentName :: string
  hgv_opponentIsAdmin :: bool
  hgv_opponentSelectedBadge :: "player_badge option"
  hgv_opponentDisconnected :: bool
  hgv_oppAvatarUrl :: string
  hgv_oppFallback :: string
  hgv_oppAvatarColor :: "string option"
  hgv_mm :: string
  hgv_ss :: string
  hgv_isRoundTimerRunning :: bool
  hgv_timerProgressPct :: real
  hgv_isTimerCritical :: bool
  hgv_isTimerPulseActive :: bool
  hgv_resultMode :: bool
  hgv_selfHP :: int
  hgv_oppHP :: int
  hgv_totalScore :: int
  hgv_currentRoundScore :: int
  hgv_currentRoundDistanceKm :: real
  hgv_canFinalizeGuess :: bool
  hgv_canAdvanceRound :: bool
  hgv_guess :: "(real \<times> real) option"
  hgv_currentRoundId :: string
  hgv_currentRoundNumber :: int
  hgv_totalRounds :: "int option"
  hgv_userAvatar :: string
  hgv_selfElo :: num
  hgv_opponentElo :: num
  hgv_selfRatingPreview :: "rating_preview option"
  hgv_opponentRatingPreview :: "rating_preview option"
  hgv_damageMultiplier :: real
  hgv_guessSubmitted :: bool
  hgv_opponentGuessAlert :: bool
  hgv_connectionIssue :: string
  hgv_modeName :: string
  hgv_mapName :: string
  hgv_streetViewInteractive :: bool
  hgv_selfUserId :: string

definition home_game_of :: "home_params \<Rightarrow> home_game_view" where
  "home_game_of p =
     \<lparr>hgv_inGame = home_inGame p, hgv_mode = home_mode p,
      hgv_isSingleplayer = (home_mode p = Singleplayer), hgv_isPointsMode = isPointsMode p,
      hgv_uiPhase = home_uiPhase p, hgv_showResultStage = showResultStage p,
      hgv_showMatchEndPage = g_showMatchEndPage (hp_game p), hgv_roundResult = home_roundResult p,
      hgv_roundResults = home_roundResults p, hgv_resultOverlay = resultOverlay p,
      hgv_resultPlayerAvatars = resultPlayerAvatars p,
      hgv_resultPlayerFallbacks = resultPlayerFallbacks p, hgv_resultPlayerNames = resultPlayerNames p,
      hgv_participantsById = participantsById p, hgv_selfParticipant = selfParticipant p,
      hgv_opponentParticipant = opponentParticipant p,
      hgv_resultPlayerBorderColors = resultPlayerBorderColors p, hgv_selfName = displaySelfName p,
      hgv_selfAvatarUrl = home_selfAvatarUrl p, hgv_selfFallback = home_selfFallback p,
      hgv_selfAvatarColor = (if home_mode p = TeamDuel then Some (teamColor (home_selfTeamId p)) else None),
      hgv_selfIsAdmin = home_selfIsAdmin p, hgv_selfSelectedBadge = home_selfSelectedBadge p,
      hgv_opponentName = home_opponentName p, hgv_opponentIsAdmin = home_opponentIsAdmin p,
      hgv_opponentSelectedBadge = home_opponentSelectedBadge p,
      hgv_opponentDisconnected = home_opponentDisconnected p, hgv_oppAvatarUrl = home_oppAvatarUrl p,
      hgv_oppFallback = home_oppFallback p,
      hgv_oppAvatarColor = (if home_mode p = TeamDuel then Some (teamColor (oppTeamId p)) else None),
      hgv_mm = clock_mm p, hgv_ss = clock_ss p, hgv_isRoundTimerRunning = isRoundTimerRunning p,
      hgv_timerProgressPct = timerProgressPct p, hgv_isTimerCritical = isTimerCritical p,
      hgv_isTimerPulseActive = isTimerPulseActive p, hgv_resultMode = resultMode p,
      hgv_selfHP = home_selfHP p, hgv_oppHP = home_oppHP p, hgv_totalScore = home_totalScore p,
      hgv_currentRoundScore = currentRoundScore p, hgv_currentRoundDistanceKm = currentRoundDistanceKm p,
      hgv_canFinalizeGuess = canFinalizeGuess p, hgv_canAdvanceRound = canAdvanceRound p,
      hgv_guess = g_guess (hp_game p), hgv_currentRoundId = home_currentRoundId p,
      hgv_currentRoundNumber = currentRoundNumber p,
      hgv_totalRounds = (if isPointsMode p then Some SINGLEPLAYER_TOTAL_ROUNDS else None),
      hgv_userAvatar = ss_userAvatar (hp_auth p), hgv_selfElo = home_selfElo p,
      hgv_opponentElo = home_opponentElo p, hgv_selfRatingPreview = ratingPreview_of p (home_selfId p),
      hgv_opponentRatingPreview = ratingPreview_of p (home_oppId p),
      hgv_damageMultiplier = damageMultiplier p, hgv_guessSubmitted = g_guessSubmitted (hp_game p),
      hgv_opponentGuessAlert = (\<not> isPointsMode p \<and> g_opponentGuessAlert (hp_game p)),
      hgv_connectionIssue = m_connectionIssue (hp_match p), hgv_modeName = home_modeName p,
      hgv_mapName = (if home_ruleset p = Nmpz then ''A Location World'' else ''A Source World''),
      hgv_streetViewInteractive = (home_ruleset p \<noteq> Nmpz), hgv_selfUserId = home_selfId p\<rparr>"

text \<open>\<open>isPointsMode ? undefined : x\<close>.\<close>

definition unless_points :: "home_params \<Rightarrow> 'a \<Rightarrow> 'a option" where
  "unless_points p x = (if isPointsMode p then None else Some x)"

record end_match_view =
  emv_mode :: game_mode
  emv_outcome :: "match_outcome option"
  emv_selfName :: string
  emv_opponentName :: "string option"
  emv_opponentUserId :: "string option"
  emv_selfElo :: "num option"
  emv_opponentElo :: "num option"
  emv_selfEloDelta :: "int option"
  emv_opponentEloDelta :: "int option"
  emv_selfHP :: int
  emv_oppHP :: "int option"
  emv_selfAvatarUrl :: string
  emv_oppAvatarUrl :: "string option"
  emv_selfFallback :: string
  emv_oppFallback :: "string option"
  emv_selfAvatarColor :: "string option"
  emv_oppAvatarColor :: "string option"
  emv_selfIsAdmin :: bool
  emv_opponentIsAdmin :: "bool option"
  emv_selfSelectedBadge :: "player_badge option"
  emv_opponentSelectedBadge :: "player_badge option"
  emv_totalScore :: int
  emv_roundResults :: "round_result list"
  emv_resultPlayerNames :: "string js_record"
  emv_resultPlayerAvatars :: "string option js_record"
  emv_resultPlayerFallbacks :: "string js_record"
  emv_resultPlayerBorderColors :: "string option js_record"
  emv_participantsById :: "player_identity js_record"
  emv_selfParticipant :: participant
  emv_opponentParticipant :: participant

definition endMatch :: "home_params \<Rightarrow> end_match_view option" where
  "endMatch p =
     (if home_uiPhase p = UIMatchEnd \<and> g_showMatchEndPage (hp_game p) then Some
       \<lparr>emv_mode = home_mode p, emv_outcome = unless_points p (matchOutcome p),
        emv_selfName = home_selfName p, emv_opponentName = unless_points p (home_opponentName p),
        emv_opponentUserId = unless_points p (home_oppId p),
        emv_selfElo = unless_points p (home_selfElo p),
        emv_opponentElo = unless_points p (home_opponentElo p),
        emv_selfEloDelta = (if selfReceivesEloDelta p then selfEloDelta p else None),
        emv_opponentEloDelta = (if opponentReceivesEloDelta p then opponentEloDelta p else None),
        emv_selfHP = home_selfHP p, emv_oppHP = unless_points p (home_oppHP p),
        emv_selfAvatarUrl = home_selfAvatarUrl p, emv_oppAvatarUrl = unless_points p (home_oppAvatarUrl p),
        emv_selfFallback = home_selfFallback p, emv_oppFallback = unless_points p (home_oppFallback p),
        emv_selfAvatarColor = (if home_mode p = TeamDuel then Some (teamColor (home_selfTeamId p)) else None),
        emv_oppAvatarColor = (if home_mode p = TeamDuel \<and> oppTeamId p \<noteq> [] then Some (teamColor (oppTeamId p)) else None),
        emv_selfIsAdmin = home_selfIsAdmin p,
        emv_opponentIsAdmin = unless_points p (home_opponentIsAdmin p),
        emv_selfSelectedBadge = home_selfSelectedBadge p,
        emv_opponentSelectedBadge = (if isPointsMode p then None else home_opponentSelectedBadge p),
        emv_totalScore = home_totalScore p, emv_roundResults = home_roundResults p,
        emv_resultPlayerNames = resultPlayerNames p, emv_resultPlayerAvatars = resultPlayerAvatars p,
        emv_resultPlayerFallbacks = resultPlayerFallbacks p,
        emv_resultPlayerBorderColors = resultPlayerBorderColors p,
        emv_participantsById = participantsById p, emv_selfParticipant = selfParticipant p,
        emv_opponentParticipant = opponentParticipant p\<rparr>
      else None)"

record home_view =
  hv_auth :: home_auth_view
  hv_lobby :: home_lobby_view
  hv_game :: home_game_view
  hv_chatSelfUserId :: string
  hv_onboardingOpen :: bool
  hv_endMatch :: "end_match_view option"
  hv_activeMatchId :: string
  hv_sourceLobbyInviteCode :: string
  hv_appVersion :: string
  hv_maxHP :: int

definition deriveHomeModel :: "home_params \<Rightarrow> home_view" where
  "deriveHomeModel p =
     \<lparr>hv_auth = home_auth_of p, hv_lobby = home_lobby_of p, hv_game = home_game_of p,
      hv_chatSelfUserId = home_selfId p,
      hv_onboardingOpen = (ss_onboardingRequired (hp_auth p) \<and> ss_userId (hp_auth p) \<noteq> []),
      hv_endMatch = endMatch p, hv_activeMatchId = home_activeMatchId p,
      hv_sourceLobbyInviteCode = m_sourceLobbyInviteCode (hp_match p),
      hv_appVersion = appVersion (hp_config p), hv_maxHP = maxHP (hp_config p)\<rparr>"

section \<open>What the page shows\<close>

lemma home_snapshot_Some:
  "home_snapshot p = Some sn \<longleftrightarrow>
     m_snapshot (hp_match p) = Some sn \<and> sn_matchId sn \<noteq> [] \<and> hp_routeMatchId p = Some (sn_matchId sn)"
  by (auto simp: home_snapshot_def split: option.splits)

lemma no_snapshot_not_inGame: "home_snapshot p = None \<Longrightarrow> \<not> home_inGame p"
  by (auto simp: home_inGame_def home_uiPhase_def Let_def deriveUIPhase_def)

lemma inGame_phase: "home_inGame p \<longleftrightarrow> home_uiPhase p \<notin> {UILobby, UIQueueing}"
  by (cases "home_uiPhase p") (simp_all add: home_inGame_def)

lemma inGame_snapshot:
  "home_inGame p \<Longrightarrow> \<exists>sn. m_snapshot (hp_match p) = Some sn \<and> sn_matchId sn \<noteq> [] \<and> hp_routeMatchId p = Some (sn_matchId sn)"
  using no_snapshot_not_inGame [of p] home_snapshot_Some [of p] by (cases "home_snapshot p") blast+

lemma canFinalizeGuess_facts:
  assumes "canFinalizeGuess p"
  shows "\<exists>sn r lat lng. home_snapshot p = Some sn \<and> sn_currentRound sn = Some r \<and> g_guess (hp_game p) = Some (lat, lng) \<and>
     \<not> g_guessSubmitted (hp_game p) \<and> sn_phase sn = LivePhase \<and> home_uiPhase p = UILiveRound"
  using assms by (auto simp: canFinalizeGuess_def split: option.splits)

lemma showResultStage_iff_no_end_page:
  "home_uiPhase p = UIMatchEnd \<Longrightarrow> showResultStage p \<longleftrightarrow> endMatch p = None"
  by (simp add: showResultStage_def endMatch_def)

lemma read_digits_snoc: "read_digits (s @ [c]) = 10 * read_digits s + (of_char c - 48)"
  by (simp add: read_digits_def)

lemma read_digits_zero [simp]: "read_digits (CHR ''0'' # s) = read_digits s"
  by (simp add: read_digits_def)

lemma read_padStart2: "read_digits (padStart2 s) = read_digits s"
proof -
  have "read_digits (replicate k (CHR ''0'') @ s) = read_digits s" for k by (induction k) simp_all
  then show ?thesis by (simp add: padStart2_def)
qed

lemma nat_str_two: "n < 60 \<Longrightarrow> length (padStart2 (nat_str n)) = 2"
proof -
  assume "n < 60"
  moreover have "length (nat_str n) \<le> 2"
  proof (cases "n < 10")
    case True
    then show ?thesis by (subst nat_str.simps) simp
  next
    case False
    have "n div 10 < 10" using \<open>n < 60\<close> by simp
    then have "length (nat_str (n div 10)) = 1" by (subst nat_str.simps) simp
    then show ?thesis using False by (subst nat_str.simps) simp
  qed
  ultimately show ?thesis by (simp add: padStart2_def)
qed

section \<open>Properties\<close>

text \<open>
  C18. An enabled finalize button does what it says: whenever the page enables it, the page is open on the
  match of the controller and shows a guess, and clicking it - \<open>finalizeGuess\<close> in the same states -
  sends, on an open socket, exactly one \<open>guess.finalize\<close> with that guess for the running round of
  that match, and the button is disabled from then on. On a closed socket nothing is sent, and the match
  shows that the connection is gone.
\<close>

theorem finalize_button_works:
  fixes p cfg uid amb gm mc
  assumes "canFinalizeGuess p" and "hp_match p = mc_state mc" and "hp_game p = gm_state gm"
  defines "after \<equiv> finalizeGuess cfg uid amb (gm, mc)"
  shows "\<exists>sn r lat lng. m_snapshot (mc_state mc) = Some sn \<and> hp_routeMatchId p = Some (sn_matchId sn) \<and>
    sn_currentRound sn = Some r \<and> g_guess (hp_game p) = Some (lat, lng) \<and>
    command_issued cfg ''guess.finalize'' (guess_payload uid sn r lat lng) mc (snd after) \<and>
    (isOpen (mc_socket mc) \<longrightarrow>
       \<not> canFinalizeGuess (p\<lparr>hp_match := mc_state (snd after), hp_game := gm_state (fst after)\<rparr>))"
proof -
  obtain sn r lat lng where f: "home_snapshot p = Some sn" "sn_currentRound sn = Some r"
    "g_guess (hp_game p) = Some (lat, lng)" "\<not> g_guessSubmitted (hp_game p)" "sn_phase sn = LivePhase"
    using canFinalizeGuess_facts [OF assms(1)] by blast
  then have m: "m_snapshot (mc_state mc) = Some sn" "hp_routeMatchId p = Some (sn_matchId sn)"
    using assms(2) by (simp_all add: home_snapshot_Some)
  let ?i = "issue_command cfg uid amb ''guess.finalize'' (guess_payload uid sn r lat lng) (gm, mc)"
  have i: "snd after = snd (snd ?i)"
    and g: "fst ?i \<Longrightarrow> snd (guess_of (fst after)) = (True, snd (snd (guess_of (fst (snd ?i)))))"
    using finalizeGuess_issues [of "(gm, mc)" sn r lat lng cfg uid amb] m(1) f assms(3)
    by (simp_all add: after_def Let_def)
  have "command_issued cfg ''guess.finalize'' (guess_payload uid sn r lat lng) mc (snd after)"
    using issue_issued [of cfg _ _ "(gm, mc)"] by (simp add: i)
  moreover have "\<not> canFinalizeGuess (p\<lparr>hp_match := mc_state (snd after), hp_game := gm_state (fst after)\<rparr>)"
    if "isOpen (mc_socket mc)"
  proof
    assume "canFinalizeGuess (p\<lparr>hp_match := mc_state (snd after), hp_game := gm_state (fst after)\<rparr>)"
    from canFinalizeGuess_facts [OF this] have "\<not> g_guessSubmitted (gm_state (fst after))" by auto
    moreover have "fst ?i" using that by (simp add: issue_open_iff)
    ultimately show False using g by (simp add: guess_of_def)
  qed
  ultimately show ?thesis using m f by blast
qed

text \<open>A page on the sample match, a guess placed.\<close>

definition sample_page :: home_params where
  "sample_page =
     \<lparr>hp_auth = initialSessionState\<lparr>ss_userId := ''u1''\<rparr>,
      hp_match = initial_match_state\<lparr>m_snapshot := Some sample_snapshot\<rparr>,
      hp_game = initial_game_state\<lparr>g_guess := Some (1, 2), g_displayRoundSeconds := 75\<rparr>,
      hp_config = game_config, hp_homeResumeMatchId = [], hp_routeMatchId = Some ''m1'',
      hp_leaderboardLoading = False, hp_maintenance = None, hp_changelogEyebrow = [],
      hp_changelogTitle = [], hp_changelogMarkdown = []\<rparr>"

lemma sample_page_fields [simp]:
  "hp_match sample_page = initial_match_state\<lparr>m_snapshot := Some sample_snapshot\<rparr>"
  "hp_game sample_page = initial_game_state\<lparr>g_guess := Some (1, 2), g_displayRoundSeconds := 75\<rparr>"
  "hp_auth sample_page = initialSessionState\<lparr>ss_userId := ''u1''\<rparr>" "hp_routeMatchId sample_page = Some ''m1''"
  by (simp_all add: sample_page_def)

lemma sample_page_facts:
  "canFinalizeGuess sample_page" "\<not> hideRoundClock sample_page"
  by (simp_all add: canFinalizeGuess_def home_snapshot_def home_uiPhase_def deriveUIPhase_def hideRoundClock_def
      isRoundTimerRunning_def sample_snapshot_def sample_round_def initial_match_state_def initial_game_state_def)

text \<open>The controllers behind it, with their socket open.\<close>

definition sample_game :: game_ctl where
  "sample_game = new_game_ctl\<lparr>gm_state := hp_game sample_page\<rparr>"

lemma sample_game_facts:
  "hp_match sample_page = mc_state (snd playing)" "hp_game sample_page = gm_state sample_game"
  by (simp_all add: sample_game_def playing_def)

theorem finalize_button_works_witness:
  "\<exists>i cmd. gk_sent (mc_socket (snd (finalizeGuess game_config ''u1'' playing_ambient (sample_game, snd playing)))) = [(i, cmd)] \<and>
     gc_type cmd = ''guess.finalize'' \<and>
     gc_payload cmd = guess_payload ''u1'' sample_snapshot (sample_round ''r1'') 1 2"
  using finalize_button_works [OF sample_page_facts(1) sample_game_facts, of game_config "''u1''" playing_ambient]
  by (auto simp: command_issued_def playing_facts sample_facts initial_game_state_def)

lemma home_view_fields:
  "hv_endMatch (deriveHomeModel p) = endMatch p"
  "hgv_inGame (hv_game (deriveHomeModel p)) = home_inGame p"
  "hgv_showResultStage (hv_game (deriveHomeModel p)) = showResultStage p"
  "hgv_uiPhase (hv_game (deriveHomeModel p)) = home_uiPhase p"
  "hgv_canFinalizeGuess (hv_game (deriveHomeModel p)) = canFinalizeGuess p"
  "hgv_canAdvanceRound (hv_game (deriveHomeModel p)) = canAdvanceRound p"
  "hgv_mm (hv_game (deriveHomeModel p)) = clock_mm p" "hgv_ss (hv_game (deriveHomeModel p)) = clock_ss p"
  "hgv_timerProgressPct (hv_game (deriveHomeModel p)) = timerProgressPct p"
  "hlv_canStartSingleplayer (hv_lobby (deriveHomeModel p)) =
     (\<not> home_inGame p \<and> mm_status (m_matchmaking (hp_match p)) \<noteq> Queueing)"
  by (simp_all add: deriveHomeModel_def home_game_of_def home_lobby_of_def)

text \<open>
  The page shows one thing at a time: a game is on screen only for a snapshot of the match in the
  URL; the end page opens exactly for a finished match whose result stage is over; a guess can be
  finalized neither on the result stage nor while the round can be advanced; single-player can be
  started only outside a game.
\<close>

theorem home_screens_exclusive:
  fixes p
  defines "v \<equiv> deriveHomeModel p"
  shows "hgv_inGame (hv_game v) = (\<exists>sn. m_snapshot (hp_match p) = Some sn \<and> sn_matchId sn \<noteq> [] \<and>
            hp_routeMatchId p = Some (sn_matchId sn) \<and> hgv_uiPhase (hv_game v) \<notin> {UILobby, UIQueueing}) \<and>
     (hv_endMatch v \<noteq> None) = (hgv_uiPhase (hv_game v) = UIMatchEnd \<and> \<not> hgv_showResultStage (hv_game v)) \<and>
     \<not> (hgv_canFinalizeGuess (hv_game v) \<and> (hgv_showResultStage (hv_game v) \<or> hgv_canAdvanceRound (hv_game v))) \<and>
     \<not> (hlv_canStartSingleplayer (hv_lobby v) \<and> hgv_inGame (hv_game v))"
proof -
  have game: "home_inGame p = (\<exists>sn. m_snapshot (hp_match p) = Some sn \<and> sn_matchId sn \<noteq> [] \<and>
      hp_routeMatchId p = Some (sn_matchId sn) \<and> home_uiPhase p \<notin> {UILobby, UIQueueing})"
    using inGame_snapshot [of p] inGame_phase [of p] by blast
  have guess: "\<not> (canFinalizeGuess p \<and> (showResultStage p \<or> canAdvanceRound p))"
    using canFinalizeGuess_facts [of p] by (auto simp: showResultStage_def canAdvanceRound_def)
  have finished: "(endMatch p \<noteq> None) = (home_uiPhase p = UIMatchEnd \<and> \<not> showResultStage p)"
    by (cases "home_uiPhase p") (simp_all add: showResultStage_def endMatch_def)
  show ?thesis unfolding v_def home_view_fields using game guess finished by blast
qed

text \<open>
  C22. The end page is fair: it reports the duel as won exactly when more of the player's hit points than
  of the opponent's are left (lost, drawn likewise), and a rating change is shown only to a signed-in
  player of a finished ranked duel, as the part of the previewed changes that belongs to that outcome;
  the opponent's is the opposite part.
\<close>

theorem end_page_outcome:
  assumes "hv_endMatch (deriveHomeModel p) = Some e" and "\<not> isPointsMode p"
  shows "emv_oppHP e = Some (home_oppHP p) \<and>
    emv_outcome e = Some (if emv_selfHP e > home_oppHP p then OutcomeWin
      else if emv_selfHP e < home_oppHP p then OutcomeLose else OutcomeDraw) \<and>
    (\<forall>d. emv_selfEloDelta e = Some d \<longrightarrow>
       home_mode p = Duel \<and> \<not> flag (Option.bind (home_snapshot p) sn_unranked) \<and> \<not> home_selfIsGuest p \<and>
       map_option sn_state (home_snapshot p) = Some ''ended'' \<and>
       (\<exists>v. ratingPreview_of p (home_selfId p) = Some v \<and>
          d = (if emv_selfHP e > home_oppHP p then rv_win v else if emv_selfHP e < home_oppHP p then rv_lose v else rv_draw v))) \<and>
    (\<forall>d. emv_opponentEloDelta e = Some d \<longrightarrow>
       (\<exists>v. ratingPreview_of p (home_oppId p) = Some v \<and>
          d = (if emv_selfHP e > home_oppHP p then rv_lose v else if emv_selfHP e < home_oppHP p then rv_win v else rv_draw v)))"
proof -
  have e: "emv_selfHP e = home_selfHP p" "emv_oppHP e = Some (home_oppHP p)" "emv_outcome e = Some (matchOutcome p)"
    "emv_selfEloDelta e = (if selfReceivesEloDelta p then selfEloDelta p else None)"
    "emv_opponentEloDelta e = (if opponentReceivesEloDelta p then opponentEloDelta p else None)"
    using assms by (auto simp: home_view_fields endMatch_def unless_points_def split: if_splits)
  show ?thesis
    unfolding e by (auto simp: matchOutcome_def selfReceivesEloDelta_def both_present_def isRankedDuel_def
      selfEloDelta_def opponentEloDelta_def)
qed

text \<open>
  The round clock reads as the time it shows: minutes and seconds are two digits each, at least,
  the seconds are below sixty, and read back they give the displayed number of seconds.
\<close>

theorem clock_reads_back:
  assumes "0 \<le> g_displayRoundSeconds (hp_game p)" and "\<not> hideRoundClock p"
  defines "v \<equiv> hv_game (deriveHomeModel p)"
  shows "60 * int (read_digits (hgv_mm v)) + int (read_digits (hgv_ss v)) = g_displayRoundSeconds (hp_game p) \<and>
    length (hgv_ss v) = 2 \<and> 2 \<le> length (hgv_mm v) \<and> read_digits (hgv_ss v) < 60"
proof -
  let ?s = "nat (g_displayRoundSeconds (hp_game p))"
  have s: "g_displayRoundSeconds (hp_game p) = int ?s" using assms(1) by simp
  have m: "\<not> g_displayRoundSeconds (hp_game p) div 60 < 0"
    using div_int_pos_iff [of "g_displayRoundSeconds (hp_game p)" 60] assms(1) by simp
  have mm: "hgv_mm v = padStart2 (nat_str (?s div 60))"
    using assms(1,2) m by (simp add: v_def home_view_fields clock_mm_def int_str_def nat_div_distrib)
  have m2: "(g_displayRoundSeconds (hp_game p) mod 60 < 0) = False" by (simp add: not_less)
  have ss: "hgv_ss v = padStart2 (nat_str (?s mod 60))"
    using assms(1,2) by (simp add: v_def m2 home_view_fields clock_ss_def js_rem_def int_str_def nat_mod_distrib)
  have "60 * int (?s div 60) + int (?s mod 60) = g_displayRoundSeconds (hp_game p)"
    using s mult_div_mod_eq [of 60 ?s] by linarith
  moreover have "2 \<le> length (padStart2 (nat_str (?s div 60)))" by (simp add: padStart2_def)
  ultimately show ?thesis
    unfolding mm ss read_padStart2 read_nat_str using nat_str_two [of "?s mod 60"] by simp
qed

theorem clock_reads_back_witness:
  "60 * int (read_digits (hgv_mm (hv_game (deriveHomeModel sample_page)))) +
   int (read_digits (hgv_ss (hv_game (deriveHomeModel sample_page)))) = 75"
  using clock_reads_back [of sample_page] sample_page_facts(2) by (simp add: initial_game_state_def)

text \<open>The page of the winner when the sample match is over.\<close>

definition won_snapshot :: snapshot where
  "won_snapshot =
     sample_snapshot\<lparr>sn_state := ''ended'',
       sn_ratingPreview := Some [(''u1'', \<lparr>rv_win = 12, rv_lose = -9, rv_draw = 1\<rparr>)]\<rparr>"

definition won_page :: home_params where
  "won_page =
     sample_page\<lparr>hp_match := initial_match_state\<lparr>m_snapshot := Some won_snapshot\<rparr>,
       hp_game := initial_game_state\<lparr>g_showMatchEndPage := True, g_displayHP := [(''u1'', 5000), (''u2'', 0)]\<rparr>\<rparr>"

lemma won_page_facts:
  "home_snapshot won_page = Some won_snapshot" "home_uiPhase won_page = UIMatchEnd" "\<not> isPointsMode won_page"
  "\<not> showResultStage won_page" "home_selfId won_page = ''u1''" "home_mode won_page = Duel"
  "g_showMatchEndPage (hp_game won_page)"
proof -
  show s: "home_snapshot won_page = Some won_snapshot"
    by (simp add: won_page_def home_snapshot_def won_snapshot_def sample_snapshot_def)
  show u: "home_uiPhase won_page = UIMatchEnd"
    by (simp add: home_uiPhase_def s deriveUIPhase_def won_snapshot_def)
  show g: "g_showMatchEndPage (hp_game won_page)" by (simp add: won_page_def)
  show m: "home_mode won_page = Duel" by (simp add: home_mode_def s won_snapshot_def sample_snapshot_def)
  show "\<not> isPointsMode won_page" by (simp add: isPointsMode_def m)
  show "\<not> showResultStage won_page" by (simp add: showResultStage_def u g)
  show "home_selfId won_page = ''u1''" by (simp add: home_selfId_def won_page_def)
qed

lemma won_page_hp: "home_selfHP won_page = 5000" "home_oppHP won_page = 0"
proof -
  have o: "home_oppId won_page = ''u2''"
    by (simp add: home_oppId_def won_page_facts home_players_def won_snapshot_def sample_snapshot_def find_str_def)
  show "home_selfHP won_page = 5000" "home_oppHP won_page = 0"
    by (simp_all add: home_selfHP_def home_oppHP_def won_page_facts live_hp_def selfTeamHP_def oppTeamHP_def o)
      (simp_all add: won_page_def)
qed

theorem end_page_outcome_witness:
  "\<exists>e. hv_endMatch (deriveHomeModel won_page) = Some e \<and> emv_outcome e = Some OutcomeWin \<and> emv_selfEloDelta e = Some 12"
proof -
  obtain e where e: "hv_endMatch (deriveHomeModel won_page) = Some e" "emv_selfHP e = 5000"
    "emv_selfEloDelta e = (if selfReceivesEloDelta won_page then selfEloDelta won_page else None)"
    by (auto simp: home_view_fields endMatch_def won_page_facts won_page_hp)
  have "emv_outcome e = Some OutcomeWin"
    using end_page_outcome [OF e(1) won_page_facts(3)] e(2) won_page_hp by simp
  moreover have "selfReceivesEloDelta won_page"
    by (simp add: selfReceivesEloDelta_def both_present_def isRankedDuel_def won_page_facts home_selfPlayer_def
        home_oppPlayer_def home_oppId_def home_players_def home_selfIsGuest_def won_snapshot_def sample_snapshot_def
        sample_player_def find_str_def)
      (simp add: won_page_def initialSessionState_def)
  moreover have "selfEloDelta won_page = Some 12"
    by (simp add: selfEloDelta_def matchOutcome_def won_page_hp ratingPreview_of_def isRankedDuel_def won_page_facts
        won_snapshot_def sample_snapshot_def)
  ultimately show ?thesis using e by auto
qed

end
