(* ===== verification/Sfx.thy ===== *)
theory Sfx
  imports Interfaces Complex_Main
begin

text \<open>
  \<open>lib/audio/sfx.ts\<close> and \<open>lib/audio/browser-sfx-controller.ts\<close>: the sounds of the client and the
  controller that plays them with Web Audio. The browser's part is explicit: what it can do is the
  record \<open>sfx_env\<close>, audio sources are numbered in the order they are made, a download is a number in
  \<open>sx_loads\<close>, and a call of \<open>playBuffer\<close> that waits is a task with the point where it waits. Closing
  the audio context silences its sources.
\<close>

section \<open>The sounds\<close>

datatype sfx_name =
  SfxChat | SfxSelect | SfxGameStart | SfxRoundCountdown | SfxRoundGuess | SfxResultCountdown
| SfxResultEnter | SfxResultExit | SfxScoreReveal | SfxHpHit

record sfx_source =
  sd_src :: string
  sd_type :: string

record sfx_definition =
  sd_sources :: "sfx_source list"
  sd_volume :: "real option"

definition ogg :: "string \<Rightarrow> real \<Rightarrow> sfx_definition" where
  "ogg file volume =
     \<lparr>sd_sources = [\<lparr>sd_src = ''/sfx/'' @ file @ ''.v1.ogg'', sd_type = ''audio/ogg; codecs=vorbis''\<rparr>],
      sd_volume = Some volume\<rparr>"

fun sfxRegistry :: "sfx_name \<Rightarrow> sfx_definition" where
  "sfxRegistry SfxChat = ogg ''chat'' 0.75"
| "sfxRegistry SfxSelect = ogg ''select'' 0.75"
| "sfxRegistry SfxGameStart = ogg ''duel-game-start'' 0.85"
| "sfxRegistry SfxRoundGuess = ogg ''duel-round-guess'' 0.8"
| "sfxRegistry SfxRoundCountdown = ogg ''duel-round-countdown'' 0.75"
| "sfxRegistry SfxResultCountdown = ogg ''duel-round-result-countdown'' 0.75"
| "sfxRegistry SfxResultEnter = ogg ''duel-round-result-enter'' 0.85"
| "sfxRegistry SfxScoreReveal = ogg ''duel-round-result-score-reveal'' 0.9"
| "sfxRegistry SfxHpHit = ogg ''duel-round-result-hp-hit'' 0.55"
| "sfxRegistry SfxResultExit = ogg ''duel-round-result-exit'' 0.8"

text \<open>\<open>Object.keys(sfxRegistry)\<close>.\<close>

definition sfx_names :: "sfx_name list" where
  "sfx_names = [SfxChat, SfxSelect, SfxGameStart, SfxRoundGuess, SfxRoundCountdown, SfxResultCountdown,
     SfxResultEnter, SfxScoreReveal, SfxHpHit, SfxResultExit]"

definition pickPlayableSource :: "(string \<Rightarrow> bool) \<Rightarrow> sfx_source list \<Rightarrow> string" where
  "pickPlayableSource canPlayType sources =
     (case find (\<lambda>s. sd_type s = [] \<or> canPlayType (sd_type s)) sources of
        Some s \<Rightarrow> sd_src s
      | None \<Rightarrow> (case sources of [] \<Rightarrow> [] | s # _ \<Rightarrow> sd_src s))"

section \<open>State\<close>

text \<open>Whether the browser has an \<open>Audio\<close> element and an audio context, and what it can play.\<close>

record sfx_env =
  se_probe :: bool
  se_audioContext :: bool
  se_canPlayType :: "string \<Rightarrow> bool"

datatype audio_state = AudioSuspended | AudioRunning

record audio_source =
  so_name :: sfx_name
  so_volume :: real
  so_loop :: bool
  so_managed :: bool
  so_playing :: bool

datatype play_stage = PlayUnlocking | PlayUnlocked | PlayResuming | PlayLoading nat

record play_task =
  pt_name :: sfx_name
  pt_managed :: bool
  pt_loop :: bool
  pt_stage :: play_stage

datatype sfx_out = SfxFetch string | SfxClose

record sfx_ctl =
  sx_audioContext :: "audio_state option"
  sx_buffers :: "sfx_name list"
  sx_loading :: "(sfx_name \<times> nat) list"
  sx_managed :: "(sfx_name \<times> nat) list"
  sx_unlocked :: bool
  sx_started :: bool
  sx_destroyed :: bool
  sx_listening :: bool
  sx_sources :: "audio_source list"
  sx_tasks :: "(nat \<times> play_task) list"
  sx_nextTask :: nat
  sx_loads :: "(nat \<times> sfx_name \<times> bool) list"
  sx_nextLoad :: nat
  sx_unlocking :: nat
  sx_out :: "sfx_out list"

definition new_sfx_ctl :: sfx_ctl where
  "new_sfx_ctl =
     \<lparr>sx_audioContext = None, sx_buffers = [], sx_loading = [], sx_managed = [], sx_unlocked = False,
      sx_started = False, sx_destroyed = False, sx_listening = False, sx_sources = [], sx_tasks = [],
      sx_nextTask = 0, sx_loads = [], sx_nextLoad = 0, sx_unlocking = 0, sx_out = []\<rparr>"

definition sfx_log :: "sfx_out \<Rightarrow> sfx_ctl \<Rightarrow> sfx_ctl" where
  "sfx_log x sx = sx\<lparr>sx_out := sx_out sx @ [x]\<rparr>"

definition del_key :: "'k \<Rightarrow> ('k \<times> 'v) list \<Rightarrow> ('k \<times> 'v) list" where
  "del_key k m = filter (\<lambda>e. fst e \<noteq> k) m"

section \<open>Starting and stopping\<close>

definition sfx_start :: "sfx_env \<Rightarrow> sfx_ctl \<Rightarrow> sfx_ctl" where
  "sfx_start env sx =
     (if sx_started sx \<or> \<not> se_probe env then sx
      else sx\<lparr>sx_destroyed := False, sx_started := True, sx_listening := True\<rparr>)"

definition silence :: "nat \<Rightarrow> sfx_ctl \<Rightarrow> sfx_ctl" where
  "silence i sx = sx\<lparr>sx_sources := (sx_sources sx)[i := (sx_sources sx ! i)\<lparr>so_playing := False\<rparr>]\<rparr>"

definition sfx_stop :: "sfx_name \<Rightarrow> sfx_ctl \<Rightarrow> sfx_ctl" where
  "sfx_stop name sx =
     (case map_of (sx_managed sx) name of
        None \<Rightarrow> sx
      | Some i \<Rightarrow> silence i (sx\<lparr>sx_managed := del_key name (sx_managed sx)\<rparr>))"

definition stopAllManaged :: "sfx_ctl \<Rightarrow> sfx_ctl" where
  "stopAllManaged sx = fold sfx_stop (map fst (sx_managed sx)) sx"

text \<open>The master gain lives and dies with the audio context.\<close>

definition close_context :: "sfx_ctl \<Rightarrow> sfx_ctl" where
  "close_context sx =
     (case sx_audioContext sx of
        None \<Rightarrow> sx
      | Some _ \<Rightarrow> sfx_log SfxClose (sx\<lparr>sx_audioContext := None,
          sx_sources := map (so_playing_update (\<lambda>_. False)) (sx_sources sx)\<rparr>))"

definition sfx_destroy :: "sfx_ctl \<Rightarrow> sfx_ctl" where
  "sfx_destroy sx =
     (let sx1 = stopAllManaged (sx\<lparr>sx_destroyed := True, sx_started := False, sx_listening := False\<rparr>)
      in (close_context (sx1\<lparr>sx_buffers := [], sx_loading := []\<rparr>))\<lparr>sx_unlocked := False\<rparr>)"

section \<open>Loading\<close>

text \<open>A new context is suspended until the page has been touched; \<open>touched\<close> says so.\<close>

definition ensureAudioContext :: "sfx_env \<Rightarrow> bool \<Rightarrow> sfx_ctl \<Rightarrow> sfx_ctl" where
  "ensureAudioContext env touched sx =
     (if sx_audioContext sx \<noteq> None \<or> \<not> se_audioContext env then sx
      else sx\<lparr>sx_audioContext := Some (if touched then AudioRunning else AudioSuspended)\<rparr>)"

definition resolveSource :: "sfx_env \<Rightarrow> sfx_definition \<Rightarrow> string" where
  "resolveSource env d = (if \<not> se_probe env then [] else pickPlayableSource (se_canPlayType env) (sd_sources d))"

text \<open>\<open>fetchAndDecode\<close> up to its first \<open>await\<close>: whether there is anything to download.\<close>

definition fetchAndDecode :: "sfx_env \<Rightarrow> bool \<Rightarrow> sfx_name \<Rightarrow> sfx_ctl \<Rightarrow> bool \<times> sfx_ctl" where
  "fetchAndDecode env touched name sx =
     (let sx1 = ensureAudioContext env touched sx; src = resolveSource env (sfxRegistry name) in
      if sx_audioContext sx1 = None \<or> \<not> se_probe env \<or> src = [] then (False, sx1)
      else (True, sfx_log (SfxFetch src) sx1))"

text \<open>The number of the download to wait for, None where the buffer is there.\<close>

definition loadBuffer :: "sfx_env \<Rightarrow> bool \<Rightarrow> sfx_name \<Rightarrow> sfx_ctl \<Rightarrow> nat option \<times> sfx_ctl" where
  "loadBuffer env touched name sx =
     (if name \<in> set (sx_buffers sx) then (None, sx)
      else case map_of (sx_loading sx) name of
        Some i \<Rightarrow> (Some i, sx)
      | None \<Rightarrow>
          let (fetching, sx1) = fetchAndDecode env touched name sx; i = sx_nextLoad sx1 in
          (Some i, sx1\<lparr>sx_loads := sx_loads sx1 @ [(i, name, fetching)], sx_nextLoad := i + 1,
                       sx_loading := js_set (sx_loading sx1) name i\<rparr>))"

definition preloadAll :: "sfx_env \<Rightarrow> sfx_ctl \<Rightarrow> sfx_ctl" where
  "preloadAll env sx =
     (if \<not> sx_unlocked sx then sx
      else fold (\<lambda>name s. snd (loadBuffer env True name s)) sfx_names sx)"

text \<open>\<open>unlockAudio\<close> up to the \<open>await\<close> of \<open>resume\<close>; true when it waits.\<close>

definition unlockAudio :: "sfx_env \<Rightarrow> sfx_ctl \<Rightarrow> bool \<times> sfx_ctl" where
  "unlockAudio env sx =
     (if sx_destroyed sx \<or> \<not> se_probe env then (False, sx)
      else
        let sx1 = ensureAudioContext env True (sx\<lparr>sx_listening := False\<rparr>) in
        case sx_audioContext sx1 of
          None \<Rightarrow> (False, sx1)
        | Some st \<Rightarrow>
            let sx2 = sx1\<lparr>sx_unlocked := True\<rparr> in
            if st = AudioSuspended then (True, sx2) else (False, preloadAll env sx2))"

section \<open>Playing\<close>

text \<open>The end of \<open>playBuffer\<close>, with a buffer; \<open>ok\<close> says whether \<open>source.start()\<close> accepts.\<close>

definition start_source :: "bool \<Rightarrow> sfx_name \<Rightarrow> bool \<Rightarrow> bool \<Rightarrow> sfx_ctl \<Rightarrow> sfx_ctl" where
  "start_source ok name managed loop sx =
     (if sx_destroyed sx \<or> sx_audioContext sx = None then sx
      else
        let sx1 = (if managed then sfx_stop name sx else sx);
            i = length (sx_sources sx1);
            volume = (case sd_volume (sfxRegistry name) of None \<Rightarrow> 1 | Some v \<Rightarrow> v);
            sx2 = sx1\<lparr>sx_sources := sx_sources sx1 @
                     [\<lparr>so_name = name, so_volume = volume, so_loop = loop, so_managed = managed, so_playing = ok\<rparr>]\<rparr>
        in if managed \<and> ok then sx2\<lparr>sx_managed := js_set (sx_managed sx2) name i\<rparr> else sx2)"

definition play_wait :: "sfx_name \<Rightarrow> bool \<Rightarrow> bool \<Rightarrow> play_stage \<Rightarrow> sfx_ctl \<Rightarrow> sfx_ctl" where
  "play_wait name managed loop stage sx =
     sx\<lparr>sx_tasks := sx_tasks sx @ [(sx_nextTask sx,
          \<lparr>pt_name = name, pt_managed = managed, pt_loop = loop, pt_stage = stage\<rparr>)],
        sx_nextTask := sx_nextTask sx + 1\<rparr>"

text \<open>\<open>this.buffers.get(name) || (await this.loadBuffer(name))\<close>.\<close>

definition play_loaded :: "sfx_env \<Rightarrow> bool \<Rightarrow> sfx_name \<Rightarrow> bool \<Rightarrow> bool \<Rightarrow> sfx_ctl \<Rightarrow> sfx_ctl" where
  "play_loaded env ok name managed loop sx =
     (case loadBuffer env True name sx of
        (None, sx1) \<Rightarrow> start_source ok name managed loop sx1
      | (Some i, sx1) \<Rightarrow> play_wait name managed loop (PlayLoading i) sx1)"

definition playBuffer :: "sfx_env \<Rightarrow> bool \<Rightarrow> bool \<Rightarrow> sfx_name \<Rightarrow> bool \<Rightarrow> bool \<Rightarrow> sfx_ctl \<Rightarrow> sfx_ctl" where
  "playBuffer env touched ok name managed loop sx =
     (if sx_destroyed sx \<or> \<not> se_probe env then sx
      else
        let sx1 = ensureAudioContext env touched sx in
        case sx_audioContext sx1 of
          None \<Rightarrow> sx1
        | Some st \<Rightarrow>
            if \<not> sx_unlocked sx1 then
              let (waits, sx2) = unlockAudio env sx1 in
              play_wait name managed loop (if waits then PlayUnlocking else PlayUnlocked) sx2
            else if st = AudioSuspended then play_wait name managed loop PlayResuming sx1
            else play_loaded env ok name managed loop sx1)"

definition sfx_play :: "sfx_env \<Rightarrow> bool \<Rightarrow> bool \<Rightarrow> sfx_name \<Rightarrow> sfx_ctl \<Rightarrow> sfx_ctl" where
  "sfx_play env touched ok name = playBuffer env touched ok name False False"

definition playManaged :: "sfx_env \<Rightarrow> bool \<Rightarrow> bool \<Rightarrow> sfx_name \<Rightarrow> sfx_ctl \<Rightarrow> sfx_ctl" where
  "playManaged env touched ok name = playBuffer env touched ok name True False"

definition playLoop :: "sfx_env \<Rightarrow> bool \<Rightarrow> bool \<Rightarrow> sfx_name \<Rightarrow> sfx_ctl \<Rightarrow> sfx_ctl" where
  "playLoop env touched ok name = playBuffer env touched ok name True True"

section \<open>What happens later\<close>

datatype sfx_event =
  SxStart | SxDestroy | SxPlay bool bool sfx_name | SxManaged bool bool sfx_name | SxLoop bool bool sfx_name
| SxStop sfx_name | SxTouch | SxTouchResumed bool | SxResumed nat bool bool | SxLoaded nat bool "bool list"
| SxEnded nat

definition drop_play :: "nat \<Rightarrow> sfx_ctl \<Rightarrow> sfx_ctl" where
  "drop_play i sx = sx\<lparr>sx_tasks := del_key i (sx_tasks sx)\<rparr>"

definition context_resumes :: "bool \<Rightarrow> sfx_ctl \<Rightarrow> sfx_ctl" where
  "context_resumes ok sx =
     (if ok \<and> sx_audioContext sx \<noteq> None then sx\<lparr>sx_audioContext := Some AudioRunning\<rparr> else sx)"

text \<open>The first touch of the page, and the answer of its \<open>resume\<close>.\<close>

definition touch_page :: "sfx_env \<Rightarrow> sfx_ctl \<Rightarrow> sfx_ctl" where
  "touch_page env sx =
     (if \<not> sx_listening sx then sx
      else let (waits, sx1) = unlockAudio env sx in
        if waits then sx1\<lparr>sx_unlocking := sx_unlocking sx1 + 1\<rparr> else sx1)"

definition touch_resumed :: "sfx_env \<Rightarrow> bool \<Rightarrow> sfx_ctl \<Rightarrow> sfx_ctl" where
  "touch_resumed env ok sx =
     (if sx_unlocking sx = 0 then sx
      else preloadAll env (context_resumes ok (sx\<lparr>sx_unlocking := sx_unlocking sx - 1\<rparr>)))"

text \<open>
  A task whose context has been resumed goes on to its buffer; \<open>ok\<close> says whether the context runs.
\<close>

definition play_resumed :: "sfx_env \<Rightarrow> nat \<Rightarrow> bool \<Rightarrow> bool \<Rightarrow> sfx_ctl \<Rightarrow> sfx_ctl" where
  "play_resumed env i ok starts sx =
     (case map_of (sx_tasks sx) i of
        None \<Rightarrow> sx
      | Some tk \<Rightarrow>
          let sx1 = drop_play i sx; go = play_loaded env starts (pt_name tk) (pt_managed tk) (pt_loop tk) in
          (case pt_stage tk of
             PlayLoading _ \<Rightarrow> sx
           | PlayUnlocked \<Rightarrow> go sx1
           | PlayUnlocking \<Rightarrow> go (preloadAll env (context_resumes ok sx1))
           | PlayResuming \<Rightarrow> go (context_resumes ok sx1)))"

text \<open>
  A download ends: its buffer is stored where it succeeded, the entry of \<open>loading\<close> removed, and the
  tasks that waited for it go on in order. \<open>starts\<close> says for each whether its source starts.
\<close>

fun waits_for :: "nat \<Rightarrow> nat \<times> play_task \<Rightarrow> bool" where
  "waits_for n (_, tk) = (pt_stage tk = PlayLoading n)"

fun play_after :: "bool \<Rightarrow> (nat \<times> play_task) \<times> bool \<Rightarrow> sfx_ctl \<Rightarrow> sfx_ctl" where
  "play_after got ((i, tk), starts) sx =
     (if got then start_source starts (pt_name tk) (pt_managed tk) (pt_loop tk) (drop_play i sx)
      else drop_play i sx)"

definition load_settled :: "nat \<Rightarrow> bool \<Rightarrow> bool list \<Rightarrow> sfx_ctl \<Rightarrow> sfx_ctl" where
  "load_settled n ok starts sx =
     (case map_of (sx_loads sx) n of
        None \<Rightarrow> sx
      | Some (name, fetching) \<Rightarrow>
          let got = (ok \<and> fetching);
              sx1 = sx\<lparr>sx_loads := del_key n (sx_loads sx), sx_loading := del_key name (sx_loading sx),
                       sx_buffers := (if got then List.insert name (sx_buffers sx) else sx_buffers sx)\<rparr>;
              waiting = filter (waits_for n) (sx_tasks sx1)
          in fold (play_after got) (zip waiting (starts @ replicate (length waiting) True)) sx1)"

definition source_ended :: "nat \<Rightarrow> sfx_ctl \<Rightarrow> sfx_ctl" where
  "source_ended i sx =
     (if \<not> (i < length (sx_sources sx) \<and> so_playing (sx_sources sx ! i)) then sx
      else
        let name = so_name (sx_sources sx ! i);
            sx1 = (if map_of (sx_managed sx) name = Some i
                   then sx\<lparr>sx_managed := del_key name (sx_managed sx)\<rparr> else sx)
        in silence i sx1)"

fun sfx_step :: "sfx_env \<Rightarrow> sfx_event \<Rightarrow> sfx_ctl \<Rightarrow> sfx_ctl" where
  "sfx_step env SxStart sx = sfx_start env sx"
| "sfx_step env SxDestroy sx = sfx_destroy sx"
| "sfx_step env (SxPlay t ok n) sx = sfx_play env t ok n sx"
| "sfx_step env (SxManaged t ok n) sx = playManaged env t ok n sx"
| "sfx_step env (SxLoop t ok n) sx = playLoop env t ok n sx"
| "sfx_step env (SxStop n) sx = sfx_stop n sx"
| "sfx_step env SxTouch sx = touch_page env sx"
| "sfx_step env (SxTouchResumed ok) sx = touch_resumed env ok sx"
| "sfx_step env (SxResumed i ok starts) sx = play_resumed env i ok starts sx"
| "sfx_step env (SxLoaded n ok starts) sx = load_settled n ok starts sx"
| "sfx_step env (SxEnded i) sx = source_ended i sx"

inductive sfx_reachable :: "sfx_env \<Rightarrow> sfx_ctl \<Rightarrow> bool" for env where
  sfx_init: "sfx_reachable env new_sfx_ctl"
| sfx_steps: "sfx_reachable env sx \<Longrightarrow> sfx_reachable env (sfx_step env ev sx)"

section \<open>Invariant\<close>

lemma map_of_del_key [simp]: "map_of (del_key k m) = (map_of m)(k := None)"
  by (induction m) (auto simp: del_key_def)

text \<open>The entries of \<open>managed\<close> are exactly the managed sources that sound.\<close>

definition managed_sound :: "sfx_ctl \<Rightarrow> nat \<Rightarrow> bool" where
  "managed_sound sx i \<longleftrightarrow>
     i < length (sx_sources sx) \<and> so_managed (sx_sources sx ! i) \<and> so_playing (sx_sources sx ! i)"

definition sfx_inv :: "sfx_ctl \<Rightarrow> bool" where
  "sfx_inv sx \<longleftrightarrow>
     (\<forall>i. managed_sound sx i \<longrightarrow> map_of (sx_managed sx) (so_name (sx_sources sx ! i)) = Some i) \<and>
     (\<forall>n i. map_of (sx_managed sx) n = Some i \<longrightarrow> managed_sound sx i \<and> so_name (sx_sources sx ! i) = n)"

lemma sfx_invI:
  "(\<And>i. managed_sound sx i \<Longrightarrow> map_of (sx_managed sx) (so_name (sx_sources sx ! i)) = Some i) \<Longrightarrow>
   (\<And>n i. map_of (sx_managed sx) n = Some i \<Longrightarrow> managed_sound sx i \<and> so_name (sx_sources sx ! i) = n) \<Longrightarrow>
   sfx_inv sx"
  by (simp add: sfx_inv_def)

lemma sfx_inv_same:
  "sx_managed sx' = sx_managed sx \<Longrightarrow> sx_sources sx' = sx_sources sx \<Longrightarrow> sfx_inv sx' = sfx_inv sx"
  by (simp add: sfx_inv_def managed_sound_def)

lemma sound_registered:
  "sfx_inv sx \<Longrightarrow> managed_sound sx i \<Longrightarrow> map_of (sx_managed sx) (so_name (sx_sources sx ! i)) = Some i"
  by (simp add: sfx_inv_def)

lemma registered_sound:
  "sfx_inv sx \<Longrightarrow> map_of (sx_managed sx) n = Some i \<Longrightarrow> managed_sound sx i \<and> so_name (sx_sources sx ! i) = n"
  by (simp add: sfx_inv_def)

lemma managed_silence:
  "managed_sound (silence i sx) j \<longleftrightarrow> managed_sound sx j \<and> j \<noteq> i"
  by (cases "j = i") (auto simp: managed_sound_def silence_def)

lemma silence_simps [simp]:
  "sx_managed (silence i sx) = sx_managed sx" "length (sx_sources (silence i sx)) = length (sx_sources sx)"
  by (simp_all add: silence_def)

lemma silence_name [simp]: "so_name (sx_sources (silence i sx) ! j) = so_name (sx_sources sx ! j)"
  by (cases "i < length (sx_sources sx)"; cases "i = j") (simp_all add: silence_def list_update_beyond)

lemma managed_other [simp]:
  "managed_sound (sx\<lparr>sx_managed := m\<rparr>) i = managed_sound sx i"
  by (simp add: managed_sound_def)

lemma sfx_inv_stop: "sfx_inv sx \<Longrightarrow> sfx_inv (sfx_stop n sx)"
proof (cases "map_of (sx_managed sx) n")
  case None
  then show "sfx_inv sx \<Longrightarrow> ?thesis" by (simp add: sfx_stop_def)
next
  case (Some k)
  assume inv: "sfx_inv sx"
  from registered_sound [OF inv Some] have k: "managed_sound sx k" "so_name (sx_sources sx ! k) = n" by auto
  show ?thesis
  proof (rule sfx_invI)
    fix i assume "managed_sound (sfx_stop n sx) i"
    then have i: "managed_sound sx i" "i \<noteq> k" using Some by (auto simp: sfx_stop_def managed_silence)
    with sound_registered [OF inv i(1)] Some have "so_name (sx_sources sx ! i) \<noteq> n" by auto
    with sound_registered [OF inv i(1)] Some
    show "map_of (sx_managed (sfx_stop n sx)) (so_name (sx_sources (sfx_stop n sx) ! i)) = Some i"
      by (simp add: sfx_stop_def)
  next
    fix m i assume "map_of (sx_managed (sfx_stop n sx)) m = Some i"
    then have m: "m \<noteq> n" "map_of (sx_managed sx) m = Some i" using Some by (auto simp: sfx_stop_def split: if_splits)
    with registered_sound [OF inv m(2)] k
    show "managed_sound (sfx_stop n sx) i \<and> so_name (sx_sources (sfx_stop n sx) ! i) = m"
      using Some by (auto simp: sfx_stop_def managed_silence)
  qed
qed

lemma stop_silences:
  "sfx_inv sx \<Longrightarrow> managed_sound (sfx_stop n sx) i \<Longrightarrow> so_name (sx_sources (sfx_stop n sx) ! i) \<noteq> n"
  using sound_registered [OF sfx_inv_stop, of sx n i]
  by (auto simp: sfx_stop_def split: option.splits)

lemma stop_managed: "map_of (sx_managed (sfx_stop n sx)) m = (if m = n then None else map_of (sx_managed sx) m)"
  by (simp add: sfx_stop_def split: option.splits)

lemma stops_managed:
  "map_of (sx_managed (fold sfx_stop ns sx)) m = (if m \<in> set ns then None else map_of (sx_managed sx) m)"
  by (induction ns arbitrary: sx) (simp_all add: stop_managed)

lemma stopAll_managed: "map_of (sx_managed (stopAllManaged sx)) m = None"
  by (simp add: stopAllManaged_def stops_managed map_of_eq_None_iff)

lemma sfx_inv_stops: "sfx_inv sx \<Longrightarrow> sfx_inv (fold sfx_stop ns sx)"
  by (induction ns arbitrary: sx) (simp_all add: sfx_inv_stop)

lemma sfx_inv_stopAll: "sfx_inv sx \<Longrightarrow> sfx_inv (stopAllManaged sx)"
  by (simp add: stopAllManaged_def sfx_inv_stops)

lemma sfx_inv_close:
  "sfx_inv sx \<Longrightarrow> \<forall>n. map_of (sx_managed sx) n = None \<Longrightarrow> sfx_inv (close_context sx)"
  by (cases "sx_audioContext sx") (auto simp: close_context_def sfx_log_def sfx_inv_def managed_sound_def)

lemma sfx_inv_destroy: "sfx_inv sx \<Longrightarrow> sfx_inv (sfx_destroy sx)"
proof -
  let ?a = "stopAllManaged (sx\<lparr>sx_destroyed := True, sx_started := False, sx_listening := False\<rparr>)"
  let ?b = "?a\<lparr>sx_buffers := [], sx_loading := []\<rparr>"
  assume "sfx_inv sx"
  then have "sfx_inv ?a" by (intro sfx_inv_stopAll) (simp add: sfx_inv_def managed_sound_def)
  then have "sfx_inv ?b" by (simp add: sfx_inv_def managed_sound_def)
  then have "sfx_inv (close_context ?b)" by (rule sfx_inv_close) (simp add: stopAll_managed)
  then show ?thesis by (simp add: sfx_destroy_def Let_def sfx_inv_def managed_sound_def)
qed

text \<open>What only loads or waits touches neither.\<close>

definition sounds_of :: "sfx_ctl \<Rightarrow> (sfx_name \<times> nat) list \<times> audio_source list" where
  "sounds_of sx = (sx_managed sx, sx_sources sx)"

lemma sfx_inv_sounds: "sounds_of sx' = sounds_of sx \<Longrightarrow> sfx_inv sx' = sfx_inv sx"
  by (rule sfx_inv_same) (simp_all add: sounds_of_def)

lemma sounds_ensure [simp]: "sounds_of (ensureAudioContext env t sx) = sounds_of sx"
  by (simp add: ensureAudioContext_def sounds_of_def)

lemma sounds_log [simp]: "sounds_of (sfx_log x sx) = sounds_of sx"
  by (simp add: sounds_of_def sfx_log_def)

lemma sounds_fetch [simp]: "sounds_of (snd (fetchAndDecode env t n sx)) = sounds_of sx"
  by (simp add: fetchAndDecode_def Let_def)

lemma sounds_loads [simp]:
  "sounds_of (sx\<lparr>sx_loads := a, sx_nextLoad := b, sx_loading := c\<rparr>) = sounds_of sx"
  by (simp add: sounds_of_def)

lemma sounds_load [simp]: "sounds_of (snd (loadBuffer env t n sx)) = sounds_of sx"
  by (simp add: loadBuffer_def Let_def case_prod_beta split: option.splits)

lemma sounds_preload [simp]: "sounds_of (preloadAll env sx) = sounds_of sx"
proof -
  have "sounds_of (fold (\<lambda>n s. snd (loadBuffer env True n s)) ns sx) = sounds_of sx" for ns
    by (induction ns arbitrary: sx) simp_all
  then show ?thesis by (simp add: preloadAll_def)
qed

lemma sounds_simple [simp]:
  "sounds_of (play_wait n m l st sx) = sounds_of sx" "sounds_of (drop_play i sx) = sounds_of sx"
  "sounds_of (context_resumes ok sx) = sounds_of sx" "sounds_of (sfx_start env sx) = sounds_of sx"
  "sounds_of (sx\<lparr>sx_unlocked := b\<rparr>) = sounds_of sx" "sounds_of (sx\<lparr>sx_listening := b\<rparr>) = sounds_of sx"
  "sounds_of (sx\<lparr>sx_unlocking := k\<rparr>) = sounds_of sx"
  by (simp_all add: play_wait_def drop_play_def context_resumes_def sfx_start_def sounds_of_def)

lemma sounds_unlock [simp]: "sounds_of (snd (unlockAudio env sx)) = sounds_of sx"
  by (simp add: unlockAudio_def Let_def split: option.splits)

lemma sounds_settle [simp]:
  "sounds_of (sx\<lparr>sx_loads := a, sx_loading := b, sx_buffers := c\<rparr>) = sounds_of sx"
  by (simp add: sounds_of_def)

lemma sfx_inv_frame [simp]:
  "sfx_inv (play_wait n m l st sx) = sfx_inv sx" "sfx_inv (drop_play i sx) = sfx_inv sx"
  "sfx_inv (context_resumes ok sx) = sfx_inv sx" "sfx_inv (sfx_start env sx) = sfx_inv sx"
  "sfx_inv (sx\<lparr>sx_unlocked := b\<rparr>) = sfx_inv sx" "sfx_inv (sx\<lparr>sx_unlocking := k\<rparr>) = sfx_inv sx"
  "sfx_inv (ensureAudioContext env t sx) = sfx_inv sx" "sfx_inv (preloadAll env sx) = sfx_inv sx"
  "sfx_inv (snd (loadBuffer env t n sx)) = sfx_inv sx" "sfx_inv (snd (unlockAudio env sx)) = sfx_inv sx"
  "sfx_inv (sx\<lparr>sx_loads := la, sx_loading := lb, sx_buffers := lc\<rparr>) = sfx_inv sx"
  by (rule sfx_inv_sounds, simp)+

lemma sfx_inv_new_plain:
  "sfx_inv sx \<Longrightarrow> \<not> (so_managed r \<and> so_playing r) \<Longrightarrow> sfx_inv (sx\<lparr>sx_sources := sx_sources sx @ [r]\<rparr>)"
  by (auto simp: sfx_inv_def managed_sound_def nth_append less_Suc_eq split: if_splits)

lemma sfx_inv_new_managed:
  assumes inv: "sfx_inv sx" and free: "map_of (sx_managed sx) (so_name r) = None"
    and r: "so_managed r" "so_playing r"
  shows "sfx_inv (sx\<lparr>sx_sources := sx_sources sx @ [r],
    sx_managed := js_set (sx_managed sx) (so_name r) (length (sx_sources sx))\<rparr>)"
proof (rule sfx_invI, goal_cases)
  case (1 i)
  show ?case
  proof (cases "i < length (sx_sources sx)")
    case True
    with 1 have i: "managed_sound sx i" by (simp add: managed_sound_def nth_append)
    from sound_registered [OF inv i] free True show ?thesis by (auto simp: nth_append)
  next
    case False
    with 1 have "i = length (sx_sources sx)" by (simp add: managed_sound_def)
    then show ?thesis by simp
  qed
next
  case (2 n i)
  show ?case
  proof (cases "n = so_name r")
    case True
    with 2 r show ?thesis by (auto simp: managed_sound_def)
  next
    case False
    with 2 have n: "map_of (sx_managed sx) n = Some i" by simp
    from registered_sound [OF inv n] show ?thesis by (auto simp: managed_sound_def nth_append)
  qed
qed

lemma sfx_inv_source: "sfx_inv sx \<Longrightarrow> sfx_inv (start_source ok n m l sx)"
proof (cases "m \<and> ok")
  assume inv: "sfx_inv sx"
  case True
  have "map_of (sx_managed (sfx_stop n sx)) n = None" by (simp add: stop_managed)
  with True inv show ?thesis
    using sfx_inv_new_managed [OF sfx_inv_stop [OF inv, of n], of
        "\<lparr>so_name = n, so_volume = (case sd_volume (sfxRegistry n) of None \<Rightarrow> 1 | Some v \<Rightarrow> v),
          so_loop = l, so_managed = True, so_playing = True\<rparr>"]
    by (simp add: start_source_def Let_def)
next
  assume inv: "sfx_inv sx"
  case False
  with inv show ?thesis
    by (auto simp: start_source_def Let_def intro!: sfx_inv_new_plain sfx_inv_stop)
qed

lemma sfx_inv_loaded: "sfx_inv sx \<Longrightarrow> sfx_inv (play_loaded env ok n m l sx)"
proof -
  assume "sfx_inv sx"
  then have "sfx_inv (snd (loadBuffer env True n sx))" by simp
  then show ?thesis
    by (cases "loadBuffer env True n sx"; cases "fst (loadBuffer env True n sx)")
       (simp_all add: play_loaded_def sfx_inv_source)
qed

lemma sfx_inv_playBuffer: "sfx_inv sx \<Longrightarrow> sfx_inv (playBuffer env t ok n m l sx)"
  unfolding playBuffer_def Let_def case_prod_beta
  by (simp add: sfx_inv_loaded split: option.split)

lemma sfx_inv_after: "sfx_inv sx \<Longrightarrow> sfx_inv (play_after got w sx)"
  by (induction got w sx rule: play_after.induct) (auto intro!: sfx_inv_source)

lemma sfx_inv_afters: "sfx_inv sx \<Longrightarrow> sfx_inv (fold (play_after got) ws sx)"
  by (induction ws arbitrary: sx) (auto intro: sfx_inv_after)

lemma sfx_inv_load_end [simp]:
  "sfx_inv (sx\<lparr>sx_loads := la, sx_loading := lb\<rparr>) = sfx_inv sx"
  by (rule sfx_inv_same) simp_all

lemma sfx_inv_settled: "sfx_inv sx \<Longrightarrow> sfx_inv (load_settled n ok starts sx)"
  by (auto simp: load_settled_def Let_def split: option.splits intro!: sfx_inv_afters)

lemma sfx_inv_silence:
  assumes "sfx_inv sx"
  shows "sfx_inv (silence i (if map_of (sx_managed sx) (so_name (sx_sources sx ! i)) = Some i
     then sx\<lparr>sx_managed := del_key (so_name (sx_sources sx ! i)) (sx_managed sx)\<rparr> else sx))"
proof (cases "map_of (sx_managed sx) (so_name (sx_sources sx ! i)) = Some i")
  case True
  with sfx_inv_stop [OF assms, of "so_name (sx_sources sx ! i)"] show ?thesis by (simp add: sfx_stop_def)
next
  case False
  then have "\<not> managed_sound sx i" using sound_registered [OF assms] by blast
  moreover have "map_of (sx_managed sx) n \<noteq> Some i" for n using registered_sound [OF assms, of n i] False by auto
  ultimately show ?thesis using False assms by (auto simp: sfx_inv_def managed_silence)
qed

lemma sfx_inv_ended: "sfx_inv sx \<Longrightarrow> sfx_inv (source_ended i sx)"
  using sfx_inv_silence [of sx i] by (simp add: source_ended_def Let_def)

lemma sfx_inv_resumed: "sfx_inv sx \<Longrightarrow> sfx_inv (play_resumed env i ok starts sx)"
  by (simp add: play_resumed_def Let_def sfx_inv_loaded split: option.splits play_stage.splits)

lemmas sfx_ops = sfx_play_def playManaged_def playLoop_def touch_page_def touch_resumed_def

lemmas sfx_inv_ops = sfx_inv_playBuffer sfx_inv_destroy sfx_inv_stop sfx_inv_settled sfx_inv_ended sfx_inv_resumed

lemma sfx_inv_step: "sfx_inv sx \<Longrightarrow> sfx_inv (sfx_step env ev sx)"
  by (cases ev) (simp_all add: sfx_ops case_prod_beta Let_def sfx_inv_ops)

interpretation sfx_machine: invariant_machine "sfx_step env" sfx_inv for env
  by unfold_locales (rule sfx_inv_step)

lemma reachable_sfx_inv: "sfx_reachable env sx \<Longrightarrow> sfx_inv sx"
proof (induction rule: sfx_reachable.induct)
  case sfx_init
  then show ?case by (simp add: sfx_inv_def managed_sound_def new_sfx_ctl_def)
next
  case (sfx_steps sx ev)
  from sfx_steps.IH show ?case by (rule sfx_inv_step)
qed

section \<open>Properties\<close>

definition page_env :: sfx_env where
  "page_env = \<lparr>se_probe = True, se_audioContext = True, se_canPlayType = (\<lambda>_. True)\<rparr>"

lemmas sfx_runs = sfx_ops playBuffer_def play_loaded_def loadBuffer_def fetchAndDecode_def ensureAudioContext_def
  unlockAudio_def preloadAll_def resolveSource_def pickPlayableSource_def start_source_def sfx_stop_def
  play_wait_def drop_play_def context_resumes_def load_settled_def play_resumed_def sfx_log_def silence_def
  sfx_start_def new_sfx_ctl_def del_key_def ogg_def sfx_names_def page_env_def

text \<open>
  However plays, downloads and endings are interleaved, at most one managed source of a name sounds,
  and stopping the name leaves none of them sounding.
\<close>

theorem stop_reaches_every_managed_sound:
  assumes "sfx_reachable env sx"
  shows "(managed_sound sx i \<and> managed_sound sx j \<and> so_name (sx_sources sx ! i) = so_name (sx_sources sx ! j)
            \<longrightarrow> i = j) \<and>
         (managed_sound (sfx_stop n sx) k \<longrightarrow> so_name (sx_sources (sfx_stop n sx) ! k) \<noteq> n)"
proof -
  have inv: "sfx_inv sx" using assms by (rule reachable_sfx_inv)
  show ?thesis
    using sound_registered [OF inv, of i] sound_registered [OF inv, of j] stop_silences [OF inv, of n k]
    by (metis option.inject)
qed

definition countdown_loaded :: sfx_ctl where
  "countdown_loaded = fold (sfx_step page_env)
     [SxStart, SxTouch, SxLoaded 4 True [], SxManaged True True SfxRoundCountdown] new_sfx_ctl"

lemma countdown_loaded_facts:
  "map_of (sx_managed countdown_loaded) SfxRoundCountdown = Some 0"
  by (simp add: countdown_loaded_def sfx_runs numeral_nat)

lemma countdown_loaded_reachable: "sfx_reachable page_env countdown_loaded"
  unfolding countdown_loaded_def by (simp del: sfx_step.simps) (intro sfx_steps sfx_init)

theorem stop_reaches_every_managed_sound_witness:
  "managed_sound countdown_loaded 0 \<and>
   \<not> managed_sound (sfx_stop SfxRoundCountdown countdown_loaded) 0"
proof -
  have inv: "sfx_inv countdown_loaded" by (rule reachable_sfx_inv [OF countdown_loaded_reachable])
  from registered_sound [OF inv countdown_loaded_facts]
  have r: "managed_sound countdown_loaded 0" "so_name (sx_sources countdown_loaded ! 0) = SfxRoundCountdown" by auto
  have "so_name (sx_sources (sfx_stop SfxRoundCountdown countdown_loaded) ! 0) = SfxRoundCountdown"
    using r countdown_loaded_facts by (simp add: sfx_stop_def)
  with r(1) stop_reaches_every_managed_sound [OF countdown_loaded_reachable, of 0 0 SfxRoundCountdown 0]
  show ?thesis by blast
qed

text \<open>
  Stopping a sound whose buffer is still on its way does not stop it: the play that waits for the
  download goes on when it arrives, and the sound starts after it was stopped.
\<close>

theorem stopped_sound_still_starts:
  assumes "se_probe env" and "resolveSource env (sfxRegistry n) \<noteq> []"
    and "\<not> sx_destroyed sx" and "sx_unlocked sx" and "sx_audioContext sx = Some AudioRunning"
    and "n \<notin> set (sx_buffers sx)" and "map_of (sx_loading sx) n = None"
    and "map_of (sx_loads sx) (sx_nextLoad sx) = None"
    and "\<forall>e\<in>set (sx_tasks sx). \<not> waits_for (sx_nextLoad sx) e"
    and "sx' = fold (sfx_step env) [SxManaged True True n, SxStop n, SxLoaded (sx_nextLoad sx) True [True]] sx"
  shows "managed_sound sx' (length (sx_sources sx)) \<and> so_name (sx_sources sx' ! length (sx_sources sx)) = n"
proof -
  have none: "filter (waits_for (sx_nextLoad sx)) (sx_tasks sx) = []" using assms(9) by (simp add: filter_empty_conv)
  define s1 where "s1 = playManaged env True True n sx"
  have s1: "sx_sources s1 = sx_sources sx" "sx_managed s1 = sx_managed sx" "\<not> sx_destroyed s1"
    "sx_audioContext s1 = Some AudioRunning"
    "map_of (sx_loads s1) (sx_nextLoad sx) = Some (n, True)"
    "sx_tasks s1 = sx_tasks sx @ [(sx_nextTask sx, \<lparr>pt_name = n, pt_managed = True, pt_loop = False,
        pt_stage = PlayLoading (sx_nextLoad sx)\<rparr>)]"
    using assms(1-8)
    by (simp_all add: s1_def playManaged_def playBuffer_def play_loaded_def loadBuffer_def fetchAndDecode_def
        ensureAudioContext_def play_wait_def sfx_log_def Let_def map_add_def)
  define s2 where "s2 = sfx_stop n s1"
  have s2: "length (sx_sources s2) = length (sx_sources sx)" "\<not> sx_destroyed s2"
    "sx_audioContext s2 = Some AudioRunning" "sx_loads s2 = sx_loads s1" "sx_tasks s2 = sx_tasks s1"
    using s1 by (simp_all add: s2_def sfx_stop_def silence_def split: option.splits)
  have sx': "sx' = load_settled (sx_nextLoad sx) True [True] s2"
    by (simp add: assms(10) s1_def s2_def)
  show ?thesis
    using s1 s2 none
    by (auto simp: sx' load_settled_def start_source_def drop_play_def managed_sound_def sfx_stop_def
        silence_def Let_def nth_append split: option.splits)
qed

definition tuned :: sfx_ctl where
  "tuned = new_sfx_ctl\<lparr>sx_started := True, sx_unlocked := True, sx_audioContext := Some AudioRunning\<rparr>"

theorem stopped_sound_still_starts_witness:
  "managed_sound (fold (sfx_step page_env)
     [SxManaged True True SfxRoundCountdown, SxStop SfxRoundCountdown, SxLoaded 0 True [True]] tuned) 0"
proof -
  have "sx_nextLoad tuned = 0" "length (sx_sources tuned) = 0" by (simp_all add: tuned_def new_sfx_ctl_def)
  then show ?thesis
    using stopped_sound_still_starts [of page_env SfxRoundCountdown tuned, OF _ _ _ _ _ _ _ _ _ refl]
    by (simp add: tuned_def sfx_runs)
qed

end
