(* ===== verification/HomeRuntime.thy ===== *)
theory HomeRuntime
  imports MatchInvariants MatchRoute GameController LobbyController ChatController HomeModel Sfx
begin

text \<open>
  \<open>features/home/state/home-runtime.ts\<close>: the controllers of one page and their wiring. The match
  controller's notifications run the subscriptions of the route and of the game controller, in the order
  the two were started; signing out runs \<open>onResetSession\<close> over the match, the lobby and the chat. What a
  controller asked to be played stays in its own record of events.
\<close>

section \<open>The runtime\<close>

record home_runtime =
  rt_session :: session_ctl
  rt_match :: match_ctl
  rt_lobby :: lobby_ctl
  rt_route :: route_ctl
  rt_game :: game_ctl
  rt_chat :: chat_ctl
  rt_sfx :: sfx_ctl
  rt_started :: bool

definition createHomeRuntime :: "runtime_config \<Rightarrow> home_runtime" where
  "createHomeRuntime cfg =
     \<lparr>rt_session = new_session_ctl cfg, rt_match = new_match_ctl, rt_lobby = new_lobby_ctl,
      rt_route = new_route_ctl, rt_game = new_game_ctl, rt_chat = new_chat_ctl, rt_sfx = new_sfx_ctl,
      rt_started = False\<rparr>"

text \<open>\<open>stored\<close> is \<open>browserRuntime\<close>; on the server every call makes a new runtime.\<close>

definition getHomeRuntime ::
  "bool \<Rightarrow> runtime_config \<Rightarrow> home_runtime option \<Rightarrow> home_runtime \<times> home_runtime option" where
  "getHomeRuntime inBrowser cfg stored =
     (if \<not> inBrowser then (createHomeRuntime cfg, stored)
      else case stored of
        Some rt \<Rightarrow> (rt, stored)
      | None \<Rightarrow> (createHomeRuntime cfg, Some (createHomeRuntime cfg)))"

definition rt_user :: "home_runtime \<Rightarrow> string" where
  "rt_user rt = ss_userId (sc_state (rt_session rt))"

definition on_session :: "(session_ctl \<Rightarrow> session_ctl) \<Rightarrow> home_runtime \<Rightarrow> home_runtime" where
  [ctl_defs]: "on_session f rt = rt\<lparr>rt_session := f (rt_session rt)\<rparr>"

text \<open>A change of the match controller, with what its subscribers do.\<close>

definition on_match ::
  "runtime_config \<Rightarrow> ambient \<Rightarrow> (match_ctl \<Rightarrow> match_ctl) \<Rightarrow> home_runtime \<Rightarrow> home_runtime" where
  "on_match cfg amb f rt =
     (let mc = rt_match rt; mc' = f mc in
      rt\<lparr>rt_match := mc',
         rt_route := fold on_match_change (emitted_states mc mc') (rt_route rt),
         rt_game := follow cfg (rt_user rt) amb mc mc' (rt_game rt)\<rparr>)"

definition onResetSession ::
  "runtime_config \<Rightarrow> lobby_casts \<Rightarrow> ambient \<Rightarrow> home_runtime \<Rightarrow> home_runtime" where
  "onResetSession cfg casts amb rt =
     (let rt1 = on_match cfg amb resetConnectionState rt in
      rt1\<lparr>rt_lobby := lobby_reset casts (rt_lobby rt1), rt_chat := chat_reset (rt_chat rt1)\<rparr>)"

definition rt_clearAuthSession ::
  "runtime_config \<Rightarrow> lobby_casts \<Rightarrow> ambient \<Rightarrow> string \<Rightarrow> home_runtime \<Rightarrow> home_runtime" where
  "rt_clearAuthSession cfg casts amb message rt =
     on_session (clearAuthSession cfg message) (onResetSession cfg casts amb rt)"

definition startHomeRuntime ::
  "runtime_config \<Rightarrow> sfx_env \<Rightarrow> ambient \<Rightarrow> string \<Rightarrow> string \<Rightarrow> home_runtime \<Rightarrow> home_runtime" where
  "startHomeRuntime cfg env amb origin hostname rt =
     (if rt_started rt then rt
      else
        let sc = sc_start cfg origin hostname (rt_session rt); mc = mc_start (rt_match rt) in
        rt\<lparr>rt_started := True, rt_session := sc, rt_match := mc, rt_route := mrc_start (rt_route rt),
           rt_sfx := sfx_start env (rt_sfx rt),
           rt_game := gm_start cfg (ss_userId (sc_state sc)) (of_int (am_now amb)) (m_snapshot (mc_state mc))
             (rt_game rt)\<rparr>)"

text \<open>The phase the page shows for a match controller's state, as \<open>deriveHomeModel\<close> computes it.\<close>

definition rt_phase :: "home_runtime \<Rightarrow> ui_phase" where
  "rt_phase rt =
     (let st = mc_state (rt_match rt) in
      deriveUIPhase (m_snapshot st) (status_name (mm_status (m_matchmaking st))))"

section \<open>Lemmas\<close>

lemma on_session_simps [simp]:
  "rt_session (on_session f rt) = f (rt_session rt)" "rt_match (on_session f rt) = rt_match rt"
  "rt_lobby (on_session f rt) = rt_lobby rt" "rt_chat (on_session f rt) = rt_chat rt"
  "rt_game (on_session f rt) = rt_game rt" "rt_route (on_session f rt) = rt_route rt"
  "rt_sfx (on_session f rt) = rt_sfx rt"
  by (simp_all add: on_session_def)

lemma on_match_simps [simp]:
  "rt_session (on_match cfg amb f rt) = rt_session rt" "rt_match (on_match cfg amb f rt) = f (rt_match rt)"
  "rt_lobby (on_match cfg amb f rt) = rt_lobby rt" "rt_chat (on_match cfg amb f rt) = rt_chat rt"
  "rt_sfx (on_match cfg amb f rt) = rt_sfx rt"
  by (simp_all add: on_match_def Let_def)

lemma reset_session_simps [simp]:
  "rt_session (onResetSession cfg casts amb rt) = rt_session rt"
  "rt_match (onResetSession cfg casts amb rt) = resetConnectionState (rt_match rt)"
  "rt_lobby (onResetSession cfg casts amb rt) = lobby_reset casts (rt_lobby rt)"
  "rt_chat (onResetSession cfg casts amb rt) = chat_reset (rt_chat rt)"
  by (simp_all add: onResetSession_def Let_def)

lemma startHomeRuntime_idem:
  "startHomeRuntime cfg env amb o1 h1 (startHomeRuntime cfg env amb' o2 h2 rt) =
   startHomeRuntime cfg env amb' o2 h2 rt"
  by (simp add: startHomeRuntime_def Let_def)

lemma clear_status [simp]:
  "mm_status (m_matchmaking (mc_state (clearRecoverTracking mc))) = mm_status (m_matchmaking (mc_state mc))"
  by (simp add: clearRecoverTracking_def mc_patchState_def mc_log_def Let_def)

lemma reset_status:
  "mm_status (m_matchmaking (mc_state (resetConnectionState mc))) = mm_status (m_matchmaking (mc_state mc))"
  by (simp add: resetConnectionState_def close_socket_def clearFirstSnapshotTimeout_def Let_def)

lemma chat_reset_simps [simp]:
  "cc_state (chat_reset cc) = initial_chat_state" "cc_connection (chat_reset cc) = None"
  "cc_store (chat_reset cc) = []"
  by (simp_all add: chat_reset_def)

lemma handleMatchChange_prev: "gm_prevSnapshot (handleMatchChange cfg uid now so gm) = so"
  by (simp add: handleMatchChange_def Let_def)

lemma follow_prev:
  "gm_started gm \<Longrightarrow> emitted_states mc mc' \<noteq> [] \<Longrightarrow>
   gm_prevSnapshot (follow cfg uid amb mc mc' gm) = m_snapshot (last (emitted_states mc mc'))"
proof -
  have "xs \<noteq> [] \<Longrightarrow> gm_prevSnapshot (fold (\<lambda>st. handleMatchChange cfg uid now (m_snapshot st)) xs g) =
      m_snapshot (last xs)" for xs now g
    by (induction xs arbitrary: g rule: rev_induct) (simp_all add: handleMatchChange_prev)
  then show "gm_started gm \<Longrightarrow> emitted_states mc mc' \<noteq> [] \<Longrightarrow> ?thesis" by (simp add: follow_def)
qed

text \<open>The reset notifies last of its own new state.\<close>

lemma mc_out_patch:
  "\<not> mc_destroyed mc \<Longrightarrow> mc_out (mc_patchState f mc) = mc_out mc @ [MEmit (f (mc_state mc))]"
  by (simp add: mc_patchState_def mc_log_def Let_def)

lemma destroyed_simps [simp]:
  "mc_destroyed (mc_patchState f mc) = mc_destroyed mc" "mc_destroyed (clearRecoverTracking mc) = mc_destroyed mc"
  "mc_destroyed (abort_controller co mc) = mc_destroyed mc" "mc_destroyed (close_socket mc) = mc_destroyed mc"
  "mc_destroyed (clearFirstSnapshotTimeout mc) = mc_destroyed mc"
  by (simp_all add: mc_patchState_def mc_log_def clearRecoverTracking_def abort_controller_def close_socket_def
      clearFirstSnapshotTimeout_def Let_def split: option.split)

lemma out_grows:
  "\<exists>xs. mc_out (clearRecoverTracking mc) = mc_out mc @ xs" "mc_out (abort_controller co mc) = mc_out mc"
  "mc_out (close_socket mc) = mc_out mc" "mc_out (clearFirstSnapshotTimeout mc) = mc_out mc"
  by (auto simp: mc_patchState_def mc_log_def clearRecoverTracking_def abort_controller_def close_socket_def
      clearFirstSnapshotTimeout_def Let_def split: option.split)

lemma reset_emits:
  assumes "\<not> mc_destroyed mc"
  shows "\<exists>xs. emitted_states mc (resetConnectionState mc) = xs @ [mc_state (resetConnectionState mc)]"
proof -
  obtain xs where "mc_out (clearRecoverTracking (abort_controller (mc_recoverAbort mc) mc)) = mc_out mc @ xs"
    using out_grows(1) [of "abort_controller (mc_recoverAbort mc) mc"] out_grows(2) by auto
  then have "mc_out (resetConnectionState mc) = mc_out mc @ (xs @ [MEmit (mc_state (resetConnectionState mc))])"
    using assms by (simp add: resetConnectionState_def Let_def mc_out_patch out_grows)
  then show ?thesis by (auto simp: emitted_states_def)
qed

text \<open>A page where nothing has been destroyed and everything started.\<close>

definition rt_running :: "home_runtime \<Rightarrow> bool" where
  "rt_running rt \<longleftrightarrow> \<not> mc_destroyed (rt_match rt) \<and> gm_started (rt_game rt)"

section \<open>Properties\<close>

text \<open>
  C23. Signing out leaves nothing of the old user on the page: nobody can play, the match has no snapshot,
  no id, no session and no socket, the lobby and the chat are as at the start, the game controller has
  seen that the match is gone, and no sound or round of it is shown.
\<close>

theorem sign_out_clears_page:
  fixes cfg casts amb message rt
  assumes "rt_running rt"
  defines "rt' \<equiv> rt_clearAuthSession cfg casts amb message rt"
  shows "getSessionSnapshot (rt_session rt') = None \<and> rt_user rt' = [] \<and>
         m_snapshot (mc_state (rt_match rt')) = None \<and> m_activeMatchId (mc_state (rt_match rt')) = [] \<and>
         gk_current (mc_socket (rt_match rt')) = None \<and> mc_activeSession (rt_match rt') = None \<and>
         lob_state (rt_lobby rt') = initial_lobby_state \<and>
         cc_state (rt_chat rt') = initial_chat_state \<and> cc_connection (rt_chat rt') = None \<and>
         gm_prevSnapshot (rt_game rt') = None \<and> rt_phase rt' \<in> {UILobby, UIQueueing}"
proof -
  have r: "\<not> mc_destroyed (rt_match rt)" "gm_started (rt_game rt)" using assms(1) by (auto simp: rt_running_def)
  obtain xs where "emitted_states (rt_match rt) (resetConnectionState (rt_match rt)) =
      xs @ [mc_state (resetConnectionState (rt_match rt))]" using reset_emits [OF r(1)] by blast
  then have "gm_prevSnapshot (rt_game rt') = None"
    using follow_prev [OF r(2)] by (simp add: rt'_def rt_clearAuthSession_def onResetSession_def on_match_def Let_def reset_state)
  then show ?thesis
    by (simp add: rt'_def rt_clearAuthSession_def reset_state clearAuthSession_def Let_def rt_user_def
        getSessionSnapshot_def initialSessionState_def rt_phase_def deriveUIPhase_def)
qed

definition running_page :: home_runtime where
  "running_page = (createHomeRuntime sample_config)\<lparr>rt_game := new_game_ctl\<lparr>gm_started := True\<rparr>\<rparr>"

lemma running_page_runs: "rt_running running_page"
  by (simp add: running_page_def createHomeRuntime_def rt_running_def new_match_ctl_def)

theorem sign_out_clears_page_witness:
  "lob_state (rt_lobby (rt_clearAuthSession sample_config sample_casts sample_ambient [] running_page)) =
     initial_lobby_state"
  using sign_out_clears_page [OF running_page_runs] by blast

text \<open>
  C24. Signing out in the middle of a search leaves the page searching: the matchmaking status survives the
  reset, the page goes on to show the queue although its stream is closed, and the cancel button does
  nothing because there is no session any more.
\<close>

theorem signed_out_search_stays:
  fixes cfg casts amb message rt
  assumes "mm_status (m_matchmaking (mc_state (rt_match rt))) \<in> {Queueing, MatchedConnecting, Recovering}"
  defines "rt' \<equiv> rt_clearAuthSession cfg casts amb message rt"
  shows "rt_phase rt' = UIQueueing \<and>
         cancelQueue (getSessionSnapshot (rt_session rt')) (rt_match rt') = rt_match rt'"
proof -
  have "m_snapshot (mc_state (rt_match rt')) = None"
    "mm_status (m_matchmaking (mc_state (rt_match rt'))) = mm_status (m_matchmaking (mc_state (rt_match rt)))"
    "getSessionSnapshot (rt_session rt') = None"
    by (simp_all add: rt'_def rt_clearAuthSession_def reset_state reset_status clearAuthSession_def Let_def
        getSessionSnapshot_def)
  with assms(1) show ?thesis by (simp add: rt_phase_def deriveUIPhase_None cancelQueue_def Let_def)
qed

theorem signed_out_search_stays_witness:
  "rt_phase (rt_clearAuthSession sample_config sample_casts sample_ambient []
     (running_page\<lparr>rt_match := dispatchMatchmaking (JoinRequested None) searching\<rparr>)) = UIQueueing"
  by (rule signed_out_search_stays [THEN conjunct1]) (simp add: dispatchMatchmaking_def)

end
