(* ===== verification/AuthClient.thy ===== *)
theory AuthClient
  imports Http
begin

text \<open>
  \<open>features/auth/lib/auth-client.ts\<close>: the requests of the account API and the reading of their
  answers. A request is a value of \<open>http_request\<close>, the reading a function of the response; a
  function that throws on a failed answer gives an error on the left. A body that the source returns
  without looking at it stays a JavaScript value.
\<close>

section \<open>Requests\<close>

datatype oauth_intent = OauthSignin | OauthLink | OauthUpgradeGuest

datatype auth_provider = Google | Discord

fun intent_name :: "oauth_intent \<Rightarrow> string" where
  "intent_name OauthSignin = ''signin''"
| "intent_name OauthLink = ''link''"
| "intent_name OauthUpgradeGuest = ''upgrade_guest''"

fun provider_name :: "auth_provider \<Rightarrow> string" where
  "provider_name Google = ''google''"
| "provider_name Discord = ''discord''"

text \<open>A request to the API that carries the cookies of the page.\<close>

definition cookie_request ::
  "runtime_config \<Rightarrow> string \<Rightarrow> string \<Rightarrow> (string \<times> string) list \<Rightarrow> jv option \<Rightarrow> http_request" where
  "cookie_request cfg verb path headers body =
     \<lparr>rq_method = verb, rq_url = apiURL cfg @ path, rq_headers = headers, rq_body = body,
      rq_credentials = True\<rparr>"

definition requestSession_request :: "runtime_config \<Rightarrow> http_request" where
  "requestSession_request cfg = cookie_request cfg ''GET'' ''/v1/auth/session'' [] None"

definition requestSession_response :: "http_response \<Rightarrow> jv option outcome" where
  "requestSession_response resp = (if rs_status resp = 204 then Inr None else json_or_null resp)"

definition requestGuestSession_request :: "runtime_config \<Rightarrow> http_request" where
  "requestGuestSession_request cfg = cookie_request cfg ''POST'' ''/v1/auth/guest'' [] None"

definition requestGuestSession_response :: "http_response \<Rightarrow> jv outcome" where
  "requestGuestSession_response = json_or_throw ''Guest login failed''"

definition requestRefreshSession_request :: "runtime_config \<Rightarrow> http_request" where
  "requestRefreshSession_request cfg = cookie_request cfg ''POST'' ''/v1/auth/refresh'' [] None"

definition requestRefreshSession_response :: "http_response \<Rightarrow> jv option outcome" where
  "requestRefreshSession_response = json_or_null"

definition requestMe_request :: "runtime_config \<Rightarrow> string \<Rightarrow> http_request" where
  "requestMe_request cfg token = get_request (apiURL cfg @ ''/v1/me'') (bearer token)"

definition requestUserNotifications_request :: "runtime_config \<Rightarrow> string \<Rightarrow> http_request" where
  "requestUserNotifications_request cfg token =
     get_request (apiURL cfg @ ''/v1/me/notifications'') (bearer token)"

definition requestUserNotifications_response :: "http_response \<Rightarrow> jv outcome" where
  "requestUserNotifications_response resp =
     (if \<not> rs_ok resp then Inr (Obj [(''notifications'', Arr [])]) else json_of resp)"

definition markUserNotificationRead_request :: "runtime_config \<Rightarrow> string \<Rightarrow> int \<Rightarrow> http_request" where
  "markUserNotificationRead_request cfg token notificationId =
     \<lparr>rq_method = ''POST'',
      rq_url = apiURL cfg @ ''/v1/me/notifications/'' @ encodeURIComponent (int_str notificationId) @ ''/read'',
      rq_headers = bearer token, rq_body = None, rq_credentials = False\<rparr>"

definition requestLeaderboard_request :: "runtime_config \<Rightarrow> string option \<Rightarrow> http_request" where
  "requestLeaderboard_request cfg token =
     get_request (apiURL cfg @ ''/v1/leaderboard'')
       (if opt_str token = [] then [] else bearer (opt_str token))"

definition requestLeaderboard_response :: "http_response \<Rightarrow> jv option outcome" where
  "requestLeaderboard_response = json_or_null"

definition requestLogout_request :: "runtime_config \<Rightarrow> http_request" where
  "requestLogout_request cfg = cookie_request cfg ''POST'' ''/v1/auth/logout'' [] None"

definition requestCompleteOnboarding_request :: "runtime_config \<Rightarrow> string \<Rightarrow> string \<Rightarrow> http_request" where
  "requestCompleteOnboarding_request cfg token nickname =
     cookie_request cfg ''POST'' ''/v1/auth/onboarding'' (json_headers token)
       (Some (Obj [(''nickname'', Str nickname)]))"

definition requestCompleteOnboarding_response :: "http_response \<Rightarrow> jv outcome" where
  "requestCompleteOnboarding_response = json_or_throw ''Failed to save nickname''"

definition requestUpdateNickname_request :: "runtime_config \<Rightarrow> string \<Rightarrow> string \<Rightarrow> http_request" where
  "requestUpdateNickname_request cfg token nickname =
     cookie_request cfg ''PATCH'' ''/v1/me/nickname'' (json_headers token)
       (Some (Obj [(''nickname'', Str nickname)]))"

definition requestUpdateSelectedBadge_request :: "runtime_config \<Rightarrow> string \<Rightarrow> string \<Rightarrow> http_request" where
  "requestUpdateSelectedBadge_request cfg token badgeId =
     cookie_request cfg ''PATCH'' ''/v1/me/badge'' (json_headers token)
       (Some (Obj [(''badgeId'', Str badgeId)]))"

definition requestUpdateSelectedBadge_response :: "http_response \<Rightarrow> jv outcome" where
  "requestUpdateSelectedBadge_response = json_or_throw ''Failed to update badge''"

text \<open>
  The parameters of a provider's start: \<open>JSON.stringify\<close> leaves out an undefined \<open>returnTo\<close>.
\<close>

record oauth_params =
  op_intent :: "oauth_intent option"
  op_accessToken :: "string option"
  op_returnTo :: "string option"

definition oauth_headers :: "oauth_params \<Rightarrow> (string \<times> string) list" where
  "oauth_headers params =
     (if opt_str (op_accessToken params) = [] then [(''content-type'', ''application/json'')]
      else json_headers (opt_str (op_accessToken params)))"

definition oauth_body :: "oauth_params \<Rightarrow> jv" where
  "oauth_body params =
     Obj ((''intent'', Str (intent_name
            (case op_intent params of None \<Rightarrow> OauthSignin | Some i \<Rightarrow> i))) #
          (case op_returnTo params of None \<Rightarrow> [] | Some r \<Rightarrow> [(''returnTo'', Str r)]))"

definition requestGoogleStart_request :: "runtime_config \<Rightarrow> oauth_params \<Rightarrow> http_request" where
  "requestGoogleStart_request cfg params =
     cookie_request cfg ''POST'' ''/v1/auth/google/start'' (oauth_headers params) (Some (oauth_body params))"

definition requestGoogleStart_response :: "http_response \<Rightarrow> jv outcome" where
  "requestGoogleStart_response = json_or_throw ''Failed to start Google sign-in''"

definition requestDiscordStart_request :: "runtime_config \<Rightarrow> oauth_params \<Rightarrow> http_request" where
  "requestDiscordStart_request cfg params =
     cookie_request cfg ''POST'' ''/v1/auth/discord/start'' (oauth_headers params) (Some (oauth_body params))"

definition requestDiscordStart_response :: "http_response \<Rightarrow> jv outcome" where
  "requestDiscordStart_response = json_or_throw ''Failed to start Discord sign-in''"

definition requestUnlinkAuthProvider_request :: "runtime_config \<Rightarrow> string \<Rightarrow> auth_provider \<Rightarrow> http_request" where
  "requestUnlinkAuthProvider_request cfg token provider =
     cookie_request cfg ''DELETE''
       (''/v1/me/auth-providers/'' @ encodeURIComponent (provider_name provider)) (bearer token) None"

definition requestUnlinkAuthProvider_response :: "http_response \<Rightarrow> jv outcome" where
  "requestUnlinkAuthProvider_response = json_or_throw ''Failed to unlink sign-in method''"

definition requestDeleteAccount_request :: "runtime_config \<Rightarrow> string \<Rightarrow> http_request" where
  "requestDeleteAccount_request cfg token =
     cookie_request cfg ''DELETE'' ''/v1/me'' (json_headers token)
       (Some (Obj [(''confirm'', Str ''DELETE'')]))"

definition requestDeleteAccount_response :: "http_response \<Rightarrow> unit outcome" where
  "requestDeleteAccount_response = unit_or_throw ''Failed to delete account''"

definition requestLobbyChangelog_request :: "runtime_config \<Rightarrow> http_request" where
  "requestLobbyChangelog_request cfg = get_request (apiURL cfg @ ''/v1/content/lobby-changelog'') []"

definition requestLobbyChangelog_response :: "http_response \<Rightarrow> jv option outcome" where
  "requestLobbyChangelog_response = json_or_null"

definition requestMatchReport_request ::
  "runtime_config \<Rightarrow> string \<Rightarrow> string \<Rightarrow> string \<Rightarrow> string \<Rightarrow> string \<Rightarrow> http_request" where
  "requestMatchReport_request cfg token matchId reportedUserId category reason =
     \<lparr>rq_method = ''POST'',
      rq_url = apiURL cfg @ ''/v1/matches/'' @ encodeURIComponent matchId @ ''/reports'',
      rq_headers = json_headers token,
      rq_body = Some (Obj [(''reportedUserId'', Str reportedUserId), (''category'', Str category),
                           (''reason'', Str reason)]),
      rq_credentials = False\<rparr>"

definition requestMatchReport_response :: "http_response \<Rightarrow> unit outcome" where
  "requestMatchReport_response = unit_or_throw ''Failed to send report''"

section \<open>Lemmas\<close>

lemma session_request_never_throws:
  "\<not> rs_ok resp \<Longrightarrow> requestSession_response resp = Inr None \<and>
     requestRefreshSession_response resp = Inr None"
  by (simp add: requestSession_response_def requestRefreshSession_response_def json_or_null_def)

lemma oauth_bearer_only_with_token:
  "(''Authorization'', v) \<in> set (oauth_headers params) \<longleftrightarrow>
     opt_str (op_accessToken params) \<noteq> [] \<and> v = ''Bearer '' @ opt_str (op_accessToken params)"
  by (auto simp: oauth_headers_def json_headers_def bearer_def)

end
