(* ===== verification/HomeActions.thy ===== *)
theory HomeActions
  imports HomeRuntime AuthClient
begin

text \<open>
  \<open>features/home/model/useHomeModel.ts\<close>, the account actions and network handlers of the hook that
  connects the page to the controllers. Each acts on \<open>home_runtime\<close>. An asynchronous action is one
  definition per segment between two \<open>await\<close>s; what a segment waits for is the value \<open>hook_next\<close> it
  returns: a session from \<open>ensureFreshSession\<close> (with its two options), a request, or nothing more. The
  answer comes back as the argument of the next segment, an error on the left. The fields of an
  \<open>AuthResponse\<close> are texts and flags; \<open>data.user?.id\<close> of a body that is null throws as in the source.
\<close>

section \<open>Waiting\<close>

datatype 'a hook_next =
  HkDone 'a | HkSession bool bool | HkBootstrap | HkFetch http_request | HkAssign string | HkThrow js_error

text \<open>What the actions read besides the controllers: configuration, casts, clock and token decoder.\<close>

record hook_env =
  he_cfg :: runtime_config
  he_casts :: lobby_casts
  he_amb :: ambient
  he_expiry :: "string \<Rightarrow> num"
  he_path :: string
  he_search :: string
  he_hash :: string

definition currentReturnTo :: "hook_env \<Rightarrow> string" where
  "currentReturnTo env =
     (let path = he_path env @ he_search env @ he_hash env in
      if starts_with path ''/'' then path else ''/'')"

definition sign_out :: "hook_env \<Rightarrow> string \<Rightarrow> home_runtime \<Rightarrow> home_runtime" where
  "sign_out env = rt_clearAuthSession (he_cfg env) (he_casts env) (he_amb env)"

definition pending :: "(session_state \<Rightarrow> session_state) \<Rightarrow> home_runtime \<Rightarrow> home_runtime" where
  [ctl_defs]: "pending f = on_session (setAuthPending f)"

definition auth_loading :: "session_state \<Rightarrow> session_state" where
  "auth_loading st = st\<lparr>ss_authLoading := True, ss_authError := []\<rparr>"

definition auth_failed :: "js_error \<Rightarrow> string \<Rightarrow> session_state \<Rightarrow> session_state" where
  "auth_failed e fallback st = st\<lparr>ss_authLoading := False, ss_authError := getErrorMessage e fallback\<rparr>"

definition EXPIRED :: string where
  "EXPIRED = ''Session expired. Please sign in again.''"

text \<open>What reading a field of a body that is null throws.\<close>

definition null_read :: "string \<Rightarrow> js_error" where
  "null_read k = JsError (''Cannot read properties of null (reading '' @ CHR 0x27 # k @ CHR 0x27 # '')'')"

section \<open>Reading an auth answer\<close>

definition response_id :: "string \<Rightarrow> jv \<Rightarrow> string" where
  "response_id fallback data = nonempty_str_or fallback (jfield (jfield data ''user'') ''id'')"

definition buildSessionFromAuthResponse :: "jv \<Rightarrow> string \<Rightarrow> string \<Rightarrow> auth_session" where
  "buildSessionFromAuthResponse data fallbackUser fallbackNickname =
     (let onboarding = truthy (jfield data ''onboardingRequired'');
          migration = truthy (jfield data ''authMigrationRequired'')
      in \<lparr>s_userId = response_id fallbackUser data,
          s_accessToken = or_text [] (jfield data ''accessToken''),
          s_onboardingRequired = onboarding,
          s_authMigrationRequired = Some migration,
          s_recoveryAvailable = Some (truthy (jfield data ''recoveryAvailable'')),
          s_linkedProviders = Some (str_list_or [] (jfield data ''linkedProviders'')),
          s_canPlay = Some (bool_or (\<not> onboarding \<and> \<not> migration) (jfield data ''canPlay'')),
          s_nicknameInput = or_text fallbackNickname (jfield data ''suggestedNickname''),
          s_expiresAt = None\<rparr>)"

text \<open>The fields every handler takes from \<open>data.user\<close>, falling back on a state read before.\<close>

definition user_patch :: "jv \<Rightarrow> session_state \<Rightarrow> session_state \<Rightarrow> session_state" where
  "user_patch data current st =
     (let user = jfield data ''user'' in
      st\<lparr>ss_userEmail := str_or (ss_userEmail current) (jfield user ''email''),
         ss_displayName := nonempty_str_or (ss_displayName current) (jfield user ''display_name''),
         ss_userAvatar := str_or (ss_userAvatar current) (jfield user ''avatar_url''),
         ss_isGuest := bool_or (ss_isGuest current) (jfield user ''isGuest''),
         ss_isAdmin := bool_or (ss_isAdmin current) (jfield user ''isAdmin''),
         ss_isModerator := bool_or (ss_isModerator current) (jfield user ''isModerator'')\<rparr>)"

section \<open>Network handlers\<close>

text \<open>\<open>bootstrapSession\<close> after its \<open>await\<close>: the state is read when the answer is there.\<close>

definition bootstrap_answered ::
  "hook_env \<Rightarrow> jv option outcome \<Rightarrow> home_runtime \<Rightarrow> auth_session option outcome \<times> home_runtime" where
  "bootstrap_answered env answer rt =
     (case answer of
        Inl e \<Rightarrow> (Inl e, rt)
      | Inr None \<Rightarrow> (Inr None, rt)
      | Inr (Some data) \<Rightarrow>
          if \<not> truthy data then (Inr None, rt) else
          let current = sc_state (rt_session rt);
              next = buildSessionFromAuthResponse data (ss_userId current) (ss_nicknameInput current)
          in (Inr (Some next), on_session (applySessionSnapshot (he_expiry env) next
                (\<lambda>st. (user_patch data current st)\<lparr>ss_leaderboard := ss_leaderboard current,
                   ss_authLoading := False, ss_authError := []\<rparr>)) rt))"

text \<open>\<open>refreshSession\<close>: \<open>current\<close> is the state read before its \<open>await\<close>.\<close>

definition refresh_answered ::
  "hook_env \<Rightarrow> session_state \<Rightarrow> jv option outcome \<Rightarrow> home_runtime \<Rightarrow> auth_session option outcome \<times> home_runtime" where
  "refresh_answered env current answer rt =
     (case answer of
        Inl e \<Rightarrow> (Inl e, rt)
      | Inr None \<Rightarrow> (Inr None, rt)
      | Inr (Some data) \<Rightarrow>
          if \<not> truthy data then (Inr None, rt) else
          let next = buildSessionFromAuthResponse data (ss_userId current) (ss_nicknameInput current)
          in (Inr (Some next), on_session (applySessionSnapshot (he_expiry env) next
                (\<lambda>st. (user_patch data current st)\<lparr>ss_leaderboard := ss_leaderboard current\<rparr>)) rt))"

text \<open>\<open>ensurePlayableSession\<close>: nobody signed in, then a session from the server, then a guest.\<close>

definition ensurePlayableSession :: "home_runtime \<Rightarrow> auth_session option hook_next \<times> home_runtime" where
  "ensurePlayableSession rt =
     (case getSessionSnapshot (rt_session rt) of
        Some s \<Rightarrow> (HkDone (Some s), rt)
      | None \<Rightarrow>
          if ss_onboardingRequired (sc_state (rt_session rt)) then (HkDone None, rt)
          else (HkBootstrap, pending (\<lambda>st. (auth_loading st)\<lparr>ss_nicknameError := []\<rparr>) rt))"

definition playable_failed :: "js_error \<Rightarrow> home_runtime \<Rightarrow> auth_session option hook_next \<times> home_runtime" where
  "playable_failed e rt = (HkDone None, pending (auth_failed e ''Guest login failed'') rt)"

definition playable_bootstrapped ::
  "hook_env \<Rightarrow> auth_session option outcome \<Rightarrow> home_runtime \<Rightarrow> auth_session option hook_next \<times> home_runtime" where
  "playable_bootstrapped env answer rt =
     (case answer of
        Inl e \<Rightarrow> playable_failed e rt
      | Inr (Some s) \<Rightarrow>
          (HkDone (Some s), pending (\<lambda>st. st\<lparr>ss_authLoading := False, ss_authError := []\<rparr>) rt)
      | Inr None \<Rightarrow> (HkFetch (requestGuestSession_request (he_cfg env)), rt))"

definition guest_session :: "jv \<Rightarrow> auth_session" where
  "guest_session data =
     (let name = or_text ''Guest'' (jfield data ''suggestedNickname'') in
      \<lparr>s_userId = or_text [] (jfield (jfield data ''user'') ''id''),
       s_accessToken = or_text [] (jfield data ''accessToken''),
       s_onboardingRequired = truthy (jfield data ''onboardingRequired''),
       s_authMigrationRequired = None, s_recoveryAvailable = None, s_linkedProviders = None, s_canPlay = None,
       s_nicknameInput = or_text name (jfield data ''suggestedNickname''), s_expiresAt = None\<rparr>)"

definition guest_answered ::
  "hook_env \<Rightarrow> jv outcome \<Rightarrow> home_runtime \<Rightarrow> auth_session option hook_next \<times> home_runtime" where
  "guest_answered env answer rt =
     (case answer of
        Inl e \<Rightarrow> playable_failed e rt
      | Inr data \<Rightarrow>
          if data = Null then playable_failed (null_read ''suggestedNickname'') rt
          else
            let user = jfield data ''user''; next = guest_session data in
            (HkDone (Some next), on_session (applySessionSnapshot (he_expiry env) next
               (\<lambda>st. st\<lparr>ss_displayName := or_text ''Guest'' (jfield data ''suggestedNickname''),
                  ss_isGuest := bool_or True (jfield user ''isGuest''),
                  ss_isAdmin := bool_or False (jfield user ''isAdmin''),
                  ss_isModerator := bool_or False (jfield user ''isModerator''),
                  ss_leaderboard := None, ss_nicknameError := [], ss_authLoading := False,
                  ss_authError := []\<rparr>)) rt))"

section \<open>Nicknames\<close>

definition nickname_saving :: "session_state \<Rightarrow> session_state" where
  "nickname_saving st = st\<lparr>ss_nicknameSaving := True, ss_nicknameError := [], ss_authError := []\<rparr>"

definition nickname_failed :: "js_error \<Rightarrow> session_state \<Rightarrow> session_state" where
  "nickname_failed e st =
     st\<lparr>ss_nicknameSaving := False, ss_nicknameError := getErrorMessage e ''Failed to save nickname''\<rparr>"

definition nickname_error :: "string \<Rightarrow> home_runtime \<Rightarrow> home_runtime" where
  "nickname_error m = pending (ss_nicknameError_update (\<lambda>_. m))"

definition submitOnboardingNickname :: "home_runtime \<Rightarrow> unit hook_next \<times> home_runtime" where
  "submitOnboardingNickname rt =
     (if js_trim (ss_nicknameInput (sc_state (rt_session rt))) = []
      then (HkDone (), nickname_error ''Please choose a nickname.'' rt)
      else (HkSession True False, pending nickname_saving rt))"

text \<open>An absent session signs the user out and throws inside the action's own \<open>try\<close>.\<close>

definition expired_nickname :: "hook_env \<Rightarrow> home_runtime \<Rightarrow> home_runtime" where
  "expired_nickname env rt = pending (nickname_failed (JsError EXPIRED)) (sign_out env EXPIRED rt)"

definition onboarding_session ::
  "hook_env \<Rightarrow> string \<Rightarrow> auth_session option outcome \<Rightarrow> home_runtime \<Rightarrow> unit hook_next \<times> home_runtime" where
  "onboarding_session env nick answer rt =
     (case answer of
        Inl e \<Rightarrow> (HkDone (), pending (nickname_failed e) rt)
      | Inr None \<Rightarrow> (HkDone (), expired_nickname env rt)
      | Inr (Some s) \<Rightarrow>
          (HkFetch (requestCompleteOnboarding_request (he_cfg env) (s_accessToken s) nick), rt))"

text \<open>\<open>current\<close> is the state read before the first \<open>await\<close>.\<close>

definition onboarded_session :: "jv \<Rightarrow> string \<Rightarrow> session_state \<Rightarrow> auth_session" where
  "onboarded_session data nick current =
     \<lparr>s_userId = response_id (ss_userId current) data,
      s_accessToken = or_text (ss_accessToken current) (jfield data ''accessToken''),
      s_onboardingRequired = False,
      s_authMigrationRequired = Some (truthy (jfield data ''authMigrationRequired'')),
      s_recoveryAvailable = Some (truthy (jfield data ''recoveryAvailable'')),
      s_linkedProviders = Some
        (str_list_or (case ss_linkedProviders current of None \<Rightarrow> [] | Some ps \<Rightarrow> ps) (jfield data ''linkedProviders'')),
      s_canPlay = Some (bool_or True (jfield data ''canPlay'')),
      s_nicknameInput = nick, s_expiresAt = None\<rparr>"

definition onboarding_answered ::
  "hook_env \<Rightarrow> string \<Rightarrow> session_state \<Rightarrow> jv outcome \<Rightarrow> home_runtime \<Rightarrow> home_runtime" where
  "onboarding_answered env nick current answer rt =
     (case answer of
        Inl e \<Rightarrow> pending (nickname_failed e) rt
      | Inr data \<Rightarrow>
          if data = Null then pending (nickname_failed (null_read ''user'')) rt else
          on_session (applySessionSnapshot (he_expiry env) (onboarded_session data nick current)
            (\<lambda>st. (user_patch data (current\<lparr>ss_displayName := nick\<rparr>) st)
               \<lparr>ss_nicknameSaving := False, ss_nicknameError := [], ss_leaderboard := ss_leaderboard current\<rparr>)) rt)"

definition submitProfileNickname :: "home_runtime \<Rightarrow> bool hook_next \<times> home_runtime" where
  "submitProfileNickname rt =
     (let current = sc_state (rt_session rt) in
      if js_trim (ss_nicknameInput current) = [] then (HkDone False, nickname_error ''Please choose a nickname.'' rt)
      else if ss_userId current = [] \<or> ss_accessToken current = []
      then (HkDone False, nickname_error ''Please sign in again.'' rt)
      else if ss_isGuest current then (HkDone False, nickname_error ''Guest nicknames cannot be changed.'' rt)
      else (HkSession False False, pending nickname_saving rt))"

text \<open>\<open>force\<close> is the second try, after an answer 401 or 403.\<close>

definition profile_session ::
  "hook_env \<Rightarrow> string \<Rightarrow> auth_session option outcome \<Rightarrow> home_runtime \<Rightarrow> bool hook_next \<times> home_runtime" where
  "profile_session env nick answer rt =
     (case answer of
        Inl e \<Rightarrow> (HkDone False, pending (nickname_failed e) rt)
      | Inr None \<Rightarrow> (HkDone False, expired_nickname env rt)
      | Inr (Some s) \<Rightarrow> (HkFetch (requestUpdateNickname_request (he_cfg env) (s_accessToken s) nick), rt))"

definition nickname_saved :: "jv \<Rightarrow> home_runtime \<Rightarrow> bool hook_next \<times> home_runtime" where
  "nickname_saved data rt =
     (let rt1 = pending (\<lambda>st. st\<lparr>ss_nicknameSaving := False, ss_nicknameError := []\<rparr>) rt;
          name = nonempty_str_or [] (jfield (jfield data ''user'') ''display_name'')
      in if data = Null then (HkDone False, pending (nickname_failed (null_read ''user'')) rt1)
         else (HkDone True,
          if name = [] then rt1
          else on_session (applyProfileSnapshot (Obj [(''display_name'', Str name)])) rt1))"

definition profile_answered ::
  "bool \<Rightarrow> http_response outcome \<Rightarrow> home_runtime \<Rightarrow> bool hook_next \<times> home_runtime" where
  "profile_answered retried answer rt =
     (case answer of
        Inl e \<Rightarrow> (HkDone False, pending (nickname_failed e) rt)
      | Inr resp \<Rightarrow>
          if \<not> retried \<and> (rs_status resp = 401 \<or> rs_status resp = 403) then (HkSession False True, rt)
          else if \<not> rs_ok resp then
            (HkDone False, pending (nickname_failed (JsError (or_str (rs_text resp) ''Failed to save nickname''))) rt)
          else (case json_of resp of
              Inl e \<Rightarrow> (HkDone False, pending (nickname_failed e) rt)
            | Inr data \<Rightarrow> nickname_saved data rt))"

section \<open>Leaving\<close>

definition logout :: "hook_env \<Rightarrow> home_runtime \<Rightarrow> http_request \<times> home_runtime" where
  "logout env rt = (requestLogout_request (he_cfg env), sign_out env [] rt)"

definition sign_in_again :: js_error where
  "sign_in_again = JsError ''Please sign in again.''"

text \<open>Both \<open>deleteAccount\<close> and \<open>unlinkAuthProvider\<close> begin so.\<close>

definition account_action :: "home_runtime \<Rightarrow> unit hook_next \<times> home_runtime" where
  "account_action rt =
     (if ss_accessToken (sc_state (rt_session rt)) = []
      then (HkDone (), pending (ss_authError_update (\<lambda>_. ''Please sign in again.'')) rt)
      else (HkSession True False, pending auth_loading rt))"

definition deleteAccount :: "home_runtime \<Rightarrow> unit hook_next \<times> home_runtime" where
  "deleteAccount = account_action"

definition delete_failed :: "js_error \<Rightarrow> home_runtime \<Rightarrow> unit hook_next \<times> home_runtime" where
  "delete_failed e rt = (HkThrow e, pending (auth_failed e ''Failed to delete account'') rt)"

definition delete_session ::
  "hook_env \<Rightarrow> auth_session option outcome \<Rightarrow> home_runtime \<Rightarrow> unit hook_next \<times> home_runtime" where
  "delete_session env answer rt =
     (case answer of
        Inl e \<Rightarrow> delete_failed e rt
      | Inr so \<Rightarrow>
          let token = (case so of None \<Rightarrow> [] | Some s \<Rightarrow> s_accessToken s) in
          if token = [] then delete_failed sign_in_again rt
          else (HkFetch (requestDeleteAccount_request (he_cfg env) token), rt))"

definition delete_answered ::
  "hook_env \<Rightarrow> unit outcome \<Rightarrow> home_runtime \<Rightarrow> unit hook_next \<times> home_runtime" where
  "delete_answered env answer rt =
     (case answer of Inl e \<Rightarrow> delete_failed e rt | Inr _ \<Rightarrow> (HkDone (), sign_out env [] rt))"

section \<open>Sign-in providers\<close>

definition oauth_start :: "runtime_config \<Rightarrow> auth_provider \<Rightarrow> oauth_params \<Rightarrow> http_request" where
  "oauth_start cfg provider params =
     (case provider of Google \<Rightarrow> requestGoogleStart_request cfg params
      | Discord \<Rightarrow> requestDiscordStart_request cfg params)"

definition signin_params :: "hook_env \<Rightarrow> oauth_params" where
  "signin_params env =
     \<lparr>op_intent = Some OauthSignin, op_accessToken = None, op_returnTo = Some (currentReturnTo env)\<rparr>"

definition triggerGoogleSignIn :: "hook_env \<Rightarrow> home_runtime \<Rightarrow> unit hook_next \<times> home_runtime" where
  "triggerGoogleSignIn env rt =
     (if googleClientId (he_cfg env) = [] \<or> \<not> ss_googleSignInEnabled (sc_state (rt_session rt)) then (HkDone (), rt)
      else (HkFetch (oauth_start (he_cfg env) Google (signin_params env)), pending auth_loading rt))"

definition triggerDiscordSignIn :: "hook_env \<Rightarrow> home_runtime \<Rightarrow> unit hook_next \<times> home_runtime" where
  "triggerDiscordSignIn env rt =
     (if discordClientId (he_cfg env) = [] then (HkDone (), rt)
      else (HkFetch (oauth_start (he_cfg env) Discord (signin_params env)), pending auth_loading rt))"

text \<open>The page leaves for the provider, or the error is shown.\<close>

definition oauth_answered ::
  "string \<Rightarrow> string \<Rightarrow> jv outcome \<Rightarrow> home_runtime \<Rightarrow> unit hook_next \<times> home_runtime" where
  "oauth_answered missing fallback answer rt =
     (case answer of
        Inl e \<Rightarrow> (HkDone (), pending (auth_failed e fallback) rt)
      | Inr data \<Rightarrow>
          if data = Null then (HkDone (), pending (auth_failed (null_read ''authURL'') fallback) rt) else
          let url = or_text [] (jfield data ''authURL'') in
          if url = [] then (HkDone (), pending (auth_failed (JsError missing) fallback) rt)
          else (HkAssign url, rt))"

definition google_answered :: "jv outcome \<Rightarrow> home_runtime \<Rightarrow> unit hook_next \<times> home_runtime" where
  "google_answered = oauth_answered ''Missing Google auth URL'' ''Failed to start Google sign-in''"

definition discord_answered :: "jv outcome \<Rightarrow> home_runtime \<Rightarrow> unit hook_next \<times> home_runtime" where
  "discord_answered = oauth_answered ''Missing Discord auth URL'' ''Failed to start Discord sign-in''"

definition client_id :: "runtime_config \<Rightarrow> auth_provider \<Rightarrow> string" where
  "client_id cfg provider = (case provider of Google \<Rightarrow> googleClientId cfg | Discord \<Rightarrow> discordClientId cfg)"

definition startProviderIntent ::
  "hook_env \<Rightarrow> auth_provider \<Rightarrow> home_runtime \<Rightarrow> unit hook_next \<times> home_runtime" where
  "startProviderIntent env provider rt =
     (if client_id (he_cfg env) provider = [] then (HkDone (), rt)
      else (HkSession True False, pending auth_loading rt))"

fun intent_fallback :: "oauth_intent \<Rightarrow> string" where
  "intent_fallback OauthLink = ''Failed to link sign-in method''"
| "intent_fallback _ = ''Failed to save progress''"

fun intent_signed_out :: "oauth_intent \<Rightarrow> js_error" where
  "intent_signed_out OauthLink = JsError ''Sign in before linking another method.''"
| "intent_signed_out _ = JsError ''Sign in as a guest before saving progress.''"

definition intent_session ::
  "hook_env \<Rightarrow> auth_provider \<Rightarrow> oauth_intent \<Rightarrow> auth_session option outcome \<Rightarrow> home_runtime \<Rightarrow> unit hook_next \<times> home_runtime" where
  "intent_session env provider intent answer rt =
     (case answer of
        Inl e \<Rightarrow> (HkDone (), pending (auth_failed e (intent_fallback intent)) rt)
      | Inr so \<Rightarrow>
          let token = (case so of None \<Rightarrow> [] | Some s \<Rightarrow> s_accessToken s) in
          if token = [] then (HkDone (), pending (auth_failed (intent_signed_out intent) (intent_fallback intent)) rt)
          else (HkFetch (oauth_start (he_cfg env) provider
                  \<lparr>op_intent = Some intent, op_accessToken = Some token, op_returnTo = Some (currentReturnTo env)\<rparr>), rt))"

definition intent_answered ::
  "auth_provider \<Rightarrow> oauth_intent \<Rightarrow> jv outcome \<Rightarrow> home_runtime \<Rightarrow> unit hook_next \<times> home_runtime" where
  "intent_answered provider intent =
     oauth_answered (''Missing '' @ provider_name provider @ '' auth URL'') (intent_fallback intent)"

definition unlinkAuthProvider :: "home_runtime \<Rightarrow> unit hook_next \<times> home_runtime" where
  "unlinkAuthProvider = account_action"

definition unlink_failed :: "js_error \<Rightarrow> home_runtime \<Rightarrow> unit hook_next \<times> home_runtime" where
  "unlink_failed e rt = (HkDone (), pending (auth_failed e ''Failed to unlink sign-in method'') rt)"

definition unlink_session ::
  "hook_env \<Rightarrow> auth_provider \<Rightarrow> auth_session option outcome \<Rightarrow> home_runtime \<Rightarrow> unit hook_next \<times> home_runtime" where
  "unlink_session env provider answer rt =
     (case answer of
        Inl e \<Rightarrow> unlink_failed e rt
      | Inr so \<Rightarrow>
          let token = (case so of None \<Rightarrow> [] | Some s \<Rightarrow> s_accessToken s) in
          if token = [] then unlink_failed sign_in_again rt
          else (HkFetch (requestUnlinkAuthProvider_request (he_cfg env) token provider), rt))"

definition unlink_answered :: "hook_env \<Rightarrow> jv outcome \<Rightarrow> home_runtime \<Rightarrow> unit hook_next \<times> home_runtime" where
  "unlink_answered env answer rt =
     (case answer of
        Inl e \<Rightarrow> unlink_failed e rt
      | Inr data \<Rightarrow>
          if data = Null then unlink_failed (null_read ''user'') rt else
          let latest = sc_state (rt_session rt);
              next = buildSessionFromAuthResponse data (ss_userId latest) (ss_nicknameInput latest)
          in (HkDone (), on_session (applySessionSnapshot (he_expiry env) next
                (\<lambda>st. (user_patch data latest st)\<lparr>ss_authLoading := False, ss_authError := []\<rparr>)) rt))"

section \<open>Reports and badges\<close>

text \<open>\<open>matchId\<close> is read from the snapshot before the \<open>await\<close>.\<close>

definition report_session ::
  "hook_env \<Rightarrow> string \<Rightarrow> string \<Rightarrow> string \<Rightarrow> string \<Rightarrow> auth_session option outcome \<Rightarrow> unit hook_next" where
  "report_session env matchId reported category reason answer =
     (case answer of
        Inl e \<Rightarrow> HkThrow e
      | Inr so \<Rightarrow>
          let token = (case so of None \<Rightarrow> [] | Some s \<Rightarrow> s_accessToken s) in
          if token = [] \<or> matchId = [] \<or> reported = [] then HkThrow (JsError ''Report unavailable'')
          else HkFetch (requestMatchReport_request (he_cfg env) token matchId reported category reason))"

definition badge_session ::
  "hook_env \<Rightarrow> string \<Rightarrow> auth_session option outcome \<Rightarrow> home_runtime \<Rightarrow> unit hook_next \<times> home_runtime" where
  "badge_session env badgeId answer rt =
     (case answer of
        Inl e \<Rightarrow> (HkThrow e, rt)
      | Inr so \<Rightarrow>
          let token = (case so of None \<Rightarrow> [] | Some s \<Rightarrow> s_accessToken s) in
          if token = [] then (HkDone (), pending (ss_authError_update (\<lambda>_. ''Please sign in again.'')) rt)
          else (HkFetch (requestUpdateSelectedBadge_request (he_cfg env) token badgeId), rt))"

text \<open>True where the select sound is played.\<close>

definition badge_answered ::
  "string \<Rightarrow> jv outcome \<Rightarrow> home_runtime \<Rightarrow> (bool hook_next) \<times> home_runtime" where
  "badge_answered badgeId answer rt =
     (case answer of
        Inl e \<Rightarrow> (HkThrow e, rt)
      | Inr payload \<Rightarrow> (HkDone (badgeId \<noteq> []), on_session (applyBadgeSelection payload) rt))"

section \<open>Lemmas\<close>

lemma apply_session_state [simp]:
  "sc_session (applySessionSnapshot ex s patch sc) = normalizeSessionSnapshot ex s"
  "sc_state (applySessionSnapshot ex s patch sc) =
     patch ((sc_state sc)
        \<lparr>ss_userId := s_userId s, ss_accessToken := s_accessToken s,
         ss_onboardingRequired := s_onboardingRequired s,
         ss_authMigrationRequired := s_authMigrationRequired (normalizeSessionSnapshot ex s),
         ss_recoveryAvailable := s_recoveryAvailable (normalizeSessionSnapshot ex s),
         ss_linkedProviders := s_linkedProviders (normalizeSessionSnapshot ex s),
         ss_canPlay := s_canPlay (normalizeSessionSnapshot ex s), ss_nicknameInput := s_nicknameInput s\<rparr>)"
  by (simp_all add: applySessionSnapshot_def Let_def)

lemma user_patch_simps [simp]:
  "ss_userId (user_patch data cur st) = ss_userId st" "ss_accessToken (user_patch data cur st) = ss_accessToken st"
  "ss_onboardingRequired (user_patch data cur st) = ss_onboardingRequired st"
  "ss_authLoading (user_patch data cur st) = ss_authLoading st"
  by (simp_all add: user_patch_def Let_def)

lemma pending_simps [simp]:
  "sc_session (rt_session (pending f rt)) = sc_session (rt_session rt)"
  "sc_state (rt_session (pending f rt)) = f (sc_state (rt_session rt))"
  by (simp_all add: pending_def setAuthPending_def)

lemma sign_out_session [simp]:
  "getSessionSnapshot (rt_session (sign_out env m rt)) = None" "rt_user (sign_out env m rt) = []"
  "ss_authLoading (sc_state (rt_session (sign_out env m rt))) = False"
  "ss_authError (sc_state (rt_session (sign_out env m rt))) = m"
  by (simp_all add: sign_out_def rt_clearAuthSession_def clearAuthSession_def Let_def getSessionSnapshot_def
      rt_user_def initialSessionState_def)

lemma response_id_nonempty: "u \<noteq> [] \<Longrightarrow> response_id u data \<noteq> []"
  by (simp add: response_id_def nonempty_str_or_nonempty)

section \<open>Properties\<close>

definition some_env :: hook_env where
  "some_env = \<lparr>he_cfg = sample_config, he_casts = sample_casts, he_amb = sample_ambient, he_expiry = (\<lambda>_. Fin 0),
     he_path = ''/'', he_search = [], he_hash = []\<rparr>"

definition user_page :: home_runtime where
  "user_page = running_page\<lparr>rt_session := sample_session_ctl
     \<lparr>sc_state := initialSessionState\<lparr>ss_userId := ''u1'', ss_accessToken := ''tok'', ss_nicknameInput := ''Ann''\<rparr>\<rparr>\<rparr>"

text \<open>
  C25. A session refresh that is in flight when the user signs out signs the user in again when its
  answer arrives: the answer is applied without looking at whether the session it renews still exists.
  The answer is any renewal of a playable session - a token, no onboarding and no migration asked for, and
  \<open>canPlay\<close>, which the server always sends, not false -, whatever else it carries; the user signed in
  is the one the answer names, or the one who signed out when it names none.
\<close>

theorem refresh_undoes_sign_out:
  fixes env message rt data token
  defines "current \<equiv> sc_state (rt_session rt)"
  defines "out \<equiv> sign_out env message rt"
  defines "back \<equiv> snd (refresh_answered env current (Inr (Some data)) out)"
  assumes "ss_userId current \<noteq> []" and "truthy data" and "jfield data ''accessToken'' = Str token" and "token \<noteq> []"
    and "\<not> truthy (jfield data ''onboardingRequired'')" and "\<not> truthy (jfield data ''authMigrationRequired'')"
    and "jfield data ''canPlay'' \<noteq> Bool False"
  shows "getSessionSnapshot (rt_session out) = None \<and>
         rt_user back = response_id (ss_userId current) data \<and> rt_user back \<noteq> [] \<and>
         map_option s_accessToken (getSessionSnapshot (rt_session back)) = Some token"
proof -
  let ?s = "buildSessionFromAuthResponse data (ss_userId current) (ss_nicknameInput current)"
  have "hasPlayableSession (Some ?s)"
    using assms(4-10) response_id_nonempty [OF assms(4), of data]
    by (cases "jfield data ''canPlay''")
      (simp_all add: hasPlayableSession_def buildSessionFromAuthResponse_def Let_def or_text_def or_str_def)
  moreover have "getSessionSnapshot (rt_session out) = None" by (simp add: out_def)
  moreover have "s_userId ?s = response_id (ss_userId current) data" and "s_accessToken ?s = token"
    using assms(6,7) by (simp_all add: buildSessionFromAuthResponse_def Let_def or_text_def or_str_def)
  ultimately show ?thesis
    using assms(5) response_id_nonempty [OF assms(4), of data]
    by (simp add: back_def refresh_answered_def Let_def rt_user_def getSessionSnapshot_def normalize_playable)
qed

text \<open>An answer as the server writes it.\<close>

definition refreshed_body :: jv where
  "refreshed_body = Obj [(''accessToken'', Str ''tok2''), (''onboardingRequired'', Bool False), (''canPlay'', Bool True),
     (''user'', Obj [(''id'', Str ''u1''), (''display_name'', Str ''Ann''), (''isGuest'', Bool False)])]"

theorem refresh_undoes_sign_out_witness:
  "getSessionSnapshot (rt_session (sign_out some_env [] user_page)) = None \<and>
   rt_user (snd (refresh_answered some_env (sc_state (rt_session user_page)) (Inr (Some refreshed_body))
     (sign_out some_env [] user_page))) = ''u1''"
proof -
  have "ss_userId (sc_state (rt_session user_page)) \<noteq> []" by (simp add: user_page_def)
  from refresh_undoes_sign_out [OF this, of refreshed_body "''tok2''" some_env "[]"]
  show ?thesis by (simp add: refreshed_body_def response_id_def)
qed

text \<open>
  Saving a nickname forgets the player's badges: the answer is applied as a profile that has only a
  name, and a profile without badges clears them and the selected one.
\<close>

theorem nickname_drops_badges:
  fixes data rt
  assumes "data \<noteq> Null" and "nonempty_str_or [] (jfield (jfield data ''user'') ''display_name'') \<noteq> []"
  defines "r \<equiv> nickname_saved data rt"
  shows "fst r = HkDone True \<and>
         ss_displayName (sc_state (rt_session (snd r))) = nonempty_str_or [] (jfield (jfield data ''user'') ''display_name'') \<and>
         ss_badges (sc_state (rt_session (snd r))) = [] \<and> ss_selectedBadge (sc_state (rt_session (snd r))) = None"
  using assms(1,2) by (simp add: r_def nickname_saved_def Let_def applyProfileSnapshot_def normalizeBadge_def)

definition named_body :: jv where
  "named_body = Obj [(''user'', Obj [(''display_name'', Str ''Bob'')])]"

theorem nickname_drops_badges_witness:
  "ss_badges (sc_state (rt_session (snd (nickname_saved named_body user_page)))) = []"
  by (rule nickname_drops_badges [THEN conjunct2, THEN conjunct2, THEN conjunct1]) (simp_all add: named_body_def)

text \<open>
  \<open>getPlayableSession\<close> of a signed-out user hands out a session nobody may play with: a session
  restored from the server that still needs its onboarding is returned as it is.
\<close>

theorem playable_session_unchecked:
  fixes env rt data
  assumes "getSessionSnapshot (rt_session rt) = None" and "\<not> ss_onboardingRequired (sc_state (rt_session rt))"
    and "truthy data" and "truthy (jfield data ''onboardingRequired'')"
  defines "waiting \<equiv> snd (ensurePlayableSession rt)"
  defines "b \<equiv> bootstrap_answered env (Inr (Some data)) waiting"
  shows "fst (ensurePlayableSession rt) = HkBootstrap \<and>
         (\<exists>s. fst (playable_bootstrapped env (fst b) (snd b)) = HkDone (Some s) \<and> \<not> hasPlayableSession (Some s))"
  using assms(1-4)
  by (simp add: b_def waiting_def ensurePlayableSession_def bootstrap_answered_def playable_bootstrapped_def Let_def)
     (simp add: hasPlayableSession_def buildSessionFromAuthResponse_def Let_def)

theorem playable_session_unchecked_witness:
  "\<exists>s. fst (playable_bootstrapped some_env
     (fst (bootstrap_answered some_env (Inr (Some (Obj [(''onboardingRequired'', Bool True)])))
        (snd (ensurePlayableSession running_page))))
     (snd (bootstrap_answered some_env (Inr (Some (Obj [(''onboardingRequired'', Bool True)])))
        (snd (ensurePlayableSession running_page))))) = HkDone (Some s) \<and> \<not> hasPlayableSession (Some s)"
  by (rule playable_session_unchecked [THEN conjunct2])
     (simp_all add: running_page_def createHomeRuntime_def new_session_ctl_def initialSessionState_def getSessionSnapshot_def)

text \<open>
  Deleting the account signs out exactly when the server has deleted it; every other end of the action
  keeps the session, shows an error and stops loading, and the caller gets the error thrown.
\<close>

theorem delete_account_outcome:
  fixes env r rt so
  shows "(case r of
            Inr _ \<Rightarrow> delete_answered env r rt = (HkDone (), sign_out env [] rt)
          | Inl e \<Rightarrow> fst (delete_answered env r rt) = HkThrow e \<and>
              sc_session (rt_session (snd (delete_answered env r rt))) = sc_session (rt_session rt) \<and>
              ss_authError (sc_state (rt_session (snd (delete_answered env r rt)))) \<noteq> [] \<and>
              \<not> ss_authLoading (sc_state (rt_session (snd (delete_answered env r rt))))) \<and>
         (case fst (delete_session env so rt) of
            HkFetch _ \<Rightarrow> snd (delete_session env so rt) = rt
          | HkThrow _ \<Rightarrow> sc_session (rt_session (snd (delete_session env so rt))) = sc_session (rt_session rt) \<and>
              ss_authError (sc_state (rt_session (snd (delete_session env so rt)))) \<noteq> [] \<and>
              \<not> ss_authLoading (sc_state (rt_session (snd (delete_session env so rt))))
          | _ \<Rightarrow> False)"
  by (auto simp: delete_answered_def delete_session_def delete_failed_def auth_failed_def sign_in_again_def Let_def
      getErrorMessage_nonempty split: sum.split option.split)

end
