(* ===== verification/HomeEffects.thy ===== *)
theory HomeEffects
  imports HomeActions
begin

text \<open>
  \<open>features/home/model/useHomeModel.ts\<close>, the effects of the hook and the part of the view it adds to
  \<open>deriveHomeModel\<close>, over the hook's own state \<open>home_hook\<close> and the runtime. An effect that starts an
  asynchronous function is a definition for the start and one per answer; \<open>cancelled\<close> says whether React
  has cleaned the effect up meanwhile. The query of the page's URL is the list of its parameters.
\<close>

section \<open>The hook's state\<close>

record user_notification =
  un_id :: int
  un_type :: string

record home_hook =
  hk_rt :: home_runtime
  hk_resumeMatchId :: string
  hk_notifications :: "user_notification list"
  hk_prevEndedMatch :: string
  hk_hadLobby :: bool

section \<open>Signing in when the page opens\<close>

type_synonym query = "(string \<times> string) list"

definition clearGoogleAuthParams :: "query \<Rightarrow> query" where
  "clearGoogleAuthParams q =
     del_key ''provider'' (del_key ''authError'' (del_key ''auth''
       (del_key ''googleAuthError'' (del_key ''googleAuth'' q))))"

datatype auth_wait = WaitReturn | WaitMount

definition pending_error :: "string \<Rightarrow> home_runtime \<Rightarrow> home_runtime" where
  "pending_error m = pending (\<lambda>st. st\<lparr>ss_authLoading := False, ss_authError := m\<rparr>)"

definition stop_loading :: "home_runtime \<Rightarrow> home_runtime" where
  "stop_loading = pending (ss_authLoading_update (\<lambda>_. False))"

definition outcome_of :: "query \<Rightarrow> string option" where
  "outcome_of q =
     (if map_of q ''googleAuth'' = Some ''success'' \<or> map_of q ''auth'' = Some ''success'' then Some ''success''
      else if map_of q ''googleAuth'' = Some ''error'' \<or> map_of q ''auth'' = Some ''error'' then Some ''error''
      else None)"

definition login_error :: "query \<Rightarrow> string" where
  "login_error q =
     or_str (opt_str (map_of q ''googleAuthError'')) (or_str (opt_str (map_of q ''authError'')) ''Login failed'')"

text \<open>The part behind the URL: nobody signed in yet, so a session is asked for.\<close>

definition auth_mount_rest :: "home_runtime \<Rightarrow> auth_wait option \<times> home_runtime" where
  "auth_mount_rest rt =
     (if rt_user rt \<noteq> [] then (None, rt) else (Some WaitMount, pending auth_loading rt))"

definition auth_mount :: "bool \<Rightarrow> query \<Rightarrow> home_runtime \<Rightarrow> (auth_wait option \<times> home_runtime) \<times> query" where
  "auth_mount isMatchRoute q rt =
     (if isMatchRoute then ((None, stop_loading rt), q)
      else if outcome_of q = Some ''success'' then
        ((Some WaitReturn, pending auth_loading rt), clearGoogleAuthParams q)
      else if outcome_of q = Some ''error'' then
        (auth_mount_rest (pending_error (login_error q) rt), clearGoogleAuthParams q)
      else (auth_mount_rest rt, q))"

definition RESTORE_FAILED :: string where
  "RESTORE_FAILED = ''Sign-in completed, but restoring the session failed. Please try again.''"

text \<open>The answer of \<open>sessionController.bootstrapSession()\<close>, which has applied its session itself.\<close>

definition auth_mounted ::
  "auth_wait \<Rightarrow> bool \<Rightarrow> auth_session option outcome \<Rightarrow> home_runtime \<Rightarrow> home_runtime" where
  "auth_mounted w cancelled answer rt =
     (case answer of
        Inl _ \<Rightarrow>
          if cancelled then rt
          else (case w of WaitReturn \<Rightarrow> pending_error RESTORE_FAILED rt | WaitMount \<Rightarrow> stop_loading rt)
      | Inr None \<Rightarrow> (case w of WaitReturn \<Rightarrow> rt | WaitMount \<Rightarrow> stop_loading rt)
      | Inr (Some _) \<Rightarrow> rt)"

section \<open>A match to resume\<close>

definition resume_mount :: "bool \<Rightarrow> home_hook \<Rightarrow> unit hook_next \<times> home_hook" where
  "resume_mount isMatchRoute hk =
     (if isMatchRoute then (HkDone (), hk\<lparr>hk_resumeMatchId := []\<rparr>)
      else case getSessionSnapshot (rt_session (hk_rt hk)) of
        None \<Rightarrow> (HkDone (), hk\<lparr>hk_resumeMatchId := []\<rparr>)
      | Some s \<Rightarrow>
          if s_onboardingRequired s then (HkDone (), hk\<lparr>hk_resumeMatchId := []\<rparr>)
          else (HkSession False False, hk))"

definition resume_failed :: "bool \<Rightarrow> home_hook \<Rightarrow> home_hook" where
  "resume_failed cancelled hk = (if cancelled then hk else hk\<lparr>hk_resumeMatchId := []\<rparr>)"

definition resume_session ::
  "runtime_config \<Rightarrow> bool \<Rightarrow> auth_session option outcome \<Rightarrow> home_hook \<Rightarrow> unit hook_next \<times> home_hook" where
  "resume_session cfg cancelled answer hk =
     (case answer of
        Inl _ \<Rightarrow> (HkDone (), resume_failed cancelled hk)
      | Inr None \<Rightarrow> (HkDone (), resume_failed cancelled hk)
      | Inr (Some s) \<Rightarrow>
          if cancelled then (HkDone (), hk)
          else (HkFetch (get_request (apiURL cfg @ ''/v1/session/resumable'') (bearer (s_accessToken s))), hk))"

definition resume_answered :: "bool \<Rightarrow> resumable outcome \<Rightarrow> home_hook \<Rightarrow> home_hook" where
  "resume_answered cancelled answer hk =
     (case answer of
        Inl _ \<Rightarrow> resume_failed cancelled hk
      | Inr r \<Rightarrow>
          if cancelled then hk
          else hk\<lparr>hk_resumeMatchId := (case r of ResumableMatch i _ \<Rightarrow> i | NotResumable \<Rightarrow> [])\<rparr>)"

section \<open>The lobby of the page's URL\<close>

definition lobby_code :: "string option \<Rightarrow> string" where
  "lobby_code option_code = to_upper (js_trim (opt_str option_code))"

definition lobby_mount :: "hook_env \<Rightarrow> bool \<Rightarrow> string \<Rightarrow> home_hook \<Rightarrow> home_hook" where
  "lobby_mount env isMatchRoute code hk =
     (if isMatchRoute \<or> code = [] then hk
      else let rt = hk_rt hk in
        hk\<lparr>hk_rt := rt\<lparr>rt_lobby := ensureLobby (he_cfg env) (he_casts env)
             (getSessionSnapshot (rt_session rt)) code (rt_lobby rt)\<rparr>\<rparr>)"

definition has_lobby :: "lobby_runtime \<Rightarrow> bool" where
  "has_lobby st \<longleftrightarrow> lr_lobbyId st \<noteq> [] \<or> lr_inviteCode st \<noteq> [] \<or> lr_snapshot st \<noteq> None"

text \<open>True where \<open>onPrivateLobbyLeft\<close> is called.\<close>

definition lobby_left_effect :: "string \<Rightarrow> home_hook \<Rightarrow> bool \<times> home_hook" where
  "lobby_left_effect code hk =
     (let st = lob_state (rt_lobby (hk_rt hk)) in
      (code \<noteq> [] \<and> hk_hadLobby hk \<and> \<not> has_lobby st \<and> lr_status st = LsIdle, hk\<lparr>hk_hadLobby := has_lobby st\<rparr>))"

section \<open>Counting an ended match\<close>

definition num_add :: "num \<Rightarrow> num \<Rightarrow> num" where
  "num_add x y =
     (case (x, y) of
        (Fin a, Fin b) \<Rightarrow> Fin (a + b)
      | (NaN, _) \<Rightarrow> NaN | (_, NaN) \<Rightarrow> NaN
      | (PosInf, NegInf) \<Rightarrow> NaN | (NegInf, PosInf) \<Rightarrow> NaN
      | (PosInf, _) \<Rightarrow> PosInf | (_, PosInf) \<Rightarrow> PosInf
      | (NegInf, _) \<Rightarrow> NegInf | (_, NegInf) \<Rightarrow> NegInf)"

definition plus_one :: num_update where
  "plus_one = Via (\<lambda>v. num_add v (Fin 1))"

text \<open>What a finished match of player \<open>uid\<close> adds to the session.\<close>

definition count_ended :: "string \<Rightarrow> snapshot \<Rightarrow> session_ctl \<Rightarrow> session_ctl" where
  "count_ended uid sn sc =
     (let sc1 = setGamesPlayed plus_one sc;
          me = map_of (sn_players sn) uid;
          opponentId = find_str (\<lambda>i. i \<noteq> uid) (map fst (sn_players sn));
          opp = (if opponentId = [] then None else map_of (sn_players sn) opponentId)
      in case (me, opp) of
           (Some m, Some q) \<Rightarrow>
             let sc2 = (if pl_hp q < pl_hp m then setWins plus_one sc1 else sc1) in
             if flag (pl_isGuest m) then sc2
             else
               let preview = Option.bind (sn_ratingPreview sn) (\<lambda>r. map_of r (pl_userId m));
                   selfDelta = (if pl_hp q < pl_hp m then map_option rv_win preview
                                else if pl_hp m < pl_hp q then map_option rv_lose preview
                                else map_option rv_draw preview);
                   sc3 = (case selfDelta of None \<Rightarrow> sc2 | Some d \<Rightarrow> setMmr (SetTo (Fin (of_int (pl_mmr m + d)))) sc2);
                   sc4 = setRankedGamesPlayed plus_one sc3
               in if pl_hp q < pl_hp m then setRankedWins plus_one sc4 else sc4
         | _ \<Rightarrow> sc1)"

definition ended_effect :: "home_hook \<Rightarrow> home_hook" where
  "ended_effect hk =
     (case m_snapshot (mc_state (rt_match (hk_rt hk))) of
        None \<Rightarrow> hk
      | Some sn \<Rightarrow>
          if sn_state sn \<noteq> ''ended'' \<or> sn_matchId sn = hk_prevEndedMatch hk then hk
          else
            let hk1 = hk\<lparr>hk_prevEndedMatch := sn_matchId sn\<rparr> in
            if sn_mode sn = Some Singleplayer then hk1
            else hk1\<lparr>hk_rt := on_session (count_ended (rt_user (hk_rt hk)) sn) (hk_rt hk1)\<rparr>)"

section \<open>Notifications\<close>

definition notifications_mount :: "runtime_config \<Rightarrow> home_hook \<Rightarrow> unit hook_next \<times> home_hook" where
  "notifications_mount cfg hk =
     (let st = sc_state (rt_session (hk_rt hk)) in
      if ss_userId st = [] \<or> ss_accessToken st = [] \<or> ss_onboardingRequired st
      then (HkDone (), hk\<lparr>hk_notifications := []\<rparr>)
      else (HkFetch (requestUserNotifications_request cfg (ss_accessToken st)), hk))"

definition notifications_answered :: "bool \<Rightarrow> user_notification list option \<Rightarrow> home_hook \<Rightarrow> home_hook" where
  "notifications_answered cancelled ns hk =
     (if cancelled then hk else hk\<lparr>hk_notifications := or_nil ns\<rparr>)"

definition dismissNotification ::
  "runtime_config \<Rightarrow> int \<Rightarrow> home_hook \<Rightarrow> http_request option \<times> home_hook" where
  "dismissNotification cfg i hk =
     (let token = ss_accessToken (sc_state (rt_session (hk_rt hk))) in
      (if token = [] then None else Some (markUserNotificationRead_request cfg token i),
       hk\<lparr>hk_notifications := filter (\<lambda>n. un_id n \<noteq> i) (hk_notifications hk)\<rparr>))"

section \<open>The conversation\<close>

definition route_source_lobby :: "match_session_response option \<Rightarrow> string" where
  "route_source_lobby r =
     (case r of
        Some (LiveConnectable a) \<Rightarrow> opt_str (la_sourceLobbyId a)
      | Some (History _ _ _ l _) \<Rightarrow> opt_str l
      | Some (Replaced _ _ _ l _) \<Rightarrow> opt_str l
      | _ \<Rightarrow> [])"

definition route_conversation :: "bool \<Rightarrow> string option \<Rightarrow> match_route_state \<Rightarrow> string" where
  "route_conversation isMatchRoute routeMatchId rs =
     (let source = route_source_lobby (mr_replacement rs) in
      if isMatchRoute \<and> source \<noteq> [] then ''lobby:'' @ source
      else if isMatchRoute \<and> opt_str routeMatchId \<noteq> [] \<and>
        (case mr_historySnapshot rs of None \<Rightarrow> False | Some sn \<Rightarrow> sn_mode sn \<noteq> Some Singleplayer)
      then ''match:'' @ opt_str routeMatchId else [])"

definition active_conversation :: "bool \<Rightarrow> string option \<Rightarrow> home_runtime \<Rightarrow> string" where
  "active_conversation isMatchRoute routeMatchId rt =
     or_str (selectActiveChatConversationId (rt_user rt) (lob_state (rt_lobby rt)) (mc_state (rt_match rt)))
       (route_conversation isMatchRoute routeMatchId (mrc_state (rt_route rt)))"

definition chat_effect :: "runtime_config \<Rightarrow> bool \<Rightarrow> string option \<Rightarrow> home_runtime \<Rightarrow> home_runtime" where
  "chat_effect cfg isMatchRoute routeMatchId rt =
     (let st = sc_state (rt_session rt) in
      rt\<lparr>rt_chat := setConversation cfg
           (if ss_onboardingRequired st then [] else active_conversation isMatchRoute routeMatchId rt)
           (ss_accessToken st) (rt_chat rt)\<rparr>)"

section \<open>The view\<close>

record private_lobby_view =
  plv_status :: lobby_runtime_status
  plv_snapshot :: "lobby option"
  plv_inviteCode :: string
  plv_isMember :: bool
  plv_isOwner :: bool
  plv_busy :: bool
  plv_error :: string

definition lobby_busy :: "lobby_runtime_status \<Rightarrow> bool" where
  "lobby_busy st = (st \<in> {LsCreating, LsJoining, LsConnecting, LsReconnecting, LsLeaving})"

definition private_lobby :: "bool \<Rightarrow> string \<Rightarrow> home_runtime \<Rightarrow> private_lobby_view" where
  "private_lobby isMatchRoute code rt =
     (let st = lob_state (rt_lobby rt); uid = rt_user rt in
      \<lparr>plv_status = (if code \<noteq> [] \<and> \<not> isMatchRoute \<and> lr_status st = LsIdle then LsConnecting else lr_status st),
       plv_snapshot = lr_snapshot st,
       plv_inviteCode = or_str (lr_inviteCode st)
         (or_str (case lr_snapshot st of None \<Rightarrow> [] | Some l \<Rightarrow> lb_inviteCode l) code),
       plv_isMember = (case lr_snapshot st of None \<Rightarrow> False
          | Some l \<Rightarrow> list_ex (\<lambda>m. lm_userId m = uid) (lb_members l)),
       plv_isOwner = (case lr_snapshot st of None \<Rightarrow> False | Some l \<Rightarrow> lb_ownerUserId l = uid),
       plv_busy = lobby_busy (lr_status st),
       plv_error = lr_error st\<rparr>)"

record page_query =
  pq_onlinePlayers :: "int option"
  pq_leaderboardLoading :: bool
  pq_maintenance :: "maintenance_status option"
  pq_changelogEyebrow :: string
  pq_changelogTitle :: string
  pq_changelogMarkdown :: string

definition with_online :: "int option \<Rightarrow> match_state \<Rightarrow> match_state" where
  "with_online n st = (case n of None \<Rightarrow> st | Some k \<Rightarrow> st\<lparr>m_onlinePlayers := k\<rparr>)"

text \<open>The parameters of \<open>deriveHomeModel\<close>.\<close>

definition view_params :: "runtime_config \<Rightarrow> string option \<Rightarrow> page_query \<Rightarrow> home_hook \<Rightarrow> home_params" where
  "view_params cfg routeMatchId q hk =
     \<lparr>hp_auth = sc_state (rt_session (hk_rt hk)),
      hp_match = with_online (pq_onlinePlayers q) (mc_state (rt_match (hk_rt hk))),
      hp_game = gm_state (rt_game (hk_rt hk)), hp_config = cfg,
      hp_homeResumeMatchId = hk_resumeMatchId hk, hp_routeMatchId = routeMatchId,
      hp_leaderboardLoading = pq_leaderboardLoading q, hp_maintenance = pq_maintenance q,
      hp_changelogEyebrow = pq_changelogEyebrow q, hp_changelogTitle = pq_changelogTitle q,
      hp_changelogMarkdown = pq_changelogMarkdown q\<rparr>"

section \<open>The end page and the space bar\<close>

text \<open>True where the timer of 450 ms that opens the end page is set.\<close>

definition end_page_effect :: "ui_phase \<Rightarrow> home_runtime \<Rightarrow> bool \<times> home_runtime" where
  "end_page_effect phase rt =
     (if phase \<noteq> UIMatchEnd
      then (False, rt\<lparr>rt_game := setShowMatchEndPage (m_snapshot (mc_state (rt_match rt))) False (rt_game rt)\<rparr>)
      else (g_resultPhase (gm_state (rt_game rt)) = PhHpApply, rt))"

definition end_page_timer :: "home_runtime \<Rightarrow> home_runtime" where
  "end_page_timer rt =
     rt\<lparr>rt_game := setShowMatchEndPage (m_snapshot (mc_state (rt_match rt))) True (rt_game rt)\<rparr>"

record key_event =
  ke_code :: string
  ke_repeat :: bool
  ke_target :: "(string \<times> bool) option"

definition is_typing :: "key_event \<Rightarrow> bool" where
  "is_typing ev =
     (case ke_target ev of
        None \<Rightarrow> False
      | Some (tag, editable) \<Rightarrow> tag \<in> {''INPUT'', ''TEXTAREA'', ''SELECT''} \<or> editable)"

definition on_key ::
  "hook_env \<Rightarrow> home_params \<Rightarrow> key_event \<Rightarrow> home_runtime \<Rightarrow> home_runtime" where
  "on_key env p ev rt =
     (let s = (rt_game rt, rt_match rt); put = (\<lambda>s. rt\<lparr>rt_game := fst s, rt_match := snd s,
             rt_route := fold on_match_change (emitted_states (rt_match rt) (snd s)) (rt_route rt)\<rparr>) in
      if ke_code ev \<noteq> ''Space'' \<or> ke_repeat ev \<or> is_typing ev then rt
      else if canFinalizeGuess p then put (finalizeGuess (he_cfg env) (rt_user rt) (he_amb env) s)
      else if canAdvanceRound p then put (snd (advanceRound (he_cfg env) (rt_user rt) (he_amb env) s))
      else rt)"

section \<open>Lobby actions\<close>

text \<open>The invite code given to \<open>onPrivateLobbyEntered\<close>, after \<open>createLobby\<close> or \<open>joinLobby\<close> answered \<open>ok\<close>.\<close>

definition lobby_entered :: "bool \<Rightarrow> lobby_runtime \<Rightarrow> string option" where
  "lobby_entered ok st = (if ok \<and> lr_inviteCode st \<noteq> [] then Some (lr_inviteCode st) else None)"

text \<open>Whether \<open>onPrivateLobbyLeft\<close> is called, from the states before and after \<open>leaveLobby\<close>.\<close>

definition lobby_exited :: "lobby_runtime \<Rightarrow> lobby_runtime \<Rightarrow> bool" where
  "lobby_exited before after \<longleftrightarrow> lr_lobbyId before \<noteq> [] \<and> lr_status after = LsIdle"

section \<open>Lemmas\<close>

lemma pending_user [simp]: "(\<And>st. ss_userId (f st) = ss_userId st) \<Longrightarrow> rt_user (pending f rt) = rt_user rt"
  by (simp add: rt_user_def)

lemma pending_error_simps [simp]:
  "rt_user (pending_error m rt) = rt_user rt"
  "ss_authError (sc_state (rt_session (pending_error m rt))) = m"
  by (simp_all add: pending_error_def)

lemma loading_simps [simp]:
  "ss_authLoading (auth_loading st) = True" "ss_authError (auth_loading st) = []" "ss_userId (auth_loading st) = ss_userId st"
  by (simp_all add: auth_loading_def)

lemma stop_loading_simps [simp]:
  "ss_authError (sc_state (rt_session (stop_loading rt))) = ss_authError (sc_state (rt_session rt))"
  "ss_authLoading (sc_state (rt_session (stop_loading rt))) = False"
  by (simp_all add: stop_loading_def)

lemma counters [simp]:
  "sc_state (setGamesPlayed u sc) = ss_gamesPlayed_update (apply_update u) (sc_state sc)"
  "sc_state (setWins u sc) = ss_wins_update (apply_update u) (sc_state sc)"
  "sc_state (setMmr u sc) = ss_mmr_update (apply_update u) (sc_state sc)"
  "sc_state (setRankedGamesPlayed u sc) = ss_rankedGamesPlayed_update (apply_update u) (sc_state sc)"
  "sc_state (setRankedWins u sc) = ss_rankedWins_update (apply_update u) (sc_state sc)"
  by (simp_all add: setGamesPlayed_def setWins_def setMmr_def setRankedGamesPlayed_def setRankedWins_def)

lemma count_ended_games:
  "ss_gamesPlayed (sc_state (count_ended uid sn sc)) = num_add (ss_gamesPlayed (sc_state sc)) (Fin 1)"
  by (simp add: count_ended_def plus_one_def Let_def split: option.split)

lemma find_str_map_of:
  "find_str P (map fst r) \<noteq> [] \<Longrightarrow> \<exists>v. map_of r (find_str P (map fst r)) = Some v"
  using find_str_in [of P "map fst r"] map_of_eq_None_iff [of r "find_str P (map fst r)"] by auto

text \<open>The hook with another snapshot of the match.\<close>

definition show_snapshot :: "snapshot \<Rightarrow> home_hook \<Rightarrow> home_hook" where
  "show_snapshot sn hk = hk\<lparr>hk_rt := (hk_rt hk)\<lparr>rt_match := (rt_match (hk_rt hk))
     \<lparr>mc_state := (mc_state (rt_match (hk_rt hk)))\<lparr>m_snapshot := Some sn\<rparr>\<rparr>\<rparr>\<rparr>"

section \<open>Properties\<close>

text \<open>
  The error of a failed sign-in is never shown to a user who is signed out: the effect that reports it
  goes on to ask for a session, which clears the error before the page has shown it, and the answer that
  there is no session does not bring it back.
\<close>

theorem login_error_lost:
  fixes q rt c
  assumes "outcome_of q = Some ''error''" and "rt_user rt = []"
  defines "m \<equiv> auth_mount False q rt"
  defines "rt1 \<equiv> snd (fst m)"
  shows "login_error q \<noteq> [] \<and> fst (fst m) = Some WaitMount \<and> ss_authError (sc_state (rt_session rt1)) = [] \<and>
         ss_authError (sc_state (rt_session (auth_mounted WaitMount c (Inr None) rt1))) = [] \<and>
         map_of (snd m) ''authError'' = None"
  using assms(1,2)
  by (simp add: m_def rt1_def auth_mount_def auth_mount_rest_def auth_mounted_def login_error_def clearGoogleAuthParams_def)

theorem login_error_lost_witness:
  "ss_authError (sc_state (rt_session (snd (fst (auth_mount False
     [(''auth'', ''error''), (''authError'', ''Email already used'')] running_page))))) = []"
  by (rule login_error_lost [THEN conjunct2, THEN conjunct2, THEN conjunct1])
     (simp_all add: outcome_of_def running_page_def createHomeRuntime_def new_session_ctl_def rt_user_def initialSessionState_def)

text \<open>
  A page that a successful sign-in has redirected to stays loading when the server has no session for
  it: the answer null of \<open>bootstrapSession\<close> is dropped, where the page opened without a redirect stops loading.
\<close>

theorem sign_in_return_hangs:
  fixes q rt c
  assumes "outcome_of q = Some ''success''"
  defines "m \<equiv> auth_mount False q rt"
  shows "fst (fst m) = Some WaitReturn \<and>
         ss_authLoading (sc_state (rt_session (auth_mounted WaitReturn c (Inr None) (snd (fst m))))) \<and>
         \<not> ss_authLoading (sc_state (rt_session (auth_mounted WaitMount c (Inr None) (snd (fst m)))))"
  using assms(1) by (simp add: m_def auth_mount_def auth_mounted_def)

theorem sign_in_return_hangs_witness:
  "ss_authLoading (sc_state (rt_session (auth_mounted WaitReturn False (Inr None)
     (snd (fst (auth_mount False [(''googleAuth'', ''success'')] running_page))))))"
  by (rule sign_in_return_hangs [THEN conjunct2, THEN conjunct1]) (simp add: outcome_of_def)

text \<open>
  An ended match counts once: the first ended snapshot of a match adds one game, and no later snapshot of
  the same match changes the session any more.
\<close>

theorem ended_match_counts_once:
  fixes hk sn sn'
  assumes "m_snapshot (mc_state (rt_match (hk_rt hk))) = Some sn" and "sn_state sn = ''ended''"
    and "sn_matchId sn \<noteq> hk_prevEndedMatch hk" and "sn_mode sn \<noteq> Some Singleplayer"
    and "sn_matchId sn' = sn_matchId sn"
  defines "hk1 \<equiv> ended_effect hk"
  shows "ss_gamesPlayed (sc_state (rt_session (hk_rt hk1))) =
           num_add (ss_gamesPlayed (sc_state (rt_session (hk_rt hk)))) (Fin 1) \<and>
         ended_effect (show_snapshot sn' hk1) = show_snapshot sn' hk1"
  using assms(1-5) by (simp add: hk1_def ended_effect_def Let_def count_ended_games show_snapshot_def)

definition duel_over :: snapshot where
  "duel_over = sample_snapshot
     \<lparr>sn_state := ''ended'', sn_unranked := Some True, sn_players :=
        [(''u1'', sample_player ''u1'' 4000), (''u2'', sample_player ''u2'' 0)]\<rparr>"

definition user_hook :: home_hook where
  "user_hook = \<lparr>hk_rt = user_page, hk_resumeMatchId = [], hk_notifications = [], hk_prevEndedMatch = [], hk_hadLobby = False\<rparr>"

lemma duel_over_facts:
  "m_snapshot (mc_state (rt_match (hk_rt (show_snapshot duel_over user_hook)))) = Some duel_over"
  "rt_user (hk_rt (show_snapshot duel_over user_hook)) = ''u1''"
  by (simp_all add: show_snapshot_def user_hook_def user_page_def rt_user_def)

theorem ended_match_counts_once_witness:
  "ended_effect (show_snapshot duel_over (ended_effect (show_snapshot duel_over user_hook))) =
   show_snapshot duel_over (ended_effect (show_snapshot duel_over user_hook))"
  by (rule ended_match_counts_once [OF duel_over_facts(1), THEN conjunct2])
     (simp_all add: duel_over_def sample_snapshot_def show_snapshot_def user_hook_def)

text \<open>
  A finished match counts as a ranked game whatever it was: of an unranked match or a team match, which
  the page itself does not treat as a ranked duel, the player's ranked games still grow by one.
\<close>

theorem unranked_counts_as_ranked:
  fixes hk sn p me
  assumes "m_snapshot (mc_state (rt_match (hk_rt hk))) = Some sn" and "sn_state sn = ''ended''"
    and "sn_matchId sn \<noteq> hk_prevEndedMatch hk" and "sn_mode sn \<noteq> Some Singleplayer"
    and "map_of (sn_players sn) (rt_user (hk_rt hk)) = Some me" and "\<not> flag (pl_isGuest me)"
    and "find_str (\<lambda>i. i \<noteq> rt_user (hk_rt hk)) (map fst (sn_players sn)) \<noteq> []"
    and "home_snapshot p = Some sn" and "sn_mode sn = Some TeamDuel \<or> flag (sn_unranked sn)"
  shows "\<not> isRankedDuel p \<and>
         ss_rankedGamesPlayed (sc_state (rt_session (hk_rt (ended_effect hk)))) =
           num_add (ss_rankedGamesPlayed (sc_state (rt_session (hk_rt hk)))) (Fin 1)"
proof -
  obtain opp where "map_of (sn_players sn) (find_str (\<lambda>i. i \<noteq> rt_user (hk_rt hk)) (map fst (sn_players sn))) = Some opp"
    using find_str_map_of [OF assms(7)] by blast
  with assms show ?thesis
    by (auto simp: isRankedDuel_def home_mode_def ended_effect_def count_ended_def plus_one_def Let_def
        split: option.split)
qed

definition duel_params :: home_params where
  "duel_params = view_params sample_config (Some (sn_matchId duel_over))
     \<lparr>pq_onlinePlayers = None, pq_leaderboardLoading = False, pq_maintenance = None, pq_changelogEyebrow = [],
      pq_changelogTitle = [], pq_changelogMarkdown = []\<rparr> (show_snapshot duel_over user_hook)"

theorem unranked_counts_as_ranked_witness:
  "ss_rankedGamesPlayed (sc_state (rt_session (hk_rt (ended_effect (show_snapshot duel_over user_hook))))) =
   num_add (ss_rankedGamesPlayed (sc_state (rt_session (hk_rt (show_snapshot duel_over user_hook))))) (Fin 1)"
  by (rule unranked_counts_as_ranked [OF duel_over_facts(1), where p = duel_params and me = "sample_player ''u1'' 4000", THEN conjunct2])
     (simp_all add: duel_over_facts duel_params_def view_params_def home_snapshot_def with_online_def,
      simp_all add: duel_over_def sample_snapshot_def show_snapshot_def user_hook_def find_str_def sample_player_def)

text \<open>
  Whoever the page shows as a member of the lobby chats in that lobby: with an onboarded account the
  conversation the chat is given is the lobby's, whatever match is on and whatever the route says.
\<close>

theorem lobby_members_share_chat:
  fixes rt isMatchRoute routeMatchId code
  assumes "plv_isMember (private_lobby isMatchRoute code rt)" and "lr_snapshot (lob_state (rt_lobby rt)) = Some l"
    and "lb_id l \<noteq> []" and "\<not> ss_onboardingRequired (sc_state (rt_session rt))"
  shows "rt_chat (chat_effect cfg isMatchRoute routeMatchId rt) =
         setConversation cfg (''lobby:'' @ lb_id l) (ss_accessToken (sc_state (rt_session rt))) (rt_chat rt)"
  using assms
  by (simp add: private_lobby_def chat_effect_def active_conversation_def selectActiveChatConversationId_def Let_def
      or_str_def)

definition member_page :: home_runtime where
  "member_page = user_page\<lparr>rt_lobby := new_lobby_ctl\<lparr>lob_state := initial_lobby_state
     \<lparr>lr_snapshot := Some (sample_lobby\<lparr>lb_id := ''L'', lb_members := [sample_member ''u1'']\<rparr>)\<rparr>\<rparr>\<rparr>"

lemma member_page_facts:
  "rt_user member_page = ''u1''" "ss_accessToken (sc_state (rt_session member_page)) = ''tok''"
  "\<not> ss_onboardingRequired (sc_state (rt_session member_page))"
  "lr_snapshot (lob_state (rt_lobby member_page)) = Some (sample_lobby\<lparr>lb_id := ''L'', lb_members := [sample_member ''u1'']\<rparr>)"
  by (simp_all add: member_page_def user_page_def rt_user_def initialSessionState_def)

theorem lobby_members_share_chat_witness:
  "rt_chat (chat_effect sample_config False None member_page) =
   setConversation sample_config ''lobby:L'' (ss_accessToken (sc_state (rt_session member_page))) (rt_chat member_page)"
proof -
  have "plv_isMember (private_lobby False [] member_page)"
    by (simp add: private_lobby_def Let_def member_page_facts) (simp add: sample_member_def)
  from lobby_members_share_chat [OF this member_page_facts(4) _ member_page_facts(3)] show ?thesis by simp
qed

end
