(* ===== verification/LobbyData.thy ===== *)
theory LobbyData
  imports HomeEffects
begin

text \<open>
  \<open>features/home/model/useLobbyData.ts\<close>: the queries of the home page. React Query runs them; here are
  when each is enabled, what its function does with the answers of the session controller and of the
  network, given as arguments in the order they are awaited, and what the page reads from the results.
  An awaited answer that is not needed is not looked at.
\<close>

section \<open>When the queries run\<close>

definition online_enabled :: "bool \<Rightarrow> string \<Rightarrow> bool" where
  "online_enabled enabled visibility \<longleftrightarrow> enabled \<and> visibility = ''visible''"

definition signed_in :: "session_state \<Rightarrow> bool" where
  "signed_in st \<longleftrightarrow> ss_userId st \<noteq> [] \<and> ss_accessToken st \<noteq> [] \<and> \<not> ss_onboardingRequired st"

definition profile_enabled :: "bool \<Rightarrow> session_state \<Rightarrow> bool" where
  "profile_enabled enabled st \<longleftrightarrow> enabled \<and> signed_in st"

definition leaderboard_enabled :: "bool \<Rightarrow> bool \<Rightarrow> bool" where
  "leaderboard_enabled enabled asked \<longleftrightarrow> enabled \<and> asked"

section \<open>The profile\<close>

text \<open>What a query function makes: its outcome, the requests it sent, and the page after it.\<close>

type_synonym 'a query_run = "'a outcome \<times> http_request list \<times> home_runtime"

definition session_gone :: "hook_env \<Rightarrow> http_request list \<Rightarrow> home_runtime \<Rightarrow> jv query_run" where
  "session_gone env reqs rt = (Inl (JsError EXPIRED), reqs, sign_out env EXPIRED rt)"

definition profile_read :: "http_response \<Rightarrow> jv outcome" where
  "profile_read resp = (if \<not> rs_ok resp then Inl (JsError ''Failed to load profile'') else json_of resp)"

definition unauthorized :: "http_response \<Rightarrow> bool" where
  "unauthorized resp \<longleftrightarrow> rs_status resp = 401 \<or> rs_status resp = 403"

definition profile_query ::
  "hook_env \<Rightarrow> auth_session option outcome \<Rightarrow> http_response outcome \<Rightarrow> auth_session option outcome \<Rightarrow>
   http_response outcome \<Rightarrow> home_runtime \<Rightarrow> jv query_run" where
  "profile_query env session answer renewed again rt =
     (case session of
        Inl e \<Rightarrow> (Inl e, [], rt)
      | Inr None \<Rightarrow> session_gone env [] rt
      | Inr (Some s) \<Rightarrow>
          let first = requestMe_request (he_cfg env) (s_accessToken s) in
          (case answer of
             Inl e \<Rightarrow> (Inl e, [first], rt)
           | Inr resp \<Rightarrow>
               if \<not> unauthorized resp then (profile_read resp, [first], rt)
               else (case renewed of
                   Inl e \<Rightarrow> (Inl e, [first], rt)
                 | Inr None \<Rightarrow> session_gone env [first] rt
                 | Inr (Some s2) \<Rightarrow>
                     let second = requestMe_request (he_cfg env) (s_accessToken s2) in
                     (case again of
                        Inl e \<Rightarrow> (Inl e, [first, second], rt)
                      | Inr resp2 \<Rightarrow> (profile_read resp2, [first, second], rt)))))"

definition profile_effect :: "jv option \<Rightarrow> home_runtime \<Rightarrow> home_runtime" where
  "profile_effect data rt =
     (case data of
        None \<Rightarrow> rt
      | Some v \<Rightarrow> if truthy v then on_session (applyProfileSnapshot v) rt else rt)"

section \<open>The leaderboard\<close>

definition leaderboard_request :: "runtime_config \<Rightarrow> session_state \<Rightarrow> auth_session option \<Rightarrow> http_request" where
  "leaderboard_request cfg st session =
     requestLeaderboard_request cfg
       (if signed_in st then map_option s_accessToken session else None)"

definition leaderboard_effect :: "jv option \<Rightarrow> home_runtime \<Rightarrow> home_runtime" where
  "leaderboard_effect data rt =
     (case data of
        None \<Rightarrow> rt
      | Some v \<Rightarrow> if truthy v then on_session (applyLeaderboardSummary v) rt else rt)"

section \<open>What the page reads\<close>

record lobby_data =
  ld_onlinePlayers :: "num option"
  ld_maintenance :: "maintenance_status option"
  ld_leaderboardLoading :: bool
  ld_changelogEyebrow :: string
  ld_changelogTitle :: string
  ld_changelogMarkdown :: string

definition lobby_data_of :: "lobby_status option \<Rightarrow> bool \<Rightarrow> bool \<Rightarrow> jv \<Rightarrow> lobby_data" where
  "lobby_data_of online loading fetching changelog =
     \<lparr>ld_onlinePlayers = Option.bind online lst_onlinePlayers,
      ld_maintenance = Option.bind online lst_maintenance,
      ld_leaderboardLoading = (loading \<or> fetching),
      ld_changelogEyebrow = str_or ''Latest News'' (jfield changelog ''eyebrow''),
      ld_changelogTitle = str_or ''GeoDuels v1.1'' (jfield changelog ''title''),
      ld_changelogMarkdown = str_or [] (jfield changelog ''markdown'')\<rparr>"

section \<open>Properties\<close>

definition no_session :: "auth_session option outcome \<Rightarrow> bool" where
  "no_session a \<longleftrightarrow> a = Inr None"

text \<open>
  Loading the profile signs the user out in exactly two cases: there is no session to ask with, or the
  server refused the token and there is none to ask again with. In every other case the page is left as it
  was; a refused token is renewed and tried once more, never a third time, and a profile is delivered only
  from an accepted answer.
\<close>

theorem profile_query_outcome:
  fixes env a r a2 r2 rt
  defines "q \<equiv> profile_query env a r a2 r2 rt"
  defines "refused \<equiv> (\<exists>s resp. a = Inr (Some s) \<and> r = Inr resp \<and> unauthorized resp)"
  shows "snd (snd q) = (if no_session a \<or> refused \<and> no_session a2 then sign_out env EXPIRED rt else rt) \<and>
         length (fst (snd q)) \<le> (if refused then 2 else 1) \<and>
         (case fst q of
            Inl _ \<Rightarrow> True
          | Inr v \<Rightarrow> \<exists>resp. rs_ok resp \<and> rs_json resp = Some v \<and> (r = Inr resp \<or> r2 = Inr resp))"
proof -
  have "profile_read resp = Inr v \<Longrightarrow> rs_ok resp \<and> rs_json resp = Some v" for resp v
    by (auto simp: profile_read_def json_of_def split: if_splits option.splits)
  then show ?thesis
    by (auto simp: q_def refused_def profile_query_def session_gone_def no_session_def Let_def
        split: sum.splits option.splits)
qed

end
