(* ===== verification/MatchPage.thy ===== *)
theory MatchPage
  imports HomeEffects
begin

text \<open>
  \<open>pages/match/[id].tsx\<close>, \<open>pages/lobby/[code].tsx\<close> and \<open>pages/index.tsx\<close>: the match and the lobby a
  URL names, the paths the pages navigate to, and the overlay of a match that is over. The markup is not
  modelled. First letters of names are bytes, as in \<open>HomeModel\<close>.
\<close>

section \<open>decodeURIComponent\<close>

definition is_hex :: "char \<Rightarrow> bool" where
  "is_hex c =
     (let n = of_char c :: nat in (48 \<le> n \<and> n \<le> 57) \<or> (65 \<le> n \<and> n \<le> 70) \<or> (97 \<le> n \<and> n \<le> 102))"

definition hex_of :: "char \<Rightarrow> nat" where
  "hex_of c = (let n = of_char c :: nat in if n < 58 then n - 48 else if n < 71 then n - 55 else n - 87)"

text \<open>The byte of an escape at the head of the text, and the rest.\<close>

fun escape_at :: "string \<Rightarrow> (nat \<times> string) option" where
  "escape_at (c # a # b # s) =
     (if c = CHR ''%'' \<and> is_hex a \<and> is_hex b then Some (16 * hex_of a + hex_of b, s) else None)"
| "escape_at _ = None"

fun escapes_at :: "nat \<Rightarrow> string \<Rightarrow> (nat list \<times> string) option" where
  "escapes_at 0 s = Some ([], s)"
| "escapes_at (Suc k) s =
     (case escape_at s of
        None \<Rightarrow> None
      | Some (b, r) \<Rightarrow> map_option (\<lambda>(bs, t). (b # bs, t)) (escapes_at k r))"

text \<open>How many bytes a UTF-8 sequence has that starts so; 0 where none does.\<close>

definition sequence_length :: "nat \<Rightarrow> nat" where
  "sequence_length b =
     (if b < 128 then 1 else if 194 \<le> b \<and> b < 224 then 2 else if 224 \<le> b \<and> b < 240 then 3
      else if 240 \<le> b \<and> b < 245 then 4 else 0)"

text \<open>Continuation bytes, no overlong form, no surrogate, no code point beyond the last.\<close>

definition utf8_ok :: "nat \<Rightarrow> nat list \<Rightarrow> bool" where
  "utf8_ok b bs \<longleftrightarrow>
     list_all (\<lambda>c. 128 \<le> c \<and> c < 192) bs \<and>
     (case bs of
        [] \<Rightarrow> True
      | c # _ \<Rightarrow> (b = 224 \<longrightarrow> 160 \<le> c) \<and> (b = 237 \<longrightarrow> c < 160) \<and> (b = 240 \<longrightarrow> 144 \<le> c) \<and> (b = 244 \<longrightarrow> c < 144))"

lemma escape_at_shorter: "escape_at s = Some (b, r) \<Longrightarrow> length r < length s"
  by (induction s rule: escape_at.induct) (auto split: if_splits)

lemma escapes_at_shorter: "escapes_at k s = Some (bs, r) \<Longrightarrow> length r \<le> length s"
proof (induction k arbitrary: s bs)
  case (Suc k)
  then show ?case by (fastforce split: option.splits dest: escape_at_shorter)
qed simp

text \<open>None where it throws.\<close>

function decodeURIComponent :: "string \<Rightarrow> string option" where
  "decodeURIComponent [] = Some []"
| "decodeURIComponent (c # s) =
     (if c \<noteq> CHR ''%'' then map_option (Cons c) (decodeURIComponent s)
      else case escape_at (c # s) of
        None \<Rightarrow> None
      | Some (b, r) \<Rightarrow>
          (case escapes_at (sequence_length b - 1) r of
             None \<Rightarrow> None
           | Some (bs, t) \<Rightarrow>
               if sequence_length b = 0 \<or> \<not> utf8_ok b bs then None
               else map_option (\<lambda>u. map char_of (b # bs) @ u) (decodeURIComponent t)))"
  by pat_completeness auto
termination
  by (relation "measure length") (auto dest!: escape_at_shorter escapes_at_shorter)

section \<open>The match of the URL\<close>

datatype route_param = ParamString string | ParamOther

text \<open>A text in brackets without a slash: the name of the route itself.\<close>

definition is_placeholder :: "string \<Rightarrow> bool" where
  "is_placeholder v \<longleftrightarrow>
     3 \<le> length v \<and> hd v = CHR ''['' \<and> last v = CHR '']'' \<and> CHR ''/'' \<notin> set (butlast (tl v))"

definition route_value :: "string \<Rightarrow> string" where
  "route_value v = (let t = js_trim v in if is_placeholder t then [] else t)"

definition path_match :: "string \<Rightarrow> string" where
  "path_match asPath =
     (if starts_with asPath ''/match/''
      then takeWhile (\<lambda>c. c \<notin> {CHR ''?'', CHR ''#'', CHR ''/''}) (drop 7 asPath) else [])"

definition normalizeRouteMatchId :: "route_param \<Rightarrow> string \<Rightarrow> string" where
  "normalizeRouteMatchId raw asPath =
     (case raw of
        ParamString v \<Rightarrow> route_value v
      | ParamOther \<Rightarrow>
          let m = path_match asPath in
          if m = [] then []
          else (case decodeURIComponent m of None \<Rightarrow> route_value m | Some v \<Rightarrow> route_value v))"

section \<open>Paths\<close>

definition match_url :: "string \<Rightarrow> string" where
  "match_url matchId = ''/match/'' @ encodeURIComponent matchId"

definition page_lobby_url :: "string \<Rightarrow> string" where
  "page_lobby_url code = ''/lobby/'' @ encodeURIComponent code"

definition matchSourceLobbyInviteCode :: "match_session_response option \<Rightarrow> string" where
  "matchSourceLobbyInviteCode r =
     (case r of
        Some (LiveConnectable a) \<Rightarrow> opt_str (la_sourceLobbyInviteCode a)
      | Some (History _ _ _ _ c) \<Rightarrow> opt_str c
      | Some (Replaced _ _ _ _ c) \<Rightarrow> opt_str c
      | _ \<Rightarrow> [])"

text \<open>Where leaving the game leads.\<close>

definition leave_target :: "string \<Rightarrow> match_session_response option \<Rightarrow> string" where
  "leave_target shownCode replacement =
     (let code = or_str shownCode (matchSourceLobbyInviteCode replacement)
      in if code \<noteq> [] then page_lobby_url code else ''/'')"

definition play_again_target :: "string \<Rightarrow> string option" where
  "play_again_target nextMatchId = (if nextMatchId = [] then None else Some (match_url nextMatchId))"

definition history_report :: "runtime_config \<Rightarrow> string \<Rightarrow> string \<Rightarrow> string \<Rightarrow> string \<Rightarrow> string \<Rightarrow> http_request outcome" where
  "history_report cfg token routeMatchId reported category reason =
     (if token = [] \<or> routeMatchId = [] then Inl (JsError ''Report unavailable'')
      else Inr (requestMatchReport_request cfg token routeMatchId reported category reason))"

definition loading_label :: "match_route_status \<Rightarrow> string" where
  "loading_label st =
     (case st of
        BootstrappingAuth \<Rightarrow> ''Restoring session...''
      | Resolving \<Rightarrow> ''Reconnecting to match...''
      | AwaitingFirstSnapshot \<Rightarrow> ''Joining live match...''
      | RouteReplaced \<Rightarrow> ''This match was replaced''
      | RouteForbidden \<Rightarrow> ''Sign in to view this match''
      | RouteMissing \<Rightarrow> ''Match unavailable''
      | _ \<Rightarrow> ''Loading match...'')"

text \<open>Home and lobby page: a new active match is opened; the path and the id remembered.\<close>

definition follow_match :: "string \<Rightarrow> string \<Rightarrow> string option \<times> string" where
  "follow_match prevMatchId nextMatchId =
     (if nextMatchId = [] \<or> nextMatchId = prevMatchId then None else Some (match_url nextMatchId), nextMatchId)"

text \<open>The lobby page: the code of its URL, the code it opens, and where it goes instead.\<close>

definition page_lobby_code :: "string \<Rightarrow> string" where
  "page_lobby_code rawCode = to_upper (js_trim rawCode)"

definition routed_lobby_code :: "string \<Rightarrow> string" where
  "routed_lobby_code rawCode = (if to_lower rawCode = ''new'' then [] else page_lobby_code rawCode)"

definition lobby_redirect :: "string \<Rightarrow> string option" where
  "lobby_redirect rawCode =
     (if rawCode = [] then None
      else if to_lower rawCode = ''new'' then Some ''/''
      else if rawCode \<noteq> page_lobby_code rawCode then Some (page_lobby_url (page_lobby_code rawCode))
      else None)"

text \<open>Entering a lobby replaces the URL unless it is shown already.\<close>

definition entered_lobby_path :: "string \<Rightarrow> string \<Rightarrow> string option" where
  "entered_lobby_path asPath inviteCode =
     (if hd (split_on (CHR ''?'') asPath) \<noteq> page_lobby_url inviteCode then Some (page_lobby_url inviteCode) else None)"

section \<open>The overlay of a match that is over\<close>

record history_overlay =
  ho_mode :: game_mode
  ho_outcome :: "match_outcome option"
  ho_selfName :: string
  ho_opponentName :: "string option"
  ho_opponentUserId :: "string option"
  ho_selfElo :: "int option"
  ho_opponentElo :: "int option"
  ho_selfHP :: int
  ho_oppHP :: "int option"
  ho_selfAvatarUrl :: string
  ho_oppAvatarUrl :: "string option"
  ho_selfFallback :: string
  ho_oppFallback :: "string option"
  ho_selfIsAdmin :: bool
  ho_opponentIsAdmin :: "bool option"
  ho_totalScore :: int
  ho_roundResults :: "round_result list"
  ho_resultPlayerNames :: "string js_record"
  ho_resultPlayerAvatars :: "string option js_record"
  ho_resultPlayerFallbacks :: "string js_record"
  ho_resultPlayerBorderColors :: "string option js_record"

definition first_letter :: "string \<Rightarrow> string" where
  "first_letter s = to_upper (take 1 s)"

definition history_self :: "snapshot \<Rightarrow> string \<Rightarrow> snapshot_player option" where
  "history_self sn userId =
     nullish (map_of (sn_players sn) userId)
       (map_of (sn_players sn) (case sn_players sn of [] \<Rightarrow> [] | (i, _) # _ \<Rightarrow> i))"

definition history_opponent_id :: "snapshot \<Rightarrow> string \<Rightarrow> string" where
  "history_opponent_id sn userId =
     find_str (\<lambda>i. map_option pl_userId (history_self sn userId) \<noteq> Some i) (map fst (sn_players sn))"

definition history_opponent :: "snapshot \<Rightarrow> string \<Rightarrow> snapshot_player option" where
  "history_opponent sn userId =
     (let i = history_opponent_id sn userId in if i = [] then None else map_of (sn_players sn) i)"

definition history_rounds :: "snapshot \<Rightarrow> round_result list" where
  "history_rounds sn =
     (case sn_roundResults sn of
        Some (r # rs) \<Rightarrow> r # rs
      | _ \<Rightarrow> (case sn_lastRoundResult sn of None \<Rightarrow> [] | Some r \<Rightarrow> [r]))"

definition history_table :: "(snapshot_player \<Rightarrow> 'a) \<Rightarrow> snapshot \<Rightarrow> 'a js_record" where
  "history_table f sn = fold (\<lambda>(i, pl) r. js_set r i (f pl)) (sn_players sn) []"

definition history_outcome :: "game_mode \<Rightarrow> int \<Rightarrow> int \<Rightarrow> match_outcome option" where
  "history_outcome md selfHP oppHP =
     (if md = Singleplayer then None
      else if selfHP = oppHP then Some OutcomeDraw
      else if oppHP < selfHP then Some OutcomeWin else Some OutcomeLose)"

text \<open>What is left out for one player or for many.\<close>

definition duel_only :: "game_mode \<Rightarrow> 'a \<Rightarrow> 'a option" where
  "duel_only md x = (if md = Singleplayer \<or> md = FreeForAll then None else Some x)"

definition buildHistoryOverlay :: "snapshot \<Rightarrow> string \<Rightarrow> string \<Rightarrow> string \<Rightarrow> history_overlay" where
  "buildHistoryOverlay sn userId displayName userAvatar =
     (let self = history_self sn userId;
          opp = history_opponent sn userId;
          md = (case sn_mode sn of None \<Rightarrow> Duel | Some m \<Rightarrow> m);
          selfName = or_str (case self of None \<Rightarrow> [] | Some pl \<Rightarrow> pl_displayName pl) (or_str displayName ''You'');
          opponentName = or_str (case opp of None \<Rightarrow> [] | Some pl \<Rightarrow> pl_displayName pl) ''Opponent'';
          selfHP = or_zero (map_option pl_hp self);
          oppHP = or_zero (map_option pl_hp opp)
      in \<lparr>ho_mode = md,
          ho_outcome = history_outcome md selfHP oppHP,
          ho_selfName = selfName, ho_opponentName = duel_only md opponentName,
          ho_opponentUserId = duel_only md (history_opponent_id sn userId),
          ho_selfElo = Option.bind (duel_only md ()) (\<lambda>_. map_option pl_mmr self),
          ho_opponentElo = Option.bind (duel_only md ()) (\<lambda>_. map_option pl_mmr opp),
          ho_selfHP = selfHP, ho_oppHP = duel_only md oppHP,
          ho_selfAvatarUrl = or_str (player_avatar self) userAvatar,
          ho_oppAvatarUrl = Option.bind (duel_only md ()) (\<lambda>_. Option.bind opp pl_avatarUrl),
          ho_selfFallback = first_letter (or_str selfName ''Y''),
          ho_oppFallback = duel_only md (first_letter (or_str opponentName ''O'')),
          ho_selfIsAdmin = flag (Option.bind self pl_isAdmin),
          ho_opponentIsAdmin = duel_only md (flag (Option.bind opp pl_isAdmin)),
          ho_totalScore = or_zero (Option.bind self pl_totalScore),
          ho_roundResults = history_rounds sn,
          ho_resultPlayerNames = history_table player_shown_name sn,
          ho_resultPlayerAvatars = history_table pl_avatarUrl sn,
          ho_resultPlayerFallbacks = history_table (\<lambda>pl. first_letter (or_str (player_shown_name pl) ''P'')) sn,
          ho_resultPlayerBorderColors = history_table (\<lambda>pl.
            if md = TeamDuel then Some (if pl_teamId pl = Some ''b'' then ''#2563eb'' else ''#dc2626'') else None) sn\<rparr>)"

section \<open>Lemmas\<close>

definition ascii :: "char \<Rightarrow> bool" where
  "ascii c \<longleftrightarrow> (of_char c :: nat) < 128"

lemma hex_digit_hex: "n < 16 \<Longrightarrow> is_hex (hex_digit n) \<and> hex_of (hex_digit n) = n"
  by (auto simp: is_hex_def hex_of_def hex_digit_def Let_def)

lemma decode_one: "ascii c \<Longrightarrow> decodeURIComponent (encode_char c @ s) = map_option (Cons c) (decodeURIComponent s)"
proof (cases "unreserved c")
  case True
  then have "c \<noteq> CHR ''%''" using percent_reserved by auto
  with True show ?thesis by (simp add: encode_char_def)
next
  case False
  assume "ascii c"
  let ?n = "of_char c :: nat"
  have n: "?n div 16 < 16" "?n < 128" using of_char_div_16 \<open>ascii c\<close> by (auto simp: ascii_def)
  have "escape_at (CHR ''%'' # hex_digit (?n div 16) # hex_digit (?n mod 16) # s) = Some (?n, s)"
    using hex_digit_hex [OF n(1)] hex_digit_hex [of "?n mod 16"] by simp
  moreover have "(@) [c] = Cons c" by auto
  ultimately show ?thesis using False n(2)
    by (simp add: encode_char_def Let_def sequence_length_def utf8_ok_def del: escape_at.simps)
qed

lemma decode_component: "list_all ascii s \<Longrightarrow> decodeURIComponent (encodeURIComponent s) = Some s"
  by (induction s) (auto simp: decode_one)

lemma path_match_url: "path_match (match_url i) = encodeURIComponent i"
proof -
  have "list_all (\<lambda>c. c \<notin> {CHR ''?'', CHR ''#'', CHR ''/''}) (encodeURIComponent i)"
    using encodeURIComponent_url_safe [of i] separators_unsafe by (auto simp: list_all_iff)
  then have "takeWhile (\<lambda>c. c \<notin> {CHR ''?'', CHR ''#'', CHR ''/''}) (encodeURIComponent i) = encodeURIComponent i"
    by (simp add: takeWhile_eq_all_conv list_all_iff)
  moreover have "starts_with (match_url i) ''/match/''" using starts_with_append [of "''/match/''"] by (simp add: match_url_def)
  ultimately show ?thesis by (simp add: path_match_def match_url_def)
qed

lemma encode_char_nonempty: "encode_char c \<noteq> []"
  by (simp add: encode_char_def Let_def)

lemma encodeURIComponent_nonempty: "i \<noteq> [] \<Longrightarrow> encodeURIComponent i \<noteq> []"
  by (cases i) (simp_all add: encode_char_nonempty)

section \<open>Properties\<close>

text \<open>
  The page opens the match it is sent to: the path a page pushes for a match id reads back, on the match
  page, as that id, whether the router has its parameter or only the path; ids with separators included.
\<close>

theorem match_url_reads_back:
  assumes "list_all ascii i" and "js_trim i = i" and "i \<noteq> []" and "\<not> is_placeholder i"
  shows "normalizeRouteMatchId ParamOther (match_url i) = i \<and> normalizeRouteMatchId (ParamString i) p = i \<and>
         fst (follow_match q i) = (if i = q then None else Some (match_url i))"
  using assms encodeURIComponent_nonempty [OF assms(3)]
  by (auto simp: normalizeRouteMatchId_def path_match_url decode_component route_value_def Let_def follow_match_def)

theorem match_url_reads_back_witness:
  "normalizeRouteMatchId ParamOther (match_url ''m/1?x'') = ''m/1?x''"
  by (rule match_url_reads_back [THEN conjunct1])
     (simp_all add: ascii_def js_trim_def is_space_def is_placeholder_def)

text \<open>
  C26. The overlay of a duel that is over tells the same story as the end page of the live match: once the
  shown hit points are those of the snapshot, outcome, hit points and opponent agree.
\<close>

theorem history_agrees_with_end_page:
  fixes p sn uid dn ua
  assumes "home_snapshot p = Some sn" and "sn_mode sn = Some Duel" and "\<not> showResultStage p"
    and "uid = home_selfId p" and "map_of (sn_players sn) uid = Some me" and "pl_userId me = uid"
    and "find_str (\<lambda>i. i \<noteq> uid) (map fst (sn_players sn)) \<noteq> []"
    and "\<forall>i pl. map_of (sn_players sn) i = Some pl \<longrightarrow> map_of (g_displayHP (hp_game p)) i \<in> {None, Some (pl_hp pl)}"
  defines "h \<equiv> buildHistoryOverlay sn uid dn ua"
  shows "ho_outcome h = Some (matchOutcome p) \<and> ho_selfHP h = home_selfHP p \<and> ho_oppHP h = Some (home_oppHP p) \<and>
         ho_opponentUserId h = Some (home_oppId p)"
proof -
  let ?o = "find_str (\<lambda>i. i \<noteq> uid) (map fst (sn_players sn))"
  obtain opp where opp: "map_of (sn_players sn) ?o = Some opp" using find_str_map_of [OF assms(7)] by blast
  have md: "home_mode p = Duel" using assms(1,2) by (simp add: home_mode_def)
  have self: "history_self sn uid = Some me" using assms(5) by (simp add: history_self_def)
  have oid: "history_opponent_id sn uid = ?o" using self assms(6) by (simp add: history_opponent_id_def) (metis (full_types))
  have ho: "home_oppId p = ?o" using assms(1,4) md by (simp add: home_oppId_def home_players_def)
  have hpo: "map_of (g_displayHP (hp_game p)) ?o \<in> {None, Some (pl_hp opp)}"
    and hpm: "map_of (g_displayHP (hp_game p)) uid \<in> {None, Some (pl_hp me)}" using assms(5,8) opp by blast+
  have s: "home_selfHP p = pl_hp me"
    using assms(1,3,4,5) hpm md by (auto simp: home_selfHP_def live_hp_def selfTeamHP_def home_players_def)
  have q: "home_oppHP p = pl_hp opp"
    using assms(1,3,4) hpo md opp ho by (auto simp: home_oppHP_def live_hp_def oppTeamHP_def home_players_def)
  show ?thesis
    using self opp oid s q ho assms(2,7)
    by (simp add: h_def buildHistoryOverlay_def Let_def history_opponent_def history_outcome_def matchOutcome_def
        duel_only_def)
qed

definition over_params :: home_params where
  "over_params = duel_params\<lparr>hp_game := (hp_game duel_params)\<lparr>g_showMatchEndPage := True\<rparr>\<rparr>"

lemma over_params_facts:
  "home_snapshot over_params = Some duel_over" "home_selfId over_params = ''u1''" "\<not> showResultStage over_params"
  "g_displayHP (hp_game over_params) = []"
proof -
  show s: "home_snapshot over_params = Some duel_over"
    by (simp add: over_params_def duel_params_def view_params_def home_snapshot_def with_online_def duel_over_facts)
       (simp add: duel_over_def sample_snapshot_def)
  show "home_selfId over_params = ''u1''"
    by (simp add: over_params_def duel_params_def view_params_def home_selfId_def duel_over_facts(2) [unfolded rt_user_def])
  show "\<not> showResultStage over_params"
    using s by (simp add: showResultStage_def home_uiPhase_def deriveUIPhase_def Let_def)
       (simp add: duel_over_def over_params_def)
  show "g_displayHP (hp_game over_params) = []"
    by (simp add: over_params_def duel_params_def view_params_def show_snapshot_def user_hook_def user_page_def
        running_page_def new_game_ctl_def initial_game_state_def)
qed

theorem history_agrees_with_end_page_witness:
  "ho_outcome (buildHistoryOverlay duel_over ''u1'' [] []) = Some (matchOutcome over_params)"
  by (rule history_agrees_with_end_page [OF over_params_facts(1) _ over_params_facts(3),
        where me = "sample_player ''u1'' 4000", THEN conjunct1])
     (simp_all add: over_params_facts, simp_all add: duel_over_def sample_snapshot_def sample_player_def find_str_def)

text \<open>
  The overlay of a team match that is over compares the player with whoever is listed first beside them,
  a team mate included: it calls a match a draw that the end page called won.
\<close>

theorem history_compares_team_mates:
  fixes p sn uid dn ua
  assumes "home_snapshot p = Some sn" and "sn_mode sn = Some TeamDuel" and "\<not> showResultStage p"
    and "selfTeamHP p = Some a" and "oppTeamHP p = Some b" and "b < a"
    and "history_self sn uid = Some me" and "history_opponent sn uid = Some mate"
    and "pl_teamId mate = pl_teamId me" and "pl_hp mate = pl_hp me"
  shows "matchOutcome p = OutcomeWin \<and> ho_outcome (buildHistoryOverlay sn uid dn ua) = Some OutcomeDraw"
  using assms
  by (simp add: matchOutcome_def home_selfHP_def home_oppHP_def live_hp_def buildHistoryOverlay_def Let_def
      history_outcome_def)

definition team_over :: snapshot where
  "team_over = duel_over\<lparr>sn_mode := Some TeamDuel, sn_players :=
      [(''u1'', (sample_player ''u1'' 4000)\<lparr>pl_teamId := Some ''a''\<rparr>),
       (''u2'', (sample_player ''u2'' 4000)\<lparr>pl_teamId := Some ''a''\<rparr>),
       (''u3'', (sample_player ''u3'' 0)\<lparr>pl_teamId := Some ''b''\<rparr>)],
     sn_teams := Some [(''a'', \<lparr>st_teamId = ''a'', st_name = None, st_hp = Some 4000, st_players = [''u1'', ''u2'']\<rparr>),
                       (''b'', \<lparr>st_teamId = ''b'', st_name = None, st_hp = Some 0, st_players = [''u3'']\<rparr>)]\<rparr>"

definition team_params :: home_params where
  "team_params = over_params\<lparr>hp_match := (hp_match over_params)\<lparr>m_snapshot := Some team_over\<rparr>\<rparr>"

lemma team_params_facts:
  "home_snapshot team_params = Some team_over" "home_selfId team_params = ''u1''" "home_mode team_params = TeamDuel"
proof -
  show s: "home_snapshot team_params = Some team_over"
    using over_params_facts(1)
    by (simp add: team_params_def home_snapshot_def split: option.splits if_splits) (simp add: team_over_def)
  show "home_selfId team_params = ''u1''" using over_params_facts(2) by (simp add: team_params_def home_selfId_def)
  show "home_mode team_params = TeamDuel" using s by (simp add: home_mode_def team_over_def)
qed

lemma team_params_hp:
  "selfTeamHP team_params = Some 4000" "oppTeamHP team_params = Some 0"
proof -
  have t: "home_selfTeamId team_params = ''a''"
    by (simp add: home_selfTeamId_def player_team_def home_players_def team_params_facts) (simp add: team_over_def or_str_def)
  show "selfTeamHP team_params = Some 4000"
    by (simp add: selfTeamHP_def team_params_facts t snapshot_teams_def) (simp add: team_over_def)
  show "oppTeamHP team_params = Some 0"
    by (simp add: oppTeamHP_def oppTeamId_def team_params_facts t snapshot_teams_def) (simp add: team_over_def find_str_def)
qed

theorem history_compares_team_mates_witness:
  "matchOutcome team_params = OutcomeWin \<and>
   ho_outcome (buildHistoryOverlay team_over ''u1'' [] []) = Some OutcomeDraw"
proof (rule history_compares_team_mates [OF team_params_facts(1) _ _ team_params_hp])
  show "\<not> showResultStage team_params"
    using team_params_facts(1)
    by (simp add: showResultStage_def home_uiPhase_def deriveUIPhase_def Let_def)
       (simp add: team_over_def duel_over_def team_params_def over_params_def)
  show "sn_mode team_over = Some TeamDuel" by (simp add: team_over_def)
  show "history_self team_over ''u1'' = Some ((sample_player ''u1'' 4000)\<lparr>pl_teamId := Some ''a''\<rparr>)"
    by (simp add: history_self_def team_over_def)
  then show "history_opponent team_over ''u1'' = Some ((sample_player ''u2'' 4000)\<lparr>pl_teamId := Some ''a''\<rparr>)"
    by (simp add: history_opponent_def history_opponent_id_def Let_def) (simp add: team_over_def sample_player_def find_str_def)
qed (simp_all add: sample_player_def)

end
