(* ===== verification/AdminClient.thy ===== *)
theory AdminClient
  imports Http
begin

text \<open>
  \<open>features/admin/lib/admin-client.ts\<close>: the calls of the admin API. A call is its request together with
  the reading of the answer: the body as it is, or nothing, and an error where the answer is refused. A
  maintenance status and the settings are sent as the JSON value they are given as. The form of an upload
  is the object of its entries; its content type is left to the browser.
\<close>

type_synonym 'a api_call = "http_request \<times> (http_response \<Rightarrow> 'a outcome)"

definition admin_request ::
  "runtime_config \<Rightarrow> string \<Rightarrow> string \<Rightarrow> string \<Rightarrow> jv option \<Rightarrow> http_request" where
  "admin_request cfg token verb path body =
     \<lparr>rq_method = verb, rq_url = apiURL cfg @ ''/v1/admin/'' @ path,
      rq_headers = (case body of None \<Rightarrow> bearer token | Some _ \<Rightarrow> json_headers token),
      rq_body = body, rq_credentials = False\<rparr>"

definition admin_get :: "runtime_config \<Rightarrow> string \<Rightarrow> string \<Rightarrow> string \<Rightarrow> jv api_call" where
  "admin_get cfg token path fallback = (admin_request cfg token ''GET'' path None, json_or_throw fallback)"

definition admin_do ::
  "runtime_config \<Rightarrow> string \<Rightarrow> string \<Rightarrow> string \<Rightarrow> jv option \<Rightarrow> string \<Rightarrow> unit api_call" where
  "admin_do cfg token verb path body fallback = (admin_request cfg token verb path body, unit_or_throw fallback)"

definition admin_send ::
  "runtime_config \<Rightarrow> string \<Rightarrow> string \<Rightarrow> string \<Rightarrow> jv \<Rightarrow> string \<Rightarrow> jv api_call" where
  "admin_send cfg token verb path body fallback =
     (admin_request cfg token verb path (Some body), json_or_throw fallback)"

text \<open>\<open>JSON.stringify\<close> drops what is undefined.\<close>

definition optional :: "string \<Rightarrow> string option \<Rightarrow> (string \<times> jv) list" where
  "optional k v = (case v of None \<Rightarrow> [] | Some s \<Rightarrow> [(k, Str s)])"

section \<open>Players\<close>

definition requestAdminBootstrap :: "runtime_config \<Rightarrow> string \<Rightarrow> jv api_call" where
  "requestAdminBootstrap cfg token =
     ((admin_request cfg token ''POST'' ''bootstrap'' None)\<lparr>rq_credentials := True\<rparr>,
      json_or_throw ''Failed to bootstrap admin access'')"

definition requestAdminPlayers :: "runtime_config \<Rightarrow> string \<Rightarrow> string \<Rightarrow> jv api_call" where
  "requestAdminPlayers cfg token query =
     admin_get cfg token (''players?query='' @ encodeURIComponent query) ''Failed to search players''"

definition player_path :: "string \<Rightarrow> string \<Rightarrow> string" where
  "player_path userId tail = ''players/'' @ encodeURIComponent userId @ tail"

definition requestAdminBanPlayer :: "runtime_config \<Rightarrow> string \<Rightarrow> string \<Rightarrow> string \<Rightarrow> unit api_call" where
  "requestAdminBanPlayer cfg token userId reason =
     admin_do cfg token ''POST'' (player_path userId ''/ban'') (Some (Obj [(''reason'', Str reason)]))
       ''Failed to ban player''"

definition requestAdminUnbanPlayer :: "runtime_config \<Rightarrow> string \<Rightarrow> string \<Rightarrow> unit api_call" where
  "requestAdminUnbanPlayer cfg token userId =
     admin_do cfg token ''POST'' (player_path userId ''/unban'') None ''Failed to unban player''"

definition requestAdminClearReporterMute :: "runtime_config \<Rightarrow> string \<Rightarrow> string \<Rightarrow> unit api_call" where
  "requestAdminClearReporterMute cfg token userId =
     admin_do cfg token ''DELETE'' (player_path userId ''/report-mute'') None ''Failed to unmute reporter''"

definition requestAdminPromoteModerator :: "runtime_config \<Rightarrow> string \<Rightarrow> string \<Rightarrow> unit api_call" where
  "requestAdminPromoteModerator cfg token userId =
     admin_do cfg token ''POST'' (player_path userId ''/moderator'') None ''Failed to promote moderator''"

definition requestAdminDemoteModerator :: "runtime_config \<Rightarrow> string \<Rightarrow> string \<Rightarrow> unit api_call" where
  "requestAdminDemoteModerator cfg token userId =
     admin_do cfg token ''DELETE'' (player_path userId ''/moderator'') None ''Failed to demote moderator''"

definition requestAdminPlayerMatches :: "runtime_config \<Rightarrow> string \<Rightarrow> string \<Rightarrow> jv api_call" where
  "requestAdminPlayerMatches cfg token userId =
     admin_get cfg token (player_path userId ''/matches'') ''Failed to load match history''"

section \<open>Moderation\<close>

definition requestAdminModerationCases :: "runtime_config \<Rightarrow> string \<Rightarrow> string \<Rightarrow> jv api_call" where
  "requestAdminModerationCases cfg token status =
     admin_get cfg token
       (''moderation/cases'' @ (if status = [] then [] else ''?status='' @ encodeURIComponent status))
       ''Failed to load moderation cases''"

definition case_path :: "int \<Rightarrow> string \<Rightarrow> string" where
  "case_path caseId tail = ''moderation/cases/'' @ encodeURIComponent (int_str caseId) @ tail"

definition requestAdminModerationCase :: "runtime_config \<Rightarrow> string \<Rightarrow> int \<Rightarrow> jv api_call" where
  "requestAdminModerationCase cfg token caseId =
     admin_get cfg token (case_path caseId []) ''Failed to load moderation case''"

record case_action =
  ca_actionType :: string
  ca_reason :: "string option"
  ca_status :: "string option"
  ca_assignedTo :: "string option"
  ca_muteUserId :: "string option"
  ca_muteUntil :: "string option"

definition case_action_json :: "case_action \<Rightarrow> jv" where
  "case_action_json a =
     Obj ((''actionType'', Str (ca_actionType a)) #
          optional ''reason'' (ca_reason a) @ optional ''status'' (ca_status a) @
          optional ''assignedTo'' (ca_assignedTo a) @ optional ''muteUserId'' (ca_muteUserId a) @
          optional ''muteUntil'' (ca_muteUntil a))"

definition requestAdminModerationCaseAction ::
  "runtime_config \<Rightarrow> string \<Rightarrow> int \<Rightarrow> case_action \<Rightarrow> jv api_call" where
  "requestAdminModerationCaseAction cfg token caseId action =
     admin_send cfg token ''POST'' (case_path caseId ''/actions'') (case_action_json action)
       ''Failed to update moderation case''"

record test_reports =
  tr_reportedUserId :: string
  tr_count :: real
  tr_category :: string
  tr_reason :: "string option"

definition requestAdminDebugTestReports ::
  "runtime_config \<Rightarrow> string \<Rightarrow> test_reports \<Rightarrow> jv api_call" where
  "requestAdminDebugTestReports cfg token payload =
     admin_send cfg token ''POST'' ''debug/test-reports''
       (Obj ([(''reportedUserId'', Str (tr_reportedUserId payload)),
              (''count'', Num (Fin (tr_count payload))),
              (''category'', Str (tr_category payload))] @ optional ''reason'' (tr_reason payload)))
       ''Failed to send test reports''"

definition requestAdminModerationSettings :: "runtime_config \<Rightarrow> string \<Rightarrow> jv api_call" where
  "requestAdminModerationSettings cfg token =
     admin_get cfg token ''moderation/settings'' ''Failed to load moderation settings''"

definition requestAdminPutModerationSettings :: "runtime_config \<Rightarrow> string \<Rightarrow> string \<Rightarrow> jv api_call" where
  "requestAdminPutModerationSettings cfg token discordWebhookUrl =
     admin_send cfg token ''PUT'' ''moderation/settings'' (Obj [(''discordWebhookUrl'', Str discordWebhookUrl)])
       ''Failed to save moderation settings''"

section \<open>Sign-up bans\<close>

definition requestAdminIPSignupBans :: "runtime_config \<Rightarrow> string \<Rightarrow> jv api_call" where
  "requestAdminIPSignupBans cfg token = admin_get cfg token ''ip-signup-bans'' ''Failed to load IP bans''"

definition requestAdminAddIPSignupBan :: "runtime_config \<Rightarrow> string \<Rightarrow> string \<Rightarrow> string \<Rightarrow> unit api_call" where
  "requestAdminAddIPSignupBan cfg token ipAddress reason =
     admin_do cfg token ''POST'' ''ip-signup-bans''
       (Some (Obj [(''ipAddress'', Str ipAddress), (''reason'', Str reason)])) ''Failed to add IP ban''"

definition requestAdminRemoveIPSignupBan :: "runtime_config \<Rightarrow> string \<Rightarrow> string \<Rightarrow> unit api_call" where
  "requestAdminRemoveIPSignupBan cfg token ipAddress =
     admin_do cfg token ''DELETE'' (''ip-signup-bans/'' @ encodeURIComponent ipAddress) None
       ''Failed to remove IP ban''"

section \<open>Maintenance, seasons, content\<close>

definition requestAdminMaintenance :: "runtime_config \<Rightarrow> string \<Rightarrow> jv api_call" where
  "requestAdminMaintenance cfg token = admin_get cfg token ''maintenance'' ''Failed to load maintenance''"

definition requestAdminPutMaintenance :: "runtime_config \<Rightarrow> string \<Rightarrow> jv \<Rightarrow> jv api_call" where
  "requestAdminPutMaintenance cfg token status =
     admin_send cfg token ''PUT'' ''maintenance'' status ''Failed to save maintenance''"

definition requestAdminClearMaintenance :: "runtime_config \<Rightarrow> string \<Rightarrow> unit api_call" where
  "requestAdminClearMaintenance cfg token =
     admin_do cfg token ''DELETE'' ''maintenance'' None ''Failed to clear maintenance''"

definition requestAdminRankedSeason :: "runtime_config \<Rightarrow> string \<Rightarrow> jv api_call" where
  "requestAdminRankedSeason cfg token = admin_get cfg token ''seasons'' ''Failed to load season settings''"

definition requestAdminRolloverRankedSeason :: "runtime_config \<Rightarrow> string \<Rightarrow> string \<Rightarrow> jv api_call" where
  "requestAdminRolloverRankedSeason cfg token nextSeasonId =
     admin_send cfg token ''POST'' ''seasons/rollover'' (Obj [(''nextSeasonId'', Str nextSeasonId)])
       ''Failed to roll over season''"

definition requestAdminGetChangelog :: "runtime_config \<Rightarrow> string \<Rightarrow> jv api_call" where
  "requestAdminGetChangelog cfg token = admin_get cfg token ''changelog'' ''Failed to load changelog''"

definition requestAdminPutChangelog ::
  "runtime_config \<Rightarrow> string \<Rightarrow> string \<Rightarrow> string \<Rightarrow> string \<Rightarrow> unit api_call" where
  "requestAdminPutChangelog cfg token eyebrow title markdown =
     admin_do cfg token ''PUT'' ''changelog''
       (Some (Obj [(''eyebrow'', Str eyebrow), (''title'', Str title), (''markdown'', Str markdown)]))
       ''Failed to save changelog''"

definition requestAdminUploadCurrentMap ::
  "runtime_config \<Rightarrow> string \<Rightarrow> string \<Rightarrow> string \<Rightarrow> jv api_call" where
  "requestAdminUploadCurrentMap cfg token file mapKey =
     ((admin_request cfg token ''POST'' (''maps/'' @ encodeURIComponent mapKey @ ''/upload'') None)
        \<lparr>rq_body := Some (Obj [(''file'', Str file)])\<rparr>,
      json_or_throw ''Failed to upload map'')"

section \<open>Lemmas\<close>

lemma admin_bearer: "(''Authorization'', ''Bearer '' @ token) \<in> set (rq_headers (admin_request cfg token verb path body))"
  by (simp add: admin_request_def json_headers_def bearer_def split: option.split)

lemma player_path_inject: "player_path u t = player_path v t \<longleftrightarrow> u = v"
  by (simp add: player_path_def encodeURIComponent_inject)

text \<open>A text that holds a slash never makes another path of a request: it stays in its segment.\<close>

lemma player_path_segment: "list_all url_safe (encodeURIComponent userId)"
  by (rule encodeURIComponent_url_safe)

end
