(* ===== verification/AdminPage.thy ===== *)
theory AdminPage
  imports AdminClient "HOL-Library.Sublist"
begin

text \<open>
  \<open>pages/admin.tsx\<close>: the administration page as a machine over its events: what is typed and pressed, the
  queries React Query runs, the answers of the network and the effects. A button is only pressed where the
  page shows it enabled, and that is part of its handler. The drafts are the page's state; what the queries
  answered is kept under their keys. A mutation in flight is a run: the calls it has still to make, the first
  of them on the wire, and none left while its \<open>onSuccess\<close> waits for the refresh. Answers are read at the
  types the page declares for them.
\<close>

section \<open>Dates\<close>

text \<open>\<open>toISOString\<close> of a time in milliseconds: the proleptic Gregorian date, counted in eras of 400 years.\<close>

definition civil_date :: "int \<Rightarrow> int \<times> int \<times> int" where
  "civil_date days =
     (let z = days + 719468;
          era = z div 146097;
          doe = z mod 146097;
          yoe = (doe - doe div 1460 + doe div 36524 - doe div 146096) div 365;
          doy = doe - (365 * yoe + yoe div 4 - yoe div 100);
          mp = (5 * doy + 2) div 153;
          m = if mp < 10 then mp + 3 else mp - 9
      in (yoe + era * 400 + (if m \<le> 2 then 1 else 0), m, doy - (153 * mp + 2) div 5 + 1))"

definition padded :: "nat \<Rightarrow> int \<Rightarrow> string" where
  "padded k n = (let s = int_str n in replicate (k - length s) CHR ''0'' @ s)"

definition iso_year :: "int \<Rightarrow> string" where
  "iso_year y =
     (if 0 \<le> y \<and> y \<le> 9999 then padded 4 y else if y < 0 then ''-'' @ padded 6 (- y) else ''+'' @ padded 6 y)"

definition toISOString :: "int \<Rightarrow> string" where
  "toISOString t =
     (case civil_date (t div 86400000) of (y, m, d) \<Rightarrow>
        iso_year y @ ''-'' @ padded 2 m @ ''-'' @ padded 2 d @ ''T'' @
        padded 2 (t div 3600000 mod 24) @ '':'' @ padded 2 (t div 60000 mod 60) @ '':'' @
        padded 2 (t div 1000 mod 60) @ ''.'' @ padded 3 (t mod 1000) @ ''Z'')"

section \<open>What the page is given\<close>

datatype tab_param = NoTab | TabText string | TabList "string list"

text \<open>
  \<open>ae_date\<close> is \<open>new Date(text).getTime()\<close>, None where that is not a number, and \<open>ae_offset\<close> is
  \<open>getTimezoneOffset\<close> at a time, in minutes.
\<close>

record admin_env =
  ae_cfg :: runtime_config
  ae_token :: string
  ae_isAdmin :: bool
  ae_isModerator :: bool
  ae_tab :: tab_param
  ae_now :: int
  ae_date :: "string \<Rightarrow> int option"
  ae_offset :: "int \<Rightarrow> int"

definition toDateTimeLocal :: "admin_env \<Rightarrow> string \<Rightarrow> string" where
  "toDateTimeLocal env value =
     (if value = [] then []
      else case ae_date env value of
        None \<Rightarrow> []
      | Some t \<Rightarrow> take 16 (toISOString (t - ae_offset env t * 60000)))"

definition fromDateTimeLocal :: "admin_env \<Rightarrow> string \<Rightarrow> string" where
  "fromDateTimeLocal env value =
     (if value = [] then [] else case ae_date env value of None \<Rightarrow> [] | Some t \<Rightarrow> toISOString t)"

datatype admin_tab = TabPlayers | TabReports | TabContent | TabAccess | TabDebug

definition canManageAdmin :: "admin_env \<Rightarrow> bool" where
  "canManageAdmin env = ae_isAdmin env"

definition canViewReports :: "admin_env \<Rightarrow> bool" where
  "canViewReports env \<longleftrightarrow> ae_isAdmin env \<or> ae_isModerator env"

definition tab_text :: "tab_param \<Rightarrow> string" where
  "tab_text v = (case v of NoTab \<Rightarrow> [] | TabText s \<Rightarrow> s | TabList xs \<Rightarrow> (case xs of [] \<Rightarrow> [] | x # _ \<Rightarrow> x))"

definition tab_named :: "string \<Rightarrow> admin_tab option" where
  "tab_named s =
     (if s = ''players'' then Some TabPlayers else if s = ''reports'' then Some TabReports
      else if s = ''content'' then Some TabContent else if s = ''access'' then Some TabAccess
      else if s = ''debug'' then Some TabDebug else None)"

definition activeTab :: "admin_env \<Rightarrow> admin_tab" where
  "activeTab env =
     (case tab_named (tab_text (ae_tab env)) of
        Some t \<Rightarrow> if canManageAdmin env \<or> t = TabReports \<or> t = TabPlayers then t else TabReports
      | None \<Rightarrow> if canViewReports env then TabReports else TabPlayers)"

text \<open>The effect that sends the page to a tab of its own.\<close>

definition admin_redirect :: "bool \<Rightarrow> admin_env \<Rightarrow> string option" where
  "admin_redirect isReady env =
     (if \<not> isReady \<or> ae_tab env \<notin> {NoTab, TabText []} then None
      else if canManageAdmin env then Some ''/admin/players''
      else if canViewReports env then Some ''/admin/reports'' else None)"

definition admin_tabs :: "admin_env \<Rightarrow> admin_tab list" where
  "admin_tabs env =
     filter (\<lambda>t. canManageAdmin env \<or> t = TabReports \<or> t = TabPlayers)
       [TabPlayers, TabReports, TabContent, TabAccess, TabDebug]"

section \<open>Mutations and queries\<close>

datatype admin_mutation =
    Ban string string
  | BanWithIP string string string
  | Unban string
  | ClearMute string
  | Promote string
  | Demote string
  | CaseAction int case_action
  | SaveChangelog string string string
  | TestReports test_reports
  | UploadMap string string
  | AddIPBan string string
  | RemoveIPBan string
  | SaveMaintenance jv
  | ClearMaintenance
  | SaveSettings string
  | RolloverSeason string

datatype mut_kind = KBan | KBanWithIP | KUnban | KClearMute | KPromote | KDemote | KCaseAction | KChangelog
  | KTestReports | KUpload | KAddIP | KRemoveIP | KMaintenance | KClearMaintenance | KSettings | KRollover

fun mutation_kind :: "admin_mutation \<Rightarrow> mut_kind" where
  "mutation_kind (Ban _ _) = KBan"
| "mutation_kind (BanWithIP _ _ _) = KBanWithIP"
| "mutation_kind (Unban _) = KUnban"
| "mutation_kind (ClearMute _) = KClearMute"
| "mutation_kind (Promote _) = KPromote"
| "mutation_kind (Demote _) = KDemote"
| "mutation_kind (CaseAction _ _) = KCaseAction"
| "mutation_kind (SaveChangelog _ _ _) = KChangelog"
| "mutation_kind (TestReports _) = KTestReports"
| "mutation_kind (UploadMap _ _) = KUpload"
| "mutation_kind (AddIPBan _ _) = KAddIP"
| "mutation_kind (RemoveIPBan _) = KRemoveIP"
| "mutation_kind (SaveMaintenance _) = KMaintenance"
| "mutation_kind ClearMaintenance = KClearMaintenance"
| "mutation_kind (SaveSettings _) = KSettings"
| "mutation_kind (RolloverSeason _) = KRollover"

definition unit_call :: "unit api_call \<Rightarrow> jv api_call" where
  "unit_call c = (fst c, map_sum id (\<lambda>_. Undefined) \<circ> snd c)"

text \<open>The calls of \<open>mutationFn\<close>, each made once the one before it has succeeded.\<close>

fun mutation_calls :: "admin_env \<Rightarrow> admin_mutation \<Rightarrow> jv api_call list" where
  "mutation_calls env (Ban userId reason) =
     [unit_call (requestAdminBanPlayer (ae_cfg env) (ae_token env) userId reason)]"
| "mutation_calls env (BanWithIP userId reason ipAddress) =
     [unit_call (requestAdminBanPlayer (ae_cfg env) (ae_token env) userId reason),
      unit_call (requestAdminAddIPSignupBan (ae_cfg env) (ae_token env) ipAddress
        (or_str reason (''Banned with player '' @ userId)))]"
| "mutation_calls env (Unban userId) = [unit_call (requestAdminUnbanPlayer (ae_cfg env) (ae_token env) userId)]"
| "mutation_calls env (ClearMute userId) =
     [unit_call (requestAdminClearReporterMute (ae_cfg env) (ae_token env) userId)]"
| "mutation_calls env (Promote userId) =
     [unit_call (requestAdminPromoteModerator (ae_cfg env) (ae_token env) userId)]"
| "mutation_calls env (Demote userId) =
     [unit_call (requestAdminDemoteModerator (ae_cfg env) (ae_token env) userId)]"
| "mutation_calls env (CaseAction caseId action) =
     [requestAdminModerationCaseAction (ae_cfg env) (ae_token env) caseId action]"
| "mutation_calls env (SaveChangelog eyebrow title markdown) =
     [unit_call (requestAdminPutChangelog (ae_cfg env) (ae_token env) eyebrow title markdown)]"
| "mutation_calls env (TestReports payload) =
     [requestAdminDebugTestReports (ae_cfg env) (ae_token env) payload]"
| "mutation_calls env (UploadMap file mapKey) =
     [requestAdminUploadCurrentMap (ae_cfg env) (ae_token env) file mapKey]"
| "mutation_calls env (AddIPBan ipAddress reason) =
     [unit_call (requestAdminAddIPSignupBan (ae_cfg env) (ae_token env) ipAddress reason)]"
| "mutation_calls env (RemoveIPBan ipAddress) =
     [unit_call (requestAdminRemoveIPSignupBan (ae_cfg env) (ae_token env) ipAddress)]"
| "mutation_calls env (SaveMaintenance status) =
     [requestAdminPutMaintenance (ae_cfg env) (ae_token env) status]"
| "mutation_calls env ClearMaintenance = [unit_call (requestAdminClearMaintenance (ae_cfg env) (ae_token env))]"
| "mutation_calls env (SaveSettings webhookUrl) =
     [requestAdminPutModerationSettings (ae_cfg env) (ae_token env) (js_trim webhookUrl)]"
| "mutation_calls env (RolloverSeason nextSeasonId) =
     [requestAdminRolloverRankedSeason (ae_cfg env) (ae_token env) (js_trim nextSeasonId)]"

datatype admin_query =
    QPlayers string | QChangelog | QCases string | QCase "int option" | QMatches string
  | QIPBans | QMaintenance | QSettings | QSeason

fun query_enabled :: "admin_env \<Rightarrow> admin_query \<Rightarrow> bool" where
  "query_enabled env (QPlayers _) \<longleftrightarrow> canViewReports env \<and> ae_token env \<noteq> []"
| "query_enabled env (QCases _) \<longleftrightarrow> canViewReports env \<and> ae_token env \<noteq> []"
| "query_enabled env (QCase caseId) \<longleftrightarrow> canViewReports env \<and> ae_token env \<noteq> [] \<and> caseId \<noteq> None"
| "query_enabled env (QMatches userId) \<longleftrightarrow> canViewReports env \<and> ae_token env \<noteq> [] \<and> userId \<noteq> []"
| "query_enabled env _ \<longleftrightarrow> canManageAdmin env \<and> ae_token env \<noteq> []"

fun query_call :: "admin_env \<Rightarrow> admin_query \<Rightarrow> jv api_call" where
  "query_call env (QPlayers q) = requestAdminPlayers (ae_cfg env) (ae_token env) q"
| "query_call env QChangelog = requestAdminGetChangelog (ae_cfg env) (ae_token env)"
| "query_call env (QCases status) = requestAdminModerationCases (ae_cfg env) (ae_token env) status"
| "query_call env (QCase caseId) = requestAdminModerationCase (ae_cfg env) (ae_token env) (or_zero caseId)"
| "query_call env (QMatches userId) = requestAdminPlayerMatches (ae_cfg env) (ae_token env) userId"
| "query_call env QIPBans = requestAdminIPSignupBans (ae_cfg env) (ae_token env)"
| "query_call env QMaintenance = requestAdminMaintenance (ae_cfg env) (ae_token env)"
| "query_call env QSettings = requestAdminModerationSettings (ae_cfg env) (ae_token env)"
| "query_call env QSeason = requestAdminRankedSeason (ae_cfg env) (ae_token env)"

section \<open>The page\<close>

record admin_run =
  ar_id :: nat
  ar_mutation :: admin_mutation
  ar_calls :: "jv api_call list"

record admin_page =
  ap_query :: string
  ap_banReason :: "string js_record"
  ap_file :: "string option"
  ap_mapKey :: string
  ap_mapStatus :: string
  ap_eyebrow :: string
  ap_title :: string
  ap_changelog :: string
  ap_caseId :: "int option"
  ap_caseStatus :: string
  ap_historyUser :: string
  ap_historyName :: string
  ap_caseReason :: string
  ap_menuId :: string
  ap_ipAddress :: string
  ap_ipReason :: string
  ap_phase :: string
  ap_startsAt :: string
  ap_endsAt :: string
  ap_queuePaused :: bool
  ap_playPaused :: bool
  ap_message :: string
  ap_webhook :: string
  ap_nextSeason :: string
  ap_seasonResult :: string
  ap_debugUser :: string
  ap_debugCount :: real
  ap_debugCategory :: string
  ap_debugReason :: string
  ap_debugResult :: string
  ap_cache :: "((string \<times> admin_query) \<times> jv) list"
  ap_runs :: "admin_run list"
  ap_next :: nat
  ap_latest :: "mut_kind \<Rightarrow> nat option"
  ap_failure :: "mut_kind \<Rightarrow> js_error option"
  ap_sent :: "http_request list"
  ap_stale :: "string list"

definition new_admin_page :: admin_page where
  "new_admin_page =
     \<lparr>ap_query = [], ap_banReason = [], ap_file = None, ap_mapKey = ''a-source-world'', ap_mapStatus = [],
      ap_eyebrow = [], ap_title = [], ap_changelog = [], ap_caseId = None, ap_caseStatus = [],
      ap_historyUser = [], ap_historyName = [], ap_caseReason = [], ap_menuId = [], ap_ipAddress = [],
      ap_ipReason = [], ap_phase = ''normal'', ap_startsAt = [], ap_endsAt = [], ap_queuePaused = False,
      ap_playPaused = False, ap_message = [], ap_webhook = [], ap_nextSeason = [], ap_seasonResult = [],
      ap_debugUser = [], ap_debugCount = 3, ap_debugCategory = ''cheating'',
      ap_debugReason = ''Generated from admin debug tab'', ap_debugResult = [], ap_cache = [], ap_runs = [],
      ap_next = 0, ap_latest = (\<lambda>_. None), ap_failure = (\<lambda>_. None), ap_sent = [], ap_stale = []\<rparr>"

definition query_data :: "admin_env \<Rightarrow> admin_query \<Rightarrow> admin_page \<Rightarrow> jv" where
  "query_data env q p = (case map_of (ap_cache p) (ae_token env, q) of None \<Rightarrow> Undefined | Some v \<Rightarrow> v)"

definition isPending :: "mut_kind \<Rightarrow> admin_page \<Rightarrow> bool" where
  "isPending k p = (case ap_latest p k of None \<Rightarrow> False | Some i \<Rightarrow> i \<in> ar_id ` set (ap_runs p))"

definition mutateAsync :: "admin_env \<Rightarrow> admin_mutation \<Rightarrow> admin_page \<Rightarrow> admin_page" where
  "mutateAsync env m p =
     (let i = ap_next p; calls = mutation_calls env m; k = mutation_kind m in
      p\<lparr>ap_next := i + 1,
        ap_runs := ap_runs p @ [\<lparr>ar_id = i, ar_mutation = m, ar_calls = calls\<rparr>],
        ap_latest := (ap_latest p)(k := Some i), ap_failure := (ap_failure p)(k := None),
        ap_sent := ap_sent p @ [fst (hd calls)]\<rparr>)"

definition REFRESHED :: "string list" where
  "REFRESHED =
     [''admin-players'', ''admin-moderation-cases'', ''admin-moderation-case'', ''admin-player-matches'',
      ''admin-ip-signup-bans'', ''admin-changelog'', ''admin-maintenance'', ''admin-moderation-settings'',
      ''admin-ranked-season'', ''leaderboard'', ''lobby-changelog'', ''queue-online'']"

definition refreshAdminData :: "admin_page \<Rightarrow> admin_page" where
  "refreshAdminData p = p\<lparr>ap_stale := ap_stale p @ REFRESHED\<rparr>"

text \<open>A field of an answer where a template shows it: a text or a whole number.\<close>

definition declared_int :: "jv \<Rightarrow> int" where
  "declared_int v = (case v of Num (Fin x) \<Rightarrow> \<lfloor>x\<rfloor> | _ \<Rightarrow> 0)"

definition shown_field :: "jv \<Rightarrow> string \<Rightarrow> string" where
  "shown_field v k = (case jfield v k of Str s \<Rightarrow> s | Undefined \<Rightarrow> ''undefined'' | w \<Rightarrow> int_str (declared_int w))"

fun on_success :: "admin_mutation \<Rightarrow> jv \<Rightarrow> admin_page \<Rightarrow> admin_page" where
  "on_success (CaseAction _ _) v p = refreshAdminData (p\<lparr>ap_caseReason := []\<rparr>)"
| "on_success (TestReports _) v p =
     refreshAdminData
       (p\<lparr>ap_debugResult := ''Created '' @ shown_field v ''reportsCreated'' @ '' reports in case #'' @
                             shown_field v ''caseId'',
          ap_caseId := Some (declared_int (jfield v ''caseId''))\<rparr>)"
| "on_success (UploadMap _ _) v p =
     refreshAdminData
       (p\<lparr>ap_mapStatus :=
            ''Uploaded revision '' @ or_text ''unknown'' (jfield v ''revisionId'') @ '' with '' @
            (if truthy (jfield v ''rowCount'') then shown_field v ''rowCount'' else ''0'') @ '' rows.'',
          ap_file := None\<rparr>)"
| "on_success (AddIPBan _ _) v p = refreshAdminData (p\<lparr>ap_ipAddress := [], ap_ipReason := []\<rparr>)"
| "on_success ClearMaintenance v p =
     refreshAdminData
       (p\<lparr>ap_phase := ''normal'', ap_startsAt := [], ap_endsAt := [], ap_queuePaused := False,
          ap_playPaused := False, ap_message := []\<rparr>)"
| "on_success (SaveSettings _) v p =
     refreshAdminData (p\<lparr>ap_webhook := or_text [] (jfield v ''discordWebhookUrl'')\<rparr>)"
| "on_success (RolloverSeason _) v p =
     refreshAdminData
       (p\<lparr>ap_seasonResult :=
            ''Closed '' @ shown_field v ''previousSeasonId'' @ '', opened '' @ shown_field v ''activeSeasonId'' @
            '', awarded '' @ shown_field v ''badgesAwarded'' @ '' badges, seeded '' @
            shown_field v ''playersSeeded'' @ '' players.'',
          ap_nextSeason := []\<rparr>)"
| "on_success _ v p = refreshAdminData p"

text \<open>The call of run \<open>i\<close> that is on the wire is answered.\<close>

definition drop_run :: "nat \<Rightarrow> admin_page \<Rightarrow> admin_page" where
  "drop_run i p = p\<lparr>ap_runs := filter (\<lambda>a. ar_id a \<noteq> i) (ap_runs p)\<rparr>"

definition set_calls :: "nat \<Rightarrow> jv api_call list \<Rightarrow> admin_page \<Rightarrow> admin_page" where
  "set_calls i calls p = p\<lparr>ap_runs := map (\<lambda>a. if ar_id a = i then a\<lparr>ar_calls := calls\<rparr> else a) (ap_runs p)\<rparr>"

definition mutation_failed :: "admin_run \<Rightarrow> js_error \<Rightarrow> admin_page \<Rightarrow> admin_page" where
  "mutation_failed a e p =
     (let k = mutation_kind (ar_mutation a); q = drop_run (ar_id a) p in
      if ap_latest p k = Some (ar_id a) then q\<lparr>ap_failure := (ap_failure p)(k := Some e)\<rparr> else q)"

definition mutation_answered :: "nat \<Rightarrow> http_response outcome \<Rightarrow> admin_page \<Rightarrow> admin_page" where
  "mutation_answered i r p =
     (case find (\<lambda>a. ar_id a = i) (ap_runs p) of
        None \<Rightarrow> p
      | Some a \<Rightarrow>
          (case ar_calls a of
             [] \<Rightarrow> p
           | c # rest \<Rightarrow>
               (case (case r of Inl e \<Rightarrow> Inl e | Inr resp \<Rightarrow> snd c resp) of
                  Inl e \<Rightarrow> mutation_failed a e p
                | Inr v \<Rightarrow>
                    (case rest of
                       [] \<Rightarrow> on_success (ar_mutation a) v (set_calls i [] p)
                     | next # _ \<Rightarrow> (set_calls i rest p)\<lparr>ap_sent := ap_sent p @ [fst next]\<rparr>))))"

definition mutation_refreshed :: "nat \<Rightarrow> admin_page \<Rightarrow> admin_page" where
  "mutation_refreshed i p =
     p\<lparr>ap_runs := filter (\<lambda>a. \<not> (ar_id a = i \<and> ar_calls a = [])) (ap_runs p)\<rparr>"

text \<open>A query is fetched, and answered; a refused answer leaves what is shown.\<close>

definition query_runs :: "admin_env \<Rightarrow> admin_query \<Rightarrow> admin_page \<Rightarrow> admin_page" where
  "query_runs env q p =
     (if query_enabled env q then p\<lparr>ap_sent := ap_sent p @ [fst (query_call env q)]\<rparr> else p)"

definition query_answered :: "string \<Rightarrow> admin_query \<Rightarrow> jv \<Rightarrow> admin_page \<Rightarrow> admin_page" where
  "query_answered token q v p = p\<lparr>ap_cache := js_set (ap_cache p) (token, q) v\<rparr>"

section \<open>Effects and what the page derives\<close>

definition maintenance_effect :: "admin_env \<Rightarrow> admin_page \<Rightarrow> admin_page" where
  "maintenance_effect env p =
     (let status = query_data env QMaintenance p in
      if \<not> truthy status then p
      else p\<lparr>ap_phase := or_text ''normal'' (jfield status ''phase''),
             ap_startsAt := toDateTimeLocal env (str_or [] (jfield status ''startsAt'')),
             ap_endsAt := toDateTimeLocal env (str_or [] (jfield status ''endsAt'')),
             ap_queuePaused := truthy (jfield status ''queuePaused''),
             ap_playPaused := truthy (jfield status ''playPaused''),
             ap_message := or_text [] (jfield status ''message'')\<rparr>)"

definition settings_effect :: "admin_env \<Rightarrow> admin_page \<Rightarrow> admin_page" where
  "settings_effect env p =
     (let settings = query_data env QSettings p in
      if \<not> truthy settings then p
      else p\<lparr>ap_webhook := or_text [] (jfield settings ''discordWebhookUrl'')\<rparr>)"

definition effectiveEyebrow :: "admin_env \<Rightarrow> admin_page \<Rightarrow> string" where
  "effectiveEyebrow env p =
     or_str (ap_eyebrow p) (str_or ''Latest News'' (jfield (query_data env QChangelog p) ''eyebrow''))"

definition effectiveTitle :: "admin_env \<Rightarrow> admin_page \<Rightarrow> string" where
  "effectiveTitle env p =
     or_str (ap_title p) (str_or ''GeoDuels v1.1'' (jfield (query_data env QChangelog p) ''title''))"

definition effectiveChangelog :: "admin_env \<Rightarrow> admin_page \<Rightarrow> string" where
  "effectiveChangelog env p =
     or_str (ap_changelog p) (str_or [] (jfield (query_data env QChangelog p) ''markdown''))"

definition currentMaintenanceDraft :: "admin_env \<Rightarrow> admin_page \<Rightarrow> jv" where
  "currentMaintenanceDraft env p =
     (let startsAt = fromDateTimeLocal env (ap_startsAt p); endsAt = fromDateTimeLocal env (ap_endsAt p) in
      Obj ([(''phase'', Str (ap_phase p))] @
           (if startsAt \<noteq> [] then [(''startsAt'', Str startsAt)] else []) @
           (if endsAt \<noteq> [] then [(''endsAt'', Str endsAt)] else []) @
           [(''queuePaused'', Bool (ap_queuePaused p)), (''playPaused'', Bool (ap_playPaused p)),
            (''message'', Str (js_trim (ap_message p)))]))"

fun elements :: "jv \<Rightarrow> jv list" where
  "elements (Arr xs) = xs"
| "elements _ = []"

definition admin_players :: "admin_env \<Rightarrow> admin_page \<Rightarrow> jv list" where
  "admin_players env p = elements (jfield (query_data env (QPlayers (ap_query p)) p) ''players'')"

definition moderationCases :: "admin_env \<Rightarrow> admin_page \<Rightarrow> jv list" where
  "moderationCases env p = elements (jfield (query_data env (QCases (ap_caseStatus p)) p) ''cases'')"

definition selectedCase :: "admin_env \<Rightarrow> admin_page \<Rightarrow> jv" where
  "selectedCase env p = jfield (query_data env (QCase (ap_caseId p)) p) ''case''"

definition selectedReports :: "admin_env \<Rightarrow> admin_page \<Rightarrow> jv list" where
  "selectedReports env p = elements (jfield (query_data env (QCase (ap_caseId p)) p) ''reports'')"

definition selectedMatches :: "admin_env \<Rightarrow> admin_page \<Rightarrow> jv list" where
  "selectedMatches env p = elements (jfield (query_data env (QMatches (ap_historyUser p)) p) ''matches'')"

definition ipBans :: "admin_env \<Rightarrow> admin_page \<Rightarrow> jv list" where
  "ipBans env p = elements (jfield (query_data env QIPBans p) ''bans'')"

definition playerIdentities :: "jv \<Rightarrow> jv list" where
  "playerIdentities player = elements (jfield player ''identities'')"

definition showPlayerHistory :: "string \<Rightarrow> string \<Rightarrow> admin_page \<Rightarrow> admin_page" where
  "showPlayerHistory userId displayName p =
     p\<lparr>ap_historyUser := userId, ap_historyName := or_str displayName userId, ap_menuId := []\<rparr>"

text \<open>The share of games won, in percent, as a moderator sees it.\<close>

definition admin_winRate :: "real \<Rightarrow> real \<Rightarrow> string" where
  "admin_winRate wins games =
     (if games > 0 then int_str \<lfloor>wins / games * 100 + 1 / 2\<rfloor> @ ''%'' else ''0%'')"

section \<open>What is typed and pressed\<close>

definition on_tab :: "admin_env \<Rightarrow> admin_tab \<Rightarrow> bool" where
  "on_tab env t \<longleftrightarrow> canViewReports env \<and> activeTab env = t"

definition text_field :: "jv \<Rightarrow> string \<Rightarrow> string" where
  "text_field v k = str_or [] (jfield v k)"

datatype content_event = MapKeyChosen string | FileChosen "string option" | UploadPressed
  | EyebrowTyped string | TitleTyped string | ChangelogTyped string | SaveChangelogPressed

fun content_handler :: "admin_env \<Rightarrow> content_event \<Rightarrow> admin_page \<Rightarrow> admin_page" where
  "content_handler env (MapKeyChosen s) p = p\<lparr>ap_mapKey := s, ap_mapStatus := []\<rparr>"
| "content_handler env (FileChosen f) p = p\<lparr>ap_file := f, ap_mapStatus := []\<rparr>"
| "content_handler env UploadPressed p =
     (case ap_file p of
        None \<Rightarrow> p
      | Some f \<Rightarrow> if isPending KUpload p then p else mutateAsync env (UploadMap f (ap_mapKey p)) p)"
| "content_handler env (EyebrowTyped s) p = p\<lparr>ap_eyebrow := s\<rparr>"
| "content_handler env (TitleTyped s) p = p\<lparr>ap_title := s\<rparr>"
| "content_handler env (ChangelogTyped s) p = p\<lparr>ap_changelog := s\<rparr>"
| "content_handler env SaveChangelogPressed p =
     (if isPending KChangelog p then p
      else mutateAsync env (SaveChangelog (effectiveEyebrow env p) (effectiveTitle env p)
                              (effectiveChangelog env p)) p)"

datatype season_event = NextSeasonTyped string | RolloverPressed

fun season_handler :: "admin_env \<Rightarrow> season_event \<Rightarrow> admin_page \<Rightarrow> admin_page" where
  "season_handler env (NextSeasonTyped s) p = p\<lparr>ap_nextSeason := s, ap_seasonResult := []\<rparr>"
| "season_handler env RolloverPressed p =
     (let next = js_trim (ap_nextSeason p) in
      if isPending KRollover p \<or> next = [] \<or> Str next = jfield (query_data env QSeason p) ''activeSeasonId''
      then p else mutateAsync env (RolloverSeason (ap_nextSeason p)) p)"

datatype maintenance_event = PhaseChosen string | StartsTyped string | EndsTyped string | MessageTyped string
  | QueuePauseSet bool | PlayPauseSet bool | SaveMaintenancePressed | ActivatePressed | ClearMaintenancePressed

fun maintenance_handler :: "admin_env \<Rightarrow> maintenance_event \<Rightarrow> admin_page \<Rightarrow> admin_page" where
  "maintenance_handler env (PhaseChosen s) p = p\<lparr>ap_phase := s\<rparr>"
| "maintenance_handler env (StartsTyped s) p = p\<lparr>ap_startsAt := s\<rparr>"
| "maintenance_handler env (EndsTyped s) p = p\<lparr>ap_endsAt := s\<rparr>"
| "maintenance_handler env (MessageTyped s) p = p\<lparr>ap_message := s\<rparr>"
| "maintenance_handler env (QueuePauseSet b) p = p\<lparr>ap_queuePaused := b\<rparr>"
| "maintenance_handler env (PlayPauseSet b) p = p\<lparr>ap_playPaused := b\<rparr>"
| "maintenance_handler env SaveMaintenancePressed p =
     (if isPending KMaintenance p then p
      else mutateAsync env (SaveMaintenance (currentMaintenanceDraft env p)) p)"
| "maintenance_handler env ActivatePressed p =
     (if isPending KMaintenance p then p
      else mutateAsync env (SaveMaintenance
             (Obj [(''phase'', Str ''active''), (''startsAt'', Str (toISOString (ae_now env))),
                   (''queuePaused'', Bool True), (''playPaused'', Bool True),
                   (''message'', Str (or_str (js_trim (ap_message p))
                                        ''Maintenance in progress. Please check back soon.''))])) p)"
| "maintenance_handler env ClearMaintenancePressed p =
     (if isPending KClearMaintenance p then p else mutateAsync env ClearMaintenance p)"

datatype webhook_event = WebhookTyped string | SaveWebhookPressed | DisableWebhookPressed

fun webhook_handler :: "admin_env \<Rightarrow> webhook_event \<Rightarrow> admin_page \<Rightarrow> admin_page" where
  "webhook_handler env (WebhookTyped s) p = p\<lparr>ap_webhook := s\<rparr>"
| "webhook_handler env SaveWebhookPressed p =
     (if isPending KSettings p then p else mutateAsync env (SaveSettings (ap_webhook p)) p)"
| "webhook_handler env DisableWebhookPressed p =
     (if ap_webhook p = [] \<or> isPending KSettings p then p
      else mutateAsync env (SaveSettings []) (p\<lparr>ap_webhook := []\<rparr>))"

datatype ip_event = IPTyped string | IPReasonTyped string | AddIPPressed | RemoveIPPressed jv

fun ip_handler :: "admin_env \<Rightarrow> ip_event \<Rightarrow> admin_page \<Rightarrow> admin_page" where
  "ip_handler env (IPTyped s) p = p\<lparr>ap_ipAddress := s\<rparr>"
| "ip_handler env (IPReasonTyped s) p = p\<lparr>ap_ipReason := s\<rparr>"
| "ip_handler env AddIPPressed p =
     (if ap_ipAddress p = [] \<or> isPending KAddIP p then p
      else mutateAsync env (AddIPBan (ap_ipAddress p) (ap_ipReason p)) p)"
| "ip_handler env (RemoveIPPressed ban) p =
     (if ban \<in> set (ipBans env p) then mutateAsync env (RemoveIPBan (text_field ban ''ipAddress'')) p else p)"

datatype cases_event = CaseStatusChosen string | SelectionCleared | CasePressed jv

fun queue_handler :: "admin_env \<Rightarrow> cases_event \<Rightarrow> admin_page \<Rightarrow> admin_page" where
  "queue_handler env (CaseStatusChosen s) p = p\<lparr>ap_caseStatus := s, ap_caseId := None\<rparr>"
| "queue_handler env SelectionCleared p = p\<lparr>ap_caseId := None\<rparr>"
| "queue_handler env (CasePressed item) p =
     (if item \<in> set (moderationCases env p)
      then showPlayerHistory (text_field item ''targetUserId'') (text_field item ''targetDisplayName'')
             (p\<lparr>ap_caseId := Some (declared_int (jfield item ''id''))\<rparr>)
      else p)"

datatype case_button = MarkReviewing | MarkWatching | Confirmed | Inconclusive | DismissCase | AbusiveReports

definition case_button_action :: "string \<Rightarrow> case_button \<Rightarrow> case_action" where
  "case_button_action note b =
     (let act = \<lambda>ty st why. \<lparr>ca_actionType = ty, ca_reason = Some why, ca_status = st, ca_assignedTo = None,
                             ca_muteUserId = None, ca_muteUntil = None\<rparr> in
      case b of
        MarkReviewing \<Rightarrow> act ''status'' (Some ''reviewing'') note
      | MarkWatching \<Rightarrow> act ''status'' (Some ''watching'') note
      | Confirmed \<Rightarrow> act ''status'' (Some ''actioned'') note
      | Inconclusive \<Rightarrow> act ''mark_inconclusive'' None (or_str note ''Not enough evidence'')
      | DismissCase \<Rightarrow> act ''dismiss'' (Some ''dismissed'') note
      | AbusiveReports \<Rightarrow> act ''abusive_reports'' None (or_str note ''False or abusive report cluster''))"

definition mute_reporter_action :: "string \<Rightarrow> string \<Rightarrow> case_action" where
  "mute_reporter_action note reporter =
     \<lparr>ca_actionType = ''report_mute'', ca_reason = Some (or_str note ''Abusive report behavior''),
      ca_status = None, ca_assignedTo = None, ca_muteUserId = Some reporter, ca_muteUntil = None\<rparr>"

definition case_target :: "admin_env \<Rightarrow> admin_page \<Rightarrow> string" where
  "case_target env p = text_field (selectedCase env p) ''targetUserId''"

definition selected_id :: "admin_env \<Rightarrow> admin_page \<Rightarrow> int" where
  "selected_id env p = declared_int (jfield (selectedCase env p) ''id'')"

definition ban_reason :: "admin_page \<Rightarrow> string \<Rightarrow> string" where
  "ban_reason p userId = opt_str (map_of (ap_banReason p) userId)"

datatype case_event = CaseButton case_button | CaseNoteTyped string | CaseBanReasonTyped string
  | CaseBanPressed | MuteReporterPressed jv

fun case_handler :: "admin_env \<Rightarrow> case_event \<Rightarrow> admin_page \<Rightarrow> admin_page" where
  "case_handler env (CaseButton b) p =
     (if isPending KCaseAction p then p
      else mutateAsync env (CaseAction (selected_id env p) (case_button_action (ap_caseReason p) b)) p)"
| "case_handler env (CaseNoteTyped s) p = p\<lparr>ap_caseReason := s\<rparr>"
| "case_handler env (CaseBanReasonTyped s) p =
     p\<lparr>ap_banReason := js_set (ap_banReason p) (case_target env p) s\<rparr>"
| "case_handler env CaseBanPressed p =
     (if isPending KBan p then p
      else mutateAsync env
             (Ban (case_target env p) (or_str (ban_reason p (case_target env p)) (ap_caseReason p))) p)"
| "case_handler env (MuteReporterPressed report) p =
     (if report \<in> set (selectedReports env p) \<and> \<not> isPending KCaseAction p
      then mutateAsync env (CaseAction (selected_id env p)
             (mute_reporter_action (ap_caseReason p) (text_field report ''reporterUserId''))) p
      else p)"

datatype debug_event = DebugUserTyped string | DebugCountTyped num | DebugCategoryChosen string
  | DebugReasonTyped string | DebugSendPressed

text \<open>\<open>Math.max(1, Math.min(20, Number(text) || 1))\<close> of what \<open>Number\<close> reads.\<close>

fun debug_count :: "num \<Rightarrow> real" where
  "debug_count (Fin x) = max 1 (min 20 (if x = 0 then 1 else x))"
| "debug_count PosInf = 20"
| "debug_count NegInf = 1"
| "debug_count NaN = 1"

fun debug_handler :: "admin_env \<Rightarrow> debug_event \<Rightarrow> admin_page \<Rightarrow> admin_page" where
  "debug_handler env (DebugUserTyped s) p = p\<lparr>ap_debugUser := s\<rparr>"
| "debug_handler env (DebugCountTyped n) p = p\<lparr>ap_debugCount := debug_count n\<rparr>"
| "debug_handler env (DebugCategoryChosen s) p = p\<lparr>ap_debugCategory := s\<rparr>"
| "debug_handler env (DebugReasonTyped s) p = p\<lparr>ap_debugReason := s\<rparr>"
| "debug_handler env DebugSendPressed p =
     (if isPending KTestReports p \<or> js_trim (ap_debugUser p) = [] then p
      else mutateAsync env (TestReports
             \<lparr>tr_reportedUserId = js_trim (ap_debugUser p), tr_count = ap_debugCount p,
              tr_category = ap_debugCategory p, tr_reason = Some (ap_debugReason p)\<rparr>) p)"

datatype player_event = QueryTyped string | BanReasonTyped jv string | BanPressed jv | BanIPPressed jv
  | UnbanPressed jv | MenuPressed jv | HistoryPressed jv | UnmutePressed jv | DemotePressed jv
  | PromotePressed jv | HistoryClosed

definition player_id :: "jv \<Rightarrow> string" where
  "player_id player = text_field player ''userId''"

definition player_is :: "string \<Rightarrow> jv \<Rightarrow> bool" where
  "player_is role player \<longleftrightarrow> truthy (jfield player role)"

definition menu_open :: "jv \<Rightarrow> admin_page \<Rightarrow> bool" where
  "menu_open player p \<longleftrightarrow> ap_menuId p = player_id player"

definition reporter_muted :: "admin_env \<Rightarrow> jv \<Rightarrow> bool" where
  "reporter_muted env player =
     (let until = text_field player ''reportMutedUntil'' in
      until \<noteq> [] \<and> (case ae_date env until of None \<Rightarrow> False | Some t \<Rightarrow> ae_now env < t))"

text \<open>The player a row of the table is about; the buttons of a row exist while it is shown.\<close>

fun row_player :: "player_event \<Rightarrow> jv option" where
  "row_player (BanReasonTyped pl _) = Some pl"
| "row_player (BanPressed pl) = Some pl"
| "row_player (BanIPPressed pl) = Some pl"
| "row_player (UnbanPressed pl) = Some pl"
| "row_player (MenuPressed pl) = Some pl"
| "row_player (HistoryPressed pl) = Some pl"
| "row_player (UnmutePressed pl) = Some pl"
| "row_player (DemotePressed pl) = Some pl"
| "row_player (PromotePressed pl) = Some pl"
| "row_player _ = None"

fun row_handler :: "admin_env \<Rightarrow> player_event \<Rightarrow> admin_page \<Rightarrow> admin_page" where
  "row_handler env (QueryTyped s) p = p\<lparr>ap_query := s\<rparr>"
| "row_handler env (BanReasonTyped pl s) p =
     (if canManageAdmin env \<and> \<not> player_is ''isBanned'' pl
      then p\<lparr>ap_banReason := js_set (ap_banReason p) (player_id pl) s\<rparr> else p)"
| "row_handler env (BanPressed pl) p =
     (if canManageAdmin env \<and> \<not> player_is ''isBanned'' pl \<and> \<not> isPending KBan p
      then mutateAsync env (Ban (player_id pl) (ban_reason p (player_id pl))) p else p)"
| "row_handler env (BanIPPressed pl) p =
     (let ip = text_field pl ''lastIpAddress'' in
      if canManageAdmin env \<and> \<not> player_is ''isBanned'' pl \<and> ip \<noteq> [] \<and> \<not> isPending KBanWithIP p
      then mutateAsync env (BanWithIP (player_id pl) (ban_reason p (player_id pl)) ip) p else p)"
| "row_handler env (UnbanPressed pl) p =
     (if canManageAdmin env \<and> player_is ''isBanned'' pl then mutateAsync env (Unban (player_id pl)) p else p)"
| "row_handler env (MenuPressed pl) p =
     p\<lparr>ap_menuId := (if menu_open pl p then [] else player_id pl)\<rparr>"
| "row_handler env (HistoryPressed pl) p =
     (if menu_open pl p then showPlayerHistory (player_id pl) (text_field pl ''displayName'') p else p)"
| "row_handler env (UnmutePressed pl) p =
     (if menu_open pl p \<and> canManageAdmin env \<and> reporter_muted env pl \<and> \<not> isPending KClearMute p
      then mutateAsync env (ClearMute (player_id pl)) (p\<lparr>ap_menuId := []\<rparr>) else p)"
| "row_handler env (DemotePressed pl) p =
     (if menu_open pl p \<and> canManageAdmin env \<and> \<not> player_is ''isAdmin'' pl \<and> player_is ''isModerator'' pl \<and>
         \<not> isPending KDemote p
      then mutateAsync env (Demote (player_id pl)) (p\<lparr>ap_menuId := []\<rparr>) else p)"
| "row_handler env (PromotePressed pl) p =
     (if menu_open pl p \<and> canManageAdmin env \<and> \<not> player_is ''isAdmin'' pl \<and> \<not> player_is ''isModerator'' pl \<and>
         \<not> isPending KPromote p
      then mutateAsync env (Promote (player_id pl)) (p\<lparr>ap_menuId := []\<rparr>) else p)"
| "row_handler env HistoryClosed p = p\<lparr>ap_historyUser := [], ap_historyName := []\<rparr>"

definition player_handler :: "admin_env \<Rightarrow> player_event \<Rightarrow> admin_page \<Rightarrow> admin_page" where
  "player_handler env ev p =
     (case row_player ev of
        None \<Rightarrow> row_handler env ev p
      | Some pl \<Rightarrow> if pl \<in> set (admin_players env p) then row_handler env ev p else p)"

section \<open>The page as a machine\<close>

datatype admin_event = OnContent content_event | OnSeason season_event | OnMaintenance maintenance_event
  | OnWebhook webhook_event | OnIP ip_event | OnQueue cases_event | OnCase case_event | OnDebug debug_event
  | OnPlayer player_event | QueryRuns admin_query | QueryAnswered string admin_query jv
  | MutationAnswered nat "http_response outcome" | MutationRefreshed nat | MaintenanceEffect | SettingsEffect

fun admin_step :: "admin_env \<Rightarrow> admin_event \<Rightarrow> admin_page \<Rightarrow> admin_page" where
  "admin_step env (OnContent ev) p = (if on_tab env TabContent then content_handler env ev p else p)"
| "admin_step env (OnSeason ev) p = (if on_tab env TabAccess then season_handler env ev p else p)"
| "admin_step env (OnMaintenance ev) p = (if on_tab env TabAccess then maintenance_handler env ev p else p)"
| "admin_step env (OnWebhook ev) p = (if on_tab env TabAccess then webhook_handler env ev p else p)"
| "admin_step env (OnIP ev) p = (if on_tab env TabAccess then ip_handler env ev p else p)"
| "admin_step env (OnQueue ev) p = (if on_tab env TabReports then queue_handler env ev p else p)"
| "admin_step env (OnCase ev) p =
     (if on_tab env TabReports \<and> truthy (selectedCase env p) then case_handler env ev p else p)"
| "admin_step env (OnDebug ev) p =
     (if on_tab env TabDebug \<and> canManageAdmin env then debug_handler env ev p else p)"
| "admin_step env (OnPlayer ev) p = (if on_tab env TabPlayers then player_handler env ev p else p)"
| "admin_step env (QueryRuns q) p = query_runs env q p"
| "admin_step env (QueryAnswered token q v) p = query_answered token q v p"
| "admin_step env (MutationAnswered i r) p = mutation_answered i r p"
| "admin_step env (MutationRefreshed i) p = mutation_refreshed i p"
| "admin_step env MaintenanceEffect p = maintenance_effect env p"
| "admin_step env SettingsEffect p = settings_effect env p"

definition admin_run_from :: "(admin_env \<times> admin_event) list \<Rightarrow> admin_page \<Rightarrow> admin_page" where
  "admin_run_from steps p = fold (\<lambda>(env, ev). admin_step env ev) steps p"

section \<open>Lemmas\<close>

definition moderation_request :: "runtime_config \<Rightarrow> http_request \<Rightarrow> bool" where
  "moderation_request cfg rq \<longleftrightarrow>
     (let url = rq_url rq; admin = apiURL cfg @ ''/v1/admin/'' in
      starts_with url (admin @ ''players?query='') \<or> starts_with url (admin @ ''moderation/cases'') \<or>
      starts_with url (admin @ ''players/'') \<and> (suffix ''/ban'' url \<or> suffix ''/matches'' url))"

lemma starts_with_append2 [simp]: "starts_with (a @ p @ s) (a @ p)"
  using starts_with_append [of "a @ p" s] by simp

lemma moderation_urls:
  "rq_url rq = apiURL cfg @ ''/v1/admin/'' @ ''players?query='' @ t \<Longrightarrow> moderation_request cfg rq"
  "rq_url rq = apiURL cfg @ ''/v1/admin/'' @ ''moderation/cases'' @ t \<Longrightarrow> moderation_request cfg rq"
  "rq_url rq = apiURL cfg @ ''/v1/admin/'' @ ''players/'' @ t @ ''/ban'' \<Longrightarrow> moderation_request cfg rq"
  "rq_url rq = apiURL cfg @ ''/v1/admin/'' @ ''players/'' @ t @ ''/matches'' \<Longrightarrow> moderation_request cfg rq"
  unfolding moderation_request_def Let_def by (simp_all add: starts_with_def suffix_def)

lemma moderation_ban: "moderation_request (ae_cfg env) (fst (unit_call (requestAdminBanPlayer (ae_cfg env) tk u why)))"
  by (rule moderation_urls(3))
     (simp add: unit_call_def requestAdminBanPlayer_def admin_do_def admin_request_def player_path_def)

lemma moderation_case:
  "moderation_request (ae_cfg env) (fst (requestAdminModerationCaseAction (ae_cfg env) tk i act))"
  by (rule moderation_urls(2))
     (simp add: requestAdminModerationCaseAction_def admin_send_def admin_request_def case_path_def)

text \<open>What a page without administration rights asks for.\<close>

lemma moderation_query:
  assumes "query_enabled env q" and "\<not> canManageAdmin env"
  shows "moderation_request (ae_cfg env) (fst (query_call env q))"
proof (cases q)
  case (QPlayers x1)
  then show ?thesis
    by (intro moderation_urls(1)) (simp add: requestAdminPlayers_def admin_get_def admin_request_def)
next
  case (QCases x)
  then show ?thesis
    by (intro moderation_urls(2)) (simp add: requestAdminModerationCases_def admin_get_def admin_request_def)
next
  case (QCase x)
  then show ?thesis
    by (intro moderation_urls(2)) (simp add: requestAdminModerationCase_def admin_get_def admin_request_def case_path_def)
next
  case (QMatches x)
  then show ?thesis
    by (intro moderation_urls(4)) (simp add: requestAdminPlayerMatches_def admin_get_def admin_request_def player_path_def)
qed (use assms in simp_all)

text \<open>Every request sent or still to be sent satisfies a test.\<close>

definition requests_ok :: "(http_request \<Rightarrow> bool) \<Rightarrow> admin_page \<Rightarrow> bool" where
  "requests_ok P p \<longleftrightarrow>
     list_all P (ap_sent p) \<and> list_all (\<lambda>a. list_all (\<lambda>c. P (fst c)) (ar_calls a)) (ap_runs p)"

lemma mutation_calls_nonempty: "mutation_calls env m \<noteq> []"
  by (cases m) simp_all

lemma mutate_ok:
  "requests_ok P p \<Longrightarrow> list_all (\<lambda>c. P (fst c)) (mutation_calls env m) \<Longrightarrow> requests_ok P (mutateAsync env m p)"
  using mutation_calls_nonempty [of env m]
  by (cases "mutation_calls env m") (simp_all add: requests_ok_def mutateAsync_def Let_def)

lemma requests_ok_cong:
  "ap_sent q = ap_sent p \<Longrightarrow> ap_runs q = ap_runs p \<Longrightarrow> requests_ok P q = requests_ok P p"
  by (simp add: requests_ok_def)

lemma on_success_frame [simp]:
  "ap_sent (on_success m v p) = ap_sent p" "ap_runs (on_success m v p) = ap_runs p"
  "ap_next (on_success m v p) = ap_next p" "ap_latest (on_success m v p) = ap_latest p"
  "ap_debugCount (on_success m v p) = ap_debugCount p"
  by (cases m; simp add: refreshAdminData_def)+

lemma set_calls_ok:
  "requests_ok P p \<Longrightarrow> list_all (\<lambda>c. P (fst c)) calls \<Longrightarrow> requests_ok P (set_calls i calls p)"
  by (auto simp: requests_ok_def set_calls_def list_all_iff)

lemma found_run_ok:
  "requests_ok P p \<Longrightarrow> find (\<lambda>a. ar_id a = i) (ap_runs p) = Some a \<Longrightarrow> list_all (\<lambda>c. P (fst c)) (ar_calls a)"
  by (auto simp: requests_ok_def list_all_iff find_Some_iff dest!: nth_mem)

lemma failed_ok: "requests_ok P p \<Longrightarrow> requests_ok P (mutation_failed a e p)"
  by (auto simp: requests_ok_def mutation_failed_def drop_run_def Let_def list_all_iff)

lemma answered_ok:
  assumes "requests_ok P p"
  shows "requests_ok P (mutation_answered i r p)"
proof (cases "find (\<lambda>a. ar_id a = i) (ap_runs p)")
  case None
  with assms show ?thesis by (simp add: mutation_answered_def)
next
  case (Some a)
  show ?thesis
  proof (cases "ar_calls a")
    case Nil
    with assms Some show ?thesis by (simp add: mutation_answered_def)
  next
    case (Cons c rest)
    have rest: "list_all (\<lambda>c. P (fst c)) rest" using found_run_ok [OF assms Some] Cons by simp
    have sc: "requests_ok P (set_calls i rest p)" by (rule set_calls_ok [OF assms rest])
    have "requests_ok P (on_success (ar_mutation a) v (set_calls i [] p))" for v
      using set_calls_ok [OF assms, of "[]" i] by (simp add: requests_ok_def)
    moreover have "requests_ok P ((set_calls i rest p)\<lparr>ap_sent := ap_sent p @ [fst n]\<rparr>)"
      if "rest = n # ns" for n ns
      using sc rest assms that by (simp add: requests_ok_def)
    ultimately show ?thesis
      using Some Cons failed_ok [OF assms]
      by (simp add: mutation_answered_def split: sum.split list.split)
  qed
qed

lemma refreshed_ok: "requests_ok P p \<Longrightarrow> requests_ok P (mutation_refreshed i p)"
  by (auto simp: requests_ok_def mutation_refreshed_def list_all_iff)

lemma effects_frame [simp]:
  "ap_sent (maintenance_effect env p) = ap_sent p" "ap_runs (maintenance_effect env p) = ap_runs p"
  "ap_sent (settings_effect env p) = ap_sent p" "ap_runs (settings_effect env p) = ap_runs p"
  "ap_sent (query_answered tk q v p) = ap_sent p" "ap_runs (query_answered tk q v p) = ap_runs p"
  "ap_sent (showPlayerHistory u n p) = ap_sent p" "ap_runs (showPlayerHistory u n p) = ap_runs p"
  by (simp_all add: maintenance_effect_def settings_effect_def query_answered_def showPlayerHistory_def Let_def)

lemma active_tab_shown: "activeTab env \<in> set (admin_tabs env)"
  by (cases "activeTab env")
     (auto simp: activeTab_def admin_tabs_def split: option.splits if_splits)

lemma moderator_tabs:
  "\<not> canManageAdmin env \<Longrightarrow> on_tab env t \<Longrightarrow> t = TabReports \<or> t = TabPlayers"
  using active_tab_shown [of env] by (auto simp: on_tab_def admin_tabs_def)

abbreviation "mod_ok env \<equiv> requests_ok (moderation_request (ae_cfg env))"

lemma moderator_ban: "mod_ok env p \<Longrightarrow> mod_ok env (mutateAsync env (Ban u why) p)"
  by (rule mutate_ok) (simp_all add: moderation_ban)

lemma moderator_case: "mod_ok env p \<Longrightarrow> mod_ok env (mutateAsync env (CaseAction i act) p)"
  by (rule mutate_ok) (simp_all add: moderation_case)

lemma queue_keeps: "requests_ok P p \<Longrightarrow> requests_ok P (queue_handler env ev p)"
  by (cases ev) (simp_all add: requests_ok_def)

lemma requests_ok_drafts [simp]:
  "requests_ok P (p\<lparr>ap_caseReason := s\<rparr>) = requests_ok P p"
  "requests_ok P (p\<lparr>ap_banReason := r\<rparr>) = requests_ok P p"
  by (simp_all add: requests_ok_def)

lemma case_keeps: "mod_ok env p \<Longrightarrow> mod_ok env (case_handler env ev p)"
  by (cases ev) (simp_all add: moderator_ban moderator_case)

lemma row_keeps: "\<not> canManageAdmin env \<Longrightarrow> requests_ok P p \<Longrightarrow> requests_ok P (row_handler env ev p)"
  by (cases ev) (simp_all add: requests_ok_def Let_def)

lemma player_keeps: "\<not> canManageAdmin env \<Longrightarrow> requests_ok P p \<Longrightarrow> requests_ok P (player_handler env ev p)"
  by (simp add: player_handler_def row_keeps split: option.split)

lemma query_keeps: "\<not> canManageAdmin env \<Longrightarrow> mod_ok env p \<Longrightarrow> mod_ok env (query_runs env q p)"
  using moderation_query [of env q] by (simp add: query_runs_def requests_ok_def)

lemma moderator_step:
  assumes "\<not> canManageAdmin env" and "mod_ok env p"
  shows "mod_ok env (admin_step env ev p)"
  using assms moderator_tabs [OF assms(1), of TabContent] moderator_tabs [OF assms(1), of TabAccess]
  by (cases ev)
     (auto simp: queue_keeps case_keeps player_keeps query_keeps answered_ok refreshed_ok
           cong: requests_ok_cong)

lemma visitor_step:
  assumes "\<not> canViewReports env" and "ap_sent p = [] \<and> ap_runs p = []"
  shows "ap_sent (admin_step env ev p) = [] \<and> ap_runs (admin_step env ev p) = []"
proof (cases ev)
  case (QueryRuns q)
  with assms show ?thesis by (cases q) (auto simp: query_runs_def canViewReports_def canManageAdmin_def)
qed (use assms in \<open>simp_all add: on_tab_def mutation_answered_def mutation_refreshed_def\<close>)

lemma new_admin_page_simps [simp]:
  "ap_sent new_admin_page = []" "ap_runs new_admin_page = []" "ap_debugCount new_admin_page = 3"
  "ap_next new_admin_page = 0" "ap_latest new_admin_page = (\<lambda>_. None)"
  by (simp_all add: new_admin_page_def)

section \<open>One mutation at a time\<close>

definition repeatable :: "mut_kind \<Rightarrow> bool" where
  "repeatable k \<longleftrightarrow> k = KUnban \<or> k = KRemoveIP"

abbreviation "run_kind a \<equiv> mutation_kind (ar_mutation a)"

definition page_ok :: "admin_page \<Rightarrow> bool" where
  "page_ok p \<longleftrightarrow>
     1 \<le> ap_debugCount p \<and> ap_debugCount p \<le> 20 \<and> distinct (map ar_id (ap_runs p)) \<and>
     (\<forall>a \<in> set (ap_runs p). ar_id a < ap_next p \<and>
        (\<not> repeatable (run_kind a) \<longrightarrow> ap_latest p (run_kind a) = Some (ar_id a)))"

lemma page_ok_cong:
  "ap_debugCount q = ap_debugCount p \<Longrightarrow> ap_runs q = ap_runs p \<Longrightarrow> ap_next q = ap_next p \<Longrightarrow>
   ap_latest q = ap_latest p \<Longrightarrow> page_ok q = page_ok p"
  by (simp add: page_ok_def)

lemma not_pending_none:
  "page_ok p \<Longrightarrow> \<not> isPending k p \<Longrightarrow> \<not> repeatable k \<Longrightarrow> a \<in> set (ap_runs p) \<Longrightarrow> run_kind a \<noteq> k"
  by (auto simp: page_ok_def isPending_def)

lemma mutate_page_ok:
  assumes "page_ok p" and "\<not> isPending (mutation_kind m) p \<or> repeatable (mutation_kind m)"
  shows "page_ok (mutateAsync env m p)"
proof -
  have "run_kind a \<noteq> mutation_kind m \<or> repeatable (mutation_kind m)" if "a \<in> set (ap_runs p)" for a
    using not_pending_none [OF assms(1) _ _ that] assms(2) by blast
  then show ?thesis
    using assms(1) by (force simp: page_ok_def mutateAsync_def Let_def)
qed

lemma page_ok_runs:
  assumes "page_ok p" and "set (ap_runs q) \<subseteq> set (ap_runs p)" and "distinct (map ar_id (ap_runs q))"
    and "ap_debugCount q = ap_debugCount p" "ap_next q = ap_next p" "ap_latest q = ap_latest p"
  shows "page_ok q"
  using assms by (auto simp: page_ok_def)

lemma filter_page_ok: "page_ok p \<Longrightarrow> page_ok (p\<lparr>ap_runs := filter f (ap_runs p)\<rparr>)"
  by (rule page_ok_runs) (auto simp: page_ok_def distinct_map inj_on_def)

lemma set_calls_page_ok: "page_ok p \<Longrightarrow> page_ok (set_calls i calls p)"
proof -
  have ids: "map ar_id (map (\<lambda>a. if ar_id a = i then a\<lparr>ar_calls := calls\<rparr> else a) xs) = map ar_id xs" for xs
    by simp
  assume "page_ok p"
  then show ?thesis by (auto simp: page_ok_def set_calls_def ids simp del: map_map)
qed

lemma failed_page_ok: "page_ok p \<Longrightarrow> page_ok (mutation_failed a e p)"
  using filter_page_ok [of p "\<lambda>b. ar_id b \<noteq> ar_id a"]
  by (simp add: mutation_failed_def drop_run_def Let_def page_ok_def)

lemma success_page_ok: "page_ok (on_success m v p) = page_ok p"
  by (rule page_ok_cong) simp_all

lemma sent_page_ok [simp]: "page_ok (p\<lparr>ap_sent := xs\<rparr>) = page_ok p"
  by (simp add: page_ok_def)

lemma answered_page_ok: "page_ok p \<Longrightarrow> page_ok (mutation_answered i r p)"
  by (simp add: mutation_answered_def success_page_ok failed_page_ok set_calls_page_ok
           split: option.split list.split sum.split)

lemma page_ok_drafts [simp]:
  "page_ok (p\<lparr>ap_query := x0\<rparr>) = page_ok p"
  "page_ok (p\<lparr>ap_banReason := x1\<rparr>) = page_ok p"
  "page_ok (p\<lparr>ap_file := x2\<rparr>) = page_ok p"
  "page_ok (p\<lparr>ap_mapKey := x3\<rparr>) = page_ok p"
  "page_ok (p\<lparr>ap_mapStatus := x4\<rparr>) = page_ok p"
  "page_ok (p\<lparr>ap_eyebrow := x5\<rparr>) = page_ok p"
  "page_ok (p\<lparr>ap_title := x6\<rparr>) = page_ok p"
  "page_ok (p\<lparr>ap_changelog := x7\<rparr>) = page_ok p"
  "page_ok (p\<lparr>ap_caseId := x8\<rparr>) = page_ok p"
  "page_ok (p\<lparr>ap_caseStatus := x9\<rparr>) = page_ok p"
  "page_ok (p\<lparr>ap_historyUser := x10\<rparr>) = page_ok p"
  "page_ok (p\<lparr>ap_historyName := x11\<rparr>) = page_ok p"
  "page_ok (p\<lparr>ap_caseReason := x12\<rparr>) = page_ok p"
  "page_ok (p\<lparr>ap_menuId := x13\<rparr>) = page_ok p"
  "page_ok (p\<lparr>ap_ipAddress := x14\<rparr>) = page_ok p"
  "page_ok (p\<lparr>ap_ipReason := x15\<rparr>) = page_ok p"
  "page_ok (p\<lparr>ap_phase := x16\<rparr>) = page_ok p"
  "page_ok (p\<lparr>ap_startsAt := x17\<rparr>) = page_ok p"
  "page_ok (p\<lparr>ap_endsAt := x18\<rparr>) = page_ok p"
  "page_ok (p\<lparr>ap_queuePaused := x19\<rparr>) = page_ok p"
  "page_ok (p\<lparr>ap_playPaused := x20\<rparr>) = page_ok p"
  "page_ok (p\<lparr>ap_message := x21\<rparr>) = page_ok p"
  "page_ok (p\<lparr>ap_webhook := x22\<rparr>) = page_ok p"
  "page_ok (p\<lparr>ap_nextSeason := x23\<rparr>) = page_ok p"
  "page_ok (p\<lparr>ap_seasonResult := x24\<rparr>) = page_ok p"
  "page_ok (p\<lparr>ap_debugUser := x25\<rparr>) = page_ok p"
  "page_ok (p\<lparr>ap_debugCategory := x26\<rparr>) = page_ok p"
  "page_ok (p\<lparr>ap_debugReason := x27\<rparr>) = page_ok p"
  "page_ok (p\<lparr>ap_debugResult := x28\<rparr>) = page_ok p"
  "page_ok (p\<lparr>ap_cache := x29\<rparr>) = page_ok p"
  "page_ok (p\<lparr>ap_stale := x30\<rparr>) = page_ok p"
  by (simp_all add: page_ok_def)

lemma pending_drafts [simp]:
  "isPending k (p\<lparr>ap_webhook := s\<rparr>) = isPending k p" "isPending k (p\<lparr>ap_menuId := s\<rparr>) = isPending k p"
  by (simp_all add: isPending_def split: option.split)

lemma debug_count_bounds: "1 \<le> debug_count n \<and> debug_count n \<le> 20"
  by (cases n) auto

lemma count_page_ok: "page_ok p \<Longrightarrow> page_ok (p\<lparr>ap_debugCount := debug_count n\<rparr>)"
  using debug_count_bounds [of n] by (simp add: page_ok_def)

lemma history_page_ok [simp]: "page_ok (showPlayerHistory u n p) = page_ok p"
  by (simp add: showPlayerHistory_def)

lemma content_page_ok: "page_ok p \<Longrightarrow> page_ok (content_handler env ev p)"
  by (cases ev) (simp_all add: mutate_page_ok split: option.split)

lemma season_page_ok: "page_ok p \<Longrightarrow> page_ok (season_handler env ev p)"
  by (cases ev) (simp_all add: mutate_page_ok Let_def)

lemma maintenance_page_ok: "page_ok p \<Longrightarrow> page_ok (maintenance_handler env ev p)"
  by (cases ev) (simp_all add: mutate_page_ok)

lemma webhook_page_ok: "page_ok p \<Longrightarrow> page_ok (webhook_handler env ev p)"
  by (cases ev) (simp_all add: mutate_page_ok)

lemma ip_page_ok: "page_ok p \<Longrightarrow> page_ok (ip_handler env ev p)"
  by (cases ev) (simp_all add: mutate_page_ok repeatable_def)

lemma queue_page_ok: "page_ok p \<Longrightarrow> page_ok (queue_handler env ev p)"
  by (cases ev) (simp_all)

lemma case_page_ok: "page_ok p \<Longrightarrow> page_ok (case_handler env ev p)"
  by (cases ev) (simp_all add: mutate_page_ok)

lemma debug_page_ok: "page_ok p \<Longrightarrow> page_ok (debug_handler env ev p)"
  by (cases ev) (simp_all add: mutate_page_ok count_page_ok)

lemma row_page_ok: "page_ok p \<Longrightarrow> page_ok (row_handler env ev p)"
  by (cases ev) (simp_all add: mutate_page_ok repeatable_def Let_def)

lemmas handlers_page_ok = content_page_ok season_page_ok maintenance_page_ok webhook_page_ok ip_page_ok
  queue_page_ok case_page_ok debug_page_ok row_page_ok

lemma admin_step_ok: "page_ok p \<Longrightarrow> page_ok (admin_step env ev p)"
  by (cases ev)
     (simp_all add: handlers_page_ok player_handler_def query_runs_def query_answered_def answered_page_ok
        mutation_refreshed_def filter_page_ok maintenance_effect_def settings_effect_def Let_def
        split: option.split)

interpretation admin_pages: invariant_machine "\<lambda>(env, ev). admin_step env ev" page_ok
  by unfold_locales (auto simp: admin_step_ok)

lemma new_page_ok: "page_ok new_admin_page"
  by (simp add: page_ok_def)

lemma page_ok_run: "page_ok (admin_run_from steps new_admin_page)"
  unfolding admin_run_from_def by (rule admin_pages.run_inv [OF new_page_ok])

lemma kinds_distinct:
  "distinct (map ar_id as) \<Longrightarrow>
   \<forall>a \<in> set as. ar_id a < n \<and> (\<not> repeatable (run_kind a) \<longrightarrow> l (run_kind a) = Some (ar_id a)) \<Longrightarrow>
   distinct (filter (\<lambda>k. \<not> repeatable k) (map run_kind as))"
proof (induction as)
  case (Cons a as)
  have "run_kind a \<notin> run_kind ` set as \<or> repeatable (run_kind a)"
  proof (rule ccontr)
    assume c: "\<not> ?thesis"
    then obtain b where b: "b \<in> set as" "run_kind b = run_kind a" by fastforce
    with c Cons.prems(2) have "Some (ar_id b) = Some (ar_id a)" by (metis list.set_intros)
    with b Cons.prems(1) show False by (auto simp: image_iff)
  qed
  with Cons show ?case by auto
qed simp

section \<open>Properties\<close>

text \<open>
  C27. On a page that never had administration rights, whatever is typed, pressed, fetched or answered, every
  request is one of moderation: the search for players, their matches, a ban, and the cases. Without the
  rights of a moderator nothing is sent at all.
\<close>

theorem moderator_requests:
  assumes "list_all (\<lambda>(env, _). \<not> ae_isAdmin env \<and> ae_cfg env = cfg) steps"
  shows "list_all (moderation_request cfg) (ap_sent (admin_run_from steps new_admin_page)) \<and>
         (list_all (\<lambda>(env, _). \<not> ae_isModerator env) steps \<longrightarrow> ap_sent (admin_run_from steps new_admin_page) = [])"
proof
  have "requests_ok (moderation_request cfg) p \<Longrightarrow>
        requests_ok (moderation_request cfg) (admin_run_from steps p)" for p
    using assms
  proof (induction steps arbitrary: p)
    case (Cons s steps)
    obtain env ev where "s = (env, ev)" by (cases s)
    with Cons moderator_step [of env p ev] show ?case
      by (auto simp: admin_run_from_def canManageAdmin_def)
  qed (simp add: admin_run_from_def)
  then show "list_all (moderation_request cfg) (ap_sent (admin_run_from steps new_admin_page))"
    using requests_ok_def by (metis list.pred_inject(1) new_admin_page_simps(1,2))
next
  have "ap_sent p = [] \<and> ap_runs p = [] \<Longrightarrow> list_all (\<lambda>(env, _). \<not> ae_isModerator env) steps \<Longrightarrow>
        ap_sent (admin_run_from steps p) = []" for p
    using assms
  proof (induction steps arbitrary: p)
    case (Cons s steps)
    obtain env ev where "s = (env, ev)" by (cases s)
    with Cons visitor_step [of env p ev] show ?case
      by (auto simp: admin_run_from_def canViewReports_def)
  qed (simp add: admin_run_from_def)
  then show "list_all (\<lambda>(env, _). \<not> ae_isModerator env) steps \<longrightarrow>
      ap_sent (admin_run_from steps new_admin_page) = []" by simp
qed

definition demo_env :: "bool \<Rightarrow> tab_param \<Rightarrow> admin_env" where
  "demo_env admin tab =
     \<lparr>ae_cfg = createRuntimeConfig (\<lambda>_. None) [], ae_token = ''t'', ae_isAdmin = admin, ae_isModerator = True,
      ae_tab = tab, ae_now = 0, ae_date = (\<lambda>_. None), ae_offset = (\<lambda>_. 0)\<rparr>"

lemma demo_env_simps [simp]:
  "ae_cfg (demo_env admin tab) = createRuntimeConfig (\<lambda>_. None) []" "ae_token (demo_env admin tab) = ''t''"
  "ae_isAdmin (demo_env admin tab) = admin" "ae_isModerator (demo_env admin tab)"
  "ae_tab (demo_env admin tab) = tab"
  by (simp_all add: demo_env_def)

theorem moderator_requests_witness:
  "list_all (moderation_request (createRuntimeConfig (\<lambda>_. None) []))
     (ap_sent (admin_run_from [(demo_env False (TabText ''reports''), QueryRuns (QPlayers ''ann'')),
                               (demo_env False (TabText ''access''), OnIP AddIPPressed)] new_admin_page))"
  by (rule moderator_requests [THEN conjunct1]) simp

text \<open>
  While one request of the page is answered, its button cannot start it again: apart from unbanning and
  from removing an address, no mutation is in flight twice; and the number of test reports asked for stays
  between one and twenty.
\<close>

theorem admin_mutations_exclusive:
  "distinct (filter (\<lambda>k. \<not> repeatable k) (map run_kind (ap_runs (admin_run_from steps new_admin_page)))) \<and>
   1 \<le> ap_debugCount (admin_run_from steps new_admin_page) \<and>
   ap_debugCount (admin_run_from steps new_admin_page) \<le> 20"
proof -
  have "page_ok (admin_run_from steps new_admin_page)" by (rule page_ok_run)
  with kinds_distinct show ?thesis unfolding page_ok_def by blast
qed

section \<open>Half a ban, and a text that cannot be emptied\<close>

lemma find_last: "P x \<Longrightarrow> \<forall>a \<in> set xs. \<not> P a \<Longrightarrow> find P (xs @ [x]) = Some x"
  by (induction xs) auto

lemma find_new_run:
  assumes "page_ok p"
  shows "find (\<lambda>a. ar_id a = ap_next p) (ap_runs (mutateAsync env m p)) =
         Some \<lparr>ar_id = ap_next p, ar_mutation = m, ar_calls = mutation_calls env m\<rparr>"
proof -
  have "\<forall>a \<in> set (ap_runs p). ar_id a \<noteq> ap_next p" using assms by (auto simp: page_ok_def)
  then show ?thesis by (simp add: mutateAsync_def Let_def find_last)
qed

lemma find_set_calls:
  "find (\<lambda>a. ar_id a = i) (ap_runs (set_calls i calls p)) =
   map_option (\<lambda>a. a\<lparr>ar_calls := calls\<rparr>) (find (\<lambda>a. ar_id a = i) (ap_runs p))"
proof -
  have "find (\<lambda>a. ar_id a = i) (map (\<lambda>a. if ar_id a = i then a\<lparr>ar_calls := calls\<rparr> else a) as) =
        map_option (\<lambda>a. a\<lparr>ar_calls := calls\<rparr>) (find (\<lambda>a. ar_id a = i) as)" for as
    by (induction as) auto
  then show ?thesis by (simp add: set_calls_def)
qed

lemma answered_next_call:
  assumes "find (\<lambda>a. ar_id a = i) (ap_runs p) = Some a" and "ar_calls a = c # c' # cs" and "snd c resp = Inr v"
  shows "mutation_answered i (Inr resp) p = (set_calls i (c' # cs) p)\<lparr>ap_sent := ap_sent p @ [fst c']\<rparr>"
  using assms by (simp add: mutation_answered_def)

lemma answered_refused:
  assumes "find (\<lambda>a. ar_id a = i) (ap_runs p) = Some a" and "ar_calls a = c # cs"
  shows "mutation_answered i (Inl e) p = mutation_failed a e p"
  using assms by (simp add: mutation_answered_def)

lemma mutation_frame [simp]:
  "ap_sent (mutation_failed a e p) = ap_sent p" "ap_stale (mutation_failed a e p) = ap_stale p"
  "ap_cache (mutation_failed a e p) = ap_cache p" "ap_query (mutation_failed a e p) = ap_query p"
  "ap_stale (set_calls i cs p) = ap_stale p" "ap_cache (set_calls i cs p) = ap_cache p"
  "ap_query (set_calls i cs p) = ap_query p" "ap_stale (mutateAsync env m p) = ap_stale p"
  "ap_cache (mutateAsync env m p) = ap_cache p" "ap_query (mutateAsync env m p) = ap_query p"
  "ap_sent (mutateAsync env m p) = ap_sent p @ [fst (hd (mutation_calls env m))]"
  by (simp_all add: mutation_failed_def drop_run_def set_calls_def mutateAsync_def Let_def)

lemma admin_players_cong:
  "ap_query q = ap_query p \<Longrightarrow> ap_cache q = ap_cache p \<Longrightarrow> admin_players env q = admin_players env p"
  by (simp add: admin_players_def query_data_def)

text \<open>
  A ban with the address of the player is two requests. When the first succeeds and the second is
  refused, the player is banned but the page refreshes nothing: the same row goes on offering the ban.
\<close>

theorem ban_half_done:
  assumes "p = admin_run_from steps new_admin_page" and "on_tab env TabPlayers" and "canManageAdmin env"
    and "pl \<in> set (admin_players env p)" and "\<not> player_is ''isBanned'' pl"
    and "text_field pl ''lastIpAddress'' \<noteq> []" and "\<not> isPending KBanWithIP p" and "rs_ok resp"
  shows "let p' = fold (admin_step env)
                [OnPlayer (BanIPPressed pl), MutationAnswered (ap_next p) (Inr resp),
                 MutationAnswered (ap_next p) (Inl e)] p in
     map rq_url (drop (length (ap_sent p)) (ap_sent p')) =
       [apiURL (ae_cfg env) @ ''/v1/admin/'' @ player_path (player_id pl) ''/ban'',
        apiURL (ae_cfg env) @ ''/v1/admin/ip-signup-bans''] \<and>
     ap_stale p' = ap_stale p \<and> pl \<in> set (admin_players env p')"
proof -
  let ?m = "BanWithIP (player_id pl) (ban_reason p (player_id pl)) (text_field pl ''lastIpAddress'')"
  let ?i = "ap_next p"
  define p1 where "p1 = mutateAsync env ?m p"
  have 1: "admin_step env (OnPlayer (BanIPPressed pl)) p = p1"
    using assms(2-7) by (simp add: p1_def player_handler_def Let_def)
  obtain c c' where calls: "mutation_calls env ?m = [c, c']" and c: "snd c resp = Inr Undefined"
    and urls: "rq_url (fst c) = apiURL (ae_cfg env) @ ''/v1/admin/'' @ player_path (player_id pl) ''/ban''"
      "rq_url (fst c') = apiURL (ae_cfg env) @ ''/v1/admin/ip-signup-bans''"
    using assms(8)
    by (simp add: unit_call_def requestAdminBanPlayer_def requestAdminAddIPSignupBan_def admin_do_def
          admin_request_def unit_or_throw_def)
  have found: "find (\<lambda>a. ar_id a = ?i) (ap_runs p1) =
      Some \<lparr>ar_id = ?i, ar_mutation = ?m, ar_calls = [c, c']\<rparr>"
    using find_new_run [OF page_ok_run, of steps env ?m] calls by (simp add: p1_def assms(1))
  define p2 where "p2 = (set_calls ?i [c'] p1)\<lparr>ap_sent := ap_sent p1 @ [fst c']\<rparr>"
  have 2: "admin_step env (MutationAnswered ?i (Inr resp)) p1 = p2"
    using answered_next_call [OF found _ c] by (simp add: p2_def)
  have found2: "find (\<lambda>a. ar_id a = ?i) (ap_runs p2) = Some \<lparr>ar_id = ?i, ar_mutation = ?m, ar_calls = [c']\<rparr>"
    using find_set_calls [of ?i "[c']" p1] found by (simp add: p2_def)
  obtain a where 3: "admin_step env (MutationAnswered ?i (Inl e)) p2 = mutation_failed a e p2"
    using answered_refused [OF found2] by simp
  have "admin_players env (mutation_failed a e p2) = admin_players env p"
    by (rule admin_players_cong) (simp_all add: p1_def p2_def)
  moreover have "ap_sent p2 = ap_sent p @ [fst c, fst c']" "ap_stale p2 = ap_stale p"
    using calls by (simp_all add: p1_def p2_def del: mutation_calls.simps)
  moreover have "fold (admin_step env)
      [OnPlayer (BanIPPressed pl), MutationAnswered ?i (Inr resp), MutationAnswered ?i (Inl e)] p =
      mutation_failed a e p2"
    using 1 2 3 by (simp del: admin_step.simps)
  ultimately show ?thesis
    using assms(4) urls by (simp only: Let_def) simp
qed

definition demo_player :: jv where
  "demo_player = Obj [(''userId'', Str ''u''), (''lastIpAddress'', Str ''1.1.1.1'')]"

definition demo_players_answered :: "admin_env \<times> admin_event" where
  "demo_players_answered =
     (demo_env True (TabText ''players''), QueryAnswered ''t'' (QPlayers []) (Obj [(''players'', Arr [demo_player])]))"

theorem ban_half_done_witness:
  "let env = demo_env True (TabText ''players''); p = admin_run_from [demo_players_answered] new_admin_page;
       p' = fold (admin_step env)
              [OnPlayer (BanIPPressed demo_player),
               MutationAnswered (ap_next p) (Inr \<lparr>rs_ok = True, rs_status = 204, rs_json = None, rs_text = []\<rparr>),
               MutationAnswered (ap_next p) (Inl AbortError)] p in
   ap_stale p' = ap_stale p \<and> demo_player \<in> set (admin_players env p')"
proof -
  define p where "p = admin_run_from [demo_players_answered] new_admin_page"
  have p: "p = new_admin_page\<lparr>ap_cache := [((''t'', QPlayers []), Obj [(''players'', Arr [demo_player])])]\<rparr>"
    by (simp add: p_def admin_run_from_def demo_players_answered_def query_answered_def new_admin_page_def)
  show ?thesis
    using ban_half_done [of p "[demo_players_answered]" "demo_env True (TabText ''players'')" demo_player
        "\<lparr>rs_ok = True, rs_status = 204, rs_json = None, rs_text = []\<rparr>" AbortError]
    unfolding p_def [symmetric] Let_def
    by (simp add: p_def [symmetric] del: fold_simps fold.simps)
       (simp add: p on_tab_def canViewReports_def canManageAdmin_def activeTab_def tab_text_def tab_named_def
          admin_players_def query_data_def new_admin_page_def demo_player_def player_is_def text_field_def
          isPending_def del: fold_simps fold.simps)
qed

text \<open>
  A text of the changelog cannot be emptied: clearing the title shows, and saves, the stored one.
\<close>

theorem changelog_keeps_title:
  assumes "on_tab env TabContent" and "\<not> isPending KChangelog p"
    and "jfield (query_data env QChangelog p) ''title'' = Str t"
  shows "(let p' = fold (admin_step env) [OnContent (TitleTyped []), OnContent SaveChangelogPressed] p in
          length (ap_sent p') = length (ap_sent p) + 1 \<and>
          map_option (\<lambda>b. jfield b ''title'') (rq_body (last (ap_sent p'))) = Some (Str t))"
proof -
  have "query_data env QChangelog (p\<lparr>ap_title := []\<rparr>) = query_data env QChangelog p"
    by (simp add: query_data_def)
  moreover have "\<not> isPending KChangelog (p\<lparr>ap_title := []\<rparr>)"
    using assms(2) by (simp add: isPending_def split: option.splits)
  ultimately show ?thesis
    using assms(1,3)
    by (simp add: Let_def unit_call_def requestAdminPutChangelog_def admin_do_def admin_request_def
          effectiveTitle_def)
qed

theorem changelog_keeps_title_witness:
  "(let env = demo_env True (TabText ''content'');
        p' = fold (admin_step env) [OnContent (TitleTyped []), OnContent SaveChangelogPressed]
               (new_admin_page\<lparr>ap_cache := [((''t'', QChangelog), Obj [(''title'', Str ''Old'')])]\<rparr>) in
    map_option (\<lambda>b. jfield b ''title'') (rq_body (last (ap_sent p'))) = Some (Str ''Old''))"
  using changelog_keeps_title
    [of "demo_env True (TabText ''content'')"
        "new_admin_page\<lparr>ap_cache := [((''t'', QChangelog), Obj [(''title'', Str ''Old'')])]\<rparr>" "''Old''"]
  by (simp add: Let_def on_tab_def canViewReports_def canManageAdmin_def activeTab_def tab_text_def tab_named_def
        isPending_def query_data_def del: admin_step.simps)

end
