(* ===== verification/LobbySettings.thy ===== *)
theory LobbySettings
  imports LobbyController
begin

text \<open>
  The settings of a private lobby as its owner changes them in \<open>components/ui/LobbyScreen.tsx\<close>
  (\<open>saveLobbyConfig\<close> and the selects around it), the conditions for starting it, and the normal form the
  server stores, \<open>NormalizeMatchConfig\<close> in \<open>src/pkg/contracts/contracts.go\<close>. A field that is undefined on
  the page is absent in the JSON text and empty or zero for the server, which leaves it out again: None. The
  limits are far inside 64 bits.
\<close>

section \<open>The server's normal form\<close>

definition DefaultFixedRoundTimeMS :: int where "DefaultFixedRoundTimeMS = 45000"
definition MinimumFixedRoundTimeMS :: int where "MinimumFixedRoundTimeMS = 10000"
definition MaximumFixedRoundTimeMS :: int where "MaximumFixedRoundTimeMS = 120000"
definition DefaultPressureTimeMS :: int where "DefaultPressureTimeMS = 15000"

lemmas time_limits =
  DefaultFixedRoundTimeMS_def MinimumFixedRoundTimeMS_def MaximumFixedRoundTimeMS_def DefaultPressureTimeMS_def

definition NormalizeRuleset :: "ruleset option \<Rightarrow> ruleset option" where
  "NormalizeRuleset v = (if v = Some Nmpz then Some Nmpz else Some Moving)"

definition MapKeyForRuleset :: "ruleset option \<Rightarrow> string" where
  "MapKeyForRuleset r = (if NormalizeRuleset r = Some Nmpz then ''a-location-world'' else ''a-source-world'')"

text \<open>A number the server keeps, and leaves out of its JSON text when it is zero.\<close>

definition nonzero :: "int \<Rightarrow> int option" where
  "nonzero n = (if n = 0 then None else Some n)"

definition NormalizeMatchConfig :: "match_config \<Rightarrow> match_config" where
  "NormalizeMatchConfig cfg0 =
     (let cfg1 = cfg0\<lparr>cfg_ruleset := NormalizeRuleset (cfg_ruleset cfg0)\<rparr>;
          cfg = cfg1\<lparr>cfg_mapKey := Some (or_str (opt_str (cfg_mapKey cfg1)) (MapKeyForRuleset (cfg_ruleset cfg1)))\<rparr>;
          limit = or_zero (cfg_roundTimeLimitMs cfg);
          pressure = or_zero (cfg_pressureTimeLimitMs cfg);
          kept = (if pressure \<le> 0 then DefaultPressureTimeMS else pressure);
          fixed = min MaximumFixedRoundTimeMS
                    (max MinimumFixedRoundTimeMS (if limit \<le> 0 then DefaultFixedRoundTimeMS else limit));
          final = (case cfg_roundTimerMode cfg of
              None \<Rightarrow> (TimerNone, 0, kept)
            | Some TimerFixed \<Rightarrow> (TimerFixed, fixed, pressure)
            | Some TimerPressure \<Rightarrow> (TimerNone, 0, kept)
            | Some TimerNone \<Rightarrow> (TimerNone, 0, pressure))
      in case final of (mode, l, pr) \<Rightarrow>
        cfg\<lparr>cfg_roundTimerMode := Some mode, cfg_roundTimeLimitMs := nonzero l,
            cfg_pressureTimeLimitMs := nonzero (if pr \<noteq> DefaultPressureTimeMS then 0 else pr)\<rparr>)"

section \<open>What the owner picks\<close>

definition default_lobby_config :: match_config where
  "default_lobby_config =
     \<lparr>cfg_ruleset = Some Moving, cfg_mapKey = None, cfg_roundTimerMode = Some TimerNone,
      cfg_roundTimeLimitMs = None, cfg_pressureTimeLimitMs = Some 15000\<rparr>"

definition shown_lobby_config :: "lobby option \<Rightarrow> match_config" where
  "shown_lobby_config snap = (case Option.bind snap lb_config of None \<Rightarrow> default_lobby_config | Some c \<Rightarrow> c)"

definition lobby_mode :: "lobby option \<Rightarrow> party_mode" where
  "lobby_mode snap = (case snap of None \<Rightarrow> PartyDuel | Some l \<Rightarrow> lb_mode l)"

definition lobbyClockOn :: "match_config \<Rightarrow> bool" where
  "lobbyClockOn c \<longleftrightarrow> cfg_roundTimerMode c = Some TimerFixed"

definition lobbyPressureOn :: "match_config \<Rightarrow> bool" where
  "lobbyPressureOn c \<longleftrightarrow> 0 < or_zero (cfg_pressureTimeLimitMs c) \<or> cfg_roundTimerMode c = Some TimerPressure"

definition or_number :: "int option \<Rightarrow> int \<Rightarrow> int" where
  "or_number v d = (if or_zero v = 0 then d else or_zero v)"

definition lobbyRoundSeconds :: "match_config \<Rightarrow> int" where
  "lobbyRoundSeconds c = (or_number (cfg_roundTimeLimitMs c) 45000 + 500) div 1000"

definition lobbyPressureSeconds :: "match_config \<Rightarrow> int" where
  "lobbyPressureSeconds c =
     (if lobbyPressureOn c then (or_number (cfg_pressureTimeLimitMs c) 15000 + 500) div 1000 else 0)"

definition DOT :: string where
  "DOT = [CHR '' '', CHR 0xC2, CHR 0xB7, CHR '' '']"

definition settings_label :: "match_config \<Rightarrow> string" where
  "settings_label c =
     (if cfg_ruleset c = Some Nmpz then ''NMPZ'' else ''Moving'') @ DOT @
     (if lobbyClockOn c then int_str (lobbyRoundSeconds c) @ ''s clock'' else ''Infinite clock'') @ DOT @
     (if lobbyPressureOn c then int_str (lobbyPressureSeconds c) @ ''s pressure'' else ''No pressure'')"

text \<open>The patch of each select; the values a select has are those of its options.\<close>

datatype config_patch = PickRuleset ruleset | PickInfinite | PickClock int | PickPressure bool

definition CLOCK_SECONDS :: "int list" where
  "CLOCK_SECONDS = [30, 45, 60, 90, 120]"

fun offered_patch :: "config_patch \<Rightarrow> bool" where
  "offered_patch (PickClock s) = (s \<in> set CLOCK_SECONDS)"
| "offered_patch _ = True"

fun patch_config :: "config_patch \<Rightarrow> match_config \<Rightarrow> match_config" where
  "patch_config (PickRuleset r) c = c\<lparr>cfg_ruleset := Some r\<rparr>"
| "patch_config PickInfinite c = c\<lparr>cfg_roundTimerMode := Some TimerNone, cfg_roundTimeLimitMs := None\<rparr>"
| "patch_config (PickClock s) c = c\<lparr>cfg_roundTimerMode := Some TimerFixed, cfg_roundTimeLimitMs := Some (s * 1000)\<rparr>"
| "patch_config (PickPressure b) c = c\<lparr>cfg_pressureTimeLimitMs := (if b then Some 15000 else None)\<rparr>"

definition saveLobbyConfig :: "match_config \<Rightarrow> config_patch \<Rightarrow> match_config" where
  "saveLobbyConfig lobbyConfig patch =
     (let next1 = patch_config patch lobbyConfig;
          next2 = (if cfg_roundTimerMode next1 \<noteq> Some TimerFixed
                   then next1\<lparr>cfg_roundTimerMode := Some TimerNone, cfg_roundTimeLimitMs := None\<rparr>
                   else next1\<lparr>cfg_roundTimeLimitMs :=
                          Some (max 10000 (min 120000 (or_number (cfg_roundTimeLimitMs next1) 45000)))\<rparr>)
      in if or_zero (cfg_pressureTimeLimitMs next2) \<noteq> 15000 then next2\<lparr>cfg_pressureTimeLimitMs := None\<rparr>
         else next2)"

section \<open>Starting\<close>

definition presence :: "lobby_member \<Rightarrow> string" where
  "presence m = or_str (opt_str (lm_presenceStatus m)) (if flag (lm_connected m) then ''online'' else ''offline'')"

definition presence_label :: "lobby_member \<Rightarrow> string" where
  "presence_label m =
     (if presence m = ''online'' then ''Online'' else if presence m = ''away'' then ''Reconnecting'' else ''Offline'')"

definition lobby_members :: "lobby option \<Rightarrow> lobby_member list" where
  "lobby_members snap = (case snap of None \<Rightarrow> [] | Some l \<Rightarrow> lb_members l)"

definition missingLobbyMembers :: "lobby option \<Rightarrow> lobby_member list" where
  "missingLobbyMembers snap = filter (\<lambda>m. presence m \<noteq> ''online'') (lobby_members snap)"

definition member_team :: "lobby_member \<Rightarrow> string" where
  "member_team m = or_str (opt_str (lm_teamId m)) ''a''"

definition teamACount :: "lobby option \<Rightarrow> nat" where
  "teamACount snap = length (filter (\<lambda>m. member_team m = ''a'') (lobby_members snap))"

definition teamBCount :: "lobby option \<Rightarrow> nat" where
  "teamBCount snap = length (filter (\<lambda>m. lm_teamId m = Some ''b'') (lobby_members snap))"

definition canStartPrivateLobby :: "bool \<Rightarrow> lobby option \<Rightarrow> bool" where
  "canStartPrivateLobby isOwner snap \<longleftrightarrow>
     (let n = length (lobby_members snap); mode = lobby_mode snap in
      isOwner \<and> map_option lb_state snap = Some LobbyOpen \<and>
      ((mode = PartyDuel \<and> n = 2) \<or>
       (mode = PartyTeamDuel \<and> 2 \<le> n \<and> n \<le> 8 \<and> 0 < teamACount snap \<and> 0 < teamBCount snap) \<or>
       (mode = PartyFreeForAll \<and> 2 \<le> n \<and> n \<le> 8)) \<and>
      missingLobbyMembers snap = [])"

definition lobbyTeamLabel :: "string option \<Rightarrow> string" where
  "lobbyTeamLabel teamId = (if teamId = Some ''b'' then ''Team Blue'' else ''Team Red'')"

section \<open>Lemmas\<close>

lemma nonzero_simps [simp]: "nonzero 0 = None" "n \<noteq> 0 \<Longrightarrow> nonzero n = Some n"
  by (simp_all add: nonzero_def)

text \<open>The server's normal form is one: a clock is off, or on within its bounds; the pressure is off or standard.\<close>

definition stored_config :: "match_config \<Rightarrow> bool" where
  "stored_config c \<longleftrightarrow>
     cfg_ruleset c \<noteq> None \<and> opt_str (cfg_mapKey c) \<noteq> [] \<and>
     (cfg_roundTimerMode c = Some TimerNone \<and> cfg_roundTimeLimitMs c = None \<or>
      cfg_roundTimerMode c = Some TimerFixed \<and>
        (\<exists>l. cfg_roundTimeLimitMs c = Some l \<and> 10000 \<le> l \<and> l \<le> 120000)) \<and>
     (cfg_pressureTimeLimitMs c = None \<or> cfg_pressureTimeLimitMs c = Some 15000)"

lemma normalize_stored: "stored_config (NormalizeMatchConfig c)"
  by (auto simp: stored_config_def NormalizeMatchConfig_def NormalizeRuleset_def MapKeyForRuleset_def time_limits
        nonzero_def Let_def split: option.splits round_timer_mode.splits)

lemma stored_fixpoint:
  assumes "stored_config c"
  shows "NormalizeMatchConfig c = c"
proof -
  obtain r where r: "cfg_ruleset c = Some r" using assms by (auto simp: stored_config_def)
  obtain k where k: "cfg_mapKey c = Some k" "k \<noteq> []"
    using assms by (cases "cfg_mapKey c") (auto simp: stored_config_def opt_str_def)
  show ?thesis
    using assms r k
    by (cases c; cases r)
       (auto simp: stored_config_def NormalizeMatchConfig_def NormalizeRuleset_def time_limits nonzero_def or_str_def
          opt_str_def or_zero_def Let_def)
qed

lemma normalize_match_idem: "NormalizeMatchConfig (NormalizeMatchConfig c) = NormalizeMatchConfig c"
  by (rule stored_fixpoint) (rule normalize_stored)

text \<open>What the page sends is in that form, up to the key of the map.\<close>

lemma or_number_bounds: "10000 \<le> max 10000 (min 120000 n) \<and> max 10000 (min 120000 n) \<le> (120000::int)"
  by auto

lemma saved_stored: "stored_config c \<Longrightarrow> stored_config (saveLobbyConfig c patch)"
  by (cases patch)
     (auto simp: stored_config_def saveLobbyConfig_def Let_def or_zero_def split: option.splits)

section \<open>Properties\<close>

text \<open>What a stored configuration shows of a pick.\<close>

fun shows_pick :: "config_patch \<Rightarrow> match_config \<Rightarrow> bool" where
  "shows_pick (PickRuleset r) c = (cfg_ruleset c = Some r)"
| "shows_pick PickInfinite c = (\<not> lobbyClockOn c)"
| "shows_pick (PickClock s) c = (lobbyClockOn c \<and> lobbyRoundSeconds c = s)"
| "shows_pick (PickPressure b) c = (lobbyPressureOn c = b)"

text \<open>
  C28. Whatever the owner of a lobby picks, the server stores what the page sends, and what is stored shows the
  pick: its normal form changes nothing, the clock has the picked seconds, the pressure is as picked.
\<close>

theorem lobby_settings_stored:
  assumes "offered_patch p"
  shows "let sent = saveLobbyConfig (NormalizeMatchConfig c) p in
         NormalizeMatchConfig sent = sent \<and> shows_pick p sent"
proof -
  let ?sent = "saveLobbyConfig (NormalizeMatchConfig c) p"
  have st: "stored_config ?sent" by (rule saved_stored [OF normalize_stored])
  have "shows_pick p ?sent"
    using assms normalize_stored [of c]
    by (cases p)
       (auto simp: stored_config_def saveLobbyConfig_def Let_def lobbyClockOn_def lobbyPressureOn_def
          lobbyRoundSeconds_def CLOCK_SECONDS_def or_number_def or_zero_def split: option.splits)
  with stored_fixpoint [OF st] show ?thesis by (simp add: Let_def)
qed

theorem lobby_settings_stored_witness:
  "shows_pick (PickClock 90) (saveLobbyConfig (NormalizeMatchConfig default_lobby_config) (PickClock 90))"
  using lobby_settings_stored [of "PickClock 90" default_lobby_config] by (simp add: Let_def CLOCK_SECONDS_def)

text \<open>
  Picking the other ruleset keeps the old map: the configuration the page spreads carries the key the
  server derived from the old ruleset, and the server only derives one where there is none.
\<close>

theorem ruleset_pick_keeps_map:
  assumes "cfg_mapKey c = None" and "Some r \<noteq> cfg_ruleset (NormalizeMatchConfig c)"
  shows "let stored = NormalizeMatchConfig (saveLobbyConfig (NormalizeMatchConfig c) (PickRuleset r)) in
         cfg_ruleset stored = Some r \<and> cfg_mapKey stored \<noteq> Some (MapKeyForRuleset (Some r))"
proof -
  let ?n = "NormalizeMatchConfig c"
  have key: "cfg_mapKey ?n = Some (MapKeyForRuleset (cfg_ruleset ?n))"
    using assms(1)
    by (simp add: NormalizeMatchConfig_def Let_def NormalizeRuleset_def MapKeyForRuleset_def split: prod.splits)
  have set: "cfg_ruleset ?n = Some Moving \<or> cfg_ruleset ?n = Some Nmpz"
    by (simp add: NormalizeMatchConfig_def Let_def NormalizeRuleset_def split: prod.splits)
  have "cfg_mapKey (saveLobbyConfig ?n (PickRuleset r)) = cfg_mapKey ?n"
    "cfg_ruleset (saveLobbyConfig ?n (PickRuleset r)) = Some r"
    by (simp_all add: saveLobbyConfig_def Let_def)
  with key set assms(2) stored_fixpoint [OF saved_stored [OF normalize_stored]] show ?thesis
    by (cases r) (auto simp: Let_def MapKeyForRuleset_def NormalizeRuleset_def)
qed

theorem ruleset_pick_keeps_map_witness:
  "cfg_mapKey (NormalizeMatchConfig (saveLobbyConfig (NormalizeMatchConfig default_lobby_config) (PickRuleset Nmpz)))
   \<noteq> Some (MapKeyForRuleset (Some Nmpz))"
proof -
  have "cfg_ruleset (NormalizeMatchConfig default_lobby_config) = Some Moving"
    by (simp add: NormalizeMatchConfig_def Let_def NormalizeRuleset_def default_lobby_config_def)
  then show ?thesis
    using ruleset_pick_keeps_map [of default_lobby_config Nmpz] by (simp add: Let_def default_lobby_config_def)
qed

end
