(* ===== verification/Markdown.thy ===== *)
theory Markdown
  imports JsValue
begin

text \<open>
  The markdown of the news panel, \<open>components/ui/LobbyScreen.tsx\<close>: \<open>renderMarkdownInline\<close>, the loop
  over the matches of its regular expression, and \<open>renderMarkdownBlocks\<close>, the loop over the lines. What is
  rendered is the tree of elements without its styles and keys. In each alternative of the expression a
  group excludes the character that ends it, so it never backtracks: a group is a span.
\<close>

section \<open>Inline elements\<close>

datatype md_inline = MdText string | MdLink string string | MdStrong string | MdEm string | MdCode string

definition span_until :: "char \<Rightarrow> string \<Rightarrow> string \<times> string" where
  "span_until c s = (takeWhile (\<lambda>x. x \<noteq> c) s, dropWhile (\<lambda>x. x \<noteq> c) s)"

definition match_link :: "string \<Rightarrow> (md_inline \<times> string) option" where
  "match_link s =
     (if \<not> starts_with s ''['' then None
      else case span_until (CHR '']'') (drop 1 s) of (label, r) \<Rightarrow>
        if label = [] \<or> \<not> starts_with r ''](''
        then None
        else case span_until (CHR '')'') (drop 2 r) of (href, q) \<Rightarrow>
          if href = [] \<or> \<not> starts_with q '')'' then None else Some (MdLink label href, drop 1 q))"

text \<open>A text between two marks \<open>m\<close>, free of the character \<open>c\<close> they begin with.\<close>

definition match_marked :: "string \<Rightarrow> char \<Rightarrow> (string \<Rightarrow> md_inline) \<Rightarrow> string \<Rightarrow> (md_inline \<times> string) option" where
  "match_marked m c el s =
     (if \<not> starts_with s m then None
      else case span_until c (drop (length m) s) of (body, r) \<Rightarrow>
        if body = [] \<or> \<not> starts_with r m then None else Some (el body, drop (length m) r))"

fun or_else :: "'a option \<Rightarrow> 'a option \<Rightarrow> 'a option" where
  "or_else None y = y"
| "or_else (Some x) _ = Some x"

definition md_match :: "string \<Rightarrow> (md_inline \<times> string) option" where
  "md_match s =
     or_else (match_link s)
       (or_else (match_marked ''**'' (CHR ''*'') MdStrong s)
          (or_else (match_marked ''_'' (CHR ''_'') MdEm s)
             (match_marked ''`'' (CHR ''`'') MdCode s)))"

text \<open>The markdown a rendered element stands for.\<close>

fun md_source :: "md_inline \<Rightarrow> string" where
  "md_source (MdText t) = t"
| "md_source (MdLink label href) = ''['' @ label @ '']('' @ href @ '')''"
| "md_source (MdStrong t) = ''**'' @ t @ ''**''"
| "md_source (MdEm t) = ''_'' @ t @ ''_''"
| "md_source (MdCode t) = ''`'' @ t @ ''`''"

lemma starts_with_drop: "starts_with s p \<Longrightarrow> s = p @ drop (length p) s"
  by (metis append_take_drop_id starts_with_def)

lemma span_until_append: "span_until c s = (a, b) \<Longrightarrow> s = a @ b"
  by (auto simp: span_until_def)

lemma match_marked_source:
  assumes "match_marked m c el s = Some (n, rest)"
  shows "\<exists>t. n = el t \<and> t \<noteq> [] \<and> s = m @ t @ m @ rest"
proof -
  obtain t r where sp: "span_until c (drop (length m) s) = (t, r)" by fastforce
  with assms have "starts_with s m" "t \<noteq> []" "starts_with r m" "n = el t" "rest = drop (length m) r"
    by (auto simp: match_marked_def split: if_splits)
  with span_until_append [OF sp] starts_with_drop show ?thesis by metis
qed

lemma match_link_source:
  assumes "match_link s = Some (n, rest)"
  shows "\<exists>t h. n = MdLink t h \<and> t \<noteq> [] \<and> s = md_source n @ rest"
proof -
  obtain t r where sp: "span_until (CHR '']'') (drop 1 s) = (t, r)" by fastforce
  obtain h q where sq: "span_until (CHR '')'') (drop 2 r) = (h, q)" by fastforce
  have f: "starts_with s ''[''" "t \<noteq> []" "starts_with r ''](''" "starts_with q '')''"
    "n = MdLink t h" "rest = drop 1 q"
    using assms sp sq by (auto simp: match_link_def split: if_splits)
  have "s = ''['' @ drop 1 s" "r = ''](''  @ drop 2 r" "q = '')'' @ drop 1 q"
    using starts_with_drop [OF f(1)] starts_with_drop [OF f(3)] starts_with_drop [OF f(4)]
    by (simp_all add: numeral_2_eq_2)
  with span_until_append [OF sp] span_until_append [OF sq] f(2,5,6) show ?thesis
    by (metis append.assoc md_source.simps(2))
qed

fun md_filled :: "md_inline \<Rightarrow> bool" where
  "md_filled (MdText t) = (t \<noteq> [])"
| "md_filled (MdLink label _) = (label \<noteq> [])"
| "md_filled (MdStrong t) = (t \<noteq> [])"
| "md_filled (MdEm t) = (t \<noteq> [])"
| "md_filled (MdCode t) = (t \<noteq> [])"

lemma or_else_Some: "or_else x y = Some z \<longleftrightarrow> x = Some z \<or> x = None \<and> y = Some z"
  by (cases x) auto

lemma md_match_source:
  assumes "md_match s = Some (n, rest)"
  shows "s = md_source n @ rest \<and> md_filled n \<and> (\<forall>t. n \<noteq> MdText t)"
  using assms unfolding md_match_def or_else_Some
  by (auto dest!: match_link_source match_marked_source)

lemma md_match_shorter: "md_match s = Some (n, rest) \<Longrightarrow> length rest < length s"
proof -
  assume "md_match s = Some (n, rest)"
  then have "s = md_source n @ rest" "md_filled n" using md_match_source by blast+
  moreover have "md_source n \<noteq> []" using \<open>md_filled n\<close> by (cases n) auto
  ultimately show ?thesis by (metis length_append length_greater_0_conv less_add_same_cancel2)
qed

text \<open>The loop: \<open>acc\<close> is the text between \<open>lastIndex\<close> and the position the expression is tried at.\<close>

definition text_nodes :: "string \<Rightarrow> md_inline list" where
  "text_nodes acc = (if acc = [] then [] else [MdText acc])"

function md_scan :: "string \<Rightarrow> string \<Rightarrow> md_inline list" where
  "md_scan acc [] = text_nodes acc"
| "md_scan acc (c # s) =
     (case md_match (c # s) of
        None \<Rightarrow> md_scan (acc @ [c]) s
      | Some (n, rest) \<Rightarrow> text_nodes acc @ n # md_scan [] rest)"
  by pat_completeness auto

termination
  by (relation "measure (\<lambda>(acc, s). length s)") (auto dest: md_match_shorter)

definition renderMarkdownInline :: "string \<Rightarrow> md_inline list" where
  "renderMarkdownInline text = md_scan [] text"

text \<open>No character is lost, and no element is empty.\<close>

lemma text_nodes_source [simp]: "concat (map md_source (text_nodes acc)) = acc"
  by (simp add: text_nodes_def)

lemma md_scan_hit: "md_match (c # s) = Some (n, rest) \<Longrightarrow> md_scan acc (c # s) = text_nodes acc @ n # md_scan [] rest"
  by simp

lemma md_scan_source: "concat (map md_source (md_scan acc s)) = acc @ s"
proof (induction acc s rule: md_scan.induct)
  case (2 acc c s)
  show ?case
  proof (cases "md_match (c # s)")
    case None
    with 2(1) show ?thesis by simp
  next
    case (Some nr)
    then obtain n rest where m: "md_match (c # s) = Some (n, rest)" by (cases nr) auto
    have "concat (map md_source (md_scan [] rest)) = rest" using 2(2) m by simp
    moreover have "c # s = md_source n @ rest" using md_match_source [OF m] by simp
    ultimately show ?thesis unfolding md_scan_hit [OF m] by simp
  qed
qed simp

lemma md_scan_filled: "list_all md_filled (md_scan acc s)"
proof (induction acc s rule: md_scan.induct)
  case (2 acc c s)
  show ?case
  proof (cases "md_match (c # s)")
    case None
    with 2(1) show ?thesis by simp
  next
    case (Some nr)
    then obtain n rest where m: "md_match (c # s) = Some (n, rest)" by (cases nr) auto
    have "list_all md_filled (md_scan [] rest)" using 2(2) m by simp
    with md_match_source [OF m] show ?thesis unfolding md_scan_hit [OF m] by (simp add: text_nodes_def)
  qed
qed (simp add: text_nodes_def)

lemma inline_filled: "list_all md_filled (renderMarkdownInline t)"
  by (simp add: renderMarkdownInline_def md_scan_filled)

lemma inline_source: "concat (map md_source (renderMarkdownInline t)) = t"
  by (simp add: renderMarkdownInline_def md_scan_source)

lemma inline_nonempty: "t \<noteq> [] \<Longrightarrow> renderMarkdownInline t \<noteq> []"
  using inline_source [of t] by auto

text \<open>A text without the characters of the syntax is rendered as it is.\<close>

definition plain_char :: "char \<Rightarrow> bool" where
  "plain_char c \<longleftrightarrow> c \<notin> {CHR ''['', CHR ''*'', CHR ''_'', CHR ''`''}"

lemma md_match_plain: "plain_char c \<Longrightarrow> md_match (c # s) = None"
  by (simp add: md_match_def match_link_def match_marked_def starts_with_def plain_char_def)

lemma md_scan_plain: "list_all plain_char s \<Longrightarrow> md_scan acc s = text_nodes (acc @ s)"
  by (induction s arbitrary: acc) (simp_all add: md_match_plain)

section \<open>Blocks\<close>

datatype md_block = MdHeading nat "md_inline list" | MdParagraph "md_inline list" | MdList "md_inline list list"

record md_state =
  md_blocks :: "md_block list"
  md_paragraph :: "string list"
  md_items :: "string list"

fun join_with :: "string \<Rightarrow> string list \<Rightarrow> string" where
  "join_with sep [] = []"
| "join_with sep [w] = w"
| "join_with sep (w # ws) = w @ sep @ join_with sep ws"

definition flushParagraph :: "md_state \<Rightarrow> md_state" where
  "flushParagraph st =
     (if md_paragraph st = [] then st
      else let text = js_trim (join_with '' '' (md_paragraph st)) in
        st\<lparr>md_blocks := md_blocks st @ (if text = [] then [] else [MdParagraph (renderMarkdownInline text)]),
           md_paragraph := []\<rparr>)"

definition flushList :: "md_state \<Rightarrow> md_state" where
  "flushList st =
     (if md_items st = [] then st
      else st\<lparr>md_blocks := md_blocks st @ [MdList (map renderMarkdownInline (md_items st))], md_items := []\<rparr>)"

definition md_heading :: "nat \<Rightarrow> string \<Rightarrow> md_state \<Rightarrow> md_state" where
  "md_heading level text st =
     (let st2 = flushList (flushParagraph st) in
      st2\<lparr>md_blocks := md_blocks st2 @ [MdHeading level (renderMarkdownInline text)]\<rparr>)"

definition md_line :: "string \<Rightarrow> md_state \<Rightarrow> md_state" where
  "md_line rawLine st =
     (let line = js_trim rawLine in
      if line = [] then flushList (flushParagraph st)
      else if starts_with line ''### '' then md_heading 3 (drop 4 line) st
      else if starts_with line ''## '' then md_heading 2 (drop 3 line) st
      else if starts_with line ''# '' then md_heading 1 (drop 2 line) st
      else if starts_with line ''- '' then
        (let st1 = flushParagraph st in st1\<lparr>md_items := md_items st1 @ [drop 2 line]\<rparr>)
      else st\<lparr>md_paragraph := md_paragraph st @ [line]\<rparr>)"

definition renderMarkdownBlocks :: "string \<Rightarrow> md_block list" where
  "renderMarkdownBlocks markdown =
     md_blocks (flushList (flushParagraph (fold md_line (split_on (CHR 0x0A) markdown)
       \<lparr>md_blocks = [], md_paragraph = [], md_items = []\<rparr>)))"

text \<open>Every block shows something: no empty heading, paragraph, list or item.\<close>

definition shows_text :: "md_inline list \<Rightarrow> bool" where
  "shows_text ns \<longleftrightarrow> ns \<noteq> [] \<and> list_all md_filled ns"

fun block_ok :: "md_block \<Rightarrow> bool" where
  "block_ok (MdHeading _ ns) = shows_text ns"
| "block_ok (MdParagraph ns) = shows_text ns"
| "block_ok (MdList items) = (items \<noteq> [] \<and> list_all shows_text items)"

lemma shows_inline: "t \<noteq> [] \<Longrightarrow> shows_text (renderMarkdownInline t)"
  by (simp add: shows_text_def inline_nonempty inline_filled)

definition md_ok :: "md_state \<Rightarrow> bool" where
  "md_ok st \<longleftrightarrow> list_all block_ok (md_blocks st) \<and> list_all (\<lambda>t. t \<noteq> []) (md_items st)"

lemma flush_ok: "md_ok st \<Longrightarrow> md_ok (flushParagraph st)" "md_ok st \<Longrightarrow> md_ok (flushList st)"
  by (auto simp: md_ok_def flushParagraph_def flushList_def Let_def shows_inline list_all_iff)

text \<open>A trimmed line does not end in the space its marker ends in, so text follows the marker.\<close>

lemma marker_text:
  assumes "starts_with (js_trim l) m" and "m \<noteq> []" and "is_space (last m)"
  shows "drop (length m) (js_trim l) \<noteq> []"
proof
  assume "drop (length m) (js_trim l) = []"
  with starts_with_drop [OF assms(1)] have "js_trim l = m" by simp
  with js_trim_ends [of l] assms(2,3) show False by simp
qed

lemma heading_ok: "md_ok st \<Longrightarrow> t \<noteq> [] \<Longrightarrow> md_ok (md_heading n t st)"
  using flush_ok by (simp add: md_heading_def Let_def md_ok_def shows_inline)

lemma item_ok: "md_ok st \<Longrightarrow> t \<noteq> [] \<Longrightarrow> md_ok (st\<lparr>md_items := md_items st @ [t]\<rparr>)"
  by (simp add: md_ok_def)

lemma para_ok [simp]: "md_ok (st\<lparr>md_paragraph := ls\<rparr>) = md_ok st"
  by (simp add: md_ok_def)

lemma line_ok: "md_ok st \<Longrightarrow> md_ok (md_line l st)"
  using marker_text [of l "''### ''"] marker_text [of l "''## ''"] marker_text [of l "''# ''"]
    marker_text [of l "''- ''"]
  by (auto simp: md_line_def Let_def heading_ok flush_ok item_ok is_space_def eval_nat_numeral)

lemmas split_on_plain [simp] = split_on_none split_on_append

section \<open>Properties\<close>

text \<open>
  C29. The inline markdown of a text loses nothing: reading the rendered elements back gives the text, character
  by character, and no element is empty. The loop over the matches always ends.
\<close>

theorem markdown_inline_faithful:
  "concat (map md_source (renderMarkdownInline text)) = text \<and> list_all md_filled (renderMarkdownInline text)"
  by (simp add: inline_source inline_filled)

theorem markdown_blocks_show_text: "list_all block_ok (renderMarkdownBlocks markdown)"
proof -
  have "md_ok st \<Longrightarrow> md_ok (fold md_line ls st)" for ls st
    by (induction ls arbitrary: st) (auto simp: line_ok)
  then show ?thesis
    unfolding renderMarkdownBlocks_def using flush_ok by (metis md_ok_def list.pred_inject(1) md_state.select_convs(1,3))
qed

definition plain_line :: "string \<Rightarrow> bool" where
  "plain_line l \<longleftrightarrow> l \<noteq> [] \<and> js_trim l = l \<and> CHR 0x0A \<notin> set l \<and>
     \<not> starts_with l ''### '' \<and> \<not> starts_with l ''## '' \<and> \<not> starts_with l ''# '' \<and> \<not> starts_with l ''- ''"

text \<open>
  A line of text right after the items of a list is rendered in front of them: the paragraph is flushed
  before the list, and a line of text does not end a list.
\<close>

theorem text_after_list_swapped:
  assumes "plain_line a" and "plain_line b"
  shows "renderMarkdownBlocks (''- '' @ a @ CHR 0x0A # b) =
         [MdParagraph (renderMarkdownInline b), MdList [renderMarkdownInline a]]"
proof -
  have "js_trim (''- '' @ a) = ''- '' @ a"
    using assms(1) js_trim_ends [of a] by (intro js_trim_id) (auto simp: plain_line_def is_space_def)
  moreover have "split_on (CHR 0x0A) ((''- '' @ a) @ CHR 0x0A # b) = [''- '' @ a, b]"
    using assms by (subst split_on_append) (auto simp: plain_line_def)
  ultimately show ?thesis
    using assms
    by (simp add: renderMarkdownBlocks_def plain_line_def md_line_def flushParagraph_def flushList_def Let_def
          starts_with_def)
qed

theorem text_after_list_swapped_witness:
  "renderMarkdownBlocks (''- '' @ ''one'' @ CHR 0x0A # ''two'') =
   [MdParagraph (renderMarkdownInline ''two''), MdList [renderMarkdownInline ''one'']]"
  by (rule text_after_list_swapped)
     (simp_all add: plain_line_def js_trim_def is_space_def starts_with_def)

end
