(* ===== verification/LobbyScreen.thy ===== *)
theory LobbyScreen
  imports LobbySettings Markdown HomeEffects
begin

text \<open>
  \<open>components/ui/LobbyScreen.tsx\<close>: the screen as a machine. \<open>screen_props\<close> is what the page passes down,
  \<open>screen\<close> the component's own state with the calls it made of its callbacks, each with the properties it was
  made under. A button is pressed where it is rendered and enabled, which is part of its handler. \<open>parse\<close>
  is \<open>Date.parse\<close>; answers of awaited callbacks are events. Styles and animation are left out.
\<close>

section \<open>Times\<close>

definition parseTime :: "(string \<Rightarrow> num) \<Rightarrow> string \<Rightarrow> real option" where
  "parseTime parse value = (if value = [] then None else case parse value of Fin ms \<Rightarrow> Some ms | _ \<Rightarrow> None)"

definition formatRelativeDuration :: "real \<Rightarrow> string" where
  "formatRelativeDuration ms =
     (let totalSeconds = max 0 \<lceil>ms / 1000\<rceil>;
          hours = totalSeconds div 3600;
          minutes = totalSeconds mod 3600 div 60;
          seconds = totalSeconds mod 60
      in if hours > 0 then int_str hours @ ''h '' @ int_str minutes @ ''m''
         else if minutes > 0 then
           (if seconds > 0 then int_str minutes @ ''m '' @ int_str seconds @ ''s'' else int_str minutes @ ''m'')
         else int_str seconds @ ''s'')"

definition formatApproximateTime :: "real \<Rightarrow> string" where
  "formatApproximateTime ms =
     (let totalMinutes = max 1 \<lceil>ms / 60000\<rceil>; hours = totalMinutes div 60; minutes = totalMinutes mod 60
      in if totalMinutes \<ge> 60 then
           (if minutes = 0 then ''about '' @ int_str hours @ '' hour'' @ (if hours = 1 then [] else ''s'')
            else ''about '' @ int_str hours @ ''h '' @ int_str minutes @ ''m'')
         else ''about '' @ int_str totalMinutes @ '' minute'' @ (if totalMinutes = 1 then [] else ''s''))"

definition pad2 :: "string \<Rightarrow> string" where
  "pad2 s = replicate (2 - length s) CHR ''0'' @ s"

definition queue_seconds :: "real \<Rightarrow> int" where
  "queue_seconds ms = (if ms > 0 then max 1 \<lceil>ms / 1000\<rceil> else 0)"

definition formatQueueElapsed :: "real \<Rightarrow> string" where
  "formatQueueElapsed ms =
     (let t = queue_seconds ms in int_str (t div 60) @ '':'' @ pad2 (int_str (t mod 60)))"

section \<open>Properties and state\<close>

record screen_props =
  sp_userId :: string
  sp_userEmail :: string
  sp_displayName :: string
  sp_isGuest :: bool
  sp_migration :: bool
  sp_linked :: "string list"
  sp_badges :: "player_badge list"
  sp_selectedBadge :: "player_badge option"
  sp_connected :: bool
  sp_status :: string
  sp_queueStartedAt :: "int option"
  sp_lobby :: private_lobby_view
  sp_queueError :: string
  sp_maintenance :: "maintenance_status option"
  sp_googleClientId :: string
  sp_discordClientId :: string
  sp_authLoading :: bool
  sp_nicknameSaving :: bool
  sp_origin :: string

datatype screen_modal = NoModal | HelpModal | ProfileModal | InviteModal | SignInModal

datatype profile_tab = StatsTab | BadgesTab | AccountTab

datatype provider = Google | Discord

datatype screen_call =
    CallJoinQueue "string list" | CallSingleplayer | CallCancelQueue
  | CallCreateLobby | CallJoinLobby "string option" | CallLeaveLobby | CallKick string | CallTransfer string
  | CallStartLobby | CallSettings match_config "party_mode option" | CallSwitchTeam lobby_team
  | CallBrowseLeaderboard | CallChangeNickname string | CallSaveNickname | CallSelectBadge string
  | CallLogout | CallDeleteAccount string | CallLink provider | CallUnlink provider | CallUpgrade provider
  | CallGoogleSignIn | CallDiscordSignIn | CallDevLogin | CopyText string

record screen =
  sr_tab :: nat
  sr_modal :: screen_modal
  sr_profileTab :: profile_tab
  sr_inspected :: string
  sr_hovered :: string
  sr_editingName :: bool
  sr_blogExpanded :: bool
  sr_rulesets :: "string list"
  sr_copied :: bool
  sr_inviteCode :: string
  sr_deleteText :: string
  sr_now :: int
  sr_calls :: "(screen_props \<times> screen_call) list"

definition TABS :: "string list" where
  "TABS = [''FRIENDS'', ''PLAY'', ''TOP'']"

definition new_screen :: "int \<Rightarrow> screen" where
  "new_screen now =
     \<lparr>sr_tab = 1, sr_modal = NoModal, sr_profileTab = StatsTab, sr_inspected = [], sr_hovered = [],
      sr_editingName = False, sr_blogExpanded = False, sr_rulesets = [''moving''], sr_copied = False,
      sr_inviteCode = [], sr_deleteText = [], sr_now = now, sr_calls = []\<rparr>"

definition screen_do :: "screen_props \<Rightarrow> screen_call \<Rightarrow> screen \<Rightarrow> screen" where
  "screen_do pr c s = s\<lparr>sr_calls := sr_calls s @ [(pr, c)]\<rparr>"

section \<open>Queue rulesets and their storage\<close>

definition toggleQueueRuleset :: "string \<Rightarrow> screen \<Rightarrow> screen" where
  "toggleQueueRuleset r s =
     s\<lparr>sr_rulesets := (if r \<in> set (sr_rulesets s) then filter (\<lambda>x. x \<noteq> r) (sr_rulesets s)
                       else sr_rulesets s @ [r])\<rparr>"

text \<open>\<open>Array.from(new Set(xs))\<close> keeps the first of equal elements.\<close>

fun unique_list :: "string list \<Rightarrow> string list" where
  "unique_list [] = []"
| "unique_list (x # xs) = x # filter (\<lambda>y. y \<noteq> x) (unique_list xs)"

text \<open>
  The value of the stored item, None where reading or parsing it throws; an absent item is \<open>Null\<close>.
\<close>

definition load_rulesets :: "jv option \<Rightarrow> screen \<Rightarrow> screen" where
  "load_rulesets stored s =
     (case stored of
        None \<Rightarrow> s\<lparr>sr_rulesets := [''moving'']\<rparr>
      | Some (Arr items) \<Rightarrow>
          s\<lparr>sr_rulesets := unique_list [r. Str r \<leftarrow> filter (\<lambda>i. i = Str ''moving'' \<or> i = Str ''nmpz'') items]\<rparr>
      | Some _ \<Rightarrow> s)"

definition stored_rulesets :: "screen \<Rightarrow> jv" where
  "stored_rulesets s = Arr (map Str (sr_rulesets s))"

section \<open>What the screen derives\<close>

definition lobby_snap :: "screen_props \<Rightarrow> lobby option" where
  "lobby_snap pr = plv_snapshot (sp_lobby pr)"

definition isQueueing :: "screen_props \<Rightarrow> bool" where
  "isQueueing pr \<longleftrightarrow> sp_status pr = ''queueing''"

definition isSingleplayerLoading :: "screen_props \<Rightarrow> bool" where
  "isSingleplayerLoading pr \<longleftrightarrow> sp_status pr = ''matched_connecting''"

definition queueElapsedLabel :: "screen_props \<Rightarrow> screen \<Rightarrow> string" where
  "queueElapsedLabel pr s =
     formatQueueElapsed (if or_zero (sp_queueStartedAt pr) \<noteq> 0
                         then of_int (sr_now s - or_zero (sp_queueStartedAt pr)) else 0)"

definition isRankedAccount :: "screen_props \<Rightarrow> bool" where
  "isRankedAccount pr \<longleftrightarrow> sp_userId pr \<noteq> [] \<and> \<not> sp_isGuest pr"

definition primaryButtonLabel :: "screen_props \<Rightarrow> string" where
  "primaryButtonLabel pr =
     (if \<not> sp_connected pr \<and> to_lower (sp_queueError pr) = ''connection error'' then ''Connection Error''
      else ''Play'')"

definition userAvatarFallback :: "screen_props \<Rightarrow> string" where
  "userAvatarFallback pr =
     (if sp_userEmail pr = [] then ''?''
      else to_upper (take 1 (or_str (sp_displayName pr) (or_str (sp_userEmail pr) ''P''))))"

definition duelModeLabel :: "screen_props \<Rightarrow> string" where
  "duelModeLabel pr =
     (if isQueueing pr then ''Searching...'' else if isRankedAccount pr then ''Ranked'' else ''Unranked'')"

definition provider_name :: "provider \<Rightarrow> string" where
  "provider_name p = (case p of Google \<Rightarrow> ''google'' | Discord \<Rightarrow> ''discord'')"

definition provider_shown :: "screen_props \<Rightarrow> provider \<Rightarrow> bool" where
  "provider_shown pr p =
     (case p of Google \<Rightarrow> sp_googleClientId pr \<noteq> [] | Discord \<Rightarrow> sp_discordClientId pr \<noteq> [])"

definition provider_linked :: "screen_props \<Rightarrow> provider \<Rightarrow> bool" where
  "provider_linked pr p \<longleftrightarrow> provider_name p \<in> set (sp_linked pr)"

definition linkedProviderCount :: "screen_props \<Rightarrow> nat" where
  "linkedProviderCount pr = length (filter (\<lambda>p. p = ''google'' \<or> p = ''discord'') (sp_linked pr))"

definition badge_named :: "screen_props \<Rightarrow> string \<Rightarrow> player_badge option" where
  "badge_named pr i = find (\<lambda>b. badge_id b = i) (sp_badges pr)"

definition focusedBadge :: "screen_props \<Rightarrow> screen \<Rightarrow> player_badge option" where
  "focusedBadge pr s =
     nullish (badge_named pr (sr_hovered s))
       (nullish (badge_named pr (sr_inspected s))
          (nullish (case sp_selectedBadge pr of None \<Rightarrow> None | Some b \<Rightarrow> badge_named pr (badge_id b))
             (case sp_badges pr of [] \<Rightarrow> None | b # _ \<Rightarrow> Some b)))"

definition maintenance_is :: "maintenance_phase \<Rightarrow> screen_props \<Rightarrow> bool" where
  "maintenance_is ph pr \<longleftrightarrow> map_option mt_phase (sp_maintenance pr) = Some ph"

definition queuePaused :: "screen_props \<Rightarrow> bool" where
  "queuePaused pr = (case sp_maintenance pr of None \<Rightarrow> False | Some m \<Rightarrow> mt_queuePaused m)"

definition playPaused :: "screen_props \<Rightarrow> bool" where
  "playPaused pr = (case sp_maintenance pr of None \<Rightarrow> False | Some m \<Rightarrow> mt_playPaused m)"

definition maintenanceMessage :: "screen_props \<Rightarrow> string" where
  "maintenanceMessage pr = (case sp_maintenance pr of None \<Rightarrow> [] | Some m \<Rightarrow> js_trim (mt_message m))"

text \<open>A time that lies ahead, shown as a text; time zero counts as no time.\<close>

definition time_ahead :: "screen \<Rightarrow> real option \<Rightarrow> (real \<Rightarrow> string) \<Rightarrow> string" where
  "time_ahead s t show =
     (case t of None \<Rightarrow> []
      | Some ms \<Rightarrow> if ms \<noteq> 0 \<and> ms > of_int (sr_now s) then show (ms - of_int (sr_now s)) else [])"

definition warningCountdown :: "(string \<Rightarrow> num) \<Rightarrow> screen_props \<Rightarrow> screen \<Rightarrow> string" where
  "warningCountdown parse pr s =
     (if maintenance_is MWarning pr
      then time_ahead s (parseTime parse (case sp_maintenance pr of None \<Rightarrow> [] | Some m \<Rightarrow> mt_startsAt m))
             formatRelativeDuration
      else [])"

definition activeEta :: "(string \<Rightarrow> num) \<Rightarrow> screen_props \<Rightarrow> screen \<Rightarrow> string" where
  "activeEta parse pr s =
     (if maintenance_is MActive pr
      then time_ahead s (parseTime parse (case sp_maintenance pr of None \<Rightarrow> [] | Some m \<Rightarrow> mt_endsAt m))
             formatApproximateTime
      else [])"

definition duelDisabled :: "screen_props \<Rightarrow> screen \<Rightarrow> bool" where
  "duelDisabled pr s \<longleftrightarrow>
     sp_authLoading pr \<or> sp_migration pr \<or> sp_nicknameSaving pr \<or> queuePaused pr \<or> playPaused pr \<or>
     maintenance_is MActive pr \<or> sr_rulesets s = []"

definition singleplayerDisabled :: "screen_props \<Rightarrow> bool" where
  "singleplayerDisabled pr \<longleftrightarrow>
     isQueueing pr \<or> isSingleplayerLoading pr \<or> sp_authLoading pr \<or> sp_migration pr \<or> sp_nicknameSaving pr \<or>
     playPaused pr \<or> maintenance_is MActive pr"

definition lobbyInviteURL :: "screen_props \<Rightarrow> string" where
  "lobbyInviteURL pr =
     (if plv_inviteCode (sp_lobby pr) \<noteq> [] then sp_origin pr @ ''/lobby/'' @ plv_inviteCode (sp_lobby pr) else [])"

definition privateLobbyLoading :: "screen_props \<Rightarrow> bool" where
  "privateLobbyLoading pr \<longleftrightarrow>
     lobby_snap pr = None \<and> plv_status (sp_lobby pr) \<in> {LsCreating, LsJoining, LsConnecting, LsReconnecting}"

definition privateLobbyActive :: "screen_props \<Rightarrow> bool" where
  "privateLobbyActive pr \<longleftrightarrow> lobby_snap pr \<noteq> None \<or> plv_status (sp_lobby pr) \<noteq> LsIdle"

section \<open>The private lobby panel\<close>

datatype panel_event = CopyInvitePressed | LeavePressed | ModePicked party_mode | ConfigPicked config_patch
  | JoinShownPressed | TeamPressed lobby_team | TransferPressed string | KickPressed string | StartPressed

definition lobby_busy_now :: "screen_props \<Rightarrow> bool" where
  "lobby_busy_now pr = plv_busy (sp_lobby pr)"

definition lobby_owner :: "screen_props \<Rightarrow> bool" where
  "lobby_owner pr = plv_isOwner (sp_lobby pr)"

definition lobby_open :: "screen_props \<Rightarrow> bool" where
  "lobby_open pr \<longleftrightarrow> map_option lb_state (lobby_snap pr) = Some LobbyOpen"

definition shown_member :: "screen_props \<Rightarrow> string \<Rightarrow> bool" where
  "shown_member pr u \<longleftrightarrow> u \<in> lm_userId ` set (lobby_members (lobby_snap pr))"

definition self_members :: "screen_props \<Rightarrow> lobby_member list" where
  "self_members pr = filter (\<lambda>m. lm_userId m = sp_userId pr) (lobby_members (lobby_snap pr))"

definition team_name :: "lobby_team \<Rightarrow> string" where
  "team_name t = (case t of TeamA \<Rightarrow> ''a'' | TeamB \<Rightarrow> ''b'')"

definition copyInvite :: "screen_props \<Rightarrow> screen \<Rightarrow> screen" where
  "copyInvite pr s =
     (if lobbyInviteURL pr = [] then s
      else (screen_do pr (CopyText (lobbyInviteURL pr)) s)\<lparr>sr_copied := True\<rparr>)"

fun panel_handler :: "screen_props \<Rightarrow> panel_event \<Rightarrow> screen \<Rightarrow> screen" where
  "panel_handler pr CopyInvitePressed s = (if plv_inviteCode (sp_lobby pr) = [] then s else copyInvite pr s)"
| "panel_handler pr LeavePressed s =
     (if plv_isMember (sp_lobby pr) \<and> \<not> lobby_busy_now pr then screen_do pr CallLeaveLobby s else s)"
| "panel_handler pr (ModePicked m) s =
     (if lobby_owner pr \<and> lobby_open pr \<and> \<not> lobby_busy_now pr
      then screen_do pr (CallSettings (shown_lobby_config (lobby_snap pr)) (Some m)) s else s)"
| "panel_handler pr (ConfigPicked patch) s =
     (if lobby_owner pr \<and> lobby_open pr \<and> \<not> lobby_busy_now pr \<and> offered_patch patch
      then screen_do pr (CallSettings (saveLobbyConfig (shown_lobby_config (lobby_snap pr)) patch) None) s else s)"
| "panel_handler pr JoinShownPressed s =
     (if \<not> privateLobbyLoading pr \<and> \<not> plv_isMember (sp_lobby pr) \<and> \<not> lobby_busy_now pr \<and> \<not> sp_authLoading pr
      then screen_do pr (CallJoinLobby None) s else s)"
| "panel_handler pr (TeamPressed t) s =
     (if lobby_mode (lobby_snap pr) = PartyTeamDuel \<and> lobby_open pr \<and> \<not> lobby_busy_now pr \<and>
         list_ex (\<lambda>m. member_team m \<noteq> team_name t) (self_members pr)
      then screen_do pr (CallSwitchTeam t) s else s)"
| "panel_handler pr (TransferPressed u) s =
     (if lobby_owner pr \<and> shown_member pr u \<and> u \<noteq> sp_userId pr \<and> \<not> lobby_busy_now pr
      then screen_do pr (CallTransfer u) s else s)"
| "panel_handler pr (KickPressed u) s =
     (if lobby_owner pr \<and> shown_member pr u \<and> u \<noteq> sp_userId pr \<and> \<not> lobby_busy_now pr
      then screen_do pr (CallKick u) s else s)"
| "panel_handler pr StartPressed s =
     (if lobby_owner pr \<and> canStartPrivateLobby (lobby_owner pr) (lobby_snap pr) \<and> \<not> lobby_busy_now pr
      then screen_do pr CallStartLobby s else s)"

section \<open>The dialogs\<close>

datatype invite_event = CreatePressed | CreateAnswered bool | InviteTyped string | InviteEnter | JoinPressed
  | JoinAnswered bool

definition normalizedInviteCode :: "screen \<Rightarrow> string" where
  "normalizedInviteCode s = to_upper (js_trim (sr_inviteCode s))"

definition inviteActionsDisabled :: "screen_props \<Rightarrow> bool" where
  "inviteActionsDisabled pr \<longleftrightarrow> lobby_busy_now pr \<or> sp_authLoading pr \<or> maintenance_is MActive pr"

fun invite_handler :: "screen_props \<Rightarrow> invite_event \<Rightarrow> screen \<Rightarrow> screen" where
  "invite_handler pr CreatePressed s =
     (if inviteActionsDisabled pr \<or> playPaused pr then s else screen_do pr CallCreateLobby s)"
| "invite_handler pr (CreateAnswered ok) s = (if ok then s\<lparr>sr_modal := NoModal\<rparr> else s)"
| "invite_handler pr (InviteTyped t) s =
     (if inviteActionsDisabled pr then s else s\<lparr>sr_inviteCode := to_upper t\<rparr>)"
| "invite_handler pr InviteEnter s =
     (if inviteActionsDisabled pr \<or> normalizedInviteCode s = [] then s
      else screen_do pr (CallJoinLobby (Some (normalizedInviteCode s))) s)"
| "invite_handler pr JoinPressed s =
     (if inviteActionsDisabled pr \<or> normalizedInviteCode s = [] then s
      else screen_do pr (CallJoinLobby (Some (normalizedInviteCode s))) s)"
| "invite_handler pr (JoinAnswered ok) s = (if ok then s\<lparr>sr_modal := NoModal\<rparr> else s)"

datatype profile_event = ProfileTabPressed profile_tab | NameTyped string | NameEnter | NameEscape
  | PencilPressed | NameSaved bool | BadgeEntered string | BadgeLeft | BadgePressed player_badge
  | LinkPressed provider | UnlinkPressed provider | UpgradePressed provider | DeleteTyped string
  | DeletePressed | DeleteAnswered bool | LogoutPressed

definition shown_name :: "screen_props \<Rightarrow> string" where
  "shown_name pr = or_str (sp_displayName pr) (sp_userEmail pr)"

definition account_tab :: "screen_props \<Rightarrow> screen \<Rightarrow> bool" where
  "account_tab pr s \<longleftrightarrow> sr_profileTab s = AccountTab \<and> sp_userId pr \<noteq> []"

fun profile_handler :: "screen_props \<Rightarrow> profile_event \<Rightarrow> screen \<Rightarrow> screen" where
  "profile_handler pr (ProfileTabPressed t) s = s\<lparr>sr_profileTab := t\<rparr>"
| "profile_handler pr (NameTyped t) s =
     (if sr_editingName s \<and> \<not> sp_isGuest pr \<and> \<not> sp_nicknameSaving pr then screen_do pr (CallChangeNickname t) s else s)"
| "profile_handler pr NameEnter s =
     (if sr_editingName s \<and> \<not> sp_isGuest pr \<and> \<not> sp_nicknameSaving pr then screen_do pr CallSaveNickname s else s)"
| "profile_handler pr NameEscape s =
     (if sr_editingName s \<and> \<not> sp_isGuest pr \<and> \<not> sp_nicknameSaving pr
      then (screen_do pr (CallChangeNickname (shown_name pr)) s)\<lparr>sr_editingName := False\<rparr> else s)"
| "profile_handler pr PencilPressed s =
     (if sp_userId pr = [] \<or> sp_isGuest pr \<or> sp_nicknameSaving pr then s
      else if sr_editingName s then screen_do pr CallSaveNickname s
      else (screen_do pr (CallChangeNickname (shown_name pr)) s)\<lparr>sr_editingName := True\<rparr>)"
| "profile_handler pr (NameSaved ok) s = (if ok then s\<lparr>sr_editingName := False\<rparr> else s)"
| "profile_handler pr (BadgeEntered i) s = (if sr_profileTab s = BadgesTab then s\<lparr>sr_hovered := i\<rparr> else s)"
| "profile_handler pr BadgeLeft s = s\<lparr>sr_hovered := []\<rparr>"
| "profile_handler pr (BadgePressed b) s =
     (if sr_profileTab s = BadgesTab \<and> b \<in> set (sp_badges pr)
      then let s1 = s\<lparr>sr_inspected := badge_id b\<rparr> in
        if flag (badge_owned b)
        then screen_do pr (CallSelectBadge
               (if map_option badge_id (sp_selectedBadge pr) = Some (badge_id b) then [] else badge_id b)) s1
        else s1
      else s)"
| "profile_handler pr (LinkPressed p) s =
     (if account_tab pr s \<and> \<not> sp_isGuest pr \<and> provider_shown pr p \<and> \<not> provider_linked pr p \<and> \<not> sp_authLoading pr
      then screen_do pr (CallLink p) s else s)"
| "profile_handler pr (UnlinkPressed p) s =
     (if account_tab pr s \<and> \<not> sp_isGuest pr \<and> provider_shown pr p \<and> provider_linked pr p \<and> \<not> sp_authLoading pr \<and>
         1 < linkedProviderCount pr
      then screen_do pr (CallUnlink p) s else s)"
| "profile_handler pr (UpgradePressed p) s =
     (if account_tab pr s \<and> sp_isGuest pr \<and> provider_shown pr p \<and> \<not> sp_authLoading pr
      then screen_do pr (CallUpgrade p) s else s)"
| "profile_handler pr (DeleteTyped t) s = (if account_tab pr s then s\<lparr>sr_deleteText := t\<rparr> else s)"
| "profile_handler pr DeletePressed s =
     (if account_tab pr s \<and> \<not> sp_authLoading pr \<and> sr_deleteText s = ''DELETE''
      then screen_do pr (CallDeleteAccount (sr_deleteText s)) s else s)"
| "profile_handler pr (DeleteAnswered ok) s = (if ok then s\<lparr>sr_modal := NoModal\<rparr> else s)"
| "profile_handler pr LogoutPressed s =
     (if account_tab pr s then screen_do pr CallLogout (s\<lparr>sr_modal := NoModal\<rparr>) else s)"

datatype signin_event = GooglePressed | DiscordPressed

fun signin_handler :: "screen_props \<Rightarrow> signin_event \<Rightarrow> screen \<Rightarrow> screen" where
  "signin_handler pr GooglePressed s =
     (if provider_shown pr Google \<and> \<not> sp_authLoading pr
      then (screen_do pr CallGoogleSignIn s)\<lparr>sr_modal := NoModal\<rparr> else s)"
| "signin_handler pr DiscordPressed s =
     (if provider_shown pr Discord \<and> \<not> sp_authLoading pr
      then (screen_do pr CallDiscordSignIn s)\<lparr>sr_modal := NoModal\<rparr> else s)"

section \<open>The screen\<close>

datatype screen_event = OnPanel panel_event | OnInvite invite_event | OnProfile profile_event
  | OnSignIn signin_event | HelpPressed | ModalClosed | ProfilePressed | SignInPressed | TabPressed nat
  | RulesetToggled string | PlayPressed | CancelPressed | SingleplayerPressed | InvitePressed | NewsPressed
  | Tick int | CopiedTimer | TabEffect | LobbyEffect | RulesetsLoaded "jv option"

definition on_play_tab :: "screen_props \<Rightarrow> screen \<Rightarrow> bool" where
  "on_play_tab pr s \<longleftrightarrow> \<not> privateLobbyActive pr \<and> TABS ! sr_tab s = ''PLAY''"

fun screen_step :: "screen_props \<Rightarrow> screen_event \<Rightarrow> screen \<Rightarrow> screen" where
  "screen_step pr (OnPanel ev) s =
     (if privateLobbyActive pr \<and> (lobby_snap pr \<noteq> None \<or> ev \<in> {CopyInvitePressed, LeavePressed, JoinShownPressed})
      then panel_handler pr ev s else s)"
| "screen_step pr (OnInvite ev) s =
     (if sr_modal s = InviteModal \<or> (\<exists>ok. ev = CreateAnswered ok \<or> ev = JoinAnswered ok)
      then invite_handler pr ev s else s)"
| "screen_step pr (OnProfile ev) s =
     (if sr_modal s = ProfileModal \<or> (\<exists>ok. ev = NameSaved ok \<or> ev = DeleteAnswered ok)
      then profile_handler pr ev s else s)"
| "screen_step pr (OnSignIn ev) s = (if sr_modal s = SignInModal then signin_handler pr ev s else s)"
| "screen_step pr HelpPressed s = s\<lparr>sr_modal := HelpModal\<rparr>"
| "screen_step pr ModalClosed s =
     s\<lparr>sr_modal := NoModal, sr_editingName := (if sr_modal s = ProfileModal then False else sr_editingName s)\<rparr>"
| "screen_step pr ProfilePressed s =
     (if sp_userId pr \<noteq> [] \<and> sp_userEmail pr \<noteq> [] then s\<lparr>sr_editingName := False, sr_modal := ProfileModal\<rparr> else s)"
| "screen_step pr SignInPressed s =
     (if sp_userId pr \<noteq> [] \<and> sp_userEmail pr \<noteq> [] then s
      else if provider_shown pr Google \<or> provider_shown pr Discord
      then (if sp_authLoading pr then s else s\<lparr>sr_modal := SignInModal\<rparr>)
      else screen_do pr CallDevLogin s)"
| "screen_step pr (TabPressed i) s =
     (if \<not> privateLobbyActive pr \<and> \<not> isQueueing pr \<and> i < length TABS then s\<lparr>sr_tab := i\<rparr> else s)"
| "screen_step pr (RulesetToggled r) s =
     (if on_play_tab pr s \<and> \<not> isQueueing pr \<and> r \<in> {''moving'', ''nmpz''} then toggleQueueRuleset r s else s)"
| "screen_step pr PlayPressed s =
     (if on_play_tab pr s \<and> \<not> isQueueing pr \<and> \<not> duelDisabled pr s
      then screen_do pr (CallJoinQueue (sr_rulesets s)) s else s)"
| "screen_step pr CancelPressed s =
     (if on_play_tab pr s \<and> isQueueing pr then screen_do pr CallCancelQueue s else s)"
| "screen_step pr SingleplayerPressed s =
     (if on_play_tab pr s \<and> \<not> singleplayerDisabled pr then screen_do pr CallSingleplayer s else s)"
| "screen_step pr InvitePressed s =
     (if \<not> privateLobbyActive pr \<and> TABS ! sr_tab s = ''FRIENDS'' \<and> \<not> sp_authLoading pr \<and>
         \<not> sp_nicknameSaving pr \<and> \<not> playPaused pr \<and> \<not> maintenance_is MActive pr
      then s\<lparr>sr_modal := InviteModal\<rparr> else s)"
| "screen_step pr NewsPressed s = s\<lparr>sr_blogExpanded := \<not> sr_blogExpanded s\<rparr>"
| "screen_step pr (Tick now) s =
     (if sp_maintenance pr = None \<and> \<not> isQueueing pr then s else s\<lparr>sr_now := now\<rparr>)"
| "screen_step pr CopiedTimer s = s\<lparr>sr_copied := False\<rparr>"
| "screen_step pr TabEffect s =
     (if TABS ! sr_tab s = ''TOP'' then screen_do pr CallBrowseLeaderboard s else s)"
| "screen_step pr LobbyEffect s =
     (if lobby_snap pr \<noteq> None \<or> plv_inviteCode (sp_lobby pr) \<noteq> [] then s\<lparr>sr_tab := 1\<rparr> else s)"
| "screen_step pr (RulesetsLoaded stored) s = load_rulesets stored s"

definition screen_run :: "(screen_props \<times> screen_event) list \<Rightarrow> screen \<Rightarrow> screen" where
  "screen_run steps s = fold (\<lambda>(pr, ev). screen_step pr ev) steps s"

section \<open>What the screen asks for\<close>

text \<open>When a call is in order, said without the buttons.\<close>

definition open_for_play :: "screen_props \<Rightarrow> bool" where
  "open_for_play pr \<longleftrightarrow> \<not> playPaused pr \<and> \<not> maintenance_is MActive pr"

fun call_allowed :: "screen_props \<Rightarrow> screen_call \<Rightarrow> bool" where
  "call_allowed pr (CallJoinQueue rs) \<longleftrightarrow>
     rs \<noteq> [] \<and> distinct rs \<and> set rs \<subseteq> {''moving'', ''nmpz''} \<and> open_for_play pr \<and> \<not> queuePaused pr \<and>
     \<not> isQueueing pr \<and> \<not> privateLobbyActive pr"
| "call_allowed pr CallSingleplayer \<longleftrightarrow> open_for_play pr \<and> \<not> isQueueing pr \<and> \<not> privateLobbyActive pr"
| "call_allowed pr CallCancelQueue \<longleftrightarrow> isQueueing pr"
| "call_allowed pr CallCreateLobby \<longleftrightarrow> open_for_play pr \<and> \<not> lobby_busy_now pr"
| "call_allowed pr (CallJoinLobby (Some code)) \<longleftrightarrow> code \<noteq> [] \<and> to_upper code = code \<and> \<not> lobby_busy_now pr"
| "call_allowed pr (CallKick u) \<longleftrightarrow> lobby_owner pr \<and> u \<noteq> sp_userId pr \<and> shown_member pr u"
| "call_allowed pr (CallTransfer u) \<longleftrightarrow> lobby_owner pr \<and> u \<noteq> sp_userId pr \<and> shown_member pr u"
| "call_allowed pr (CallSettings _ _) \<longleftrightarrow> lobby_owner pr \<and> lobby_open pr"
| "call_allowed pr CallStartLobby \<longleftrightarrow>
     lobby_owner pr \<and> lobby_open pr \<and> list_all (\<lambda>m. presence m = ''online'') (lobby_members (lobby_snap pr)) \<and>
     2 \<le> length (lobby_members (lobby_snap pr)) \<and> length (lobby_members (lobby_snap pr)) \<le> 8"
| "call_allowed pr (CallLink p) \<longleftrightarrow> \<not> provider_linked pr p \<and> \<not> sp_isGuest pr"
| "call_allowed pr (CallUnlink p) \<longleftrightarrow> provider_linked pr p \<and> 2 \<le> linkedProviderCount pr"
| "call_allowed pr (CallUpgrade p) \<longleftrightarrow> sp_isGuest pr"
| "call_allowed pr (CallDeleteAccount typed) \<longleftrightarrow> sp_userId pr \<noteq> [] \<and> typed = ''DELETE''"
| "call_allowed pr _ \<longleftrightarrow> True"

definition rulesets_ok :: "string list \<Rightarrow> bool" where
  "rulesets_ok rs \<longleftrightarrow> distinct rs \<and> set rs \<subseteq> {''moving'', ''nmpz''}"

definition screen_ok :: "screen \<Rightarrow> bool" where
  "screen_ok s \<longleftrightarrow>
     rulesets_ok (sr_rulesets s) \<and> sr_tab s < 3 \<and> list_all (\<lambda>(pr, c). call_allowed pr c) (sr_calls s)"

lemma screen_do_ok: "screen_ok s \<Longrightarrow> call_allowed pr c \<Longrightarrow> screen_ok (screen_do pr c s)"
  by (simp add: screen_ok_def screen_do_def)

lemma screen_ok_updates [simp]:
  "screen_ok (s\<lparr>sr_modal := m\<rparr>) = screen_ok s" "screen_ok (s\<lparr>sr_profileTab := t\<rparr>) = screen_ok s"
  "screen_ok (s\<lparr>sr_inspected := x\<rparr>) = screen_ok s" "screen_ok (s\<lparr>sr_hovered := x\<rparr>) = screen_ok s"
  "screen_ok (s\<lparr>sr_editingName := b\<rparr>) = screen_ok s" "screen_ok (s\<lparr>sr_blogExpanded := b\<rparr>) = screen_ok s"
  "screen_ok (s\<lparr>sr_copied := b\<rparr>) = screen_ok s" "screen_ok (s\<lparr>sr_inviteCode := x\<rparr>) = screen_ok s"
  "screen_ok (s\<lparr>sr_deleteText := x\<rparr>) = screen_ok s" "screen_ok (s\<lparr>sr_now := n\<rparr>) = screen_ok s"
  by (simp_all add: screen_ok_def)

lemma set_unique_list [simp]: "set (unique_list xs) = set xs"
  by (induction xs) auto

lemma distinct_unique_list [simp]: "distinct (unique_list xs)"
  by (induction xs) auto

lemma unique_list_id: "distinct xs \<Longrightarrow> unique_list xs = xs"
  by (induction xs) (auto simp: filter_id_conv)

lemma load_ok: "screen_ok s \<Longrightarrow> screen_ok (load_rulesets stored s)"
  by (auto simp: load_rulesets_def screen_ok_def rulesets_ok_def split: option.split jv.splits)

lemma toggle_ok: "screen_ok s \<Longrightarrow> r \<in> {''moving'', ''nmpz''} \<Longrightarrow> screen_ok (toggleQueueRuleset r s)"
  by (auto simp: toggleQueueRuleset_def screen_ok_def rulesets_ok_def)

lemma can_start_allowed:
  "canStartPrivateLobby b (lobby_snap pr) \<Longrightarrow> lobby_owner pr \<Longrightarrow> call_allowed pr CallStartLobby"
  by (auto simp: canStartPrivateLobby_def lobby_open_def Let_def missingLobbyMembers_def filter_empty_conv list_all_iff)

lemma panel_ok: "screen_ok s \<Longrightarrow> screen_ok (panel_handler pr ev s)"
  by (cases ev) (auto simp: copyInvite_def dest: can_start_allowed intro!: screen_do_ok)

lemma invite_ok: "screen_ok s \<Longrightarrow> screen_ok (invite_handler pr ev s)"
  by (cases ev)
     (simp_all add: screen_do_ok inviteActionsDisabled_def open_for_play_def normalizedInviteCode_def)

lemma profile_ok: "screen_ok s \<Longrightarrow> screen_ok (profile_handler pr ev s)"
  by (cases ev) (simp_all add: screen_do_ok account_tab_def Let_def)

lemma signin_ok: "screen_ok s \<Longrightarrow> screen_ok (signin_handler pr ev s)"
  by (cases ev) (simp_all add: screen_do_ok)

lemma screen_rulesets: "screen_ok s \<Longrightarrow> rulesets_ok (sr_rulesets s)"
  by (simp add: screen_ok_def)

lemma screen_step_ok: "screen_ok s \<Longrightarrow> screen_ok (screen_step pr ev s)"
proof (cases ev)
  case PlayPressed
  assume "screen_ok s"
  with screen_rulesets [OF this] PlayPressed show ?thesis
    by (simp add: screen_do_ok duelDisabled_def rulesets_ok_def open_for_play_def on_play_tab_def)
next
  case (TabPressed i)
  assume "screen_ok s"
  with TabPressed show ?thesis by (simp add: screen_ok_def TABS_def)
next
  case LobbyEffect
  assume "screen_ok s"
  with LobbyEffect show ?thesis by (simp add: screen_ok_def)
qed (simp_all add: panel_ok invite_ok profile_ok signin_ok screen_do_ok load_ok toggle_ok singleplayerDisabled_def
       on_play_tab_def open_for_play_def)

interpretation lobby_screen: invariant_machine "\<lambda>(pr, ev). screen_step pr ev" screen_ok
  by unfold_locales (auto simp: screen_step_ok)

lemma new_screen_ok: "screen_ok (new_screen now)"
  by (simp add: screen_ok_def new_screen_def rulesets_ok_def)

lemma screen_run_ok: "screen_ok (screen_run steps (new_screen now))"
  unfolding screen_run_def by (rule lobby_screen.run_inv [OF new_screen_ok])

section \<open>Properties\<close>

text \<open>
  Whatever is typed, pressed, loaded or answered, the screen asks for something only when it is in order: it
  searches only with a ruleset and outside maintenance, starts a lobby only as the owner with everybody online,
  removes only other members, unlinks no last provider and deletes an account only on the typed word.
\<close>

theorem screen_calls_in_order:
  "list_all (\<lambda>(pr, c). call_allowed pr c) (sr_calls (screen_run steps (new_screen now)))"
  using screen_run_ok [of steps now] by (simp add: screen_ok_def)

text \<open>
  The stored choice of rulesets reads back: a screen that loads what another one stored has its rulesets, and
  whatever is stored, the rulesets of a screen are distinct ones of the two there are.
\<close>

lemma stored_texts: "rulesets_ok rs \<Longrightarrow>
  [r. Str r \<leftarrow> filter (\<lambda>i. i = Str ''moving'' \<or> i = Str ''nmpz'') (map Str rs)] = rs"
  unfolding rulesets_ok_def by (induction rs) auto

theorem queue_rulesets_read_back:
  "sr_rulesets (load_rulesets (Some (stored_rulesets (screen_run steps (new_screen now)))) s) =
     sr_rulesets (screen_run steps (new_screen now)) \<and>
   rulesets_ok (sr_rulesets (screen_run steps (new_screen now)))"
proof -
  let ?rs = "sr_rulesets (screen_run steps (new_screen now))"
  have "rulesets_ok ?rs" by (rule screen_rulesets [OF screen_run_ok])
  then show ?thesis
    using stored_texts [of ?rs] unique_list_id [of ?rs]
    by (simp add: load_rulesets_def stored_rulesets_def rulesets_ok_def)
qed

text \<open>
  The word typed to delete an account stays typed: after the deletion the dialog of the next account, signed in
  on the same page, offers its deletion at once.
\<close>

lemma delete_stays_armed:
  assumes "sr_modal s = ProfileModal" and "sr_deleteText s = ''DELETE''" and "account_tab pr s"
    and "\<not> sp_authLoading pr" and "sp_userId pr' \<noteq> []" and "sp_userEmail pr' \<noteq> []" and "\<not> sp_authLoading pr'"
  shows "sr_calls (screen_run [(pr, OnProfile DeletePressed), (pr, OnProfile (DeleteAnswered True)),
                              (pr', ProfilePressed), (pr', OnProfile DeletePressed)] s) =
         sr_calls s @ [(pr, CallDeleteAccount ''DELETE''), (pr', CallDeleteAccount ''DELETE'')]"
  using assms by (simp add: screen_run_def screen_do_def account_tab_def)

text \<open>The seconds a search is shown with: at least one once it runs, and never less than have passed.\<close>

lemma queue_seconds_bounds:
  assumes "0 < ms"
  shows "1 \<le> queue_seconds ms \<and> ms \<le> 1000 * of_int (queue_seconds ms) \<and>
         of_int (queue_seconds ms) < ms / 1000 + 1"
proof -
  let ?c = "\<lceil>ms / 1000\<rceil>"
  have up: "ms / 1000 \<le> of_int ?c" and low: "of_int ?c < ms / 1000 + 1"
    using ceiling_correct [of "ms / 1000"] by linarith+
  have "1 \<le> ?c" using assms by (simp add: one_le_ceiling)
  then have "queue_seconds ms = ?c" using assms by (simp add: queue_seconds_def)
  with up low \<open>1 \<le> ?c\<close> show ?thesis by linarith
qed

end
