(* ===== verification/EndMatch.thy ===== *)
theory EndMatch
  imports HomeModel
begin

text \<open>
  \<open>components/ui/EndMatchOverlay.tsx\<close>: the end page of a match, over the \<open>endMatch\<close> view of the home model:
  whose results are the user's, the table of scores, and the report dialog with the busy states as a machine.
  \<open>onPlayAgain\<close> is given or not, and so is \<open>onReportPlayer\<close>. Also the labels of
  \<open>components/ui/damage-multiplier.ts\<close> and \<open>PlayerIdentity.tsx\<close>. Numbers are exact, so \<open>toFixed\<close> rounds a tie up
  where a double may lie just below it.
\<close>

section \<open>Labels\<close>

text \<open>\<open>x.toFixed(1)\<close> of a number that is not negative, in tenths, and as a text.\<close>

definition tenths :: "real \<Rightarrow> int" where
  "tenths x = \<lfloor>x * 10 + 1 / 2\<rfloor>"

definition toFixed1 :: "real \<Rightarrow> string" where
  "toFixed1 x = int_str (tenths x div 10) @ ''.'' @ int_str (tenths x mod 10)"

definition formatGuessTime :: "int option \<Rightarrow> string" where
  "formatGuessTime ms =
     (case ms of None \<Rightarrow> [] | Some t \<Rightarrow> if t \<le> 0 then [] else toFixed1 (of_int t / 1000) @ ''s'')"

definition formatDamageMultiplierLabel :: "real \<Rightarrow> string option" where
  "formatDamageMultiplierLabel multiplier =
     (let t = tenths multiplier in
      if t = 10 then None
      else Some ((if t mod 10 = 0 then int_str (t div 10) else int_str (t div 10) @ ''.'' @ int_str (t mod 10)) @ ''x''))"

definition formatRatingDelta :: "int option \<Rightarrow> string" where
  "formatRatingDelta value =
     (case value of None \<Rightarrow> [] | Some v \<Rightarrow> if v > 0 then ''+'' @ int_str v else int_str v)"

section \<open>Whose results are shown\<close>

definition end_playerIds :: "end_match_view \<Rightarrow> string list" where
  "end_playerIds v = (case emv_roundResults v of [] \<Rightarrow> [] | r # _ \<Rightarrow> map fst (rr_players r))"

definition end_name :: "end_match_view \<Rightarrow> string \<Rightarrow> string option" where
  "end_name v i = map_of (emv_resultPlayerNames v) i"

definition selfPlayerId :: "end_match_view \<Rightarrow> string" where
  "selfPlayerId v =
     or_str (find_str (\<lambda>i. end_name v i = Some (emv_selfName v)) (end_playerIds v))
       (or_str (case end_playerIds v of [] \<Rightarrow> [] | i # _ \<Rightarrow> i) ''self'')"

definition opponentPlayerId :: "end_match_view \<Rightarrow> string" where
  "opponentPlayerId v =
     or_str (find_str (\<lambda>i. i \<noteq> selfPlayerId v \<and> end_name v i = emv_opponentName v) (end_playerIds v))
       (or_str (find_str (\<lambda>i. i \<noteq> selfPlayerId v) (end_playerIds v)) ''opp'')"

definition backLabel :: "end_match_view \<Rightarrow> string" where
  "backLabel v = (if emv_mode v = Singleplayer then ''Back To Home'' else ''Back To Lobby'')"

definition showPlayAgain :: "bool \<Rightarrow> end_match_view \<Rightarrow> bool" where
  "showPlayAgain hasPlayAgain v \<longleftrightarrow> emv_mode v = Singleplayer \<and> hasPlayAgain"

section \<open>Scores\<close>

record player_total =
  pt_score :: int
  pt_time :: int
  pt_distance :: real

definition add_result :: "string \<times> round_player_result \<Rightarrow> player_total js_record \<Rightarrow> player_total js_record" where
  "add_result e totals =
     (case e of (pid, p) \<Rightarrow>
        let t = (case map_of totals pid of None \<Rightarrow> \<lparr>pt_score = 0, pt_time = 0, pt_distance = 0\<rparr> | Some t \<Rightarrow> t) in
        js_set totals pid
          \<lparr>pt_score = pt_score t + rp_score p, pt_time = pt_time t + or_zero (rp_guessMs p),
           pt_distance = pt_distance t + rp_distanceKm p\<rparr>)"

definition end_totals :: "round_result list \<Rightarrow> player_total js_record" where
  "end_totals rounds = fold (\<lambda>r totals. fold add_result (rr_players r) totals) rounds []"

text \<open>A row of the table; without an identity of its own the row is shown by name, avatar and fallback.\<close>

record score_row =
  row_id :: string
  row_name :: string
  row_avatar :: "string option"
  row_fallback :: string
  row_participant :: "player_identity option"
  row_total :: player_total

definition score_row_of :: "end_match_view \<Rightarrow> string \<times> player_total \<Rightarrow> score_row" where
  "score_row_of v e =
     (case e of (i, t) \<Rightarrow>
        \<lparr>row_id = i, row_name = or_str (opt_str (end_name v i)) ''Unknown'',
         row_avatar = Option.bind (map_of (emv_resultPlayerAvatars v) i) id,
         row_fallback = or_str (opt_str (map_of (emv_resultPlayerFallbacks v) i)) ''?'',
         row_participant = map_of (emv_participantsById v) i, row_total = t\<rparr>)"

abbreviation row_score :: "score_row \<Rightarrow> int" where
  "row_score r \<equiv> pt_score (row_total r)"

text \<open>\<open>arr.sort((a, b) => b.score - a.score)\<close>, which is stable.\<close>

definition playerScores :: "end_match_view \<Rightarrow> score_row list" where
  "playerScores v = sort_key (\<lambda>r. - row_score r) (map (score_row_of v) (end_totals (emv_roundResults v)))"

definition ffaWinner :: "end_match_view \<Rightarrow> score_row option" where
  "ffaWinner v = (case playerScores v of [] \<Rightarrow> None | r # _ \<Rightarrow> Some r)"

fun find_index :: "('a \<Rightarrow> bool) \<Rightarrow> 'a list \<Rightarrow> nat option" where
  "find_index P [] = None"
| "find_index P (x # xs) = (if P x then Some 0 else map_option Suc (find_index P xs))"

definition myPlacement :: "end_match_view \<Rightarrow> nat" where
  "myPlacement v =
     (case find_index (\<lambda>r. row_id r = selfPlayerId v) (playerScores v) of None \<Rightarrow> 0 | Some i \<Rightarrow> i + 1)"

definition placementText :: "end_match_view \<Rightarrow> string" where
  "placementText v =
     (let n = myPlacement v in
      if n = 1 then ''1st'' else if n = 2 then ''2nd'' else if n = 3 then ''3rd'' else nat_str n @ ''th'')"

definition outcomeLabel :: "end_match_view \<Rightarrow> string" where
  "outcomeLabel v =
     (case emv_outcome v of Some OutcomeWin \<Rightarrow> ''Win'' | Some OutcomeLose \<Rightarrow> ''Defeat'' | _ \<Rightarrow> ''Draw'')"

definition winner_banner :: "end_match_view \<Rightarrow> string option" where
  "winner_banner v =
     (if emv_mode v \<noteq> FreeForAll then None
      else map_option (\<lambda>w. if row_id w = selfPlayerId v then ''You won!'' else row_name w @ '' won!'') (ffaWinner v))"

definition oppTotalScore :: "end_match_view \<Rightarrow> int" where
  "oppTotalScore v =
     (\<Sum>r \<leftarrow> emv_roundResults v.
        case map_of (rr_players r) (opponentPlayerId v) of None \<Rightarrow> 0 | Some p \<Rightarrow> rp_score p)"

text \<open>A cell of the table: nothing but a dash without a result, else the score and the time of the guess.\<close>

definition score_cell :: "round_result \<Rightarrow> string \<Rightarrow> (int \<times> string) option" where
  "score_cell r playerId =
     (if playerId = [] then None
      else map_option (\<lambda>p. (rp_score p, formatGuessTime (rp_guessMs p))) (map_of (rr_players r) playerId))"

section \<open>Reports\<close>

record end_page =
  ep_reported :: "bool js_record"
  ep_busyUser :: string
  ep_error :: string
  ep_category :: string
  ep_reason :: string
  ep_pending :: "(string \<times> string) option"
  ep_playAgainBusy :: bool
  ep_breakdown :: bool
  ep_inflight :: "string list"
  ep_sent :: "(string \<times> string \<times> string) list"
  ep_playAgains :: nat

definition new_end_page :: end_page where
  "new_end_page =
     \<lparr>ep_reported = [], ep_busyUser = [], ep_error = [], ep_category = ''cheating'', ep_reason = [],
      ep_pending = None, ep_playAgainBusy = False, ep_breakdown = False, ep_inflight = [], ep_sent = [],
      ep_playAgains = 0\<rparr>"

text \<open>The player the card of the opponent reports, and the button on it.\<close>

definition report_user :: "end_match_view \<Rightarrow> string" where
  "report_user v =
     (if emv_mode v = TeamDuel then [] else or_str (opt_str (emv_opponentUserId v)) (opponentPlayerId v))"

definition was_reported :: "string \<Rightarrow> end_page \<Rightarrow> bool" where
  "was_reported u e \<longleftrightarrow> map_of (ep_reported e) u = Some True"

definition report_enabled :: "bool \<Rightarrow> end_match_view \<Rightarrow> end_page \<Rightarrow> bool" where
  "report_enabled hasReport v e \<longleftrightarrow>
     emv_mode v = Duel \<and> report_user v \<noteq> [] \<and> hasReport \<and> \<not> was_reported (report_user v) e \<and>
     ep_busyUser e \<noteq> report_user v"

datatype end_event = ReportOpened | CategoryPicked string | ReasonTyped string | ReportCancelled | ReportSent
  | ReportAnswered string "js_error option" | PlayAgainPressed | PlayAgainAnswered | BreakdownSet bool

definition report_error_text :: "js_error \<Rightarrow> string" where
  "report_error_text e = (case e of JsError m \<Rightarrow> m | AbortError \<Rightarrow> ''Aborted'')"

fun end_step :: "bool \<Rightarrow> bool \<Rightarrow> end_match_view \<Rightarrow> end_event \<Rightarrow> end_page \<Rightarrow> end_page" where
  "end_step hasReport hasAgain v ReportOpened e =
     (if report_enabled hasReport v e
      then e\<lparr>ep_error := [], ep_category := ''cheating'', ep_reason := [],
             ep_pending := Some (report_user v, or_str (opt_str (emv_opponentName v)) ''Opponent'')\<rparr>
      else e)"
| "end_step hasReport hasAgain v (CategoryPicked c) e = (if ep_pending e = None then e else e\<lparr>ep_category := c\<rparr>)"
| "end_step hasReport hasAgain v (ReasonTyped r) e = (if ep_pending e = None then e else e\<lparr>ep_reason := r\<rparr>)"
| "end_step hasReport hasAgain v ReportCancelled e =
     (case ep_pending e of
        None \<Rightarrow> e
      | Some (u, _) \<Rightarrow> if ep_busyUser e = u then e else e\<lparr>ep_pending := None, ep_reason := []\<rparr>)"
| "end_step hasReport hasAgain v ReportSent e =
     (case ep_pending e of
        None \<Rightarrow> e
      | Some (u, _) \<Rightarrow>
          if ep_busyUser e = u \<or> \<not> hasReport then e
          else e\<lparr>ep_error := [], ep_busyUser := u, ep_inflight := ep_inflight e @ [u],
                 ep_sent := ep_sent e @ [(u, ep_category e, ep_reason e)]\<rparr>)"
| "end_step hasReport hasAgain v (ReportAnswered u err) e =
     (if u \<notin> set (ep_inflight e) then e
      else let e1 = e\<lparr>ep_inflight := remove1 u (ep_inflight e), ep_busyUser := []\<rparr> in
        (case err of
           None \<Rightarrow> e1\<lparr>ep_reported := js_set (ep_reported e) u True, ep_pending := None, ep_reason := []\<rparr>
         | Some x \<Rightarrow> e1\<lparr>ep_error := report_error_text x\<rparr>))"
| "end_step hasReport hasAgain v PlayAgainPressed e =
     (if showPlayAgain hasAgain v \<and> \<not> ep_playAgainBusy e
      then e\<lparr>ep_playAgainBusy := True, ep_playAgains := ep_playAgains e + 1\<rparr> else e)"
| "end_step hasReport hasAgain v PlayAgainAnswered e = e\<lparr>ep_playAgainBusy := False\<rparr>"
| "end_step hasReport hasAgain v (BreakdownSet b) e = e\<lparr>ep_breakdown := b\<rparr>"

section \<open>Lemmas on the scores\<close>

text \<open>The reference: what a player has, summed over the rounds.\<close>

definition round_score :: "string \<Rightarrow> round_result \<Rightarrow> int" where
  "round_score i r = (case map_of (rr_players r) i of None \<Rightarrow> 0 | Some p \<Rightarrow> rp_score p)"

definition total_score :: "string \<Rightarrow> round_result list \<Rightarrow> int" where
  "total_score i rounds = (\<Sum>r \<leftarrow> rounds. round_score i r)"

definition score_in :: "player_total js_record \<Rightarrow> string \<Rightarrow> int" where
  "score_in totals i = (case map_of totals i of None \<Rightarrow> 0 | Some t \<Rightarrow> pt_score t)"

lemma score_in_add: "score_in (add_result (j, p) totals) i = score_in totals i + (if i = j then rp_score p else 0)"
  by (simp add: score_in_def add_result_def Let_def split: option.split)

lemma score_in_round:
  "distinct (map fst ps) \<Longrightarrow>
   score_in (fold add_result ps totals) i =
   score_in totals i + (case map_of ps i of None \<Rightarrow> 0 | Some p \<Rightarrow> rp_score p)"
proof (induction ps arbitrary: totals)
  case (Cons e ps)
  obtain j p where "e = (j, p)" by (cases e)
  moreover have "map_of ps i = None" if "i = j"
    using Cons.prems calculation that by (simp add: map_of_eq_None_iff)
  ultimately show ?case using Cons by (auto simp: score_in_add)
qed simp

definition rounds_ok :: "round_result list \<Rightarrow> bool" where
  "rounds_ok rounds \<longleftrightarrow> list_all (\<lambda>r. distinct (map fst (rr_players r))) rounds"

lemma score_in_totals:
  assumes "rounds_ok rounds"
  shows "score_in (end_totals rounds) i = total_score i rounds"
proof -
  have "score_in (fold (\<lambda>r totals. fold add_result (rr_players r) totals) rs t) i = score_in t i + total_score i rs"
    if "rounds_ok rs" for rs t
    using that
    by (induction rs arbitrary: t) (auto simp: rounds_ok_def total_score_def score_in_round round_score_def)
  then show ?thesis using assms by (simp add: end_totals_def score_in_def)
qed

lemma fold_keeps: "(\<And>x y. P y \<Longrightarrow> P (f x y)) \<Longrightarrow> P y \<Longrightarrow> P (fold f xs y)"
  by (induction xs arbitrary: y) auto

lemma end_totals_distinct: "distinct (map fst (end_totals rounds))"
  unfolding end_totals_def
  by (rule fold_keeps, rule fold_keeps) (auto simp: add_result_def Let_def split: prod.splits)

lemma keys_add_result: "fst ` set (add_result e totals) = insert (fst e) (fst ` set totals)"
  by (cases e) (simp add: add_result_def Let_def)

lemma keys_fold_add: "fst ` set (fold add_result ps totals) = fst ` set ps \<union> fst ` set totals"
  by (induction ps arbitrary: totals) (auto simp: keys_add_result)

lemma end_totals_keys: "fst ` set (end_totals rounds) = (\<Union>r \<in> set rounds. fst ` set (rr_players r))"
proof -
  have "fst ` set (fold (\<lambda>r totals. fold add_result (rr_players r) totals) rs t) =
        (\<Union>r \<in> set rs. fst ` set (rr_players r)) \<union> fst ` set t" for rs and t :: "player_total js_record"
    by (induction rs arbitrary: t) (auto simp: keys_fold_add)
  from this [of rounds "[]"] show ?thesis by (simp add: end_totals_def)
qed

lemma row_id_of [simp]: "row_id (score_row_of v e) = fst e" "row_total (score_row_of v e) = snd e"
  by (simp_all add: score_row_of_def split: prod.split)

lemma playerScores_sorted: "sorted_wrt (\<lambda>a b. row_score b \<le> row_score a) (playerScores v)"
proof -
  have "sorted (map (\<lambda>r. - row_score r) (playerScores v))" by (simp add: playerScores_def)
  then show ?thesis by (simp add: sorted_map)
qed

lemma playerScores_set: "set (playerScores v) = score_row_of v ` set (end_totals (emv_roundResults v))"
  by (simp add: playerScores_def)

lemma row_score_total:
  assumes "rounds_ok (emv_roundResults v)" and "row \<in> set (playerScores v)"
  shows "row_score row = total_score (row_id row) (emv_roundResults v)"
proof -
  obtain i t where it: "(i, t) \<in> set (end_totals (emv_roundResults v))" "row = score_row_of v (i, t)"
    using assms(2) by (auto simp: playerScores_set)
  then have "map_of (end_totals (emv_roundResults v)) i = Some t"
    using end_totals_distinct by (intro map_of_is_SomeI)
  with it score_in_totals [OF assms(1), of i] show ?thesis by (simp add: score_in_def)
qed

lemma playerScores_ids: "row_id ` set (playerScores v) = (\<Union>r \<in> set (emv_roundResults v). fst ` set (rr_players r))"
  by (simp add: playerScores_set image_image end_totals_keys)

section \<open>Placement\<close>

lemma find_index_Some: "find_index P xs = Some i \<Longrightarrow> i < length xs \<and> P (xs ! i)"
  by (induction xs arbitrary: i) (auto split: if_splits)

lemma find_index_None: "find_index P xs = None \<longleftrightarrow> (\<forall>x \<in> set xs. \<not> P x)"
  by (induction xs) auto

lemma find_str_first: "P i \<Longrightarrow> find_str P (i # is) = i"
  by (simp add: find_str_def)

lemma find_str_only:
  "i \<in> set is \<Longrightarrow> (\<And>j. j \<in> set is \<Longrightarrow> P j \<longleftrightarrow> j = i) \<Longrightarrow> find_str P is = i"
  by (induction "is") (auto simp: find_str_def)

section \<open>Properties\<close>

text \<open>
  The table of the end page ranks exactly the players with a result, by the sum of their scores over the
  rounds, best first.
\<close>

theorem end_scores_ranked:
  assumes "rounds_ok (emv_roundResults v)"
  shows "sorted_wrt (\<lambda>a b. row_score b \<le> row_score a) (playerScores v) \<and>
         row_id ` set (playerScores v) = (\<Union>r \<in> set (emv_roundResults v). fst ` set (rr_players r)) \<and>
         map row_score (playerScores v) = map (\<lambda>row. total_score (row_id row) (emv_roundResults v)) (playerScores v)"
  using playerScores_sorted playerScores_ids row_score_total [OF assms] by simp

text \<open>
  The end page looks the user up by the displayed name. In a free for all that another player with the same
  name won, the first in the results, it tells the user ''You won!'' and shows the first place.
\<close>

theorem namesake_wins_for_you:
  assumes "hv_endMatch (deriveHomeModel p) = Some v" and "home_mode p = FreeForAll"
    and "emv_roundResults v = r # rs" and "rr_players r = (i, q) # qs" and "i \<noteq> []"
    and "i \<noteq> home_selfId p" and "map_of (resultPlayerNames p) i = Some (home_selfName p)"
    and "ffaWinner v = Some w" and "row_id w = i"
  shows "selfPlayerId v \<noteq> home_selfId p \<and> winner_banner v = Some ''You won!'' \<and> placementText v = ''1st''"
proof -
  have v: "emv_mode v = FreeForAll" "emv_selfName v = home_selfName p"
    "emv_resultPlayerNames v = resultPlayerNames p"
    using assms(1,2) by (auto simp: home_view_fields endMatch_def split: if_splits)
  have self: "selfPlayerId v = i"
    using assms(3-5,7) v by (simp add: selfPlayerId_def end_playerIds_def end_name_def find_str_first or_str_def)
  moreover have "find_index (\<lambda>r. row_id r = i) (playerScores v) = Some 0"
    using assms(8,9) by (simp add: ffaWinner_def split: list.splits)
  ultimately show ?thesis
    using assms(6,8,9) v by (simp add: winner_banner_def placementText_def myPlacement_def Let_def)
qed

definition demo_result :: "int \<Rightarrow> string \<Rightarrow> round_player_result" where
  "demo_result score i =
     \<lparr>rp_userId = i, rp_lat = 0, rp_lng = 0, rp_distanceKm = 0, rp_score = score, rp_damageDealt = None,
      rp_damageTaken = None, rp_hpAfterRound = None, rp_guessUnixMs = None, rp_guessMs = None\<rparr>"

definition demo_round :: round_result where
  "demo_round =
     \<lparr>rr_roundId = ''r1'', rr_roundNumber = 1, rr_actualLocation = (0, 0),
      rr_players = [(''u2'', demo_result 5000 ''u2''), (''u1'', demo_result 10 ''u1'')], rr_teams = None\<rparr>"

definition ffa_snapshot :: snapshot where
  "ffa_snapshot =
     sample_snapshot\<lparr>sn_state := ''ended'', sn_mode := Some FreeForAll, sn_roundResults := Some [demo_round],
       sn_players := [(''u1'', (sample_player ''u1'' 1)\<lparr>pl_displayName := ''Ann''\<rparr>),
                      (''u2'', (sample_player ''u2'' 1)\<lparr>pl_displayName := ''Ann''\<rparr>)]\<rparr>"

definition ffa_page :: home_params where
  "ffa_page =
     sample_page\<lparr>hp_match := initial_match_state\<lparr>m_snapshot := Some ffa_snapshot\<rparr>,
       hp_game := initial_game_state\<lparr>g_showMatchEndPage := True\<rparr>\<rparr>"

lemma ffa_page_facts:
  "home_snapshot ffa_page = Some ffa_snapshot" "home_mode ffa_page = FreeForAll" "home_selfId ffa_page = ''u1''"
  "home_selfName ffa_page = ''Ann''" "map_of (resultPlayerNames ffa_page) ''u2'' = Some ''Ann''"
  "home_roundResults ffa_page = [demo_round]" "home_uiPhase ffa_page = UIMatchEnd"
  "g_showMatchEndPage (hp_game ffa_page)"
proof -
  show s: "home_snapshot ffa_page = Some ffa_snapshot"
    by (simp add: ffa_page_def home_snapshot_def ffa_snapshot_def sample_snapshot_def)
  show "home_mode ffa_page = FreeForAll" by (simp add: home_mode_def s ffa_snapshot_def)
  show i: "home_selfId ffa_page = ''u1''" by (simp add: home_selfId_def ffa_page_def)
  have pl: "home_players ffa_page = sn_players ffa_snapshot" by (simp add: home_players_def s)
  show "home_selfName ffa_page = ''Ann''"
    by (simp add: home_selfName_def home_selfPlayer_def pl i ffa_snapshot_def Let_def or_str_def)
  show "map_of (resultPlayerNames ffa_page) ''u2'' = Some ''Ann''"
    by (simp add: resultPlayerNames_def over_players_def pl ffa_snapshot_def player_shown_name_def or_str_def)
  show "home_roundResults ffa_page = [demo_round]"
    by (simp add: home_roundResults_def s ffa_snapshot_def)
  show "home_uiPhase ffa_page = UIMatchEnd"
    by (simp add: home_uiPhase_def s deriveUIPhase_def ffa_snapshot_def)
  show "g_showMatchEndPage (hp_game ffa_page)" by (simp add: ffa_page_def)
qed

theorem namesake_wins_for_you_witness:
  "\<exists>v. hv_endMatch (deriveHomeModel ffa_page) = Some v \<and> winner_banner v = Some ''You won!''"
proof -
  obtain v where v: "hv_endMatch (deriveHomeModel ffa_page) = Some v" "emv_roundResults v = [demo_round]"
    by (simp add: home_view_fields endMatch_def ffa_page_facts)
  have "\<exists>w. ffaWinner v = Some w \<and> row_id w = ''u2''"
    by (simp add: ffaWinner_def playerScores_def v(2) demo_round_def demo_result_def end_totals_def add_result_def
          Let_def score_row_of_def)
  then obtain w where "ffaWinner v = Some w" "row_id w = ''u2''" by blast
  with namesake_wins_for_you [OF v(1), of demo_round "[]" "''u2''" "demo_result 5000 ''u2''"] v
  show ?thesis by (auto simp: ffa_page_facts demo_round_def)
qed

section \<open>One report at a time, one per player\<close>

definition report_ok :: "end_match_view \<Rightarrow> end_page \<Rightarrow> bool" where
  "report_ok v e \<longleftrightarrow>
     (ep_inflight e = [] \<and> ep_busyUser e = [] \<or>
      ep_inflight e = [report_user v] \<and> ep_busyUser e = report_user v \<and> \<not> was_reported (report_user v) e) \<and>
     (case ep_pending e of None \<Rightarrow> True
      | Some (u, _) \<Rightarrow> u = report_user v \<and> u \<noteq> [] \<and> \<not> was_reported u e)"

lemma report_ok_drafts [simp]:
  "report_ok v (e\<lparr>ep_category := c\<rparr>) = report_ok v e" "report_ok v (e\<lparr>ep_reason := r\<rparr>) = report_ok v e"
  "report_ok v (e\<lparr>ep_playAgainBusy := b\<rparr>) = report_ok v e" "report_ok v (e\<lparr>ep_breakdown := b\<rparr>) = report_ok v e"
  "report_ok v (e\<lparr>ep_playAgains := n\<rparr>) = report_ok v e"
  by (simp_all add: report_ok_def was_reported_def split: option.split prod.split)

lemma report_cancel_ok: "report_ok v e \<Longrightarrow> report_ok v (e\<lparr>ep_pending := None\<rparr>)"
  by (auto simp: report_ok_def was_reported_def)

lemma report_step_ok: "report_ok v e \<Longrightarrow> report_ok v (end_step hasReport hasAgain v ev e)"
proof (cases ev)
  case (ReportAnswered u err)
  assume "report_ok v e"
  then show ?thesis
    unfolding ReportAnswered
    by (cases err; cases "ep_pending e") (auto simp: report_ok_def was_reported_def Let_def)
next
  case ReportSent
  assume "report_ok v e"
  then show ?thesis
    unfolding ReportSent by (cases hasReport; cases "ep_pending e") (auto simp: report_ok_def was_reported_def)
next
  case ReportOpened
  assume "report_ok v e"
  then show ?thesis unfolding ReportOpened by (auto simp: report_ok_def report_enabled_def was_reported_def)
qed (auto simp: report_cancel_ok split: option.split)

interpretation end_reports: invariant_machine "end_step hasReport hasAgain v" "report_ok v" for hasReport hasAgain v
  by unfold_locales (rule report_step_ok)

lemma new_report_ok: "report_ok v new_end_page"
  by (simp add: report_ok_def new_end_page_def)

lemma reported_quiet:
  assumes "report_ok v e" and "was_reported (report_user v) e"
  shows "ep_sent (end_step hasReport hasAgain v ev e) = ep_sent e \<and>
         was_reported (report_user v) (end_step hasReport hasAgain v ev e)"
proof (cases "ep_pending e")
  case None
  with assms show ?thesis by (cases ev) (auto simp: report_ok_def was_reported_def Let_def split: option.split)
next
  case (Some un)
  with assms show ?thesis by (cases un) (auto simp: report_ok_def)
qed

lemma reported_run_quiet:
  "report_ok v e \<Longrightarrow> was_reported (report_user v) e \<Longrightarrow>
   ep_sent (fold (end_step hasReport hasAgain v) es e) = ep_sent e"
proof (induction es arbitrary: e)
  case (Cons ev es)
  with reported_quiet [OF Cons.prems, of hasReport hasAgain ev] report_step_ok [OF Cons.prems(1)]
  show ?case by simp
qed simp

text \<open>
  A player is reported by one request at a time, and never again once a report has been accepted.
\<close>

theorem reported_once:
  fixes hasReport hasAgain v es
  defines "e \<equiv> fold (end_step hasReport hasAgain v) es new_end_page"
  assumes "was_reported (report_user v) e"
  shows "length (ep_inflight e) \<le> 1 \<and> ep_sent (fold (end_step hasReport hasAgain v) fs e) = ep_sent e"
proof -
  have ok: "report_ok v e" unfolding e_def by (rule end_reports.run_inv [OF new_report_ok])
  then show ?thesis using reported_run_quiet [OF ok assms(2)] by (auto simp: report_ok_def)
qed

theorem reported_once_witness:
  "\<exists>v. hv_endMatch (deriveHomeModel won_page) = Some v \<and>
     ep_sent (fold (end_step True False v) [ReportOpened, ReportSent]
       (fold (end_step True False v) [ReportOpened, ReportSent, ReportAnswered (report_user v) None] new_end_page)) =
     [(''u2'', ''cheating'', [])]"
proof -
  have opp: "home_oppId won_page = ''u2''"
    by (simp add: home_oppId_def won_page_facts home_players_def won_snapshot_def sample_snapshot_def find_str_def)
  obtain v where v: "hv_endMatch (deriveHomeModel won_page) = Some v" "emv_mode v = Duel"
    "emv_opponentUserId v = Some ''u2''"
    by (simp add: home_view_fields endMatch_def won_page_facts unless_points_def opp)
  then have u: "report_user v = ''u2''" by (simp add: report_user_def or_str_def)
  let ?e = "fold (end_step True False v) [ReportOpened, ReportSent, ReportAnswered (report_user v) None] new_end_page"
  have e: "was_reported (report_user v) ?e" "ep_sent ?e = [(''u2'', ''cheating'', [])]"
    using v(2) by (simp_all add: u new_end_page_def report_enabled_def was_reported_def Let_def)
  then have "ep_sent (fold (end_step True False v) [ReportOpened, ReportSent] ?e) = [(''u2'', ''cheating'', [])]"
    using reported_once [OF e(1), of "[ReportOpened, ReportSent]"] by simp
  with v(1) show ?thesis by blast
qed

end
