(* ===== verification/ResultOverlay.thy ===== *)
theory ResultOverlay
  imports EndMatch RoundClock
begin

text \<open>
  \<open>components/ui/RoundResultOverlay.tsx\<close>: the stage on which the result of a round is played, over the
  \<open>resultOverlay\<close> view of the home model: which number stands where in every phase, how the winning score
  travels, what damage is told. Beside it the damage rule of the server (\<open>resolveDuelDamage\<close> of
  \<open>src/pkg/duel/engine.go\<close>), to state that the client tells the damage the server deals. What
  \<open>getBoundingClientRect\<close> measures is a parameter.
\<close>

section \<open>Easing\<close>

text \<open>\<open>Number(s)\<close> for the decimal literals of a number; any other text is NaN (\<open>None\<close>).\<close>

definition is_digit :: "char \<Rightarrow> bool" where
  "is_digit c = (let n = of_char c :: nat in 48 \<le> n \<and> n \<le> 57)"

definition digits_value :: "string \<Rightarrow> nat" where
  "digits_value ds = read_digits ds"

definition number_exponent :: "string \<Rightarrow> int option" where
  "number_exponent s =
     (case s of
        [] \<Rightarrow> Some 0
      | e # r \<Rightarrow>
          if e \<noteq> CHR ''e'' \<and> e \<noteq> CHR ''E'' then None
          else (let (neg, ds) = (case r of c # t \<Rightarrow> if c = CHR ''-'' then (True, t) else if c = CHR ''+'' then (False, t) else (False, r)
                                  | [] \<Rightarrow> (False, []))
                in if ds = [] \<or> \<not> list_all is_digit ds then None
                   else Some (if neg then - int (digits_value ds) else int (digits_value ds))))"

definition scale10 :: "real \<Rightarrow> int \<Rightarrow> real" where
  "scale10 x e = (if e < 0 then x / 10 ^ nat (- e) else x * 10 ^ nat e)"

definition number_abs :: "string \<Rightarrow> real option" where
  "number_abs s =
     (let whole = takeWhile is_digit s; rest = dropWhile is_digit s;
          (frac, tail) = (case rest of c # t \<Rightarrow> if c = CHR ''.'' then (takeWhile is_digit t, dropWhile is_digit t) else ([], rest)
                          | [] \<Rightarrow> ([], []))
      in if whole = [] \<and> frac = [] then None
         else map_option (scale10 (of_nat (digits_value (whole @ frac)) / 10 ^ length frac)) (number_exponent tail))"

definition js_number :: "string \<Rightarrow> real option" where
  "js_number s =
     (case js_trim s of
        [] \<Rightarrow> Some 0
      | c # r \<Rightarrow>
          if c = CHR ''-'' then map_option uminus (number_abs r)
          else if c = CHR ''+'' then number_abs r else number_abs (c # r))"

datatype motion_ease = EaseLinear | EaseIn | EaseOut | EaseInOut | Bezier real real real real

text \<open>The text between \<open>cubic-bezier(\<close> and the closing parenthesis at the end.\<close>

definition bezier_args :: "string \<Rightarrow> string option" where
  "bezier_args v =
     (let r = drop 13 v in
      if starts_with v ''cubic-bezier('' \<and> r \<noteq> [] \<and> last r = CHR '')'' \<and> butlast r \<noteq> [] \<and> CHR '')'' \<notin> set (butlast r)
      then Some (butlast r) else None)"

definition parseBezier :: "string \<Rightarrow> motion_ease option" where
  "parseBezier v =
     (case bezier_args v of
        None \<Rightarrow> None
      | Some args \<Rightarrow>
          (case List.map_filter (\<lambda>part. js_number (js_trim part)) (split_on (CHR '','') args) of
             [a, b, c, d] \<Rightarrow> Some (Bezier a b c d)
           | _ \<Rightarrow> None))"

definition resolveEase :: "string \<Rightarrow> motion_ease" where
  "resolveEase ease =
     (if ease = ''linear'' then EaseLinear else if ease = ''easeIn'' then EaseIn
      else if ease = ''easeOut'' then EaseOut else if ease = ''easeInOut'' then EaseInOut
      else case parseBezier ease of Some b \<Rightarrow> b | None \<Rightarrow> Bezier 0.25 0.1 0.25 1)"

section \<open>What stands where\<close>

datatype side = SideSelf | SideOpp

definition sourceSide :: "result_winner \<Rightarrow> side" where
  "sourceSide w = (if w = WinnerSelf then SideSelf else SideOpp)"

definition targetSide :: "result_winner \<Rightarrow> side" where
  "targetSide w = (if w = WinnerSelf then SideOpp else SideSelf)"

definition showCrush :: "result_phase \<Rightarrow> bool" where
  "showCrush ph = (ph \<in> {PhCrush, PhDamageTravel, PhDamageMultiplier, PhHpApply})"

definition impactReached :: "result_phase \<Rightarrow> bool" where
  "impactReached ph = (ph \<in> {PhDamageTravel, PhDamageMultiplier, PhHpApply})"

definition showDamageMultiplier :: "result_phase \<Rightarrow> bool" where
  "showDamageMultiplier ph = (ph \<in> {PhDamageMultiplier, PhHpApply})"

text \<open>The empty text is \<open>None\<close>.\<close>

definition getStaticScoreValue ::
    "side \<Rightarrow> result_phase \<Rightarrow> result_winner \<Rightarrow> bool \<Rightarrow> side \<Rightarrow> side \<Rightarrow> bool \<Rightarrow> int option \<Rightarrow> int option \<Rightarrow> int option" where
  "getStaticScoreValue sd ph w crush source target impact ownScore otherScore =
     (if ownScore = None \<or> otherScore = None then None
      else if ph = PhBase then None
      else if w = WinnerTie \<or> \<not> crush then (if sd = SideSelf then ownScore else otherScore)
      else if sd = source then None
      else if sd = target \<and> impact then None
      else if sd = SideSelf then ownScore else otherScore)"

definition getScoreSizeClass :: "side \<Rightarrow> result_winner \<Rightarrow> side \<Rightarrow> string" where
  "getScoreSizeClass sd w source =
     (if w = WinnerTie then ''text-4xl'' else if sd = source then ''text-5xl'' else ''text-4xl'')"

definition getScoreTravelDurationMs :: "real \<Rightarrow> real \<Rightarrow> real \<Rightarrow> real" where
  "getScoreTravelDurationMs minDurationMs durationMs durationScale = max minDurationMs (durationMs * durationScale)"

definition getAppliedDamage :: "int \<Rightarrow> real \<Rightarrow> int" where
  "getAppliedDamage damage multiplier = \<lfloor>of_int damage * multiplier + 1 / 2\<rfloor>"

text \<open>\<open>toLocaleString\<close> of an integer is a parameter: it depends on the browser's locale.\<close>

definition formatDistanceLabel :: "(int \<Rightarrow> string) \<Rightarrow> real \<Rightarrow> bool \<Rightarrow> string" where
  "formatDistanceLabel show_int distanceKm isDuel =
     (if isDuel \<and> 20000 \<le> distanceKm then ''rip'' else show_int \<lfloor>distanceKm + 1 / 2\<rfloor> @ '' km'')"

text \<open>\<open>ResultDistanceBar\<close>: the labels of the player and, in a duel, of the opponent.\<close>

definition ResultDistanceBar :: "(int \<Rightarrow> string) \<Rightarrow> real option \<Rightarrow> real option \<Rightarrow> (string \<times> string option) option" where
  "ResultDistanceBar show_int selfDistanceKm oppDistanceKm =
     map_option (\<lambda>d. (formatDistanceLabel show_int d (oppDistanceKm \<noteq> None),
                      map_option (\<lambda>e. formatDistanceLabel show_int e True) oppDistanceKm)) selfDistanceKm"

definition showScores :: "result_overlay \<Rightarrow> bool" where
  "showScores ov \<longleftrightarrow> ro_showScoreReveal ov \<and> ov_score (ro_self ov) \<noteq> None \<and> ov_score (ro_opp ov) \<noteq> None"

definition hasWinnerMotion :: "result_overlay \<Rightarrow> bool" where
  "hasWinnerMotion ov \<longleftrightarrow> showScores ov \<and> showCrush (ro_phase ov) \<and> ro_winner ov \<noteq> WinnerTie \<and> 0 < ro_damage ov"

definition displayedDamage :: "result_overlay \<Rightarrow> int" where
  "displayedDamage ov =
     (if showDamageMultiplier (ro_phase ov) then getAppliedDamage (ro_damage ov) (ro_damageMultiplier ov) else ro_damage ov)"

definition damageMultiplierLabel :: "result_overlay \<Rightarrow> string option" where
  "damageMultiplierLabel ov =
     (if showDamageMultiplier (ro_phase ov) then formatDamageMultiplierLabel (ro_damageMultiplier ov) else None)"

definition sourceScoreValue :: "result_overlay \<Rightarrow> int option" where
  "sourceScoreValue ov = ov_score (if sourceSide (ro_winner ov) = SideSelf then ro_self ov else ro_opp ov)"

definition staticScore :: "side \<Rightarrow> result_overlay \<Rightarrow> int option" where
  "staticScore sd ov =
     getStaticScoreValue sd (ro_phase ov) (ro_winner ov) (showCrush (ro_phase ov)) (sourceSide (ro_winner ov))
       (targetSide (ro_winner ov)) (impactReached (ro_phase ov)) (ov_score (ro_self ov)) (ov_score (ro_opp ov))"

text \<open>
  What a side shows: nothing without scores; nothing while the winner's token has reached that side; the
  class \<open>invisible\<close> hides the score that travels.
\<close>

definition sideText :: "side \<Rightarrow> result_overlay \<Rightarrow> int option" where
  "sideText sd ov =
     (if \<not> showScores ov then None
      else if hasWinnerMotion ov \<and> targetSide (ro_winner ov) = sd \<and> ro_phase ov \<noteq> PhCrush then None
      else if showCrush (ro_phase ov) \<and> sourceSide (ro_winner ov) = sd then None
      else staticScore sd ov)"

text \<open>The travelling token fades from the winner's score to the damage while it travels and shows the damage from then on.\<close>

record score_token =
  tk_from :: "int option"
  tk_damage :: int
  tk_label :: "string option"

definition scoreToken :: "bool \<Rightarrow> result_overlay \<Rightarrow> score_token option" where
  "scoreToken measured ov =
     (if hasWinnerMotion ov \<and> measured \<and> showCrush (ro_phase ov) \<and> sourceScoreValue ov \<noteq> None
      then Some \<lparr>tk_from = (if ro_phase ov = PhCrush then sourceScoreValue ov else None),
                 tk_damage = displayedDamage ov, tk_label = damageMultiplierLabel ov\<rparr>
      else None)"

section \<open>The travel\<close>

record rect =
  r_left :: real
  r_top :: real
  r_width :: real
  r_height :: real

record score_travel =
  tv_startX :: real
  tv_startY :: real
  tv_dx :: real
  tv_dy :: real
  tv_width :: real
  tv_height :: real

text \<open>\<open>useLayoutEffect\<close>: the travel is measured only when the three elements are mounted and kept otherwise.\<close>

definition measure_travel ::
    "bool \<Rightarrow> (rect \<times> rect \<times> rect) option \<Rightarrow> rect option \<Rightarrow> score_travel option \<Rightarrow> score_travel option" where
  "measure_travel winnerMotion rects damageRect travel =
     (if \<not> winnerMotion then None
      else case rects of
        None \<Rightarrow> travel
      | Some (track, source, target) \<Rightarrow>
          let w = max (max (r_width source) (r_width target)) (case damageRect of None \<Rightarrow> 0 | Some d \<Rightarrow> r_width d);
              h = max (max (r_height source) (r_height target)) (case damageRect of None \<Rightarrow> 0 | Some d \<Rightarrow> r_height d);
              sourceCenterX = r_left source - r_left track + r_width source / 2;
              sourceCenterY = r_top source - r_top track + r_height source / 2;
              targetCenterX = r_left target - r_left track + r_width target / 2;
              targetCenterY = r_top target - r_top track + r_height target / 2;
              startX = sourceCenterX - w / 2; startY = sourceCenterY - h / 2;
              endX = targetCenterX - w / 2; endY = targetCenterY - h / 2
          in Some \<lparr>tv_startX = startX, tv_startY = startY, tv_dx = endX - startX, tv_dy = endY - startY,
                   tv_width = w, tv_height = h\<rparr>)"

lemma travel_joins_centers:
  assumes "measure_travel True (Some (track, source, target)) d t = Some v"
  shows "tv_dx v = (r_left target + r_width target / 2) - (r_left source + r_width source / 2) \<and>
    tv_dy v = (r_top target + r_height target / 2) - (r_top source + r_height source / 2) \<and>
    r_width source \<le> tv_width v \<and> r_width target \<le> tv_width v"
  using assms by (auto simp: measure_travel_def Let_def)

text \<open>The animation of the travel ends when the timeline of the game controller announces the damage.\<close>

lemma travel_ends_with_phase: "2000 + getScoreTravelDurationMs 160 500 0.72 = damageTravelAtMs"
  unfolding timeline by (simp add: getScoreTravelDurationMs_def)

lemma config_easings:
  "resolveEase ''cubic-bezier(0.55,0,0.2,1)'' = Bezier 0.55 0 0.2 1"
  by (simp add: resolveEase_def parseBezier_def bezier_args_def starts_with_def js_number_def number_abs_def js_trim_def
      is_space_def is_digit_def number_exponent_def scale10_def digits_value_def read_digits_def List.map_filter_simps Let_def)

section \<open>The damage the server deals\<close>

text \<open>\<open>math.Round\<close> of Go: half away from zero.\<close>

definition go_round :: "real \<Rightarrow> int" where
  "go_round x = (if x < 0 then \<lceil>x - 1 / 2\<rceil> else \<lfloor>x + 1 / 2\<rfloor>)"

definition roundDamageMultiplier :: "int \<Rightarrow> real" where
  "roundDamageMultiplier roundNumber = (if roundNumber \<le> 2 then 1 else 1 + 0.5 * of_int (roundNumber - 2))"

text \<open>
  A Go map that lacks the key reads as the zero value. The results hold every player of the match: the
  caller, \<open>resolveRound\<close>, fills them from the same map the ids are taken from.
\<close>

definition zero_result :: round_player_result where
  "zero_result =
     \<lparr>rp_userId = [], rp_lat = 0, rp_lng = 0, rp_distanceKm = 0, rp_score = 0, rp_damageDealt = Some 0,
      rp_damageTaken = Some 0, rp_hpAfterRound = Some 0, rp_guessUnixMs = None, rp_guessMs = None\<rparr>"

definition result_at :: "round_player_result js_record \<Rightarrow> string \<Rightarrow> round_player_result" where
  "result_at rs i = (case map_of rs i of None \<Rightarrow> zero_result | Some r \<Rightarrow> r)"

definition hp_at :: "int js_record \<Rightarrow> string \<Rightarrow> int" where
  "hp_at hp i = or_zero (map_of hp i)"

definition take_hp :: "string \<Rightarrow> int \<Rightarrow> int js_record \<Rightarrow> int js_record" where
  "take_hp i damage hp = js_set hp i (let left = hp_at hp i - damage in if left < 0 then 0 else left)"

definition resolveDuelDamage ::
    "int \<Rightarrow> string list \<Rightarrow> int js_record \<times> round_player_result js_record \<Rightarrow> int js_record \<times> round_player_result js_record" where
  "resolveDuelDamage roundNumber userIDs st =
     (case (userIDs, st) of
        ([i, j], (hp, rs)) \<Rightarrow>
          let a = result_at rs i; b = result_at rs j;
              damage = go_round (of_int \<bar>rp_score a - rp_score b\<bar> * roundDamageMultiplier roundNumber);
              (a, b, hp) =
                (if rp_score b < rp_score a
                 then (a\<lparr>rp_damageDealt := Some damage\<rparr>, b\<lparr>rp_damageTaken := Some damage\<rparr>, take_hp j damage hp)
                 else if rp_score a < rp_score b
                 then (a\<lparr>rp_damageTaken := Some damage\<rparr>, b\<lparr>rp_damageDealt := Some damage\<rparr>, take_hp i damage hp)
                 else (a, b, hp))
          in (hp, js_set (js_set rs i (a\<lparr>rp_hpAfterRound := Some (hp_at hp i)\<rparr>)) j (b\<lparr>rp_hpAfterRound := Some (hp_at hp j)\<rparr>))
      | _ \<Rightarrow> st)"

text \<open>Client and server round a damage alike: it is not negative.\<close>

lemma multiplier_pos: "1 \<le> roundDamageMultiplier n"
  by (simp add: roundDamageMultiplier_def)

lemma applied_is_dealt:
  "0 \<le> d \<Longrightarrow> getAppliedDamage d (roundDamageMultiplier n) = go_round (of_int d * roundDamageMultiplier n)"
  using multiplier_pos [of n] mult_nonneg_nonneg [of "real_of_int d" "roundDamageMultiplier n"]
  by (simp add: getAppliedDamage_def go_round_def not_less [symmetric])

lemma damage_nonneg: "0 \<le> getAppliedDamage \<bar>x\<bar> (roundDamageMultiplier n)"
proof -
  have "0 \<le> real_of_int \<bar>x\<bar> * roundDamageMultiplier n" using multiplier_pos [of n] by (intro mult_nonneg_nonneg) auto
  then show ?thesis by (simp add: getAppliedDamage_def)
qed

text \<open>What a player's result says when the duel round cost the loser \<open>damage\<close>.\<close>

definition duel_outcome :: "int \<Rightarrow> int \<Rightarrow> round_player_result \<Rightarrow> round_player_result \<Rightarrow> bool" where
  "duel_outcome damage hpOwn own other \<longleftrightarrow>
     (if rp_score other < rp_score own then rp_damageDealt own = Some damage \<and> rp_hpAfterRound own = Some hpOwn
      else if rp_score own < rp_score other
      then rp_damageTaken own = Some damage \<and> rp_hpAfterRound own = Some (max 0 (hpOwn - damage))
      else damage = 0 \<and> rp_hpAfterRound own = Some hpOwn)"

lemma duel_resolved:
  fixes n :: int and hp :: "int js_record"
  assumes "map_of rs i = Some a" and "map_of rs j = Some b" and "i \<noteq> j"
  defines "damage \<equiv> getAppliedDamage \<bar>rp_score a - rp_score b\<bar> (roundDamageMultiplier n)"
  defines "out \<equiv> snd (resolveDuelDamage n [i, j] (hp, rs))"
  shows "\<exists>a' b'. map_of out i = Some a' \<and> map_of out j = Some b' \<and>
    rp_score a' = rp_score a \<and> rp_score b' = rp_score b \<and>
    rp_distanceKm a' = rp_distanceKm a \<and> rp_distanceKm b' = rp_distanceKm b \<and>
    duel_outcome damage (hp_at hp i) a' b' \<and> duel_outcome damage (hp_at hp j) b' a'"
proof -
  have d: "go_round (of_int \<bar>rp_score a - rp_score b\<bar> * roundDamageMultiplier n) = damage"
    unfolding damage_def by (rule applied_is_dealt [symmetric]) simp
  have r: "result_at rs i = a" "result_at rs j = b" using assms(1,2) by (simp_all add: result_at_def)
  have z: "rp_score a = rp_score b \<Longrightarrow> damage = 0" by (simp add: damage_def getAppliedDamage_def)
  note unfolded = out_def resolveDuelDamage_def r Let_def duel_outcome_def hp_at_def take_hp_def
  consider (won) "rp_score b < rp_score a" | (lost) "rp_score a < rp_score b" | (tie) "rp_score a = rp_score b" by linarith
  then show ?thesis
  proof cases
    case won
    then have "go_round ((of_int (rp_score a) - of_int (rp_score b)) * roundDamageMultiplier n) = damage" using d by simp
    with won assms(3) show ?thesis by (simp add: unfolded)
  next
    case lost
    then have "go_round ((of_int (rp_score b) - of_int (rp_score a)) * roundDamageMultiplier n) = damage" using d by simp
    with lost assms(3) show ?thesis by (simp add: unfolded)
  next
    case tie
    with z assms(3) show ?thesis by (simp add: unfolded)
  qed
qed

text \<open>
  C19. The duel tells the damage that is dealt: when the server resolves a round of a duel and the client
  shows its result, the damage on the stage at the end of the animation is the damage the server took
  from the loser's hit points, the side shown as the winner is the one that dealt it, a tie costs
  nobody anything, and the loser is left with the difference, at least zero.
\<close>

theorem shown_damage_is_dealt:
  fixes r :: round_result and hp :: "int js_record"
  assumes "home_mode p = Duel" and "home_snapshot p = Some sn" and "sn_currentRound sn = None"
    and "home_roundResult p = Some (r\<lparr>rr_players := snd (resolveDuelDamage (rr_roundNumber r) [i, j] (hp, rr_players r))\<rparr>)"
    and "rr_roundNumber r \<noteq> 0" and "i \<noteq> j" and "map_of (rr_players r) i = Some a" and "map_of (rr_players r) j = Some b"
    and "(home_selfId p = i \<and> home_oppId p = j) \<or> (home_selfId p = j \<and> home_oppId p = i)"
    and "i \<noteq> []" and "j \<noteq> []" and "g_resultPhase (hp_game p) = PhHpApply"
  shows "\<exists>ov own other. resultOverlay p = Some ov \<and>
    home_playerResult p (home_selfId p) = Some own \<and> home_playerResult p (home_oppId p) = Some other \<and>
    duel_outcome (displayedDamage ov) (hp_at hp (home_selfId p)) own other \<and>
    duel_outcome (displayedDamage ov) (hp_at hp (home_oppId p)) other own \<and>
    ro_winner ov = (if rp_score other < rp_score own then WinnerSelf
      else if rp_score own < rp_score other then WinnerOpp else WinnerTie)"
proof -
  let ?out = "snd (resolveDuelDamage (rr_roundNumber r) [i, j] (hp, rr_players r))"
  let ?d = "getAppliedDamage \<bar>rp_score a - rp_score b\<bar> (roundDamageMultiplier (rr_roundNumber r))"
  obtain a' b' where out: "map_of ?out i = Some a'" "map_of ?out j = Some b'" "rp_score a' = rp_score a" "rp_score b' = rp_score b"
    "duel_outcome ?d (hp_at hp i) a' b'" "duel_outcome ?d (hp_at hp j) b' a'"
    using duel_resolved [OF assms(7,8,6), of "rr_roundNumber r" hp] by blast
  have res: "home_playerResult p i = Some a'" "home_playerResult p j = Some b'"
    using assms(4,10,11) out(1,2) by (simp_all add: home_playerResult_def)
  have mult: "damageMultiplier p = roundDamageMultiplier (rr_roundNumber r)"
    using assms(2-5) by (simp add: damageMultiplier_def roundDamageMultiplier_def currentRoundNumber_def)
  have teams: "resultSelfTeam p = None" "resultOppTeam p = None"
    using assms(1) by (simp_all add: resultSelfTeam_def resultOppTeam_def home_teamResult_def)
  have points: "\<not> isPointsMode p" using assms(1) by (simp add: isPointsMode_def)
  obtain ov where ov: "resultOverlay p = Some ov" "ro_phase ov = PhHpApply" "ro_damage ov = resultDamage p"
    "ro_damageMultiplier ov = damageMultiplier p" "ro_winner ov = resultWinner p"
    using assms(4,12) points by (simp add: resultOverlay_def)
  have "displayedDamage ov = getAppliedDamage (resultDamage p) (roundDamageMultiplier (rr_roundNumber r))"
    by (simp add: displayedDamage_def showDamageMultiplier_def ov mult)
  moreover have "resultDamage p = \<bar>rp_score a - rp_score b\<bar>"
    using assms(9) res out(3,4) points teams
    by (auto simp: resultDamage_def overlaySelfScore_def overlayOppScore_def abs_minus_commute)
  ultimately have dmg: "displayedDamage ov = ?d" by simp
  have "\<exists>own other. home_playerResult p (home_selfId p) = Some own \<and> home_playerResult p (home_oppId p) = Some other \<and>
      duel_outcome ?d (hp_at hp (home_selfId p)) own other \<and> duel_outcome ?d (hp_at hp (home_oppId p)) other own"
    using assms(9) res out(5,6) by auto
  then obtain own other where o: "home_playerResult p (home_selfId p) = Some own" "home_playerResult p (home_oppId p) = Some other"
    "duel_outcome ?d (hp_at hp (home_selfId p)) own other" "duel_outcome ?d (hp_at hp (home_oppId p)) other own" by blast
  then have "ro_winner ov = (if rp_score other < rp_score own then WinnerSelf
      else if rp_score own < rp_score other then WinnerOpp else WinnerTie)"
    using points teams by (simp add: ov resultWinner_def overlaySelfScore_def overlayOppScore_def)
  with ov(1) o show ?thesis unfolding dmg [symmetric] by blast
qed

text \<open>Round four of the sample match: 4200 to 3000 points, the opponent down to zero.\<close>

definition duel_result :: "string \<Rightarrow> int \<Rightarrow> round_player_result" where
  "duel_result i points = zero_result\<lparr>rp_userId := i, rp_score := points\<rparr>"

definition fourth_round :: round_result where
  "fourth_round =
     \<lparr>rr_roundId = ''r4'', rr_roundNumber = 4, rr_actualLocation = (1, 2),
      rr_players = [(''u1'', duel_result ''u1'' 4200), (''u2'', duel_result ''u2'' 3000)], rr_teams = None\<rparr>"

definition fourth_page :: home_params where
  "fourth_page =
     sample_page\<lparr>hp_match := initial_match_state\<lparr>m_snapshot := Some (sample_snapshot\<lparr>sn_currentRound := None,
         sn_phase := RoundResultPhase, sn_lastRoundResult := Some (fourth_round\<lparr>rr_players :=
           snd (resolveDuelDamage 4 [''u2'', ''u1''] ([(''u1'', 6000), (''u2'', 2000)], rr_players fourth_round))\<rparr>)\<rparr>)\<rparr>,
       hp_game := initial_game_state\<lparr>g_resultPhase := PhHpApply\<rparr>\<rparr>"

lemma fourth_page_snapshot:
  "home_snapshot fourth_page = m_snapshot (hp_match fourth_page)" "home_mode fourth_page = Duel"
  "home_selfId fourth_page = ''u1''" "home_oppId fourth_page = ''u2''"
proof -
  show s: "home_snapshot fourth_page = m_snapshot (hp_match fourth_page)"
    by (simp add: fourth_page_def home_snapshot_def sample_snapshot_def)
  show m: "home_mode fourth_page = Duel" by (simp add: home_mode_def s) (simp add: fourth_page_def sample_snapshot_def)
  show i: "home_selfId fourth_page = ''u1''" by (simp add: home_selfId_def fourth_page_def)
  show "home_oppId fourth_page = ''u2''"
    by (simp add: home_oppId_def m i home_players_def s find_str_def) (simp add: fourth_page_def sample_snapshot_def)
qed

theorem shown_damage_is_dealt_witness:
  "\<exists>ov own other. resultOverlay fourth_page = Some ov \<and>
    home_playerResult fourth_page ''u1'' = Some own \<and> home_playerResult fourth_page ''u2'' = Some other \<and>
    duel_outcome (displayedDamage ov) 6000 own other \<and> duel_outcome (displayedDamage ov) 2000 other own"
proof -
  obtain sn where sn: "home_snapshot fourth_page = Some sn" "sn_currentRound sn = None"
    "home_roundResult fourth_page = Some (fourth_round\<lparr>rr_players :=
       snd (resolveDuelDamage (rr_roundNumber fourth_round) [''u2'', ''u1''] ([(''u1'', 6000), (''u2'', 2000)], rr_players fourth_round))\<rparr>)"
    by (simp add: home_roundResult_def fourth_page_snapshot) (simp add: fourth_page_def fourth_round_def)
  have players: "map_of (rr_players fourth_round) ''u2'' = Some (duel_result ''u2'' 3000)"
    "map_of (rr_players fourth_round) ''u1'' = Some (duel_result ''u1'' 4200)" "rr_roundNumber fourth_round \<noteq> 0"
    by (simp_all add: fourth_round_def)
  have "g_resultPhase (hp_game fourth_page) = PhHpApply" by (simp add: fourth_page_def)
  then show ?thesis
    using shown_damage_is_dealt [OF fourth_page_snapshot(2) sn players(3) _ players(1,2)]
    by (auto simp: fourth_page_snapshot hp_at_def)
qed

text \<open>
  Every number of a duel round is told once: before the scores are revealed nothing is shown; then both
  scores; while the winner's score travels, the loser's beside the token; from the impact on only the
  token, which tells the damage, multiplied at the end.
\<close>

theorem stage_numbers:
  assumes "showScores ov" and "ro_winner ov \<noteq> WinnerTie" and "0 < ro_damage ov"
    and "ro_showScoreReveal ov = (ro_phase ov \<noteq> PhBase)"
  shows "let own = ov_score (ro_self ov); other = ov_score (ro_opp ov);
      texts = (sideText SideSelf ov, sideText SideOpp ov, scoreToken True ov) in
    (ro_phase ov = PhScores \<longrightarrow> texts = (own, other, None)) \<and>
    (ro_phase ov = PhCrush \<longrightarrow>
       texts = (if ro_winner ov = WinnerSelf then None else own, if ro_winner ov = WinnerSelf then other else None,
         Some \<lparr>tk_from = (if ro_winner ov = WinnerSelf then own else other), tk_damage = ro_damage ov, tk_label = None\<rparr>)) \<and>
    (ro_phase ov = PhDamageTravel \<longrightarrow>
       texts = (None, None, Some \<lparr>tk_from = None, tk_damage = ro_damage ov, tk_label = None\<rparr>)) \<and>
    (ro_phase ov \<in> {PhDamageMultiplier, PhHpApply} \<longrightarrow>
       texts = (None, None, Some \<lparr>tk_from = None, tk_damage = getAppliedDamage (ro_damage ov) (ro_damageMultiplier ov),
         tk_label = formatDamageMultiplierLabel (ro_damageMultiplier ov)\<rparr>))"
proof -
  obtain x y where sc: "ov_score (ro_self ov) = Some x" "ov_score (ro_opp ov) = Some y"
    using assms(1) by (auto simp: showScores_def)
  show ?thesis
    using assms(2,3,1) sc unfolding Let_def
    by (cases "ro_winner ov"; cases "ro_phase ov")
      (simp_all add: sideText_def scoreToken_def staticScore_def getStaticScoreValue_def hasWinnerMotion_def showCrush_def
        impactReached_def sourceSide_def targetSide_def sourceScoreValue_def displayedDamage_def showDamageMultiplier_def
        damageMultiplierLabel_def)
qed

text \<open>
  A tie hides the opponent's score: when the scores are equal and the animation goes on past their
  reveal, the player's score stays, but the opponent's side takes the part of the winner whose score
  travels, so it turns invisible although no token carries it.
\<close>

theorem tie_hides_opponent:
  assumes "resultOverlay p = Some ov" and "overlaySelfScore p = Some n" and "overlayOppScore p = Some n"
    and "PhCrush \<le> g_resultPhase (hp_game p)"
  shows "sideText SideSelf ov = Some n \<and> sideText SideOpp ov = None \<and> scoreToken True ov = None"
proof -
  have ov: "ro_phase ov = g_resultPhase (hp_game p)" "ro_winner ov = WinnerTie" "ov_score (ro_self ov) = Some n"
    "ov_score (ro_opp ov) = Some n" "ro_showScoreReveal ov = (g_resultPhase (hp_game p) \<noteq> PhBase)"
    using assms(1-3) by (auto simp: resultOverlay_def resultWinner_def split: option.splits if_splits)
  show ?thesis
    using assms(4)
    by (cases "g_resultPhase (hp_game p)")
      (simp_all add: sideText_def scoreToken_def staticScore_def getStaticScoreValue_def hasWinnerMotion_def showCrush_def
        impactReached_def sourceSide_def targetSide_def showScores_def ov result_phase_order)
qed

definition tie_page :: home_params where
  "tie_page =
     fourth_page\<lparr>hp_match := initial_match_state\<lparr>m_snapshot := Some (sample_snapshot\<lparr>sn_currentRound := None,
         sn_phase := RoundResultPhase, sn_lastRoundResult := Some (fourth_round\<lparr>rr_players :=
           [(''u1'', duel_result ''u1'' 4200), (''u2'', duel_result ''u2'' 4200)]\<rparr>)\<rparr>)\<rparr>\<rparr>"

theorem tie_hides_opponent_witness:
  "\<exists>ov. resultOverlay tie_page = Some ov \<and> sideText SideSelf ov = Some 4200 \<and> sideText SideOpp ov = None"
proof -
  have s: "home_snapshot tie_page = m_snapshot (hp_match tie_page)"
    by (simp add: tie_page_def fourth_page_def home_snapshot_def sample_snapshot_def)
  have m: "home_mode tie_page = Duel" by (simp add: home_mode_def s) (simp add: tie_page_def sample_snapshot_def)
  have i: "home_selfId tie_page = ''u1''" by (simp add: home_selfId_def tie_page_def fourth_page_def)
  have j: "home_oppId tie_page = ''u2''"
    by (simp add: home_oppId_def m i home_players_def s find_str_def) (simp add: tie_page_def sample_snapshot_def)
  have r: "\<exists>r. home_roundResult tie_page = Some r \<and>
      rr_players r = [(''u1'', duel_result ''u1'' 4200), (''u2'', duel_result ''u2'' 4200)]"
    by (simp add: home_roundResult_def s) (simp add: tie_page_def)
  then have sc: "overlaySelfScore tie_page = Some 4200" "overlayOppScore tie_page = Some 4200"
    by (auto simp: overlaySelfScore_def overlayOppScore_def home_playerResult_def resultSelfTeam_def resultOppTeam_def
        home_teamResult_def m i j duel_result_def)
  have "PhCrush \<le> g_resultPhase (hp_game tie_page)" by (simp add: tie_page_def fourth_page_def result_phase_order)
  moreover obtain ov where "resultOverlay tie_page = Some ov"
    using r m by (auto simp: resultOverlay_def isPointsMode_def)
  ultimately show ?thesis using tie_hides_opponent [OF _ sc] by blast
qed

end
