(* ===== verification/GuessMap.thy ===== *)
theory GuessMap
  imports Domain Elo Interfaces "HOL-Library.List_Lexorder"
begin

text \<open>
  \<open>components/GuessMap.tsx\<close>: the map on which a guess is placed and the results of a round are shown. The
  longitudes are wrapped so that a guess and the actual location are drawn on the copies of the world that
  lie together; the view is fitted to a result once, from a timer that a newer result cancels; the markers
  are HTML texts. Leaflet's map is a parameter: the record of the functions and sizes the source calls.
  Coordinates are exact reals, texts are byte strings.
\<close>

section \<open>Longitudes\<close>

text \<open>\<open>x % y\<close> on numbers: the remainder has the sign of the dividend.\<close>

definition js_trunc :: "real \<Rightarrow> int" where
  "js_trunc x = (if x < 0 then \<lceil>x\<rceil> else \<lfloor>x\<rfloor>)"

definition real_rem :: "real \<Rightarrow> real \<Rightarrow> real" where
  "real_rem x y = x - y * of_int (js_trunc (x / y))"

definition normalizeLng :: "real \<Rightarrow> real" where
  "normalizeLng lng = real_rem (real_rem (lng + 180) 360 + 360) 360 - 180"

definition closestWrappedLng :: "real \<Rightarrow> real \<Rightarrow> real" where
  "closestWrappedLng lng referenceLng =
     (let normalized = normalizeLng lng in normalized + 360 * js_round ((referenceLng - normalized) / 360))"

lemma js_trunc_close: "\<bar>x - of_int (js_trunc x)\<bar> < 1"
proof (cases "x < 0")
  case True
  then show ?thesis using ceiling_correct [of x] by (simp add: js_trunc_def)
next
  case False
  then show ?thesis using floor_correct [of x] by (simp add: js_trunc_def) linarith
qed

lemma real_rem_bounds: "0 < y \<Longrightarrow> - y < real_rem x y \<and> real_rem x y < y"
proof -
  assume y: "0 < y"
  have "\<bar>x / y - of_int (js_trunc (x / y))\<bar> < 1" by (rule js_trunc_close)
  then have "\<bar>y * (x / y - of_int (js_trunc (x / y)))\<bar> < y" using y by (simp add: abs_mult)
  moreover have "y * (x / y - of_int (js_trunc (x / y))) = real_rem x y"
    using y by (simp add: real_rem_def right_diff_distrib)
  ultimately show ?thesis by (simp add: abs_less_iff)
qed

lemma real_rem_pos: "0 < y \<Longrightarrow> 0 \<le> x \<Longrightarrow> 0 \<le> real_rem x y"
proof -
  assume y: "0 < y" and x: "0 \<le> x"
  then have "of_int (js_trunc (x / y)) \<le> x / y" by (simp add: js_trunc_def not_less [of "x / y" 0, THEN iffD2])
  then have "y * of_int (js_trunc (x / y)) \<le> x" using y by (simp add: pos_le_divide_eq mult.commute)
  then show ?thesis by (simp add: real_rem_def)
qed

text \<open>The normalized longitude is the same meridian, in \<open>[-180, 180)\<close>.\<close>

lemma normalizeLng_range: "- 180 \<le> normalizeLng lng \<and> normalizeLng lng < 180"
proof -
  have "0 \<le> real_rem (lng + 180) 360 + 360" using real_rem_bounds [of 360 "lng + 180"] by simp
  then show ?thesis
    using real_rem_bounds [of 360 "real_rem (lng + 180) 360 + 360"] real_rem_pos [of 360 "real_rem (lng + 180) 360 + 360"]
    by (simp add: normalizeLng_def)
qed

lemma normalizeLng_turns: "\<exists>k :: int. normalizeLng lng = lng + 360 * of_int k"
proof -
  have "normalizeLng lng = lng + 360 * of_int (1 - js_trunc ((lng + 180) / 360) - js_trunc ((real_rem (lng + 180) 360 + 360) / 360))"
    by (simp add: normalizeLng_def real_rem_def)
  then show ?thesis by blast
qed

lemma whole_turn_unique:
  fixes x y :: real
  assumes "- 180 \<le> x" "x < 180" "- 180 \<le> y" "y < 180" "x = y + 360 * of_int k"
  shows "x = y"
proof -
  have "\<bar>360 * real_of_int k\<bar> < 360" using assms by linarith
  then have "k = 0" by (simp add: abs_mult)
  with assms(5) show ?thesis by simp
qed

lemma normalizeLng_id: "- 180 \<le> lng \<Longrightarrow> lng < 180 \<Longrightarrow> normalizeLng lng = lng"
  using normalizeLng_range [of lng] normalizeLng_turns [of lng] whole_turn_unique [of "normalizeLng lng" lng] by auto

lemma normalizeLng_idem [simp]: "normalizeLng (normalizeLng lng) = normalizeLng lng"
  using normalizeLng_range [of lng] by (intro normalizeLng_id) auto

lemma normalizeLng_turn: "normalizeLng (lng + 360 * of_int k) = normalizeLng lng"
proof -
  obtain i j where "normalizeLng (lng + 360 * of_int k) = lng + 360 * of_int k + 360 * of_int i"
    and "normalizeLng lng = lng + 360 * of_int j" using normalizeLng_turns by meson
  then have "normalizeLng (lng + 360 * of_int k) = normalizeLng lng + 360 * of_int (k + i - j)"
    by (simp add: algebra_simps)
  then show ?thesis
    using normalizeLng_range [of lng] normalizeLng_range [of "lng + 360 * of_int k"] whole_turn_unique by blast
qed

text \<open>
  The copy of a guess that the view is fitted to is the guess: the same meridian, and never more than half
  a turn away from the location it is compared with, so that the fitted view never spans a needless
  trip around the world.
\<close>

theorem closest_copy_of_guess:
  "normalizeLng (closestWrappedLng lng reference) = normalizeLng lng \<and>
   \<bar>closestWrappedLng lng reference - reference\<bar> \<le> 180 \<and>
   - 180 \<le> normalizeLng lng \<and> normalizeLng lng < 180 \<and> (\<exists>k :: int. normalizeLng lng = lng + 360 * of_int k)"
proof -
  let ?n = "normalizeLng lng"
  let ?r = "js_round ((reference - ?n) / 360)"
  define k where "k = \<lfloor>(reference - ?n) / 360 + 1 / 2\<rfloor>"
  have k: "?r = of_int k" by (simp add: js_round_def k_def)
  have "\<bar>(reference - ?n) / 360 - of_int k\<bar> \<le> 1 / 2"
    using floor_correct [of "(reference - ?n) / 360 + 1 / 2"] unfolding k_def [symmetric] by linarith
  then have "\<bar>closestWrappedLng lng reference - reference\<bar> \<le> 180"
    by (simp add: closestWrappedLng_def Let_def k abs_le_iff field_simps)
  moreover have "normalizeLng (closestWrappedLng lng reference) = ?n"
    by (simp add: closestWrappedLng_def Let_def k normalizeLng_turn)
  ultimately show ?thesis using normalizeLng_range normalizeLng_turns by blast
qed

section \<open>Copies of the world\<close>

text \<open>
  What the source reads of Leaflet's map: the zoom, the width of the world in pixels (\<open>getPixelWorldBounds\<close>
  may have none), the projection and its inverse, the place of a position in the container and the
  container's size. A position is a pair of latitude and longitude, a point a pair of x and y.
\<close>

type_synonym latlng = "real \<times> real"
type_synonym point = "real \<times> real"

record leaflet_map =
  lf_zoom :: real
  lf_worldWidth :: "real \<Rightarrow> real option"
  lf_project :: "latlng \<Rightarrow> real \<Rightarrow> point"
  lf_unproject :: "point \<Rightarrow> real \<Rightarrow> latlng"
  lf_containerPoint :: "latlng \<Rightarrow> point"
  lf_clientWidth :: real
  lf_clientHeight :: real

record wrapped_candidate =
  wc_latlng :: latlng
  wc_point :: point

definition candidate_at :: "leaflet_map \<Rightarrow> latlng \<Rightarrow> wrapped_candidate" where
  "candidate_at m ll = \<lparr>wc_latlng = ll, wc_point = lf_containerPoint m ll\<rparr>"

definition getWrappedCandidates :: "leaflet_map \<Rightarrow> real \<Rightarrow> real \<Rightarrow> wrapped_candidate list" where
  "getWrappedCandidates m lat lng =
     (let zoom = lf_zoom m in
      case lf_worldWidth m zoom of
        None \<Rightarrow> [candidate_at m (lat, lng)]
      | Some worldWidth \<Rightarrow>
          let projected = lf_project m (lat, normalizeLng lng) zoom;
              copies = max 1 (\<lceil>lf_clientWidth m / worldWidth\<rceil> + 2)
          in map (\<lambda>shift. candidate_at m
                   (lf_unproject m (fst projected + of_int shift * worldWidth, snd projected) zoom))
               [- copies..copies])"

definition isPointVisible :: "leaflet_map \<Rightarrow> point \<Rightarrow> bool" where
  "isPointVisible m pt \<longleftrightarrow>
     0 \<le> fst pt \<and> fst pt \<le> lf_clientWidth m \<and> 0 \<le> snd pt \<and> snd pt \<le> lf_clientHeight m"

definition distanceBetweenPoints :: "point \<Rightarrow> point \<Rightarrow> real" where
  "distanceBetweenPoints a b = sqrt ((fst a - fst b)\<^sup>2 + (snd a - snd b)\<^sup>2)"

text \<open>\<open>pool.reduce(...)\<close> from the first element; an empty pool would give undefined.\<close>

definition nearer :: "point \<Rightarrow> wrapped_candidate \<Rightarrow> wrapped_candidate \<Rightarrow> wrapped_candidate" where
  "nearer anchor best candidate =
     (if distanceBetweenPoints (wc_point candidate) anchor < distanceBetweenPoints (wc_point best) anchor
      then candidate else best)"

definition pickBestWrappedCandidate :: "leaflet_map \<Rightarrow> real \<Rightarrow> real \<Rightarrow> point \<Rightarrow> wrapped_candidate option" where
  "pickBestWrappedCandidate m lat lng anchor =
     (let candidates = getWrappedCandidates m lat lng;
          visible = filter (\<lambda>c. isPointVisible m (wc_point c)) candidates;
          pool = (if visible \<noteq> [] then visible else candidates)
      in case pool of [] \<Rightarrow> None | c # _ \<Rightarrow> Some (foldl (nearer anchor) c pool))"

definition hasVisibleGuess :: "round_player_result \<Rightarrow> bool" where
  "hasVisibleGuess p \<longleftrightarrow> \<not> (rp_lat p = 0 \<and> rp_lng p = 0 \<and> rp_score p = 0)"

definition centerPoint :: "leaflet_map \<Rightarrow> point" where
  "centerPoint m = (lf_clientWidth m / 2, lf_clientHeight m / 2)"

text \<open>The layout of a result: where the actual location and the guesses are drawn. Reading a position of undefined would throw.\<close>

record result_layout =
  rl_actual :: latlng
  rl_players :: "(string \<times> latlng) list"

definition round_layout :: "leaflet_map \<Rightarrow> round_result \<Rightarrow> result_layout option" where
  "round_layout m r =
     Option.bind (pickBestWrappedCandidate m (fst (rr_actualLocation r)) (snd (rr_actualLocation r)) (centerPoint m))
       (\<lambda>actual. map_option (\<lambda>ps. \<lparr>rl_actual = wc_latlng actual, rl_players = ps\<rparr>)
          (those (map (\<lambda>(i, p). map_option (\<lambda>c. (i, wc_latlng c))
                     (pickBestWrappedCandidate m (rp_lat p) (rp_lng p) (wc_point actual)))
             (filter (\<lambda>(i, p). hasVisibleGuess p) (rr_players r)))))"

text \<open>\<open>WrappedResultsLayer\<close>: the layouts of the rounds with their indices.\<close>

definition rounds_layout :: "leaflet_map \<Rightarrow> round_result list \<Rightarrow> (nat \<times> result_layout) list option" where
  "rounds_layout m rs = map_option (zip [0..<length rs]) (those (map (round_layout m) rs))"

lemma candidates_nonempty: "getWrappedCandidates m lat lng \<noteq> []"
  by (auto simp: getWrappedCandidates_def Let_def split: option.splits)

lemma foldl_nearer_in: "foldl (nearer a) c cs \<in> set (c # cs)"
  by (induction cs arbitrary: c) (auto simp: nearer_def)

lemma foldl_nearer_le:
  "d \<in> set (c # cs) \<Longrightarrow> distanceBetweenPoints (wc_point (foldl (nearer a) c cs)) a \<le> distanceBetweenPoints (wc_point d) a"
proof (induction cs arbitrary: c d)
  case Nil
  then show ?case by simp
next
  case (Cons e cs)
  have "distanceBetweenPoints (wc_point (foldl (nearer a) (nearer a c e) cs)) a \<le> distanceBetweenPoints (wc_point (nearer a c e)) a"
    by (rule Cons.IH) simp
  moreover have "distanceBetweenPoints (wc_point (nearer a c e)) a \<le> distanceBetweenPoints (wc_point x) a" if "x \<in> {c, e}" for x
    using that by (auto simp: nearer_def)
  moreover have "distanceBetweenPoints (wc_point (foldl (nearer a) (nearer a c e) cs)) a \<le> distanceBetweenPoints (wc_point d) a"
    if "d \<in> set cs" by (rule Cons.IH) (simp add: that)
  ultimately show ?case using Cons.prems by fastforce
qed

lemma pick_best:
  defines "visible m lat lng \<equiv> filter (\<lambda>c. isPointVisible m (wc_point c)) (getWrappedCandidates m lat lng)"
  defines "pool m lat lng \<equiv> (if visible m lat lng \<noteq> [] then visible m lat lng else getWrappedCandidates m lat lng)"
  shows "\<exists>c. pickBestWrappedCandidate m lat lng anchor = Some c \<and> c \<in> set (pool m lat lng) \<and>
    (\<forall>d \<in> set (pool m lat lng). distanceBetweenPoints (wc_point c) anchor \<le> distanceBetweenPoints (wc_point d) anchor)"
proof -
  have "pool m lat lng \<noteq> []" using candidates_nonempty [of m lat lng] by (simp add: pool_def)
  then obtain x xs where p: "pool m lat lng = x # xs" by (cases "pool m lat lng") auto
  let ?c = "foldl (nearer anchor) x (pool m lat lng)"
  have "pickBestWrappedCandidate m lat lng anchor = Some ?c"
    using p unfolding pool_def visible_def pickBestWrappedCandidate_def Let_def by (simp only: list.case)
  moreover have "?c \<in> set (pool m lat lng)" using foldl_nearer_in [of anchor x "pool m lat lng"] p by auto
  moreover have "distanceBetweenPoints (wc_point ?c) anchor \<le> distanceBetweenPoints (wc_point d) anchor"
    if "d \<in> set (pool m lat lng)" for d using that by (intro foldl_nearer_le) simp
  ultimately show ?thesis by blast
qed

lemma pick_total: "\<exists>c. pickBestWrappedCandidate m lat lng a = Some c"
  using pick_best [of m lat lng a] by blast

lemma those_total: "(\<And>x. x \<in> set xs \<Longrightarrow> f x \<noteq> None) \<Longrightarrow> those (map f xs) \<noteq> None"
  by (induction xs) (force split: option.splits)+

lemma layout_total: "\<exists>l. round_layout m r = Some l"
proof -
  obtain actual where a: "pickBestWrappedCandidate m (fst (rr_actualLocation r)) (snd (rr_actualLocation r)) (centerPoint m) = Some actual"
    using pick_total by blast
  let ?f = "\<lambda>(i, p). map_option (\<lambda>c. (i, wc_latlng c)) (pickBestWrappedCandidate m (rp_lat p) (rp_lng p) (wc_point actual))"
  have f: "?f e \<noteq> None" for e :: "string \<times> round_player_result"
    using pick_total [of m "rp_lat (snd e)" "rp_lng (snd e)" "wc_point actual"] by (auto simp: case_prod_beta)
  have "those (map ?f xs) \<noteq> None" for xs :: "(string \<times> round_player_result) list"
    by (rule those_total) (rule f)
  then obtain ps where "those (map ?f (filter (\<lambda>(i, p). hasVisibleGuess p) (rr_players r))) = Some ps" by blast
  with a show ?thesis by (simp add: round_layout_def)
qed

text \<open>
  Leaflet's contract for the default projection (spherical Mercator): a position is projected at its latitude
  clamped to the square world's, and moving the projected point by whole worlds moves the longitude it stands
  for by whole turns.
\<close>

definition MAX_LATITUDE :: real where
  "MAX_LATITUDE = 850511287798 / 10000000000"

definition clamp_lat :: "real \<Rightarrow> real" where
  "clamp_lat lat = max (min MAX_LATITUDE lat) (- MAX_LATITUDE)"

definition wraps_world :: "leaflet_map \<Rightarrow> bool" where
  "wraps_world m \<longleftrightarrow>
     (\<forall>zoom w lat lng. \<forall>k :: int. lf_worldWidth m zoom = Some w \<longrightarrow>
        lf_unproject m (fst (lf_project m (lat, lng) zoom) + of_int k * w, snd (lf_project m (lat, lng) zoom)) zoom =
          (clamp_lat lat, lng + 360 * of_int k))"

lemma clamp_lat_id: "\<bar>lat\<bar> \<le> MAX_LATITUDE \<Longrightarrow> clamp_lat lat = lat"
  by (auto simp: clamp_lat_def)

lemma candidate_place:
  assumes "wraps_world m" and "c \<in> set (getWrappedCandidates m lat lng)"
  shows "fst (wc_latlng c) = (if lf_worldWidth m (lf_zoom m) = None then lat else clamp_lat lat) \<and>
    normalizeLng (snd (wc_latlng c)) = normalizeLng lng"
  using assms by (auto simp: getWrappedCandidates_def candidate_at_def wraps_world_def normalizeLng_turn Let_def
      split: option.splits)

text \<open>
  C30. Results are drawn at their place: whatever copies of the world the map shows, the picked position
  is the guess itself - its meridian and its latitude, on a map of the world as far as the projection
  reaches, which is 85.05 degrees - , it is on screen whenever a copy of it is, and no other such copy is
  nearer to the location it is attached with.
\<close>

theorem result_drawn_at_its_place:
  assumes "wraps_world m"
  shows "\<exists>c. pickBestWrappedCandidate m lat lng anchor = Some c \<and>
    fst (wc_latlng c) = (if lf_worldWidth m (lf_zoom m) = None then lat else clamp_lat lat) \<and>
    (\<bar>lat\<bar> \<le> MAX_LATITUDE \<longrightarrow> fst (wc_latlng c) = lat) \<and>
    normalizeLng (snd (wc_latlng c)) = normalizeLng lng \<and>
    (\<forall>d \<in> set (getWrappedCandidates m lat lng). isPointVisible m (wc_point d) \<longrightarrow>
       isPointVisible m (wc_point c) \<and>
       distanceBetweenPoints (wc_point c) anchor \<le> distanceBetweenPoints (wc_point d) anchor)"
proof -
  let ?all = "getWrappedCandidates m lat lng"
  let ?visible = "filter (\<lambda>c. isPointVisible m (wc_point c)) ?all"
  let ?pool = "if ?visible \<noteq> [] then ?visible else ?all"
  obtain c where c: "pickBestWrappedCandidate m lat lng anchor = Some c" "c \<in> set ?pool"
    "\<forall>d \<in> set ?pool. distanceBetweenPoints (wc_point c) anchor \<le> distanceBetweenPoints (wc_point d) anchor"
    using pick_best [of m lat lng anchor] by blast
  have "c \<in> set ?all" using c(2) by (auto split: if_splits)
  then have place: "fst (wc_latlng c) = (if lf_worldWidth m (lf_zoom m) = None then lat else clamp_lat lat)"
    "normalizeLng (snd (wc_latlng c)) = normalizeLng lng"
    using candidate_place [OF assms] by blast+
  have "isPointVisible m (wc_point c) \<and> distanceBetweenPoints (wc_point c) anchor \<le> distanceBetweenPoints (wc_point d) anchor"
    if d: "d \<in> set ?all" "isPointVisible m (wc_point d)" for d
  proof -
    have "?visible \<noteq> []" using d by (auto simp: filter_empty_conv)
    with c(2,3) d show ?thesis by simp
  qed
  with place show ?thesis using c(1) clamp_lat_id [of lat] by auto
qed

text \<open>
  Leaflet's map: \<open>SphericalMercator\<close> in radians, stretched over a world of \<open>256 * 2^zoom\<close> pixels
  (\<open>EPSG3857\<close>), positions in the container rounded to pixels and counted from its origin.
\<close>

definition mercator_y :: "real \<Rightarrow> real" where
  "mercator_y phi = ln ((1 + sin phi) / (1 - sin phi)) / 2"

definition mercator_map :: "real \<Rightarrow> point \<Rightarrow> real \<times> real \<Rightarrow> leaflet_map" where
  "mercator_map zoom origin dims =
     (let scale = (\<lambda>z. 256 * 2 powr z);
          project = (\<lambda>(lat, lng) z.
            (scale z * (lng / 360 + 1 / 2), scale z * (1 / 2 - mercator_y (clamp_lat lat * pi / 180) / (2 * pi))));
          place = (\<lambda>ll. project ll zoom)
      in \<lparr>lf_zoom = zoom, lf_worldWidth = (\<lambda>z. Some (scale z)), lf_project = project,
          lf_unproject = (\<lambda>(x, y) z.
            ((2 * arctan (exp ((1 / 2 - y / scale z) * (2 * pi))) - pi / 2) * 180 / pi, (x / scale z - 1 / 2) * 360)),
          lf_containerPoint = (\<lambda>ll. (js_round (fst (place ll)) - fst origin, js_round (snd (place ll)) - snd origin)),
          lf_clientWidth = fst dims, lf_clientHeight = snd dims\<rparr>)"

text \<open>The inverse of the projection: the Gudermannian.\<close>

lemma mercator_inverse:
  assumes "\<bar>phi\<bar> < pi / 2"
  shows "2 * arctan (exp (mercator_y phi)) - pi / 2 = phi"
proof -
  define a where "a = phi / 2 + pi / 4"
  have a: "0 < a" "a < pi / 2" using assms by (auto simp: a_def)
  have c: "0 < cos a" and s: "0 < sin a" using a by (simp_all add: cos_gt_zero sin_gt_zero)
  have "phi = 2 * a - pi / 2" by (simp add: a_def)
  then have "sin phi = - cos (2 * a)" by (simp add: sin_diff)
  then have n: "1 + sin phi = 2 * (sin a)\<^sup>2" and d: "1 - sin phi = 2 * (cos a)\<^sup>2"
    using cos_double_sin [of a] cos_double_cos [of a] by simp_all
  have "(1 + sin phi) / (1 - sin phi) = (tan a)\<^sup>2" unfolding n d by (simp add: tan_def power_divide)
  moreover have t: "0 < tan a" using c s by (simp add: tan_def)
  ultimately have "mercator_y phi = ln (tan a)" by (simp add: mercator_y_def ln_realpow)
  then have "exp (mercator_y phi) = tan a" using t by simp
  moreover have "arctan (tan a) = a" using a by (simp add: arctan_tan)
  ultimately show ?thesis by (simp add: a_def)
qed

lemma mercator_wraps: "wraps_world (mercator_map zoom origin dims)"
proof -
  have "2 * arctan (exp (mercator_y (clamp_lat lat * pi / 180))) - pi / 2 = clamp_lat lat * pi / 180" for lat
  proof (rule mercator_inverse)
    have "\<bar>clamp_lat lat\<bar> < 90" by (auto simp: clamp_lat_def MAX_LATITUDE_def)
    then have "\<bar>clamp_lat lat\<bar> * pi < 90 * pi" by simp
    then show "\<bar>clamp_lat lat * pi / 180\<bar> < pi / 2" by (simp add: abs_mult)
  qed
  then show ?thesis by (simp add: wraps_world_def mercator_map_def Let_def field_simps)
qed

theorem result_drawn_at_its_place_witness:
  "\<exists>c. pickBestWrappedCandidate (mercator_map 2 (0, 0) (800, 600)) 10 190 (400, 300) = Some c \<and>
     fst (wc_latlng c) = 10 \<and> normalizeLng (snd (wc_latlng c)) = normalizeLng 190"
  using result_drawn_at_its_place [OF mercator_wraps, of 2 "(0, 0)" "(800, 600)" 10 190 "(400, 300)"]
  by (auto simp: MAX_LATITUDE_def)

section \<open>Fitting the view\<close>

text \<open>\<open>x.toFixed(d)\<close> (below 1e21): of two nearest numbers the larger, the sign kept in front.\<close>

definition pad_left :: "nat \<Rightarrow> string \<Rightarrow> string" where
  "pad_left n s = replicate (n - length s) (CHR ''0'') @ s"

definition fixed_abs :: "nat \<Rightarrow> real \<Rightarrow> string" where
  "fixed_abs d x =
     (let n = nat \<lfloor>x * 10 ^ d + 1 / 2\<rfloor> in nat_str (n div 10 ^ d) @ ''.'' @ pad_left d (nat_str (n mod 10 ^ d)))"

definition to_fixed :: "nat \<Rightarrow> real \<Rightarrow> string" where
  "to_fixed d x = (if x < 0 then CHR ''-'' # fixed_abs d (- x) else fixed_abs d x)"

fun join_texts :: "string \<Rightarrow> string list \<Rightarrow> string" where
  "join_texts sep [] = []"
| "join_texts sep [w] = w"
| "join_texts sep (w # v # ws) = w @ sep @ join_texts sep (v # ws)"

definition visible_guesses :: "round_result \<Rightarrow> round_player_result list" where
  "visible_guesses r = filter hasVisibleGuess (map snd (rr_players r))"

definition guesses_key :: "nat \<Rightarrow> round_result \<Rightarrow> string" where
  "guesses_key d r =
     join_texts ''|'' (sort (map (\<lambda>p. rp_userId p @ '':'' @ to_fixed d (rp_lat p) @ '','' @ to_fixed d (rp_lng p)) (visible_guesses r)))"

definition actual_key :: "nat \<Rightarrow> round_result \<Rightarrow> string" where
  "actual_key d r = to_fixed d (fst (rr_actualLocation r)) @ '','' @ to_fixed d (snd (rr_actualLocation r))"

definition result_fitKey :: "round_result \<Rightarrow> string" where
  "result_fitKey r =
     (if rr_roundId r \<noteq> [] then rr_roundId r else actual_key 4 r @ ''::'' @ guesses_key 4 r)"

text \<open>A round without an id is keyed by its latitude, printed by \<open>show_num\<close>.\<close>

definition results_fitKey :: "(real \<Rightarrow> string) \<Rightarrow> round_result list \<Rightarrow> string" where
  "results_fitKey show_num rs =
     join_texts ''||''
       (map (\<lambda>r. (if rr_roundId r \<noteq> [] then rr_roundId r else show_num (fst (rr_actualLocation r))) @ '':'' @
               actual_key 2 r @ ''::'' @ guesses_key 2 r) rs)"

definition fit_points :: "round_result \<Rightarrow> latlng list" where
  "fit_points r =
     (let actualLng = normalizeLng (snd (rr_actualLocation r)) in
      (fst (rr_actualLocation r), actualLng) #
      map (\<lambda>p. (rp_lat p, closestWrappedLng (rp_lng p) actualLng)) (visible_guesses r))"

text \<open>
  The two fitting components share their shape: the key that was fitted last, the timer in flight with what it
  closes over, and the calls of \<open>fitBounds\<close>, the latest last. \<open>fit_shown\<close> is the result the component was
  last rendered with; running the effect anew first cancels the timer of the run before.
\<close>

record 'r fit_view =
  fit_shown :: "'r option"
  fit_fitted :: string
  fit_timer :: "(string \<times> latlng list) option"
  fit_calls :: "(string \<times> latlng list) list"

definition new_fit_view :: "'r fit_view" where
  "new_fit_view = \<lparr>fit_shown = None, fit_fitted = [], fit_timer = None, fit_calls = []\<rparr>"

datatype 'r fit_event = FitEffect 'r | FitTimer bool bool | FitUnmount

definition arm_fit :: "string \<Rightarrow> latlng list \<Rightarrow> 'r fit_view \<Rightarrow> 'r fit_view" where
  "arm_fit key points v = (if fit_fitted v = key then v else v\<lparr>fit_timer := Some (key, points)\<rparr>)"

text \<open>The timer: nothing when the container is gone; \<open>fitBounds\<close> may throw, and then nothing counts as fitted.\<close>

definition fire_fit :: "bool \<Rightarrow> bool \<Rightarrow> 'r fit_view \<Rightarrow> 'r fit_view" where
  "fire_fit attached fits v =
     (case fit_timer v of
        None \<Rightarrow> v
      | Some (key, points) \<Rightarrow>
          let v = v\<lparr>fit_timer := None\<rparr> in
          if attached \<and> fits then v\<lparr>fit_calls := fit_calls v @ [(key, points)], fit_fitted := key\<rparr> else v)"

definition cancel_fit :: "'r fit_view \<Rightarrow> 'r fit_view" where
  "cancel_fit v = v\<lparr>fit_timer := None\<rparr>"

fun FitToResult :: "round_result fit_event \<Rightarrow> round_result fit_view \<Rightarrow> round_result fit_view" where
  "FitToResult (FitEffect r) v = arm_fit (result_fitKey r) (fit_points r) ((cancel_fit v)\<lparr>fit_shown := Some r\<rparr>)"
| "FitToResult (FitTimer attached fits) v = fire_fit attached fits v"
| "FitToResult FitUnmount v = cancel_fit v"

fun FitToResults ::
    "(real \<Rightarrow> string) \<Rightarrow> round_result list fit_event \<Rightarrow> round_result list fit_view \<Rightarrow> round_result list fit_view" where
  "FitToResults show_num (FitEffect rs) v =
     (let v = (cancel_fit v)\<lparr>fit_shown := Some rs\<rparr> in
      if rs = [] then v else arm_fit (results_fitKey show_num rs) (concat (map fit_points rs)) v)"
| "FitToResults show_num (FitTimer attached fits) v = fire_fit attached fits v"
| "FitToResults show_num FitUnmount v = cancel_fit v"

text \<open>
  What both keep: a timer belongs to the result on screen and to a key that is not fitted yet; the view was
  fitted last for \<open>fit_fitted\<close>, and never twice in a row for the same key.
\<close>

definition fit_ok :: "('r \<Rightarrow> string) \<Rightarrow> ('r \<Rightarrow> latlng list) \<Rightarrow> 'r fit_view \<Rightarrow> bool" where
  "fit_ok key points v \<longleftrightarrow>
     (\<forall>t. fit_timer v = Some t \<longrightarrow> fst t \<noteq> fit_fitted v \<and> (\<exists>r. fit_shown v = Some r \<and> t = (key r, points r))) \<and>
     fit_fitted v = (if fit_calls v = [] then [] else fst (last (fit_calls v))) \<and>
     distinct_adj (map fst (fit_calls v)) \<and>
     (\<forall>c \<in> set (fit_calls v). \<exists>r. c = (key r, points r))"

lemma cancel_fit_timer [simp]: "fit_timer (cancel_fit v) = None"
  by (simp add: cancel_fit_def)

lemma fit_ok_cancel: "fit_ok key points v \<Longrightarrow> fit_ok key points (cancel_fit v)"
  by (simp add: fit_ok_def cancel_fit_def)

lemma fit_ok_arm:
  "fit_ok key points v \<Longrightarrow> fit_shown v = Some r \<Longrightarrow> fit_timer v = None \<Longrightarrow> fit_ok key points (arm_fit (key r) (points r) v)"
  by (auto simp: fit_ok_def arm_fit_def)

lemma fit_ok_shown: "fit_ok key points v \<Longrightarrow> fit_ok key points ((cancel_fit v)\<lparr>fit_shown := r\<rparr>)"
  by (simp add: fit_ok_def cancel_fit_def)

lemma distinct_adj_snoc: "distinct_adj (xs @ [x]) \<longleftrightarrow> distinct_adj xs \<and> (xs = [] \<or> last xs \<noteq> x)"
  by (simp add: distinct_adj_append_iff)

lemma fit_ok_fire: "fit_ok key points v \<Longrightarrow> fit_ok key points (fire_fit attached fits v)"
  by (auto simp: fit_ok_def fire_fit_def Let_def distinct_adj_snoc last_map split: option.splits)

lemma fit_result_ok: "fit_ok result_fitKey fit_points v \<Longrightarrow> fit_ok result_fitKey fit_points (FitToResult e v)"
  by (cases e) (auto intro!: fit_ok_arm fit_ok_shown fit_ok_fire fit_ok_cancel)

lemma fit_results_ok:
  "fit_ok (results_fitKey show_num) (\<lambda>rs. concat (map fit_points rs)) v \<Longrightarrow>
   fit_ok (results_fitKey show_num) (\<lambda>rs. concat (map fit_points rs)) (FitToResults show_num e v)"
  by (cases e) (auto simp: Let_def intro!: fit_ok_shown fit_ok_fire fit_ok_cancel fit_ok_arm)

lemma new_fit_ok: "fit_ok key points new_fit_view"
  by (simp add: fit_ok_def new_fit_view_def)

interpretation result_fit: invariant_machine FitToResult "fit_ok result_fitKey fit_points"
  by unfold_locales (rule fit_result_ok)

interpretation results_fit: invariant_machine "FitToResults show_num" "fit_ok (results_fitKey show_num) (\<lambda>rs. concat (map fit_points rs))"
  for show_num
  by unfold_locales (rule fit_results_ok)

text \<open>
  The view is fitted to what is shown, and once: however results come in and timers fire, the map is never
  fitted twice in a row for the same result, only ever to the actual location and the visible guesses of
  a result, and a timer in flight is that of the result on screen.
\<close>

theorem view_fitted_once:
  fixes es
  defines "v \<equiv> fold FitToResult es new_fit_view"
  shows "distinct_adj (map fst (fit_calls v)) \<and>
    set (fit_calls v) \<subseteq> range (\<lambda>r. (result_fitKey r, fit_points r)) \<and>
    (case fit_timer v of
       None \<Rightarrow> True
     | Some t \<Rightarrow> fst t \<noteq> fit_fitted v \<and> (\<exists>r. fit_shown v = Some r \<and> t = (result_fitKey r, fit_points r)))"
proof -
  have "fit_ok result_fitKey fit_points v" unfolding v_def by (rule result_fit.run_inv [OF new_fit_ok])
  then show ?thesis by (auto simp: fit_ok_def split: option.splits)
qed

section \<open>Markers\<close>

text \<open>\<open>L.divIcon\<close>: what it is given. Sizes in the HTML are printed by \<open>show_num\<close>.\<close>

record div_icon =
  ic_className :: string
  ic_html :: string
  ic_size :: "real \<times> real"
  ic_anchor :: "real \<times> real"

definition escape_char :: "char \<Rightarrow> string" where
  "escape_char c = (if c = CHR ''&'' then ''&amp;'' else if c = CHR 0x22 then ''&quot;'' else [c])"

definition escape_url :: "string \<Rightarrow> string" where
  "escape_url s = concat (map escape_char s)"

definition hex_color_char :: "char \<Rightarrow> bool" where
  "hex_color_char c \<longleftrightarrow> c \<in> set ''0123456789abcdefABCDEF''"

definition normalizePinBorderColor :: "string option \<Rightarrow> string" where
  "normalizePinBorderColor color =
     (case js_trim (opt_str color) of
        [] \<Rightarrow> []
      | c # digits \<Rightarrow>
          if c = CHR ''#'' \<and> (length digits = 3 \<or> length digits = 6) \<and> list_all hex_color_char digits then c # digits else [])"

definition createAvatarMarkerIcon :: "(real \<Rightarrow> string) \<Rightarrow> string option \<Rightarrow> string option \<Rightarrow> string option \<Rightarrow> real \<Rightarrow> div_icon" where
  "createAvatarMarkerIcon show_num avatarUrl fallback borderColor px =
     (let url = opt_str avatarUrl;
          normalizedFallback = to_upper (take 1 (or_str (opt_str fallback) ''P''));
          pinClass = (if url \<noteq> [] then ''guessAvatarPin'' else ''guessAvatarPin fallback'');
          safeBorderColor = normalizePinBorderColor borderColor;
          borderStyle = (if safeBorderColor \<noteq> [] then '';--pin-border:'' @ safeBorderColor else []);
          avatarHtml = (if url \<noteq> [] then ''<img src=\"'' @ escape_url url @ ''\" alt=\"Player avatar\" />'' else normalizedFallback)
      in \<lparr>ic_className = ''guess-avatar-marker'',
          ic_html = ''<div class=\"'' @ pinClass @ ''\" style=\"--pin-size:'' @ show_num px @ ''px'' @ borderStyle @ ''\">'' @
            avatarHtml @ ''</div>'',
          ic_size = (px, px), ic_anchor = (px / 2, px / 2)\<rparr>)"

definition createActualLocationIcon :: "nat option \<Rightarrow> div_icon" where
  "createActualLocationIcon roundNumber =
     (let content = (case roundNumber of
            Some n \<Rightarrow> ''<span class=\"actualLocationNumber\">'' @ nat_str n @ ''</span>''
          | None \<Rightarrow> ''<span class=\"actualLocationFlag\"></span>'')
      in \<lparr>ic_className = ''actual-location-marker'',
          ic_html = ''<div class=\"actualLocationPin\" aria-hidden=\"true\">'' @ content @ ''</div>'',
          ic_size = (30, 30), ic_anchor = (15, 15)\<rparr>)"

text \<open>How a browser reads a quoted attribute: up to the quote, the references the escaping makes decoded.\<close>

function read_refs :: "string \<Rightarrow> string" where
  "read_refs [] = []"
| "read_refs (c # s) =
     (if c = CHR ''&'' \<and> starts_with s ''amp;'' then CHR ''&'' # read_refs (drop 4 s)
      else if c = CHR ''&'' \<and> starts_with s ''quot;'' then CHR 0x22 # read_refs (drop 5 s)
      else c # read_refs s)"
  by pat_completeness auto

termination
  by (relation "measure length") auto

definition read_attr :: "string \<Rightarrow> string \<times> string" where
  "read_attr s = (read_refs (takeWhile (\<lambda>c. c \<noteq> CHR 0x22) s), dropWhile (\<lambda>c. c \<noteq> CHR 0x22) s)"

lemma read_escaped_char: "read_refs (escape_char c @ s) = c # read_refs s"
  by (simp add: escape_char_def starts_with_def)

lemma read_escaped: "read_refs (escape_url s) = s"
  by (induction s) (simp_all add: escape_url_def read_escaped_char)

lemma escaped_no_quote: "CHR 0x22 \<notin> set (escape_url s)"
  by (auto simp: escape_url_def escape_char_def split: if_splits)

lemma read_attr_escaped: "read_attr (escape_url u @ CHR 0x22 # r) = (u, CHR 0x22 # r)"
proof -
  have "\<forall>c \<in> set (escape_url u). c \<noteq> CHR 0x22" using escaped_no_quote by blast
  then show ?thesis by (simp add: read_attr_def takeWhile_append dropWhile_append read_escaped)
qed

text \<open>The border of a pin is empty or a colour of three or six hexadecimal digits, so it cannot leave its style.\<close>

lemma pin_border_safe:
  "normalizePinBorderColor color = [] \<or>
   (\<exists>ds. normalizePinBorderColor color = CHR ''#'' # ds \<and> length ds \<in> {3, 6} \<and> list_all hex_color_char ds)"
  by (auto simp: normalizePinBorderColor_def split: list.splits if_splits)

lemma pin_border_no_quote: "CHR 0x22 \<notin> set (normalizePinBorderColor color)"
proof -
  have "\<not> hex_color_char (CHR 0x22)" by (simp add: hex_color_char_def)
  then show ?thesis using pin_border_safe [of color] by (auto simp: list_all_iff)
qed

text \<open>
  An avatar marker shows the avatar and nothing else: whatever text the avatar's address is, the browser
  reads back exactly that address as the source of the image, the markup around it is closed, and the
  quotes in front of it are those of the class and the style, whatever colour the border is given.
\<close>

theorem marker_shows_avatar:
  assumes "avatarUrl = Some u" and "u \<noteq> []" and "CHR 0x22 \<notin> set (show_num px)"
  shows "\<exists>pre rest. ic_html (createAvatarMarkerIcon show_num avatarUrl fallback color px) = pre @ ''<img src=\"'' @ rest \<and>
    read_attr rest = (u, ''\" alt=\"Player avatar\" /></div>'') \<and>
    length (filter (\<lambda>c. c = CHR 0x22) pre) = 4"
proof (intro exI conjI)
  let ?border = "if normalizePinBorderColor color \<noteq> [] then '';--pin-border:'' @ normalizePinBorderColor color else []"
  let ?pre = "''<div class=\"guessAvatarPin\" style=\"--pin-size:'' @ show_num px @ ''px'' @ ?border @ ''\">''"
  let ?rest = "escape_url u @ ''\" alt=\"Player avatar\" /></div>''"
  show "ic_html (createAvatarMarkerIcon show_num avatarUrl fallback color px) = ?pre @ ''<img src=\"'' @ ?rest"
    using assms(1,2) by (simp add: createAvatarMarkerIcon_def Let_def)
  show "read_attr ?rest = (u, ''\" alt=\"Player avatar\" /></div>'')"
    using read_attr_escaped [of u "'' alt=\"Player avatar\" /></div>''"] by simp
  have "filter (\<lambda>c. c = CHR 0x22) (show_num px) = []" "filter (\<lambda>c. c = CHR 0x22) (normalizePinBorderColor color) = []"
    using assms(3) pin_border_no_quote [of color] by (auto simp: filter_empty_conv)
  then show "length (filter (\<lambda>c. c = CHR 0x22) ?pre) = 4" by simp
qed

theorem marker_shows_avatar_witness:
  "\<exists>pre rest. ic_html (createAvatarMarkerIcon (\<lambda>x. ''38'') (Some ''a?b\"&c'') None (Some ''#fff'') 38) = pre @ ''<img src=\"'' @ rest \<and>
    read_attr rest = (''a?b\"&c'', ''\" alt=\"Player avatar\" /></div>'') \<and>
    length (filter (\<lambda>c. c = CHR 0x22) pre) = 4"
  by (rule marker_shows_avatar) simp_all

section \<open>The map\<close>

text \<open>\<open>URLSearchParams\<close>: space becomes a plus sign, everything but letters, digits and \<open>*-._\<close> is escaped.\<close>

definition form_char :: "char \<Rightarrow> string" where
  "form_char c =
     (let n = of_char c :: nat in
      if c = CHR '' '' then ''+''
      else if (65 \<le> n \<and> n \<le> 90) \<or> (97 \<le> n \<and> n \<le> 122) \<or> (48 \<le> n \<and> n \<le> 57) \<or> c \<in> set ''*-._'' then [c]
      else [CHR ''%'', hex_digit (n div 16), hex_digit (n mod 16)])"

definition buildGoogleMapsLocationUrl :: "(real \<Rightarrow> string) \<Rightarrow> real \<Rightarrow> real \<Rightarrow> string" where
  "buildGoogleMapsLocationUrl show_num lat lng =
     ''https://www.google.com/maps/@?api=1&map_action=pano&viewpoint='' @
     concat (map form_char (show_num lat @ '','' @ show_num (normalizeLng lng)))"

datatype map_call = PreventDefault | StopPropagation | OpenWindow string string string | MapGuess real real

definition openGoogleMapsLocation :: "(real \<Rightarrow> string) \<Rightarrow> real \<Rightarrow> real \<Rightarrow> bool \<Rightarrow> map_call list" where
  "openGoogleMapsLocation show_num lat lng hasEvent =
     (if hasEvent then [PreventDefault, StopPropagation] else []) @
     [OpenWindow (buildGoogleMapsLocationUrl show_num lat lng) ''_blank'' ''noopener,noreferrer'']"

datatype map_mode = GuessMode | ResultMode

record map_props =
  mp_hasOnGuess :: bool
  mp_guess :: "latlng option"
  mp_mode :: map_mode
  mp_result :: "round_result option"
  mp_results :: "round_result list option"
  mp_interactiveInResult :: bool

definition map_interactive :: "map_props \<Rightarrow> bool" where
  "map_interactive p \<longleftrightarrow> mp_mode p = GuessMode \<or> (mp_mode p = ResultMode \<and> mp_interactiveInResult p)"

definition mapClassName :: "map_props \<Rightarrow> string" where
  "mapClassName p =
     (if map_interactive p then ''minimap-interactive'' else ''minimap-static'') @
     (if mp_mode p = ResultMode then '' minimap-result'' else [])"

datatype map_layer = ClickLayer | GuessPin latlng | FitOne round_result | FitMany "round_result list"
  | OneResult round_result | ManyResults "round_result list"

definition map_layers :: "map_props \<Rightarrow> map_layer list" where
  "map_layers p =
     (let many = (if mp_mode p = ResultMode \<and> mp_result p = None then (case mp_results p of Some rs \<Rightarrow> rs | None \<Rightarrow> []) else []);
          one = (if mp_mode p = ResultMode then mp_result p else None)
      in (if mp_mode p = GuessMode \<and> mp_hasOnGuess p then [ClickLayer] else []) @
         (case mp_guess p of Some g \<Rightarrow> if mp_mode p = GuessMode then [GuessPin g] else [] | None \<Rightarrow> []) @
         (case one of Some r \<Rightarrow> [FitOne r] | None \<Rightarrow> []) @ (if many \<noteq> [] then [FitMany many] else []) @
         (case one of Some r \<Rightarrow> [OneResult r] | None \<Rightarrow> []) @ (if many \<noteq> [] then [ManyResults many] else []))"

text \<open>A click on the map: the guess is what was clicked, and only a map in guess mode listens.\<close>

definition map_click :: "map_props \<Rightarrow> latlng \<Rightarrow> map_call list" where
  "map_click p ll = (if ClickLayer \<in> set (map_layers p) then [MapGuess (fst ll) (snd ll)] else [])"

lemma result_map_takes_no_guess: "mp_mode p = ResultMode \<Longrightarrow> map_click p ll = []"
  by (auto simp: map_click_def map_layers_def Let_def split: option.splits if_splits)

end
