(* ===== verification/InGame.thy ===== *)
theory InGame
  imports ResultOverlay GuessMap
begin

text \<open>
  The page of a running match: \<open>components/home/InGameScene.tsx\<close> (the forfeit dialog, the way back to the
  spawn, the focus that is taken from the street view, the score board of a free-for-all, the countdown)
  and \<open>components/ui/MinimapPanel.tsx\<close> (the panel that grows under the pointer, and the gestures that must
  not count as clicks). Both are machines over their own state; a button acts only where it is rendered
  and enabled. The answers of the callbacks and of \<open>matches(':hover')\<close> are arguments of the events.
\<close>

section \<open>The countdown\<close>

text \<open>\<open>parseInt(s, 10) || 0\<close>: the digits at the front, after spaces and a sign.\<close>

definition parseInt_or_0 :: "string \<Rightarrow> int" where
  "parseInt_or_0 s =
     (let t = dropWhile is_space s;
          neg = (case t of c # _ \<Rightarrow> c = CHR ''-'' | [] \<Rightarrow> False);
          ds = takeWhile is_digit (case t of c # r \<Rightarrow> if c \<in> set ''+-'' then r else t | [] \<Rightarrow> [])
      in if neg then - int (read_digits ds) else int (read_digits ds))"

definition countdownSec :: "string \<Rightarrow> string \<Rightarrow> int" where
  "countdownSec mm ss = parseInt_or_0 ss + parseInt_or_0 mm * 60"

definition showCountdown :: "bool \<Rightarrow> ui_phase \<Rightarrow> string \<Rightarrow> string \<Rightarrow> bool" where
  "showCountdown isSingleplayer uiPhase mm ss \<longleftrightarrow>
     \<not> isSingleplayer \<and> uiPhase = UIPrematchCountdown \<and> 0 < countdownSec mm ss \<and> countdownSec mm ss \<le> 3"

section \<open>The score board\<close>

record scoreboard_names =
  sb_names :: "string js_record"
  sb_avatars :: "string option js_record"
  sb_fallbacks :: "string js_record"
  sb_participants :: "player_identity js_record"

datatype board_identity = OwnIdentity player_identity
  | MadeIdentity string string "string option" string

record board_row =
  br_id :: string
  br_name :: string
  br_total :: player_total
  br_participant :: board_identity

definition board_row_of :: "scoreboard_names \<Rightarrow> string \<times> player_total \<Rightarrow> board_row" where
  "board_row_of b e =
     (case e of (i, t) \<Rightarrow>
        let name = or_str (opt_str (map_of (sb_names b) i)) ''Unknown'' in
        \<lparr>br_id = i, br_name = name, br_total = t,
         br_participant = (case map_of (sb_participants b) i of
             Some v \<Rightarrow> OwnIdentity v
           | None \<Rightarrow> MadeIdentity i name (Option.bind (map_of (sb_avatars b) i) id)
               (or_str (opt_str (map_of (sb_fallbacks b) i)) ''?''))\<rparr>)"

definition scoreboardPlayers :: "game_mode \<Rightarrow> scoreboard_names \<Rightarrow> round_result list \<Rightarrow> board_row list" where
  "scoreboardPlayers partyMode b rounds =
     (if partyMode \<noteq> FreeForAll \<or> rounds = [] then []
      else sort_key (\<lambda>r. - pt_score (br_total r)) (map (board_row_of b) (end_totals rounds)))"

lemma sort_key_map: "sort_key f (map g xs) = map g (sort_key (\<lambda>x. f (g x)) xs)"
proof -
  have ins: "insort_key f (g x) (map g ys) = map g (insort_key (\<lambda>x. f (g x)) x ys)" for x ys by (induction ys) auto
  show ?thesis by (induction xs) (simp_all add: ins)
qed

text \<open>Between the rounds of a free-for-all the players are listed in the order of the end page, with its points.\<close>

lemma board_ranks_like_end_page:
  "map (\<lambda>r. (br_id r, pt_score (br_total r))) (scoreboardPlayers FreeForAll b (emv_roundResults v)) =
   map (\<lambda>r. (row_id r, row_score r)) (playerScores v)"
proof (cases "emv_roundResults v = []")
  case True
  then show ?thesis by (simp add: scoreboardPlayers_def playerScores_def end_totals_def)
next
  case False
  have r: "pt_score (br_total (board_row_of b e)) = pt_score (snd e)" "row_score (score_row_of v e) = pt_score (snd e)"
    "br_id (board_row_of b e) = fst e" "row_id (score_row_of v e) = fst e" for e
    by (simp_all add: board_row_of_def score_row_of_def Let_def case_prod_beta)
  from False show ?thesis
    by (simp add: scoreboardPlayers_def playerScores_def sort_key_map r)
qed

section \<open>The scene\<close>

record scene_props =
  sp_uiPhase :: ui_phase
  sp_streetViewSrc :: string
  sp_streetViewInteractive :: bool
  sp_isSingleplayer :: bool
  sp_isPointsMode :: bool
  sp_partyMode :: game_mode
  sp_showResultStage :: bool
  sp_canAdvanceRound :: bool

datatype scene_call = AskForfeit | Forfeit bool | LeaveGame | AdvanceRound | ReleaseFocus

record game_scene =
  sc_props :: scene_props
  sc_confirm :: bool
  sc_requested :: bool
  sc_resets :: nat
  sc_blurTimers :: nat
  sc_calls :: "scene_call list"

datatype scene_event =
    SceneRender scene_props
  | ForfeitClick
  | ForfeitCancel
  | ForfeitConfirm bool
  | SpawnClick
  | ResultButton
  | FrameFocus bool
  | WindowBlur
  | BlurTimer bool

definition canShowForfeit :: "game_scene \<Rightarrow> bool" where
  "canShowForfeit s \<longleftrightarrow> sp_uiPhase (sc_props s) \<noteq> UIMatchEnd"

definition streetViewShown :: "game_scene \<Rightarrow> bool" where
  "streetViewShown s \<longleftrightarrow> sp_uiPhase (sc_props s) \<in> {UILiveRound, UIPrematchCountdown}"

text \<open>The key of the frame: a new key loads the street view anew.\<close>

definition streetViewKey :: "game_scene \<Rightarrow> string" where
  "streetViewKey s = sp_streetViewSrc (sc_props s) @ ''-'' @ nat_str (sc_resets s)"

definition log_scene :: "scene_call \<Rightarrow> game_scene \<Rightarrow> game_scene" where
  [ctl_defs]: "log_scene c s = s\<lparr>sc_calls := sc_calls s @ [c]\<rparr>"

definition new_scene :: "scene_props \<Rightarrow> game_scene" where
  "new_scene p =
     \<lparr>sc_props = p, sc_confirm = False, sc_requested = False, sc_resets = 0, sc_blurTimers = 0, sc_calls = []\<rparr>"

text \<open>A render runs the effects whose dependencies changed.\<close>

definition scene_render :: "scene_props \<Rightarrow> game_scene \<Rightarrow> game_scene" where
  "scene_render p s =
     (let old = sc_props s; s = s\<lparr>sc_props := p\<rparr>;
          s = (if \<not> canShowForfeit s then s\<lparr>sc_confirm := False, sc_requested := False\<rparr> else s)
      in if sp_streetViewSrc p \<noteq> sp_streetViewSrc old then s\<lparr>sc_resets := 0\<rparr> else s)"

definition handleForfeitConfirm :: "bool \<Rightarrow> game_scene \<Rightarrow> game_scene" where
  "handleForfeitConfirm sent s =
     (let s = log_scene (Forfeit sent) s in
      if \<not> sent then s\<lparr>sc_confirm := False\<rparr>
      else if sp_isSingleplayer (sc_props s)
      then log_scene LeaveGame (s\<lparr>sc_confirm := False, sc_requested := False\<rparr>)
      else s\<lparr>sc_requested := True\<rparr>)"

text \<open>\<open>releaseStreetViewFocus\<close>: only when the frame has the focus.\<close>

definition releaseStreetViewFocus :: "bool \<Rightarrow> game_scene \<Rightarrow> game_scene" where
  "releaseStreetViewFocus frameFocused s = (if frameFocused then log_scene ReleaseFocus s else s)"

fun scene_step :: "scene_event \<Rightarrow> game_scene \<Rightarrow> game_scene" where
  "scene_step (SceneRender p) s = scene_render p s"
| "scene_step ForfeitClick s =
     (if canShowForfeit s \<and> \<not> sc_confirm s then log_scene AskForfeit (s\<lparr>sc_confirm := True\<rparr>) else s)"
| "scene_step ForfeitCancel s =
     (if canShowForfeit s \<and> sc_confirm s then s\<lparr>sc_confirm := False, sc_requested := False\<rparr> else s)"
| "scene_step (ForfeitConfirm sent) s =
     (if canShowForfeit s \<and> sc_confirm s \<and> \<not> sc_requested s then handleForfeitConfirm sent s else s)"
| "scene_step SpawnClick s =
     (if canShowForfeit s \<and> \<not> sc_confirm s \<and> sp_streetViewInteractive (sc_props s)
      then s\<lparr>sc_resets := sc_resets s + 1\<rparr> else s)"
| "scene_step ResultButton s =
     (let p = sc_props s in
      if sp_isPointsMode p \<and> sp_showResultStage p \<and> sp_partyMode p \<noteq> FreeForAll
      then log_scene (if sp_canAdvanceRound p then AdvanceRound else LeaveGame) s else s)"
| "scene_step (FrameFocus focused) s = (if streetViewShown s then releaseStreetViewFocus focused s else s)"
| "scene_step WindowBlur s = (if streetViewShown s then s\<lparr>sc_blurTimers := sc_blurTimers s + 1\<rparr> else s)"
| "scene_step (BlurTimer focused) s =
     (case sc_blurTimers s of
        0 \<Rightarrow> s
      | Suc n \<Rightarrow> (let s = s\<lparr>sc_blurTimers := n\<rparr> in if streetViewShown s then releaseStreetViewFocus focused s else s))"

text \<open>
  Every forfeit in the log answers a question of its own: \<open>asked_first open log\<close> reads the log from the
  front, \<open>open\<close> saying whether a question is still unanswered.
\<close>

fun asked_first :: "bool \<Rightarrow> scene_call list \<Rightarrow> bool" where
  "asked_first q [] = True"
| "asked_first q (AskForfeit # cs) = asked_first True cs"
| "asked_first q (Forfeit b # cs) = (q \<and> asked_first False cs)"
| "asked_first q (c # cs) = asked_first q cs"

fun still_asked :: "bool \<Rightarrow> scene_call list \<Rightarrow> bool" where
  "still_asked q [] = q"
| "still_asked q (AskForfeit # cs) = still_asked True cs"
| "still_asked q (Forfeit b # cs) = still_asked False cs"
| "still_asked q (c # cs) = still_asked q cs"

lemma asked_append: "asked_first q (xs @ ys) \<longleftrightarrow> asked_first q xs \<and> asked_first (still_asked q xs) ys"
  by (induction q xs rule: asked_first.induct) auto

lemma still_asked_append: "still_asked q (xs @ ys) = still_asked (still_asked q xs) ys"
  by (induction q xs rule: still_asked.induct) auto

definition scene_ok :: "game_scene \<Rightarrow> bool" where
  "scene_ok s \<longleftrightarrow>
     asked_first False (sc_calls s) \<and> (sc_requested s \<longrightarrow> sc_confirm s) \<and>
     (sc_confirm s \<longrightarrow> canShowForfeit s \<and> (\<not> sc_requested s \<longrightarrow> still_asked False (sc_calls s)))"

lemma scene_ok_step: "scene_ok s \<Longrightarrow> scene_ok (scene_step e s)"
  by (cases e)
    (auto simp: scene_ok_def canShowForfeit_def scene_render_def handleForfeitConfirm_def releaseStreetViewFocus_def ctl_defs
      Let_def asked_append still_asked_append split: nat.splits)

lemma scene_ok_new: "scene_ok (new_scene p)"
  by (simp add: scene_ok_def new_scene_def)

interpretation game_scenes: invariant_machine scene_step scene_ok
  by unfold_locales (rule scene_ok_step)

text \<open>
  C21. A match is forfeited on purpose only: in whatever order the scene is rendered and clicked, every
  forfeit that is sent was asked for in the dialog since the one before, the dialog waits for its
  answer only while it is open, and it is never open when the match has ended.
\<close>

theorem forfeit_only_when_asked:
  fixes es p
  defines "s \<equiv> fold scene_step es (new_scene p)"
  shows "asked_first False (sc_calls s) \<and> \<not> (sc_requested s \<and> \<not> sc_confirm s) \<and>
    \<not> (sc_confirm s \<and> sp_uiPhase (sc_props s) = UIMatchEnd)"
proof -
  have "scene_ok s" unfolding s_def by (rule game_scenes.run_inv [OF scene_ok_new])
  then show ?thesis by (simp add: scene_ok_def canShowForfeit_def)
qed

lemma digit_nat_str: "list_all is_digit (nat_str n)"
proof (induction n rule: nat_str.induct)
  case (1 n)
  have "is_digit (digit_char d)" if "d < 10" for d
    using of_char_digit_char [OF that] that by (simp add: is_digit_def)
  with 1 show ?case by (subst nat_str.simps) auto
qed

lemma digit_not_space: "is_digit c \<Longrightarrow> \<not> is_space c \<and> c \<noteq> CHR ''-'' \<and> c \<noteq> CHR ''+''"
  by (auto simp: is_digit_def is_space_def Let_def)

lemma parse_digits: "list_all is_digit ds \<Longrightarrow> parseInt_or_0 ds = int (read_digits ds)"
proof (cases ds)
  case Nil
  then show ?thesis by (simp add: parseInt_or_0_def read_digits_def)
next
  case (Cons c r)
  assume d: "list_all is_digit ds"
  with Cons have c: "is_digit c" and r: "takeWhile is_digit r = r" by (auto simp: takeWhile_eq_all_conv list_all_iff)
  show ?thesis using digit_not_space [OF c] by (simp add: parseInt_or_0_def Let_def Cons c r)
qed

lemma parse_clock: "parseInt_or_0 (padStart2 (nat_str n)) = int n"
proof -
  have "list_all is_digit (padStart2 (nat_str n))"
    using digit_nat_str [of n] by (auto simp: padStart2_def list_all_iff is_digit_def)
  then show ?thesis by (simp add: parse_digits read_padStart2 read_nat_str)
qed

lemma parse_hidden: "parseInt_or_0 ''--'' = 0"
  by (simp add: parseInt_or_0_def is_space_def is_digit_def read_digits_def)

text \<open>
  The countdown the scene starts a round with is the round clock: reading the shown minutes and seconds
  back gives the displayed seconds, a hidden clock reads as zero, and the countdown appears exactly in
  the last three seconds before a round of a match with an opponent.
\<close>

theorem countdown_reads_clock:
  fixes p
  defines "v \<equiv> hv_game (deriveHomeModel p)"
  assumes "0 \<le> g_displayRoundSeconds (hp_game p)"
  shows "countdownSec (hgv_mm v) (hgv_ss v) = (if hideRoundClock p then 0 else g_displayRoundSeconds (hp_game p)) \<and>
    showCountdown (hgv_isSingleplayer v) (hgv_uiPhase v) (hgv_mm v) (hgv_ss v) =
      (home_mode p \<noteq> Singleplayer \<and> home_uiPhase p = UIPrematchCountdown \<and> g_displayRoundSeconds (hp_game p) \<in> {1, 2, 3})"
proof -
  let ?d = "g_displayRoundSeconds (hp_game p)"
  obtain n where n: "?d = int n" using assms(2) nonneg_int_cases by blast
  have pos: "\<not> int n div 60 < 0" "\<not> int n mod 60 < 0" by (simp_all add: not_less pos_imp_zdiv_nonneg_iff)
  have clock: "clock_mm p = padStart2 (nat_str (n div 60))" "clock_ss p = padStart2 (nat_str (n mod 60))" if "\<not> hideRoundClock p"
    using that n pos by (simp_all add: clock_mm_def clock_ss_def js_rem_def int_str_def nat_div_distrib nat_mod_distrib
        flip: zdiv_int zmod_int)
  have v: "hgv_mm v = clock_mm p" "hgv_ss v = clock_ss p" "hgv_uiPhase v = home_uiPhase p"
    "hgv_isSingleplayer v = (home_mode p = Singleplayer)"
    by (simp_all add: v_def deriveHomeModel_def home_game_of_def)
  have sec: "countdownSec (clock_mm p) (clock_ss p) = (if hideRoundClock p then 0 else ?d)"
  proof (cases "hideRoundClock p")
    case True
    then show ?thesis by (simp add: countdownSec_def clock_mm_def clock_ss_def parse_hidden)
  next
    case False
    have "int (n mod 60) + int (n div 60) * 60 = int n" by presburger
    with False show ?thesis by (simp add: countdownSec_def clock parse_clock n)
  qed
  have "\<not> hideRoundClock p" if "home_uiPhase p = UIPrematchCountdown" using that by (simp add: hideRoundClock_def)
  then show ?thesis unfolding v showCountdown_def sec by auto
qed

theorem countdown_reads_clock_witness:
  "countdownSec (hgv_mm (hv_game (deriveHomeModel sample_page))) (hgv_ss (hv_game (deriveHomeModel sample_page))) = 75"
  using countdown_reads_clock [of sample_page] sample_page_facts(2) by (simp add: initial_game_state_def)

section \<open>The minimap\<close>

record minimap =
  mn_pointer :: "(int \<times> real \<times> real) option"
  mn_locked :: bool
  mn_suppress :: bool
  mn_hovered :: bool
  mn_expanded :: bool
  mn_desktop :: bool
  mn_finalized :: nat

definition new_minimap :: minimap where
  "new_minimap =
     \<lparr>mn_pointer = None, mn_locked = False, mn_suppress = False, mn_hovered = False, mn_expanded = False,
      mn_desktop = False, mn_finalized = 0\<rparr>"

datatype minimap_event =
    SyncViewport bool
  | WindowRelease bool
  | WindowMouseMove nat bool
  | PanelDown int real real
  | PanelMove int real real
  | PanelUp int
  | PanelClick
  | BackdropClick
  | PanelEnter nat
  | PanelLeave nat
  | FinalizeClick bool

definition syncViewport :: "bool \<Rightarrow> minimap \<Rightarrow> minimap" where
  "syncViewport desktop m =
     (let m = m\<lparr>mn_desktop := desktop\<rparr> in if desktop then m\<lparr>mn_expanded := False\<rparr> else m)"

text \<open>A release on the window: on a desktop the panel is hovered exactly when the pointer is over it.\<close>

definition releaseResizeLock :: "bool \<Rightarrow> minimap \<Rightarrow> minimap" where
  "releaseResizeLock hovering m =
     (let m = m\<lparr>mn_locked := False\<rparr> in if \<not> mn_desktop m then m else m\<lparr>mn_hovered := hovering\<rparr>)"

definition beginPointerGesture :: "int \<Rightarrow> real \<Rightarrow> real \<Rightarrow> minimap \<Rightarrow> minimap" where
  "beginPointerGesture i x y m = m\<lparr>mn_pointer := Some (i, x, y), mn_locked := True, mn_suppress := False\<rparr>"

definition moved_far :: "real \<Rightarrow> real \<Rightarrow> bool" where
  "moved_far dx dy \<longleftrightarrow> 6 < sqrt (dx\<^sup>2 + dy\<^sup>2)"

definition trackPointerGesture :: "int \<Rightarrow> real \<Rightarrow> real \<Rightarrow> minimap \<Rightarrow> minimap" where
  "trackPointerGesture i x y m =
     (case mn_pointer m of
        None \<Rightarrow> m
      | Some (j, px, py) \<Rightarrow>
          if j \<noteq> i then m else if moved_far (x - px) (y - py) then m\<lparr>mn_suppress := True\<rparr> else m)"

definition endPointerGesture :: "int \<Rightarrow> minimap \<Rightarrow> minimap" where
  "endPointerGesture i m = (if map_option fst (mn_pointer m) = Some i then m\<lparr>mn_pointer := None\<rparr> else m)"

definition handlePanelClick :: "minimap \<Rightarrow> minimap" where
  "handlePanelClick m =
     (if mn_suppress m then m\<lparr>mn_suppress := False\<rparr> else if \<not> mn_desktop m then m\<lparr>mn_expanded := True\<rparr> else m)"

definition handleBackdropClick :: "minimap \<Rightarrow> minimap" where
  "handleBackdropClick m = (if mn_suppress m then m\<lparr>mn_suppress := False\<rparr> else m\<lparr>mn_expanded := False\<rparr>)"

definition hover_panel :: "bool \<Rightarrow> nat \<Rightarrow> minimap \<Rightarrow> minimap" where
  "hover_panel over buttons m =
     (if \<not> mn_desktop m then m
      else if mn_locked m \<or> buttons \<noteq> 0 then m\<lparr>mn_locked := True\<rparr> else m\<lparr>mn_hovered := over\<rparr>)"

fun minimap_step :: "minimap_event \<Rightarrow> minimap \<Rightarrow> minimap" where
  "minimap_step (SyncViewport desktop) m = syncViewport desktop m"
| "minimap_step (WindowRelease hovering) m = releaseResizeLock hovering m"
| "minimap_step (WindowMouseMove buttons hovering) m =
     (if mn_locked m \<and> buttons = 0 then releaseResizeLock hovering m else m)"
| "minimap_step (PanelDown i x y) m = beginPointerGesture i x y m"
| "minimap_step (PanelMove i x y) m = trackPointerGesture i x y m"
| "minimap_step (PanelUp i) m = endPointerGesture i m"
| "minimap_step PanelClick m = handlePanelClick m"
| "minimap_step BackdropClick m = (if \<not> mn_desktop m \<and> mn_expanded m then handleBackdropClick m else m)"
| "minimap_step (PanelEnter buttons) m = hover_panel True buttons m"
| "minimap_step (PanelLeave buttons) m = hover_panel False buttons m"
| "minimap_step (FinalizeClick enabled) m = (if enabled then m\<lparr>mn_finalized := mn_finalized m + 1\<rparr> else m)"

definition minimap_wide :: "minimap \<Rightarrow> bool" where
  "minimap_wide m = (if mn_desktop m then mn_hovered m else mn_expanded m)"

definition reserveRightGutter :: "minimap \<Rightarrow> bool" where
  "reserveRightGutter m \<longleftrightarrow> mn_desktop m \<or> \<not> mn_expanded m"

definition finalizeLabel :: "bool \<Rightarrow> bool \<Rightarrow> string" where
  "finalizeLabel guessSubmitted enabled =
     (if guessSubmitted then ''Waiting for opponent...'' else if enabled then ''Guess'' else ''Place Pin'')"

text \<open>The expanded state of a phone never survives on a desktop.\<close>

definition minimap_ok :: "minimap \<Rightarrow> bool" where
  "minimap_ok m \<longleftrightarrow> \<not> (mn_desktop m \<and> mn_expanded m)"

lemma minimap_ok_step: "minimap_ok m \<Longrightarrow> minimap_ok (minimap_step e m)"
  by (cases e) (auto simp: minimap_ok_def syncViewport_def releaseResizeLock_def beginPointerGesture_def
      trackPointerGesture_def endPointerGesture_def handlePanelClick_def handleBackdropClick_def hover_panel_def Let_def
      split: option.splits)

interpretation minimaps: invariant_machine minimap_step minimap_ok
  by unfold_locales (rule minimap_ok_step)

text \<open>While a button is held the panel keeps its size: only a release or a change of the viewport ends that.\<close>

fun keeps_lock :: "minimap_event \<Rightarrow> bool" where
  "keeps_lock (SyncViewport _) = False"
| "keeps_lock (WindowRelease _) = False"
| "keeps_lock (WindowMouseMove buttons _) = (buttons \<noteq> 0)"
| "keeps_lock _ = True"

lemma locked_step:
  "keeps_lock e \<Longrightarrow> mn_locked m \<Longrightarrow> mn_desktop m \<Longrightarrow>
   mn_locked (minimap_step e m) \<and> mn_desktop (minimap_step e m) \<and> mn_hovered (minimap_step e m) = mn_hovered m"
  by (cases e) (auto simp: beginPointerGesture_def trackPointerGesture_def endPointerGesture_def handlePanelClick_def
      handleBackdropClick_def hover_panel_def split: option.splits)

lemma locked_run:
  "list_all keeps_lock es \<Longrightarrow> mn_locked m \<Longrightarrow> mn_desktop m \<Longrightarrow>
   mn_locked (fold minimap_step es m) \<and> mn_desktop (fold minimap_step es m) \<and>
   mn_hovered (fold minimap_step es m) = mn_hovered m"
proof (induction es arbitrary: m)
  case Nil
  then show ?case by simp
next
  case (Cons e es)
  then show ?case using locked_step [of e m] by simp
qed

text \<open>
  Dragging the map never resizes it: from the press of a button on the panel of a desktop until it is
  released the panel keeps its width, whatever the pointer enters or leaves, and the release sets it to
  where the pointer really is.
\<close>

theorem drag_keeps_size:
  assumes "mn_desktop m" and "list_all keeps_lock es"
  shows "minimap_wide (fold minimap_step (PanelDown i x y # es) m) = minimap_wide m \<and>
    minimap_wide (fold minimap_step (PanelDown i x y # es @ [WindowRelease hovering]) m) = hovering"
proof -
  let ?m = "minimap_step (PanelDown i x y) m"
  have "mn_locked ?m" "mn_desktop ?m" "mn_hovered ?m = mn_hovered m"
    using assms(1) by (simp_all add: beginPointerGesture_def)
  with locked_run [OF assms(2), of ?m] assms(1) show ?thesis
    by (simp add: minimap_wide_def releaseResizeLock_def)
qed

theorem drag_keeps_size_witness:
  "\<not> minimap_wide (fold minimap_step
     (PanelDown 1 0 0 # [PanelMove 1 50 50, PanelEnter 1, PanelLeave 0, PanelUp 1]) (new_minimap\<lparr>mn_desktop := True\<rparr>))"
  using drag_keeps_size [of "new_minimap\<lparr>mn_desktop := True\<rparr>" "[PanelMove 1 50 50, PanelEnter 1, PanelLeave 0, PanelUp 1]" 1 0 0]
  by (simp add: minimap_wide_def new_minimap_def del: fold.simps)

text \<open>
  A drag on the panel of a phone is no click: after the gesture of one pointer the click expands the panel
  exactly when the pointer never went further than six pixels from where it was put down.
\<close>

lemma tracked:
  "mn_pointer m = Some (i, x, y) \<Longrightarrow>
   fold minimap_step (map (\<lambda>(u, v). PanelMove i u v) ps) m =
     m\<lparr>mn_suppress := mn_suppress m \<or> list_ex (\<lambda>(u, v). moved_far (u - x) (v - y)) ps\<rparr>"
proof (induction ps arbitrary: m)
  case Nil
  then show ?case by simp
next
  case (Cons q qs)
  obtain u v where q: "q = (u, v)" by force
  have "mn_pointer (minimap_step (PanelMove i u v) m) = Some (i, x, y)" using Cons.prems by (simp add: trackPointerGesture_def)
  from Cons.IH [OF this] Cons.prems show ?case by (auto simp: q trackPointerGesture_def)
qed

lemma phone_drag_is_no_click:
  assumes "\<not> mn_desktop m" and "\<not> mn_expanded m"
  shows "mn_expanded (fold minimap_step (PanelDown i x y # map (\<lambda>(u, v). PanelMove i u v) ps @ [PanelUp i, PanelClick]) m) =
    (\<not> list_ex (\<lambda>(u, v). moved_far (u - x) (v - y)) ps)"
  using assms tracked [of "minimap_step (PanelDown i x y) m" i x y ps]
  by (simp add: beginPointerGesture_def endPointerGesture_def handlePanelClick_def)

section \<open>The page\<close>

text \<open>
  \<open>HomePageGame.tsx\<close>: whether there is a scene, and what it is given of the home model. The address of the
  street view is a parameter.
\<close>

definition HomePageGame :: "string \<Rightarrow> home_game_view \<Rightarrow> scene_props option" where
  "HomePageGame streetViewSrc v =
     (if \<not> hgv_inGame v \<or> (hgv_uiPhase v = UIMatchEnd \<and> hgv_showMatchEndPage v) then None
      else Some
        \<lparr>sp_uiPhase = hgv_uiPhase v, sp_streetViewSrc = streetViewSrc, sp_streetViewInteractive = hgv_streetViewInteractive v,
         sp_isSingleplayer = hgv_isSingleplayer v, sp_isPointsMode = hgv_isPointsMode v,
         sp_partyMode = (if hgv_mode v = Singleplayer then Duel else hgv_mode v),
         sp_showResultStage = hgv_showResultStage v, sp_canAdvanceRound = hgv_canAdvanceRound v\<rparr>)"

text \<open>The maps of the page: the minimap takes guesses, the framed map shows the result of the round.\<close>

definition guess_map_props :: "home_game_view \<Rightarrow> map_props" where
  "guess_map_props v =
     \<lparr>mp_hasOnGuess = True, mp_guess = hgv_guess v, mp_mode = GuessMode, mp_result = None, mp_results = None,
      mp_interactiveInResult = False\<rparr>"

definition framedResultMap :: "home_game_view \<Rightarrow> map_props option" where
  "framedResultMap v =
     map_option (\<lambda>r. \<lparr>mp_hasOnGuess = False, mp_guess = None, mp_mode = ResultMode, mp_result = Some r, mp_results = None,
       mp_interactiveInResult = True\<rparr>) (hgv_roundResult v)"

text \<open>
  C20. The buttons of the scene do what they say: while the page shows a scene, confirming the forfeit sends
  exactly one \<open>match.forfeit\<close> for the match on screen, and \<open>Next Round\<close> exactly one \<open>round.advance\<close>;
  the game controller refuses neither for any reason of its own. Each succeeds exactly when the socket is
  open; when it is not, nothing is sent and the match shows that the connection is gone.
\<close>

theorem scene_buttons_work:
  fixes p cfg uid amb gm mc src sp
  assumes "HomePageGame src (hv_game (deriveHomeModel p)) = Some sp" and "hp_match p = mc_state mc"
  defines "payload sn \<equiv> Obj [(''userId'', Str uid), (''matchId'', Str (sn_matchId sn))]"
    and "forfeited \<equiv> forfeitMatch cfg uid amb (gm, mc)" and "advanced \<equiv> advanceRound cfg uid amb (gm, mc)"
  shows "\<exists>sn. m_snapshot (mc_state mc) = Some sn \<and> hp_routeMatchId p = Some (sn_matchId sn) \<and>
    (canShowForfeit (new_scene sp) \<longrightarrow>
       fst forfeited = isOpen (mc_socket mc) \<and>
       command_issued cfg ''match.forfeit'' (payload sn) mc (snd (snd forfeited))) \<and>
    (sp_canAdvanceRound sp \<longrightarrow>
       fst advanced = isOpen (mc_socket mc) \<and>
       command_issued cfg ''round.advance'' (payload sn) mc (snd (snd advanced)))"
proof -
  have v: "hgv_inGame (hv_game (deriveHomeModel p))" "sp_uiPhase sp = home_uiPhase p" "sp_canAdvanceRound sp = canAdvanceRound p"
    using assms(1) by (auto simp: HomePageGame_def home_view_fields split: if_splits)
  then obtain sn where sn: "home_snapshot p = Some sn"
    using inGame_snapshot [of p] by (auto simp: home_view_fields home_snapshot_Some)
  then have m: "m_snapshot (mc_state mc) = Some sn" "hp_routeMatchId p = Some (sn_matchId sn)" "sn_matchId sn \<noteq> []"
    using assms(2) by (auto simp: home_snapshot_Some)
  have "sn_state sn \<noteq> ''ended''" if "canShowForfeit (new_scene sp)"
    using that sn by (auto simp: canShowForfeit_def new_scene_def v home_uiPhase_def deriveUIPhase_ended)
  then have f: "forfeited = issue_command cfg uid amb ''match.forfeit'' (payload sn) (gm, mc)"
    if "canShowForfeit (new_scene sp)"
    using that m by (simp add: forfeited_def forfeitMatch_def payload_def)
  have "sn_mode sn = Some Singleplayer \<and> sn_phase sn = RoundResultPhase" if "sp_canAdvanceRound sp"
    using that sn by (auto simp: v canAdvanceRound_def home_mode_def split: option.splits)
  then have a: "advanced = issue_command cfg uid amb ''round.advance'' (payload sn) (gm, mc)" if "sp_canAdvanceRound sp"
    using that m by (simp add: advanced_def advanceRound_def payload_def)
  have "fst (issue_command cfg uid amb k q (gm, mc)) = isOpen (mc_socket mc)"
    and "command_issued cfg k q mc (snd (snd (issue_command cfg uid amb k q (gm, mc))))" for k q
    using issue_issued [of cfg k q "(gm, mc)" uid amb] by (simp_all add: issue_open_iff)
  then show ?thesis using m f a by auto
qed

text \<open>The sample match is on screen, its socket open.\<close>

theorem scene_buttons_work_witness:
  "\<exists>i cmd. gk_sent (mc_socket (snd (snd (forfeitMatch game_config ''u1'' playing_ambient (new_game_ctl, snd playing))))) = [(i, cmd)] \<and>
     gc_type cmd = ''match.forfeit'' \<and> gc_payload cmd = Obj [(''userId'', Str ''u1''), (''matchId'', Str ''m1'')]"
proof -
  have u: "home_uiPhase sample_page = UILiveRound" using canFinalizeGuess_facts [OF sample_page_facts(1)] by blast
  have "home_inGame sample_page" by (simp add: home_inGame_def u)
  then obtain sp where sp: "HomePageGame ''src'' (hv_game (deriveHomeModel sample_page)) = Some sp" "sp_uiPhase sp = UILiveRound"
    by (simp add: HomePageGame_def home_view_fields u)
  have "canShowForfeit (new_scene sp)" by (simp add: canShowForfeit_def new_scene_def sp)
  moreover have "sn_matchId sample_snapshot = ''m1''" by (simp add: sample_snapshot_def)
  ultimately show ?thesis
    using scene_buttons_work [OF sp(1) sample_game_facts(1), of game_config "''u1''" playing_ambient new_game_ctl]
    by (auto simp: command_issued_def playing_facts)
qed

end
