(* ===== verification/ChatPanel.thy ===== *)
theory ChatPanel
  imports ChatController Interfaces
begin

text \<open>
  \<open>components/ui/ChatPanel.tsx\<close>: the chat as the page shows it, a machine over its own state; it is rendered
  with the messages of the chat controller, and runs its effect when they change. The preview of a new
  message is taken away by a timer. The answers of \<open>onSendMessage\<close> are arguments of the events. Texts are
  bytes, so \<open>slice(0, 180)\<close> is that of the page for ASCII texts; glyphs are named by their emote.
\<close>

record chat_panel =
  cp_open :: bool
  cp_body :: string
  cp_preview :: "chat_message option"
  cp_visible :: bool
  cp_seen :: bool
  cp_latest :: "string option"
  cp_timer :: bool
  cp_mounted :: bool
  cp_sent :: "string list"
  cp_emotes :: "chat_emote list"

datatype chat_panel_event =
    PanelMessages "chat_message list"
  | PanelOpen
  | PanelClose
  | PanelType string
  | PanelSubmit bool
  | PanelEmote chat_emote
  | PreviewTimeout
  | PanelUnmount

definition chatEmotes :: "(chat_emote \<times> string) list" where
  "chatEmotes = [(Skull, ''Skull''), (Sob, ''Sob''), (Thinking, ''Thinking''), (Sunglasses, ''Sunglasses'')]"

text \<open>What a message shows: the glyph of its emote (named by its label) or its body.\<close>

definition emoteGlyph :: "chat_emote option \<Rightarrow> string" where
  "emoteGlyph e = (case e of None \<Rightarrow> [] | Some e \<Rightarrow> opt_str (map_of chatEmotes e))"

definition message_text :: "chat_message \<Rightarrow> string" where
  "message_text m = (if cm_kind m = ChatEmoteKind then emoteGlyph (cm_emote m) else opt_str (cm_body m))"

text \<open>The effect on \<open>messages\<close>: the first run only remembers the latest message.\<close>

definition messages_effect :: "string \<Rightarrow> chat_message list \<Rightarrow> chat_panel \<Rightarrow> chat_panel" where
  "messages_effect selfUserId messages c =
     (let latest = (if messages = [] then None else Some (last messages)) in
      if \<not> cp_seen c then c\<lparr>cp_seen := True, cp_latest := map_option cm_id latest\<rparr>
      else case latest of
        None \<Rightarrow> c\<lparr>cp_latest := None\<rparr>
      | Some m \<Rightarrow>
          if cp_latest c = Some (cm_id m) then c
          else let c = c\<lparr>cp_latest := Some (cm_id m)\<rparr> in
            if cm_senderUserId m = selfUserId then c
            else c\<lparr>cp_preview := Some m, cp_visible := True, cp_timer := True\<rparr>)"

definition new_chat_panel :: "string \<Rightarrow> chat_message list \<Rightarrow> chat_panel" where
  "new_chat_panel selfUserId messages =
     messages_effect selfUserId messages
       \<lparr>cp_open = False, cp_body = [], cp_preview = None, cp_visible = False, cp_seen = False, cp_latest = None,
        cp_timer = False, cp_mounted = True, cp_sent = [], cp_emotes = []\<rparr>"

text \<open>\<open>submit\<close>: the browser submits the form only while its button is enabled.\<close>

definition panel_submit :: "bool \<Rightarrow> chat_panel \<Rightarrow> chat_panel" where
  "panel_submit sent c =
     (if \<not> cp_open c \<or> js_trim (cp_body c) = [] then c
      else let c = c\<lparr>cp_sent := cp_sent c @ [cp_body c]\<rparr> in if sent then c\<lparr>cp_body := []\<rparr> else c)"

fun mounted_panel_step :: "string \<Rightarrow> chat_panel_event \<Rightarrow> chat_panel \<Rightarrow> chat_panel" where
  "mounted_panel_step selfUserId (PanelMessages ms) c = messages_effect selfUserId ms c"
| "mounted_panel_step selfUserId PanelOpen c = c\<lparr>cp_open := True\<rparr>"
| "mounted_panel_step selfUserId PanelClose c = c\<lparr>cp_open := False\<rparr>"
| "mounted_panel_step selfUserId (PanelType t) c = (if cp_open c then c\<lparr>cp_body := take 180 t\<rparr> else c)"
| "mounted_panel_step selfUserId (PanelSubmit sent) c = panel_submit sent c"
| "mounted_panel_step selfUserId (PanelEmote e) c = (if cp_open c then c\<lparr>cp_emotes := cp_emotes c @ [e]\<rparr> else c)"
| "mounted_panel_step selfUserId PreviewTimeout c = (if cp_timer c then c\<lparr>cp_visible := False, cp_timer := False\<rparr> else c)"
| "mounted_panel_step selfUserId PanelUnmount c = c\<lparr>cp_timer := False, cp_mounted := False\<rparr>"

definition panel_step :: "string \<Rightarrow> chat_panel_event \<Rightarrow> chat_panel \<Rightarrow> chat_panel" where
  "panel_step selfUserId e c = (if cp_mounted c then mounted_panel_step selfUserId e c else c)"

text \<open>The text on the closed chat.\<close>

definition preview_text :: "chat_panel \<Rightarrow> string" where
  "preview_text c =
     (case (cp_visible c, cp_preview c) of (True, Some m) \<Rightarrow> message_text m | _ \<Rightarrow> ''Message...'')"

definition panel_ok :: "string \<Rightarrow> chat_panel \<Rightarrow> bool" where
  "panel_ok selfUserId c \<longleftrightarrow>
     (cp_mounted c \<longrightarrow> cp_visible c = cp_timer c) \<and>
     (cp_visible c \<longrightarrow> cp_preview c \<noteq> None) \<and>
     (\<forall>m. cp_preview c = Some m \<longrightarrow> cm_senderUserId m \<noteq> selfUserId) \<and>
     length (cp_body c) \<le> 180 \<and> list_all (\<lambda>b. js_trim b \<noteq> [] \<and> length b \<le> 180) (cp_sent c)"

lemma effect_ok: "panel_ok u c \<Longrightarrow> cp_mounted c \<Longrightarrow> panel_ok u (messages_effect u ms c)"
  by (auto simp: panel_ok_def messages_effect_def Let_def)

lemma panel_ok_step: "panel_ok u c \<Longrightarrow> panel_ok u (panel_step u e c)"
proof (cases "cp_mounted c")
  case True
  assume ok: "panel_ok u c"
  show ?thesis
  proof (cases e)
    case (PanelMessages ms)
    then show ?thesis using True ok by (simp add: panel_step_def effect_ok)
  qed (use True ok in \<open>auto simp: panel_step_def panel_ok_def panel_submit_def Let_def\<close>)
qed (simp add: panel_step_def)

lemma new_panel_ok: "panel_ok u (new_chat_panel u ms)"
  by (simp add: new_chat_panel_def panel_ok_def messages_effect_def Let_def)

interpretation chat_panels: invariant_machine "panel_step selfUserId" "panel_ok selfUserId" for selfUserId
  by unfold_locales (rule panel_ok_step)

text \<open>
  The chat previews other people's messages for a while: whatever happens on the panel, a preview is
  shown only while the timer that takes it away is running, it is never the player's own message, and
  what is sent is never blank and never longer than 180 characters.
\<close>

theorem preview_always_expires:
  fixes es selfUserId ms
  defines "c \<equiv> fold (panel_step selfUserId) es (new_chat_panel selfUserId ms)"
  shows "\<not> (cp_mounted c \<and> cp_visible c \<and> \<not> cp_timer c) \<and> (\<nexists>m. cp_preview c = Some m \<and> cm_senderUserId m = selfUserId) \<and>
    length (cp_body c) \<le> 180 \<and> list_all (\<lambda>b. js_trim b \<noteq> [] \<and> length b \<le> 180) (cp_sent c)"
proof -
  have "panel_ok selfUserId c" unfolding c_def by (rule chat_panels.run_inv [OF new_panel_ok])
  then show ?thesis by (auto simp: panel_ok_def)
qed

text \<open>
  Opening a conversation announces an old message: the panel means not to preview the messages that were
  there before it, but they arrive only after it is mounted, with the history event of the new
  connection, and the last one of them is previewed as if it were new.
\<close>

theorem history_previewed_as_new:
  assumes "cc_connection cc = Some i" and "ch_conversationId (cc_state cc) = conv"
    and "ch_messages (cc_state cc) = []" and "ms \<noteq> []" and "cm_senderUserId (last ms) \<noteq> selfUserId"
  defines "c \<equiv> new_chat_panel selfUserId (ch_messages (cc_state cc))"
  defines "cc' \<equiv> chat_onEvent i conv (ChatHistory conv ms) cc"
  shows "preview_text c = ''Message...'' \<and>
    preview_text (panel_step selfUserId (PanelMessages (ch_messages (cc_state cc'))) c) = message_text (last ms)"
proof -
  have c: "c = \<lparr>cp_open = False, cp_body = [], cp_preview = None, cp_visible = False, cp_seen = True, cp_latest = None,
        cp_timer = False, cp_mounted = True, cp_sent = [], cp_emotes = []\<rparr>"
    by (simp add: c_def assms(3) new_chat_panel_def messages_effect_def)
  have "ch_messages (cc_state cc') = last_n 100 ms"
    using assms(1,2) by (simp add: cc'_def chat_onEvent_def storeMessages_def Let_def)
  moreover have "last_n 100 ms \<noteq> []" "last (last_n 100 ms) = last ms"
    using last_n_snoc [of 100 "butlast ms" "last ms"] assms(4) by simp_all
  ultimately show ?thesis
    using assms(5) by (simp add: c preview_text_def panel_step_def messages_effect_def Let_def)
qed

definition old_message :: chat_message where
  "old_message =
     \<lparr>cm_id = ''x1'', cm_conversationId = None, cm_matchId = [], cm_senderUserId = ''u2'', cm_senderDisplayName = ''Bo'',
      cm_kind = ChatText, cm_body = Some ''last week'', cm_emote = None, cm_createdAt = []\<rparr>"

theorem history_previewed_as_new_witness:
  "preview_text (panel_step ''u1''
      (PanelMessages (ch_messages (cc_state (chat_onEvent 0 ''match:m1'' (ChatHistory ''match:m1'' [old_message]) chatting))))
      (new_chat_panel ''u1'' (ch_messages (cc_state chatting)))) = ''last week''"
proof -
  have "ch_messages (cc_state chatting) = []"
    using reachable_chat_inv [OF chatting_reachable] chatting_facts(7) by (simp add: chat_inv_defs)
  from history_previewed_as_new [OF chatting_facts(2,1) this, of "[old_message]" "''u1''"] show ?thesis
    by (simp add: old_message_def message_text_def)
qed

end
