(* ===== verification/RatingServer.thy ===== *)
theory RatingServer
  imports ResultOverlay
begin

text \<open>
  The rating step of the server, \<open>src/pkg/rating/rating.go\<close>: the counterpart of \<open>lib/elo.ts\<close>. Ratings are Go
  integers, deviations doubles read over the reals, with NaN and the infinities as values; a time is its
  nanoseconds, the zero time None. Both sides take the same Glicko step, but round halves their own way.
\<close>

section \<open>The rating package\<close>

definition InitialRatingRD :: real where "InitialRatingRD = 220"
definition MinimumRatingRD :: real where "MinimumRatingRD = 110"
definition MaximumRatingRD :: real where "MaximumRatingRD = 220"
definition MinimumRankedMMR :: int where "MinimumRankedMMR = 500"
definition MaxDuelMMRDelta :: int where "MaxDuelMMRDelta = 80"
definition LowMMRForgivenessEndMMR :: int where "LowMMRForgivenessEndMMR = 1000"
definition glickoC :: real where
  "glickoC = sqrt ((MaximumRatingRD * MaximumRatingRD - MinimumRatingRD * MinimumRatingRD) / 365)"

lemmas rating_consts = InitialRatingRD_def MinimumRatingRD_def MaximumRatingRD_def MinimumRankedMMR_def
  MaxDuelMMRDelta_def LowMMRForgivenessEndMMR_def

fun ClampRD :: "num \<Rightarrow> real" where
  "ClampRD (Fin rd) =
     (if rd \<le> 0 then InitialRatingRD
      else if rd < MinimumRatingRD then MinimumRatingRD
      else if rd > MaximumRatingRD then MaximumRatingRD
      else rd)"
| "ClampRD _ = InitialRatingRD"

definition InflateRD :: "num \<Rightarrow> int option \<Rightarrow> int option \<Rightarrow> real" where
  "InflateRD rd lastUpdated now =
     (let rd = ClampRD rd in
      case (lastUpdated, now) of
        (Some t, Some n) \<Rightarrow>
          if n \<le> t then rd
          else let inactiveDays = of_int (n - t) / 3600000000000 / 24 in
            if inactiveDays \<le> 0 then rd
            else ClampRD (Fin (sqrt (rd * rd + glickoC * glickoC * inactiveDays)))
      | _ \<Rightarrow> rd)"

definition server_glickoG :: "real \<Rightarrow> real" where
  "server_glickoG rd = (let q = ln 10 / 400 in 1 / sqrt (1 + (3 * q * q * rd * rd) / (pi * pi)))"

definition server_glickoExpected :: "int \<Rightarrow> int \<Rightarrow> real \<Rightarrow> real" where
  "server_glickoExpected selfMMR opponentMMR opponentRD =
     1 / (1 + 10 powr (- server_glickoG opponentRD * of_int (selfMMR - opponentMMR) / 400))"

definition server_glickoRating :: "int \<Rightarrow> real \<Rightarrow> int \<Rightarrow> real \<Rightarrow> real \<Rightarrow> int \<times> real" where
  "server_glickoRating rating rd opponentRating opponentRD score =
     (let rd = ClampRD (Fin rd); opponentRD = ClampRD (Fin opponentRD);
          q = ln 10 / 400; g = server_glickoG opponentRD;
          expected = server_glickoExpected rating opponentRating opponentRD;
          dSquared = 1 / (q * q * g * g * expected * (1 - expected));
          nextVariance = 1 / (1 / (rd * rd) + 1 / dSquared);
          nextRating = of_int rating + q * nextVariance * g * (score - expected)
      in (go_round nextRating, ClampRD (Fin (sqrt nextVariance))))"

definition ClampRankedMMR :: "int \<Rightarrow> int" where
  "ClampRankedMMR mmr = (if mmr < MinimumRankedMMR then MinimumRankedMMR else mmr)"

definition CapDelta :: "int \<Rightarrow> int \<Rightarrow> int" where
  "CapDelta current nxt =
     (let delta = nxt - current in
      if delta > MaxDuelMMRDelta then current + MaxDuelMMRDelta
      else if delta < - MaxDuelMMRDelta then current - MaxDuelMMRDelta
      else nxt)"

definition ApplyLowMMRLossForgiveness :: "int \<Rightarrow> int \<Rightarrow> int" where
  "ApplyLowMMRLossForgiveness current nxt =
     (let delta = nxt - current in
      if 0 \<le> delta \<or> LowMMRForgivenessEndMMR \<le> current then nxt
      else if current \<le> MinimumRankedMMR then current
      else let rangeSize = LowMMRForgivenessEndMMR - MinimumRankedMMR in
        if rangeSize \<le> 0 then nxt
        else current + go_round (of_int delta * (of_int (current - MinimumRankedMMR) / of_int rangeSize)))"

record rating_state =
  rs_mmr :: int
  rs_rd :: num
  rs_updatedAt :: "int option"

record rating_update =
  ru_mmr :: int
  ru_rd :: real
  ru_delta :: int

definition settled_mmr :: "int \<Rightarrow> int \<Rightarrow> int" where
  "settled_mmr current nxt = ClampRankedMMR (ApplyLowMMRLossForgiveness current (CapDelta current nxt))"

definition CalculateDuelUpdates :: "rating_state \<Rightarrow> rating_state \<Rightarrow> string \<Rightarrow> int option \<Rightarrow> rating_update \<times> rating_update" where
  "CalculateDuelUpdates p1 p2 winner now =
     (let rd1 = InflateRD (rs_rd p1) (rs_updatedAt p1) now; rd2 = InflateRD (rs_rd p2) (rs_updatedAt p2) now;
          s1 = (if winner = ''p1'' then 1 else if winner = ''p2'' then 0 else 1 / 2);
          s2 = (if winner = ''p1'' then 0 else if winner = ''p2'' then 1 else 1 / 2);
          (m1, nextRD1) = server_glickoRating (rs_mmr p1) rd1 (rs_mmr p2) rd2 s1;
          (m2, nextRD2) = server_glickoRating (rs_mmr p2) rd2 (rs_mmr p1) rd1 s2;
          m1 = settled_mmr (rs_mmr p1) m1; m2 = settled_mmr (rs_mmr p2) m2
      in (\<lparr>ru_mmr = m1, ru_rd = nextRD1, ru_delta = m1 - rs_mmr p1\<rparr>,
          \<lparr>ru_mmr = m2, ru_rd = nextRD2, ru_delta = m2 - rs_mmr p2\<rparr>))"

section \<open>The same step on both sides\<close>

lemma ClampRD_client [simp]: "ClampRD n = clampRatingRd n"
  by (cases n) (simp_all add: rating_consts elo_consts)

lemma glickoC_client: "glickoC = GLICKO_C"
  by (simp add: glickoC_def GLICKO_C_def rating_consts elo_consts power2_eq_square)

lemma glickoG_client [simp]: "server_glickoG = glickoG"
  by (rule ext) (simp add: server_glickoG_def glickoG_def QQ_def Let_def)

lemma glickoExpected_client [simp]: "server_glickoExpected a b rd = glickoExpected (of_int a) (of_int b) rd"
  by (simp add: server_glickoExpected_def glickoExpected_def)

text \<open>The instants of the client are milliseconds.\<close>

definition nanos_of :: "int \<Rightarrow> int" where
  "nanos_of ms = ms * 1000000"

lemma InflateRD_client:
  "InflateRD rd (Some (nanos_of t)) (Some (nanos_of n)) = inflateRatingRd parse rd (DateMillis (Fin (of_int t))) (of_int n)"
proof -
  have days: "of_int (nanos_of n - nanos_of t) / 3600000000000 / 24 = (of_int n - of_int t) / (86400000 :: real)"
    by (simp add: nanos_of_def field_simps)
  have le: "nanos_of n \<le> nanos_of t \<longleftrightarrow> (of_int n :: real) \<le> of_int t" by (simp add: nanos_of_def)
  show ?thesis
    by (simp only: InflateRD_def inflateRatingRd_def parseDate_def glickoC_client Let_def ClampRD_client days le
        prod.case option.case date_arg.case num.case)
qed

text \<open>Both round the next rating alike, since it is positive: no step is larger than 500.\<close>

lemma QQ_small: "QQ \<le> 1 / 100"
proof -
  have "(10 :: real) \<le> exp 4" using exp_lower_Taylor_quadratic [of "4 :: real"] by simp
  then have "ln 10 \<le> (4 :: real)" by (metis exp_gt_zero ln_exp ln_le_cancel_iff zero_less_numeral)
  then show ?thesis by (simp add: QQ_def)
qed

lemma glicko_step_small:
  assumes "110 \<le> rd" and "rd \<le> 220"
  obtains k e where "0 < k" and "k \<le> 484" and "0 < e" and "e < 1"
    and "server_glickoRating r rd opp ord score =
      (go_round (of_int r + k * (score - e)), gr_rd (calculateGlickoRating (of_int r) rd (of_int opp) ord score))"
    and "gr_rating (calculateGlickoRating (of_int r) rd (of_int opp) ord score) = js_round (of_int r + k * (score - e))"
proof -
  define o' where "o' = clampRatingRd (Fin ord)"
  define g where "g = glickoG o'"
  define e where "e = glickoExpected (of_int r) (of_int opp) o'"
  define v where "v = 1 / (1 / (rd * rd) + 1 / (1 / (QQ * QQ * g * g * e * (1 - e))))"
  have e: "0 < e" "e < 1" and g: "0 < g" "g \<le> 1" using glickoExpected_bounds glickoG_bounds by (simp_all add: e_def g_def)
  have v: "0 < v" "v \<le> rd * rd" using next_variance_bounds [of rd QQ g e] assms QQ_pos g e by (simp_all add: v_def)
  have "rd * rd \<le> 220 * 220" using assms by (intro mult_mono) auto
  then have "QQ * v \<le> 1 / 100 * (220 * 220)" using v QQ_small QQ_pos by (intro mult_mono) auto
  then have "QQ * v * g \<le> 484 * 1" using g v QQ_pos by (intro mult_mono) auto
  moreover have "0 < QQ * v * g" using v QQ_pos g by simp
  ultimately show ?thesis
    using e assms
    by (intro that [of "QQ * v * g" e])
       (simp_all add: server_glickoRating_def calculateGlickoRating_def QQ_def [symmetric] Let_def clampRatingRd_id o'_def e_def g_def
          v_def del: clampRatingRd.simps)
qed

lemma rounds_alike: "0 \<le> x \<Longrightarrow> of_int (go_round x) = js_round x"
  by (simp add: go_round_def js_round_def)

lemma glickoRating_client:
  assumes "110 \<le> rd" and "rd \<le> 220" and "500 \<le> r" and "0 \<le> score"
  shows "of_int (fst (server_glickoRating r rd opp ord score)) = gr_rating (calculateGlickoRating (of_int r) rd (of_int opp) ord score)"
    and "snd (server_glickoRating r rd opp ord score) = gr_rd (calculateGlickoRating (of_int r) rd (of_int opp) ord score)"
proof -
  obtain k e where k: "0 < k" "k \<le> 484" and e: "0 < e" "e < 1"
    and s: "server_glickoRating r rd opp ord score =
      (go_round (of_int r + k * (score - e)), gr_rd (calculateGlickoRating (of_int r) rd (of_int opp) ord score))"
    and c: "gr_rating (calculateGlickoRating (of_int r) rd (of_int opp) ord score) = js_round (of_int r + k * (score - e))"
    using glicko_step_small [OF assms(1,2)] by metis
  have "k * e \<le> 484 * 1" using k e by (intro mult_mono) auto
  moreover have "0 \<le> k * score" using k assms(4) by simp
  ultimately have "0 \<le> of_int r + k * (score - e)" using assms(3) by (simp add: algebra_simps)
  then show "of_int (fst (server_glickoRating r rd opp ord score)) = gr_rating (calculateGlickoRating (of_int r) rd (of_int opp) ord score)"
    by (simp add: s c rounds_alike)
  show "snd (server_glickoRating r rd opp ord score) = gr_rd (calculateGlickoRating (of_int r) rd (of_int opp) ord score)"
    by (simp add: s)
qed

text \<open>A loss that is forgiven to a half point is the one place where the roundings differ.\<close>

lemma rounds_apart: "of_int (go_round x) \<le> js_round x \<and> js_round x \<le> of_int (go_round x) + 1"
proof (cases "x < 0")
  case True
  have "\<lceil>x - 1 / 2\<rceil> \<le> \<lfloor>x + 1 / 2\<rfloor> \<and> \<lfloor>x + 1 / 2\<rfloor> \<le> \<lceil>x - 1 / 2\<rceil> + 1" by linarith
  with True show ?thesis by (simp add: go_round_def js_round_def)
qed (simp add: go_round_def js_round_def)

lemma CapDelta_client: "of_int (CapDelta c n) = capRatingDelta (of_int c) (of_int n)"
  by (auto simp: CapDelta_def capRatingDelta_def Let_def rating_consts elo_consts)

lemma forgiveness_client:
  fixes c n :: int
  defines "s \<equiv> real_of_int (ApplyLowMMRLossForgiveness c n)" and "t \<equiv> applyLowMmrLossForgiveness (of_int c) (of_int n)"
  shows "s \<le> t \<and> t \<le> s + 1" and "1000 \<le> c \<or> c \<le> n \<Longrightarrow> s = t"
proof -
  let ?x = "(of_int n - of_int c) * ((of_int c - 500) / 500) :: real"
  have "s = of_int c + of_int (go_round ?x) \<and> t = of_int c + js_round ?x" if "\<not> (c \<le> n \<or> 1000 \<le> c \<or> c \<le> 500)"
    using that by (simp add: s_def t_def ApplyLowMMRLossForgiveness_def applyLowMmrLossForgiveness_def Let_def rating_consts elo_consts)
  moreover have "s = t" if "c \<le> n \<or> 1000 \<le> c \<or> c \<le> 500"
    using that by (auto simp: s_def t_def ApplyLowMMRLossForgiveness_def applyLowMmrLossForgiveness_def Let_def rating_consts elo_consts)
  ultimately show "s \<le> t \<and> t \<le> s + 1" using rounds_apart [of ?x] by (cases "c \<le> n \<or> 1000 \<le> c \<or> c \<le> 500") auto
  show "s = t" if "1000 \<le> c \<or> c \<le> n" using that \<open>c \<le> n \<or> 1000 \<le> c \<or> c \<le> 500 \<Longrightarrow> s = t\<close> by blast
qed

lemma settled_client:
  fixes c n :: int
  defines "s \<equiv> real_of_int (settled_mmr c n)" and "t \<equiv> settle_rating (of_int c) (of_int n)"
  shows "s \<le> t \<and> t \<le> s + 1" and "1000 \<le> c \<or> c \<le> n \<Longrightarrow> s = t"
proof -
  let ?n = "CapDelta c n"
  have s: "s = max 500 (of_int (ApplyLowMMRLossForgiveness c ?n))"
    by (simp add: s_def settled_mmr_def ClampRankedMMR_def rating_consts max_def)
  have t: "t = max 500 (applyLowMmrLossForgiveness (of_int c) (of_int ?n))"
    by (simp add: t_def CapDelta_client clampRankedMmr_def elo_consts max_def)
  show "s \<le> t \<and> t \<le> s + 1" using forgiveness_client(1) [of c ?n] by (auto simp: s t max_def)
  show "s = t" if "1000 \<le> c \<or> c \<le> n"
    using that forgiveness_client(2) [of c ?n] by (auto simp: s t CapDelta_def Let_def rating_consts split: if_splits)
qed

text \<open>A rating of 750 that falls by 21 loses eleven points on the server and ten on the client.\<close>

lemma half_point_apart: "settled_mmr 750 729 = 739" "settle_rating 750 729 = 740"
  by (simp_all add: settled_mmr_def CapDelta_def ApplyLowMMRLossForgiveness_def ClampRankedMMR_def Let_def go_round_def
      rating_consts elo_consts capRatingDelta_def applyLowMmrLossForgiveness_def clampRankedMmr_def js_round_def floor_eq_iff
      ceiling_eq_iff)

fun winner_text :: "elo_winner \<Rightarrow> string" where
  "winner_text WinSelf = ''p1''"
| "winner_text WinOpp = ''p2''"
| "winner_text WinDraw = []"

text \<open>
  C34. The client's rating step is the server's: from the same ranked ratings, deviations and instants both
  give the same new deviation, and the same change of the rating but for one point that the client's rounding of a
  forgiven half point saves a player under 1000; who has 1000 or more, or wins, changes by exactly the same.
\<close>

theorem server_rating_agrees:
  assumes "500 \<le> m1" and "500 \<le> m2"
    and "(u, v) = CalculateDuelUpdates \<lparr>rs_mmr = m1, rs_rd = rd1, rs_updatedAt = Some (nanos_of t1)\<rparr>
        \<lparr>rs_mmr = m2, rs_rd = rd2, rs_updatedAt = Some (nanos_of t2)\<rparr> (winner_text w) (Some (nanos_of now))"
    and "d = calculateDuelEloDeltas parse (of_int m1) (of_int m2) w rd1 rd2
        (DateMillis (Fin (of_int t1))) (DateMillis (Fin (of_int t2))) (of_int now)"
  shows "ru_rd u = ed_selfRatingRd d \<and> ru_rd v = ed_opponentRatingRd d \<and>
     of_int (ru_delta u) \<in> {ed_selfDelta d - 1 .. ed_selfDelta d} \<and>
     of_int (ru_delta v) \<in> {ed_opponentDelta d - 1 .. ed_opponentDelta d} \<and>
     (1000 \<le> m1 \<or> w = WinSelf \<longrightarrow> of_int (ru_delta u) = ed_selfDelta d) \<and>
     (1000 \<le> m2 \<or> w = WinOpp \<longrightarrow> of_int (ru_delta v) = ed_opponentDelta d)"
proof -
  define r1 where "r1 = inflateRatingRd parse rd1 (DateMillis (Fin (of_int t1))) (of_int now)"
  define r2 where "r2 = inflateRatingRd parse rd2 (DateMillis (Fin (of_int t2))) (of_int now)"
  define n1 where "n1 = fst (server_glickoRating m1 r1 m2 r2 (selfScore w))"
  define n2 where "n2 = fst (server_glickoRating m2 r2 m1 r1 (opponentScore w))"
  have b: "110 \<le> r1" "r1 \<le> 220" "110 \<le> r2" "r2 \<le> 220" using inflateRatingRd_bounds by (simp_all add: r1_def r2_def)
  have sc: "0 \<le> selfScore w" "0 \<le> opponentScore w" by (simp_all add: selfScore_def opponentScore_def)
  note c1 = glickoRating_client [OF b(1,2) assms(1) sc(1), of m2 r2] and c2 = glickoRating_client [OF b(3,4) assms(2) sc(2), of m1 r1]
  have i: "InflateRD rd1 (Some (nanos_of t1)) (Some (nanos_of now)) = r1"
    "InflateRD rd2 (Some (nanos_of t2)) (Some (nanos_of now)) = r2"
    by (simp_all add: r1_def r2_def InflateRD_client [of _ _ _ parse])
  have s: "(if winner_text w = ''p1'' then 1 else if winner_text w = ''p2'' then 0 else 1 / 2) = selfScore w"
    "(if winner_text w = ''p1'' then 0 else if winner_text w = ''p2'' then 1 else 1 / 2) = opponentScore w"
    by (cases w; simp add: selfScore_def opponentScore_def)+
  have u: "u = \<lparr>ru_mmr = settled_mmr m1 n1, ru_rd = snd (server_glickoRating m1 r1 m2 r2 (selfScore w)), ru_delta = settled_mmr m1 n1 - m1\<rparr>"
    "v = \<lparr>ru_mmr = settled_mmr m2 n2, ru_rd = snd (server_glickoRating m2 r2 m1 r1 (opponentScore w)), ru_delta = settled_mmr m2 n2 - m2\<rparr>"
    using assms(3) unfolding CalculateDuelUpdates_def Let_def rating_state.simps i s by (simp_all add: n1_def n2_def case_prod_beta)
  have d: "ed_selfDelta d = settle_rating (of_int m1) (of_int n1) - of_int m1"
    "ed_opponentDelta d = settle_rating (of_int m2) (of_int n2) - of_int m2"
    "ed_selfRatingRd d = gr_rd (calculateGlickoRating (of_int m1) r1 (of_int m2) r2 (selfScore w))"
    "ed_opponentRatingRd d = gr_rd (calculateGlickoRating (of_int m2) r2 (of_int m1) r1 (opponentScore w))"
    using c1(1) c2(1) by (simp_all add: assms(4) calculateDuelEloDeltas_def Let_def r1_def r2_def n1_def n2_def)
  have "real_of_int m1 \<le> of_int n1" if "w = WinSelf"
    using glicko_win_rating [OF b(1,2), of m1 "of_int m2" r2] c1(1) that by (simp add: n1_def)
  moreover have "real_of_int m2 \<le> of_int n2" if "w = WinOpp"
    using glicko_win_rating [OF b(3,4), of m2 "of_int m1" r1] c2(1) that by (simp add: n2_def)
  ultimately show ?thesis
    using settled_client(1) [of m1 n1] settled_client(2) [of m1 n1] settled_client(1) [of m2 n2] settled_client(2) [of m2 n2] c1(2) c2(2)
    by (auto simp: u d)
qed

theorem server_rating_agrees_witness:
  "ru_rd (fst (CalculateDuelUpdates \<lparr>rs_mmr = 1200, rs_rd = Fin 150, rs_updatedAt = Some (nanos_of 5)\<rparr>
      \<lparr>rs_mmr = 700, rs_rd = NaN, rs_updatedAt = Some (nanos_of 7)\<rparr> (winner_text WinOpp) (Some (nanos_of 9)))) =
   ed_selfRatingRd (calculateDuelEloDeltas (\<lambda>_. NaN) (of_int 1200) (of_int 700) WinOpp (Fin 150) NaN
      (DateMillis (Fin (of_int 5))) (DateMillis (Fin (of_int 7))) (of_int 9))"
  by (rule server_rating_agrees [of 1200 700, THEN conjunct1, OF _ _ _ refl]) (simp_all add: prod_eq_iff)

end
