(* ===== verification/DuelEngine.thy ===== *)
theory DuelEngine
  imports RatingServer LobbySettings
begin

text \<open>
  The engine of the duel server, \<open>src/pkg/duel/engine.go\<close>, with \<open>src/pkg/gameplay/scoring.go\<close>: the other end
  of the snapshots the client shows. A match is a record, an operation takes the instant \<open>now\<close> (its calls
  of \<open>time.Now\<close> run under one lock and are taken as one instant), times are nanoseconds and the zero time is
  None. A Go map is the list of its entries in the order of the iteration, which is arbitrary. What the round
  provider answers is an argument. Results and snapshots are the records
  the client reads: a field the JSON text leaves out when it is empty is None. Integers stay far inside 64 bits.
\<close>

section \<open>Distances and scores\<close>

definition earthRadiusKm :: real where "earthRadiusKm = 6371"

definition maxDistanceKm :: real where "maxDistanceKm = earthRadiusKm * pi"

text \<open>\<open>math.Atan2\<close> for arguments that are not negative.\<close>

definition go_atan2 :: "real \<Rightarrow> real \<Rightarrow> real" where
  "go_atan2 y x = (if x = 0 then (if y = 0 then 0 else pi / 2) else arctan (y / x))"

definition HaversineKm :: "real \<Rightarrow> real \<Rightarrow> real \<Rightarrow> real \<Rightarrow> real" where
  "HaversineKm lat1 lon1 lat2 lon2 =
     (let latRad1 = lat1 * pi / 180; latRad2 = lat2 * pi / 180;
          dLat = (lat2 - lat1) * pi / 180; dLon = (lon2 - lon1) * pi / 180;
          a = sin (dLat / 2) * sin (dLat / 2) + cos latRad1 * cos latRad2 * sin (dLon / 2) * sin (dLon / 2)
      in earthRadiusKm * (2 * go_atan2 (sqrt a) (sqrt (1 - a))))"

definition ClampDistanceKm :: "real \<Rightarrow> real" where
  "ClampDistanceKm d = min maxDistanceKm (max 0 d)"

definition RoundScore :: "real \<Rightarrow> int" where
  "RoundScore distanceKm =
     (let clamped = ClampDistanceKm distanceKm in
      if clamped \<le> 0.15 then 5000 else \<lfloor>5000 * exp (- (clamped / 1494.52)) + 0.033\<rfloor>)"

lemma RoundScore_range: "0 \<le> RoundScore d" "RoundScore d \<le> 5000"
proof -
  let ?x = "ClampDistanceKm d"
  have x: "0 \<le> ?x" by (simp add: ClampDistanceKm_def maxDistanceKm_def earthRadiusKm_def)
  show "0 \<le> RoundScore d" by (simp add: RoundScore_def Let_def)
  define e where "e = exp (- (?x / 1494.52))"
  have "e \<le> 1" unfolding e_def using x by (subst exp_le_one_iff) simp
  then have "\<lfloor>5000 * e + 0.033\<rfloor> < 5001" by (simp add: floor_less_iff)
  then show "RoundScore d \<le> 5000" unfolding e_def by (simp add: RoundScore_def Let_def)
qed

lemma perfect_guess: "RoundScore (HaversineKm lat lon lat lon) = 5000"
proof -
  have "go_atan2 0 1 = 0" by (simp add: go_atan2_def)
  then show ?thesis
    by (simp add: HaversineKm_def Let_def RoundScore_def ClampDistanceKm_def maxDistanceKm_def earthRadiusKm_def)
qed

section \<open>The match\<close>

definition startingHP :: int where "startingHP = 6000"
definition go_seconds :: "int \<Rightarrow> int" where "go_seconds n = n * 1000000000"
definition go_millis :: "int \<Rightarrow> int" where "go_millis n = n * 1000000"
definition roundIntro :: int where "roundIntro = go_seconds 3"
definition resultDuration :: int where "resultDuration = go_seconds 6"
definition roundIdleCap :: int where "roundIdleCap = go_seconds 480"
definition disconnectGrace :: int where "disconnectGrace = go_seconds 30"
definition staleGrace :: int where "staleGrace = go_seconds 180"
definition maxRounds :: int where "maxRounds = 20"
definition ffaRounds :: int where "ffaRounds = 5"

text \<open>\<open>t.Before(u)\<close> and \<open>t.After(u)\<close> where \<open>u\<close> may be the zero time, and \<open>t.UnixMilli()\<close>.\<close>

definition time_before :: "int \<Rightarrow> int option \<Rightarrow> bool" where
  "time_before t u = (case u of None \<Rightarrow> False | Some v \<Rightarrow> t < v)"

definition time_after :: "int \<Rightarrow> int option \<Rightarrow> bool" where
  "time_after t u = (case u of None \<Rightarrow> True | Some v \<Rightarrow> v < t)"

definition UnixMilli :: "int \<Rightarrow> int" where "UnixMilli t = t div 1000000"

text \<open>No code writes the state \<open>waiting\<close> of the contract.\<close>

datatype duel_match_state = MatchLive | MatchEnded

record location_point =
  lo_lat :: real
  lo_lng :: real
  lo_panoId :: "string option"
  lo_heading :: "real option"
  lo_pitch :: "real option"

record duel_guess =
  gs_lat :: real
  gs_lng :: real
  gs_finalized :: bool
  gs_ts :: int

record duel_player =
  dp_userId :: string
  dp_displayName :: string
  dp_mmr :: int
  dp_ratingRD :: real
  dp_rankedGamesPlayed :: int
  dp_avatarURL :: string
  dp_isGuest :: bool
  dp_isAdmin :: bool
  dp_selectedBadge :: "player_badge option"
  dp_teamId :: string
  dp_hp :: int
  dp_totalScore :: int
  dp_finalized :: bool
  dp_lastGuess :: "real \<times> real"
  dp_hasGuess :: bool
  dp_disconnected :: bool
  dp_disconnectDue :: int

record duel_team =
  dt_name :: string
  dt_hp :: int
  dt_players :: "string list"

record duel_match =
  dm_id :: string
  dm_mode :: game_mode
  dm_config :: match_config
  dm_state :: duel_match_state
  dm_unranked :: bool
  dm_players :: "duel_player js_record"
  dm_teams :: "duel_team js_record"
  dm_location :: location_point
  dm_currentIndex :: int
  dm_roundStartedAt :: int
  dm_roundDeadline :: "int option"
  dm_roundID :: string
  dm_guesses :: "duel_guess js_record"
  dm_lastRoundResult :: "round_result option"
  dm_roundResults :: "round_result list"
  dm_ratingPreview :: "rating_preview js_record"
  dm_intermissionUntil :: "int option"
  dm_pendingAdvance :: bool
  dm_eventSeq :: int
  dm_roundLiveAnnounced :: bool
  dm_lastActivity :: int

definition duel_roundID :: "string \<Rightarrow> int \<Rightarrow> string" where
  "duel_roundID matchID n = matchID @ '':r'' @ int_str n"

text \<open>The entries of a map after each was changed in place, or read.\<close>

definition each :: "(string \<Rightarrow> 'v \<Rightarrow> 'w) \<Rightarrow> 'v js_record \<Rightarrow> 'w js_record" where
  "each f r = map (\<lambda>(k, v). (k, f k v)) r"

lemma map_of_each [simp]: "map_of (each f r) k = map_option (f k) (map_of r k)"
  by (induction r) (auto simp: each_def)

lemma keys_each [simp]: "map fst (each f r) = map fst r"
  by (simp add: each_def comp_def case_prod_unfold)

lemma each_id: "(\<And>k v. (k, v) \<in> set r \<Longrightarrow> f k v = v) \<Longrightarrow> each f r = r"
  by (auto simp: each_def intro!: map_idI)

definition startRoundTimer :: "duel_match \<Rightarrow> duel_match" where
  "startRoundTimer m =
     (let m = m\<lparr>dm_config := NormalizeMatchConfig (dm_config m)\<rparr> in
      if cfg_roundTimerMode (dm_config m) \<noteq> Some TimerFixed then m
      else m\<lparr>dm_roundDeadline :=
        Some (dm_roundStartedAt m + roundIntro + go_millis (or_zero (cfg_roundTimeLimitMs (dm_config m))))\<rparr>)"

definition roundExpired :: "int \<Rightarrow> duel_match \<Rightarrow> bool" where
  "roundExpired now m =
     (case dm_roundDeadline m of
        Some d \<Rightarrow> d < now
      | None \<Rightarrow> dm_roundStartedAt m + roundIntro + roundIdleCap < now)"

section \<open>Creating a match\<close>

record player_profile =
  pf_displayName :: string
  pf_mmr :: int
  pf_ratingRD :: real
  pf_rankedGamesPlayed :: int
  pf_avatarURL :: string
  pf_isGuest :: bool
  pf_isAdmin :: bool
  pf_selectedBadge :: "player_badge option"

definition normalizeTeamID :: "string \<Rightarrow> string" where
  "normalizeTeamID t = (if t = ''b'' then ''b'' else ''a'')"

definition new_player :: "game_mode \<Rightarrow> (string \<Rightarrow> player_profile) \<Rightarrow> (string \<Rightarrow> string) \<Rightarrow> string \<Rightarrow> duel_player" where
  "new_player mode profiles teamIds i =
     (let p = profiles i in
      \<lparr>dp_userId = i, dp_displayName = or_str (pf_displayName p) i, dp_mmr = pf_mmr p, dp_ratingRD = pf_ratingRD p,
       dp_rankedGamesPlayed = pf_rankedGamesPlayed p, dp_avatarURL = pf_avatarURL p, dp_isGuest = pf_isGuest p,
       dp_isAdmin = pf_isAdmin p, dp_selectedBadge = pf_selectedBadge p,
       dp_teamId = (if mode = TeamDuel then normalizeTeamID (teamIds i) else []),
       dp_hp = startingHP, dp_totalScore = 0, dp_finalized = False, dp_lastGuess = (0, 0), dp_hasGuess = False,
       dp_disconnected = False, dp_disconnectDue = 0\<rparr>)"

text \<open>
  \<open>buildTeams\<close>: every player of a team duel has a team by then. A team without players is deleted.
\<close>

definition buildTeams :: "game_mode \<Rightarrow> string list \<Rightarrow> duel_player js_record \<Rightarrow> duel_team js_record" where
  "buildTeams mode playerIDs players =
     (if mode \<noteq> TeamDuel then []
      else (let members = (\<lambda>t. filter (\<lambda>i. case map_of players i of None \<Rightarrow> False
                                   | Some p \<Rightarrow> normalizeTeamID (dp_teamId p) = t) playerIDs)
            in filter (\<lambda>(t, team). dt_players team \<noteq> [])
                 [(''a'', \<lparr>dt_name = ''Team Red'', dt_hp = startingHP, dt_players = members ''a''\<rparr>),
                  (''b'', \<lparr>dt_name = ''Team Blue'', dt_hp = startingHP, dt_players = members ''b''\<rparr>)]))"

text \<open>What each player who is no guest would win or lose; the ratings count from now, so no deviation is inflated.\<close>

definition preview_of :: "rating_update \<Rightarrow> rating_update \<Rightarrow> rating_update \<Rightarrow> rating_preview" where
  "preview_of win lose draw = \<lparr>rv_win = ru_delta win, rv_lose = ru_delta lose, rv_draw = ru_delta draw\<rparr>"

definition ratingPreview :: "int \<Rightarrow> string list \<Rightarrow> duel_player js_record \<Rightarrow> rating_preview js_record" where
  "ratingPreview now playerIDs players =
     (case map (map_of players) playerIDs of
        [Some p1, Some p2] \<Rightarrow>
          if dp_isGuest p1 \<and> dp_isGuest p2 then []
          else (let s1 = \<lparr>rs_mmr = dp_mmr p1, rs_rd = Fin (dp_ratingRD p1), rs_updatedAt = Some now\<rparr>;
                    s2 = \<lparr>rs_mmr = dp_mmr p2, rs_rd = Fin (dp_ratingRD p2), rs_updatedAt = Some now\<rparr>;
                    (win1, lose2) = CalculateDuelUpdates s1 s2 ''p1'' (Some now);
                    (lose1, win2) = CalculateDuelUpdates s1 s2 ''p2'' (Some now);
                    (draw1, draw2) = CalculateDuelUpdates s1 s2 [] (Some now);
                    preview = (if dp_isGuest p1 then [] else [(dp_userId p1, preview_of win1 lose1 draw1)])
                in if dp_isGuest p2 then preview else js_set preview (dp_userId p2) (preview_of win2 lose2 draw2))
      | _ \<Rightarrow> [])"

definition new_match ::
    "int \<Rightarrow> string \<Rightarrow> game_mode \<Rightarrow> bool \<Rightarrow> match_config \<Rightarrow> duel_player js_record \<Rightarrow> duel_team js_record \<Rightarrow> location_point \<Rightarrow>
     rating_preview js_record \<Rightarrow> duel_match" where
  "new_match now matchID mode unranked config players teams loc preview =
     startRoundTimer
       \<lparr>dm_id = matchID, dm_mode = mode, dm_config = NormalizeMatchConfig config, dm_state = MatchLive,
        dm_unranked = unranked, dm_players = players, dm_teams = teams, dm_location = loc, dm_currentIndex = 0,
        dm_roundStartedAt = now, dm_roundDeadline = None, dm_roundID = duel_roundID matchID 1, dm_guesses = [],
        dm_lastRoundResult = None, dm_roundResults = [],
        dm_ratingPreview = (if mode = Duel \<and> \<not> unranked then preview else []),
        dm_intermissionUntil = None, dm_pendingAdvance = False, dm_eventSeq = 1,
        dm_roundLiveAnnounced = False, dm_lastActivity = now\<rparr>"

definition new_players :: "game_mode \<Rightarrow> (string \<Rightarrow> player_profile) \<Rightarrow> (string \<Rightarrow> string) \<Rightarrow> string list \<Rightarrow> duel_player js_record" where
  "new_players mode profiles teamIds ids = fold (\<lambda>i ps. js_set ps i (new_player mode profiles teamIds i)) ids []"

definition CreateMatchWithOptions ::
    "int \<Rightarrow> string \<Rightarrow> string list \<Rightarrow> (string \<Rightarrow> player_profile) \<Rightarrow> bool \<Rightarrow> match_config \<Rightarrow> game_mode option \<Rightarrow>
     (string \<Rightarrow> string) \<Rightarrow> (string + location_point) \<Rightarrow> duel_match js_record \<Rightarrow>
     string + duel_match js_record" where
  "CreateMatchWithOptions now matchID playerIDs profiles unranked config modeOpt teamIds firstRound matches =
     (let mode = (case modeOpt of None \<Rightarrow> Duel | Some md \<Rightarrow> md) in
      if mode = Duel \<and> length playerIDs \<noteq> 2 then Inl ''duel requires exactly two players''
      else if mode \<in> {TeamDuel, FreeForAll} \<and> (length playerIDs < 2 \<or> 8 < length playerIDs)
      then Inl ''party match requires 2 to 8 players''
      else if mode = Singleplayer then Inl ''unsupported duel mode''
      else case firstRound of
        Inl err \<Rightarrow> Inl err
      | Inr loc \<Rightarrow>
          if map_of matches matchID \<noteq> None then Inl ''match already exists''
          else (let players = new_players mode profiles teamIds playerIDs;
                    teams = buildTeams mode playerIDs players
                in if mode = TeamDuel \<and> length teams \<noteq> 2 then Inl ''team duel requires both teams''
                   else Inr (js_set matches matchID (new_match now matchID mode unranked config players teams loc
                            (ratingPreview now playerIDs players)))))"

section \<open>Resolving a round\<close>

definition guessMS :: "int \<Rightarrow> int \<Rightarrow> int" where
  "guessMS ts liveAt = (if ts < liveAt then 0 else (ts - liveAt) div 1000000)"

text \<open>What a player gets for the guess of the round; without one the distance is the largest.\<close>

definition player_result :: "duel_match \<Rightarrow> string \<Rightarrow> duel_player \<Rightarrow> round_player_result" where
  "player_result m i p =
     (let g = map_of (dm_guesses m) i;
          dist = min maxDistanceKm (case g of None \<Rightarrow> maxDistanceKm
            | Some g \<Rightarrow> HaversineKm (lo_lat (dm_location m)) (lo_lng (dm_location m)) (gs_lat g) (gs_lng g))
      in \<lparr>rp_userId = i, rp_lat = (case g of None \<Rightarrow> 0 | Some g \<Rightarrow> gs_lat g),
          rp_lng = (case g of None \<Rightarrow> 0 | Some g \<Rightarrow> gs_lng g),
          rp_distanceKm = dist, rp_score = RoundScore dist, rp_damageDealt = Some 0, rp_damageTaken = Some 0,
          rp_hpAfterRound = Some (dp_hp p),
          rp_guessUnixMs = (case g of None \<Rightarrow> None | Some g \<Rightarrow> nonzero (UnixMilli (gs_ts g))),
          rp_guessMs = (case g of None \<Rightarrow> None
            | Some g \<Rightarrow> nonzero (guessMS (gs_ts g) (dm_roundStartedAt m + roundIntro)))\<rparr>)"

definition round_of :: "duel_match \<Rightarrow> round_result" where
  "round_of m =
     \<lparr>rr_roundId = dm_roundID m, rr_roundNumber = dm_currentIndex m + 1,
      rr_actualLocation = (lo_lat (dm_location m), lo_lng (dm_location m)),
      rr_players = each (player_result m) (dm_players m), rr_teams = None\<rparr>"

definition settleDuel :: "round_result \<Rightarrow> duel_match \<Rightarrow> duel_match \<times> round_result" where
  "settleDuel r m =
     (case resolveDuelDamage (rr_roundNumber r) (map fst (dm_players m))
             (map (\<lambda>(i, p). (i, dp_hp p)) (dm_players m), rr_players r) of
        (hp, rs) \<Rightarrow> (m\<lparr>dm_players := each (\<lambda>i p. p\<lparr>dp_hp := hp_at hp i\<rparr>) (dm_players m)\<rparr>, r\<lparr>rr_players := rs\<rparr>))"

definition settleFreeForAll :: "round_result \<Rightarrow> duel_match \<Rightarrow> duel_match \<times> round_result" where
  "settleFreeForAll r m =
     (m\<lparr>dm_players := each (\<lambda>i p. case map_of (rr_players r) i of
            None \<Rightarrow> p | Some res \<Rightarrow> p\<lparr>dp_totalScore := dp_totalScore p + rp_score res\<rparr>) (dm_players m)\<rparr>,
      r\<lparr>rr_players := each (\<lambda>i res. res\<lparr>rp_hpAfterRound := Some 0\<rparr>) (rr_players r)\<rparr>)"

subsection \<open>Teams\<close>

text \<open>A team is represented by its best player, the earlier one among equals.\<close>

definition better_guess :: "round_player_result js_record \<Rightarrow> string \<Rightarrow> round_team_result \<Rightarrow> round_team_result" where
  "better_guess rs i best =
     (case map_of rs i of
        None \<Rightarrow> best
      | Some r \<Rightarrow>
          if opt_str (rt_representativeUserId best) = [] \<or> rt_score best < rp_score r
          then best\<lparr>rt_representativeUserId := Some i, rt_lat := rp_lat r, rt_lng := rp_lng r,
                    rt_distanceKm := rp_distanceKm r, rt_score := rp_score r\<rparr>
          else best)"

definition team_best :: "round_player_result js_record \<Rightarrow> string \<Rightarrow> duel_team \<Rightarrow> round_team_result" where
  "team_best rs t team =
     fold (better_guess rs) (dt_players team)
       \<lparr>rt_teamId = t, rt_representativeUserId = None, rt_lat = 0, rt_lng = 0, rt_distanceKm = maxDistanceKm,
        rt_score = 0, rt_damageDealt = Some 0, rt_damageTaken = Some 0, rt_hpAfterRound = Some (dt_hp team)\<rparr>"

definition zero_team_result :: round_team_result where
  "zero_team_result =
     \<lparr>rt_teamId = [], rt_representativeUserId = None, rt_lat = 0, rt_lng = 0, rt_distanceKm = 0, rt_score = 0,
      rt_damageDealt = Some 0, rt_damageTaken = Some 0, rt_hpAfterRound = Some 0\<rparr>"

definition team_result_at :: "round_team_result js_record \<Rightarrow> string \<Rightarrow> round_team_result" where
  "team_result_at rs t = (case map_of rs t of None \<Rightarrow> zero_team_result | Some r \<Rightarrow> r)"

definition team_hp :: "duel_team js_record \<Rightarrow> string \<Rightarrow> int" where
  "team_hp teams t = (case map_of teams t of None \<Rightarrow> 0 | Some team \<Rightarrow> dt_hp team)"

text \<open>The teams are those \<open>buildTeams\<close> made, a and b: the code reads them by these names.\<close>

definition hit_team :: "string \<Rightarrow> int \<Rightarrow> duel_team js_record \<Rightarrow> duel_team js_record" where
  "hit_team t damage teams = each (\<lambda>k team. if k = t then team\<lparr>dt_hp := dt_hp team - damage\<rparr> else team) teams"

text \<open>Every member has the hit points of the team.\<close>

definition share_hp :: "duel_team js_record \<Rightarrow> duel_player js_record \<Rightarrow> duel_player js_record" where
  "share_hp teams players =
     fold (\<lambda>(t, team) ps. each (\<lambda>i p. if i \<in> set (dt_players team) then p\<lparr>dp_hp := dt_hp team\<rparr> else p) ps) teams players"

definition resolveTeamDuelDamage :: "round_result \<Rightarrow> duel_match \<Rightarrow> duel_match \<times> round_result" where
  "resolveTeamDuelDamage r m =
     (if length (dm_teams m) \<noteq> 2 then (m\<lparr>dm_state := MatchEnded\<rparr>, r)
      else
        let bests = map (\<lambda>(t, team). (t, team_best (rr_players r) t team)) (dm_teams m);
            a = team_result_at bests ''a''; b = team_result_at bests ''b'';
            damage = go_round (of_int \<bar>rt_score a - rt_score b\<bar> * roundDamageMultiplier (rr_roundNumber r));
            (a, b, teams) =
              (if rt_score b < rt_score a
               then (a\<lparr>rt_damageDealt := Some damage\<rparr>, b\<lparr>rt_damageTaken := Some damage\<rparr>, hit_team ''b'' damage (dm_teams m))
               else if rt_score a < rt_score b
               then (a\<lparr>rt_damageTaken := Some damage\<rparr>, b\<lparr>rt_damageDealt := Some damage\<rparr>, hit_team ''a'' damage (dm_teams m))
               else (a, b, dm_teams m));
            teams = each (\<lambda>t team. if dt_hp team < 0 then team\<lparr>dt_hp := 0\<rparr> else team) teams;
            bests = each (\<lambda>t res. res\<lparr>rt_hpAfterRound := Some (team_hp teams t)\<rparr>) bests
        in (m\<lparr>dm_teams := teams, dm_players := share_hp teams (dm_players m),
              dm_state := (if \<exists>(t, team) \<in> set teams. dt_hp team \<le> 0 then MatchEnded else dm_state m)\<rparr>,
            r\<lparr>rr_teams := Some (js_set
                (js_set bests ''a'' (a\<lparr>rt_hpAfterRound := Some (team_hp teams ''a'')\<rparr>))
                ''b'' (b\<lparr>rt_hpAfterRound := Some (team_hp teams ''b'')\<rparr>))\<rparr>))"

subsection \<open>The round\<close>

definition settle :: "round_result \<Rightarrow> duel_match \<Rightarrow> duel_match \<times> round_result" where
  "settle r m =
     (case dm_mode m of
        Duel \<Rightarrow> settleDuel r m
      | TeamDuel \<Rightarrow> resolveTeamDuelDamage r m
      | FreeForAll \<Rightarrow> settleFreeForAll r m
      | Singleplayer \<Rightarrow> (m, r))"

text \<open>Nobody without hit points plays on, and no match beyond its rounds.\<close>

definition end_if_decided :: "round_result \<Rightarrow> duel_match \<Rightarrow> duel_match" where
  "end_if_decided r m =
     (let dead = dm_mode m \<noteq> FreeForAll \<and> list_ex (\<lambda>(i, p). dp_hp p \<le> 0) (dm_players m);
          m = (if dm_mode m = FreeForAll then m
               else m\<lparr>dm_players := each (\<lambda>i p. if dp_hp p \<le> 0 then p\<lparr>dp_hp := 0\<rparr> else p) (dm_players m)\<rparr>)
      in if dead \<or> (dm_mode m = FreeForAll \<and> ffaRounds \<le> rr_roundNumber r) \<or> maxRounds \<le> rr_roundNumber r
         then m\<lparr>dm_state := MatchEnded\<rparr> else m)"

definition resolveRound :: "int \<Rightarrow> duel_match \<Rightarrow> duel_match" where
  "resolveRound now m =
     (if dm_state m \<noteq> MatchLive then m
      else
        (case settle (round_of m) (m\<lparr>dm_players := each (\<lambda>i p. p\<lparr>dp_finalized := False\<rparr>) (dm_players m)\<rparr>) of
           (m, r) \<Rightarrow>
             let m = end_if_decided r m;
                 m = m\<lparr>dm_lastRoundResult := Some r, dm_roundResults := dm_roundResults m @ [r], dm_guesses := [],
                       dm_lastActivity := now, dm_eventSeq := dm_eventSeq m + 1\<rparr>
             in if dm_state m = MatchEnded then m
                else m\<lparr>dm_pendingAdvance := True, dm_intermissionUntil := Some (now + resultDuration),
                       dm_eventSeq := dm_eventSeq m + 1\<rparr>))"

text \<open>\<open>advanceRound\<close>, with what the provider answers for the next round.\<close>

definition advance_round :: "location_point option \<Rightarrow> int \<Rightarrow> duel_match \<Rightarrow> duel_match" where
  "advance_round nextLoc now m =
     (if \<not> dm_pendingAdvance m then m
      else case nextLoc of
        None \<Rightarrow>
          m\<lparr>dm_state := MatchEnded, dm_pendingAdvance := False, dm_intermissionUntil := None, dm_lastActivity := now,
            dm_eventSeq := dm_eventSeq m + 1\<rparr>
      | Some loc \<Rightarrow>
          (let i = dm_currentIndex m + 1;
               m = startRoundTimer (m\<lparr>dm_currentIndex := i, dm_location := loc, dm_roundID := duel_roundID (dm_id m) (i + 1),
                     dm_roundStartedAt := now, dm_roundDeadline := None, dm_roundLiveAnnounced := False\<rparr>)
           in m\<lparr>dm_players := each (\<lambda>i p. p\<lparr>dp_finalized := False, dp_lastGuess := (0, 0), dp_hasGuess := False\<rparr>) (dm_players m),
                dm_pendingAdvance := False, dm_intermissionUntil := None, dm_lastActivity := now,
                dm_eventSeq := dm_eventSeq m + 1\<rparr>))"

section \<open>What players send\<close>

record engine_guess =
  gl_userID :: string
  gl_roundID :: string
  gl_lat :: real
  gl_lng :: real
  gl_finalize :: bool

definition update_player :: "string \<Rightarrow> (duel_player \<Rightarrow> duel_player) \<Rightarrow> duel_match \<Rightarrow> duel_match" where
  "update_player u f m = m\<lparr>dm_players := each (\<lambda>i p. if i = u then f p else p) (dm_players m)\<rparr>"

text \<open>A finalized guess may shorten the round for the others.\<close>

definition apply_pressure :: "int \<Rightarrow> duel_match \<Rightarrow> duel_match" where
  "apply_pressure now m =
     (let cfg = dm_config m; pressure = or_zero (cfg_pressureTimeLimitMs cfg);
          pressure = (if cfg_roundTimerMode cfg = Some TimerPressure \<and> pressure \<le> 0 then DefaultPressureTimeMS else pressure);
          deadline = now + go_millis pressure
      in if 0 < pressure \<and> (dm_roundDeadline m = None \<or> time_before deadline (dm_roundDeadline m))
         then m\<lparr>dm_roundDeadline := Some deadline\<rparr> else m)"

definition all_final :: "duel_match \<Rightarrow> bool" where
  "all_final m =
     list_all (\<lambda>i. case map_of (dm_guesses m) i of None \<Rightarrow> False | Some g \<Rightarrow> gs_finalized g) (map fst (dm_players m))"

definition SubmitGuess :: "int \<Rightarrow> engine_guess \<Rightarrow> duel_match \<Rightarrow> string + duel_match" where
  "SubmitGuess now g m =
     (if dm_state m \<noteq> MatchLive then Inl ''match is not live''
      else if gl_roundID g \<noteq> dm_roundID m then Inl ''round mismatch''
      else if dm_pendingAdvance m \<and> time_before now (dm_intermissionUntil m) then Inr m
      else if map_of (dm_players m) (gl_userID g) = None then Inl ''player not in match''
      else if roundExpired now m then Inr (resolveRound now m)
      else if now < dm_roundStartedAt m + roundIntro then Inr m
      else if (case map_of (dm_guesses m) (gl_userID g) of None \<Rightarrow> False | Some h \<Rightarrow> gs_finalized h) then Inr m
      else
        let m = m\<lparr>dm_guesses := js_set (dm_guesses m) (gl_userID g)
                    \<lparr>gs_lat = gl_lat g, gs_lng = gl_lng g, gs_finalized = gl_finalize g, gs_ts = now\<rparr>\<rparr>;
            m = update_player (gl_userID g) (\<lambda>p. p\<lparr>dp_lastGuess := (gl_lat g, gl_lng g), dp_hasGuess := True,
                  dp_finalized := gl_finalize g, dp_disconnected := False, dp_disconnectDue := 0\<rparr>) m;
            m = m\<lparr>dm_lastActivity := now, dm_eventSeq := dm_eventSeq m + 1\<rparr>;
            m = (if gl_finalize g then apply_pressure now m else m)
        in Inr (if all_final m then resolveRound now m else m))"

definition mark_connection :: "bool \<Rightarrow> int \<Rightarrow> string \<Rightarrow> duel_match \<Rightarrow> string + duel_match" where
  "mark_connection disconnected now u m =
     (if map_of (dm_players m) u = None then Inl ''player not in match''
      else Inr ((update_player u (\<lambda>p. p\<lparr>dp_disconnected := disconnected,
              dp_disconnectDue := (if disconnected then UnixMilli (now + disconnectGrace) else 0)\<rparr>) m)
           \<lparr>dm_lastActivity := now, dm_eventSeq := dm_eventSeq m + 1\<rparr>))"

definition MarkDisconnected :: "int \<Rightarrow> string \<Rightarrow> duel_match \<Rightarrow> string + duel_match" where
  "MarkDisconnected = mark_connection True"

definition MarkResumed :: "int \<Rightarrow> string \<Rightarrow> duel_match \<Rightarrow> string + duel_match" where
  "MarkResumed = mark_connection False"

definition Forfeit_match :: "int \<Rightarrow> string \<Rightarrow> duel_match \<Rightarrow> string + duel_match" where
  "Forfeit_match now u m =
     (if dm_state m \<noteq> MatchLive then Inr m
      else if map_of (dm_players m) u = None then Inl ''player not in match''
      else Inr ((update_player u (\<lambda>p. p\<lparr>dp_hp := 0, dp_finalized := False, dp_disconnected := False, dp_disconnectDue := 0\<rparr>) m)
           \<lparr>dm_pendingAdvance := False, dm_intermissionUntil := None, dm_state := MatchEnded, dm_lastActivity := now,
            dm_eventSeq := dm_eventSeq m + 1\<rparr>))"

section \<open>The clock of the engine\<close>

definition due_passed :: "int \<Rightarrow> duel_player \<Rightarrow> bool" where
  "due_passed now p \<longleftrightarrow> dp_disconnected p \<and> 0 < dp_disconnectDue p \<and> dp_disconnectDue p < UnixMilli now"

text \<open>The loop over the players: everyone away too long loses all hit points and ends the match.\<close>

definition drop_absent :: "int \<Rightarrow> duel_match \<Rightarrow> duel_match" where
  "drop_absent now m =
     fold (\<lambda>(i, p) m.
         if due_passed now p
         then (update_player i (\<lambda>p. p\<lparr>dp_hp := 0\<rparr>) m)
           \<lparr>dm_state := MatchEnded, dm_lastActivity := now, dm_eventSeq := dm_eventSeq m + 1\<rparr>
         else m) (dm_players m) m"

definition nobody_left :: "int \<Rightarrow> duel_match \<Rightarrow> duel_match" where
  "nobody_left now m =
     (let away = list_all (\<lambda>(i, p). dp_disconnected p) (dm_players m);
          maxDue = fold (\<lambda>(i, p). max (dp_disconnectDue p)) (dm_players m) 0;
          ended = m\<lparr>dm_players := each (\<lambda>i p. p\<lparr>dp_hp := 0\<rparr>) (dm_players m), dm_state := MatchEnded,
                    dm_eventSeq := dm_eventSeq m + 1\<rparr>
      in if away \<and> 0 < maxDue \<and> maxDue < UnixMilli now then ended\<lparr>dm_lastActivity := now\<rparr>
         else if away \<and> staleGrace < now - dm_lastActivity m then ended
         else m)"

definition Tick_match :: "location_point option \<Rightarrow> int \<Rightarrow> duel_match \<Rightarrow> duel_match" where
  "Tick_match nextLoc now m =
     (if dm_state m \<noteq> MatchLive then m
      else if dm_pendingAdvance m
      then (if time_after now (dm_intermissionUntil m) then advance_round nextLoc now m else m)
      else
        let m = (if \<not> dm_roundLiveAnnounced m \<and> dm_roundStartedAt m + roundIntro \<le> now
                 then m\<lparr>dm_roundLiveAnnounced := True, dm_eventSeq := dm_eventSeq m + 1\<rparr> else m);
            m = (if roundExpired now m then resolveRound now m else m);
            m = drop_absent now m
        in if dm_state m \<noteq> MatchLive then m else nobody_left now m)"

datatype engine_event = GuessSent engine_guess | TickRan "location_point option" | ConnectionLost string
  | ConnectionBack string | Forfeited string

text \<open>One call of the engine at an instant; an error leaves the match as it is.\<close>

fun engine_call :: "int \<Rightarrow> engine_event \<Rightarrow> duel_match \<Rightarrow> string + duel_match" where
  "engine_call now (GuessSent g) m = SubmitGuess now g m"
| "engine_call now (TickRan loc) m = Inr (Tick_match loc now m)"
| "engine_call now (ConnectionLost u) m = MarkDisconnected now u m"
| "engine_call now (ConnectionBack u) m = MarkResumed now u m"
| "engine_call now (Forfeited u) m = Forfeit_match now u m"

definition engine_step :: "int \<times> engine_event \<Rightarrow> duel_match \<Rightarrow> duel_match" where
  "engine_step e m = (case engine_call (fst e) (snd e) m of Inl err \<Rightarrow> m | Inr m' \<Rightarrow> m')"

section \<open>Snapshots\<close>

text \<open>A boolean and a text the JSON leaves out when they are false or empty.\<close>

definition if_true :: "bool \<Rightarrow> bool option" where
  "if_true b = (if b then Some True else None)"

definition if_text :: "string \<Rightarrow> string option" where
  "if_text t = (if t = [] then None else Some t)"

text \<open>\<open>UnixMilli\<close> of a time that may be zero: the year one.\<close>

definition unix_milli_of :: "int option \<Rightarrow> int" where
  "unix_milli_of t = (case t of None \<Rightarrow> - 62135596800000 | Some t \<Rightarrow> UnixMilli t)"

definition unixMilliOrZero :: "int option \<Rightarrow> int" where
  "unixMilliOrZero t = (case t of None \<Rightarrow> 0 | Some t \<Rightarrow> UnixMilli t)"

definition ms_until :: "int option \<Rightarrow> int \<Rightarrow> int" where
  "ms_until t now = (case t of None \<Rightarrow> 0 | Some t \<Rightarrow> if t < now then 0 else (t - now) div 1000000)"

text \<open>Phase, phase of the round, start and end of the phase.\<close>

definition phase_of :: "int \<Rightarrow> duel_match \<Rightarrow> match_phase \<times> round_phase \<times> int option \<times> int option" where
  "phase_of now m =
     (let live = Some (dm_roundStartedAt m + roundIntro) in
      if dm_state m = MatchEnded then (EndedPhase, RoundEnded, Some now, Some now)
      else if dm_pendingAdvance m \<and> time_before now (dm_intermissionUntil m)
      then (RoundResultPhase, RoundResultP, map_option (\<lambda>t. t - resultDuration) (dm_intermissionUntil m), dm_intermissionUntil m)
      else if dm_pendingAdvance m then (LivePhase, RoundTransition, dm_intermissionUntil m, Some now)
      else if time_before now live then (LivePhase, RoundIntro, Some (dm_roundStartedAt m), live)
      else (LivePhase, RoundLive, live, dm_roundDeadline m))"

definition roundMSLeft_of :: "int \<Rightarrow> duel_match \<Rightarrow> int" where
  "roundMSLeft_of now m =
     (case phase_of now m of (phase, roundPhase, _) \<Rightarrow>
        if phase = RoundResultPhase then ms_until (dm_intermissionUntil m) now
        else if phase = LivePhase \<and> roundPhase = RoundIntro then ms_until (Some (dm_roundStartedAt m + roundIntro)) now
        else if phase = LivePhase then ms_until (dm_roundDeadline m) now
        else 0)"

definition client_player :: "duel_player \<Rightarrow> snapshot_player" where
  "client_player p =
     \<lparr>pl_userId = dp_userId p, pl_displayName = dp_displayName p, pl_mmr = dp_mmr p,
      pl_ratingRd = (if dp_ratingRD p = 0 then None else Some (Fin (dp_ratingRD p))),
      pl_rankedGamesPlayed = nonzero (dp_rankedGamesPlayed p), pl_avatarUrl = if_text (dp_avatarURL p),
      pl_isGuest = if_true (dp_isGuest p), pl_isAdmin = if_true (dp_isAdmin p), pl_selectedBadge = dp_selectedBadge p,
      pl_teamId = if_text (dp_teamId p), pl_hp = dp_hp p, pl_totalScore = nonzero (dp_totalScore p),
      pl_finalized = dp_finalized p, pl_disconnected = dp_disconnected p\<rparr>"

definition client_team :: "string \<Rightarrow> duel_team \<Rightarrow> snapshot_team" where
  "client_team t team =
     \<lparr>st_teamId = t, st_name = if_text (dt_name team), st_hp = nonzero (dt_hp team), st_players = dt_players team\<rparr>"

definition clientSelfState :: "match_phase \<Rightarrow> round_phase \<Rightarrow> duel_player \<Rightarrow> snapshot_self" where
  "clientSelfState phase roundPhase p =
     \<lparr>sf_userId = dp_userId p,
      sf_currentGuess = (if phase = LivePhase \<and> roundPhase = RoundLive \<and> dp_hasGuess p then Some (dp_lastGuess p) else None)\<rparr>"

definition clientRoundState :: "duel_match \<Rightarrow> current_round" where
  "clientRoundState m =
     \<lparr>cr_roundId = dm_roundID m, cr_roundNumber = dm_currentIndex m + 1, cr_timerStarted = Some (dm_roundDeadline m \<noteq> None),
      cr_panoId = opt_str (lo_panoId (dm_location m)), cr_heading = map_option Fin (lo_heading (dm_location m)),
      cr_pitch = map_option Fin (lo_pitch (dm_location m))\<rparr>"

definition state_text :: "duel_match_state \<Rightarrow> string" where
  "state_text st = (case st of MatchLive \<Rightarrow> ''live'' | MatchEnded \<Rightarrow> ''ended'')"

text \<open>What the client of a player gets: \<open>ClientSnapshotForPlayer(m.snapshot(), userID)\<close>.\<close>

definition client_snapshot :: "int \<Rightarrow> string \<Rightarrow> duel_match \<Rightarrow> snapshot" where
  "client_snapshot now userID m =
     (case phase_of now m of (phase, roundPhase, phaseStartedAt, phaseEndsAt) \<Rightarrow>
        \<lparr>sn_matchId = dm_id m, sn_mode = Some (dm_mode m), sn_config = Some (NormalizeMatchConfig (dm_config m)),
         sn_unranked = if_true (dm_unranked m), sn_state = state_text (dm_state m), sn_phase = phase, sn_roundPhase = roundPhase,
         sn_phaseStartedAt = unix_milli_of phaseStartedAt, sn_phaseEndsAt = unixMilliOrZero phaseEndsAt,
         sn_roundMsLeft = roundMSLeft_of now m,
         sn_currentRound = (if phase = LivePhase \<and> dm_state m = MatchLive then Some (clientRoundState m) else None),
         sn_lastRoundResult = dm_lastRoundResult m,
         sn_roundResults = (if dm_roundResults m = [] then None else Some (dm_roundResults m)),
         sn_players = map (\<lambda>(i, p). (i, client_player p)) (dm_players m),
         sn_teams = (if dm_teams m = [] then None else Some (map (\<lambda>(t, team). (t, client_team t team)) (dm_teams m))),
         sn_self = map_option (clientSelfState phase roundPhase) (map_of (dm_players m) userID),
         sn_ratingPreview = (if dm_ratingPreview m = [] then None else Some (dm_ratingPreview m)),
         sn_eventSequence = dm_eventSeq m, sn_serverUnixMs = Some (of_int (UnixMilli now)), sn_graceWindowSec = Some 30\<rparr>)"

section \<open>The engine\<close>

text \<open>An operation on the match a command names: the matches afterwards, and the match whose snapshot is returned.\<close>

definition with_match ::
    "string \<Rightarrow> (duel_match \<Rightarrow> string + duel_match) \<Rightarrow> duel_match js_record \<Rightarrow> string + duel_match \<times> duel_match js_record" where
  "with_match matchID f matches =
     (case map_of matches matchID of
        None \<Rightarrow> Inl ''match not found''
      | Some m \<Rightarrow> (case f m of Inl err \<Rightarrow> Inl err | Inr m' \<Rightarrow> Inr (m', js_set matches matchID m')))"

definition engine_SubmitGuess :: "int \<Rightarrow> string \<Rightarrow> engine_guess \<Rightarrow> duel_match js_record \<Rightarrow> string + duel_match \<times> duel_match js_record" where
  "engine_SubmitGuess now matchID g = with_match matchID (SubmitGuess now g)"

text \<open>\<open>Tick\<close>: every match, and the ids of those that changed.\<close>

definition engine_Tick ::
    "(string \<Rightarrow> location_point option) \<Rightarrow> int \<Rightarrow> duel_match js_record \<Rightarrow> string list \<times> duel_match js_record" where
  "engine_Tick nextLoc now matches =
     (let after = each (\<lambda>i m. Tick_match (nextLoc i) now m) matches
      in (map (\<lambda>(i, m). dm_id m) (filter (\<lambda>(i, m). case map_of matches i of None \<Rightarrow> False
              | Some before \<Rightarrow> dm_eventSeq m \<noteq> dm_eventSeq before) after), after))"

end
