(* ===== verification/DuelRuns.thy ===== *)
theory DuelRuns
  imports DuelEngine
begin

text \<open>
  What holds in every run of a match on the duel server: its changes are numbered, which the client relies on
  when it orders snapshots; hit points stay between zero and the start; the points a player has are those
  of the rounds.
\<close>

section \<open>Every change is numbered\<close>

lemma settle_fields:
  assumes "settle r m = (m', r')"
  shows "dm_eventSeq m' = dm_eventSeq m \<and> dm_mode m' = dm_mode m \<and> dm_roundResults m' = dm_roundResults m \<and>
    rr_roundNumber r' = rr_roundNumber r \<and> rr_roundId r' = rr_roundId r"
  using assms
  by (cases "dm_mode m")
    (auto simp: settle_def settleDuel_def settleFreeForAll_def resolveTeamDuelDamage_def Let_def split: prod.splits if_splits)

lemma end_if_decided_fields:
  "dm_eventSeq (end_if_decided r m) = dm_eventSeq m" "dm_mode (end_if_decided r m) = dm_mode m"
  "dm_roundResults (end_if_decided r m) = dm_roundResults m"
  by (simp_all add: end_if_decided_def Let_def)

lemma resolveRound_idle: "dm_state m \<noteq> MatchLive \<Longrightarrow> resolveRound now m = m"
  by (simp add: resolveRound_def)

lemma resolveRound_seq: "dm_state m = MatchLive \<Longrightarrow> dm_eventSeq m < dm_eventSeq (resolveRound now m)"
  using settle_fields
  by (auto simp: resolveRound_def Let_def end_if_decided_fields split: prod.splits)

lemma resolveRound_numbered: "resolveRound now m = m \<or> dm_eventSeq m < dm_eventSeq (resolveRound now m)"
  using resolveRound_idle resolveRound_seq by blast

definition numbered :: "(duel_match \<Rightarrow> duel_match) \<Rightarrow> bool" where
  "numbered f \<longleftrightarrow> (\<forall>m. f m = m \<or> dm_eventSeq m < dm_eventSeq (f m))"

lemma numberedI: "(\<And>m. f m = m \<or> dm_eventSeq m < dm_eventSeq (f m)) \<Longrightarrow> numbered f"
  by (simp add: numbered_def)

lemma numberedD: "numbered f \<Longrightarrow> f m = m \<or> dm_eventSeq m < dm_eventSeq (f m)"
  by (simp add: numbered_def)

lemma numbered_then: "numbered f \<Longrightarrow> numbered g \<Longrightarrow> numbered (\<lambda>m. g (f m))"
  unfolding numbered_def by (metis less_trans)

lemma numbered_fold: "(\<And>x. numbered (f x)) \<Longrightarrow> numbered (fold f xs)"
proof (induction xs)
  case Nil
  then show ?case by (simp add: numbered_def)
next
  case (Cons x xs)
  from numbered_then [OF Cons.prems [of x] Cons.IH [OF Cons.prems]] show ?case by (simp add: comp_def)
qed

lemma numbered_fold_at: "(\<And>x. numbered (f x)) \<Longrightarrow> fold f xs m = m \<or> dm_eventSeq m < dm_eventSeq (fold f xs m)"
  using numbered_fold numberedD by blast

lemma drop_absent_numbered: "numbered (drop_absent now)"
proof (rule numberedI)
  fix m
  let ?f = "\<lambda>(i, p) m. if due_passed now p
         then (update_player i (\<lambda>p. p\<lparr>dp_hp := 0\<rparr>) m)
           \<lparr>dm_state := MatchEnded, dm_lastActivity := now, dm_eventSeq := dm_eventSeq m + 1\<rparr>
         else m"
  have "numbered (?f x)" for x by (cases x) (auto simp: numbered_def)
  then show "drop_absent now m = m \<or> dm_eventSeq m < dm_eventSeq (drop_absent now m)"
    unfolding drop_absent_def by (rule numbered_fold_at)
qed

lemma nobody_left_numbered: "numbered (nobody_left now)"
  by (auto simp: numbered_def nobody_left_def Let_def)

lemma advance_round_numbered: "numbered (advance_round loc now)"
  by (auto simp: numbered_def advance_round_def startRoundTimer_def Let_def split: option.splits)

lemma Tick_numbered: "numbered (Tick_match loc now)"
proof (rule numberedI)
  fix m
  let ?announce = "\<lambda>m. if \<not> dm_roundLiveAnnounced m \<and> dm_roundStartedAt m + roundIntro \<le> now
                 then m\<lparr>dm_roundLiveAnnounced := True, dm_eventSeq := dm_eventSeq m + 1\<rparr> else m"
  let ?resolve = "\<lambda>m. if roundExpired now m then resolveRound now m else m"
  let ?left = "\<lambda>m. if dm_state m \<noteq> MatchLive then m else nobody_left now m"
  have a: "numbered ?announce" by (auto simp: numbered_def)
  have r: "numbered ?resolve" using resolveRound_numbered by (auto simp: numbered_def)
  have l: "numbered ?left" using nobody_left_numbered by (auto simp: numbered_def)
  have "numbered (\<lambda>m. ?left (drop_absent now (?resolve (?announce m))))"
    using numbered_then [OF numbered_then [OF numbered_then [OF a r] drop_absent_numbered] l] .
  from numberedD [OF this, of m] numberedD [OF advance_round_numbered, of loc now m]
  show "Tick_match loc now m = m \<or> dm_eventSeq m < dm_eventSeq (Tick_match loc now m)"
    by (simp add: Tick_match_def Let_def)
qed

lemma update_player_seq [simp]: "dm_eventSeq (update_player u f m) = dm_eventSeq m"
  by (simp add: update_player_def)

lemma apply_pressure_seq: "dm_eventSeq (apply_pressure now m) = dm_eventSeq m"
  by (simp add: apply_pressure_def Let_def)

lemma SubmitGuess_numbered: "SubmitGuess now g m = Inr m' \<Longrightarrow> m' = m \<or> dm_eventSeq m < dm_eventSeq m'"
proof -
  assume "SubmitGuess now g m = Inr m'"
  moreover have "dm_eventSeq x < dm_eventSeq (resolveRound now x) \<or> resolveRound now x = x" for x
    using resolveRound_numbered [of now x] by blast
  then have "dm_eventSeq x \<le> dm_eventSeq (resolveRound now x)" for x by (metis order.strict_implies_order order_refl)
  then have "dm_eventSeq m < dm_eventSeq x \<Longrightarrow> dm_eventSeq m < dm_eventSeq (resolveRound now x)" for x
    by (metis less_le_trans)
  ultimately show ?thesis
    using resolveRound_numbered [of now m]
    by (auto simp: SubmitGuess_def Let_def apply_pressure_seq split: if_splits)
qed

lemma engine_step_numbered: "numbered (engine_step e)"
proof (rule numberedI)
  fix m
  obtain now ev where e: "e = (now, ev)" by (cases e)
  show "engine_step e m = m \<or> dm_eventSeq m < dm_eventSeq (engine_step e m)"
  proof (cases "engine_call now ev m")
    case (Inl err)
    then show ?thesis by (simp add: engine_step_def e)
  next
    case (Inr m')
    have "m' = m \<or> dm_eventSeq m < dm_eventSeq m'"
      using Inr SubmitGuess_numbered [of now _ m m'] numberedD [OF Tick_numbered, of _ now m]
      by (cases ev) (auto simp: MarkDisconnected_def MarkResumed_def mark_connection_def Forfeit_match_def split: if_splits)
    with Inr show ?thesis by (simp add: engine_step_def e)
  qed
qed

definition engine_run :: "(int \<times> engine_event) list \<Rightarrow> duel_match \<Rightarrow> duel_match" where
  "engine_run es = fold engine_step es"

text \<open>
  C32. The numbers of snapshots order them: over any run of guesses, ticks, lost and restored connections and
  forfeits, a match is either unchanged or its event sequence, which is the number of its snapshots, has
  grown; a client that drops the lower number never drops a newer state.
\<close>

theorem event_sequence_orders:
  fixes m es fs
  defines "m1 \<equiv> engine_run es m" and "m2 \<equiv> engine_run (es @ fs) m"
  shows "(m2 = m1 \<or> dm_eventSeq m1 < dm_eventSeq m2) \<and>
    sn_eventSequence (client_snapshot now u m1) = dm_eventSeq m1"
proof -
  have "m2 = fold engine_step fs m1" by (simp add: m1_def m2_def engine_run_def)
  moreover have "fold engine_step fs m1 = m1 \<or> dm_eventSeq m1 < dm_eventSeq (fold engine_step fs m1)"
    by (rule numbered_fold_at) (rule engine_step_numbered)
  moreover have "sn_eventSequence (client_snapshot now u m1) = dm_eventSeq m1"
    by (simp add: client_snapshot_def split: prod.splits)
  ultimately show ?thesis by auto
qed

section \<open>Hit points and points\<close>

definition hp_range :: "int \<Rightarrow> bool" where
  "hp_range x \<longleftrightarrow> 0 \<le> x \<and> x \<le> startingHP"

lemma hp_range_simps [simp]: "hp_range 0" "hp_range startingHP"
  by (simp_all add: hp_range_def startingHP_def)

definition players_ok :: "game_mode \<Rightarrow> round_result list \<Rightarrow> duel_player js_record \<Rightarrow> bool" where
  "players_ok md rounds ps \<longleftrightarrow>
     (\<forall>i p. map_of ps i = Some p \<longrightarrow>
        hp_range (dp_hp p) \<and> dp_totalScore p = (if md = FreeForAll then total_score i rounds else 0))"

definition teams_ok :: "game_mode \<Rightarrow> duel_team js_record \<Rightarrow> bool" where
  "teams_ok md ts \<longleftrightarrow>
     (\<forall>t team. map_of ts t = Some team \<longrightarrow> hp_range (dt_hp team)) \<and> map fst ts = (if md = TeamDuel then [''a'', ''b''] else [])"

definition duel_ok :: "duel_match \<Rightarrow> bool" where
  "duel_ok m \<longleftrightarrow>
     distinct (map fst (dm_players m)) \<and> dm_mode m \<noteq> Singleplayer \<and>
     players_ok (dm_mode m) (dm_roundResults m) (dm_players m) \<and> teams_ok (dm_mode m) (dm_teams m) \<and>
     list_all (\<lambda>r. map fst (rr_players r) = map fst (dm_players m)) (dm_roundResults m) \<and>
     dm_lastRoundResult m = (if dm_roundResults m = [] then None else Some (last (dm_roundResults m)))"

lemma players_ok_each:
  assumes "players_ok md rounds ps"
    and "\<And>i p. map_of ps i = Some p \<Longrightarrow> hp_range (dp_hp p) \<Longrightarrow> hp_range (dp_hp (f i p)) \<and> dp_totalScore (f i p) = dp_totalScore p"
  shows "players_ok md rounds (each f ps)"
  using assms unfolding players_ok_def by (fastforce simp: map_of_each)

lemma players_ok_hp:
  assumes "players_ok md rounds ps" and "\<And>i p. hp_range (dp_hp p) \<Longrightarrow> hp_range (dp_hp (f i p))"
    and "\<And>i p. dp_totalScore (f i p) = dp_totalScore p"
  shows "players_ok md rounds (each f ps)"
  using assms by (intro players_ok_each) auto

lemma players_ok_append:
  assumes "players_ok md rounds ps" and "md \<noteq> FreeForAll"
  shows "players_ok md (rounds @ [r]) ps"
  using assms by (simp add: players_ok_def)

lemma duel_ok_update:
  assumes "duel_ok m" and "\<And>p. hp_range (dp_hp p) \<Longrightarrow> hp_range (dp_hp (f p))"
    and "\<And>p. dp_totalScore (f p) = dp_totalScore p"
  shows "duel_ok (update_player u f m)"
  using assms by (auto simp: duel_ok_def update_player_def intro!: players_ok_hp)

text \<open>Fields the invariant does not read.\<close>

lemma duel_ok_fields [simp]:
  "duel_ok (m\<lparr>dm_state := st\<rparr>) = duel_ok m" "duel_ok (m\<lparr>dm_eventSeq := n\<rparr>) = duel_ok m"
  "duel_ok (m\<lparr>dm_lastActivity := t\<rparr>) = duel_ok m" "duel_ok (m\<lparr>dm_guesses := gs\<rparr>) = duel_ok m"
  "duel_ok (m\<lparr>dm_pendingAdvance := b\<rparr>) = duel_ok m" "duel_ok (m\<lparr>dm_intermissionUntil := u\<rparr>) = duel_ok m"
  "duel_ok (m\<lparr>dm_roundLiveAnnounced := b\<rparr>) = duel_ok m" "duel_ok (m\<lparr>dm_roundDeadline := u\<rparr>) = duel_ok m"
  "duel_ok (m\<lparr>dm_config := c\<rparr>) = duel_ok m"
  by (simp_all add: duel_ok_def)

lemma damage_not_negative: "0 \<le> go_round (of_int \<bar>x\<bar> * roundDamageMultiplier n)"
  using damage_nonneg [of x n] applied_is_dealt [of "\<bar>x\<bar>" n] by simp

lemma duel_damage_hp:
  fixes n rs i j
  defines "d \<equiv> go_round (of_int \<bar>rp_score (result_at rs i) - rp_score (result_at rs j)\<bar> * roundDamageMultiplier n)"
  assumes "resolveDuelDamage n [i, j] (hp, rs) = (hp', rs')"
  shows "hp' \<in> {hp, take_hp i d hp, take_hp j d hp}"
  using assms(2) unfolding d_def by (auto simp: resolveDuelDamage_def Let_def split: if_splits)

lemma duel_damage_other: "length ids \<noteq> 2 \<Longrightarrow> resolveDuelDamage n ids st = st"
  by (auto simp: resolveDuelDamage_def split: list.splits prod.splits)

lemma take_hp_range:
  assumes "\<And>i. hp_range (hp_at hp i)" and "0 \<le> d"
  shows "hp_range (hp_at (take_hp j d hp) i)"
  using assms(2) assms(1) [of i] assms(1) [of j]
  by (auto simp: take_hp_def hp_at_def hp_range_def or_zero_def Let_def split: option.splits if_splits)

lemma duel_damage_range:
  assumes "\<And>i. hp_range (hp_at hp i)" and "resolveDuelDamage n ids (hp, rs) = (hp', rs')"
  shows "hp_range (hp_at hp' i)"
proof (cases "length ids = 2")
  case True
  then obtain x y where "ids = [x, y]" by (auto simp: length_Suc_conv numeral_2_eq_2)
  with assms(2) duel_damage_hp take_hp_range [OF assms(1) damage_not_negative] assms(1) show ?thesis by blast
next
  case False
  with assms show ?thesis by (simp add: duel_damage_other)
qed

lemma duel_damage_set: "resolveDuelDamage n [i, j] (hp, rs) = (hp', rs') \<Longrightarrow> \<exists>x y. rs' = js_set (js_set rs i x) j y"
  unfolding resolveDuelDamage_def Let_def by (clarsimp split: prod.splits simp del: js_set.simps) blast

lemma duel_damage_results:
  assumes "resolveDuelDamage n ids (hp, rs) = (hp', rs')" and "map fst rs = ids"
  shows "map fst rs' = ids"
proof (cases "length ids = 2")
  case True
  then obtain i j where ij: "ids = [i, j]" by (auto simp: length_Suc_conv numeral_2_eq_2)
  then obtain x y where "rs' = js_set (js_set rs i x) j y" using assms(1) duel_damage_set by blast
  moreover have "fst ` set rs = {i, j}" using assms(2) ij by (metis list.set(1,2) list.set_map)
  ultimately show ?thesis using assms(2) ij by (simp add: keys_js_set)
next
  case False
  with assms show ?thesis by (simp add: duel_damage_other)
qed

lemma settleDuel_ok:
  assumes "duel_ok m" and "dm_mode m = Duel" and "settleDuel r m = (m', r')" and "map fst (rr_players r) = map fst (dm_players m)"
  shows "players_ok Duel rounds (dm_players m') \<and> map fst (dm_players m') = map fst (dm_players m) \<and>
    map fst (rr_players r') = map fst (dm_players m) \<and> dm_teams m' = dm_teams m"
proof -
  let ?hp = "map (\<lambda>(i, p). (i, dp_hp p)) (dm_players m)"
  obtain hp rs where d: "resolveDuelDamage (rr_roundNumber r) (map fst (dm_players m)) (?hp, rr_players r) = (hp, rs)"
    by (metis surj_pair)
  have p: "players_ok Duel (dm_roundResults m) (dm_players m)" using assms(1,2) by (simp add: duel_ok_def)
  have "map_of ?hp i = map_option dp_hp (map_of (dm_players m) i)" for i by (induction "dm_players m") (auto simp: map_of_map)
  then have "hp_range (hp_at ?hp i)" for i
    using p by (cases "map_of (dm_players m) i") (auto simp: hp_at_def or_zero_def players_ok_def)
  then have h: "hp_range (hp_at hp i)" for i using duel_damage_range [OF _ d] by blast
  have "map fst rs = map fst (dm_players m)" by (rule duel_damage_results [OF d assms(4)])
  with assms(3) d p h show ?thesis
    by (auto simp: settleDuel_def players_ok_def)
qed

lemma total_score_append: "total_score i (rounds @ [r]) = total_score i rounds + round_score i r"
  by (simp add: total_score_def)

lemma settleFreeForAll_ok:
  assumes "duel_ok m" and "dm_mode m = FreeForAll" and "settleFreeForAll r m = (m', r')" and "map fst (rr_players r) = map fst (dm_players m)"
  shows "players_ok FreeForAll (dm_roundResults m @ [r']) (dm_players m') \<and> map fst (dm_players m') = map fst (dm_players m) \<and>
    map fst (rr_players r') = map fst (dm_players m) \<and> dm_teams m' = dm_teams m"
proof -
  have p: "players_ok FreeForAll (dm_roundResults m) (dm_players m)" using assms(1,2) by (simp add: duel_ok_def)
  have m: "dm_players m' = each (\<lambda>i p. case map_of (rr_players r) i of
            None \<Rightarrow> p | Some res \<Rightarrow> p\<lparr>dp_totalScore := dp_totalScore p + rp_score res\<rparr>) (dm_players m)"
    and r: "rr_players r' = each (\<lambda>i res. res\<lparr>rp_hpAfterRound := Some 0\<rparr>) (rr_players r)" and t: "dm_teams m' = dm_teams m"
    using assms(3) by (auto simp: settleFreeForAll_def)
  have "round_score i r' = (case map_of (rr_players r) i of None \<Rightarrow> 0 | Some res \<Rightarrow> rp_score res)" for i
    by (simp add: round_score_def r split: option.split)
  with p have "players_ok FreeForAll (dm_roundResults m @ [r']) (dm_players m')"
    by (auto simp: players_ok_def m total_score_append split: option.splits)
  then show ?thesis by (simp add: m r t assms(4))
qed

lemma share_hp_each:
  "hp_range (dt_hp team) \<Longrightarrow> players_ok md rounds ps \<Longrightarrow>
   players_ok md rounds (each (\<lambda>i p. if i \<in> set (dt_players team) then p\<lparr>dp_hp := dt_hp team\<rparr> else p) ps)"
  by (rule players_ok_hp) auto

lemma share_hp_ok:
  assumes "players_ok md rounds ps" and "\<forall>(t, team) \<in> set teams. hp_range (dt_hp team)"
  shows "players_ok md rounds (share_hp teams ps) \<and> map fst (share_hp teams ps) = map fst ps"
  using assms
proof (induction teams arbitrary: ps)
  case Nil
  then show ?case by (simp add: share_hp_def)
next
  case (Cons e teams)
  obtain t team where e: "e = (t, team)" by (cases e)
  let ?ps = "each (\<lambda>i p. if i \<in> set (dt_players team) then p\<lparr>dp_hp := dt_hp team\<rparr> else p) ps"
  have "share_hp (e # teams) ps = share_hp teams ?ps" by (simp add: share_hp_def e)
  with Cons share_hp_each [of team md rounds ps] e show ?case by simp
qed

lemma teams_set_range: "distinct (map fst ts) \<Longrightarrow> teams_ok md ts \<Longrightarrow> \<forall>(t, team) \<in> set ts. hp_range (dt_hp team)"
  by (auto simp: teams_ok_def)

lemma hit_team_ok:
  assumes "teams_ok md ts" and "0 \<le> d"
  shows "teams_ok md (each (\<lambda>t team. if dt_hp team < 0 then team\<lparr>dt_hp := 0\<rparr> else team) (hit_team t d ts))"
proof -
  have "hp_range (x - d)" if "hp_range x" "\<not> x - d < 0" for x using that assms(2) by (auto simp: hp_range_def)
  then show ?thesis using assms(1) unfolding teams_ok_def hit_team_def by fastforce
qed

lemma clamp_teams_ok:
  assumes "teams_ok md ts"
  shows "each (\<lambda>t team. if dt_hp team < 0 then team\<lparr>dt_hp := 0\<rparr> else team) ts = ts"
proof (cases "md = TeamDuel")
  case True
  then have "distinct (map fst ts)" using assms by (simp add: teams_ok_def)
  from teams_set_range [OF this assms] show ?thesis by (intro each_id) (auto simp: hp_range_def)
next
  case False
  with assms have "ts = []" by (simp add: teams_ok_def)
  then show ?thesis by (simp add: each_def)
qed

text \<open>What the teams have after the round, as one equation.\<close>

definition teams_after :: "int \<Rightarrow> round_team_result js_record \<Rightarrow> duel_team js_record \<Rightarrow> duel_team js_record" where
  "teams_after n bests teams =
     (let a = team_result_at bests ''a''; b = team_result_at bests ''b'';
          damage = go_round (of_int \<bar>rt_score a - rt_score b\<bar> * roundDamageMultiplier n)
      in each (\<lambda>t team. if dt_hp team < 0 then team\<lparr>dt_hp := 0\<rparr> else team)
           (if rt_score b < rt_score a then hit_team ''b'' damage teams
            else if rt_score a < rt_score b then hit_team ''a'' damage teams else teams))"

lemma teams_after_ok: "teams_ok md teams \<Longrightarrow> teams_ok md (teams_after n bests teams)"
  unfolding teams_after_def Let_def
  by (auto simp only: clamp_teams_ok if_distrib if_True if_False intro!: hit_team_ok [OF _ damage_not_negative] split: if_split)

lemma resolveTeam_fields:
  assumes "length (dm_teams m) = 2"
  shows "dm_teams (fst (resolveTeamDuelDamage r m)) =
      teams_after (rr_roundNumber r) (map (\<lambda>(t, team). (t, team_best (rr_players r) t team)) (dm_teams m)) (dm_teams m)"
    "dm_players (fst (resolveTeamDuelDamage r m)) = share_hp (dm_teams (fst (resolveTeamDuelDamage r m))) (dm_players m)"
    "rr_players (snd (resolveTeamDuelDamage r m)) = rr_players r"
  using assms by (simp_all add: resolveTeamDuelDamage_def teams_after_def Let_def split: prod.split)

lemma settleTeams_ok:
  assumes "duel_ok m" and "dm_mode m = TeamDuel" and "map fst (rr_players r) = map fst (dm_players m)"
  defines "m' \<equiv> fst (resolveTeamDuelDamage r m)" and "r' \<equiv> snd (resolveTeamDuelDamage r m)"
  shows "players_ok TeamDuel rounds (dm_players m') \<and> map fst (dm_players m') = map fst (dm_players m) \<and>
    map fst (rr_players r') = map fst (dm_players m) \<and> teams_ok TeamDuel (dm_teams m')"
proof -
  have t: "teams_ok TeamDuel (dm_teams m)" and k: "map fst (dm_teams m) = [''a'', ''b'']"
    using assms(1,2) by (auto simp: duel_ok_def teams_ok_def)
  then have l: "length (dm_teams m) = 2" by (metis length_map length_Cons list.size(3) numeral_2_eq_2)
  have t': "teams_ok TeamDuel (dm_teams m')" unfolding m'_def resolveTeam_fields(1) [OF l] by (rule teams_after_ok [OF t])
  then have "distinct (map fst (dm_teams m'))" by (simp add: teams_ok_def)
  moreover have "players_ok TeamDuel rounds (dm_players m)" using assms(1,2) by (auto simp: duel_ok_def players_ok_def)
  ultimately show ?thesis
    using share_hp_ok [of TeamDuel rounds "dm_players m" "dm_teams m'"] teams_set_range [OF _ t'] t' assms(3)
    unfolding m'_def r'_def resolveTeam_fields(2,3) [OF l] by simp
qed

text \<open>Settling by mode, whatever the mode.\<close>

lemma settle_ok:
  assumes "duel_ok m" and "settle r m = (m', r')" and "map fst (rr_players r) = map fst (dm_players m)"
  shows "players_ok (dm_mode m) (dm_roundResults m @ [r']) (dm_players m') \<and> map fst (dm_players m') = map fst (dm_players m) \<and>
    map fst (rr_players r') = map fst (dm_players m) \<and> teams_ok (dm_mode m) (dm_teams m')"
proof -
  have t: "teams_ok (dm_mode m) (dm_teams m)" and s: "dm_mode m \<noteq> Singleplayer" using assms(1) by (simp_all add: duel_ok_def)
  show ?thesis
  proof (cases "dm_mode m")
    case Duel
    with assms t settleDuel_ok show ?thesis by (simp add: settle_def)
  next
    case TeamDuel
    then have "m' = fst (resolveTeamDuelDamage r m)" "r' = snd (resolveTeamDuelDamage r m)" using assms(2) by (simp_all add: settle_def)
    with TeamDuel assms(1,3) settleTeams_ok show ?thesis by simp
  next
    case FreeForAll
    with assms t settleFreeForAll_ok show ?thesis by (simp add: settle_def)
  qed (use s in simp)
qed

lemma end_if_decided_ok:
  assumes "players_ok md rounds (dm_players m)"
  shows "players_ok md rounds (dm_players (end_if_decided r m)) \<and>
    map fst (dm_players (end_if_decided r m)) = map fst (dm_players m) \<and> dm_teams (end_if_decided r m) = dm_teams m"
  using assms by (auto simp: end_if_decided_def Let_def intro!: players_ok_hp)

lemma round_of_keys: "map fst (rr_players (round_of m)) = map fst (dm_players m)"
  by (simp add: round_of_def)

lemma resolveRound_ok:
  assumes "duel_ok m"
  shows "duel_ok (resolveRound now m)"
proof (cases "dm_state m = MatchLive")
  case False
  with assms show ?thesis by (simp add: resolveRound_idle)
next
  case True
  let ?m = "m\<lparr>dm_players := each (\<lambda>i p. p\<lparr>dp_finalized := False\<rparr>) (dm_players m)\<rparr>"
  have ok: "duel_ok ?m" using assms by (auto simp: duel_ok_def intro!: players_ok_hp)
  obtain m' r where st: "settle (round_of m) ?m = (m', r)" by (metis surj_pair)
  have k: "map fst (rr_players (round_of m)) = map fst (dm_players ?m)" by (simp add: round_of_keys)
  note s = settle_ok [OF ok st k] and f = settle_fields [OF st]
  note e = end_if_decided_ok [OF conjunct1 [OF s], of r]
  let ?res = "\<lambda>x. x\<lparr>dm_lastRoundResult := Some r, dm_roundResults := dm_roundResults x @ [r]\<rparr>"
  have "duel_ok (?res (end_if_decided r m'))"
    using s f e ok by (simp add: duel_ok_def end_if_decided_fields)
  then show ?thesis
    using True st by (simp add: resolveRound_def Let_def)
qed

lemma startRoundTimer_ok [simp]: "duel_ok (startRoundTimer m) = duel_ok m"
  by (simp add: startRoundTimer_def Let_def)

lemma advance_round_ok: "duel_ok m \<Longrightarrow> duel_ok (advance_round loc now m)"
  by (auto simp: advance_round_def Let_def duel_ok_def startRoundTimer_def split: option.splits intro!: players_ok_hp)

lemma drop_absent_ok: "duel_ok m \<Longrightarrow> duel_ok (drop_absent now m)"
  unfolding drop_absent_def
  by (rule fold_keeps) (auto intro!: duel_ok_update simp: hp_range_def startingHP_def)

lemma nobody_left_ok: "duel_ok m \<Longrightarrow> duel_ok (nobody_left now m)"
  by (auto simp: nobody_left_def Let_def duel_ok_def intro!: players_ok_hp)

lemma Tick_ok: "duel_ok m \<Longrightarrow> duel_ok (Tick_match loc now m)"
  by (auto simp: Tick_match_def Let_def intro!: advance_round_ok drop_absent_ok nobody_left_ok resolveRound_ok)

lemma apply_pressure_ok [simp]: "duel_ok (apply_pressure now m) = duel_ok m"
  by (simp add: apply_pressure_def Let_def)

lemma SubmitGuess_ok: "duel_ok m \<Longrightarrow> SubmitGuess now g m = Inr m' \<Longrightarrow> duel_ok m'"
  by (auto simp: SubmitGuess_def Let_def split: if_splits intro!: resolveRound_ok duel_ok_update)

lemma engine_step_ok: "duel_ok m \<Longrightarrow> duel_ok (engine_step e m)"
proof -
  assume ok: "duel_ok m"
  obtain now ev where e: "e = (now, ev)" by (cases e)
  have "duel_ok m'" if "engine_call now ev m = Inr m'" for m'
    using that ok SubmitGuess_ok Tick_ok
    by (cases ev) (auto simp: MarkDisconnected_def MarkResumed_def mark_connection_def Forfeit_match_def
        split: if_splits intro!: duel_ok_update)
  with ok show "duel_ok (engine_step e m)" by (auto simp: engine_step_def e split: sum.split)
qed

interpretation duel_engine: invariant_machine engine_step duel_ok
  by unfold_locales (rule engine_step_ok)

lemma engine_run_ok: "duel_ok m \<Longrightarrow> duel_ok (engine_run es m)"
  unfolding engine_run_def by (rule duel_engine.run_inv)

text \<open>A match as it is created satisfies the invariant.\<close>

lemma new_players_fold:
  assumes "\<forall>i p. map_of ps i = Some p \<longrightarrow> dp_hp p = startingHP \<and> dp_totalScore p = 0" and "distinct (map fst ps)"
  shows "(\<forall>i p. map_of (fold (\<lambda>i ps. js_set ps i (new_player md pf ti i)) ids ps) i = Some p \<longrightarrow>
      dp_hp p = startingHP \<and> dp_totalScore p = 0) \<and> distinct (map fst (fold (\<lambda>i ps. js_set ps i (new_player md pf ti i)) ids ps))"
  using assms
proof (induction ids arbitrary: ps)
  case (Cons i ids)
  have "\<forall>j p. map_of (js_set ps i (new_player md pf ti i)) j = Some p \<longrightarrow> dp_hp p = startingHP \<and> dp_totalScore p = 0"
    using Cons.prems(1) by (simp add: new_player_def Let_def)
  from Cons.IH [OF this distinct_js_set [OF Cons.prems(2)]] show ?case by simp
qed simp

lemma new_players_ok: "players_ok md [] (new_players md pf ti ids) \<and> distinct (map fst (new_players md pf ti ids))"
  using new_players_fold [of "[]" md pf ti ids] by (auto simp: new_players_def players_ok_def total_score_def)

lemma buildTeams_ok: "md \<noteq> TeamDuel \<or> length (buildTeams md ids ps) = 2 \<Longrightarrow> teams_ok md (buildTeams md ids ps)"
  by (auto simp: buildTeams_def teams_ok_def Let_def split: if_splits)

lemma new_match_ok:
  assumes "md \<noteq> Singleplayer" and "players_ok md [] ps" and "distinct (map fst ps)" and "teams_ok md ts"
  shows "duel_ok (new_match now i md u cfg ps ts loc preview)"
  unfolding new_match_def startRoundTimer_ok using assms by (simp add: duel_ok_def)

lemma created_ok:
  assumes "CreateMatchWithOptions now i ids pf u cfg md ti loc ms = Inr ms'"
  shows "\<exists>m. map_of ms' i = Some m \<and> duel_ok m"
proof -
  define mode where "mode = (case md of None \<Rightarrow> Duel | Some x \<Rightarrow> x)"
  define ps where "ps = new_players mode pf ti ids"
  define ts where "ts = buildTeams mode ids ps"
  have created: "mode \<noteq> Singleplayer" "mode \<noteq> TeamDuel \<or> length ts = 2"
    "\<exists>l. ms' = js_set ms i (new_match now i mode u cfg ps ts l (ratingPreview now ids ps))"
    using assms unfolding CreateMatchWithOptions_def mode_def [symmetric] ps_def [symmetric] ts_def [symmetric] Let_def
    by (auto split: if_splits sum.splits)
  moreover have "duel_ok (new_match now i mode u cfg ps ts l (ratingPreview now ids ps))" for l
    using new_match_ok [OF created(1)] new_players_ok [of mode pf ti ids] buildTeams_ok [OF created(2) [unfolded ts_def]]
    by (simp add: ps_def ts_def)
  ultimately show ?thesis by auto
qed

section \<open>What a run keeps\<close>

text \<open>The match keeps its id, mode, players and teams.\<close>

definition same_match :: "duel_match \<Rightarrow> duel_match \<Rightarrow> bool" where
  "same_match m0 m \<longleftrightarrow>
     dm_id m = dm_id m0 \<and> dm_mode m = dm_mode m0 \<and> map fst (dm_players m) = map fst (dm_players m0) \<and>
     map fst (dm_teams m) = map fst (dm_teams m0)"

lemma share_hp_keys: "map fst (share_hp teams ps) = map fst ps"
  unfolding share_hp_def by (rule fold_keeps [where P = "\<lambda>x. map fst x = map fst ps"]) auto

lemma settle_same: "same_match m0 m \<Longrightarrow> same_match m0 (fst (settle r m))"
  by (cases "dm_mode m")
    (auto simp: same_match_def settle_def settleDuel_def settleFreeForAll_def resolveTeamDuelDamage_def Let_def
      share_hp_keys hit_team_def split: prod.splits)

lemma resolveRound_same:
  assumes "same_match m0 m"
  shows "same_match m0 (resolveRound now m)"
proof -
  let ?m = "m\<lparr>dm_players := each (\<lambda>i p. p\<lparr>dp_finalized := False\<rparr>) (dm_players m)\<rparr>"
  have "same_match m0 ?m" using assms by (simp add: same_match_def)
  then have "same_match m0 (fst (settle (round_of m) ?m))" by (rule settle_same)
  with assms show ?thesis
    by (auto simp: resolveRound_def Let_def same_match_def end_if_decided_def split: prod.splits)
qed

lemma tick_same:
  assumes "same_match m0 m"
  shows "same_match m0 (Tick_match loc now m)"
proof -
  have d: "same_match m0 x \<Longrightarrow> same_match m0 (drop_absent now x)" for x
    unfolding drop_absent_def by (rule fold_keeps) (auto simp: same_match_def update_player_def)
  have n: "same_match m0 x \<Longrightarrow> same_match m0 (nobody_left now x)" for x
    by (auto simp: nobody_left_def Let_def same_match_def)
  have a: "same_match m0 (advance_round loc now m)"
    using assms by (auto simp: advance_round_def startRoundTimer_def Let_def same_match_def split: option.splits)
  let ?m = "if \<not> dm_roundLiveAnnounced m \<and> dm_roundStartedAt m + roundIntro \<le> now
                 then m\<lparr>dm_roundLiveAnnounced := True, dm_eventSeq := dm_eventSeq m + 1\<rparr> else m"
  have "same_match m0 ?m" using assms by (simp add: same_match_def)
  then have "same_match m0 (if roundExpired now ?m then resolveRound now ?m else ?m)" by (simp add: resolveRound_same)
  from d [OF this] n [OF d [OF this]] a assms show ?thesis by (simp add: Tick_match_def Let_def)
qed

lemma same_match_fields [simp]:
  "same_match m0 (m\<lparr>dm_state := st\<rparr>) = same_match m0 m" "same_match m0 (m\<lparr>dm_eventSeq := n\<rparr>) = same_match m0 m"
  "same_match m0 (m\<lparr>dm_lastActivity := t\<rparr>) = same_match m0 m" "same_match m0 (m\<lparr>dm_guesses := gs\<rparr>) = same_match m0 m"
  "same_match m0 (m\<lparr>dm_pendingAdvance := b\<rparr>) = same_match m0 m"
  "same_match m0 (m\<lparr>dm_intermissionUntil := u\<rparr>) = same_match m0 m"
  "same_match m0 (update_player w f m) = same_match m0 m" "same_match m0 (apply_pressure now m) = same_match m0 m"
  by (simp_all add: same_match_def update_player_def apply_pressure_def Let_def)

lemma SubmitGuess_same: "same_match m0 m \<Longrightarrow> SubmitGuess now g m = Inr m' \<Longrightarrow> same_match m0 m'"
  by (auto simp: SubmitGuess_def Let_def split: if_splits intro!: resolveRound_same)

lemma engine_step_same: "same_match m0 m \<Longrightarrow> same_match m0 (engine_step e m)"
proof -
  assume ok: "same_match m0 m"
  obtain now ev where e: "e = (now, ev)" by (cases e)
  have "same_match m0 m'" if "engine_call now ev m = Inr m'" for m'
    using that ok SubmitGuess_same tick_same [OF ok]
    by (cases ev) (auto simp: MarkDisconnected_def MarkResumed_def mark_connection_def Forfeit_match_def split: if_splits)
  with ok show "same_match m0 (engine_step e m)" by (auto simp: engine_step_def e split: sum.split)
qed

interpretation engine_identity: invariant_machine engine_step "same_match m0" for m0
  by unfold_locales (rule engine_step_same)

lemma engine_run_same: "same_match m (engine_run es m)"
  unfolding engine_run_def by (rule engine_identity.run_inv) (simp add: same_match_def)

lemma created_mode:
  assumes "CreateMatchWithOptions now i ids pf u cfg md ti loc ms = Inr ms'"
  shows "map_option dm_mode (map_of ms' i) = Some (case md of None \<Rightarrow> Duel | Some x \<Rightarrow> x)"
proof -
  have "dm_mode (new_match now i x u cfg ps ts l preview) = x" for x ps ts l preview
    by (simp add: new_match_def startRoundTimer_def Let_def)
  with assms show ?thesis by (auto simp: CreateMatchWithOptions_def Let_def split: if_splits sum.splits)
qed

text \<open>
  C33. The hit points of a match are sound in every run: from its creation on, whatever is guessed, ticked, lost and
  forfeited, no player and no team has fewer than none or more than those of the start, every round counts
  every player, and the last round is the last of the rounds.
\<close>

theorem hit_points_bounded:
  fixes es
  assumes "CreateMatchWithOptions t0 i ids pf unr cfg md ti loc ms = Inr ms'" and "map_of ms' i = Some m0"
  defines "m \<equiv> engine_run es m0"
  shows "list_all (\<lambda>(j, p). dp_hp p \<in> {0..6000}) (dm_players m) \<and> list_all (\<lambda>(t, team). dt_hp team \<in> {0..6000}) (dm_teams m) \<and>
    list_all (\<lambda>r. map fst (rr_players r) = map fst (dm_players m0)) (dm_roundResults m) \<and>
    dm_lastRoundResult m = (if dm_roundResults m = [] then None else Some (last (dm_roundResults m)))"
proof -
  have ok: "duel_ok m" using created_ok [OF assms(1)] assms(2) engine_run_ok by (auto simp: m_def)
  have "distinct (map fst (dm_teams m))" using ok by (auto simp: duel_ok_def teams_ok_def split: if_splits)
  moreover have "teams_ok (dm_mode m) (dm_teams m)" using ok by (simp add: duel_ok_def)
  ultimately have t: "\<forall>(t, team) \<in> set (dm_teams m). hp_range (dt_hp team)" by (rule teams_set_range)
  have p: "\<forall>(j, p) \<in> set (dm_players m). hp_range (dp_hp p)" using ok by (auto simp: duel_ok_def players_ok_def)
  have k: "map fst (dm_players m) = map fst (dm_players m0)" using engine_run_same [of m0 es] by (simp add: same_match_def m_def)
  have "list_all (\<lambda>(j, p). dp_hp p \<in> {0..6000}) (dm_players m)" using p by (auto simp: list_all_iff hp_range_def startingHP_def)
  moreover have "list_all (\<lambda>(t, team). dt_hp team \<in> {0..6000}) (dm_teams m)"
    using t by (auto simp: list_all_iff hp_range_def startingHP_def)
  ultimately show ?thesis using ok k by (simp add: duel_ok_def)
qed

text \<open>A duel whose first round runs out and that one player then forfeits.\<close>

definition demo_profile :: "string \<Rightarrow> player_profile" where
  "demo_profile i =
     \<lparr>pf_displayName = i, pf_mmr = 700, pf_ratingRD = 100, pf_rankedGamesPlayed = 3, pf_avatarURL = [],
      pf_isGuest = False, pf_isAdmin = False, pf_selectedBadge = None\<rparr>"

definition demo_place :: location_point where
  "demo_place = \<lparr>lo_lat = 10, lo_lng = 20, lo_panoId = Some ''pano'', lo_heading = None, lo_pitch = None\<rparr>"

definition demo_match :: "game_mode \<Rightarrow> duel_match" where
  "demo_match md =
     (let ps = new_players md demo_profile (\<lambda>i. if i = ''u2'' then ''b'' else ''a'') [''u1'', ''u2''] in
      new_match 0 ''m1'' md False default_lobby_config ps (buildTeams md [''u1'', ''u2''] ps) demo_place
        (ratingPreview 0 [''u1'', ''u2''] ps))"

definition demo_events :: "(int \<times> engine_event) list" where
  "demo_events = [(go_seconds 600, TickRan None), (go_seconds 601, Forfeited ''u1'')]"

lemma demo_created:
  "CreateMatchWithOptions 0 ''m1'' [''u1'', ''u2''] demo_profile False default_lobby_config None
     (\<lambda>i. if i = ''u2'' then ''b'' else ''a'') (Inr demo_place) [] = Inr [(''m1'', demo_match Duel)]"
  by (simp add: CreateMatchWithOptions_def demo_match_def Let_def)

theorem hit_points_bounded_witness:
  "list_all (\<lambda>(j, p). dp_hp p \<in> {0..6000}) (dm_players (engine_run demo_events (demo_match Duel)))"
  using hit_points_bounded [OF demo_created, of "demo_match Duel" demo_events] by simp

lemma demo_match_fields:
  "dm_state (demo_match md) = MatchLive" "dm_pendingAdvance (demo_match md) = False" "dm_roundStartedAt (demo_match md) = 0"
  "dm_roundDeadline (demo_match md) = None" "dm_id (demo_match md) = ''m1''" "dm_mode (demo_match md) = md"
  "map fst (dm_players (demo_match md)) = [''u1'', ''u2'']"
  by (simp_all add: demo_match_def new_match_def startRoundTimer_def Let_def NormalizeMatchConfig_def default_lobby_config_def
      time_limits new_players_def)

lemma resolveRound_results: "dm_state m = MatchLive \<Longrightarrow> dm_roundResults (resolveRound now m) \<noteq> []"
  by (auto simp: resolveRound_def Let_def split: prod.splits)

lemma expired_tick_resolves:
  assumes "dm_state m = MatchLive" and "\<not> dm_pendingAdvance m" and "roundExpired now m"
  shows "dm_roundResults (Tick_match loc now m) \<noteq> []"
proof -
  let ?m = "if \<not> dm_roundLiveAnnounced m \<and> dm_roundStartedAt m + roundIntro \<le> now
                 then m\<lparr>dm_roundLiveAnnounced := True, dm_eventSeq := dm_eventSeq m + 1\<rparr> else m"
  have "roundExpired now ?m" "dm_state ?m = MatchLive" using assms by (auto simp: roundExpired_def split: option.splits)
  then have "dm_roundResults (if roundExpired now ?m then resolveRound now ?m else ?m) \<noteq> []"
    using resolveRound_results by simp
  moreover have "dm_roundResults (drop_absent now x) \<noteq> []" if "dm_roundResults x \<noteq> []" for x
    unfolding drop_absent_def by (rule fold_keeps [where P = "\<lambda>m. dm_roundResults m \<noteq> []"]) (use that in \<open>auto simp: update_player_def split: if_splits\<close>)
  moreover have "dm_roundResults (nobody_left now x) = dm_roundResults x" for x by (simp add: nobody_left_def Let_def)
  ultimately show ?thesis using assms(1,2) by (simp add: Tick_match_def Let_def)
qed

lemma demo_over:
  assumes "md \<noteq> Singleplayer"
  defines "m \<equiv> engine_run demo_events (demo_match md)"
  shows "dm_roundResults m \<noteq> [] \<and> dm_state m = MatchEnded \<and> dm_id m = ''m1'' \<and> dm_mode m = md \<and>
    map fst (dm_players m) = [''u1'', ''u2'']"
proof -
  let ?t = "Tick_match None (go_seconds 600) (demo_match md)"
  have m: "m = engine_step (go_seconds 601, Forfeited ''u1'') ?t"
    by (simp add: m_def engine_run_def demo_events_def engine_step_def)
  have "roundExpired (go_seconds 600) (demo_match md)"
    by (simp add: roundExpired_def demo_match_fields roundIntro_def roundIdleCap_def go_seconds_def)
  then have r: "dm_roundResults ?t \<noteq> []" by (intro expired_tick_resolves) (simp_all add: demo_match_fields)
  have same: "same_match (demo_match md) ?t" by (rule tick_same) (simp add: same_match_def)
  then have "map fst (dm_players ?t) = [''u1'', ''u2'']" by (simp add: same_match_def demo_match_fields)
  then have "map_of (dm_players ?t) ''u1'' \<noteq> None"
    by (metis list.set_intros(1) list.set_map map_of_eq_None_iff)
  then show ?thesis
    using r same by (cases "dm_state ?t") (auto simp: m engine_step_def Forfeit_match_def same_match_def demo_match_fields update_player_def)
qed

section \<open>A round resolved twice\<close>

lemma settle_scores:
  assumes "settle r m = (m', r')" and "map fst (rr_players r) = map fst (dm_players m)" and "distinct (map fst (dm_players m))"
  shows "round_score i r' = round_score i r"
proof (cases "dm_mode m")
  case Duel
  let ?ids = "map fst (dm_players m)"
  let ?hp = "map (\<lambda>(i, p). (i, dp_hp p)) (dm_players m)"
  obtain hp rs where d: "resolveDuelDamage (rr_roundNumber r) ?ids (?hp, rr_players r) = (hp, rs)" by (metis surj_pair)
  have r': "rr_players r' = rs" using assms(1) Duel d by (auto simp: settle_def settleDuel_def)
  show ?thesis
  proof (cases "length ?ids = 2")
    case False
    with d r' show ?thesis by (simp add: duel_damage_other round_score_def)
  next
    case True
    then obtain x y where xy: "?ids = [x, y]" by (auto simp: length_Suc_conv numeral_2_eq_2)
    then have keys: "fst ` set (rr_players r) = {x, y}" and ne: "x \<noteq> y"
      using assms(2,3) by (metis list.set(1,2) list.set_map, metis distinct_length_2_or_more)
    then obtain a b where ab: "map_of (rr_players r) x = Some a" "map_of (rr_players r) y = Some b"
      by (metis insertI1 insertI2 map_of_eq_None_iff option.exhaust)
    obtain a' b' where "map_of rs x = Some a'" "map_of rs y = Some b'" "rp_score a' = rp_score a" "rp_score b' = rp_score b"
      using duel_resolved [OF ab ne, of "rr_roundNumber r" ?hp] d unfolding xy by auto
    moreover have "map fst rs = ?ids" by (rule duel_damage_results [OF d assms(2)])
    then have "fst ` set rs = {x, y}" using xy by (metis list.set(1,2) list.set_map)
    then have "map_of rs i = None \<and> map_of (rr_players r) i = None" if "i \<notin> {x, y}" using that keys by (simp add: map_of_eq_None_iff)
    ultimately show ?thesis using ab by (cases "i \<in> {x, y}") (auto simp: round_score_def r')
  qed
next
  case TeamDuel
  have "rr_players (snd (resolveTeamDuelDamage r m)) = rr_players r"
    by (simp add: resolveTeamDuelDamage_def Let_def split: prod.split)
  with TeamDuel assms(1) show ?thesis by (auto simp: settle_def round_score_def)
next
  case FreeForAll
  with assms(1) show ?thesis by (auto simp: settle_def settleFreeForAll_def round_score_def split: option.split)
qed (use assms(1) in \<open>simp add: settle_def\<close>)

text \<open>What resolving a live match appends.\<close>

lemma resolveRound_appends:
  assumes "dm_state m = MatchLive" and "distinct (map fst (dm_players m))"
  shows "\<exists>r. dm_roundResults (resolveRound now m) = dm_roundResults m @ [r] \<and> dm_lastRoundResult (resolveRound now m) = Some r \<and>
    rr_roundId r = dm_roundID m \<and> (\<forall>i. round_score i r = round_score i (round_of m))"
proof -
  let ?m = "m\<lparr>dm_players := each (\<lambda>i p. p\<lparr>dp_finalized := False\<rparr>) (dm_players m)\<rparr>"
  obtain m' r where st: "settle (round_of m) ?m = (m', r)" by (metis surj_pair)
  have "rr_roundId r = dm_roundID m" using settle_fields [OF st] by (simp add: round_of_def)
  moreover have "round_score i r = round_score i (round_of m)" for i
    using settle_scores [OF st, of i] assms(2) by (simp add: round_of_keys)
  ultimately show ?thesis
    using assms(1) settle_fields [OF st] by (intro exI [of _ r]) (simp add: resolveRound_def Let_def st end_if_decided_fields)
qed

lemma settle_clock:
  assumes "settle r m = (m', r')"
  shows "dm_roundID m' = dm_roundID m \<and> dm_roundDeadline m' = dm_roundDeadline m \<and> dm_roundStartedAt m' = dm_roundStartedAt m"
  using assms
  by (cases "dm_mode m")
    (auto simp: settle_def settleDuel_def settleFreeForAll_def resolveTeamDuelDamage_def Let_def split: prod.splits if_splits)

lemma end_if_decided_clock:
  "dm_roundID (end_if_decided r m) = dm_roundID m" "dm_roundDeadline (end_if_decided r m) = dm_roundDeadline m"
  "dm_roundStartedAt (end_if_decided r m) = dm_roundStartedAt m"
  by (simp_all add: end_if_decided_def Let_def)

lemma resolveRound_pending:
  assumes "dm_state m = MatchLive" and "dm_state (resolveRound now m) = MatchLive"
  shows "dm_pendingAdvance (resolveRound now m) \<and> dm_intermissionUntil (resolveRound now m) = Some (now + resultDuration) \<and>
    dm_guesses (resolveRound now m) = [] \<and> dm_roundID (resolveRound now m) = dm_roundID m \<and>
    dm_roundDeadline (resolveRound now m) = dm_roundDeadline m \<and> dm_roundStartedAt (resolveRound now m) = dm_roundStartedAt m"
proof -
  let ?m = "m\<lparr>dm_players := each (\<lambda>i p. p\<lparr>dp_finalized := False\<rparr>) (dm_players m)\<rparr>"
  obtain m' r where st: "settle (round_of m) ?m = (m', r)" by (metis surj_pair)
  have "dm_state (end_if_decided r m') \<noteq> MatchEnded"
    using assms by (auto simp: resolveRound_def Let_def st split: if_splits)
  then show ?thesis
    using assms(1) settle_clock [OF st] by (simp add: resolveRound_def Let_def st end_if_decided_clock)
qed

text \<open>Nobody's guess: what every player of a round without guesses gets.\<close>

lemma no_guess_score:
  assumes "dm_guesses m = []" and "map_of (dm_players m) i \<noteq> None"
  shows "round_score i (round_of m) = RoundScore maxDistanceKm"
proof -
  have "map_of (rr_players (round_of m)) i = map_option (player_result m i) (map_of (dm_players m) i)"
    by (simp add: round_of_def)
  with assms show ?thesis by (auto simp: round_score_def player_result_def Let_def)
qed

text \<open>
  C40. A round can be counted twice: when the intermission after a round is over, the clock of the engine has not
  yet moved on and the deadline of the round has passed, a guess that a player of the match sends for that
  round resolves it again; the second result, now the last one, counts nobody's guess, and the intermission
  starts over.
\<close>

theorem round_counted_twice:
  assumes "duel_ok m0" and "dm_state m0 = MatchLive" and "dm_state (resolveRound t m0) = MatchLive"
    and "roundExpired now m0" and "t + resultDuration \<le> now"
    and "gl_roundID g = dm_roundID m0" and "map_of (dm_players m0) (gl_userID g) \<noteq> None"
  shows "\<exists>m r1 r2. SubmitGuess now g (resolveRound t m0) = Inr m \<and>
    dm_roundResults m = dm_roundResults m0 @ [r1, r2] \<and> dm_lastRoundResult m = Some r2 \<and>
    rr_roundId r1 = dm_roundID m0 \<and> rr_roundId r2 = dm_roundID m0 \<and>
    round_score (gl_userID g) r1 = round_score (gl_userID g) (round_of m0) \<and>
    round_score (gl_userID g) r2 = RoundScore maxDistanceKm"
proof -
  let ?m = "resolveRound t m0"
  have ok: "duel_ok ?m" by (rule resolveRound_ok [OF assms(1)])
  have d: "distinct (map fst (dm_players m0))" "distinct (map fst (dm_players ?m))" using assms(1) ok by (simp_all add: duel_ok_def)
  note p = resolveRound_pending [OF assms(2,3)]
  have "same_match m0 ?m" by (rule resolveRound_same) (simp add: same_match_def)
  then have u: "map_of (dm_players ?m) (gl_userID g) \<noteq> None"
    using assms(7) by (metis list.set_map map_of_eq_None_iff same_match_def)
  have e: "roundExpired now ?m" using assms(4) p by (auto simp: roundExpired_def split: option.splits)
  have "\<not> time_before now (dm_intermissionUntil ?m)" using p assms(5) by (simp add: time_before_def)
  then have s: "SubmitGuess now g ?m = Inr (resolveRound now ?m)"
    using assms(3,6) p u e by (simp add: SubmitGuess_def)
  obtain r1 where r1: "dm_roundResults ?m = dm_roundResults m0 @ [r1]" "rr_roundId r1 = dm_roundID m0"
    "\<forall>i. round_score i r1 = round_score i (round_of m0)" using resolveRound_appends [OF assms(2) d(1)] by blast
  obtain r2 where r2: "dm_roundResults (resolveRound now ?m) = dm_roundResults ?m @ [r2]"
    "dm_lastRoundResult (resolveRound now ?m) = Some r2" "rr_roundId r2 = dm_roundID ?m"
    "\<forall>i. round_score i r2 = round_score i (round_of ?m)" using resolveRound_appends [OF assms(3) d(2)] by blast
  have "round_score (gl_userID g) (round_of ?m) = RoundScore maxDistanceKm" using p u by (intro no_guess_score) auto
  then show ?thesis using s r1 r2 p by (intro exI [of _ "resolveRound now ?m"] exI [of _ r1] exI [of _ r2]) simp
qed

definition late_guess :: engine_guess where
  "late_guess = \<lparr>gl_userID = ''u1'', gl_roundID = ''m1:r1'', gl_lat = 10, gl_lng = 20, gl_finalize = True\<rparr>"

lemma demo_roundID: "duel_roundID ''m1'' 1 = ''m1:r1''"
  by code_simp

lemma demo_players:
  "dm_players (demo_match Duel) = [(''u1'', new_player Duel demo_profile (\<lambda>i. if i = ''u2'' then ''b'' else ''a'') ''u1''),
     (''u2'', new_player Duel demo_profile (\<lambda>i. if i = ''u2'' then ''b'' else ''a'') ''u2'')]"
  "dm_guesses (demo_match Duel) = []" "dm_currentIndex (demo_match Duel) = 0" "dm_roundID (demo_match Duel) = ''m1:r1''"
  by (simp_all add: demo_match_def new_match_def startRoundTimer_def Let_def NormalizeMatchConfig_def default_lobby_config_def
      time_limits new_players_def demo_roundID)

lemma demo_tie: "dm_state (resolveRound t (demo_match Duel)) = MatchLive"
  by (simp add: resolveRound_def demo_match_fields settle_def settleDuel_def round_of_def player_result_def demo_players
      resolveDuelDamage_def result_at_def each_def new_player_def Let_def end_if_decided_def hp_at_def or_zero_def startingHP_def
      maxRounds_def)

theorem round_counted_twice_witness:
  "\<exists>m r1 r2. SubmitGuess (go_seconds 520) late_guess (resolveRound (go_seconds 500) (demo_match Duel)) = Inr m \<and>
    dm_roundResults m = dm_roundResults (demo_match Duel) @ [r1, r2] \<and> rr_roundId r1 = rr_roundId r2"
proof -
  have ok: "duel_ok (demo_match Duel)" using created_ok [OF demo_created] by simp
  have "roundExpired (go_seconds 520) (demo_match Duel)" "go_seconds 500 + resultDuration \<le> go_seconds 520"
    by (simp_all add: roundExpired_def demo_match_fields roundIntro_def roundIdleCap_def go_seconds_def resultDuration_def)
  then show ?thesis
    using round_counted_twice [OF ok demo_match_fields(1) demo_tie, of "go_seconds 520" "go_seconds 500" late_guess]
    by (auto simp: late_guess_def demo_players)
qed

end
