(* ===== verification/DuelClient.thy ===== *)
theory DuelClient
  imports DuelRuns
begin

text \<open>
  The server and the client together: what the pages say of a match that the duel engine runs. The snapshot
  the page shows is the one the engine sends to the player.
\<close>

section \<open>Snapshots of the engine\<close>

lemma client_snapshot_fields:
  "sn_mode (client_snapshot now u m) = Some (dm_mode m)"
  "sn_matchId (client_snapshot now u m) = dm_id m"
  "sn_state (client_snapshot now u m) = state_text (dm_state m)"
  "sn_lastRoundResult (client_snapshot now u m) = dm_lastRoundResult m"
  "sn_roundResults (client_snapshot now u m) = (if dm_roundResults m = [] then None else Some (dm_roundResults m))"
  "sn_teams (client_snapshot now u m) =
     (if dm_teams m = [] then None else Some (map (\<lambda>(t, team). (t, client_team t team)) (dm_teams m)))"
  by (simp_all add: client_snapshot_def split: prod.splits)

lemma client_players_of:
  "map_of (sn_players (client_snapshot now u m)) i = map_option client_player (map_of (dm_players m) i)"
  "map fst (sn_players (client_snapshot now u m)) = map fst (dm_players m)"
proof -
  show "map_of (sn_players (client_snapshot now u m)) i = map_option client_player (map_of (dm_players m) i)"
    by (simp add: client_snapshot_def map_of_map split: prod.splits)
  show "map fst (sn_players (client_snapshot now u m)) = map fst (dm_players m)"
    by (simp add: client_snapshot_def comp_def case_prod_unfold split: prod.splits)
qed

lemma nonzero_or_zero [simp]: "or_zero (nonzero n) = n"
  by (simp add: nonzero_def or_zero_def)

text \<open>The rounds the page of an engine match shows are the rounds of the match.\<close>

lemma engine_rounds:
  assumes "home_snapshot p = Some (client_snapshot now u m)" and "dm_roundResults m \<noteq> []"
  shows "home_roundResults p = dm_roundResults m"
proof -
  obtain r rs where "dm_roundResults m = r # rs" using assms(2) by (cases "dm_roundResults m") auto
  then show ?thesis using assms(1) by (simp add: home_roundResults_def client_snapshot_fields)
qed

lemma engine_mode: "home_snapshot p = Some (client_snapshot now u m) \<Longrightarrow> home_mode p = dm_mode m"
  by (simp add: home_mode_def client_snapshot_fields)

section \<open>The totals of the breakdown\<close>

lemma no_points_outside:
  assumes "duel_ok m" and "map_of (dm_players m) i = None"
  shows "total_score i (dm_roundResults m) = 0"
proof -
  have "round_score i r = 0" if "r \<in> set (dm_roundResults m)" for r
  proof -
    have "map fst (rr_players r) = map fst (dm_players m)" using assms(1) that by (auto simp: duel_ok_def list_all_iff)
    then have "fst ` set (rr_players r) = fst ` set (dm_players m)" by (metis list.set_map)
    with assms(2) have "map_of (rr_players r) i = None" by (simp add: map_of_eq_None_iff)
    then show ?thesis by (simp add: round_score_def)
  qed
  then show ?thesis by (simp add: total_score_def cong: map_cong)
qed

lemma oppTotalScore_total: "oppTotalScore v = total_score (opponentPlayerId v) (emv_roundResults v)"
  by (simp add: oppTotalScore_def total_score_def round_score_def)

text \<open>
  C38. The totals of the end page: in a free-for-all the total shown is the sum of the player's rounds in the
  table; in a duel and a team duel the server never adds up the points, so the total shown under the
  player's own column is 0, while the opponent's is the sum of the opponent's rounds.
\<close>

theorem breakdown_totals:
  assumes "CreateMatchWithOptions t0 i ids pf unr cfg md ti loc ms = Inr ms'" and "map_of ms' i = Some m0"
    and "home_snapshot p = Some (client_snapshot now u (engine_run es m0))"
    and "dm_roundResults (engine_run es m0) \<noteq> []" and "endMatch p = Some v"
  shows "emv_totalScore v = (if emv_mode v = FreeForAll then total_score (home_selfId p) (emv_roundResults v) else 0) \<and>
    oppTotalScore v = total_score (opponentPlayerId v) (emv_roundResults v)"
proof -
  let ?m = "engine_run es m0"
  have ok: "duel_ok ?m" using created_ok [OF assms(1)] assms(2) engine_run_ok by auto
  have v: "emv_totalScore v = home_totalScore p" "emv_mode v = home_mode p" "emv_roundResults v = home_roundResults p"
    using assms(5) by (auto simp: endMatch_def split: if_splits)
  note sh = engine_rounds [OF assms(3,4)] engine_mode [OF assms(3)]
  have sp: "home_selfPlayer p = map_option client_player (map_of (dm_players ?m) (home_selfId p))"
    using assms(3) by (simp add: home_selfPlayer_def home_players_def client_players_of)
  have "home_totalScore p = (if dm_mode ?m = FreeForAll then total_score (home_selfId p) (dm_roundResults ?m) else 0)"
  proof (cases "map_of (dm_players ?m) (home_selfId p)")
    case None
    with no_points_outside [OF ok None] sp show ?thesis by (simp add: home_totalScore_def or_zero_def)
  next
    case (Some pl)
    with ok have "dp_totalScore pl = (if dm_mode ?m = FreeForAll then total_score (home_selfId p) (dm_roundResults ?m) else 0)"
      by (auto simp: duel_ok_def players_ok_def)
    with Some sp show ?thesis by (simp add: home_totalScore_def client_player_def)
  qed
  with v sh oppTotalScore_total [of v] show ?thesis by simp
qed

definition demo_page :: "game_mode \<Rightarrow> home_params" where
  "demo_page md =
     sample_page\<lparr>hp_match := initial_match_state\<lparr>m_snapshot := Some (client_snapshot (go_seconds 700) ''u1''
         (engine_run demo_events (demo_match md)))\<rparr>,
       hp_game := initial_game_state\<lparr>g_showMatchEndPage := True\<rparr>\<rparr>"

lemma demo_page_shows:
  assumes "md \<noteq> Singleplayer"
  shows "home_snapshot (demo_page md) = Some (client_snapshot (go_seconds 700) ''u1'' (engine_run demo_events (demo_match md)))"
    and "\<exists>v. endMatch (demo_page md) = Some v"
proof -
  let ?sn = "client_snapshot (go_seconds 700) ''u1'' (engine_run demo_events (demo_match md))"
  have f: "sn_matchId ?sn = ''m1''" "sn_state ?sn = ''ended''"
    using demo_over [OF assms] by (simp_all add: client_snapshot_fields state_text_def)
  show s: "home_snapshot (demo_page md) = Some ?sn"
    by (simp add: home_snapshot_Some f) (simp add: demo_page_def sample_page_def)
  have "home_uiPhase (demo_page md) = UIMatchEnd" by (simp add: home_uiPhase_def s deriveUIPhase_ended f(2))
  then show "\<exists>v. endMatch (demo_page md) = Some v" by (simp add: endMatch_def) (simp add: demo_page_def)
qed

theorem breakdown_totals_witness:
  "\<exists>v. endMatch (demo_page Duel) = Some v \<and> emv_totalScore v = 0 \<and>
    oppTotalScore v = total_score (opponentPlayerId v) (emv_roundResults v)"
proof -
  obtain v where v: "endMatch (demo_page Duel) = Some v" using demo_page_shows(2) [of Duel] by auto
  have "home_mode (demo_page Duel) = Duel"
    using engine_mode [OF demo_page_shows(1) [of Duel]] demo_over [of Duel] by simp
  then have "emv_mode v = Duel" using v by (auto simp: endMatch_def split: if_splits)
  with breakdown_totals [OF demo_created _ demo_page_shows(1) _ v] demo_over [of Duel] v show ?thesis by simp
qed

section \<open>Forfeiting a team duel\<close>

lemma engine_teams:
  assumes "home_snapshot p = Some (client_snapshot now u m)" and "dm_mode m = TeamDuel" and "map fst (dm_teams m) = [''a'', ''b'']"
  shows "map_of (snapshot_teams p) t = map_option (client_team t) (map_of (dm_teams m) t)"
    "map fst (snapshot_teams p) = [''a'', ''b'']"
proof -
  have "dm_teams m \<noteq> []" using assms(3) by auto
  with assms(1) have "snapshot_teams p = map (\<lambda>(t, team). (t, client_team t team)) (dm_teams m)"
    by (simp add: snapshot_teams_def client_snapshot_fields)
  moreover have "map_of (map (\<lambda>(t, team). (t, client_team t team)) ts) t = map_option (client_team t) (map_of ts t)" for ts
    by (induction ts) auto
  ultimately show "map_of (snapshot_teams p) t = map_option (client_team t) (map_of (dm_teams m) t)"
    "map fst (snapshot_teams p) = [''a'', ''b'']" using assms(3) by (simp_all add: comp_def case_prod_unfold)
qed

text \<open>The two teams as a page of an engine match sees them, while both have hit points.\<close>

lemma engine_team_hp:
  assumes "home_snapshot p = Some (client_snapshot now u m)" and "dm_mode m = TeamDuel" and "map fst (dm_teams m) = [''a'', ''b'']"
    and "0 < team_hp (dm_teams m) ''a''" and "0 < team_hp (dm_teams m) ''b''" and "home_selfTeamId p \<in> {''a'', ''b''}"
  shows "selfTeamHP p = Some (team_hp (dm_teams m) (home_selfTeamId p))" "oppTeamHP p = Some (team_hp (dm_teams m) (oppTeamId p))"
    "oppTeamId p = (if home_selfTeamId p = ''a'' then ''b'' else ''a'')"
proof -
  note t = engine_teams [OF assms(1-3)]
  have md: "home_mode p = TeamDuel" using engine_mode [OF assms(1)] assms(2) by simp
  show o: "oppTeamId p = (if home_selfTeamId p = ''a'' then ''b'' else ''a'')"
    using assms(6) by (auto simp: oppTeamId_def md t(2) find_str_def)
  have "Option.bind (map_of (snapshot_teams p) s) st_hp = Some (team_hp (dm_teams m) s)" if "s \<in> {''a'', ''b''}" for s
    using that assms(4,5) by (auto simp: t(1) team_hp_def client_team_def nonzero_def split: option.splits)
  with assms(6) o show "selfTeamHP p = Some (team_hp (dm_teams m) (home_selfTeamId p))"
    "oppTeamHP p = Some (team_hp (dm_teams m) (oppTeamId p))" by (auto simp: selfTeamHP_def oppTeamHP_def md)
qed

text \<open>
  C39. What a forfeited team duel is shown as: the server takes the hit points of the player who forfeits
  and ends the match, but the pages compare the hit points of the teams, which stay what they were. So
  the end page of the one who forfeits shows a draw when the teams are level, a win when their own team is
  ahead, and a loss only when it is behind: the outcome is the one the hit points had, not the forfeit's.
\<close>

theorem team_forfeit_outcome:
  assumes "CreateMatchWithOptions t0 i ids pf unr cfg (Some TeamDuel) ti loc ms = Inr ms'" and "map_of ms' i = Some m0"
    and "dm_state (engine_run es m0) = MatchLive" and "Forfeit_match t1 (home_selfId p) (engine_run es m0) = Inr m"
    and "0 < team_hp (dm_teams (engine_run es m0)) ''a''" and "0 < team_hp (dm_teams (engine_run es m0)) ''b''"
    and "home_snapshot p = Some (client_snapshot now (home_selfId p) m)" and "home_selfTeamId p \<in> {''a'', ''b''}"
    and "endMatch p = Some v"
  defines "own \<equiv> team_hp (dm_teams (engine_run es m0)) (home_selfTeamId p)"
    and "other \<equiv> team_hp (dm_teams (engine_run es m0)) (if home_selfTeamId p = ''a'' then ''b'' else ''a'')"
  shows "dm_state m = MatchEnded \<and> map_option dp_hp (map_of (dm_players m) (home_selfId p)) = Some 0 \<and>
    emv_outcome v = Some (if own = other then OutcomeDraw else if other < own then OutcomeWin else OutcomeLose)"
proof -
  let ?m = "engine_run es m0"
  have ok: "duel_ok ?m" using created_ok [OF assms(1)] assms(2) engine_run_ok by auto
  have m: "dm_state m = MatchEnded" "dm_teams m = dm_teams ?m" "dm_mode m = dm_mode ?m"
    "map_option dp_hp (map_of (dm_players m) (home_selfId p)) = Some 0"
    using assms(3,4) by (auto simp: Forfeit_match_def update_player_def split: if_splits)
  have md: "dm_mode m = TeamDuel" using created_mode [OF assms(1)] assms(2) engine_run_same [of m0 es] m(3) by (simp add: same_match_def)
  then have k: "map fst (dm_teams m) = [''a'', ''b'']" using ok m(2,3) by (simp add: duel_ok_def teams_ok_def)
  note hp = engine_team_hp [OF assms(7) md k assms(5,6) [folded m(2)] assms(8)]
  have h: "home_mode p = TeamDuel" using engine_mode [OF assms(7)] md by simp
  have r: "\<not> showResultStage p" "emv_outcome v = Some (matchOutcome p)"
    using assms(9) h by (auto simp: endMatch_def showResultStage_def unless_points_def isPointsMode_def split: if_splits)
  then have "home_selfHP p = own" "home_oppHP p = other"
    using hp by (simp_all add: home_selfHP_def home_oppHP_def live_hp_def own_def other_def m(2) nullish_def or_zero_def)
  with r m show ?thesis by (simp add: matchOutcome_def)
qed

lemma demo_teams:
  "dm_teams (demo_match TeamDuel) =
     [(''a'', \<lparr>dt_name = ''Team Red'', dt_hp = 6000, dt_players = [''u1'']\<rparr>),
      (''b'', \<lparr>dt_name = ''Team Blue'', dt_hp = 6000, dt_players = [''u2'']\<rparr>)]"
  by (simp add: demo_match_def new_match_def startRoundTimer_def Let_def NormalizeMatchConfig_def default_lobby_config_def
      time_limits buildTeams_def new_players_def new_player_def normalizeTeamID_def startingHP_def)

lemma demo_team_created:
  "CreateMatchWithOptions 0 ''m1'' [''u1'', ''u2''] demo_profile False default_lobby_config (Some TeamDuel)
     (\<lambda>i. if i = ''u2'' then ''b'' else ''a'') (Inr demo_place) [] = Inr [(''m1'', demo_match TeamDuel)]"
proof -
  let ?ps = "new_players TeamDuel demo_profile (\<lambda>i. if i = ''u2'' then ''b'' else ''a'') [''u1'', ''u2'']"
  have "dm_teams (demo_match TeamDuel) = buildTeams TeamDuel [''u1'', ''u2''] ?ps"
    by (simp add: demo_match_def new_match_def startRoundTimer_def Let_def)
  then have "length (buildTeams TeamDuel [''u1'', ''u2''] ?ps) = 2" by (metis demo_teams length_Cons list.size(3) numeral_2_eq_2)
  then show ?thesis by (simp add: CreateMatchWithOptions_def demo_match_def Let_def)
qed

definition forfeited_team_duel :: duel_match where
  "forfeited_team_duel =
     (update_player ''u1'' (\<lambda>p. p\<lparr>dp_hp := 0, dp_finalized := False, dp_disconnected := False, dp_disconnectDue := 0\<rparr>)
        (demo_match TeamDuel))
       \<lparr>dm_pendingAdvance := False, dm_intermissionUntil := None, dm_state := MatchEnded, dm_lastActivity := go_seconds 5,
        dm_eventSeq := dm_eventSeq (demo_match TeamDuel) + 1\<rparr>"

definition forfeit_page :: home_params where
  "forfeit_page =
     sample_page\<lparr>hp_match := initial_match_state\<lparr>m_snapshot := Some (client_snapshot (go_seconds 5) ''u1'' forfeited_team_duel)\<rparr>,
       hp_game := initial_game_state\<lparr>g_showMatchEndPage := True\<rparr>\<rparr>"

theorem team_forfeit_outcome_witness:
  "\<exists>v. endMatch forfeit_page = Some v \<and> emv_outcome v = Some OutcomeDraw"
proof -
  let ?sn = "client_snapshot (go_seconds 5) ''u1'' forfeited_team_duel"
  have keys: "map fst (dm_players (demo_match TeamDuel)) = [''u1'', ''u2'']" by (rule demo_match_fields)
  then obtain pl where pl: "map_of (dm_players (demo_match TeamDuel)) ''u1'' = Some pl"
    by (metis (no_types) list.set_intros(1) list.set_map map_of_eq_None_iff option.exhaust)
  have f: "Forfeit_match (go_seconds 5) ''u1'' (demo_match TeamDuel) = Inr forfeited_team_duel"
    by (simp add: Forfeit_match_def pl demo_match_fields forfeited_team_duel_def)
  have s: "home_snapshot forfeit_page = Some ?sn"
    by (simp add: home_snapshot_Some client_snapshot_fields forfeited_team_duel_def update_player_def demo_match_fields)
       (simp add: forfeit_page_def sample_page_def forfeited_team_duel_def update_player_def)
  have i: "home_selfId forfeit_page = ''u1''" by (simp add: home_selfId_def forfeit_page_def)
  have "sn_state ?sn = ''ended''" by (simp add: client_snapshot_fields forfeited_team_duel_def state_text_def)
  then have "home_uiPhase forfeit_page = UIMatchEnd" by (simp add: home_uiPhase_def s deriveUIPhase_ended)
  then obtain v where v: "endMatch forfeit_page = Some v" by (simp add: endMatch_def) (simp add: forfeit_page_def)
  have "map_of (dm_players (demo_match TeamDuel)) ''u1'' =
      Some (new_player TeamDuel demo_profile (\<lambda>i. if i = ''u2'' then ''b'' else ''a'') ''u1'')"
    by (simp add: demo_match_def new_match_def startRoundTimer_def Let_def NormalizeMatchConfig_def default_lobby_config_def
        time_limits new_players_def)
  then have "dp_teamId pl = ''a''" using pl by (simp add: new_player_def Let_def normalizeTeamID_def)
  then have t: "home_selfTeamId forfeit_page = ''a''"
    using pl by (simp add: home_selfTeamId_def player_team_def i home_players_def s client_players_of forfeited_team_duel_def
        update_player_def client_player_def if_text_def or_str_def)
  have e: "engine_run [] (demo_match TeamDuel) = demo_match TeamDuel" by (simp add: engine_run_def)
  have hp: "team_hp (dm_teams (demo_match TeamDuel)) ''a'' = 6000" "team_hp (dm_teams (demo_match TeamDuel)) ''b'' = 6000"
    by (simp_all add: team_hp_def demo_teams)
  show ?thesis
    using team_forfeit_outcome [OF demo_team_created, of "demo_match TeamDuel" "[]" "go_seconds 5" forfeit_page forfeited_team_duel
        "go_seconds 5" v] f s v t
    by (simp add: e demo_match_fields i hp)
qed

section \<open>The damage of a team duel\<close>

text \<open>What the representatives of the teams score in a round, and what the loser's team loses.\<close>

definition team_score :: "round_result \<Rightarrow> duel_match \<Rightarrow> string \<Rightarrow> int" where
  "team_score r m t = rt_score (team_result_at (each (team_best (rr_players r)) (dm_teams m)) t)"

definition team_damage :: "round_result \<Rightarrow> duel_match \<Rightarrow> int" where
  "team_damage r m = getAppliedDamage \<bar>team_score r m ''a'' - team_score r m ''b''\<bar> (roundDamageMultiplier (rr_roundNumber r))"

definition hit_points_after :: "round_result \<Rightarrow> duel_match \<Rightarrow> string \<Rightarrow> int" where
  "hit_points_after r m t =
     (let lost = (if team_score r m t < team_score r m (if t = ''a'' then ''b'' else ''a'') then team_damage r m else 0)
      in max 0 (team_hp (dm_teams m) t - lost))"

lemma two_teams:
  assumes "map fst ts = [''a'', ''b'']"
  shows "\<exists>x y. ts = [(''a'', x), (''b'', y)]"
  using assms by (cases ts; cases "tl ts") auto

lemma team_round:
  fixes r
  assumes "map fst (dm_teams m) = [''a'', ''b'']" and "t \<in> {''a'', ''b''}"
  defines "out \<equiv> resolveTeamDuelDamage r m"
  shows "team_hp (dm_teams (fst out)) t = hit_points_after r m t \<and>
    map_option rt_score (Option.bind (rr_teams (snd out)) (\<lambda>ts. map_of ts t)) = Some (team_score r m t) \<and>
    map fst (dm_teams (fst out)) = [''a'', ''b''] \<and> rr_roundNumber (snd out) = rr_roundNumber r"
proof -
  obtain x y where ts: "dm_teams m = [(''a'', x), (''b'', y)]" using two_teams [OF assms(1)] by blast
  let ?x = "team_best (rr_players r) ''a'' x" and ?y = "team_best (rr_players r) ''b'' y"
  define d where "d = go_round (of_int \<bar>rt_score ?x - rt_score ?y\<bar> * roundDamageMultiplier (rr_roundNumber r))"
  have sc: "team_score r m ''a'' = rt_score ?x" "team_score r m ''b'' = rt_score ?y"
    by (simp_all add: team_score_def ts each_def team_result_at_def)
  then have td: "team_damage r m = d" unfolding team_damage_def d_def by (simp only: sc applied_is_dealt abs_ge_zero)
  have b: "map (\<lambda>(t, team). (t, team_best (rr_players r) t team)) (dm_teams m) = [(''a'', ?x), (''b'', ?y)]"
    by (simp add: ts)
  have at: "team_result_at [(''a'', ?x), (''b'', ?y)] ''a'' = ?x" "team_result_at [(''a'', ?x), (''b'', ?y)] ''b'' = ?y"
    by (simp_all add: team_result_at_def)
  have l: "length (dm_teams m) = 2" by (simp add: ts)
  have after: "team_hp (dm_teams (fst out)) t = hit_points_after r m t"
    using assms(2) unfolding out_def resolveTeam_fields(1) [OF l] teams_after_def Let_def b at d_def [symmetric]
    by (auto simp: hit_points_after_def Let_def sc td ts team_hp_def hit_team_def each_def)
  have keys: "map fst (dm_teams (fst out)) = [''a'', ''b'']"
    unfolding out_def resolveTeam_fields(1) [OF l] by (simp add: teams_after_def Let_def hit_team_def ts)
  have "map_option rt_score (Option.bind (rr_teams (snd out)) (\<lambda>ts. map_of ts t)) = Some (team_score r m t)"
    using assms(2) l unfolding out_def resolveTeamDuelDamage_def Let_def b at d_def [symmetric]
    by (auto simp: sc split: prod.splits if_splits)
  moreover have "rr_roundNumber (snd out) = rr_roundNumber r"
    by (simp add: out_def resolveTeamDuelDamage_def Let_def split: prod.split)
  ultimately show ?thesis using after keys by blast
qed

lemma engine_oppTeam:
  assumes "home_snapshot p = Some (client_snapshot now u m)" and "dm_mode m = TeamDuel" and "map fst (dm_teams m) = [''a'', ''b'']"
    and "home_selfTeamId p \<in> {''a'', ''b''}"
  shows "oppTeamId p = (if home_selfTeamId p = ''a'' then ''b'' else ''a'')"
  using assms(4) engine_mode [OF assms(1)] assms(2) engine_teams(2) [OF assms(1-3)] by (auto simp: oppTeamId_def find_str_def)

text \<open>A round of a team duel, from the match before to the match after.\<close>

lemma team_round_resolved:
  assumes "dm_state m0 = MatchLive" and "dm_mode m0 = TeamDuel" and "map fst (dm_teams m0) = [''a'', ''b'']"
  shows "\<exists>r. dm_lastRoundResult (resolveRound t m0) = Some r \<and> rr_roundNumber r = rr_roundNumber (round_of m0) \<and>
    map fst (dm_teams (resolveRound t m0)) = [''a'', ''b''] \<and> dm_mode (resolveRound t m0) = TeamDuel \<and>
    (\<forall>s \<in> {''a'', ''b''}. team_hp (dm_teams (resolveRound t m0)) s = hit_points_after (round_of m0) m0 s \<and>
      map_option rt_score (Option.bind (rr_teams r) (\<lambda>ts. map_of ts s)) = Some (team_score (round_of m0) m0 s))"
proof -
  let ?m = "m0\<lparr>dm_players := each (\<lambda>i p. p\<lparr>dp_finalized := False\<rparr>) (dm_players m0)\<rparr>"
  let ?out = "resolveTeamDuelDamage (round_of m0) ?m"
  have k: "map fst (dm_teams ?m) = [''a'', ''b'']" using assms(3) by simp
  have same: "hit_points_after (round_of m0) ?m s = hit_points_after (round_of m0) m0 s" "team_score (round_of m0) ?m s = team_score (round_of m0) m0 s" for s
    by (simp_all add: hit_points_after_def team_damage_def team_score_def)
  obtain m r where st: "settle (round_of m0) ?m = (m, r)" "m = fst ?out" "r = snd ?out"
    using assms(2) by (simp add: settle_def)
  have e: "dm_teams (end_if_decided r m) = dm_teams m" by (simp add: end_if_decided_def Let_def)
  have "dm_teams (resolveRound t m0) = dm_teams m" "dm_lastRoundResult (resolveRound t m0) = Some r"
    using assms(1) st(1) e by (simp_all add: resolveRound_def Let_def)
  moreover have "same_match m0 (resolveRound t m0)" by (rule resolveRound_same) (simp add: same_match_def)
  ultimately show ?thesis
    using team_round [OF k, of _ "round_of m0"] assms(2) st(2,3) by (auto simp: same same_match_def)
qed

lemma shown_multiplier:
  assumes "home_snapshot p = Some sn" and "sn_currentRound sn = None" and "home_roundResult p = Some r"
  shows "damageMultiplier p = roundDamageMultiplier (rr_roundNumber r)"
  using assms by (simp add: damageMultiplier_def roundDamageMultiplier_def currentRoundNumber_def Let_def)

text \<open>
  C35. A team duel tells the damage that is dealt: when the server resolves a round of a team duel and the page
  shows its result, the damage on the stage at the end of the animation is the damage the server computes
  from the best guesses of the teams, the losing team is left with its hit points less that damage, at
  least none, the team shown as the winner keeps its own, and a tie costs nobody anything.
\<close>

theorem team_damage_told:
  assumes "duel_ok m0" and "dm_state m0 = MatchLive" and "dm_mode m0 = TeamDuel"
    and "home_snapshot p = Some (client_snapshot now u (resolveRound t m0))"
    and "sn_currentRound (client_snapshot now u (resolveRound t m0)) = None"
    and "home_selfTeamId p \<in> {''a'', ''b''}" and "g_resultPhase (hp_game p) = PhHpApply"
  defines "after \<equiv> dm_teams (resolveRound t m0)" and "before \<equiv> dm_teams m0"
    and "own \<equiv> home_selfTeamId p" and "other \<equiv> oppTeamId p"
  shows "\<exists>ov. resultOverlay p = Some ov \<and> displayedDamage ov = team_damage (round_of m0) m0 \<and>
    team_hp after own = max 0 (team_hp before own - (if ro_winner ov = WinnerOpp then displayedDamage ov else 0)) \<and>
    team_hp after other = max 0 (team_hp before other - (if ro_winner ov = WinnerSelf then displayedDamage ov else 0)) \<and>
    {own, other} = {''a'', ''b''}"
proof -
  let ?r0 = "round_of m0"
  have k: "map fst (dm_teams m0) = [''a'', ''b'']" using assms(1,3) by (simp add: duel_ok_def teams_ok_def)
  obtain r where r: "dm_lastRoundResult (resolveRound t m0) = Some r" "rr_roundNumber r = rr_roundNumber ?r0"
    "map fst (dm_teams (resolveRound t m0)) = [''a'', ''b'']" "dm_mode (resolveRound t m0) = TeamDuel"
    and s': "\<forall>x \<in> {''a'', ''b''}. team_hp (dm_teams (resolveRound t m0)) x = hit_points_after ?r0 m0 x \<and>
      map_option rt_score (Option.bind (rr_teams r) (\<lambda>ts. map_of ts x)) = Some (team_score ?r0 m0 x)"
    using team_round_resolved [OF assms(2,3) k, of t] by (elim exE conjE) (rule that; assumption)
  note s = bspec [OF s', folded after_def]
  have rr: "home_roundResult p = Some r" using assms(4) r(1) by (simp add: home_roundResult_def client_snapshot_fields)
  have md: "home_mode p = TeamDuel" using engine_mode [OF assms(4)] r(4) by simp
  have o: "other = (if own = ''a'' then ''b'' else ''a'')" and own: "own \<in> {''a'', ''b''}"
    using engine_oppTeam [OF assms(4) r(4,3) assms(6)] assms(6) by (simp_all add: own_def other_def)
  have points: "\<not> isPointsMode p" using md by (simp add: isPointsMode_def)
  have sc: "overlaySelfScore p = Some (team_score ?r0 m0 own)" "overlayOppScore p = Some (team_score ?r0 m0 other)"
    using s [of own] s [of other] own o
    by (auto simp: overlaySelfScore_def overlayOppScore_def resultSelfTeam_def resultOppTeam_def home_teamResult_def md rr
        own_def [symmetric] other_def [symmetric] nullish_def split: option.splits)
  obtain ov where ov: "resultOverlay p = Some ov" "ro_phase ov = PhHpApply" "ro_damage ov = resultDamage p"
    "ro_damageMultiplier ov = damageMultiplier p" "ro_winner ov = resultWinner p"
    using rr assms(7) points by (simp add: resultOverlay_def)
  have "resultDamage p = \<bar>team_score ?r0 m0 ''a'' - team_score ?r0 m0 ''b''\<bar>"
    using own o points sc by (auto simp: resultDamage_def abs_minus_commute)
  then have dmg: "displayedDamage ov = team_damage ?r0 m0"
    using shown_multiplier [OF assms(4,5) rr] r(2)
    by (simp add: displayedDamage_def showDamageMultiplier_def ov team_damage_def)
  have win: "ro_winner ov = (if team_score ?r0 m0 own = team_score ?r0 m0 other then WinnerTie
      else if team_score ?r0 m0 other < team_score ?r0 m0 own then WinnerSelf else WinnerOpp)"
    using points sc by (simp add: ov(5) resultWinner_def)
  have "team_hp after own = max 0 (team_hp before own - (if ro_winner ov = WinnerOpp then displayedDamage ov else 0))"
    "team_hp after other = max 0 (team_hp before other - (if ro_winner ov = WinnerSelf then displayedDamage ov else 0))"
    using s [of own] s [of other] own o win by (auto simp: hit_points_after_def Let_def dmg before_def)
  then show ?thesis using ov(1) dmg own o by auto
qed

text \<open>Players keep their teams.\<close>

lemma share_hp_teamId: "map_option dp_teamId (map_of (share_hp ts ps) i) = map_option dp_teamId (map_of ps i)"
proof (induction ts arbitrary: ps)
  case (Cons e ts)
  obtain t team where e: "e = (t, team)" by (cases e)
  have "share_hp (e # ts) ps =
      share_hp ts (each (\<lambda>i p. if i \<in> set (dt_players team) then p\<lparr>dp_hp := dt_hp team\<rparr> else p) ps)"
    by (simp add: share_hp_def e)
  then show ?case by (cases "map_of ps i") (simp_all add: Cons)
qed (simp add: share_hp_def)

lemma team_round_teamId:
  assumes "dm_state m = MatchLive" and "dm_mode m = TeamDuel"
  shows "map_option dp_teamId (map_of (dm_players (resolveRound t m)) i) = map_option dp_teamId (map_of (dm_players m) i)"
proof -
  let ?m = "m\<lparr>dm_players := each (\<lambda>i p. p\<lparr>dp_finalized := False\<rparr>) (dm_players m)\<rparr>"
  obtain m' r where st: "settle (round_of m) ?m = (m', r)" by (metis surj_pair)
  then have "m' = fst (resolveTeamDuelDamage (round_of m) ?m)" using assms(2) by (simp add: settle_def)
  then have "map_option dp_teamId (map_of (dm_players m') i) = map_option dp_teamId (map_of (dm_players ?m) i)"
    by (simp add: resolveTeamDuelDamage_def Let_def share_hp_teamId split: prod.split)
  moreover have "map_option dp_teamId (map_of (dm_players (end_if_decided r m')) i) = map_option dp_teamId (map_of (dm_players m') i)"
    by (cases "map_of (dm_players m') i") (simp_all add: end_if_decided_def Let_def)
  moreover have "map_option dp_teamId (map_of (dm_players ?m) i) = map_option dp_teamId (map_of (dm_players m) i)"
    by (cases "map_of (dm_players m) i") simp_all
  ultimately have "map_option dp_teamId (map_of (dm_players (end_if_decided r m')) i) = map_option dp_teamId (map_of (dm_players m) i)"
    by (simp only:)
  then show ?thesis using assms(1) by (simp add: resolveRound_def Let_def st)
qed

lemma resolved_no_current_round:
  assumes "dm_state m = MatchLive"
  shows "sn_currentRound (client_snapshot t u (resolveRound t m)) = None"
proof (cases "dm_state (resolveRound t m)")
  case MatchLive
  from resolveRound_pending [OF assms MatchLive] show ?thesis
    by (simp add: client_snapshot_def phase_of_def time_before_def resultDuration_def go_seconds_def MatchLive Let_def)
next
  case MatchEnded
  then show ?thesis by (simp add: client_snapshot_def phase_of_def Let_def)
qed

definition team_round_page :: home_params where
  "team_round_page =
     sample_page\<lparr>hp_match := initial_match_state\<lparr>m_snapshot := Some (client_snapshot 9 ''u1'' (resolveRound 9 (demo_match TeamDuel)))\<rparr>,
       hp_game := initial_game_state\<lparr>g_resultPhase := PhHpApply\<rparr>\<rparr>"

theorem team_damage_told_witness:
  "\<exists>ov. resultOverlay team_round_page = Some ov \<and>
    displayedDamage ov = team_damage (round_of (demo_match TeamDuel)) (demo_match TeamDuel)"
proof -
  let ?m = "demo_match TeamDuel"
  let ?sn = "client_snapshot 9 ''u1'' (resolveRound 9 ?m)"
  have ok: "duel_ok ?m" using created_ok [OF demo_team_created] by simp
  have "same_match ?m (resolveRound 9 ?m)" by (rule resolveRound_same) (simp add: same_match_def)
  then have "sn_matchId ?sn = ''m1''" by (simp add: client_snapshot_fields same_match_def demo_match_fields)
  then have s: "home_snapshot team_round_page = Some ?sn"
    by (simp add: home_snapshot_Some) (simp add: team_round_page_def sample_page_def)
  have i: "home_selfId team_round_page = ''u1''" by (simp add: home_selfId_def team_round_page_def)
  have "map_of (dm_players ?m) ''u1'' =
      Some (new_player TeamDuel demo_profile (\<lambda>i. if i = ''u2'' then ''b'' else ''a'') ''u1'')"
    by (simp add: demo_match_def new_match_def startRoundTimer_def Let_def NormalizeMatchConfig_def default_lobby_config_def
        time_limits new_players_def)
  then have "map_option dp_teamId (map_of (dm_players ?m) ''u1'') = Some ''a''"
    by (simp add: new_player_def Let_def normalizeTeamID_def)
  with team_round_teamId [of ?m 9 "''u1''"] obtain pl
    where "map_of (dm_players (resolveRound 9 ?m)) ''u1'' = Some pl" "dp_teamId pl = ''a''"
    by (auto simp: demo_match_fields)
  then have "home_selfTeamId team_round_page = ''a''"
    by (simp add: home_selfTeamId_def player_team_def i home_players_def s client_players_of client_player_def if_text_def or_str_def)
  moreover have "g_resultPhase (hp_game team_round_page) = PhHpApply" by (simp add: team_round_page_def)
  ultimately show ?thesis
    using team_damage_told [OF ok demo_match_fields(1,6) s resolved_no_current_round [OF demo_match_fields(1)]] by auto
qed

end
