(* ===== verification/StreetView.thy ===== *)
theory StreetView
  imports InGame
begin

text \<open>
  The street view frame of a round, \<open>buildStreetViewSrc\<close> of \<open>features/home/model/derive-home-model.ts\<close>: the
  address with its query, and the query read back. The decimal text of a number, \<open>String(x)\<close>, is the
  parameter \<open>show_num\<close>. Texts are UTF-8 byte strings, as everywhere, so the form encoding escapes bytes.
\<close>

section \<open>URLSearchParams\<close>

definition form_encode :: "string \<Rightarrow> string" where
  "form_encode s = concat (map form_char s)"

definition form_query :: "string js_record \<Rightarrow> string" where
  "form_query ps = QueueClient.join_with ''&'' (map (\<lambda>(k, v). form_encode k @ ''='' @ form_encode v) ps)"

text \<open>\<open>params.set\<close> of a number that is finite; without a number, or with another one, nothing is set.\<close>

definition set_finite :: "(real \<Rightarrow> string) \<Rightarrow> string \<Rightarrow> num option \<Rightarrow> string js_record \<Rightarrow> string js_record" where
  "set_finite show_num k x ps = (case x of Some (Fin r) \<Rightarrow> js_set ps k (show_num r) | _ \<Rightarrow> ps)"

definition streetViewParams :: "(real \<Rightarrow> string) \<Rightarrow> string \<Rightarrow> current_round \<Rightarrow> string js_record" where
  "streetViewParams show_num apiKey loc =
     set_finite show_num ''pitch'' (cr_pitch loc) (set_finite show_num ''heading'' (cr_heading loc)
       [(''pano'', cr_panoId loc), (''key'', apiKey), (''fov'', ''100''), (''language'', ''en'')])"

definition buildStreetViewSrc :: "(real \<Rightarrow> string) \<Rightarrow> snapshot option \<Rightarrow> string \<Rightarrow> string" where
  "buildStreetViewSrc show_num sn apiKey =
     (case Option.bind sn sn_currentRound of
        None \<Rightarrow> []
      | Some loc \<Rightarrow>
          if cr_panoId loc = [] then []
          else ''https://www.google.com/maps/embed/v1/streetview?'' @ form_query (streetViewParams show_num apiKey loc))"

definition streetViewSrc :: "(real \<Rightarrow> string) \<Rightarrow> home_params \<Rightarrow> string" where
  "streetViewSrc show_num p = buildStreetViewSrc show_num (home_snapshot p) (googleEmbedKey (hp_config p))"

section \<open>Reading a query\<close>

text \<open>How a server reads \<open>application/x-www-form-urlencoded\<close>: to state that nothing is lost.\<close>

fun form_decode :: "string \<Rightarrow> string" where
  "form_decode [] = []"
| "form_decode (c # s) =
     (if c = CHR ''+'' then CHR '' '' # form_decode s
      else if c = CHR ''%'' then
        (case s of a # b # r \<Rightarrow> char_of (16 * hex_value a + hex_value b) # form_decode r | _ \<Rightarrow> [])
      else c # form_decode s)"

definition form_pair :: "string \<Rightarrow> string \<times> string" where
  "form_pair w =
     (form_decode (takeWhile (\<lambda>c. c \<noteq> CHR ''='') w), form_decode (drop 1 (dropWhile (\<lambda>c. c \<noteq> CHR ''='') w)))"

definition form_pairs :: "string \<Rightarrow> string js_record" where
  "form_pairs q = map form_pair (split_on (CHR ''&'') q)"

lemma form_char_cases: "form_char c = ''+'' \<or> (form_char c = [c] \<and> unreserved c) \<or> form_char c = [CHR ''%'', hex_digit (of_char c div 16), hex_digit (of_char c mod 16)]"
  by (simp add: form_char_def unreserved_def Let_def)

lemma form_char_range: "d \<in> set (form_char c) \<Longrightarrow> d = CHR ''+'' \<or> url_safe d"
  using form_char_cases [of c] hex_digit_unreserved [OF of_char_div_16 [of c]] hex_digit_unreserved [of "of_char c mod 16"]
  by (auto simp: url_safe_def)

lemma separators_escaped: "\<not> url_safe (CHR ''&'')" "\<not> url_safe (CHR ''='')"
  by (simp_all add: url_safe_def unreserved_def Let_def)

lemma form_encode_range: "CHR ''&'' \<notin> set (form_encode s)" "CHR ''='' \<notin> set (form_encode s)"
  using form_char_range [of "CHR ''&''"] form_char_range [of "CHR ''=''"] separators_escaped by (auto simp: form_encode_def)

lemma form_decode_char: "form_decode (form_char c @ s) = c # form_decode s"
proof (cases "form_char c = [c]")
  case True
  then have "c \<noteq> CHR ''+''" "c \<noteq> CHR ''%''" by (auto simp: form_char_def Let_def split: if_splits)
  with True show ?thesis by simp
next
  case False
  let ?n = "of_char c :: nat"
  have "16 * hex_value (hex_digit (?n div 16)) + hex_value (hex_digit (?n mod 16)) = ?n"
    using of_char_div_16 [of c] by (simp add: hex_value_digit)
  with False show ?thesis by (auto simp: form_char_def Let_def)
qed

lemma form_decode_encode: "form_decode (form_encode s) = s"
  by (induction s) (simp_all add: form_encode_def form_decode_char)

lemma split_join:
  "ws \<noteq> [] \<Longrightarrow> \<forall>w\<in>set ws. sep \<notin> set w \<Longrightarrow> split_on sep (QueueClient.join_with [sep] ws) = ws"
proof (induction ws)
  case (Cons w ws)
  then show ?case by (cases ws) (simp_all add: split_on_append split_on_none)
qed simp

lemma form_pair_encode: "form_pair (form_encode k @ CHR ''='' # form_encode v) = (k, v)"
proof -
  have p: "\<forall>c\<in>set (form_encode k). c \<noteq> CHR ''=''" using form_encode_range by metis
  show ?thesis using p by (simp add: form_pair_def form_decode_encode takeWhile_append dropWhile_append)
qed

lemma form_pairs_query: "ps \<noteq> [] \<Longrightarrow> form_pairs (form_query ps) = ps"
proof -
  assume "ps \<noteq> []"
  let ?ws = "map (\<lambda>(k, v). form_encode k @ ''='' @ form_encode v) ps"
  have "split_on (CHR ''&'') (form_query ps) = ?ws"
    unfolding form_query_def using \<open>ps \<noteq> []\<close> by (intro split_join) (auto simp: form_encode_range)
  then show ?thesis by (simp add: form_pairs_def comp_def case_prod_unfold form_pair_encode cong: map_cong)
qed

definition finite_text :: "(real \<Rightarrow> string) \<Rightarrow> num option \<Rightarrow> string option" where
  "finite_text show_num x = (case x of Some (Fin r) \<Rightarrow> Some (show_num r) | _ \<Rightarrow> None)"

lemma map_of_set_finite:
  "map_of ps k = None \<Longrightarrow> map_of (set_finite show_num k x ps) = (map_of ps)(k := finite_text show_num x)"
  by (auto simp: set_finite_def finite_text_def fun_eq_iff simp del: js_set.simps split: option.splits num.splits)

lemma street_view_params:
  "map_of (streetViewParams show_num apiKey loc) =
     [''pano'' \<mapsto> cr_panoId loc, ''key'' \<mapsto> apiKey, ''fov'' \<mapsto> ''100'', ''language'' \<mapsto> ''en'']
       (''heading'' := finite_text show_num (cr_heading loc), ''pitch'' := finite_text show_num (cr_pitch loc))"
proof -
  let ?base = "[(''pano'', cr_panoId loc), (''key'', apiKey), (''fov'', ''100''), (''language'', ''en'')]"
  have b: "map_of ?base = [''pano'' \<mapsto> cr_panoId loc, ''key'' \<mapsto> apiKey, ''fov'' \<mapsto> ''100'', ''language'' \<mapsto> ''en'']"
    by (simp add: fun_upd_twist)
  have "map_of ?base ''heading'' = None" "map_of ?base ''pitch'' = None" by simp_all
  then show ?thesis unfolding streetViewParams_def
    by (subst map_of_set_finite) (simp_all only: map_of_set_finite b fun_upd_apply, simp_all)
qed

text \<open>
  C36. The frame shows the panorama of the round: where the round has one, the address the page loads is that of
  the street view service with a query that reads back as exactly the panorama, the key and the direction of
  the round, whatever characters they have; a direction that is not finite is left out, and without a round
  or a panorama the address is empty.
\<close>

theorem street_view_reads_back:
  "(case Option.bind (home_snapshot p) sn_currentRound of
      None \<Rightarrow> streetViewSrc show_num p = []
    | Some loc \<Rightarrow>
        if cr_panoId loc = [] then streetViewSrc show_num p = []
        else \<exists>q. streetViewSrc show_num p = ''https://www.google.com/maps/embed/v1/streetview?'' @ q \<and>
          form_pairs q = streetViewParams show_num (googleEmbedKey (hp_config p)) loc \<and>
          map_of (form_pairs q) =
            [''pano'' \<mapsto> cr_panoId loc, ''key'' \<mapsto> googleEmbedKey (hp_config p), ''fov'' \<mapsto> ''100'', ''language'' \<mapsto> ''en'']
              (''heading'' := finite_text show_num (cr_heading loc), ''pitch'' := finite_text show_num (cr_pitch loc)))"
proof (cases "Option.bind (home_snapshot p) sn_currentRound")
  case None
  then show ?thesis by (simp add: streetViewSrc_def buildStreetViewSrc_def)
next
  case (Some loc)
  let ?ps = "streetViewParams show_num (googleEmbedKey (hp_config p)) loc"
  have "map_of ?ps ''fov'' = Some ''100''" by (simp add: street_view_params)
  then have "?ps \<noteq> []" by auto
  then have "form_pairs (form_query ?ps) = ?ps" by (rule form_pairs_query)
  with Some show ?thesis
    by (simp add: streetViewSrc_def buildStreetViewSrc_def street_view_params del: fun_upd_apply)
qed

end
