(* ===== verification/PlayerViews.thy ===== *)
theory PlayerViews
  imports InGame
begin

text \<open>
  What the panels of a game show of a player: the badge, the avatar, the rating, the identity card
  (\<open>PlayerBadge.tsx\<close>, \<open>AvatarBadge.tsx\<close>, \<open>PlayerIdentity.tsx\<close>), the bar of hit points, the clock, the
  countdown, and the panels \<open>InGameScene.tsx\<close> and \<open>EndMatchOverlay.tsx\<close> put together. A panel is the values it
  renders; classes, sizes and motion are left out. \<open>show_num\<close> and \<open>parse_float\<close> are \<open>String(x)\<close> and \<open>parseFloat\<close>,
  \<open>show_int\<close> is \<open>toLocaleString\<close>.
\<close>

section \<open>Badges\<close>

definition badgeTitle :: "player_badge option \<Rightarrow> string" where
  "badgeTitle badge =
     (case badge of
        None \<Rightarrow> []
      | Some b \<Rightarrow> badge_label b @ (if badge_description b = [] then [] else '' - '' @ badge_description b))"

text \<open>\<open>String\<close> of a number.\<close>

fun num_text :: "(real \<Rightarrow> string) \<Rightarrow> num \<Rightarrow> string" where
  "num_text show_num (Fin r) = show_num r"
| "num_text show_num PosInf = ''Infinity''"
| "num_text show_num NegInf = ''-Infinity''"
| "num_text show_num NaN = ''NaN''"

definition rankLabel :: "(real \<Rightarrow> string) \<Rightarrow> player_badge \<Rightarrow> string" where
  "rankLabel show_num b =
     (case badge_rank b of
        Some r \<Rightarrow> if badge_kind b = ''season_rank'' \<and> truthy (Num r) then CHR ''#'' # num_text show_num r else []
      | None \<Rightarrow> [])"

record badge_view =
  bdv_title :: string
  bdv_imageUrl :: string
  bdv_rank :: string

definition PlayerBadge :: "(real \<Rightarrow> string) \<Rightarrow> player_badge option \<Rightarrow> badge_view option" where
  "PlayerBadge show_num badge =
     map_option (\<lambda>b. \<lparr>bdv_title = badgeTitle badge, bdv_imageUrl = badge_imageUrl b, bdv_rank = rankLabel show_num b\<rparr>) badge"

text \<open>\<open>PlayerNameWithBadge\<close>: an admin is not marked.\<close>

definition PlayerNameWithBadge :: "(real \<Rightarrow> string) \<Rightarrow> string \<Rightarrow> player_badge option \<Rightarrow> string \<times> badge_view option" where
  "PlayerNameWithBadge show_num name badge = (name, PlayerBadge show_num badge)"

section \<open>Avatars\<close>

record avatar_props =
  ap_url :: "string option"
  ap_fallback :: string
  ap_alt :: string
  ap_opponent :: bool
  ap_color :: "string option"

record avatar_badge =
  av_props :: avatar_props
  av_imgFailed :: bool

definition new_avatar :: "avatar_props \<Rightarrow> avatar_badge" where
  "new_avatar p = \<lparr>av_props = p, av_imgFailed = False\<rparr>"

datatype avatar_face = AvatarImage string string | AvatarLetter string

definition AvatarBadge :: "avatar_badge \<Rightarrow> avatar_face" where
  "AvatarBadge a =
     (let u = opt_str (ap_url (av_props a)) in
      if u \<noteq> [] \<and> \<not> av_imgFailed a then AvatarImage u (ap_alt (av_props a))
      else AvatarLetter (to_upper (take 1 (ap_fallback (av_props a)))))"

datatype avatar_ground = OwnColor string | OpponentGround | SelfGround

definition avatar_ground_of :: "avatar_props \<Rightarrow> avatar_ground" where
  "avatar_ground_of p =
     (if opt_str (ap_color p) \<noteq> [] then OwnColor (opt_str (ap_color p))
      else if ap_opponent p then OpponentGround else SelfGround)"

datatype avatar_event = AvatarRender avatar_props | AvatarError

text \<open>Another address is tried anew; only an image that is shown can fail.\<close>

fun avatar_step :: "avatar_event \<Rightarrow> avatar_badge \<Rightarrow> avatar_badge" where
  "avatar_step (AvatarRender p) a =
     (if ap_url p \<noteq> ap_url (av_props a) then a\<lparr>av_props := p, av_imgFailed := False\<rparr> else a\<lparr>av_props := p\<rparr>)"
| "avatar_step AvatarError a =
     (case AvatarBadge a of AvatarImage _ _ \<Rightarrow> a\<lparr>av_imgFailed := True\<rparr> | AvatarLetter _ \<Rightarrow> a)"

fun same_url :: "string option \<Rightarrow> avatar_event \<Rightarrow> bool" where
  "same_url u (AvatarRender p) = (ap_url p = u)"
| "same_url u AvatarError = True"

text \<open>Once an image has failed, its letter stays until there is another address.\<close>

lemma avatar_stays_letter:
  assumes "av_imgFailed a" and "list_all (same_url (ap_url (av_props a))) es"
  shows "\<exists>l. AvatarBadge (fold avatar_step es a) = AvatarLetter l"
  using assms
proof (induction es arbitrary: a)
  case Nil
  then show ?case by (simp add: AvatarBadge_def)
next
  case (Cons e es)
  then show ?case by (cases e) (auto simp: AvatarBadge_def Let_def)
qed

section \<open>Identities\<close>

definition participant_name :: "participant \<Rightarrow> string" where
  "participant_name x = (case x of PlayerIdentity v \<Rightarrow> pv_name v | TeamIdentity t \<Rightarrow> tv_name t)"

definition PlayerAvatar :: "bool \<Rightarrow> participant \<Rightarrow> avatar_props" where
  "PlayerAvatar opponent x =
     (case x of
        PlayerIdentity v \<Rightarrow> \<lparr>ap_url = pv_avatarUrl v, ap_fallback = pv_avatarFallback v, ap_alt = pv_name v, ap_opponent = opponent, ap_color = None\<rparr>
      | TeamIdentity t \<Rightarrow> \<lparr>ap_url = None, ap_fallback = tv_avatarFallback t, ap_alt = tv_name t, ap_opponent = opponent, ap_color = Some (tv_avatarColor t)\<rparr>)"

definition PlayerName :: "(real \<Rightarrow> string) \<Rightarrow> participant \<Rightarrow> string \<times> badge_view option" where
  "PlayerName show_num x =
     PlayerNameWithBadge show_num (participant_name x)
       (case x of PlayerIdentity v \<Rightarrow> pv_selectedBadge v | TeamIdentity _ \<Rightarrow> None)"

record rating_view =
  rtv_rating :: "num option"
  rtv_delta :: string
  rtv_gain :: bool
  rtv_preview :: "(string \<times> string) option"
  rtv_action :: bool

definition PlayerRating :: "num option \<Rightarrow> int option \<Rightarrow> rating_preview option \<Rightarrow> bool \<Rightarrow> rating_view option" where
  "PlayerRating rating ratingDelta ratingPreview trailingAction =
     (if rating = None \<and> ratingPreview = None \<and> \<not> trailingAction then None
      else Some
        \<lparr>rtv_rating = rating, rtv_delta = (if rating = None then [] else formatRatingDelta ratingDelta),
         rtv_gain = (case ratingDelta of Some d \<Rightarrow> 0 < d | None \<Rightarrow> False),
         rtv_preview = map_option (\<lambda>w. (formatRatingDelta (Some (rv_win w)), formatRatingDelta (Some (rv_lose w)))) ratingPreview,
         rtv_action = trailingAction\<rparr>)"

record identity_card =
  ic_avatar :: avatar_props
  ic_name :: "string \<times> badge_view option"
  ic_rating :: "rating_view option"

text \<open>The identities of the model carry a rating, and neither a change of it nor a preview.\<close>

definition PlayerIdentityCard ::
    "(real \<Rightarrow> string) \<Rightarrow> participant \<Rightarrow> bool \<Rightarrow> num option \<Rightarrow> int option \<Rightarrow> rating_preview option \<Rightarrow> bool \<Rightarrow> identity_card" where
  "PlayerIdentityCard show_num x opponent rating ratingDelta ratingPreview ratingAction =
     \<lparr>ic_avatar = PlayerAvatar opponent x, ic_name = PlayerName show_num x,
      ic_rating = PlayerRating
        (case (rating, x) of (Some r, _) \<Rightarrow> Some r | (None, PlayerIdentity v) \<Rightarrow> Some (pv_rating v) | (None, TeamIdentity _) \<Rightarrow> None)
        ratingDelta ratingPreview ratingAction\<rparr>"

definition PlayerIdentityRow :: "(real \<Rightarrow> string) \<Rightarrow> participant \<Rightarrow> avatar_props \<times> string \<times> badge_view option" where
  "PlayerIdentityRow show_num x = (PlayerAvatar False x, PlayerName show_num x)"

text \<open>\<open>DuelPlayerProfile\<close>, the card before the first round.\<close>

definition DuelPlayerProfile ::
    "(real \<Rightarrow> string) \<Rightarrow> string \<Rightarrow> num \<Rightarrow> rating_preview option \<Rightarrow> string \<Rightarrow> string \<Rightarrow> bool \<Rightarrow> player_badge option \<Rightarrow> identity_card" where
  "DuelPlayerProfile show_num name elo preview avatarUrl fallback isAdmin badge =
     PlayerIdentityCard show_num
       (PlayerIdentity \<lparr>pv_id = name, pv_name = or_str name ''Guest'', pv_avatarUrl = Some avatarUrl, pv_avatarFallback = fallback,
          pv_isAdmin = Some isAdmin, pv_selectedBadge = badge, pv_isGuest = None, pv_rating = elo\<rparr>)
       False (Some elo) None preview False"

section \<open>Hit points and clock\<close>

definition formatHpPct :: "(real \<Rightarrow> string) \<Rightarrow> int \<Rightarrow> int \<Rightarrow> string" where
  "formatHpPct show_num mx hp = show_num (hp_percent (of_int mx) (of_int hp)) @ ''%''"

datatype hp_fill = FillGreen | FillYellow | FillRed

definition numericPct :: "(string \<Rightarrow> real option) \<Rightarrow> string \<Rightarrow> real" where
  "numericPct parse_float hpPct = (case parse_float hpPct of None \<Rightarrow> 0 | Some x \<Rightarrow> x)"

definition hpFill :: "real \<Rightarrow> hp_fill" where
  "hpFill pct = (if 50 < pct then FillGreen else if 25 < pct then FillYellow else FillRed)"

record hp_card =
  hc_avatar :: avatar_props
  hc_name :: "string \<times> badge_view option"
  hc_elo :: "num option"
  hc_hp :: int
  hc_width :: string
  hc_fill :: hp_fill
  hc_disconnected :: bool

definition hp_participant :: "string \<Rightarrow> num \<Rightarrow> int \<Rightarrow> string \<Rightarrow> string \<Rightarrow> string option \<Rightarrow> bool \<Rightarrow> player_badge option \<Rightarrow> participant" where
  "hp_participant name elo hp avatarUrl fallback avatarColor isAdmin badge =
     (let letter = or_str fallback (or_str (take 1 name) ''?'') in
      if opt_str avatarColor \<noteq> []
      then TeamIdentity \<lparr>tv_id = name, tv_name = name, tv_avatarFallback = letter, tv_avatarColor = opt_str avatarColor, tv_members = [], tv_hp = Some hp\<rparr>
      else PlayerIdentity \<lparr>pv_id = name, pv_name = name, pv_avatarUrl = Some avatarUrl, pv_avatarFallback = letter,
        pv_isAdmin = Some isAdmin, pv_selectedBadge = badge, pv_isGuest = None, pv_rating = elo\<rparr>)"

definition PlayerHPCard ::
    "(real \<Rightarrow> string) \<Rightarrow> (string \<Rightarrow> real option) \<Rightarrow> string \<Rightarrow> num \<Rightarrow> int \<Rightarrow> string \<Rightarrow> string \<Rightarrow> string \<Rightarrow> string option \<Rightarrow> bool \<Rightarrow>
     player_badge option \<Rightarrow> bool \<Rightarrow> bool \<Rightarrow> bool \<Rightarrow> hp_card" where
  "PlayerHPCard show_num parse_float name elo hp hpPct avatarUrl fallback avatarColor isAdmin badge opponent disconnected hideElo =
     \<lparr>hc_avatar = PlayerAvatar opponent (hp_participant name elo hp avatarUrl fallback avatarColor isAdmin badge),
      hc_name = PlayerNameWithBadge show_num name badge, hc_elo = (if hideElo then None else Some elo), hc_hp = hp,
      hc_width = hpPct, hc_fill = hpFill (numericPct parse_float hpPct), hc_disconnected = (opponent \<and> disconnected)\<rparr>"

text \<open>
  The bar is red up to a quarter of the hit points and green above a half: the text of the width is read
  back at the number it was written from.
\<close>

lemma hp_bar_colour:
  assumes "\<And>x. parse_float (show_num x @ ''%'') = Some x" and "0 < mx" and "0 \<le> hp" and "hp \<le> mx"
  shows "hpFill (numericPct parse_float (formatHpPct show_num mx hp)) =
         (if mx < 2 * hp then FillGreen else if mx < 4 * hp then FillYellow else FillRed)"
proof -
  have mx: "0 < real_of_int mx" using assms(2) by simp
  have "of_int hp / of_int mx * 100 \<le> (100 :: real)" "0 \<le> real_of_int hp / of_int mx * 100"
    using mx assms(3,4) by (simp_all add: field_simps)
  then have "hp_percent (of_int mx) (of_int hp) = of_int hp / of_int mx * 100" by (simp add: hp_percent_def)
  moreover have "(50 < of_int hp / of_int mx * (100 :: real)) = (mx < 2 * hp)"
    using mx by (simp add: field_simps) linarith
  moreover have "(25 < of_int hp / of_int mx * (100 :: real)) = (mx < 4 * hp)"
    using mx by (simp add: field_simps) linarith
  ultimately show ?thesis using assms(1) by (simp add: numericPct_def formatHpPct_def hpFill_def)
qed

record hud_view =
  hud_ring :: string
  hud_progress :: real
  hud_clock :: "string option"
  hud_glow :: bool
  hud_multiplier :: "string option"

text \<open>\<open>Number(x.toFixed(2))\<close> for a number that is not negative.\<close>

definition to_hundredths :: "real \<Rightarrow> real" where
  "to_hundredths x = of_int \<lfloor>x * 100 + 1 / 2\<rfloor> / 100"

definition GameHUD :: "string \<Rightarrow> string \<Rightarrow> real \<Rightarrow> bool \<Rightarrow> real \<Rightarrow> bool \<Rightarrow> bool \<Rightarrow> bool \<Rightarrow> hud_view" where
  "GameHUD m s mult running pct critical pulse hideMultiplier =
     \<lparr>hud_ring = (if critical then ''#ff6d42'' else ''#2ad18f''),
      hud_progress = to_hundredths (max 0 (min 100 pct)),
      hud_clock = (if running then Some (m @ '':'' @ s) else None),
      hud_glow = (running \<and> pulse),
      hud_multiplier = (if hideMultiplier then None else formatDamageMultiplierLabel mult)\<rparr>"

lemma hud_progress_bounds: "0 \<le> hud_progress (GameHUD mm ss m r t c pl h) \<and> hud_progress (GameHUD mm ss m r t c pl h) \<le> 100"
proof -
  let ?x = "max 0 (min 100 t)"
  have "?x * 100 + 1 / 2 < 10001" by (simp add: max_def min_def)
  then have "\<lfloor>?x * 100 + 1 / 2\<rfloor> \<le> 10000" by linarith
  moreover have "0 \<le> \<lfloor>?x * 100 + 1 / 2\<rfloor>" by (simp add: max_def min_def)
  ultimately show ?thesis by (simp add: GameHUD_def to_hundredths_def)
qed

section \<open>The dialog for a nickname\<close>

record nickname_modal =
  nm_value :: string
  nm_error :: "string option"
  nm_saving :: bool
  nm_label :: string

definition NicknameOnboardingModal :: "bool \<Rightarrow> string \<Rightarrow> string \<Rightarrow> bool \<Rightarrow> nickname_modal option" where
  "NicknameOnboardingModal dialogOpen nicknameInput nicknameError nicknameSaving =
     (if dialogOpen then Some
        \<lparr>nm_value = nicknameInput, nm_error = (if nicknameError = [] then None else Some nicknameError),
         nm_saving = nicknameSaving, nm_label = (if nicknameSaving then ''Saving...'' else ''Continue'')\<rparr>
      else None)"

end
