(* ===== verification/MatchView.thy ===== *)
theory MatchView
  imports MatchPage LobbyScreen EndMatch StreetView PlayerViews
begin

text \<open>
  The pages put together: what \<open>useHomeModel\<close> returns (the view of \<open>deriveHomeModel\<close> with the chat, the
  notifications and the lobby of the runtime), \<open>HomePageOverlays\<close>, \<open>HomePageLobby\<close>, \<open>HomePageChatDock\<close>,
  \<open>HomePageView\<close>, and \<open>pages/match/[id].tsx\<close> with its hook \<open>useMatchRouteSession\<close>. A page is the list of the
  panels it renders, in order; the layout of a panel is not modelled.
\<close>

section \<open>The view of the hook\<close>

record home_chat_view =
  hcv_conversationId :: string
  hcv_messages :: "chat_message list"
  hcv_selfUserId :: string
  hcv_error :: string

record hook_view =
  hv_base :: home_view
  hv_privateLobby :: private_lobby_view
  hv_chat :: home_chat_view
  hv_notifications :: "user_notification list"
  hv_streetViewSrc :: string

definition useHomeModel_view ::
    "(real \<Rightarrow> string) \<Rightarrow> runtime_config \<Rightarrow> string option \<Rightarrow> bool \<Rightarrow> string \<Rightarrow> page_query \<Rightarrow> home_hook \<Rightarrow> hook_view" where
  "useHomeModel_view show_num cfg routeMatchId isMatchRoute code q hk =
     (let p = view_params cfg routeMatchId q hk; chat = cc_state (rt_chat (hk_rt hk)) in
      \<lparr>hv_base = deriveHomeModel p, hv_privateLobby = private_lobby isMatchRoute code (hk_rt hk),
       hv_chat = \<lparr>hcv_conversationId = ch_conversationId chat, hcv_messages = ch_messages chat,
         hcv_selfUserId = ss_userId (sc_state (rt_session (hk_rt hk))), hcv_error = ch_error chat\<rparr>,
       hv_notifications = hk_notifications hk, hv_streetViewSrc = streetViewSrc show_num p\<rparr>)"

section \<open>Panels\<close>

datatype page_panel =
    OnboardingDialog nickname_modal
  | RefundNotice int
  | EndPanel end_match_view bool
  | ScenePanel scene_props
  | ChatDock string "chat_message list"
  | LobbyPanel screen_props
  | HistoryPanel history_overlay bool
  | WaitingPanel bool string "string option"

text \<open>
  \<open>HomePageOverlays\<close>: the dialog for a nickname, the first notification where it is a refund, and the end
  page, which offers another game after practice only.
\<close>

definition HomePageOverlays :: "hook_view \<Rightarrow> page_panel list" where
  "HomePageOverlays v =
     (let a = hv_auth (hv_base v) in
      case NicknameOnboardingModal (hv_onboardingOpen (hv_base v)) (hav_nicknameInput a) (hav_nicknameError a) (hav_nicknameSaving a) of
        Some d \<Rightarrow> [OnboardingDialog d] | None \<Rightarrow> []) @
     (case hv_notifications v of n # _ \<Rightarrow> if un_type n = ''mmr_refund'' then [RefundNotice (un_id n)] else [] | [] \<Rightarrow> []) @
     (case hv_endMatch (hv_base v) of Some e \<Rightarrow> [EndPanel e (emv_mode e = Singleplayer)] | None \<Rightarrow> [])"

definition HomePageChatDock :: "home_chat_view \<Rightarrow> page_panel list" where
  "HomePageChatDock c =
     (if hcv_conversationId c = [] \<or> hcv_selfUserId c = [] then [] else [ChatDock (hcv_selfUserId c) (hcv_messages c)])"

text \<open>
  \<open>HomePageLobby\<close>: providers are offered once the page is mounted, so that it is rendered like on the server
  first. The start of the queue is a number of whole milliseconds.
\<close>

definition provider_id :: "bool \<Rightarrow> bool \<Rightarrow> string \<Rightarrow> string" where
  "provider_id mounted enabled clientId = (if mounted \<and> enabled then clientId else [])"

definition lobby_screen_props :: "bool \<Rightarrow> string \<Rightarrow> hook_view \<Rightarrow> screen_props" where
  "lobby_screen_props mounted origin v =
     (let a = hv_auth (hv_base v); l = hv_lobby (hv_base v) in
      \<lparr>sp_userId = hav_userId a, sp_userEmail = hav_userEmail a, sp_displayName = hav_displayName a,
       sp_isGuest = hav_isGuest a, sp_migration = (hav_authMigrationRequired a = Some True),
       sp_linked = (case hav_linkedProviders a of None \<Rightarrow> [] | Some ps \<Rightarrow> ps), sp_badges = hav_badges a,
       sp_selectedBadge = hav_selectedBadge a, sp_connected = hlv_connected l, sp_status = status_name (hlv_status l),
       sp_queueStartedAt = map_option floor (hlv_queueStartedAt l), sp_lobby = hv_privateLobby v,
       sp_queueError = hlv_queueError l, sp_maintenance = hlv_maintenance l,
       sp_googleClientId = provider_id mounted (hav_googleSignInEnabled a) (hav_googleClientId a),
       sp_discordClientId = provider_id mounted (hav_discordSignInEnabled a) (hav_discordClientId a),
       sp_authLoading = hav_authLoading a, sp_nicknameSaving = hav_nicknameSaving a, sp_origin = origin\<rparr>)"

definition HomePageLobby :: "bool \<Rightarrow> string \<Rightarrow> hook_view \<Rightarrow> page_panel list" where
  "HomePageLobby mounted origin v =
     (if hlv_inGame (hv_lobby (hv_base v)) then [] else [LobbyPanel (lobby_screen_props mounted origin v)])"

definition scene_panels :: "hook_view \<Rightarrow> page_panel list" where
  "scene_panels v =
     (case HomePageGame (hv_streetViewSrc v) (hv_game (hv_base v)) of Some sp \<Rightarrow> [ScenePanel sp] | None \<Rightarrow> [])"

text \<open>\<open>HomePageView\<close>, the page at the root and of a lobby.\<close>

definition home_showGame :: "hook_view \<Rightarrow> bool" where
  "home_showGame v \<longleftrightarrow>
     (let g = hv_game (hv_base v) in hgv_inGame g \<and> \<not> (hgv_uiPhase g = UIMatchEnd \<and> hgv_showMatchEndPage g))"

definition HomePageView :: "bool \<Rightarrow> string \<Rightarrow> hook_view \<Rightarrow> page_panel list" where
  "HomePageView mounted origin v =
     HomePageOverlays v @ HomePageLobby mounted origin v @ HomePageChatDock (hv_chat v) @
     (if home_showGame v then scene_panels v else [])"

section \<open>The match page\<close>

definition replacementMatchId :: "match_route_state \<Rightarrow> string" where
  "replacementMatchId rs = (case mr_replacement rs of Some (Replaced _ n _ _ _) \<Rightarrow> n | _ \<Rightarrow> [])"

definition historyOverlay :: "hook_view \<Rightarrow> match_route_state \<Rightarrow> history_overlay option" where
  "historyOverlay v rs =
     map_option (\<lambda>sn. buildHistoryOverlay sn (hav_userId (hv_auth (hv_base v))) (hav_displayName (hv_auth (hv_base v)))
       (hav_userAvatar (hv_auth (hv_base v)))) (mr_historySnapshot rs)"

text \<open>The address of the button that resumes the match that replaced this one.\<close>

definition resume_target :: "match_route_state \<Rightarrow> string option" where
  "resume_target rs =
     (case (mr_status rs, mr_replacement rs) of
        (RouteReplaced, Some (Replaced _ _ (Some _) _ _)) \<Rightarrow> Some (match_url (replacementMatchId rs))
      | _ \<Rightarrow> None)"

definition route_spins :: "match_route_status \<Rightarrow> bool" where
  "route_spins st \<longleftrightarrow> st \<in> {BootstrappingAuth, Resolving, AwaitingFirstSnapshot}"

definition MatchPage_view :: "hook_view \<Rightarrow> match_route_state \<Rightarrow> page_panel list" where
  "MatchPage_view v rs =
     HomePageOverlays v @ scene_panels v @ HomePageChatDock (hv_chat v) @
     (if hgv_inGame (hv_game (hv_base v)) \<or> hv_endMatch (hv_base v) \<noteq> None then []
      else case historyOverlay v rs of
        Some h \<Rightarrow> [HistoryPanel h (ho_mode h = Singleplayer)]
      | None \<Rightarrow> [WaitingPanel (route_spins (mr_status rs)) (loading_label (mr_status rs)) (resume_target rs)])"

text \<open>\<open>handleLeaveToLobby\<close>: leave the game, and the path pushed, computed before.\<close>

definition handleLeaveToLobby ::
    "runtime_config \<Rightarrow> string \<Rightarrow> bool \<Rightarrow> ambient \<Rightarrow> hook_view \<Rightarrow> match_route_state \<Rightarrow> game_ctl \<times> match_ctl \<Rightarrow>
     string \<times> game_ctl \<times> match_ctl" where
  "handleLeaveToLobby cfg uid onboardingRequired amb v rs s =
     (leave_target (hv_sourceLobbyInviteCode (hv_base v)) (mr_replacement rs), leaveGame cfg uid onboardingRequired amb s)"

text \<open>
  \<open>useMatchRouteSession\<close>: mounted, the controller gets the match of the URL; when that changes the controller
  is reset first, as it is when the page goes.
\<close>

datatype route_hook_event = HookMounted "string option" | HookChanged "string option" | HookUnmounted

fun useMatchRouteSession :: "runtime_config \<Rightarrow> auth_session option \<Rightarrow> route_hook_event \<Rightarrow> route_ctl \<Rightarrow> route_ctl" where
  "useMatchRouteSession cfg sess (HookMounted i) rc = setTargetMatch cfg sess i rc"
| "useMatchRouteSession cfg sess (HookChanged i) rc = setTargetMatch cfg sess i (mrc_reset rc)"
| "useMatchRouteSession cfg sess HookUnmounted rc = mrc_reset rc"

section \<open>One screen at a time\<close>

fun is_screen :: "page_panel \<Rightarrow> bool" where
  "is_screen (EndPanel _ _) = True"
| "is_screen (ScenePanel _) = True"
| "is_screen (LobbyPanel _) = True"
| "is_screen (HistoryPanel _ _) = True"
| "is_screen (WaitingPanel _ _ _) = True"
| "is_screen _ = False"

lemma overlay_screens:
  "filter is_screen (HomePageOverlays v) = (case hv_endMatch (hv_base v) of Some e \<Rightarrow> [EndPanel e (emv_mode e = Singleplayer)] | None \<Rightarrow> [])"
  by (auto simp: HomePageOverlays_def Let_def split: list.splits option.splits)

lemma dock_screens: "filter is_screen (HomePageChatDock c) = []"
  by (simp add: HomePageChatDock_def)

lemma end_page_in_game: "(hv_endMatch (deriveHomeModel p) \<noteq> None) = (home_uiPhase p = UIMatchEnd \<and> g_showMatchEndPage (hp_game p))"
  by (simp add: home_view_fields endMatch_def)

lemma in_game_view: "hgv_inGame (hv_game (deriveHomeModel p)) = home_inGame p" "hlv_inGame (hv_lobby (deriveHomeModel p)) = home_inGame p"
  "hgv_uiPhase (hv_game (deriveHomeModel p)) = home_uiPhase p"
  "hgv_showMatchEndPage (hv_game (deriveHomeModel p)) = g_showMatchEndPage (hp_game p)"
  by (simp_all add: deriveHomeModel_def home_game_of_def home_lobby_of_def)

lemma scene_shown: "(scene_panels v = []) = (\<not> home_showGame v)" "list_all is_screen (scene_panels v)" "length (scene_panels v) \<le> 1"
  by (auto simp: scene_panels_def HomePageGame_def home_showGame_def Let_def)

lemma one_screen:
  assumes "hv_base v = deriveHomeModel p"
  shows "length (filter is_screen (HomePageOverlays v)) + length (scene_panels v) + (if home_inGame p then 0 else 1) = (1 :: nat)"
proof -
  let ?e = "home_uiPhase p = UIMatchEnd \<and> g_showMatchEndPage (hp_game p)"
  have o: "length (filter is_screen (HomePageOverlays v)) = (if ?e then 1 else 0)"
    using end_page_in_game [of p] by (auto simp: overlay_screens assms split: option.splits)
  have "home_showGame v = (home_inGame p \<and> \<not> ?e)" by (simp add: home_showGame_def assms in_game_view Let_def)
  then have s: "length (scene_panels v) = (if home_inGame p \<and> \<not> ?e then 1 else 0)"
    using scene_shown [of v] by (cases "scene_panels v") auto
  have "home_inGame p" if ?e using that by (simp add: home_inGame_def)
  then show ?thesis unfolding o s by auto
qed

text \<open>
  C37. A page shows one screen: whatever the controllers hold, the home and the lobby page render exactly one of
  lobby, game and end page, and the match page exactly one of game, end page, overlay of a match that is
  over and waiting screen; the dialogs and the chat only lie on top of it.
\<close>

theorem page_shows_one_screen:
  fixes show_num cfg routeMatchId code q hk isMatchRoute
  defines "v \<equiv> useHomeModel_view show_num cfg routeMatchId isMatchRoute code q hk"
  shows "length (filter is_screen (HomePageView mounted origin v)) = 1 \<and> length (filter is_screen (MatchPage_view v rs)) = 1"
proof -
  let ?p = "view_params cfg routeMatchId q hk"
  have b: "hv_base v = deriveHomeModel ?p" by (simp add: v_def useHomeModel_view_def Let_def)
  have sc: "filter is_screen (scene_panels v) = scene_panels v" using scene_shown(2) by (simp add: filter_id_conv list_all_iff)
  have g: "(if home_showGame v then scene_panels v else []) = scene_panels v" using scene_shown(1) [of v] by auto
  have e: "hv_endMatch (deriveHomeModel ?p) \<noteq> None \<Longrightarrow> home_inGame ?p" using end_page_in_game [of ?p] by (auto simp: home_inGame_def)
  have l: "length (filter is_screen (HomePageLobby mounted origin v)) = (if home_inGame ?p then 0 else 1)"
    by (simp add: HomePageLobby_def b in_game_view)
  have "length (filter is_screen (if hgv_inGame (hv_game (hv_base v)) \<or> hv_endMatch (hv_base v) \<noteq> None then []
      else case historyOverlay v rs of
        Some h \<Rightarrow> [HistoryPanel h (ho_mode h = Singleplayer)]
      | None \<Rightarrow> [WaitingPanel (route_spins (mr_status rs)) (loading_label (mr_status rs)) (resume_target rs)])) =
      (if home_inGame ?p then 0 else 1)"
    using e by (auto simp: b in_game_view split: option.splits)
  then show ?thesis
    using one_screen [OF b] l by (simp add: HomePageView_def MatchPage_view_def g sc dock_screens del: One_nat_def)
qed

end
