(* ===== verification/SceneView.thy ===== *)
theory SceneView
  imports PlayerViews
begin

text \<open>
  The two large pages of a match as lists of what they render, in order: \<open>components/home/InGameScene.tsx\<close> with
  \<open>GameStartOverlay.tsx\<close>, and \<open>components/ui/EndMatchOverlay.tsx\<close>. The scene is computed from the view of the
  game and the state of the scene (InGame), the end page from its view and its state (EndMatch).
\<close>

section \<open>The start of a match\<close>

text \<open>\<open>partyMode\<close>: practice counts as a duel.\<close>

definition scene_party :: "home_game_view \<Rightarrow> game_mode" where
  "scene_party v = (if hgv_mode v = Singleplayer then Duel else hgv_mode v)"

record start_overlay =
  so_round :: int
  so_modeName :: string
  so_mapName :: "string option"
  so_players :: "(identity_card \<times> identity_card) option"
  so_countdownSec :: int

definition GameStartOverlay :: "(real \<Rightarrow> string) \<Rightarrow> home_game_view \<Rightarrow> start_overlay" where
  "GameStartOverlay show_num v =
     \<lparr>so_round = hgv_currentRoundNumber v, so_modeName = hgv_modeName v,
      so_mapName = (if hgv_mapName v = [] then None else Some (hgv_mapName v)),
      so_players = (if scene_party v = FreeForAll then None
        else Some (DuelPlayerProfile show_num (hgv_selfName v) (hgv_selfElo v) (hgv_selfRatingPreview v) (hgv_selfAvatarUrl v)
                     (hgv_selfFallback v) (hgv_selfIsAdmin v) (hgv_selfSelectedBadge v),
                   DuelPlayerProfile show_num (hgv_opponentName v) (hgv_opponentElo v) None (hgv_oppAvatarUrl v)
                     (hgv_oppFallback v) (hgv_opponentIsAdmin v) (hgv_opponentSelectedBadge v))),
      so_countdownSec = countdownSec (hgv_mm v) (hgv_ss v)\<rparr>"

section \<open>The scene\<close>

type_synonym identity_row = "avatar_props \<times> string \<times> badge_view option"

datatype stage_bottom = ScoreBoard "(nat \<times> identity_row \<times> bool \<times> int) list" | NextRound | BackToLobby

datatype scene_part =
    StreetFrame string bool
  | ResultPart result_overlay
  | IssueBanner string
  | StartPart start_overlay
  | CountdownPart int
  | HudPart hud_view
  | PointsCorner int "int option" int
  | HpPart hp_card
  | ForfeitDialog string bool
  | SceneButtons bool
  | MinimapPart map_props string bool
  | PointsStage int "(string \<times> string option) option" "map_props option" stage_bottom
  | AlertBorder

definition when_shown :: "bool \<Rightarrow> 'a \<Rightarrow> 'a list" where
  "when_shown b x = (if b then [x] else [])"

definition board_identity_row :: "(real \<Rightarrow> string) \<Rightarrow> board_identity \<Rightarrow> identity_row" where
  "board_identity_row show_num b =
     (case b of
        OwnIdentity v \<Rightarrow> PlayerIdentityRow show_num (PlayerIdentity v)
      | MadeIdentity i name avatar fallback \<Rightarrow>
          (\<lparr>ap_url = avatar, ap_fallback = fallback, ap_alt = name, ap_opponent = False, ap_color = None\<rparr>, name, None))"

definition board_rows :: "(real \<Rightarrow> string) \<Rightarrow> home_game_view \<Rightarrow> board_row list" where
  "board_rows show_num v =
     scoreboardPlayers (scene_party v)
       \<lparr>sb_names = hgv_resultPlayerNames v, sb_avatars = hgv_resultPlayerAvatars v, sb_fallbacks = hgv_resultPlayerFallbacks v,
        sb_participants = hgv_participantsById v\<rparr> (hgv_roundResults v)"

definition stage_bottom_of :: "(real \<Rightarrow> string) \<Rightarrow> home_game_view \<Rightarrow> stage_bottom" where
  "stage_bottom_of show_num v =
     (if scene_party v = FreeForAll
      then ScoreBoard (map (\<lambda>(n, r). (n + 1, board_identity_row show_num (br_participant r), br_id r = hgv_selfUserId v,
             pt_score (br_total r))) (enumerate 0 (board_rows show_num v)))
      else if hgv_canAdvanceRound v then NextRound else BackToLobby)"

definition forfeit_text :: "home_game_view \<Rightarrow> string" where
  "forfeit_text v =
     (if hgv_isSingleplayer v then ''This ends the current practice run.''
      else if hgv_isPointsMode v then ''This leaves the current match.''
      else ''This counts as a loss and ends the duel now.'')"

definition start_parts :: "(real \<Rightarrow> string) \<Rightarrow> home_game_view \<Rightarrow> scene_part list" where
  "start_parts show_num v =
     (let shown = showCountdown (hgv_isSingleplayer v) (hgv_uiPhase v) (hgv_mm v) (hgv_ss v) in
      when_shown (shown \<and> hgv_currentRoundNumber v = 1) (StartPart (GameStartOverlay show_num v)) @
      when_shown (shown \<and> hgv_currentRoundNumber v > 1) (CountdownPart (countdownSec (hgv_mm v) (hgv_ss v))))"

definition standing_parts :: "(real \<Rightarrow> string) \<Rightarrow> (string \<Rightarrow> real option) \<Rightarrow> int \<Rightarrow> home_game_view \<Rightarrow> scene_part list" where
  "standing_parts show_num parse_float maxHp v =
     (if hgv_isSingleplayer v \<or> scene_party v = FreeForAll
      then [PointsCorner (hgv_currentRoundNumber v)
              (case hgv_totalRounds v of Some n \<Rightarrow> if n = 0 then None else Some n | None \<Rightarrow> None) (hgv_totalScore v)]
      else
        [HpPart (PlayerHPCard show_num parse_float (hgv_selfName v) (hgv_selfElo v) (hgv_selfHP v)
           (formatHpPct show_num maxHp (hgv_selfHP v)) (hgv_selfAvatarUrl v) (hgv_selfFallback v) (hgv_selfAvatarColor v)
           (hgv_selfIsAdmin v) (hgv_selfSelectedBadge v) False False (scene_party v = TeamDuel)),
         HpPart (PlayerHPCard show_num parse_float (hgv_opponentName v) (hgv_opponentElo v) (hgv_oppHP v)
           (formatHpPct show_num maxHp (hgv_oppHP v)) (hgv_oppAvatarUrl v) (hgv_oppFallback v) (hgv_oppAvatarColor v)
           (hgv_opponentIsAdmin v) (hgv_opponentSelectedBadge v) True (hgv_opponentDisconnected v) (scene_party v = TeamDuel))])"

definition forfeit_parts :: "home_game_view \<Rightarrow> game_scene \<Rightarrow> scene_part list" where
  "forfeit_parts v s =
     (if hgv_uiPhase v = UIMatchEnd then []
      else if sc_confirm s then [ForfeitDialog (forfeit_text v) (sc_requested s)]
      else [SceneButtons (hgv_streetViewInteractive v)])"

definition InGameScene ::
    "(real \<Rightarrow> string) \<Rightarrow> (string \<Rightarrow> real option) \<Rightarrow> (int \<Rightarrow> string) \<Rightarrow> int \<Rightarrow> home_game_view \<Rightarrow> game_scene \<Rightarrow> scene_part list" where
  "InGameScene show_num parse_float show_int maxHp v s =
     when_shown (hgv_uiPhase v \<in> {UILiveRound, UIPrematchCountdown})
       (StreetFrame (streetViewKey s) (hgv_streetViewInteractive v)) @
     (case (hgv_roundResult v, hgv_resultOverlay v) of
        (Some _, Some ov) \<Rightarrow> when_shown (hgv_showResultStage v) (ResultPart ov) | _ \<Rightarrow> []) @
     when_shown (hgv_connectionIssue v \<noteq> []) (IssueBanner (hgv_connectionIssue v)) @
     start_parts show_num v @
     when_shown (hgv_uiPhase v = UILiveRound \<and> \<not> hgv_isSingleplayer v)
       (HudPart (GameHUD (hgv_mm v) (hgv_ss v) (hgv_damageMultiplier v) (hgv_isRoundTimerRunning v) (hgv_timerProgressPct v)
          (hgv_isTimerCritical v) (hgv_isTimerPulseActive v) (scene_party v = FreeForAll))) @
     standing_parts show_num parse_float maxHp v @
     forfeit_parts v s @
     when_shown (hgv_uiPhase v = UILiveRound)
       (MinimapPart (guess_map_props v) (finalizeLabel (hgv_guessSubmitted v) (hgv_canFinalizeGuess v)) (hgv_canFinalizeGuess v)) @
     when_shown (hgv_isPointsMode v \<and> hgv_showResultStage v)
       (PointsStage (hgv_currentRoundScore v) (ResultDistanceBar show_int (Some (hgv_currentRoundDistanceKm v)) None)
          (framedResultMap v) (stage_bottom_of show_num v)) @
     when_shown (hgv_opponentGuessAlert v) AlertBorder"

text \<open>The map to guess on and the place to be guessed are never on the page together.\<close>

fun shows_answer :: "scene_part \<Rightarrow> bool" where
  "shows_answer (ResultPart _) = True"
| "shows_answer (PointsStage _ _ _ _) = True"
| "shows_answer _ = False"

fun takes_guess :: "scene_part \<Rightarrow> bool" where
  "takes_guess (MinimapPart _ _ _) = True"
| "takes_guess _ = False"

lemma other_parts:
  "filter takes_guess (start_parts n v) = []" "filter takes_guess (standing_parts n f mx v) = []" "filter takes_guess (forfeit_parts v s) = []"
  "filter shows_answer (start_parts n v) = []" "filter shows_answer (standing_parts n f mx v) = []" "filter shows_answer (forfeit_parts v s) = []"
  by (auto simp: start_parts_def standing_parts_def forfeit_parts_def when_shown_def Let_def)

lemma scene_guess_parts:
  "(filter takes_guess (InGameScene n f i mx v s) \<noteq> []) = (hgv_uiPhase v = UILiveRound)"
  by (auto simp: InGameScene_def other_parts when_shown_def split: option.splits)

lemma scene_answer_parts:
  "filter shows_answer (InGameScene n f i mx v s) \<noteq> [] \<Longrightarrow> hgv_showResultStage v"
  by (auto simp: InGameScene_def other_parts when_shown_def split: option.splits if_splits)

lemma answer_never_beside_guess:
  "filter takes_guess (InGameScene n f i mx (home_game_of p) s) = [] \<or> filter shows_answer (InGameScene n f i mx (home_game_of p) s) = []"
proof (rule ccontr)
  assume "\<not> ?thesis"
  then have "hgv_uiPhase (home_game_of p) = UILiveRound" "hgv_showResultStage (home_game_of p)"
    using scene_guess_parts scene_answer_parts by blast+
  then show False by (simp add: home_game_of_def showResultStage_def)
qed

section \<open>The end page\<close>

type_synonym score_cell_view = "(int \<times> string) option"

datatype end_part =
    ResultMap map_props
  | NoRoundResults
  | ReportError string
  | DuelTable "(int \<times> score_cell_view \<times> score_cell_view) list" "int \<times> int"
  | ScoreTable "(identity_row \<times> bool \<times> score_cell_view list \<times> int) list"
  | PlayerCard identity_card "bool option"
  | OutcomeText string
  | WinnerText string
  | PlacementText string
  | TotalPoints int
  | LeaveButton string
  | BreakdownButton
  | CloseBreakdown
  | PlayAgainButton bool
  | ReportDialog string string string bool

definition isDuelsMode :: "end_match_view \<Rightarrow> bool" where
  "isDuelsMode v \<longleftrightarrow> emv_mode v \<in> {Duel, TeamDuel}"

definition breakdown_rows :: "end_match_view \<Rightarrow> (int \<times> score_cell_view \<times> score_cell_view) list" where
  "breakdown_rows v = map (\<lambda>r. (rr_roundNumber r, score_cell r (selfPlayerId v), score_cell r (opponentPlayerId v))) (emv_roundResults v)"

definition score_identity_row :: "(real \<Rightarrow> string) \<Rightarrow> score_row \<Rightarrow> identity_row" where
  "score_identity_row show_num r =
     board_identity_row show_num (case row_participant r of
         Some x \<Rightarrow> OwnIdentity x | None \<Rightarrow> MadeIdentity (row_id r) (row_name r) (row_avatar r) (row_fallback r))"

definition breakdownTable :: "(real \<Rightarrow> string) \<Rightarrow> end_match_view \<Rightarrow> end_part" where
  "breakdownTable show_num v =
     (if isDuelsMode v then DuelTable (breakdown_rows v) (emv_totalScore v, oppTotalScore v)
      else ScoreTable (map (\<lambda>r. (score_identity_row show_num r, row_id r = selfPlayerId v,
             map (\<lambda>round. score_cell round (row_id r)) (emv_roundResults v), row_score r)) (playerScores v)))"

text \<open>\<open>renderPlayerCard\<close>: the identities come with the view; ratings are shown in a duel, and the flag where a report can be sent.\<close>

definition renderPlayerCard ::
    "(real \<Rightarrow> string) \<Rightarrow> end_match_view \<Rightarrow> bool \<Rightarrow> participant \<Rightarrow> num option \<Rightarrow> int option \<Rightarrow> bool option \<Rightarrow> end_part" where
  "renderPlayerCard show_num v opponent participant elo eloDelta reportFlag =
     PlayerCard (PlayerIdentityCard show_num participant opponent (if emv_mode v = Duel then elo else None)
         (if emv_mode v = Duel then eloDelta else None) None (reportFlag \<noteq> None)) reportFlag"

definition report_flag :: "bool \<Rightarrow> end_match_view \<Rightarrow> end_page \<Rightarrow> bool option" where
  "report_flag hasReport v e =
     (if emv_mode v = Duel \<and> report_user v \<noteq> [] \<and> hasReport then Some (report_enabled hasReport v e) else None)"

definition duel_end_parts :: "(real \<Rightarrow> string) \<Rightarrow> bool \<Rightarrow> end_match_view \<Rightarrow> end_page \<Rightarrow> end_part list" where
  "duel_end_parts show_num hasReport v e =
     [renderPlayerCard show_num v False (emv_selfParticipant v) (emv_selfElo v) (emv_selfEloDelta v) None,
      OutcomeText (outcomeLabel v), LeaveButton (backLabel v), BreakdownButton,
      renderPlayerCard show_num v True (emv_opponentParticipant v) (emv_opponentElo v) (emv_opponentEloDelta v)
        (report_flag hasReport v e)]"

definition points_end_parts :: "bool \<Rightarrow> end_match_view \<Rightarrow> end_page \<Rightarrow> end_part list" where
  "points_end_parts hasPlayAgain v e =
     (case winner_banner v of Some t \<Rightarrow> [WinnerText t] | None \<Rightarrow> []) @
     when_shown (emv_mode v = FreeForAll) (PlacementText (placementText v)) @
     [TotalPoints (emv_totalScore v), BreakdownButton, LeaveButton (backLabel v)] @
     when_shown (showPlayAgain hasPlayAgain v) (PlayAgainButton (ep_playAgainBusy e)) @
     [LeaveButton ''Exit'']"

definition EndMatchOverlay :: "(real \<Rightarrow> string) \<Rightarrow> bool \<Rightarrow> bool \<Rightarrow> end_match_view \<Rightarrow> end_page \<Rightarrow> end_part list" where
  "EndMatchOverlay show_num hasReport hasPlayAgain v e =
     [if emv_roundResults v = [] then NoRoundResults
      else ResultMap \<lparr>mp_hasOnGuess = False, mp_guess = None, mp_mode = ResultMode, mp_result = None,
        mp_results = Some (emv_roundResults v), mp_interactiveInResult = True\<rparr>] @
     when_shown (ep_error e \<noteq> []) (ReportError (ep_error e)) @
     (if ep_breakdown e then [CloseBreakdown, breakdownTable show_num v]
      else if isDuelsMode v then duel_end_parts show_num hasReport v e
      else points_end_parts hasPlayAgain v e) @
     (case ep_pending e of
        Some (u, name) \<Rightarrow> [ReportDialog name (ep_category e) (ep_reason e) (ep_busyUser e = u)]
      | None \<Rightarrow> [])"

text \<open>Outside duels the last column of the table adds up its row.\<close>

definition cell_points :: "score_cell_view \<Rightarrow> int" where
  "cell_points c = (case c of None \<Rightarrow> 0 | Some (n, _) \<Rightarrow> n)"

lemma cell_points_score: "i \<noteq> [] \<Longrightarrow> cell_points (score_cell r i) = round_score i r"
  by (simp add: cell_points_def score_cell_def round_score_def split: option.splits)

lemma table_adds_up:
  assumes "rounds_ok (emv_roundResults v)" and "breakdownTable show_num v = ScoreTable rows" and "(x, own, cells, points) \<in> set rows"
    and "\<forall>r \<in> set (playerScores v). row_id r \<noteq> []"
  shows "points = sum_list (map cell_points cells)"
proof -
  obtain r where r: "r \<in> set (playerScores v)" "points = row_score r" "cells = map (\<lambda>round. score_cell round (row_id r)) (emv_roundResults v)"
    using assms(2,3) by (auto simp: breakdownTable_def split: if_splits)
  then have "map cell_points cells = map (round_score (row_id r)) (emv_roundResults v)"
    using assms(4) by (simp add: comp_def cell_points_score)
  with row_score_total [OF assms(1) r(1)] r(2) show ?thesis by (simp add: total_score_def)
qed

end
