(* ===== verification/Spec2Isabelle.thy ===== *)
theory Spec2Isabelle
  imports Elo UIPhase SessionController MatchInvariants MatchRoute GameController ChatController HomeModel LobbyData MatchPage AdminPage LobbyScreen EndMatch InGame ChatPanel DuelClient MatchView SceneView
begin

text \<open>
  A verification library of the web client of GeoDuels, a game of guessing places on a map, and of the part of
  its server that decides a match. The client (\<open>src/apps/web\<close>, TypeScript and React) signs a player in, finds
  an opponent or gathers a private lobby, plays the rounds of a match over a websocket and shows the result.
  The duel engine (\<open>src/pkg/duel/engine.go\<close> with \<open>pkg/gameplay\<close>, \<open>pkg/rating\<close> and \<open>pkg/contracts\<close>, Go) holds the
  matches and sends the snapshots the client shows.

  \<^bold>\<open>How the program works.\<close> A page owns one runtime (\<open>home-runtime.ts\<close>): the controllers of the session, the match, the
  match URL, the game, the lobby, the chat and the sounds. A controller keeps a state, publishes it to its
  listeners and talks to a service by requests and websockets. The match controller receives snapshots and
  hands them to the game controller, which keeps what the server does not know: the guess being placed, the clock, the
  animation of a result. \<open>deriveHomeModel\<close> computes what the page shows from the states of all controllers, and
  \<open>useHomeModel\<close> ties the effects and actions to them. The components render that view, keep a little state of
  their own and call the actions. On the other end the engine answers a guess, a forfeit, a lost connection or the
  tick of its clock with a changed match, whose snapshot carries a sequence number.

  \<^bold>\<open>The theories.\<close> Paths are below \<open>src/apps/web\<close> unless they begin with \<open>src/\<close>.
  \<^item> Prelude, Interfaces, JsValue, Http: idioms of JavaScript, shared lemmas, the interfaces as locales, values of a
    JSON text, requests and responses.
  \<^item> Domain: the data that components exchange (\<open>components/ui/types.ts\<close>). RuntimeConfig: \<open>lib/runtime-config.ts\<close>,
    \<open>lib/site.ts\<close>, \<open>lib/http.ts\<close>.
  \<^item> Session, SessionController, AuthClient: \<open>features/auth\<close>, the session, its controller, the requests of an account.
  \<^item> Matchmaking, QueueClient, GameplaySocket, MatchController, MatchInvariants, MatchRoute: \<open>lib/matchmaking.ts\<close> and
    \<open>features/matchmaking\<close>, the reducer, the queue and its websocket, the gameplay websocket, the controller of the
    match with what holds in all its runs, the controller behind a match URL.
  \<^item> RoundClock, GameController: \<open>features/game\<close>, the countdown, the timeline of a result, the controller of the game.
  \<^item> LobbyClient, LobbyController: \<open>features/lobby\<close>. ChatController: \<open>features/chat\<close>. Sfx: \<open>lib/audio\<close>.
  \<^item> Elo, UIPhase: \<open>lib/elo.ts\<close>, \<open>lib/uiPhase.ts\<close>.
  \<^item> HomeModel, StreetView, HomeRuntime, HomeActions, HomeEffects, LobbyData: \<open>features/home/model\<close> and
    \<open>features/home/state\<close>, the derived view with the address of the street view, the runtime, the actions and effects
    of the hook, the queries of the home page.
  \<^item> Markdown, LobbySettings, LobbyScreen: \<open>components/ui/LobbyScreen.tsx\<close>, the news, the settings of a lobby (with
    \<open>NormalizeMatchConfig\<close> of \<open>src/pkg/contracts/contracts.go\<close>), the screen as a machine.
  \<^item> GuessMap, ChatPanel, InGame, ResultOverlay, EndMatch, PlayerViews, SceneView: \<open>components/GuessMap.tsx\<close>, \<open>ChatPanel.tsx\<close>,
    \<open>InGameScene.tsx\<close> and \<open>MinimapPanel.tsx\<close>, \<open>RoundResultOverlay.tsx\<close>, \<open>EndMatchOverlay.tsx\<close>, and what is shown of a player
    (\<open>PlayerIdentity.tsx\<close>, \<open>PlayerHPCard.tsx\<close>, \<open>AvatarBadge.tsx\<close>, \<open>GameHUD.tsx\<close> and their like), with the
    panels of the scene and of the end page in their order.
  \<^item> MatchPage, MatchView: \<open>pages/match/[id].tsx\<close>, \<open>pages/lobby/[code].tsx\<close>, \<open>pages/index.tsx\<close> and
    \<open>features/home/page\<close>: URLs, the overlay of a match that is over, and the panels of every page.
  \<^item> AdminClient, AdminPage: \<open>features/admin\<close>, \<open>pages/admin.tsx\<close>.
  \<^item> RatingServer, DuelEngine, DuelRuns: \<open>src/pkg/rating/rating.go\<close>; \<open>src/pkg/gameplay/scoring.go\<close>,
    \<open>src/pkg/duel/engine.go\<close> and the client snapshots of \<open>src/pkg/contracts/contracts.go\<close>; what holds in every run of a match.
  \<^item> DuelClient: engine and client composed, what the pages say of a match the engine runs.

  \<^bold>\<open>State and operations.\<close> A controller is a record: the published state, the private fields of the class (prefixed
  with letters of the controller) and the log \<open>_out\<close> of what it emits, sends and plays. A method is a definition
  that returns the record updated; an asynchronous one is cut at its awaits, and the answer, success or failure, is an
  argument of the part after it. A step relation over an event datatype puts the parts together, so that
  answers, timers and user actions interleave in any order. A component of the page is the record of its own
  \<open>useState\<close> and \<open>useRef\<close> values with the log of its calls; its props are an argument, its buttons act only under the
  condition under which they are rendered and enabled, and its effects run where a render changes what they depend
  on. A match of the engine is a record and an operation takes the instant at which it runs.

  \<^bold>\<open>What the lemmas show.\<close> \<open>latest_wins\<close>: an answer to an older request changes nothing. \<open>settle_once\<close>: a promise of a
  websocket settles once. \<open>quiet_when_destroyed\<close>: a destroyed controller publishes nothing. \<open>session_source\<close>: how the
  clients read the session. \<open>keyed_store\<close>: the laws of objects used as maps. \<open>invariant_machine\<close>: a
  property every step keeps holds after every run; it is interpreted on the machines of the match, the route, the queue, the
  lobby, the sounds, the lobby screen, the scene, the minimap, the chat panel, the end page, the fit of the maps, the admin page
  and the engine. On these rest the safety and liveness properties of the controllers, the agreement of what is shown with
  what is dealt (damage, outcome, ratings, totals), what stays true whatever arrives late (a finalized guess, a match that
  was left), the round trips (lobby patch, changelog, street view, clock), the bounds of
  ratings and hit points, and the properties that state a behaviour the code did not mean, each named as a finding.

  \<^bold>\<open>Assumptions.\<close> A value cast with \<open>as\<close> has its declared type. Texts are UTF-8 byte strings, so the length and the first letter
  of a text are those of the page for ASCII. Doubles are exact reals, with NaN and the infinities as values where a
  decoder can meet them. What the browser, React Query, Leaflet and the locale compute is a parameter: \<open>Date.now\<close>, the
  parser of dates and JSON, the text of a number, the projection of the map (of which Leaflet's wrapping of the world
  is assumed, and shown of its spherical Mercator). A browser fires the timer that is due first. Times of the server are nanoseconds, one
  instant per operation, since it holds a lock; a Go map is the list of its entries in the order of iteration. No fuel is
  needed: recursion is structural or has a measure, and a run is a fold over its list of events.

  \<^bold>\<open>Not modelled.\<close> Markup, classes, layout and motion; React, React Query, Next.js, Leaflet and Google Maps themselves; the
  static pages (\<open>privacy.tsx\<close>, \<open>terms.tsx\<close>, \<open>sitemap.xml.ts\<close>, \<open>_app.tsx\<close>); components no page renders
  (\<open>QueueCard\<close>, \<open>StatsPanel\<close>, \<open>TopHeader\<close>, \<open>PrematchVersusOverlay\<close>); the other Go services, persistence and
  tickets, and the deployment, because they are another language's programs of which the client sees the messages only.
\<close>

end
